(* ===== verification/Chama_Prelude.thy ===== *)
theory Chama_Prelude
  imports Complex_Main "HOL-Library.Word" "HOL-Library.AList" "HOL-Library.List_Lexorder"
    "HOL-Library.Char_ord" "HOL-Library.Multiset"
begin

text \<open>
  The prelude of the Chama escrow development: the result type of fallible code, the guard
  sequences every handler opens with, and the part of the JavaScript standard library that
  the sources use (\<open>Number\<close> tests, \<open>trim\<close>, \<open>toLowerCase\<close>,
  \<open>JSON.stringify\<close> of a string, truthiness of optional values, \<open>Array.prototype.sort\<close>
  with a comparator). It maps to no source file: everything here is shared vocabulary.
\<close>

section \<open>Lemma collections\<close>

named_theorems handler_frame
  "what an accepted event leaves alone or sets, one rule per handler"
named_theorems handler_invert
  "inversion rules: an accepted event passed its guards and produced this state"

section \<open>Guard sequences\<close>

text \<open>
  A handler of the source is a sequence of \<open>if (bad) return err(CODE, ...)\<close> followed by
  the construction of the next state. \<open>guarded gs r\<close> is that shape: the first guard whose
  condition holds decides the error.
\<close>

primrec guarded :: "(bool \<times> 'e) list \<Rightarrow> 'e + 'a \<Rightarrow> 'e + 'a" where
  "guarded [] r = r"
| "guarded (g # gs) r = (if fst g then Inl (snd g) else guarded gs r)"

text \<open>Validators that answer \<open>string | null\<close>: the first failing rule, or nothing.\<close>

primrec firstFail :: "(bool \<times> 'e) list \<Rightarrow> 'e option" where
  "firstFail [] = None"
| "firstFail (g # gs) = (if fst g then Some (snd g) else firstFail gs)"

text \<open>Validators that collect every violated rule.\<close>

definition allFails :: "(bool \<times> 'e) list \<Rightarrow> 'e list" where
  "allFails gs = map snd (filter fst gs)"

lemma guarded_Inr: "guarded gs r = Inr x \<longleftrightarrow> (\<forall>g\<in>set gs. \<not> fst g) \<and> r = Inr x"
  by (induction gs) auto

lemma guarded_Cons_Inr [simp]:
  "guarded (g # gs) r = Inr x \<longleftrightarrow> \<not> fst g \<and> guarded gs r = Inr x"
  by simp

lemma guarded_append: "guarded (gs @ hs) r = guarded gs (guarded hs r)"
  by (induction gs) auto

lemma guarded_Inl:
  "guarded gs r = Inl c \<Longrightarrow> c \<in> snd ` set gs \<or> r = Inl c"
  by (induction gs) (auto split: if_splits)

declare guarded.simps(2) [simp del]

lemma firstFail_None: "firstFail gs = None \<longleftrightarrow> (\<forall>g\<in>set gs. \<not> fst g)"
  by (induction gs) auto

lemma firstFail_append:
  "firstFail (gs @ hs) = (case firstFail gs of None \<Rightarrow> firstFail hs | Some e \<Rightarrow> Some e)"
  by (induction gs) auto

lemma allFails_Nil: "allFails gs = [] \<longleftrightarrow> (\<forall>g\<in>set gs. \<not> fst g)"
  by (auto simp: allFails_def filter_empty_conv)

section \<open>Numbers\<close>

text \<open>
  Amounts, counters and timestamps are \<open>int\<close>; \<open>isSafe\<close> is \<open>Number.isSafeInteger\<close>. The
  arbiter fee of a wire payload is only known to be of type \<open>number\<close>, so it keeps the whole
  range of a JavaScript number: a finite rational, an infinity or NaN.
\<close>

definition MAX_SAFE :: int where
  "MAX_SAFE = 9007199254740991"

definition isSafe :: "int \<Rightarrow> bool" where
  "isSafe n \<longleftrightarrow> \<bar>n\<bar> \<le> MAX_SAFE"

datatype jsnum = Fin rat | PosInf | NegInf | NaN

fun jsAdd :: "jsnum \<Rightarrow> jsnum \<Rightarrow> jsnum" where
  "jsAdd (Fin a) (Fin b) = Fin (a + b)"
| "jsAdd NaN _ = NaN"
| "jsAdd _ NaN = NaN"
| "jsAdd PosInf NegInf = NaN"
| "jsAdd NegInf PosInf = NaN"
| "jsAdd PosInf _ = PosInf"
| "jsAdd _ PosInf = PosInf"
| "jsAdd NegInf _ = NegInf"
| "jsAdd _ NegInf = NegInf"

definition jsInt :: "int \<Rightarrow> jsnum" where
  "jsInt n = Fin (of_int n)"

text \<open>\<open>===\<close> between a number and an integer: NaN and the infinities equal no integer.\<close>

definition jsEqInt :: "jsnum \<Rightarrow> int \<Rightarrow> bool" where
  "jsEqInt x n \<longleftrightarrow> x = jsInt n"

definition jsFloorFinite :: "jsnum \<Rightarrow> int option" where
  "jsFloorFinite x = (case x of Fin q \<Rightarrow> Some \<lfloor>q\<rfloor> | _ \<Rightarrow> None)"

lemma jsInt_inject [simp]: "jsInt a = jsInt b \<longleftrightarrow> a = b"
  by (simp add: jsInt_def)

lemma jsAdd_jsInt [simp]: "jsAdd (jsInt a) (jsInt b) = jsInt (a + b)"
  by (simp add: jsInt_def)

lemma jsFloorFinite_jsInt [simp]: "jsFloorFinite (jsInt n) = Some n"
  by (simp add: jsFloorFinite_def jsInt_def)

section \<open>Strings\<close>

definition lowerChar :: "char \<Rightarrow> char" where
  "lowerChar c = (let n = (of_char c :: nat) in if 65 \<le> n \<and> n \<le> 90 then char_of (n + 32) else c)"

definition lower :: "string \<Rightarrow> string" where
  "lower s = map lowerChar s"

definition isBlankChar :: "char \<Rightarrow> bool" where
  "isBlankChar c \<longleftrightarrow> (of_char c :: nat) \<in> {9, 10, 11, 12, 13, 32}"

definition trim :: "string \<Rightarrow> string" where
  "trim s = rev (dropWhile isBlankChar (rev (dropWhile isBlankChar s)))"

definition isDigitChar :: "char \<Rightarrow> bool" where
  "isDigitChar c \<longleftrightarrow> 48 \<le> (of_char c :: nat) \<and> (of_char c :: nat) \<le> 57"

definition isLowerAlpha :: "char \<Rightarrow> bool" where
  "isLowerAlpha c \<longleftrightarrow> 97 \<le> (of_char c :: nat) \<and> (of_char c :: nat) \<le> 122"

definition isHexChar :: "char \<Rightarrow> bool" where
  "isHexChar c \<longleftrightarrow> isDigitChar c \<or> (97 \<le> (of_char c :: nat) \<and> (of_char c :: nat) \<le> 102)"

text \<open>The pattern \<open>[0-9a-f]{64}\<close> of a public key, a digest or an event id.\<close>

definition hex64 :: "string \<Rightarrow> bool" where
  "hex64 s \<longleftrightarrow> length s = 64 \<and> list_all isHexChar s"

text \<open>The pattern \<open>\d+\<close> and \<open>BigInt\<close> of such a string.\<close>

definition allDigits :: "string \<Rightarrow> bool" where
  "allDigits s \<longleftrightarrow> s \<noteq> [] \<and> list_all isDigitChar s"

definition decimal :: "string \<Rightarrow> int" where
  "decimal s = foldl (\<lambda>n c. 10 * n + (int (of_char c) - 48)) 0 s"

lemma lowerChar_idem [simp]: "lowerChar (lowerChar c) = lowerChar c"
proof (cases "65 \<le> (of_char c :: nat) \<and> (of_char c :: nat) \<le> 90")
  case True
  then have "(of_char (char_of ((of_char c :: nat) + 32) :: char) :: nat) = of_char c + 32"
    by simp
  with True show ?thesis by (simp add: lowerChar_def Let_def)
next
  case False
  then show ?thesis by (auto simp: lowerChar_def Let_def)
qed

lemma lower_idem [simp]: "lower (lower s) = lower s"
  by (simp add: lower_def)

lemma length_lower [simp]: "length (lower s) = length s"
  by (simp add: lower_def)

lemma lower_eq_Nil [simp]: "lower s = [] \<longleftrightarrow> s = []"
  by (simp add: lower_def)

text \<open>Decimal rendering of a number and \<open>JSON.stringify\<close> of a string (printable ASCII and
  the escapes the standard prescribes; a control character without a short form is written
  \<open>\u00XX\<close>).\<close>

fun natDigits :: "nat \<Rightarrow> string" where
  "natDigits n = (if n < 10 then [char_of (48 + n)] else natDigits (n div 10) @ [char_of (48 + n mod 10)])"

declare natDigits.simps [simp del]

definition showInt :: "int \<Rightarrow> string" where
  "showInt n = (if n < 0 then CHR ''-'' # natDigits (nat (- n)) else natDigits (nat n))"

definition hexDigit :: "nat \<Rightarrow> char" where
  "hexDigit n = (if n < 10 then char_of (48 + n) else char_of (87 + n))"

definition jsonChar :: "char \<Rightarrow> string" where
  "jsonChar c = (let n = (of_char c :: nat) in
     if n = 34 then [char_of (92::nat), char_of (34::nat)]
     else if n = 92 then [char_of (92::nat), char_of (92::nat)]
     else if n = 8 then char_of (92::nat) # ''b''
     else if n = 9 then char_of (92::nat) # ''t''
     else if n = 10 then char_of (92::nat) # ''n''
     else if n = 12 then char_of (92::nat) # ''f''
     else if n = 13 then char_of (92::nat) # ''r''
     else if n < 32 then char_of (92::nat) # ''u00'' @ [hexDigit (n div 16), hexDigit (n mod 16)]
     else [c])"

definition jsonString :: "string \<Rightarrow> string" where
  "jsonString s = char_of (34::nat) # concat (map jsonChar s) @ [char_of (34::nat)]"

section \<open>Optional values\<close>

text \<open>
  \<open>truthyS\<close> and \<open>truthyN\<close> are JavaScript truthiness of an optional string and an optional
  number: absent, empty and zero are all false. \<open>nonEmpty\<close> is \<open>x || null\<close>.
\<close>

definition truthyS :: "string option \<Rightarrow> bool" where
  "truthyS x = (case x of None \<Rightarrow> False | Some s \<Rightarrow> s \<noteq> [])"

definition truthyN :: "int option \<Rightarrow> bool" where
  "truthyN x = (case x of None \<Rightarrow> False | Some n \<Rightarrow> n \<noteq> 0)"

definition nonEmpty :: "string option \<Rightarrow> string option" where
  "nonEmpty x = (if truthyS x then x else None)"

definition getOr :: "'a option \<Rightarrow> 'a \<Rightarrow> 'a" where
  "getOr x d = (case x of None \<Rightarrow> d | Some v \<Rightarrow> v)"

definition orElse :: "'a option \<Rightarrow> 'a option \<Rightarrow> 'a option" where
  "orElse x y = (case x of None \<Rightarrow> y | Some v \<Rightarrow> Some v)"

lemma getOr_simps [simp]: "getOr None d = d" "getOr (Some v) d = v"
  by (simp_all add: getOr_def)

lemma orElse_simps [simp]: "orElse None y = y" "orElse (Some v) y = Some v"
  by (simp_all add: orElse_def)

lemma truthyS_simps [simp]: "\<not> truthyS None" "truthyS (Some s) \<longleftrightarrow> s \<noteq> []"
  by (simp_all add: truthyS_def)

lemma truthyN_simps [simp]: "\<not> truthyN None" "truthyN (Some n) \<longleftrightarrow> n \<noteq> 0"
  by (simp_all add: truthyN_def)

lemma nonEmpty_simps [simp]: "nonEmpty None = None" "nonEmpty (Some s) = (if s = [] then None else Some s)"
  by (simp_all add: nonEmpty_def)

lemma nonEmpty_eq_Some: "nonEmpty x = Some s \<longleftrightarrow> x = Some s \<and> s \<noteq> []"
  by (cases x) (auto simp: nonEmpty_def)

lemma nonEmpty_eq_None: "nonEmpty x = None \<longleftrightarrow> x = None \<or> x = Some []"
  by (cases x) (auto simp: nonEmpty_def)

section \<open>Lists\<close>

text \<open>\<open>Array.prototype.find\<close>, \<open>some\<close>, \<open>includes\<close> are \<open>List.find\<close>, \<open>list_ex\<close> and
  \<open>List.member\<close>; \<open>[...new Set(xs)]\<close> keeps the first occurrence of every element.\<close>

definition dedupe :: "'a list \<Rightarrow> 'a list" where
  "dedupe xs = rev (remdups (rev xs))"

primrec dedupeOn :: "('a \<Rightarrow> 'b) \<Rightarrow> 'b list \<Rightarrow> 'a list \<Rightarrow> 'a list" where
  "dedupeOn key seen [] = []"
| "dedupeOn key seen (x # xs) =
     (if key x \<in> set seen then dedupeOn key seen xs else x # dedupeOn key (key x # seen) xs)"

lemma set_dedupe [simp]: "set (dedupe xs) = set xs"
  by (simp add: dedupe_def)

lemma distinct_dedupe [simp]: "distinct (dedupe xs)"
  by (simp add: dedupe_def)

lemma dedupeOn_set: "key ` set (dedupeOn key seen xs) = key ` set xs - set seen"
  by (induction xs arbitrary: seen) auto

lemma dedupeOn_subset: "set (dedupeOn key seen xs) \<subseteq> set xs"
  by (induction xs arbitrary: seen) auto

lemma dedupeOn_distinct: "distinct (map key (dedupeOn key seen xs))"
proof (induction xs arbitrary: seen)
  case (Cons x xs)
  then show ?case using dedupeOn_set [of key "key x # seen" xs] by auto
qed simp

definition indexOf :: "'a list \<Rightarrow> 'a \<Rightarrow> nat option" where
  "indexOf xs x = (if x \<in> set xs then Some (length (takeWhile (\<lambda>y. y \<noteq> x) xs)) else None)"

lemma indexOf_None [simp]: "indexOf xs x = None \<longleftrightarrow> x \<notin> set xs"
  by (simp add: indexOf_def)

lemma indexOf_Nil [simp]: "indexOf [] x = None"
  by (simp add: indexOf_def)

lemma indexOf_Cons [simp]:
  "indexOf (y # ys) x = (if x = y then Some 0 else map_option Suc (indexOf ys x))"
  by (auto simp: indexOf_def)

lemma indexOf_Some_nth: "indexOf xs x = Some i \<Longrightarrow> i < length xs \<and> xs ! i = x"
  by (induction xs arbitrary: i) (auto split: if_splits)

lemma indexOf_inj: "indexOf xs x = Some i \<Longrightarrow> indexOf xs y = Some i \<Longrightarrow> x = y"
  by (metis indexOf_Some_nth)

lemma find_Some_in: "List.find P xs = Some x \<Longrightarrow> x \<in> set xs \<and> P x"
  by (induction xs) (auto split: if_splits)

lemma find_None_iff_ball: "List.find P xs = None \<longleftrightarrow> (\<forall>x\<in>set xs. \<not> P x)"
  by (induction xs) auto

lemma find_append:
  "List.find P (xs @ ys) = (case List.find P xs of None \<Rightarrow> List.find P ys | Some x \<Rightarrow> Some x)"
  by (induction xs) auto

text \<open>
  \<open>Array.prototype.sort\<close> with a comparator is stable; \<open>sortWith before\<close> is insertion sort
  with the strict order \<open>before\<close>, which agrees with any stable sort by a total preorder.
\<close>

primrec insertWith :: "('a \<Rightarrow> 'a \<Rightarrow> bool) \<Rightarrow> 'a \<Rightarrow> 'a list \<Rightarrow> 'a list" where
  "insertWith before x [] = [x]"
| "insertWith before x (y # ys) = (if before y x then y # insertWith before x ys else x # y # ys)"

definition sortWith :: "('a \<Rightarrow> 'a \<Rightarrow> bool) \<Rightarrow> 'a list \<Rightarrow> 'a list" where
  "sortWith before xs = foldr (insertWith before) xs []"

lemma mset_insertWith [simp]: "mset (insertWith b x ys) = add_mset x (mset ys)"
  by (induction ys) auto

lemma sortWith_simps [simp]:
  "sortWith b [] = []" "sortWith b (x # xs) = insertWith b x (sortWith b xs)"
  by (simp_all add: sortWith_def)

lemma mset_sortWith [simp]: "mset (sortWith b xs) = mset xs"
  by (induction xs) auto

lemma set_sortWith [simp]: "set (sortWith b xs) = set xs"
  by (metis mset_sortWith set_mset_mset)

lemma length_sortWith [simp]: "length (sortWith b xs) = length xs"
  by (metis mset_sortWith size_mset)

lemma distinct_sortWith [simp]: "distinct (sortWith b xs) = distinct xs"
  by (metis distinct_count_atmost_1 mset_sortWith set_sortWith)

text \<open>
  A comparator interface: a strict total order on the keys by which values are sorted. The
  sorted list of values with pairwise different keys does not depend on their original order.
\<close>

locale comparator =
  fixes before :: "'k \<Rightarrow> 'k \<Rightarrow> bool"
  assumes asym: "before x y \<Longrightarrow> \<not> before y x"
    and trans: "before x y \<Longrightarrow> before y z \<Longrightarrow> before x z"
    and total: "x \<noteq> y \<Longrightarrow> before x y \<or> before y x"
begin

lemma not_before_trans: "\<not> before y x \<Longrightarrow> before z x \<Longrightarrow> before z y"
  using asym trans total by metis

lemma sorted_insertWith:
  "sorted_wrt (\<lambda>u v. \<not> before (key v) (key u)) ys
    \<Longrightarrow> sorted_wrt (\<lambda>u v. \<not> before (key v) (key u))
          (insertWith (\<lambda>u v. before (key u) (key v)) x ys)"
proof (induction ys)
  case (Cons y ys)
  have mem: "set (insertWith (\<lambda>u v. before (key u) (key v)) x ys) = insert x (set ys)"
    by (metis mset_insertWith set_mset_add_mset_insert set_mset_mset)
  show ?case
  proof (cases "before (key y) (key x)")
    case True
    with Cons mem show ?thesis by (auto dest: asym)
  next
    case False
    with Cons.prems show ?thesis by (auto dest: not_before_trans)
  qed
qed simp

lemma sorted_sortWith:
  "sorted_wrt (\<lambda>u v. \<not> before (key v) (key u)) (sortWith (\<lambda>u v. before (key u) (key v)) xs)"
  by (induction xs) (auto intro: sorted_insertWith)

lemma sorted_unique:
  "sorted_wrt (\<lambda>u v. \<not> before (key v) (key u)) xs \<Longrightarrow> sorted_wrt (\<lambda>u v. \<not> before (key v) (key u)) ys
    \<Longrightarrow> mset xs = mset ys \<Longrightarrow> inj_on key (set xs) \<Longrightarrow> xs = ys"
proof (induction xs arbitrary: ys)
  case (Cons x xs)
  then obtain y ys' where ys: "ys = y # ys'" by (cases ys) auto
  have "x = y"
  proof (rule ccontr)
    assume "x \<noteq> y"
    with Cons.prems ys have mem: "x \<in> set ys'" "y \<in> set xs"
      by (metis list.set_intros(1) set_ConsD set_mset_mset)+
    with Cons.prems ys have "\<not> before (key x) (key y)" "\<not> before (key y) (key x)" by auto
    then have "key x = key y" using total by blast
    with mem Cons.prems(4) \<open>x \<noteq> y\<close> show False by (auto simp: inj_on_def)
  qed
  with Cons ys show ?case by auto
qed simp

lemma sortWith_perm:
  "mset xs = mset ys \<Longrightarrow> inj_on key (set xs)
    \<Longrightarrow> sortWith (\<lambda>u v. before (key u) (key v)) xs = sortWith (\<lambda>u v. before (key u) (key v)) ys"
  by (rule sorted_unique [where key = key]) (auto intro: sorted_sortWith)

end

text \<open>Strings in code-unit order (\<open>a < b ? -1 : 1\<close> in the sources).\<close>

interpretation stringOrder: comparator "\<lambda>(x::string) y. x < y"
  by unfold_locales auto

end
