(* ===== verification/Escrow_Types.thy ===== *)
theory Escrow_Types
  imports Chama_Prelude
begin

text \<open>
  The data of the escrow protocol (\<open>src/escrow-engine/types.ts\<close>, \<open>src/chama/types.ts\<close>): roles,
  outcomes, statuses, the seventeen event payloads, the signed event and the escrow state that
  a replay reconstructs, with the pure helpers of \<open>types.ts\<close> (join holds, effective
  participants, the pre-lock deadline).

  Field names carry a short prefix of their record and then the source's name. An optional
  field is an \<open>option\<close>, \<open>string | null\<close> is \<open>string option\<close>, a \<open>Record<Role, x>\<close> is a
  function of the role, a \<open>Record<string, string>\<close> an association list with distinct keys.
  The purely descriptive listing fields of the state, flat in the source, are grouped in the
  record \<open>listing\<close>. Device-local fields that no reducer reads (\<open>provenance\<close>,
  \<open>custodyNotice\<close>, \<open>rejectedLockRecovery\<close>) are left out.
\<close>

section \<open>Enumerations\<close>

datatype status = CREATED | LOCKED | APPROVED | CLAIMED | COMPLETED | EXPIRED | CANCELLED

datatype role = BUYER | SELLER | ARBITER

text \<open>Functions of a role, such as the seats of a trade, can be compared.\<close>

instantiation role :: enum
begin

definition enum_role :: "role list" where "enum_role = [BUYER, SELLER, ARBITER]"

definition enum_all_role :: "(role \<Rightarrow> bool) \<Rightarrow> bool" where "enum_all_role P \<longleftrightarrow> P BUYER \<and> P SELLER \<and> P ARBITER"

definition enum_ex_role :: "(role \<Rightarrow> bool) \<Rightarrow> bool" where "enum_ex_role P \<longleftrightarrow> P BUYER \<or> P SELLER \<or> P ARBITER"

instance
proof
  show u: "(UNIV :: role set) = set enum_class.enum" by (auto simp: enum_role_def intro: role.exhaust)
  show "distinct (enum_class.enum :: role list)" by (simp add: enum_role_def)
  show "enum_class.enum_all P \<longleftrightarrow> Ball UNIV P" for P :: "role \<Rightarrow> bool"
    unfolding u by (simp add: enum_role_def enum_all_role_def)
  show "enum_class.enum_ex P \<longleftrightarrow> Bex UNIV P" for P :: "role \<Rightarrow> bool"
    unfolding u by (simp add: enum_role_def enum_ex_role_def)
qed

end

datatype outcome = RELEASE | REFUND

datatype ekind = K_CREATE | K_JOIN | K_LOCK | K_VOTE | K_RESOLVE | K_CLAIM | K_COMPLETE
  | K_CANCEL | K_CHAT | K_SUBSCRIBE | K_PERIOD_RELEASE | K_PREMIUM | K_SETTLEMENT
  | K_PLAN_START | K_CHILD_KEY | K_SETTLEMENT_STALLED | K_LOCK_STEP

datatype mode = ECASH | ONCHAIN

datatype network = MAINNET | SIGNET

datatype chama_policy = SHARE_V1 | SHARE_V2

datatype period_status = P_PENDING | P_ACTIVE | P_RELEASED | P_DISPUTED | P_REFUNDED

datatype leaf = LF_COOP | LF_ARBITER | LF_REFUND

text \<open>The wire numbers of the event kinds (the 38100 block).\<close>

fun kindNumber :: "ekind \<Rightarrow> int" where
  "kindNumber K_CREATE = 38100"
| "kindNumber K_JOIN = 38101"
| "kindNumber K_LOCK = 38102"
| "kindNumber K_VOTE = 38103"
| "kindNumber K_RESOLVE = 38104"
| "kindNumber K_CLAIM = 38105"
| "kindNumber K_COMPLETE = 38106"
| "kindNumber K_CANCEL = 38107"
| "kindNumber K_CHAT = 38108"
| "kindNumber K_SUBSCRIBE = 38111"
| "kindNumber K_PERIOD_RELEASE = 38112"
| "kindNumber K_PREMIUM = 38113"
| "kindNumber K_SETTLEMENT = 38114"
| "kindNumber K_PLAN_START = 38115"
| "kindNumber K_CHILD_KEY = 38116"
| "kindNumber K_SETTLEMENT_STALLED = 38117"
| "kindNumber K_LOCK_STEP = 38118"

text \<open>
  The code of a \<open>ValidationError\<close>, a string as in the source; its message and details, which
  no code path inspects, are not modelled.
\<close>

type_synonym errcode = string

definition TERMINAL_STATES :: "status set" where
  "TERMINAL_STATES = {COMPLETED, EXPIRED, CANCELLED}"

definition TRULY_TERMINAL_STATES :: "status set" where
  "TRULY_TERMINAL_STATES = {COMPLETED, CANCELLED}"

text \<open>The documented transition table: the states each state may move to.\<close>

fun validTransitions :: "status \<Rightarrow> status set" where
  "validTransitions CREATED = {LOCKED, CANCELLED, EXPIRED}"
| "validTransitions LOCKED = {APPROVED, EXPIRED}"
| "validTransitions APPROVED = {CLAIMED, COMPLETED}"
| "validTransitions CLAIMED = {COMPLETED}"
| "validTransitions COMPLETED = {}"
| "validTransitions EXPIRED = {}"
| "validTransitions CANCELLED = {}"

definition NEVER_EXPIRES :: int where "NEVER_EXPIRES = MAX_SAFE"
definition JOIN_HOLD_SECONDS :: int where "JOIN_HOLD_SECONDS = 5 * 60"
definition JOIN_HOLD_LOCK_GRACE_SECONDS :: int where "JOIN_HOLD_LOCK_GRACE_SECONDS = 2 * 60"
definition ONCHAIN_JOIN_HOLD_SECONDS :: int where "ONCHAIN_JOIN_HOLD_SECONDS = 90 * 60"

definition allRoles :: "role list" where
  "allRoles = [BUYER, SELLER, ARBITER]"

lemma set_allRoles [simp]: "set allRoles = UNIV"
  using role.exhaust by (auto simp: allRoles_def)

section \<open>Savings-circle terms\<close>

record circle_terms =
  ct_shareMsats :: int
  ct_seatThreshold :: int
  ct_seatCap :: "int option"
  ct_unlisted :: "bool option"
  ct_pot :: "string option"
  ct_fillDeadlineSec :: int
  ct_roundEndSec :: int
  ct_roundIndex :: int
  ct_prevCircleId :: "string option"

record circle_round = circle_terms +
  cr_circleId :: string
  cr_creatorPubkey :: string
  cr_community :: string
  cr_mintUrl :: string
  cr_name :: string
  cr_createdAt :: int

datatype lock_status = L_RESERVED | L_LOCKED | L_RETURNED | L_REFUNDED | L_PAID

record share_lock =
  sl_circleId :: string
  sl_memberPubkey :: string
  sl_escrowId :: "string option"
  sl_status :: lock_status
  sl_lockedAtSec :: "int option"

section \<open>Event payloads\<close>

record tranche_ref =
  tr_planId :: string
  tr_index :: int
  tr_total :: int
  tr_totalMsats :: int

record tranche_row =
  td_index :: int
  td_amountMsats :: int

record plan_start =
  ps_planId :: string
  ps_total :: int
  ps_totalMsats :: int
  ps_buyerPubkey :: string
  ps_sellerPubkey :: string
  ps_arbiterPubkey :: string
  ps_termsDigest :: string
  ps_coordinatorPubkey :: string
  ps_bitcoinNetwork :: network
  ps_settlementPolicy :: "string option"
  ps_sliceCount :: "int option"
  ps_sliceCapMsats :: "int option"
  ps_tranches :: "tranche_row list"
  ps_startedAt :: int

record tranche_child =
  tc_parent :: string
  tc_planId :: string
  tc_planStartEventId :: string
  tc_index :: int
  tc_total :: int
  tc_totalMsats :: int
  tc_buyerPubkey :: string
  tc_sellerPubkey :: string
  tc_arbiterPubkey :: string
  tc_termsDigest :: string
  tc_coordinatorPubkey :: string
  tc_bitcoinNetwork :: network

record child_key =
  ck_planId :: string
  ck_parent :: string
  ck_index :: int
  ck_role :: role
  ck_bitcoinNetwork :: network
  ck_xOnlyPubkey :: string
  ck_publishedAt :: int

record menu_item =
  mi_id :: string
  mi_label :: string
  mi_amountMsats :: int
  mi_kind :: "string option"
  mi_minAmountMsats :: "int option"
  mi_maxAmountMsats :: "int option"
  mi_description :: "string option"
  mi_fiatAmount :: "rat option"
  mi_fiatCurrency :: "string option"
  mi_fulfillment :: "string option"
  mi_imageDataUrl :: "string option"
  mi_imageUrls :: "string list option"
  mi_dueAt :: "int option"
  mi_termDays :: "int option"
  mi_aprBps :: "int option"
  mi_trustTier :: "int option"
  mi_maxQuantity :: "int option"

record selected_item =
  si_itemId :: string
  si_label :: string
  si_amountMsats :: int
  si_quantity :: int
  si_kind :: "string option"
  si_minAmountMsats :: "int option"
  si_maxAmountMsats :: "int option"
  si_description :: "string option"
  si_fiatAmount :: "rat option"
  si_fiatCurrency :: "string option"
  si_fulfillment :: "string option"
  si_dueAt :: "int option"
  si_termDays :: "int option"
  si_aprBps :: "int option"
  si_trustTier :: "int option"

text \<open>A raw signed Nostr event, carried inside funding terms as evidence of a bond.\<close>

record nostr_event =
  ne_id :: string
  ne_pubkey :: string
  ne_created_at :: int
  ne_kind :: int
  ne_tags :: "string list list"
  ne_content :: string
  ne_sig :: string

record funding_terms =
  ft_address :: string
  ft_buyerXonly :: string
  ft_sellerXonly :: string
  ft_arbiterXonly :: string
  ft_funder :: role
  ft_refundLockUntil :: int
  ft_disputeCsvBlocks :: int
  ft_network :: network
  ft_arbiterBond :: "nostr_event option"

record lock_terms = funding_terms +
  lt_fundingTxid :: string
  lt_fundingVout :: int
  lt_amountSats :: string

record create_payload =
  cp_listingKind :: "string option"
  cp_description :: string
  cp_title :: "string option"
  cp_body :: "string option"
  cp_imageDataUrl :: "string option"
  cp_imageUrls :: "string list option"
  cp_amountMsats :: int
  cp_fiatAmount :: "rat option"
  cp_fiatCurrency :: "string option"
  cp_premiumBps :: "rat option"
  cp_category :: string
  cp_chamaPolicy :: "chama_policy option"
  cp_chamaCircle :: "circle_terms option"
  cp_fulfillment :: "string option"
  cp_delivery :: "string option"
  cp_community :: "string option"
  cp_country :: "string option"
  cp_billType :: "string option"
  cp_workCategory :: "string option"
  cp_tranche :: "tranche_ref option"
  cp_escrowMode :: "mode option"
  cp_onchainNetwork :: "network option"
  cp_onchainAtomicRelease :: "bool option"
  cp_onchainPublicConduct :: "bool option"
  cp_settlementPolicy :: "string option"
  cp_sliceCount :: "int option"
  cp_escrowXonly :: "string option"
  cp_mintUrl :: string
  cp_platformFeeBps :: int
  cp_platformFeePubkey :: string
  cp_arbiterFeeMsats :: "jsnum option"
  cp_paymentMethods :: "string list option"
  cp_items :: "menu_item list option"
  cp_expirySeconds :: int
  cp_communityArbiters :: "string list option"
  cp_bondedArbiters :: "string list option"
  cp_fedPrefix :: "string option"
  cp_fed :: "string option"
  cp_stock :: "int option"
  cp_parent :: "string option"
  cp_claimedQuantity :: "int option"
  cp_sellerPubkey :: "string option"
  cp_trancheChild :: "tranche_child option"
  cp_extraKeys :: "string list"
  cp_createdAt :: int

record join_payload =
  jp_fundingTerms :: "funding_terms option"
  jp_role :: role
  jp_escrowXonly :: "string option"
  jp_arbiterFeeMsats :: "jsnum option"
  jp_joinedAt :: int
  jp_holdExpiresAt :: "int option"
  jp_selectedItems :: "selected_item list option"
  jp_amountMsats :: "int option"
  jp_orderFinalizedAt :: "int option"

record share_entry =
  se_shareIndex :: int
  se_encryptedFor :: "(string \<times> string) list"
  se_commitment :: "string option"

record lock_payload =
  lp_notesHash :: string
  lp_onchain :: "lock_terms option"
  lp_shares :: "share_entry list option"
  lp_sharePolicy :: "string option"
  lp_arbiterPoolShare :: "bool option"
  lp_substitutionGraceSeconds :: "int option"
  lp_withheldShares :: "bool option"
  lp_withheldBackup :: "string option"
  lp_sellerReceivesMsats :: jsnum
  lp_arbiterFeeMsats :: jsnum
  lp_platformFeeMsats :: "jsnum option"
  lp_selectedItems :: "selected_item list option"
  lp_buyerPubkey :: string
  lp_arbiterPubkey :: string
  lp_handleEnvelope :: "(string \<times> string) list option"
  lp_handleId :: "string option"
  lp_handle :: "string option"
  lp_rail :: "string option"
  lp_handleNetworks :: "string list option"
  lp_lockedAt :: int

record share_envelope =
  ve_shareIndex :: int
  ve_outcome :: outcome
  ve_notesHash :: string
  ve_recipientPubkey :: string
  ve_encryptedFor :: "(string \<times> string) list"

record settlement_payload =
  sp_psbt :: string
  sp_leaf :: leaf
  sp_role :: role
  sp_payoutAddress :: "string option"
  sp_final :: "bool option"

record vote_payload =
  vp_onchainRelease :: "settlement_payload option"
  vp_outcome :: outcome
  vp_role :: role
  vp_shareEnvelope :: "share_envelope option"
  vp_fillEvidence :: "string list option"
  vp_votedAt :: int

record resolve_payload =
  rp_outcome :: outcome
  rp_majority :: "role list"
  rp_fillEvidence :: "string list option"
  rp_resolvedAt :: int

record claim_payload =
  clp_claimerRole :: role
  clp_notesHashVerification :: string
  clp_claimedAt :: int

record subscribe_payload =
  sbp_totalPeriods :: int
  sbp_periodAmountMsats :: int
  sbp_periodDurationSeconds :: int
  sbp_startsAt :: int

record release_payload =
  prp_periodIndex :: int
  prp_amountMsats :: int
  prp_triggeredBy :: role
  prp_releasedAt :: int

datatype lock_step =
    Accept string
  | Release string "share_entry list"
  | Withdraw string

fun stepLockId :: "lock_step \<Rightarrow> string" where
  "stepLockId (Accept l) = l"
| "stepLockId (Release l _) = l"
| "stepLockId (Withdraw l) = l"

text \<open>
  The payload union. The parser ties the payload type to the event kind, so the kind of an
  event is a function of its payload.
\<close>

datatype payload =
    PCreate create_payload
  | PJoin join_payload
  | PLock lock_payload
  | PVote vote_payload
  | PResolve resolve_payload
  | PClaim claim_payload
  | PComplete int
  | PCancel int
  | PChat string
  | PSubscribe subscribe_payload
  | PPeriodRelease release_payload
  | PPremium string
  | PSettlement settlement_payload
  | PPlanStart plan_start
  | PChildKey child_key
  | PStalled string settlement_payload
  | PLockStep lock_step

fun kindOf :: "payload \<Rightarrow> ekind" where
  "kindOf (PCreate _) = K_CREATE"
| "kindOf (PJoin _) = K_JOIN"
| "kindOf (PLock _) = K_LOCK"
| "kindOf (PVote _) = K_VOTE"
| "kindOf (PResolve _) = K_RESOLVE"
| "kindOf (PClaim _) = K_CLAIM"
| "kindOf (PComplete _) = K_COMPLETE"
| "kindOf (PCancel _) = K_CANCEL"
| "kindOf (PChat _) = K_CHAT"
| "kindOf (PSubscribe _) = K_SUBSCRIBE"
| "kindOf (PPeriodRelease _) = K_PERIOD_RELEASE"
| "kindOf (PPremium _) = K_PREMIUM"
| "kindOf (PSettlement _) = K_SETTLEMENT"
| "kindOf (PPlanStart _) = K_PLAN_START"
| "kindOf (PChildKey _) = K_CHILD_KEY"
| "kindOf (PStalled _ _) = K_SETTLEMENT_STALLED"
| "kindOf (PLockStep _) = K_LOCK_STEP"

section \<open>Signed events and the escrow state\<close>

text \<open>
  \<open>chama_view\<close> is the part of an \<open>EscrowState\<close> that the circle laws read of another escrow
  (the parent circle, the ring witness, the circles and shares of a rotation cycle): an event
  carries such locally resolved states, and the fields \<open>cv_fed\<close>, \<open>cv_fedPrefix\<close>,
  \<open>cv_platformFeePubkey\<close> (of the escrow's own CREATE payload) and \<open>cv_lockAt\<close> (the timestamp of
  its first LOCK event) are all that is read of its event chain.
\<close>

record chama_view =
  cv_id :: string
  cv_category :: string
  cv_chamaPolicy :: "chama_policy option"
  cv_chamaCircle :: "circle_terms option"
  cv_initiator :: string
  cv_community :: "string option"
  cv_mintUrl :: string
  cv_description :: string
  cv_createdAt :: int
  cv_parent :: "string option"
  cv_participants :: "role \<Rightarrow> string option"
  cv_communityArbiters :: "string list"
  cv_bondedArbiters :: "string list"
  cv_fed :: "string option"
  cv_fedPrefix :: "string option"
  cv_platformFeePubkey :: string
  cv_lockAt :: "int option"

record chama_cycle =
  cy_circles :: "chama_view list"
  cy_shares :: "chama_view list"

text \<open>
  \<open>ParsedEscrowEvent\<close>: \<open>ev_id\<close>, \<open>ev_pubkey\<close>, \<open>ev_timestamp\<close> and \<open>ev_tags\<close> are the raw event's
  \<open>id\<close>, \<open>pubkey\<close>, \<open>created_at\<close> and \<open>tags\<close> (the parser copies the signer and the time, so
  the parsed and the raw values agree).
\<close>

record event =
  ev_id :: string
  ev_pubkey :: string
  ev_timestamp :: int
  ev_tags :: "string list list"
  ev_escrowId :: string
  ev_prev :: "string option"
  ev_payload :: payload
  ev_chamaParent :: "chama_view option"
  ev_chamaWitness :: "chama_view option"
  ev_chamaCycle :: "chama_cycle option"

definition ev_kind :: "event \<Rightarrow> ekind" where
  "ev_kind e = kindOf (ev_payload e)"

record settlement_msg =
  sm_id :: string
  sm_pubkey :: string
  sm_timestamp :: int
  sm_payload :: settlement_payload

record replay_note =
  rn_eventId :: string
  rn_kind :: ekind
  rn_code :: errcode
  rn_benign :: bool

record join_hold =
  jh_role :: role
  jh_pubkey :: string
  jh_joinedAt :: int
  jh_expiresAt :: int
  jh_eventId :: string
  jh_selectedItems :: "selected_item list option"
  jh_amountMsats :: "int option"
  jh_orderFinalizedAt :: "int option"

record subscription =
  sub_totalPeriods :: int
  sub_periodAmountMsats :: int
  sub_periodDurationSeconds :: int
  sub_periodStartTimes :: "int list"
  sub_periodStatuses :: "period_status list"
  sub_releasedCount :: int
  sub_disputedCount :: int
  sub_totalReleasedMsats :: int
  sub_startsAt :: int

record handle_info =
  hd_id :: "string option"
  hd_value :: string
  hd_rail :: "string option"
  hd_networks :: "string list"

record withheld =
  wh_lockerPubkey :: string
  wh_lockerShareIndex :: int
  wh_commitments :: "int \<Rightarrow> string option"
  wh_releaseEventId :: "string option"

record lock_state =
  lk_notesHash :: "string option"
  lk_lockedAt :: "int option"
  lk_shares :: "int \<Rightarrow> share_entry option"
  lk_sharePolicy :: "string option"
  lk_onchain :: "lock_terms option"
  lk_arbiterPoolShare :: "bool option"
  lk_substitutionGraceSeconds :: "int option"
  lk_handle :: "handle_info option"
  lk_selectedItems :: "selected_item list option"
  lk_acceptedBy :: "string option"
  lk_acceptEventId :: "string option"
  lk_withheld :: "withheld option"

record listing =
  li_description :: string
  li_title :: "string option"
  li_body :: "string option"
  li_listingKind :: "string option"
  li_imageDataUrl :: "string option"
  li_imageUrls :: "string list option"
  li_fiatAmount :: "rat option"
  li_fiatCurrency :: "string option"
  li_premiumBps :: "rat option"
  li_paymentMethods :: "string list option"
  li_fulfillment :: string
  li_delivery :: "string option"
  li_country :: "string option"
  li_billType :: "string option"
  li_workCategory :: "string option"
  li_stock :: "int option"
  li_claimedQuantity :: "int option"
  li_tranche :: "tranche_ref option"
  li_onchainPublicConduct :: "bool option"

record fees =
  fe_platformBps :: int
  fe_platformPubkey :: string
  fe_platformMsats :: jsnum
  fe_arbiterMsats :: int

record stalled_info =
  sd_requestedAt :: int
  sd_proposalId :: string
  sd_destination :: string

record state =
  st_id :: string
  st_status :: status
  st_listing :: listing
  st_amountMsats :: int
  st_category :: string
  st_chamaPolicy :: "chama_policy option"
  st_chamaCircle :: "circle_terms option"
  st_items :: "menu_item list option"
  st_community :: "string option"
  st_escrowMode :: mode
  st_onchainNetwork :: network
  st_onchainAtomicRelease :: "bool option"
  st_settlementPolicy :: string
  st_sliceCount :: "int option"
  st_escrowKeys :: "role \<Rightarrow> string option"
  st_onchainFundingTerms :: "funding_terms option"
  st_onchainRefundClaimed :: bool
  st_onchainPayoutTxid :: "string option"
  st_onchainPayoutAddress :: "string option"
  st_onchainPayoutSats :: "string option"
  st_settlementStalled :: "stalled_info option"
  st_mintUrl :: string
  st_parent :: "string option"
  st_tranchePlan :: "(plan_start \<times> string) option"
  st_trancheChild :: "tranche_child option"
  st_childKeys :: "role \<Rightarrow> string option"
  st_participants :: "role \<Rightarrow> string option"
  st_joinHolds :: "role \<Rightarrow> join_hold option"
  st_initiator :: string
  st_initiatorRole :: role
  st_communityArbiters :: "string list"
  st_bondedArbiters :: "string list"
  st_subscription :: "subscription option"
  st_votes :: "(role \<times> outcome) list"
  st_resolvedOutcome :: "outcome option"
  st_resolvedMajority :: "role list option"
  st_pendingVote :: bool
  st_actingArbiter :: "string option"
  st_fees :: fees
  st_lock :: lock_state
  st_claimerRole :: "role option"
  st_claimedAt :: "int option"
  st_createdAt :: int
  st_listingExpiresAt :: "int option"
  st_tradeTimeoutSeconds :: "int option"
  st_expiresAt :: int
  st_resolvedAt :: "int option"
  st_completedAt :: "int option"
  st_cancelledAt :: "int option"
  st_eventChain :: "event list"
  st_chatMessages :: "event list"
  st_premiumNotes :: "event list"
  st_settlements :: "settlement_msg list"
  st_rejectedLocks :: "(event \<times> errcode) list"
  st_replayNotes :: "replay_note list"

type_synonym result = "errcode + state"

text \<open>Chain lookups used throughout the reducer.\<close>

definition voteOf :: "state \<Rightarrow> role \<Rightarrow> outcome option" where
  "voteOf s r = map_of (st_votes s) r"

definition inChain :: "state \<Rightarrow> string \<Rightarrow> bool" where
  "inChain s i \<longleftrightarrow> list_ex (\<lambda>e. ev_id e = i) (st_eventChain s)"

definition hasLock :: "state \<Rightarrow> bool" where
  "hasLock s \<longleftrightarrow> list_ex (\<lambda>e. ev_kind e = K_LOCK) (st_eventChain s)"

definition firstLock :: "event list \<Rightarrow> (event \<times> lock_payload) option" where
  "firstLock es = (case List.find (\<lambda>e. ev_kind e = K_LOCK) es of
     Some e \<Rightarrow> (case ev_payload e of PLock p \<Rightarrow> Some (e, p) | _ \<Rightarrow> None)
   | None \<Rightarrow> None)"

definition hasVoted :: "state \<Rightarrow> string \<Rightarrow> bool" where
  "hasVoted s pk \<longleftrightarrow> list_ex (\<lambda>e. ev_kind e = K_VOTE \<and> ev_pubkey e = pk) (st_eventChain s)"

definition settlementMsg :: "event \<Rightarrow> settlement_payload \<Rightarrow> settlement_msg" where
  "settlementMsg e p = \<lparr>sm_id = ev_id e, sm_pubkey = ev_pubkey e, sm_timestamp = ev_timestamp e, sm_payload = p\<rparr>"

text \<open>The circle-law view of a whole state.\<close>

definition createPayloadOf :: "state \<Rightarrow> create_payload option" where
  "createPayloadOf s = (case st_eventChain s of
     e # _ \<Rightarrow> (case ev_payload e of PCreate p \<Rightarrow> Some p | _ \<Rightarrow> None) | [] \<Rightarrow> None)"

definition viewOf :: "state \<Rightarrow> chama_view" where
  "viewOf s = \<lparr>cv_id = st_id s, cv_category = st_category s, cv_chamaPolicy = st_chamaPolicy s,
     cv_chamaCircle = st_chamaCircle s, cv_initiator = st_initiator s, cv_community = st_community s,
     cv_mintUrl = st_mintUrl s, cv_description = li_description (st_listing s),
     cv_createdAt = st_createdAt s, cv_parent = st_parent s, cv_participants = st_participants s,
     cv_communityArbiters = st_communityArbiters s, cv_bondedArbiters = st_bondedArbiters s,
     cv_fed = Option.bind (createPayloadOf s) cp_fed,
     cv_fedPrefix = Option.bind (createPayloadOf s) cp_fedPrefix,
     cv_platformFeePubkey = (case createPayloadOf s of Some p \<Rightarrow> cp_platformFeePubkey p | None \<Rightarrow> []),
     cv_lockAt = map_option (\<lambda>x. ev_timestamp (fst x)) (firstLock (st_eventChain s))\<rparr>"

lemma ev_kind_cases:
  "ev_kind e = K_LOCK \<longleftrightarrow> (\<exists>p. ev_payload e = PLock p)"
  "ev_kind e = K_VOTE \<longleftrightarrow> (\<exists>p. ev_payload e = PVote p)"
  "ev_kind e = K_CREATE \<longleftrightarrow> (\<exists>p. ev_payload e = PCreate p)"
  "ev_kind e = K_CANCEL \<longleftrightarrow> (\<exists>t. ev_payload e = PCancel t)"
  "ev_kind e = K_JOIN \<longleftrightarrow> (\<exists>p. ev_payload e = PJoin p)"
  "ev_kind e = K_LOCK_STEP \<longleftrightarrow> (\<exists>p. ev_payload e = PLockStep p)"
  by (cases "ev_payload e"; simp add: ev_kind_def)+

lemma inChain_iff: "inChain s i \<longleftrightarrow> i \<in> ev_id ` set (st_eventChain s)"
  by (auto simp: inChain_def list_ex_iff)

lemma hasVoted_iff:
  "hasVoted s pk \<longleftrightarrow> (\<exists>e\<in>set (st_eventChain s). ev_kind e = K_VOTE \<and> ev_pubkey e = pk)"
  by (simp add: hasVoted_def list_ex_iff)

lemma hasLock_iff: "hasLock s \<longleftrightarrow> (\<exists>e\<in>set (st_eventChain s). ev_kind e = K_LOCK)"
  by (simp add: hasLock_def list_ex_iff)

section \<open>Join holds and effective participants\<close>

fun joinHoldSecondsFor :: "mode \<Rightarrow> int" where
  "joinHoldSecondsFor ONCHAIN = ONCHAIN_JOIN_HOLD_SECONDS"
| "joinHoldSecondsFor ECASH = JOIN_HOLD_SECONDS"

definition roleUsesJoinHold :: "role \<Rightarrow> role \<Rightarrow> bool" where
  "roleUsesJoinHold r initiatorRole \<longleftrightarrow> (r = BUYER \<or> r = SELLER) \<and> r \<noteq> initiatorRole"

definition joinHoldExpiresAtFor :: "int \<Rightarrow> mode \<Rightarrow> int" where
  "joinHoldExpiresAtFor joinedAt m = joinedAt + joinHoldSecondsFor m"

text \<open>Chain observations (deposits) affect seat presentation, never signed replay state.\<close>

datatype deposit = WAITING | SEEN | CONFIRMED

record observation =
  ob_deposit :: "deposit option"
  ob_receivedSats :: "int option"
  ob_depositSeenAt :: "int option"
  ob_refundSpent :: bool

definition hasObservedOnchainDeposit :: "observation option \<Rightarrow> bool" where
  "hasObservedOnchainDeposit ob = (case ob of None \<Rightarrow> False
     | Some o1 \<Rightarrow> \<not> ob_refundSpent o1
         \<and> (ob_deposit o1 = Some SEEN \<or> ob_deposit o1 = Some CONFIRMED
            \<or> getOr (ob_receivedSats o1) 0 > 0))"

text \<open>The state is still before any LOCK, or is an expired on-chain trade that never locked.\<close>

definition preLockPhase :: "state \<Rightarrow> bool" where
  "preLockPhase s \<longleftrightarrow> st_status s = CREATED
     \<or> (st_status s = EXPIRED \<and> st_onchainFundingTerms s \<noteq> None
        \<and> lk_lockedAt (st_lock s) = None \<and> lk_onchain (st_lock s) = None)"

record deadline =
  dl_at :: int
  dl_hold :: bool
  dl_lapsed :: bool

text \<open>When the hold of a principal seat (its grace included) lapses, if the hold still binds it.\<close>

definition holdLapse :: "state \<Rightarrow> role \<Rightarrow> int option" where
  "holdLapse s r = (case st_joinHolds s r of
     Some h \<Rightarrow> if Some (jh_pubkey h) = st_participants s r
              then Some (jh_expiresAt h + JOIN_HOLD_LOCK_GRACE_SECONDS) else None
   | None \<Rightarrow> None)"

fun minOpt :: "int option \<Rightarrow> int option \<Rightarrow> int option" where
  "minOpt None y = y"
| "minOpt x None = x"
| "minOpt (Some a) (Some b) = Some (min a b)"

definition preLockDeadline :: "state \<Rightarrow> int \<Rightarrow> deadline option" where
  "preLockDeadline s now =
     (if \<not> preLockPhase s then None
      else let listingAt = (if st_expiresAt s > 0 \<and> st_expiresAt s \<noteq> NEVER_EXPIRES
                            then Some (st_expiresAt s) else None);
               holdAt = (if st_tranchePlan s = None
                         then minOpt (holdLapse s BUYER) (holdLapse s SELLER) else None)
           in case minOpt holdAt listingAt of
                None \<Rightarrow> None
              | Some a \<Rightarrow> Some \<lparr>dl_at = a, dl_hold = (holdAt = Some a), dl_lapsed = (a \<le> now)\<rparr>)"

definition effectiveParticipantAt ::
  "state \<Rightarrow> role \<Rightarrow> int \<Rightarrow> bool \<Rightarrow> observation option \<Rightarrow> string option" where
  "effectiveParticipantAt s r ts includeLockGrace obs =
     (case nonEmpty (st_participants s r) of
        None \<Rightarrow> None
      | Some pk \<Rightarrow>
          if st_tranchePlan s \<noteq> None
             \<or> (st_onchainFundingTerms s \<noteq> None \<and> hasObservedOnchainDeposit obs) then Some pk
          else if \<not> preLockPhase s then Some pk
          else if st_onchainFundingTerms s \<noteq> None
             \<and> (case preLockDeadline s ts of Some d \<Rightarrow> dl_lapsed d | None \<Rightarrow> False)
             \<and> r \<noteq> st_initiatorRole s then None
          else (case st_joinHolds s r of
                  None \<Rightarrow> Some pk
                | Some h \<Rightarrow> if jh_pubkey h \<noteq> pk then Some pk
                    else if jh_expiresAt h + (if includeLockGrace then JOIN_HOLD_LOCK_GRACE_SECONDS else 0) > ts
                         then Some pk else None))"

abbreviation effectiveAt :: "state \<Rightarrow> role \<Rightarrow> int \<Rightarrow> string option" where
  "effectiveAt s r ts \<equiv> effectiveParticipantAt s r ts False None"

definition isLateOnchainDeposit :: "state \<Rightarrow> observation option \<Rightarrow> int \<Rightarrow> bool" where
  "isLateOnchainDeposit s obs now =
     (st_onchainFundingTerms s \<noteq> None
      \<and> (case preLockDeadline s now of None \<Rightarrow> False
         | Some d \<Rightarrow> dl_lapsed d \<and> hasObservedOnchainDeposit obs
             \<and> (case obs of None \<Rightarrow> False
                | Some o1 \<Rightarrow> (case ob_depositSeenAt o1 of None \<Rightarrow> True | Some t \<Rightarrow> t \<ge> dl_at d))))"

definition getJoinHoldRemainingSeconds :: "state \<Rightarrow> role \<Rightarrow> int \<Rightarrow> int option" where
  "getJoinHoldRemainingSeconds s r ts = (case st_joinHolds s r of None \<Rightarrow> None
     | Some h \<Rightarrow> if st_participants s r \<noteq> Some (jh_pubkey h) then None
                else Some (max 0 (jh_expiresAt h - ts)))"

definition selectedTotal :: "selected_item list \<Rightarrow> int" where
  "selectedTotal items = foldl (\<lambda>t i. t + si_amountMsats i * si_quantity i) 0 items"

lemma foldl_plus_shift:
  fixes f :: "'a \<Rightarrow> int"
  shows "foldl (\<lambda>t i. t + f i) a xs = a + sum_list (map f xs)"
  by (induction xs arbitrary: a) auto

lemma selectedTotal_sum: "selectedTotal items = (\<Sum>i\<leftarrow>items. si_amountMsats i * si_quantity i)"
  unfolding selectedTotal_def by (simp add: foldl_plus_shift)

lemma effective_is_participant:
  "effectiveParticipantAt s r ts g obs = Some pk \<Longrightarrow> st_participants s r = Some pk \<and> pk \<noteq> []"
  by (auto simp: effectiveParticipantAt_def nonEmpty_eq_Some split: option.splits if_splits)

lemma effective_locked:
  "st_status s \<notin> {CREATED, EXPIRED} \<Longrightarrow>
    effectiveParticipantAt s r ts g obs = nonEmpty (st_participants s r)"
  by (cases "nonEmpty (st_participants s r)") (auto simp: effectiveParticipantAt_def preLockPhase_def)

lemma effective_grace_mono:
  "effectiveParticipantAt s r ts False obs = Some pk \<Longrightarrow> effectiveParticipantAt s r ts True obs = Some pk"
  by (auto simp: effectiveParticipantAt_def JOIN_HOLD_LOCK_GRACE_SECONDS_def
      split: option.splits if_splits)

end
