(* ===== verification/Holder_Shares.thy ===== *)
theory Holder_Shares
  imports Escrow_Types
begin

text \<open>
  Who a voted outcome pays (\<open>src/escrow-engine/recipients.ts\<close>), the holder-only shares of the
  secret that guards the locked notes (\<open>src/escrow-engine/holder-shares.ts\<close>) and the dated rule
  sets (\<open>src/escrow-engine/protocol-hardening.ts\<close>). SHA-256 is the parameter \<open>sha\<close>.
\<close>

section \<open>Payout recipients\<close>

definition paysSeller :: "state \<Rightarrow> bool" where
  "paysSeller s \<longleftrightarrow> st_category s = ''marketplace'' \<or> st_chamaPolicy s \<noteq> None"

definition winnerRoleFor :: "state \<Rightarrow> outcome \<Rightarrow> role" where
  "winnerRoleFor s oc = (if oc = RELEASE then (if paysSeller s then SELLER else BUYER)
                         else (if paysSeller s then BUYER else SELLER))"

definition payoutRecipientFor :: "state \<Rightarrow> outcome \<Rightarrow> (string \<times> role) option" where
  "payoutRecipientFor s oc =
     (if st_chamaPolicy s = Some SHARE_V1 \<and> oc \<noteq> REFUND then None
      else map_option (\<lambda>pk. (pk, winnerRoleFor s oc)) (nonEmpty (st_participants s (winnerRoleFor s oc))))"

lemma payoutRecipient_seated:
  "payoutRecipientFor s oc = Some (pk, r) \<Longrightarrow> st_participants s r = Some pk \<and> r = winnerRoleFor s oc \<and> pk \<noteq> []"
  by (auto simp: payoutRecipientFor_def nonEmpty_eq_Some split: if_splits)

lemma winnerRole_principal: "winnerRoleFor s oc \<noteq> ARBITER"
  by (simp add: winnerRoleFor_def)

lemma winnerRole_opposite: "winnerRoleFor s RELEASE \<noteq> winnerRoleFor s REFUND"
  by (simp add: winnerRoleFor_def)

text \<open>Only category, policy and seats matter: no resolved outcome, vote or lock is read.\<close>

lemma payoutRecipient_cong:
  assumes "st_category s = st_category t" "st_chamaPolicy s = st_chamaPolicy t"
    and "st_participants s = st_participants t"
  shows "payoutRecipientFor s oc = payoutRecipientFor t oc"
  unfolding payoutRecipientFor_def winnerRoleFor_def paysSeller_def using assms by metis

section \<open>Dated rule sets\<close>

definition MONEY_PATH_HARDENING_CREATE_AT :: int where "MONEY_PATH_HARDENING_CREATE_AT = 1793491200"
definition TRADE_RULES_DEC_2026_CREATE_AT :: int where "TRADE_RULES_DEC_2026_CREATE_AT = 1796083200"
definition WITHHELD_SHARES_CREATE_AT :: int where "WITHHELD_SHARES_CREATE_AT = 1796083200"
definition LOCK_TIMESTAMP_SKEW_SECONDS :: int where "LOCK_TIMESTAMP_SKEW_SECONDS = 5 * 60"

definition usesMoneyPathHardening :: "int \<Rightarrow> bool" where
  "usesMoneyPathHardening createdAt \<longleftrightarrow> createdAt \<ge> MONEY_PATH_HARDENING_CREATE_AT"

definition usesDecemberTradeRules :: "int \<Rightarrow> bool" where
  "usesDecemberTradeRules createdAt \<longleftrightarrow> createdAt \<ge> TRADE_RULES_DEC_2026_CREATE_AT"

definition usesWithheldShares :: "int \<Rightarrow> bool" where
  "usesWithheldShares createdAt \<longleftrightarrow> createdAt \<ge> WITHHELD_SHARES_CREATE_AT"

section \<open>Holder-only shares\<close>

definition HOLDER_ONLY_SHARE_POLICY :: string where "HOLDER_ONLY_SHARE_POLICY = ''holder-only-v1''"

definition holderRoleForShareIndex :: "int \<Rightarrow> role option" where
  "holderRoleForShareIndex i =
     (if i = 0 then Some BUYER else if i = 1 then Some SELLER else if i = 2 then Some ARBITER else None)"

fun shareIndexForRole :: "role \<Rightarrow> int" where
  "shareIndexForRole BUYER = 0"
| "shareIndexForRole SELLER = 1"
| "shareIndexForRole ARBITER = 2"

definition holderPubkeyForShareIndex :: "state \<Rightarrow> int \<Rightarrow> string option" where
  "holderPubkeyForShareIndex s i = Option.bind (holderRoleForShareIndex i) (st_participants s)"

text \<open>The reasons a vote's share envelope is refused, in the order they are checked.\<close>

datatype envelope_error = EE_INDEX | EE_OUTCOME | EE_NOTES_HASH | EE_NO_RECIPIENT | EE_RECIPIENT | EE_NOT_ENCRYPTED

definition validateVoteShareEnvelope ::
  "share_envelope \<Rightarrow> state \<Rightarrow> role \<Rightarrow> outcome \<Rightarrow> string option \<Rightarrow> envelope_error option" where
  "validateVoteShareEnvelope env s voterRole voteOutcome lockNotesHash =
     (let recipient = payoutRecipientFor s voteOutcome; pk = (case recipient of None \<Rightarrow> [] | Some r \<Rightarrow> fst r)
      in firstFail
        [(ve_shareIndex env \<noteq> shareIndexForRole voterRole, EE_INDEX),
         (ve_outcome env \<noteq> voteOutcome, EE_OUTCOME),
         (truthyS lockNotesHash \<and> Some (ve_notesHash env) \<noteq> lockNotesHash, EE_NOTES_HASH),
         (recipient = None, EE_NO_RECIPIENT),
         (ve_recipientPubkey env \<noteq> pk, EE_RECIPIENT),
         (map_of (ve_encryptedFor env) pk = None, EE_NOT_ENCRYPTED)])"

record claim_candidate =
  cc_ciphertext :: string
  cc_voterPubkey :: string
  cc_shareIndex :: int

definition claimCandidate :: "outcome option \<Rightarrow> string \<Rightarrow> int \<Rightarrow> event \<Rightarrow> claim_candidate option" where
  "claimCandidate resolved myPubkey ownShareIndex e = (case ev_payload e of
     PVote p \<Rightarrow> (case vp_shareEnvelope p of
        None \<Rightarrow> None
      | Some env \<Rightarrow>
          if Some (ve_outcome env) \<noteq> resolved \<or> ve_recipientPubkey env \<noteq> myPubkey
             \<or> ve_shareIndex env = ownShareIndex then None
          else map_option (\<lambda>ct. \<lparr>cc_ciphertext = ct, cc_voterPubkey = ev_pubkey e, cc_shareIndex = ve_shareIndex env\<rparr>)
                 (nonEmpty (map_of (ve_encryptedFor env) myPubkey)))
   | _ \<Rightarrow> None)"

definition collectClaimEnvelopeCandidates ::
  "event list \<Rightarrow> outcome option \<Rightarrow> string \<Rightarrow> int \<Rightarrow> claim_candidate list" where
  "collectClaimEnvelopeCandidates chain resolved myPubkey ownShareIndex =
     List.map_filter (claimCandidate resolved myPubkey ownShareIndex) chain"

definition commitmentPreimage :: "string \<Rightarrow> string \<Rightarrow> int \<Rightarrow> string \<Rightarrow> string" where
  "commitmentPreimage escrowId notesHash i plaintext =
     ''chama-share-v1|'' @ escrowId @ ''|'' @ notesHash @ ''|'' @ showInt i @ ''|'' @ plaintext"

definition shareCommitment :: "(string \<Rightarrow> string) \<Rightarrow> string \<Rightarrow> string \<Rightarrow> int \<Rightarrow> string \<Rightarrow> string" where
  "shareCommitment sha escrowId notesHash i plaintext = sha (commitmentPreimage escrowId notesHash i plaintext)"

definition releasedShareMatches :: "(string \<Rightarrow> string) \<Rightarrow> state \<Rightarrow> int \<Rightarrow> string \<Rightarrow> bool" where
  "releasedShareMatches sha s i plaintext =
     (case nonEmpty (Option.bind (lk_withheld (st_lock s)) (\<lambda>w. wh_commitments w i)) of
        None \<Rightarrow> True
      | Some commitment \<Rightarrow> (case nonEmpty (lk_notesHash (st_lock s)) of
          None \<Rightarrow> False
        | Some h \<Rightarrow> shareCommitment sha (st_id s) h i plaintext = commitment))"

section \<open>Lemmas\<close>

lemma holderRole_roundtrip: "holderRoleForShareIndex i = Some r \<longleftrightarrow> i = shareIndexForRole r"
  by (cases r) (auto simp: holderRoleForShareIndex_def)

lemma shareIndex_range: "shareIndexForRole r \<in> {0, 1, 2}"
  by (cases r) auto

lemma shareIndex_inj [simp]: "shareIndexForRole r = shareIndexForRole q \<longleftrightarrow> r = q"
  by (cases r; cases q) auto

lemma validateVoteShareEnvelope_None:
  "validateVoteShareEnvelope env s r oc h = None \<longleftrightarrow>
    ve_shareIndex env = shareIndexForRole r \<and> ve_outcome env = oc
    \<and> (truthyS h \<longrightarrow> h = Some (ve_notesHash env))
    \<and> (\<exists>q. payoutRecipientFor s oc = Some (ve_recipientPubkey env, q))
    \<and> map_of (ve_encryptedFor env) (ve_recipientPubkey env) \<noteq> None"
  by (cases "payoutRecipientFor s oc") (auto simp: validateVoteShareEnvelope_def Let_def firstFail_None)

lemma claimCandidate_Some:
  "claimCandidate resolved me own e = Some c \<Longrightarrow>
    ev_kind e = K_VOTE \<and> cc_voterPubkey c = ev_pubkey e \<and> cc_shareIndex c \<noteq> own \<and> cc_ciphertext c \<noteq> []"
  by (auto simp: claimCandidate_def ev_kind_def nonEmpty_eq_Some split: payload.splits option.splits if_splits)

end
