(* ===== verification/Reducer_Base.thy ===== *)
theory Reducer_Base
  imports Holder_Shares
begin

text \<open>
  Helpers the handlers of \<open>src/escrow-engine/state-machine.ts\<close> share: the arbiter-fee
  sanitizer, payment methods, menu items and selected items, seat lookups and the 2-of-3 vote
  threshold. States are values here, so the source's \<open>cloneState\<close> is the identity; what a
  handler writes is the record update it returns.
\<close>

section \<open>Fees\<close>

definition sanitizeArbiterFeeMsats :: "jsnum option \<Rightarrow> int \<Rightarrow> int" where
  "sanitizeArbiterFeeMsats v amountMsats = (case Option.bind v jsFloorFinite of
     None \<Rightarrow> 0
   | Some f \<Rightarrow> (let cap = (if amountMsats > 0 then amountMsats else 0) in max 0 (min cap f)))"

lemma sanitize_bounds: "0 \<le> sanitizeArbiterFeeMsats v a" "sanitizeArbiterFeeMsats v a \<le> max 0 a"
  by (auto simp: sanitizeArbiterFeeMsats_def Let_def split: option.splits)

lemma sanitize_honest: "0 \<le> f \<Longrightarrow> f \<le> a \<Longrightarrow> sanitizeArbiterFeeMsats (Some (jsInt f)) a = f"
  by (auto simp: sanitizeArbiterFeeMsats_def Let_def)

section \<open>Payment methods and menu items\<close>

definition normalizePaymentMethods :: "string list option \<Rightarrow> string list option" where
  "normalizePaymentMethods ms = (case ms of None \<Rightarrow> None
     | Some xs \<Rightarrow> (let cleaned = dedupeOn lower [] (filter (\<lambda>v. v \<noteq> []) (map trim xs))
                 in if cleaned = [] then None else Some cleaned))"

definition cloneMenuItem :: "menu_item \<Rightarrow> menu_item" where
  "cloneMenuItem i = i\<lparr>mi_label := trim (mi_label i), mi_kind := nonEmpty (mi_kind i),
     mi_description := nonEmpty (mi_description i), mi_fiatCurrency := nonEmpty (mi_fiatCurrency i),
     mi_fulfillment := nonEmpty (mi_fulfillment i), mi_imageDataUrl := nonEmpty (mi_imageDataUrl i),
     mi_imageUrls := (case mi_imageUrls i of Some (u # us) \<Rightarrow> Some (u # us) | _ \<Rightarrow> None)\<rparr>"

definition cloneSelectedMenuItem :: "selected_item \<Rightarrow> selected_item" where
  "cloneSelectedMenuItem i = i\<lparr>si_label := trim (si_label i), si_kind := nonEmpty (si_kind i),
     si_description := nonEmpty (si_description i), si_fiatCurrency := nonEmpty (si_fiatCurrency i),
     si_fulfillment := nonEmpty (si_fulfillment i)\<rparr>"

fun joinWith :: "string \<Rightarrow> string list \<Rightarrow> string" where
  "joinWith sep [] = []"
| "joinWith sep [x] = x"
| "joinWith sep (x # y # ys) = x @ sep @ joinWith sep (y # ys)"

definition selectedItemKey :: "selected_item \<Rightarrow> string" where
  "selectedItemKey i = joinWith '':'' [si_itemId i, si_label i, showInt (si_amountMsats i),
     showInt (si_quantity i), getOr (si_kind i) [], getOr (si_fiatCurrency i) []]"

definition selectedItemsKey :: "selected_item list option \<Rightarrow> string" where
  "selectedItemsKey items = joinWith ''|'' (sortWith (\<lambda>a b. a < b) (map selectedItemKey (getOr items [])))"

definition isAmountBracket :: "menu_item \<Rightarrow> bool" where
  "isAmountBracket i \<longleftrightarrow> mi_kind i = Some ''exchange-bracket'' \<or> mi_minAmountMsats i \<noteq> None
     \<or> mi_maxAmountMsats i \<noteq> None"

definition menuSelectorRoleFor :: "string \<Rightarrow> role" where
  "menuSelectorRoleFor category = (if category = ''lending'' then SELLER else BUYER)"

text \<open>The order of the items does not matter to the key of an order.\<close>

lemma selectedItemsKey_perm:
  "mset xs = mset ys \<Longrightarrow> selectedItemsKey (Some xs) = selectedItemsKey (Some ys)"
proof -
  assume "mset xs = mset ys"
  then have m: "mset (map selectedItemKey xs) = mset (map selectedItemKey ys)" by simp
  have "sortWith (\<lambda>a b. a < b) (map selectedItemKey xs) = sortWith (\<lambda>a b. a < b) (map selectedItemKey ys)"
    using stringOrder.sortWith_perm [where key = "\<lambda>s. s", OF m] by simp
  then show ?thesis by (simp add: selectedItemsKey_def)
qed

lemma cloneSelected_simps [simp]:
  "si_itemId (cloneSelectedMenuItem i) = si_itemId i"
  "si_amountMsats (cloneSelectedMenuItem i) = si_amountMsats i"
  "si_quantity (cloneSelectedMenuItem i) = si_quantity i"
  by (simp_all add: cloneSelectedMenuItem_def)

section \<open>Seats\<close>

definition getRole :: "state \<Rightarrow> string \<Rightarrow> role option" where
  "getRole s pk = List.find (\<lambda>r. st_participants s r = Some pk) allRoles"

definition getActiveRole :: "state \<Rightarrow> string \<Rightarrow> int \<Rightarrow> role option" where
  "getActiveRole s pk ts = List.find (\<lambda>r. effectiveAt s r ts = Some pk) allRoles"

definition isPrincipal :: "state \<Rightarrow> string \<Rightarrow> bool" where
  "isPrincipal s pk \<longleftrightarrow> st_participants s BUYER = Some pk \<or> st_participants s SELLER = Some pk"

lemma getRole_Some: "getRole s pk = Some r \<Longrightarrow> st_participants s r = Some pk"
  unfolding getRole_def by (drule find_Some_in) simp

lemma getRole_None: "getRole s pk = None \<longleftrightarrow> (\<forall>r. st_participants s r \<noteq> Some pk)"
  by (simp add: getRole_def find_None_iff_ball)

lemma getActiveRole_Some: "getActiveRole s pk ts = Some r \<Longrightarrow> effectiveAt s r ts = Some pk"
  unfolding getActiveRole_def by (drule find_Some_in) simp

lemma getActiveRole_seated: "getActiveRole s pk ts = Some r \<Longrightarrow> st_participants s r = Some pk"
  by (drule getActiveRole_Some) (simp add: effective_is_participant)

text \<open>A key seated in one role only is found in that role.\<close>

lemma getRole_eq:
  "st_participants s r = Some pk \<Longrightarrow> (\<And>q. st_participants s q = Some pk \<Longrightarrow> q = r) \<Longrightarrow> getRole s pk = Some r"
  by (metis getRole_None getRole_Some not_Some_eq)

lemma getRole_principal:
  "getRole s pk = Some BUYER \<or> getRole s pk = Some SELLER \<longleftrightarrow> isPrincipal s pk"
  by (auto simp: getRole_def allRoles_def isPrincipal_def)

lemma getRole_cong: "st_participants s = st_participants t \<Longrightarrow> getRole s pk = getRole t pk"
  by (simp add: getRole_def)

section \<open>The vote threshold\<close>

definition rolesVoting :: "(role \<times> outcome) list \<Rightarrow> outcome \<Rightarrow> role list" where
  "rolesVoting votes oc = map fst (filter (\<lambda>x. snd x = oc) votes)"

text \<open>The resolved outcome, the two roles that carry it, and whether the arbiter is one of the voters.\<close>

definition checkVoteThreshold :: "(role \<times> outcome) list \<Rightarrow> (outcome \<times> role list \<times> bool) option" where
  "checkVoteThreshold votes =
     (let releasers = rolesVoting votes RELEASE; refunders = rolesVoting votes REFUND
      in if length votes < 2 then None
         else if length releasers \<ge> 2 then Some (RELEASE, take 2 releasers, ARBITER \<in> set releasers)
         else if length refunders \<ge> 2 then Some (REFUND, take 2 refunders, ARBITER \<in> set refunders)
         else None)"

lemma rolesVoting_iff:
  "distinct (map fst votes) \<Longrightarrow> r \<in> set (rolesVoting votes oc) \<longleftrightarrow> map_of votes r = Some oc"
  by (force simp: rolesVoting_def map_of_eq_Some_iff)

lemma rolesVoting_distinct: "distinct (map fst votes) \<Longrightarrow> distinct (rolesVoting votes oc)"
  by (simp add: rolesVoting_def distinct_map_filter)

lemma two_of_list:
  assumes "2 \<le> length xs" "distinct xs"
  shows "\<exists>a b. take 2 xs = [a, b] \<and> a \<noteq> b \<and> {a, b} \<subseteq> set xs"
proof -
  from assms(1) obtain a b ys where "xs = a # b # ys"
    by (metis Suc_le_length_iff numeral_2_eq_2)
  with assms(2) show ?thesis by auto
qed

text \<open>A threshold is two different roles that both voted the outcome.\<close>

lemma checkVoteThreshold_Some:
  assumes "checkVoteThreshold votes = Some (oc, maj, arb)" "distinct (map fst votes)"
  shows "\<exists>a b. maj = [a, b] \<and> a \<noteq> b \<and> map_of votes a = Some oc \<and> map_of votes b = Some oc"
proof -
  from assms(1) have len: "2 \<le> length (rolesVoting votes oc)" and maj: "maj = take 2 (rolesVoting votes oc)"
    by (auto simp: checkVoteThreshold_def Let_def split: if_splits)
  from two_of_list [OF len rolesVoting_distinct [OF assms(2)]] maj obtain a b where
    "maj = [a, b]" "a \<noteq> b" "{a, b} \<subseteq> set (rolesVoting votes oc)" by auto
  with rolesVoting_iff [OF assms(2)] show ?thesis by auto
qed

lemma votes_update_distinct: "distinct (map fst votes) \<Longrightarrow> distinct (map fst (AList.update r oc votes))"
  by (rule distinct_update)

section \<open>Trade clocks and orders\<close>

definition tradeTimeoutSecondsFor :: "state \<Rightarrow> int" where
  "tradeTimeoutSecondsFor s = getOr (st_tradeTimeoutSeconds s) (max 1 (st_expiresAt s - st_createdAt s))"

definition hasJoinOrderPayload :: "join_payload \<Rightarrow> bool" where
  "hasJoinOrderPayload p \<longleftrightarrow> getOr (jp_selectedItems p) [] \<noteq> [] \<or> getOr (jp_amountMsats p) 0 > 0
     \<or> jp_orderFinalizedAt p \<noteq> None"

definition inferLegacyInitialOrderFinalizedAt :: "join_payload \<Rightarrow> join_hold option \<Rightarrow> int option" where
  "inferLegacyInitialOrderFinalizedAt p existingHold =
     (if jp_orderFinalizedAt p \<noteq> None then jp_orderFinalizedAt p
      else if existingHold \<noteq> None then None
      else case jp_selectedItems p of
        None \<Rightarrow> None
      | Some items \<Rightarrow>
          if items = [] \<or> selectedTotal items \<le> 0 \<or> jp_amountMsats p \<noteq> Some (selectedTotal items)
          then None else Some (jp_joinedAt p))"

text \<open>The funder of a trade by its category; a raw escrow has none fixed.\<close>

definition expectedLockerOf :: "state \<Rightarrow> role option" where
  "expectedLockerOf s =
     (if st_category s = ''marketplace'' \<or> st_chamaPolicy s \<noteq> None then Some BUYER
      else if st_category s = ''lending'' then Some SELLER
      else if st_category s = ''p2p-trade'' \<or> st_category s = ''bill-pay'' then Some SELLER
      else None)"

lemma expectedLocker_principal: "expectedLockerOf s = Some r \<Longrightarrow> r \<noteq> ARBITER"
  by (auto simp: expectedLockerOf_def split: if_splits)

end
