(* ===== verification/Circle.thy ===== *)
theory Circle
  imports Escrow_Types
begin

text \<open>
  The savings circle (\<open>src/chama/circle.ts\<close>, \<open>src/chama/levels.ts\<close>): the law a circle must
  satisfy before the first lock, the derived status and progress of a round, the seat gate,
  punctuality standing, the template of the next round, and the five levels.

  Durations and amounts are \<open>int\<close>. Punctuality divides, so it is computed over the rationals
  (the source uses binary floating point).
\<close>

definition MAX_ROUND_SEC :: int where "MAX_ROUND_SEC = 14 * 86400"
definition EARLY_LOCK_BONUS_MAX :: rat where "EARLY_LOCK_BONUS_MAX = 2"

section \<open>The law of a circle\<close>

definition validateCircleRound :: "circle_round \<Rightarrow> string list" where
  "validateCircleRound c = allFails
     [(\<not> (isSafe (cr_createdAt c) \<and> isSafe (ct_fillDeadlineSec c) \<and> isSafe (ct_roundEndSec c)),
       ''Circle timestamps must be safe integer seconds''),
      (ct_prevCircleId c = Some [], ''Previous circle id must be null or a nonempty string''),
      (\<not> isSafe (ct_shareMsats c) \<or> ct_shareMsats c \<le> 0, ''shareMsats must be a positive integer''),
      (\<not> isSafe (ct_seatThreshold c) \<or> ct_seatThreshold c < 2,
       ''seatThreshold must be an integer of at least 2''),
      (case ct_seatCap c of None \<Rightarrow> False | Some k \<Rightarrow> \<not> isSafe k \<or> k < ct_seatThreshold c,
       ''seatCap must be null or an integer >= seatThreshold''),
      (\<not> ct_fillDeadlineSec c > cr_createdAt c, ''fillDeadlineSec must be after createdAt''),
      (\<not> ct_roundEndSec c > ct_fillDeadlineSec c, ''roundEndSec must be after fillDeadlineSec''),
      (ct_roundEndSec c - cr_createdAt c > MAX_ROUND_SEC,
       ''round exceeds the two-week federation hold bound''),
      (\<not> isSafe (ct_roundIndex c) \<or> ct_roundIndex c < 1, ''roundIndex must be a positive integer''),
      (ct_roundIndex c = 1 \<and> ct_prevCircleId c \<noteq> None, ''a first round cannot claim a previous circle''),
      (ct_roundIndex c > 1 \<and> \<not> truthyS (ct_prevCircleId c),
       ''a re-formed round must name its previous circle'')]"

definition lawfulCircle :: "circle_round \<Rightarrow> bool" where
  "lawfulCircle c \<longleftrightarrow> validateCircleRound c = []"

lemma lawfulCircleD:
  assumes "lawfulCircle c"
  shows "cr_createdAt c < ct_fillDeadlineSec c" "ct_fillDeadlineSec c < ct_roundEndSec c"
    "ct_roundEndSec c \<le> cr_createdAt c + MAX_ROUND_SEC" "0 < ct_shareMsats c" "2 \<le> ct_seatThreshold c"
    "1 \<le> ct_roundIndex c" "ct_seatCap c = Some k \<Longrightarrow> ct_seatThreshold c \<le> k"
    "ct_roundIndex c = 1 \<longleftrightarrow> ct_prevCircleId c = None"
  using assms by (auto simp: lawfulCircle_def validateCircleRound_def allFails_Nil truthyS_def
      split: option.splits)

section \<open>Derived state\<close>

datatype circle_status = CFilling | CRunning | CRefundDue | CComplete

definition circleLocks :: "circle_round \<Rightarrow> share_lock list \<Rightarrow> share_lock list" where
  "circleLocks c ls = filter (\<lambda>l. sl_circleId l = cr_circleId c) ls"

definition lockedInWindow :: "circle_round \<Rightarrow> share_lock \<Rightarrow> bool" where
  "lockedInWindow c l = (case sl_lockedAtSec l of None \<Rightarrow> False | Some t \<Rightarrow> t < ct_fillDeadlineSec c)"

definition seatsLockedInWindow :: "circle_round \<Rightarrow> share_lock list \<Rightarrow> int" where
  "seatsLockedInWindow c ls = int (length (filter (lockedInWindow c) (circleLocks c ls)))"

definition circleStatus :: "circle_round \<Rightarrow> share_lock list \<Rightarrow> int \<Rightarrow> circle_status" where
  "circleStatus c ls now =
     (if now < ct_fillDeadlineSec c then CFilling
      else if seatsLockedInWindow c ls < ct_seatThreshold c then CRefundDue
      else if now < ct_roundEndSec c then CRunning else CComplete)"

record circle_progress =
  pg_status :: circle_status
  pg_seatsLocked :: int
  pg_seatsReserved :: int
  pg_seatsOpen :: "int option"
  pg_filled :: bool
  pg_potMsats :: int
  pg_secsToFillDeadline :: int
  pg_secsToRoundEnd :: int
  pg_dueBackEscrowIds :: "string list"

definition circleProgress :: "circle_round \<Rightarrow> share_lock list \<Rightarrow> int \<Rightarrow> circle_progress" where
  "circleProgress c ls now =
     (let mine = circleLocks c ls;
          seatsLocked = int (length (filter (\<lambda>l. sl_status l \<in> {L_LOCKED, L_RETURNED, L_PAID}) mine));
          seatsReserved = int (length (filter (\<lambda>l. sl_status l = L_RESERVED) mine));
          status = circleStatus c ls now
      in \<lparr>pg_status = status, pg_seatsLocked = seatsLocked, pg_seatsReserved = seatsReserved,
          pg_seatsOpen = map_option (\<lambda>k. max 0 (k - seatsLocked - seatsReserved)) (ct_seatCap c),
          pg_filled = (seatsLocked \<ge> ct_seatThreshold c),
          pg_potMsats = seatsLocked * ct_shareMsats c,
          pg_secsToFillDeadline = max 0 (ct_fillDeadlineSec c - now),
          pg_secsToRoundEnd = max 0 (ct_roundEndSec c - now),
          pg_dueBackEscrowIds =
            (if status = CRefundDue \<or> status = CComplete
             then List.map_filter (\<lambda>l. if sl_status l = L_LOCKED then sl_escrowId l else None) mine
             else [])\<rparr>)"

datatype seat_refusal = SR_CLOSED | SR_FULL | SR_ALREADY_SEATED | SR_HOST | SR_HOST_WAITS

definition activeSeat :: "share_lock \<Rightarrow> bool" where
  "activeSeat l \<longleftrightarrow> sl_status l = L_RESERVED \<or> sl_status l = L_LOCKED"

text \<open>\<open>None\<close> is \<open>ok\<close>; \<open>hostSeat\<close> is the ring-writer flag.\<close>

definition canTakeSeat ::
  "circle_round \<Rightarrow> share_lock list \<Rightarrow> string \<Rightarrow> int \<Rightarrow> bool \<Rightarrow> seat_refusal option" where
  "canTakeSeat c ls memberPubkey now hostSeat =
     (let mine = circleLocks c ls; member = lower memberPubkey;
          host = (lower (cr_creatorPubkey c) = member);
          witnessed = list_ex (\<lambda>l. sl_status l = L_LOCKED \<and> lower (sl_memberPubkey l) \<noteq> member) mine;
          seated = list_ex (\<lambda>l. lower (sl_memberPubkey l) = member \<and> activeSeat l) mine;
          taken = int (length (filter activeSeat mine))
      in firstFail
           [(now \<ge> ct_fillDeadlineSec c, SR_CLOSED),
            (host \<and> \<not> hostSeat, SR_HOST),
            (host \<and> \<not> witnessed, SR_HOST_WAITS),
            (seated, SR_ALREADY_SEATED),
            (case ct_seatCap c of None \<Rightarrow> False | Some k \<Rightarrow> taken \<ge> k, SR_FULL)])"

record punctuality =
  pu_fillWindowFraction :: rat
  pu_earlyBonus :: rat
  pu_satDaysCommitted :: rat
  pu_standingWeight :: rat

definition clampedLock :: "circle_round \<Rightarrow> int \<Rightarrow> int" where
  "clampedLock c t = min (max t (cr_createdAt c)) (ct_fillDeadlineSec c)"

definition lockPunctuality :: "circle_round \<Rightarrow> int \<Rightarrow> punctuality" where
  "lockPunctuality c lockedAtSec =
     (let windowSec = max 1 (ct_fillDeadlineSec c - cr_createdAt c);
          cl = clampedLock c lockedAtSec;
          fraction = of_int (cl - cr_createdAt c) / of_int windowSec;
          bonus = EARLY_LOCK_BONUS_MAX * (1 - fraction);
          satDays = (of_int (ct_shareMsats c) / 1000) * (of_int (ct_roundEndSec c - cl) / 86400)
      in \<lparr>pu_fillWindowFraction = fraction, pu_earlyBonus = bonus, pu_satDaysCommitted = satDays,
          pu_standingWeight = satDays * (1 + bonus)\<rparr>)"

definition nextRoundTemplate :: "circle_round \<Rightarrow> string \<Rightarrow> int \<Rightarrow> circle_round" where
  "nextRoundTemplate c circleId startSec =
     (let fillWindowSec = ct_fillDeadlineSec c - cr_createdAt c;
          roundSec = ct_roundEndSec c - cr_createdAt c
      in c\<lparr>cr_circleId := circleId, cr_createdAt := startSec,
           ct_fillDeadlineSec := startSec + fillWindowSec, ct_roundEndSec := startSec + roundSec,
           ct_roundIndex := ct_roundIndex c + 1, ct_prevCircleId := Some (cr_circleId c)\<rparr>)"

section \<open>Levels\<close>

definition LEVEL_FLOORS :: "int list" where
  "LEVEL_FLOORS = [0, 1, 3, 6, 12]"

text \<open>The descending scan of \<open>levelFor\<close>: the highest level whose floor is reached.\<close>

primrec levelScan :: "int \<Rightarrow> nat \<Rightarrow> int" where
  "levelScan d 0 = 1"
| "levelScan d (Suc i) = (if d \<ge> LEVEL_FLOORS ! i then int i + 1 else levelScan d i)"

definition levelFor :: "rat \<Rightarrow> int" where
  "levelFor completed = levelScan (max 0 \<lfloor>completed\<rfloor>) (length LEVEL_FLOORS)"

definition circlesToNextLevel :: "rat \<Rightarrow> int" where
  "circlesToNextLevel completed =
     (let level = levelFor completed
      in if level \<ge> 5 then 0 else LEVEL_FLOORS ! nat level - max 0 \<lfloor>completed\<rfloor>)"

definition ROTATION_CREATOR_MIN_LEVEL :: int where "ROTATION_CREATOR_MIN_LEVEL = 3"

definition canOpenRotatingChama :: "rat \<Rightarrow> bool" where
  "canOpenRotatingChama completed \<longleftrightarrow> levelFor completed \<ge> ROTATION_CREATOR_MIN_LEVEL"

record standing_member =
  sm_memberPubkey :: string
  sm_standingWeight :: rat
  sm_lockedAtSec :: int

definition standingBefore :: "rat \<times> int \<times> string \<Rightarrow> rat \<times> int \<times> string \<Rightarrow> bool" where
  "standingBefore a b =
     (if fst a \<noteq> fst b then fst a > fst b
      else if fst (snd a) \<noteq> fst (snd b) then fst (snd a) < fst (snd b)
      else snd (snd a) < snd (snd b))"

definition standingKey :: "standing_member \<Rightarrow> rat \<times> int \<times> string" where
  "standingKey m = (sm_standingWeight m, sm_lockedAtSec m, sm_memberPubkey m)"

definition standingOrder :: "standing_member list \<Rightarrow> string list" where
  "standingOrder ms =
     map sm_memberPubkey (sortWith (\<lambda>a b. standingBefore (standingKey a) (standingKey b)) ms)"

interpretation standing: comparator standingBefore
proof unfold_locales
  fix x y z :: "rat \<times> int \<times> string"
  show "standingBefore x y \<Longrightarrow> \<not> standingBefore y x"
    by (auto simp: standingBefore_def split: if_splits)
  show "standingBefore x y \<Longrightarrow> standingBefore y z \<Longrightarrow> standingBefore x z"
    by (auto simp: standingBefore_def split: if_splits)
  show "x \<noteq> y \<Longrightarrow> standingBefore x y \<or> standingBefore y x"
    by (cases x; cases y) (auto simp: standingBefore_def)
qed

section \<open>Lemmas\<close>

text \<open>The latch: the status reads when seats locked, never what became of them.\<close>

lemma seatsLockedInWindow_latch:
  "map (\<lambda>l. (sl_circleId l, sl_lockedAtSec l)) ls = map (\<lambda>l. (sl_circleId l, sl_lockedAtSec l)) ls'
    \<Longrightarrow> seatsLockedInWindow c ls = seatsLockedInWindow c ls'"
proof (induction ls arbitrary: ls')
  case Nil
  then show ?case by simp
next
  case (Cons l ls)
  then obtain l' ls'' where ls': "ls' = l' # ls''"
    and eq: "sl_circleId l = sl_circleId l'" "sl_lockedAtSec l = sl_lockedAtSec l'"
    and rest: "map (\<lambda>l. (sl_circleId l, sl_lockedAtSec l)) ls = map (\<lambda>l. (sl_circleId l, sl_lockedAtSec l)) ls''"
    by (cases ls') auto
  from Cons.IH [OF rest] eq ls' show ?case
    by (simp add: seatsLockedInWindow_def circleLocks_def lockedInWindow_def)
qed

lemma seatsLockedInWindow_append:
  "seatsLockedInWindow c (ls @ ls') = seatsLockedInWindow c ls + seatsLockedInWindow c ls'"
  by (simp add: seatsLockedInWindow_def circleLocks_def)

lemma seatsLockedInWindow_nonneg: "0 \<le> seatsLockedInWindow c ls"
  by (simp add: seatsLockedInWindow_def)

lemma map_filter_set: "x \<in> set (List.map_filter f xs) \<longleftrightarrow> (\<exists>y\<in>set xs. f y = Some x)"
  by (induction xs) (auto simp: List.map_filter_def split: option.splits)

lemma dueBack_locked:
  "e \<in> set (pg_dueBackEscrowIds (circleProgress c ls now)) \<longleftrightarrow>
    circleStatus c ls now \<in> {CRefundDue, CComplete}
    \<and> (\<exists>l\<in>set ls. sl_circleId l = cr_circleId c \<and> sl_status l = L_LOCKED \<and> sl_escrowId l = Some e)"
  by (auto simp: circleProgress_def Let_def map_filter_set circleLocks_def split: if_splits)

lemma clampedLock_bounds:
  assumes "lawfulCircle c"
  shows "cr_createdAt c \<le> clampedLock c t" "clampedLock c t \<le> ct_fillDeadlineSec c"
  using lawfulCircleD [OF assms] by (auto simp: clampedLock_def)

lemma clampedLock_mono: "t \<le> u \<Longrightarrow> clampedLock c t \<le> clampedLock c u"
  by (auto simp: clampedLock_def)

lemma levelFor_cases:
  "levelFor x = (let d = max 0 \<lfloor>x\<rfloor> in
     if d \<ge> 12 then 5 else if d \<ge> 6 then 4 else if d \<ge> 3 then 3 else if d \<ge> 1 then 2 else 1)"
  by (simp add: levelFor_def LEVEL_FLOORS_def Let_def eval_nat_numeral)

end
