(* ===== verification/Rotation.thy ===== *)
theory Rotation
  imports Circle
begin

text \<open>
  The rotation core (\<open>src/chama/rotation.ts\<close>): deterministic round ids, the commitment order,
  the weekly race that names each round's collector, the deterministic outcome of a round and
  the rotation view of a surface.

  SHA-256 (in hexadecimal) comes from a library, so it is the parameter \<open>sha\<close>. The round id of
  round 1 or below is a throw in the source, here \<open>None\<close>; no caller reaches it. The escrows of
  a cycle are the projections \<open>chama_view\<close>; a LOCKed share always has its buyer seat filled, so
  the non-null assertion on that seat is a default that is never used.
\<close>

definition COLLECT_WINDOW_SEC :: int where "COLLECT_WINDOW_SEC = 7 * 86400"

definition roundPreimage :: "string \<Rightarrow> int \<Rightarrow> string" where
  "roundPreimage round1Id r =
     ''['' @ jsonString ''chama-round-v2'' @ '','' @ jsonString (lower round1Id) @ '','' @ showInt r @ '']''"

definition roundCircleId :: "(string \<Rightarrow> string) \<Rightarrow> string \<Rightarrow> int \<Rightarrow> string option" where
  "roundCircleId sha round1Id r =
     (if \<not> isSafe r \<or> r < 2 then None else Some (sha (roundPreimage round1Id r)))"

section \<open>Orders by lock time\<close>

definition raceBefore :: "int \<times> string \<Rightarrow> int \<times> string \<Rightarrow> bool" where
  "raceBefore a b = (if fst a \<noteq> fst b then fst a < fst b else snd a < snd b)"

interpretation race: comparator raceBefore
proof unfold_locales
  fix x y z :: "int \<times> string"
  show "raceBefore x y \<Longrightarrow> \<not> raceBefore y x" by (auto simp: raceBefore_def split: if_splits)
  show "raceBefore x y \<Longrightarrow> raceBefore y z \<Longrightarrow> raceBefore x z"
    by (auto simp: raceBefore_def split: if_splits)
  show "x \<noteq> y \<Longrightarrow> raceBefore x y \<or> raceBefore y x"
    by (cases x; cases y) (auto simp: raceBefore_def)
qed

text \<open>The locked members of the commitment round: time and lower-cased key, one entry a key.\<close>

definition sealedEntry :: "string \<Rightarrow> share_lock \<Rightarrow> (int \<times> string) option" where
  "sealedEntry circleId l = (if sl_circleId l = circleId \<and> sl_status l \<noteq> L_RESERVED
     then map_option (\<lambda>t. (t, lower (sl_memberPubkey l))) (sl_lockedAtSec l) else None)"

definition sealedMembers :: "string \<Rightarrow> share_lock list \<Rightarrow> (int \<times> string) list" where
  "sealedMembers circleId ls =
     sortWith raceBefore (dedupeOn snd [] (List.map_filter (sealedEntry circleId) ls))"

definition rotationOrder :: "string \<Rightarrow> string \<Rightarrow> share_lock list \<Rightarrow> string list" where
  "rotationOrder circleId creatorPubkey ls =
     (let host = lower creatorPubkey; members = map snd (sealedMembers circleId ls)
      in filter (\<lambda>m. m \<noteq> host) members @ (if host \<in> set members then [host] else []))"

text \<open>A share's entry in the race of round \<open>r\<close>: it locked in the round before, for a sealed member.\<close>

definition raceEntry ::
  "chama_policy \<Rightarrow> string option \<Rightarrow> string list \<Rightarrow> chama_view \<Rightarrow> (int \<times> string) option" where
  "raceEntry prevPolicy prevId order e =
     (if cv_chamaPolicy e \<noteq> Some prevPolicy \<or> cv_parent e = None \<or> map_option lower (cv_parent e) \<noteq> prevId
      then None
      else case cv_lockAt e of None \<Rightarrow> None
        | Some t \<Rightarrow> (case cv_participants e BUYER of None \<Rightarrow> None
           | Some b \<Rightarrow> if lower b \<noteq> [] \<and> lower b \<in> set order then Some (t, lower b) else None))"

definition rankedFor ::
  "(string \<Rightarrow> string) \<Rightarrow> string \<Rightarrow> string list \<Rightarrow> chama_view list \<Rightarrow> int \<Rightarrow> (int \<times> string) list" where
  "rankedFor sha round1Id order shares r =
     (let prevId = (if r = 2 then Some (lower round1Id) else roundCircleId sha round1Id (r - 1));
          prevPolicy = (if r = 2 then SHARE_V1 else SHARE_V2)
      in sortWith raceBefore (List.map_filter (raceEntry prevPolicy prevId order) shares))"

text \<open>The loop over the rounds: \<open>collected\<close> are the members who collected before round \<open>r\<close>.\<close>

fun collectorScan ::
  "(int \<Rightarrow> (int \<times> string) list) \<Rightarrow> string option \<Rightarrow> int \<Rightarrow> int list \<Rightarrow> string list
    \<Rightarrow> string option \<Rightarrow> string option" where
  "collectorScan ranked hostSeated finalRound [] collected collector = collector"
| "collectorScan ranked hostSeated finalRound (r # rs) collected collector =
     (if nonEmpty hostSeated \<noteq> None \<and> r = finalRound
      then (if the hostSeated \<in> set collected then None else hostSeated)
      else case List.find (\<lambda>x. snd x \<notin> set collected \<and> Some (snd x) \<noteq> hostSeated) (ranked r) of
             None \<Rightarrow> None
           | Some x \<Rightarrow> collectorScan ranked hostSeated finalRound rs (snd x # collected) (Some (snd x)))"

definition collectorForRound ::
  "(string \<Rightarrow> string) \<Rightarrow> string \<Rightarrow> string list \<Rightarrow> string \<Rightarrow> chama_view list \<Rightarrow> int \<Rightarrow> string option" where
  "collectorForRound sha round1Id order hostPubkey shares roundIndex =
     (let n = int (length order); host = lower hostPubkey
      in if \<not> isSafe roundIndex \<or> roundIndex < 2 \<or> roundIndex > n + 1 then None
         else collectorScan (rankedFor sha round1Id order shares)
                (if host \<in> set order then Some host else None) (n + 1) [2..roundIndex] [] None)"

section \<open>The outcome law\<close>

datatype round_outcome = RO_NONE | RO_REFUND | RO_RELEASE

definition roundOutcomeAt :: "int \<Rightarrow> int \<Rightarrow> int \<Rightarrow> int \<Rightarrow> int \<Rightarrow> round_outcome" where
  "roundOutcomeAt fillDeadlineSec roundEndSec lockedCount expectedCount now =
     (let filled = (lockedCount \<ge> expectedCount \<and> expectedCount > 0)
      in if now < fillDeadlineSec \<and> \<not> filled then RO_NONE
         else if \<not> filled then RO_REFUND
         else if now < roundEndSec then RO_NONE
         else if now < roundEndSec + COLLECT_WINDOW_SEC then RO_RELEASE
         else RO_REFUND)"

section \<open>Commitment locks and the rotation view\<close>

definition commitmentLocks :: "string \<Rightarrow> chama_view list \<Rightarrow> share_lock list" where
  "commitmentLocks round1Id shares =
     List.map_filter (\<lambda>e. map_option (\<lambda>t. \<lparr>sl_circleId = round1Id,
         sl_memberPubkey = getOr (cv_participants e BUYER) [], sl_escrowId = Some (cv_id e),
         sl_status = L_LOCKED, sl_lockedAtSec = Some t\<rparr>) (cv_lockAt e))
       (dedupeOn cv_id [] (filter (\<lambda>e. cv_chamaPolicy e = Some SHARE_V1 \<and> cv_parent e = Some round1Id) shares))"

record rotation_view =
  rv_round1Id :: string
  rv_order :: "string list"
  rv_totalRounds :: int
  rv_collector :: "string option"
  rv_queue :: "(int \<times> string option) list"

text \<open>\<open>new Map(states.map(...))\<close>: the last state of an id wins.\<close>

definition byId :: "chama_view list \<Rightarrow> string \<Rightarrow> chama_view option" where
  "byId states i = List.find (\<lambda>s. cv_id s = i) (rev states)"

text \<open>The walk back to round 1, at most \<open>hops\<close> steps.\<close>

primrec round1Of :: "chama_view list \<Rightarrow> nat \<Rightarrow> string option \<Rightarrow> string option" where
  "round1Of states 0 cursor = None"
| "round1Of states (Suc hops) cursor = (case nonEmpty cursor of
     None \<Rightarrow> None
   | Some i \<Rightarrow> (case byId states i of
       None \<Rightarrow> None
     | Some s \<Rightarrow> (case cv_chamaCircle s of
         None \<Rightarrow> None
       | Some c \<Rightarrow> if ct_roundIndex c = 1 then Some (cv_id s)
                  else round1Of states hops (ct_prevCircleId c))))"

definition rotationView ::
  "(string \<Rightarrow> string) \<Rightarrow> chama_view list \<Rightarrow> string \<Rightarrow> int \<Rightarrow> string option \<Rightarrow> rotation_view option" where
  "rotationView sha states circleId roundIndex prevCircleId =
     (case nonEmpty (if roundIndex = 1 then Some circleId else round1Of states 64 prevCircleId) of
        None \<Rightarrow> None
      | Some round1Id \<Rightarrow> (case byId states round1Id of
          None \<Rightarrow> None
        | Some round1 \<Rightarrow>
            let host = cv_initiator round1;
                order = rotationOrder round1Id host (commitmentLocks round1Id states);
                totalRounds = int (length order) + 1;
                collector = (\<lambda>k. collectorForRound sha round1Id order host states k)
            in Some \<lparr>rv_round1Id = round1Id, rv_order = order, rv_totalRounds = totalRounds,
                 rv_collector = (if roundIndex \<ge> 2 then collector roundIndex else None),
                 rv_queue = map (\<lambda>k. (k, collector k)) [max 2 (roundIndex + 1)..totalRounds]\<rparr>))"

section \<open>Lemmas\<close>

lemma distinct_map_sortWith: "distinct (map f (sortWith b xs)) = distinct (map f xs)"
  by (simp add: distinct_map inj_on_def)

lemma sealedMembers_distinct: "distinct (map snd (sealedMembers i ls))"
  by (simp add: sealedMembers_def distinct_map_sortWith dedupeOn_distinct)

lemma rotationOrder_distinct: "distinct (rotationOrder i creator ls)"
  by (simp add: rotationOrder_def Let_def sealedMembers_distinct)

lemma rotationOrder_members: "set (rotationOrder i creator ls) = snd ` set (sealedMembers i ls)"
  by (force simp: rotationOrder_def Let_def)

lemma set_map_filter: "set (List.map_filter f xs) = {x. \<exists>y\<in>set xs. f y = Some x}"
  by (auto simp: map_filter_set)

lemma sealedMembers_set: "snd ` set (sealedMembers i ls) = {snd x | x l. l \<in> set ls \<and> sealedEntry i l = Some x}"
  unfolding sealedMembers_def set_sortWith dedupeOn_set set_map_filter by force

lemma rotationOrder_set:
  "m \<in> set (rotationOrder i creator ls) \<longleftrightarrow>
    (\<exists>l\<in>set ls. m = lower (sl_memberPubkey l) \<and> sl_circleId l = i \<and> sl_status l \<noteq> L_RESERVED
       \<and> sl_lockedAtSec l \<noteq> None)"
  unfolding rotationOrder_members sealedMembers_set sealedEntry_def by force

lemma rotationOrder_host_last:
  "lower creator \<in> set (rotationOrder i creator ls) \<Longrightarrow> last (rotationOrder i creator ls) = lower creator"
  by (simp add: rotationOrder_def Let_def split: if_splits)

lemma raceEntry_member: "raceEntry p i order e = Some x \<Longrightarrow> snd x \<in> set order \<and> snd x \<noteq> []"
  by (auto simp: raceEntry_def split: if_splits option.splits)

lemma rankedFor_member: "x \<in> set (rankedFor sha i order shares r) \<Longrightarrow> snd x \<in> set order"
  by (auto simp: rankedFor_def Let_def map_filter_set dest: raceEntry_member)

text \<open>
  What the scan returns after the rounds \<open>rs\<close> is a member that had not collected, and a longer
  scan returns somebody else: nobody collects twice.
\<close>

lemma collectorScan_fresh:
  assumes "collectorScan ranked host n rs collected collector = Some c" "rs \<noteq> []"
  shows "c \<notin> set collected"
  using assms
proof (induction rs arbitrary: collected collector)
  case (Cons r rs)
  show ?case
  proof (cases "nonEmpty host \<noteq> None \<and> r = n")
    case True
    with Cons.prems show ?thesis by (auto split: if_splits)
  next
    case False
    with Cons.prems obtain x where
      x: "List.find (\<lambda>x. snd x \<notin> set collected \<and> Some (snd x) \<noteq> host) (ranked r) = Some x"
      and scan: "collectorScan ranked host n rs (snd x # collected) (Some (snd x)) = Some c"
      by (auto split: option.splits)
    show ?thesis
    proof (cases "rs = []")
      case True
      with scan x show ?thesis by (auto dest: find_Some_in)
    next
      case False
      from Cons.IH [OF scan this] show ?thesis by simp
    qed
  qed
qed simp

lemma collectorScan_append_differs:
  assumes "collectorScan ranked host n rs collected collector = Some c" "rs \<noteq> []" "n \<notin> set rs"
    and "collectorScan ranked host n (rs @ ss) collected collector = Some d" "ss \<noteq> []"
  shows "c \<noteq> d"
  using assms
proof (induction rs arbitrary: collected collector)
  case (Cons r rs)
  then obtain x where
    x: "List.find (\<lambda>x. snd x \<notin> set collected \<and> Some (snd x) \<noteq> host) (ranked r) = Some x"
    and c: "collectorScan ranked host n rs (snd x # collected) (Some (snd x)) = Some c"
    and d: "collectorScan ranked host n (rs @ ss) (snd x # collected) (Some (snd x)) = Some d"
    by (auto split: option.splits)
  show ?case
  proof (cases "rs = []")
    case True
    with c have "c = snd x" by simp
    with collectorScan_fresh [OF d] True Cons.prems(5) show ?thesis by auto
  next
    case False
    with Cons.IH [OF c _ _ d] Cons.prems show ?thesis by auto
  qed
qed simp

lemma collectorScan_member:
  assumes "collectorScan ranked host n rs collected collector = Some c" "rs \<noteq> []"
    and "\<And>r x. x \<in> set (ranked r) \<Longrightarrow> snd x \<in> A" "\<And>h. host = Some h \<Longrightarrow> h \<in> A"
  shows "c \<in> A"
  using assms(1,2)
proof (induction rs arbitrary: collected collector)
  case (Cons r rs)
  then show ?case
    using assms(3,4) by (cases rs) (auto split: if_splits option.splits dest!: find_Some_in)
qed simp

lemma collectorForRound_in_order:
  assumes "collectorForRound sha i order host shares r = Some c"
  shows "c \<in> set order"
proof -
  from assms have "collectorScan (rankedFor sha i order shares)
      (if lower host \<in> set order then Some (lower host) else None) (int (length order) + 1) [2..r] [] None
        = Some c" and "[2..r] \<noteq> []"
    by (auto simp: collectorForRound_def Let_def split: if_splits)
  then show ?thesis
  proof (rule collectorScan_member)
    show "snd x \<in> set order" if "x \<in> set (rankedFor sha i order shares r)" for r x
      using that by (rule rankedFor_member)
    show "h \<in> set order" if "(if lower host \<in> set order then Some (lower host) else None) = Some h" for h
      using that by (simp split: if_splits)
  qed
qed

lemma collectorForRound_differ:
  assumes "collectorForRound sha i order host shares r = Some c"
    and "collectorForRound sha i order host shares s = Some d" and "r < s"
  shows "c \<noteq> d"
proof -
  let ?scan = "collectorScan (rankedFor sha i order shares)
    (if lower host \<in> set order then Some (lower host) else None) (int (length order) + 1)"
  from assms(1) have r: "2 \<le> r" and c: "?scan [2..r] [] None = Some c"
    by (auto simp: collectorForRound_def Let_def split: if_splits)
  from assms(2) have s: "s \<le> int (length order) + 1" and d: "?scan [2..s] [] None = Some d"
    by (auto simp: collectorForRound_def Let_def split: if_splits)
  have "[2..s] = [2..r] @ [r + 1..s]" using r assms(3) by (intro upto_split2) auto
  with d have "?scan ([2..r] @ [r + 1..s]) [] None = Some d" by simp
  moreover have "[2..r] \<noteq> []" "int (length order) + 1 \<notin> set [2..r]" "[r + 1..s] \<noteq> []"
    using r s assms(3) by (simp_all only: set_upto upto_Nil atLeastAtMost_iff) linarith+
  ultimately show ?thesis using collectorScan_append_differs [OF c] by blast
qed

end
