(* ===== verification/Arbiter_Pick.thy ===== *)
theory Arbiter_Pick
  imports Escrow_Types
begin

text \<open>
  Deterministic arbiter selection (\<open>src/protocol/core/arbiter-pick.ts\<close>): the char-code sum of
  the escrow id, wrapped to 32 bits, picks one of the pool members that are not excluded; the
  preferred pick does the same on the bonded members of the pool first. The interface
  \<open>pool_pick\<close> states what the reducer relies on, and is interpreted on both picks.
\<close>

definition pickHash :: "string \<Rightarrow> 32 word" where
  "pickHash s = foldl (\<lambda>h c. h + word_of_nat (of_char c)) 0 s"

definition excludedKeys :: "string option list \<Rightarrow> string list" where
  "excludedKeys ex = map lower (List.map_filter nonEmpty ex)"

definition pickArbiterFromPool :: "string list \<Rightarrow> string \<Rightarrow> string option list \<Rightarrow> string option" where
  "pickArbiterFromPool pool escrowId ex =
     (let excluded = excludedKeys ex;
          candidates = filter (\<lambda>pk. lower pk \<notin> set excluded) pool
      in case candidates of
           [] \<Rightarrow> None
         | [c] \<Rightarrow> Some c
         | _ \<Rightarrow> Some (candidates ! (nat \<bar>sint (pickHash escrowId)\<bar> mod length candidates)))"

definition pickPreferredArbiter ::
  "string list \<Rightarrow> string list \<Rightarrow> string \<Rightarrow> string option list \<Rightarrow> string option" where
  "pickPreferredArbiter pool bonded escrowId ex =
     (let bondedInPool = filter (\<lambda>pk. lower pk \<in> set (map lower pool)) bonded
      in case nonEmpty (if bondedInPool = [] then None else pickArbiterFromPool bondedInPool escrowId ex) of
           Some pk \<Rightarrow> Some pk
         | None \<Rightarrow> pickArbiterFromPool pool escrowId ex)"

lemma set_excludedKeys: "k \<in> set (excludedKeys ex) \<longleftrightarrow> (\<exists>x. Some x \<in> set ex \<and> x \<noteq> [] \<and> k = lower x)"
proof -
  have "set (List.map_filter nonEmpty ex) = {x. Some x \<in> set ex \<and> x \<noteq> []}"
    by (induction ex) (auto simp: List.map_filter_def nonEmpty_def split: if_splits option.splits)
  then show ?thesis by (auto simp: excludedKeys_def)
qed

lemma pickArbiterFromPool_candidates:
  "pickArbiterFromPool pool i ex = Some a
    \<Longrightarrow> a \<in> set (filter (\<lambda>pk. lower pk \<notin> set (excludedKeys ex)) pool)"
proof -
  assume pick: "pickArbiterFromPool pool i ex = Some a"
  let ?cs = "filter (\<lambda>pk. lower pk \<notin> set (excludedKeys ex)) pool"
  have mem: "?cs \<noteq> [] \<Longrightarrow> ?cs ! (n mod length ?cs) \<in> set ?cs" for n
    by (intro nth_mem mod_less_divisor) simp
  have "pickArbiterFromPool pool i ex = (case ?cs of [] \<Rightarrow> None | [c] \<Rightarrow> Some c
      | _ \<Rightarrow> Some (?cs ! (nat \<bar>sint (pickHash i)\<bar> mod length ?cs)))"
    by (simp only: pickArbiterFromPool_def Let_def)
  with pick mem show "a \<in> set ?cs"
    by (cases ?cs; cases "tl ?cs") (force split: list.splits)+
qed

lemma pickArbiterFromPool_None:
  "pickArbiterFromPool pool i ex = None
    \<longleftrightarrow> filter (\<lambda>pk. lower pk \<notin> set (excludedKeys ex)) pool = []"
  by (simp add: pickArbiterFromPool_def Let_def split: list.splits)

section \<open>The interface of a deterministic pick\<close>

text \<open>
  What the seat gates rely on: the pick is a member of \<open>pool\<close> up to letter case, it is never
  one of the excluded keys, and it is missing only when every pool member is excluded.
\<close>

locale pool_pick =
  fixes pick :: "string list \<Rightarrow> string \<Rightarrow> string option list \<Rightarrow> string option"
  assumes pick_member: "pick pool i ex = Some a \<Longrightarrow> lower a \<in> lower ` set pool"
    and pick_fresh: "pick pool i ex = Some a \<Longrightarrow> lower a \<notin> set (excludedKeys ex)"
    and pick_none: "pick pool i ex = None \<longleftrightarrow> lower ` set pool \<subseteq> set (excludedKeys ex)"
begin

lemma pick_not_excluded: "pick pool i ex = Some a \<Longrightarrow> Some x \<in> set ex \<Longrightarrow> a \<noteq> [] \<Longrightarrow> a \<noteq> x"
  using pick_fresh by (metis set_excludedKeys)

lemma pick_empty_pool: "pick [] i ex = None"
  by (simp add: pick_none)

lemma pick_available:
  "a \<in> set pool \<Longrightarrow> lower a \<notin> set (excludedKeys ex) \<Longrightarrow> \<exists>b. pick pool i ex = Some b"
  using pick_none [of pool i ex] by (cases "pick pool i ex") auto

end

interpretation legacy: pool_pick pickArbiterFromPool
proof unfold_locales
  fix pool i ex a
  assume "pickArbiterFromPool pool i ex = Some a"
  from pickArbiterFromPool_candidates [OF this]
  show "lower a \<in> lower ` set pool" and "lower a \<notin> set (excludedKeys ex)" by auto
next
  show "pickArbiterFromPool pool i ex = None \<longleftrightarrow> lower ` set pool \<subseteq> set (excludedKeys ex)" for pool i ex
    by (auto simp: pickArbiterFromPool_None filter_empty_conv)
qed

lemma pickPreferred_cases:
  assumes "pickPreferredArbiter pool bonded i ex = Some a"
  shows "pickArbiterFromPool pool i ex = Some a
    \<or> pickArbiterFromPool (filter (\<lambda>pk. lower pk \<in> set (map lower pool)) bonded) i ex = Some a"
  using assms
  by (auto simp: pickPreferredArbiter_def Let_def nonEmpty_def split: option.splits if_splits)

interpretation preferred: pool_pick "\<lambda>pool. pickPreferredArbiter pool bonded" for bonded
proof unfold_locales
  fix pool i ex a
  assume pick: "pickPreferredArbiter pool bonded i ex = Some a"
  show "lower a \<in> lower ` set pool"
    using pickPreferred_cases [OF pick]
  proof
    assume "pickArbiterFromPool pool i ex = Some a"
    then show ?thesis by (rule legacy.pick_member)
  next
    assume "pickArbiterFromPool (filter (\<lambda>pk. lower pk \<in> set (map lower pool)) bonded) i ex = Some a"
    from pickArbiterFromPool_candidates [OF this] show ?thesis by auto
  qed
  show "lower a \<notin> set (excludedKeys ex)"
    using pickPreferred_cases [OF pick] by (auto dest: legacy.pick_fresh)
next
  fix pool i ex
  show "pickPreferredArbiter pool bonded i ex = None \<longleftrightarrow> lower ` set pool \<subseteq> set (excludedKeys ex)"
  proof
    assume "pickPreferredArbiter pool bonded i ex = None"
    then have "pickArbiterFromPool pool i ex = None"
      by (auto simp: pickPreferredArbiter_def Let_def split: option.splits)
    then show "lower ` set pool \<subseteq> set (excludedKeys ex)" by (simp add: legacy.pick_none)
  next
    assume sub: "lower ` set pool \<subseteq> set (excludedKeys ex)"
    let ?b = "filter (\<lambda>pk. lower pk \<in> set (map lower pool)) bonded"
    have "pickArbiterFromPool ?b i ex = None"
      using sub by (auto simp: legacy.pick_none)
    moreover have "pickArbiterFromPool pool i ex = None"
      using sub by (simp add: legacy.pick_none)
    ultimately show "pickPreferredArbiter pool bonded i ex = None"
      by (simp only: pickPreferredArbiter_def Let_def) simp
  qed
qed

text \<open>With no bonded member of the pool the preferred pick is the legacy pick.\<close>

lemma pickPreferred_no_bonded:
  assumes "set (map lower bonded) \<inter> set (map lower pool) = {}"
  shows "pickPreferredArbiter pool bonded i ex = pickArbiterFromPool pool i ex"
proof -
  have "filter (\<lambda>pk. lower pk \<in> set (map lower pool)) bonded = []"
    using assms by (auto simp: filter_empty_conv)
  then show ?thesis by (simp only: pickPreferredArbiter_def Let_def) simp
qed

lemma pickArbiter_single:
  "filter (\<lambda>pk. lower pk \<notin> set (excludedKeys ex)) pool = [c] \<Longrightarrow> pickArbiterFromPool pool i ex = Some c"
  by (simp add: pickArbiterFromPool_def)

end
