(* ===== verification/Circle_Policy.thy ===== *)
theory Circle_Policy
  imports Rotation Arbiter_Pick
begin

text \<open>
  The laws of circles and their shares (\<open>src/chama/policy.ts\<close>): the derivation of a rotation
  from its cycle, the gate every circle or share CREATE must pass, the outcome law at the vote
  and resolve layer, the funding gate, and the writers that build lawful CREATE payloads.

  A check that answers \<open>string | null\<close> returns \<open>string option\<close>; a writer that throws returns
  \<open>Inl\<close> of the message. Rounds are safe integers, so an id comparison with \<open>roundCircleId\<close>
  (undefined below round 2) is a comparison with \<open>Some\<close> id.
\<close>

definition shareEscrowId :: "(string \<Rightarrow> string) \<Rightarrow> string \<Rightarrow> string \<Rightarrow> int \<Rightarrow> string" where
  "shareEscrowId sha circleId memberPubkey r =
     sha (''['' @ jsonString ''chama-share-v1'' @ '','' @ jsonString circleId @ '',''
            @ jsonString (lower memberPubkey) @ '','' @ showInt r @ '']'')"

definition withTerms :: "circle_terms \<Rightarrow> string \<Rightarrow> string \<Rightarrow> string \<Rightarrow> string \<Rightarrow> string \<Rightarrow> int \<Rightarrow> circle_round" where
  "withTerms t circleId creator community mintUrl name createdAt =
     \<lparr>ct_shareMsats = ct_shareMsats t, ct_seatThreshold = ct_seatThreshold t, ct_seatCap = ct_seatCap t,
      ct_unlisted = ct_unlisted t, ct_pot = ct_pot t, ct_fillDeadlineSec = ct_fillDeadlineSec t,
      ct_roundEndSec = ct_roundEndSec t, ct_roundIndex = ct_roundIndex t,
      ct_prevCircleId = ct_prevCircleId t, cr_circleId = circleId, cr_creatorPubkey = creator,
      cr_community = community, cr_mintUrl = mintUrl, cr_name = name, cr_createdAt = createdAt\<rparr>"

definition circleFromEscrow :: "chama_view \<Rightarrow> circle_round option" where
  "circleFromEscrow s =
     (if cv_category s \<noteq> ''chama'' then None
      else map_option (\<lambda>t. withTerms t (cv_id s) (cv_initiator s) (getOr (cv_community s) [])
             (cv_mintUrl s) (cv_description s) (cv_createdAt s)) (cv_chamaCircle s))"

section \<open>The rotation of a cycle\<close>

record rotation =
  ro_round1Id :: string
  ro_round1 :: circle_round
  ro_order :: "string list"

text \<open>
  Only a lawful round 1 of a rotation may anchor the cycle, and when a given round is to be
  proved, only the anchor whose deterministic chain produces that round's id.
\<close>

definition anchorCircle :: "(string \<Rightarrow> string) \<Rightarrow> (string \<times> int) option \<Rightarrow> chama_view \<Rightarrow> circle_round option" where
  "anchorCircle sha proves s = (case circleFromEscrow s of
     None \<Rightarrow> None
   | Some c \<Rightarrow>
       if ct_roundIndex c \<noteq> 1 \<or> ct_pot c \<noteq> Some ''rotation-v2'' \<or> validateCircleRound c \<noteq> [] then None
       else (case proves of
               Some (i, r) \<Rightarrow> if r \<ge> 2 \<and> roundCircleId sha (cv_id s) r \<noteq> Some i then None else Some c
             | None \<Rightarrow> Some c))"

fun rotationScan ::
  "(string \<Rightarrow> string) \<Rightarrow> (string \<times> int) option \<Rightarrow> chama_view list \<Rightarrow> string option \<Rightarrow> chama_view list
    \<Rightarrow> string + rotation" where
  "rotationScan sha proves shares firstError [] =
     Inl (getOr firstError ''Rotation cycle context must include a lawful round 1'')"
| "rotationScan sha proves shares firstError (s # ss) = (case anchorCircle sha proves s of
     None \<Rightarrow> rotationScan sha proves shares firstError ss
   | Some c \<Rightarrow>
       let order = rotationOrder (cv_id s) (cr_creatorPubkey c) (commitmentLocks (cv_id s) shares)
       in if length order < 3
          then rotationScan sha proves shares (Some ''A rotation needs at least three sealed members'') ss
          else if int (length order) < ct_seatThreshold c
          then rotationScan sha proves shares (Some ''The commitment round did not fill'') ss
          else Inr \<lparr>ro_round1Id = cv_id s, ro_round1 = c, ro_order = order\<rparr>)"

definition rotationFromCycle ::
  "(string \<Rightarrow> string) \<Rightarrow> chama_cycle \<Rightarrow> (string \<times> int) option \<Rightarrow> string + rotation" where
  "rotationFromCycle sha cycle proves = rotationScan sha proves (cy_shares cycle) None (cy_circles cycle)"

definition collectorOf :: "(string \<Rightarrow> string) \<Rightarrow> rotation \<Rightarrow> chama_cycle \<Rightarrow> int \<Rightarrow> string option" where
  "collectorOf sha rot cycle r =
     collectorForRound sha (ro_round1Id rot) (ro_order rot) (cr_creatorPubkey (ro_round1 rot)) (cy_shares cycle) r"

definition lockedBuyers :: "chama_cycle \<Rightarrow> string option \<Rightarrow> string list" where
  "lockedBuyers cycle parent =
     map (\<lambda>e. lower (getOr (cv_participants e BUYER) []))
       (filter (\<lambda>e. cv_chamaPolicy e = Some SHARE_V2 \<and> cv_parent e = parent \<and> cv_lockAt e \<noteq> None)
          (cy_shares cycle))"

definition roundStart :: "rotation \<Rightarrow> int \<Rightarrow> int" where
  "roundStart rot r = (let c = ro_round1 rot
     in ct_roundEndSec c + (r - 2) * (ct_roundEndSec c - cr_createdAt c))"

definition prevRoundId :: "(string \<Rightarrow> string) \<Rightarrow> rotation \<Rightarrow> int \<Rightarrow> string option" where
  "prevRoundId sha rot r = (if r = 2 then Some (ro_round1Id rot) else roundCircleId sha (ro_round1Id rot) (r - 1))"

definition chainedRoundError ::
  "(string \<Rightarrow> string) \<Rightarrow> circle_round \<Rightarrow> string \<Rightarrow> string \<Rightarrow> int \<Rightarrow> chama_cycle option \<Rightarrow> string option" where
  "chainedRoundError sha c i pubkey now cycle = (case cycle of
     None \<Rightarrow> Some ''A rotation round requires cycle context''
   | Some cy \<Rightarrow> (case rotationFromCycle sha cy (Some (i, ct_roundIndex c)) of
       Inl e \<Rightarrow> Some e
     | Inr rot \<Rightarrow>
         let r = ct_roundIndex c; round1 = ro_round1 rot; order = ro_order rot;
             duration = ct_roundEndSec round1 - cr_createdAt round1;
             fillWindow = ct_fillDeadlineSec round1 - cr_createdAt round1;
             start = roundStart rot r;
             seats = int (length order) - 1;
             prevCollector = collectorOf sha rot cy (r - 1)
         in firstFail
           [(Some i \<noteq> roundCircleId sha (ro_round1Id rot) r, ''Rotation round id must be deterministic''),
            (ct_prevCircleId c \<noteq> prevRoundId sha rot r, ''Rotation round must chain to the previous round''),
            (r > int (length order) + 1, ''No round beyond the rotation''),
            (lower pubkey \<notin> set order, ''Only a sealed member can open a rotation round''),
            (ct_shareMsats c \<noteq> ct_shareMsats round1 \<or> cr_community c \<noteq> cr_community round1
              \<or> cr_mintUrl c \<noteq> cr_mintUrl round1, ''Rotation rounds must keep the cycle terms''),
            (ct_seatThreshold c \<noteq> seats \<or> ct_seatCap c \<noteq> Some seats,
              ''Rotation round seats must equal the sealed members minus the collector''),
            (ct_unlisted c \<noteq> Some True, ''Rotation rounds are members-only''),
            (ct_fillDeadlineSec c \<noteq> start + fillWindow \<or> ct_roundEndSec c \<noteq> start + duration,
              ''Rotation rounds keep the cycle schedule''),
            (now < start, ''A rotation round cannot open before the previous round ends''),
            (now \<ge> ct_fillDeadlineSec c, ''This rotation round's fill window has passed''),
            (r > 2 \<and> prevCollector = None, ''The previous round has no lawful collector''),
            (r > 2 \<and> \<not> list_all (\<lambda>m. Some m = prevCollector
                \<or> m \<in> set (lockedBuyers cy (roundCircleId sha (ro_round1Id rot) (r - 1)))) order,
              ''The previous round did not fill'')]))"

section \<open>The CREATE gate\<close>

definition poolError :: "create_payload \<Rightarrow> string option" where
  "poolError p = firstFail
     [(\<not> list_all hex64 (getOr (cp_communityArbiters p) []), ''Invalid circle arbiter pool''),
      (\<not> list_all hex64 (getOr (cp_bondedArbiters p) []), ''Invalid circle arbiter pool''),
      (list_ex (\<lambda>pk. pk \<notin> set (getOr (cp_communityArbiters p) [])) (getOr (cp_bondedArbiters p) []),
       ''Bonded arbiters must belong to the circle pool'')]"

definition forbiddenKeys :: "create_payload \<Rightarrow> string list" where
  "forbiddenKeys p = map snd (filter fst
     [(cp_tranche p \<noteq> None, ''tranche''), (cp_trancheChild p \<noteq> None, ''trancheChild''),
      (cp_sliceCount p \<noteq> None, ''sliceCount''), (cp_settlementPolicy p \<noteq> None, ''settlementPolicy''),
      (cp_items p \<noteq> None, ''items''), (cp_stock p \<noteq> None, ''stock''),
      (cp_claimedQuantity p \<noteq> None, ''claimedQuantity''),
      (''subscription'' \<in> set (cp_extraKeys p), ''subscription''),
      (''amountRange'' \<in> set (cp_extraKeys p), ''amountRange''),
      (''minAmountMsats'' \<in> set (cp_extraKeys p), ''minAmountMsats''),
      (''maxAmountMsats'' \<in> set (cp_extraKeys p), ''maxAmountMsats'')])"

definition shapeError :: "create_payload \<Rightarrow> int \<Rightarrow> string option" where
  "shapeError p now = firstFail
     [(poolError p \<noteq> None, getOr (poolError p) []),
      (cp_createdAt p \<noteq> now \<or> \<not> isSafe now, ''CREATE timestamp mismatch''),
      (cp_escrowMode p \<noteq> None \<and> cp_escrowMode p \<noteq> Some ECASH, ''Circles and shares require ecash''),
      (forbiddenKeys p \<noteq> [], ''Chama forbids '' @ hd (forbiddenKeys p @ [[]]))]"

definition joinErrors :: "string list \<Rightarrow> string" where
  "joinErrors es = concat (case es of [] \<Rightarrow> [] | e # rest \<Rightarrow> e # map (\<lambda>x. ''; '' @ x) rest)"

text \<open>A chained round also keeps the arbiter pool and the federation of round 1.\<close>

definition roundPinsError ::
  "(string \<Rightarrow> string) \<Rightarrow> create_payload \<Rightarrow> string \<Rightarrow> int \<Rightarrow> chama_cycle option \<Rightarrow> string option" where
  "roundPinsError sha p i r cycle = (case cycle of
     None \<Rightarrow> None
   | Some cy \<Rightarrow> (case rotationFromCycle sha cy (Some (i, r)) of
       Inl e \<Rightarrow> Some e
     | Inr rot \<Rightarrow> (case List.find (\<lambda>st. cv_id st = ro_round1Id rot) (cy_circles cy) of
         None \<Rightarrow> None
       | Some round1State \<Rightarrow> firstFail
           [(getOr (cp_communityArbiters p) [] \<noteq> cv_communityArbiters round1State
              \<or> getOr (cp_bondedArbiters p) [] \<noteq> cv_bondedArbiters round1State,
             ''Rotation rounds must keep the cycle's arbiter pool''),
            (cp_fed p \<noteq> cv_fed round1State \<or> cp_fedPrefix p \<noteq> cv_fedPrefix round1State,
             ''Rotation rounds must keep the cycle's federation'')])))"

definition circleCreateError ::
  "(string \<Rightarrow> string) \<Rightarrow> create_payload \<Rightarrow> circle_terms \<Rightarrow> string \<Rightarrow> string \<Rightarrow> int \<Rightarrow> chama_cycle option
    \<Rightarrow> bool \<Rightarrow> string option" where
  "circleCreateError sha p terms i pubkey now cycle sim =
     (let c = withTerms terms i pubkey (getOr (cp_community p) []) (cp_mintUrl p) (cp_description p) now;
          errors = validateCircleRound c;
          rotating = (ct_pot c = Some ''rotation-v2'');
          chained = rotating \<and> ct_roundIndex c > 1;
          chainError = (if chained then chainedRoundError sha c i pubkey now cycle else None);
          pinsError = (if chained then roundPinsError sha p i (ct_roundIndex c) cycle else None)
      in firstFail
        [(errors \<noteq> [], joinErrors errors),
         (now + cp_expirySeconds p \<noteq> ct_roundEndSec c, ''Circle expiry must equal round end''),
         (ct_pot c \<noteq> None \<and> ct_pot c \<noteq> Some ''rotation-v2'', ''Unknown circle pot policy''),
         (rotating \<and> \<not> sim \<and> ct_roundIndex c = 1
            \<and> (ct_fillDeadlineSec c - now < 3600 \<or> ct_roundEndSec c - ct_fillDeadlineSec c < 3600),
          ''Pot circles need at least an hour to fill and an hour to run''),
         (chainError \<noteq> None, getOr chainError []),
         (pinsError \<noteq> None, getOr pinsError [])])"

text \<open>The rotation share's seller seat is the round's collector, derived from the chain.\<close>

definition rotationShareError ::
  "(string \<Rightarrow> string) \<Rightarrow> create_payload \<Rightarrow> string \<Rightarrow> string \<Rightarrow> circle_round \<Rightarrow> chama_cycle option \<Rightarrow> string option" where
  "rotationShareError sha p pubkey parentId circle cycle = (case cycle of
     None \<Rightarrow> Some ''A rotation share requires cycle context''
   | Some cy \<Rightarrow> (case rotationFromCycle sha cy (Some (parentId, ct_roundIndex circle)) of
       Inl e \<Rightarrow> Some e
     | Inr rot \<Rightarrow>
         let collector = collectorOf sha rot cy (ct_roundIndex circle) in firstFail
           [(Some parentId \<noteq> roundCircleId sha (ro_round1Id rot) (ct_roundIndex circle),
             ''Rotation share must sit in its cycle's round''),
            (collector = None \<or> cp_sellerPubkey p \<noteq> collector, ''Rotation share must pay the round's collector''),
            (lower pubkey \<notin> set (ro_order rot), ''Only sealed members lock rotation shares'')]))"

text \<open>A witness who is not the creator is a member whose own share locked before this one.\<close>

definition witnessError ::
  "(string \<Rightarrow> string) \<Rightarrow> string \<Rightarrow> string \<Rightarrow> int \<Rightarrow> int \<Rightarrow> chama_view option \<Rightarrow> string option" where
  "witnessError sha seller parentId r now witness = (case witness of
     None \<Rightarrow> Some ''Ring witness share is required''
   | Some w \<Rightarrow> firstFail
       [(cv_id w \<noteq> shareEscrowId sha parentId seller r, ''Ring witness share id mismatch''),
        (cv_chamaPolicy w \<noteq> Some SHARE_V1 \<or> cv_parent w \<noteq> Some parentId,
         ''Ring witness must hold a share in this circle''),
        (cv_participants w BUYER \<noteq> Some seller, ''Ring witness must own their share''),
        (case cv_lockAt w of None \<Rightarrow> True | Some t \<Rightarrow> t > now, ''Ring witness must lock before witnessing'')])"

definition shareCreateError ::
  "(string \<Rightarrow> string) \<Rightarrow> create_payload \<Rightarrow> string \<Rightarrow> string \<Rightarrow> int \<Rightarrow> chama_view \<Rightarrow> circle_round
    \<Rightarrow> chama_view option \<Rightarrow> chama_cycle option \<Rightarrow> string option" where
  "shareCreateError sha p i pubkey now parent circle witness cycle =
     (let seller = getOr (cp_sellerPubkey p) [];
          rotationRound = (ct_pot circle = Some ''rotation-v2'' \<and> ct_roundIndex circle \<ge> 2);
          v2 = (cp_chamaPolicy p = Some SHARE_V2);
          seatError = (if v2 then rotationShareError sha p pubkey (cv_id parent) circle cycle
                       else if cp_sellerPubkey p \<noteq> Some (cr_creatorPubkey circle)
                       then witnessError sha seller (cv_id parent) (ct_roundIndex circle) now witness
                       else None)
      in firstFail
        [(cp_amountMsats p \<noteq> ct_shareMsats circle, ''Share amount must equal circle share amount''),
         (now < cr_createdAt circle \<or> now \<ge> ct_fillDeadlineSec circle
            \<or> now + cp_expirySeconds p \<noteq> ct_roundEndSec circle, ''Share must use the circle's fixed deadlines''),
         (i \<noteq> shareEscrowId sha (cv_id parent) pubkey (ct_roundIndex circle), ''Share id must be deterministic''),
         (\<not> hex64 pubkey \<or> \<not> hex64 seller \<or> pubkey = seller, ''Share must seat distinct member and witness''),
         (rotationRound \<and> \<not> v2, ''Rotation rounds require share-v2''),
         (\<not> rotationRound \<and> v2, ''share-v2 requires a rotation round parent''),
         (seatError \<noteq> None, getOr seatError []),
         (cp_mintUrl p \<noteq> cv_mintUrl parent \<or> cp_community p \<noteq> cv_community parent
            \<or> cp_fed p \<noteq> cv_fed parent \<or> cp_fedPrefix p \<noteq> cv_fedPrefix parent,
          ''Share federation/community must match parent''),
         (getOr (cp_communityArbiters p) [] \<noteq> cv_communityArbiters parent
            \<or> getOr (cp_bondedArbiters p) [] \<noteq> cv_bondedArbiters parent,
          ''Share arbiter pool must match parent''),
         (nonEmpty (pickPreferredArbiter (getOr (cp_communityArbiters p) []) (getOr (cp_bondedArbiters p) [])
            i [Some pubkey, Some seller]) = None, ''Share requires a distinct pool arbiter''),
         (cp_platformFeeBps p \<noteq> 0 \<or> \<not> jsEqInt (getOr (cp_arbiterFeeMsats p) (jsInt 0)) 0,
          ''Shares return the full amount without fees'')])"

definition chamaCreateError ::
  "(string \<Rightarrow> string) \<Rightarrow> create_payload \<Rightarrow> string \<Rightarrow> string \<Rightarrow> int \<Rightarrow> chama_view option \<Rightarrow> chama_view option
    \<Rightarrow> chama_cycle option \<Rightarrow> bool \<Rightarrow> string option" where
  "chamaCreateError sha p i pubkey now parent witness cycle sim =
     (if cp_category p \<noteq> ''chama'' \<and> cp_category p \<noteq> ''chama-share''
         \<and> cp_chamaPolicy p = None \<and> cp_chamaCircle p = None then None
      else case shapeError p now of
        Some e \<Rightarrow> Some e
      | None \<Rightarrow>
          if cp_category p = ''chama'' then
            (case cp_chamaCircle p of
               None \<Rightarrow> Some ''Invalid circle parent shape''
             | Some terms \<Rightarrow>
                 if cp_chamaPolicy p \<noteq> None \<or> cp_parent p \<noteq> None then Some ''Invalid circle parent shape''
                 else circleCreateError sha p terms i pubkey now cycle sim)
          else if cp_category p \<noteq> ''chama-share'' \<or> cp_chamaPolicy p = None \<or> cp_chamaCircle p \<noteq> None
          then Some ''Invalid share policy/category''
          else (case parent of
              None \<Rightarrow> Some ''A validated circle parent is required''
            | Some par \<Rightarrow> (case circleFromEscrow par of
                None \<Rightarrow> Some ''A validated circle parent is required''
              | Some circle \<Rightarrow>
                  if validateCircleRound circle \<noteq> [] \<or> cp_parent p \<noteq> Some (cv_id par)
                  then Some ''A validated circle parent is required''
                  else shareCreateError sha p i pubkey now par circle witness cycle)))"

section \<open>The outcome law at the vote and resolve layer\<close>

text \<open>
  \<open>JObservePrincipal\<close> records a principal's own signed vote, \<open>JObserveArbiter\<close> and \<open>JFinalize\<close>
  judge the fill evidence the event itself commits, \<open>JIntent\<close> the caller's own cycle. A
  rotation share without circle terms (never built by the CREATE gate) is a type error.
\<close>

datatype outcome_judgment = JObservePrincipal | JObserveArbiter | JIntent | JFinalize

definition lawfulOutcomeError :: "round_outcome \<Rightarrow> outcome \<Rightarrow> string option" where
  "lawfulOutcomeError lawful oc =
     (if oc = RELEASE
      then (if lawful = RO_RELEASE then None else Some ''Release is only lawful for a filled round at its payday'')
      else (if lawful = RO_REFUND then None
            else Some ''Refund is not lawful while the round can still pay its collector''))"

definition provesOf :: "state \<Rightarrow> circle_terms \<Rightarrow> (string \<times> int) option" where
  "provesOf s circle = (case nonEmpty (st_parent s) of None \<Rightarrow> None | Some i \<Rightarrow> Some (i, ct_roundIndex circle))"

definition cycleSeatError ::
  "(string \<Rightarrow> string) \<Rightarrow> state \<Rightarrow> circle_terms \<Rightarrow> outcome \<Rightarrow> rotation \<Rightarrow> string option \<Rightarrow> string option" where
  "cycleSeatError sha s circle oc rot collector = firstFail
     [(collector = None \<or> nonEmpty (st_parent s) = None
         \<or> st_parent s \<noteq> roundCircleId sha (ro_round1Id rot) (ct_roundIndex circle),
       ''Rotation share is not part of this cycle''),
      (oc = RELEASE \<and> map_option lower (st_participants s SELLER) \<noteq> collector,
       ''Share does not pay this round's collector'')]"

definition committedEvidenceError ::
  "(string \<Rightarrow> string) \<Rightarrow> state \<Rightarrow> circle_terms \<Rightarrow> outcome \<Rightarrow> int \<Rightarrow> chama_cycle option \<Rightarrow> string list \<Rightarrow> string option" where
  "committedEvidenceError sha s circle oc now cycle locked =
     (let entries = map lower locked;
          lawful = roundOutcomeAt (ct_fillDeadlineSec circle) (ct_roundEndSec circle)
                     (int (length entries)) (ct_seatThreshold circle) now
      in if length entries > 128 \<or> \<not> list_all hex64 entries \<or> \<not> distinct entries
         then Some ''Malformed fill evidence''
         else case (case cycle of
                      None \<Rightarrow> None
                    | Some cy \<Rightarrow> (case rotationFromCycle sha cy (provesOf s circle) of
                        Inl _ \<Rightarrow> None
                      | Inr rot \<Rightarrow>
                          let collector = collectorOf sha rot cy (ct_roundIndex circle);
                              seat = cycleSeatError sha s circle oc rot collector
                          in firstFail
                            [(seat \<noteq> None, getOr seat []),
                             (list_ex (\<lambda>m. m \<notin> set (ro_order rot) \<or> Some m = collector) entries,
                              ''Fill evidence names a non-member'')])) of
                Some e \<Rightarrow> Some e
              | None \<Rightarrow> lawfulOutcomeError lawful oc)"

definition intentError ::
  "(string \<Rightarrow> string) \<Rightarrow> state \<Rightarrow> circle_terms \<Rightarrow> outcome \<Rightarrow> int \<Rightarrow> chama_cycle option \<Rightarrow> string option" where
  "intentError sha s circle oc now cycle = (case cycle of
     None \<Rightarrow> if oc = REFUND then None else Some ''Rotation share resolution requires cycle context''
   | Some cy \<Rightarrow> (case rotationFromCycle sha cy (provesOf s circle) of
       Inl e \<Rightarrow> Some e
     | Inr rot \<Rightarrow>
         let collector = collectorOf sha rot cy (ct_roundIndex circle);
             seat = cycleSeatError sha s circle oc rot collector;
             expected = filter (\<lambda>m. Some m \<noteq> collector) (ro_order rot);
             locked = filter (\<lambda>m. m \<in> set (lockedBuyers cy (st_parent s))) expected
         in case seat of
              Some e \<Rightarrow> Some e
            | None \<Rightarrow> lawfulOutcomeError
                (roundOutcomeAt (ct_fillDeadlineSec circle) (ct_roundEndSec circle)
                   (int (length locked)) (int (length expected)) now) oc))"

definition chamaOutcomeError ::
  "(string \<Rightarrow> string) \<Rightarrow> state \<Rightarrow> outcome \<Rightarrow> int \<Rightarrow> chama_cycle option \<Rightarrow> outcome_judgment \<Rightarrow> string list option
    \<Rightarrow> string option" where
  "chamaOutcomeError sha s oc now cycle judgment evidence = (case st_chamaPolicy s of
     None \<Rightarrow> None
   | Some SHARE_V1 \<Rightarrow> if oc = REFUND then None else Some ''Shares only allow REFUND''
   | Some SHARE_V2 \<Rightarrow>
       if judgment = JObservePrincipal then None
       else if judgment = JObserveArbiter \<or> judgment = JFinalize
       then (case evidence of
               None \<Rightarrow> Some ''Rotation share resolution must commit its fill evidence''
             | Some locked \<Rightarrow> (case st_chamaCircle s of
                 None \<Rightarrow> Some ''#THROW''
               | Some circle \<Rightarrow> committedEvidenceError sha s circle oc now cycle locked))
       else (case st_chamaCircle s of
               None \<Rightarrow> if cycle = None \<and> oc = REFUND then None
                      else if cycle = None then Some ''Rotation share resolution requires cycle context''
                      else Some ''#THROW''
             | Some circle \<Rightarrow> intentError sha s circle oc now cycle))"

definition fillEvidenceFor :: "string \<Rightarrow> chama_cycle \<Rightarrow> string list" where
  "fillEvidenceFor roundId cycle =
     sortWith (\<lambda>a b. a < b) (dedupe (filter (\<lambda>m. m \<noteq> []) (lockedBuyers cycle (Some roundId))))"

definition chamaFundingError :: "state \<Rightarrow> string \<Rightarrow> int \<Rightarrow> string option" where
  "chamaFundingError s pubkey now =
     (if st_category s = ''chama'' then Some ''Circle parents cannot hold funds''
      else if st_chamaPolicy s = None then None
      else firstFail
        [(st_status s \<noteq> CREATED \<or> (case st_chamaCircle s of None \<Rightarrow> True | Some c \<Rightarrow> now \<ge> ct_fillDeadlineSec c),
          ''Share funding window is closed''),
         (Some pubkey \<noteq> st_participants s BUYER, ''Only the member can fund their share'')])"

section \<open>Writers of lawful CREATE payloads\<close>

text \<open>A payload with every optional field absent.\<close>

definition plainCreate :: "string \<Rightarrow> string \<Rightarrow> int \<Rightarrow> string \<Rightarrow> string \<Rightarrow> int \<Rightarrow> int \<Rightarrow> create_payload" where
  "plainCreate description category amountMsats mintUrl platformFeePubkey expirySeconds createdAt =
     \<lparr>cp_listingKind = None, cp_description = description, cp_title = None, cp_body = None,
      cp_imageDataUrl = None, cp_imageUrls = None, cp_amountMsats = amountMsats, cp_fiatAmount = None,
      cp_fiatCurrency = None, cp_premiumBps = None, cp_category = category, cp_chamaPolicy = None,
      cp_chamaCircle = None, cp_fulfillment = None, cp_delivery = None, cp_community = None,
      cp_country = None, cp_billType = None, cp_workCategory = None, cp_tranche = None,
      cp_escrowMode = None, cp_onchainNetwork = None, cp_onchainAtomicRelease = None,
      cp_onchainPublicConduct = None, cp_settlementPolicy = None, cp_sliceCount = None,
      cp_escrowXonly = None, cp_mintUrl = mintUrl, cp_platformFeeBps = 0,
      cp_platformFeePubkey = platformFeePubkey, cp_arbiterFeeMsats = Some (jsInt 0),
      cp_paymentMethods = None, cp_items = None, cp_expirySeconds = expirySeconds,
      cp_communityArbiters = None, cp_bondedArbiters = None, cp_fedPrefix = None, cp_fed = None,
      cp_stock = None, cp_parent = None, cp_claimedQuantity = None, cp_sellerPubkey = None,
      cp_trancheChild = None, cp_extraKeys = [], cp_createdAt = createdAt\<rparr>"

record ring =
  ri_buyerPubkey :: string
  ri_locks :: "share_lock list"
  ri_enabled :: bool

definition latestWitness :: "string \<Rightarrow> int \<Rightarrow> ring \<Rightarrow> share_lock option" where
  "latestWitness parentId now ring =
     (let candidates = filter (\<lambda>l. sl_circleId l = parentId \<and> sl_status l = L_LOCKED
            \<and> (case sl_lockedAtSec l of None \<Rightarrow> False | Some t \<Rightarrow> t \<le> now)
            \<and> lower (sl_memberPubkey l) \<noteq> lower (ri_buyerPubkey ring)) (ri_locks ring)
      in case sortWith (\<lambda>a b. getOr (sl_lockedAtSec a) 0 > getOr (sl_lockedAtSec b) 0) candidates of
           [] \<Rightarrow> None | l # _ \<Rightarrow> Some l)"

definition shareWitness :: "circle_round \<Rightarrow> chama_view \<Rightarrow> int \<Rightarrow> ring option \<Rightarrow> string + string" where
  "shareWitness circle parent now ring = (case ring of
     None \<Rightarrow> Inr (cr_creatorPubkey circle)
   | Some rg \<Rightarrow>
       if \<not> ri_enabled rg then Inr (cr_creatorPubkey circle)
       else (case latestWitness (cv_id parent) now rg of
               Some l \<Rightarrow> Inr (sl_memberPubkey l)
             | None \<Rightarrow> if lower (ri_buyerPubkey rg) = lower (cr_creatorPubkey circle)
                      then Inl ''Hosts lock last: another member must lock first''
                      else Inr (cr_creatorPubkey circle)))"

definition shareCreatePayload :: "chama_view \<Rightarrow> int \<Rightarrow> ring option \<Rightarrow> string + create_payload" where
  "shareCreatePayload parent now ring = (case circleFromEscrow parent of
     None \<Rightarrow> Inl ''A validated circle parent is required''
   | Some circle \<Rightarrow>
       if validateCircleRound circle \<noteq> [] then Inl ''A validated circle parent is required''
       else (case shareWitness circle parent now ring of
         Inl e \<Rightarrow> Inl e
       | Inr seller \<Rightarrow>
           Inr ((plainCreate (cr_name circle) ''chama-share'' (ct_shareMsats circle) (cv_mintUrl parent)
                   (cv_platformFeePubkey parent) (ct_roundEndSec circle - now) now)
                \<lparr>cp_chamaPolicy := Some SHARE_V1, cp_parent := Some (cv_id parent),
                 cp_sellerPubkey := Some seller, cp_community := cv_community parent,
                 cp_fed := cv_fed parent, cp_fedPrefix := cv_fedPrefix parent,
                 cp_communityArbiters := Some (cv_communityArbiters parent),
                 cp_bondedArbiters := Some (cv_bondedArbiters parent)\<rparr>)))"

definition rotationShareCreatePayload ::
  "(string \<Rightarrow> string) \<Rightarrow> chama_view \<Rightarrow> int \<Rightarrow> string \<Rightarrow> chama_cycle \<Rightarrow> string + create_payload" where
  "rotationShareCreatePayload sha parent now buyerPubkey cycle = (case circleFromEscrow parent of
     None \<Rightarrow> Inl ''A rotation round parent is required''
   | Some circle \<Rightarrow>
       if ct_pot circle \<noteq> Some ''rotation-v2'' \<or> ct_roundIndex circle < 2
       then Inl ''A rotation round parent is required''
       else (case rotationFromCycle sha cycle None of
         Inl e \<Rightarrow> Inl e
       | Inr rot \<Rightarrow> (case collectorOf sha rot cycle (ct_roundIndex circle) of
           None \<Rightarrow> Inl ''No lawful collector for this round''
         | Some collector \<Rightarrow>
             if lower buyerPubkey = collector then Inl ''The collector sits out their own round''
             else if lower buyerPubkey \<notin> set (ro_order rot) then Inl ''Only sealed members lock rotation shares''
             else map_sum id (\<lambda>p. p\<lparr>cp_chamaPolicy := Some SHARE_V2, cp_sellerPubkey := Some collector\<rparr>)
                    (shareCreatePayload parent now None))))"

text \<open>The highest chained round of the cycle that is already published.\<close>

definition lastRound :: "(string \<Rightarrow> string) \<Rightarrow> string \<Rightarrow> chama_view list \<Rightarrow> int" where
  "lastRound sha round1Id circles = foldl (\<lambda>l s. case circleFromEscrow s of
       None \<Rightarrow> l
     | Some c \<Rightarrow> if ct_pot c = Some ''rotation-v2'' \<and> ct_roundIndex c \<ge> 2
           \<and> Some (cv_id s) = roundCircleId sha round1Id (ct_roundIndex c) \<and> ct_roundIndex c > l
         then ct_roundIndex c else l) 1 circles"

definition nextRotationRoundPayload ::
  "(string \<Rightarrow> string) \<Rightarrow> chama_cycle \<Rightarrow> int \<Rightarrow> string + (string option \<times> create_payload)" where
  "nextRotationRoundPayload sha cycle now = (case rotationFromCycle sha cycle None of
     Inl e \<Rightarrow> Inl e
   | Inr rot \<Rightarrow>
       let round1 = ro_round1 rot; round1Id = ro_round1Id rot; order = ro_order rot;
           r = lastRound sha round1Id (cy_circles cycle) + 1;
           duration = ct_roundEndSec round1 - cr_createdAt round1;
           fillWindow = ct_fillDeadlineSec round1 - cr_createdAt round1;
           start = roundStart rot r;
           seats = int (length order) - 1
       in guarded
            [(r > int (length order) + 1, ''The cycle is complete''),
             (now < start, ''The previous round has not ended''),
             (now \<ge> start + fillWindow, ''The round's fill window has passed'')]
            (case List.find (\<lambda>st. cv_id st = round1Id) (cy_circles cycle) of
               None \<Rightarrow> Inl ''#THROW''
             | Some r1 \<Rightarrow> Inr (roundCircleId sha round1Id r,
                 (plainCreate (cr_name round1) ''chama'' (ct_shareMsats round1) (cr_mintUrl round1)
                    (cv_platformFeePubkey r1) (start + duration - now) now)
                 \<lparr>cp_chamaCircle := Some \<lparr>ct_shareMsats = ct_shareMsats round1, ct_seatThreshold = seats,
                     ct_seatCap = Some seats, ct_unlisted = Some True, ct_pot = Some ''rotation-v2'',
                     ct_fillDeadlineSec = start + fillWindow, ct_roundEndSec = start + duration,
                     ct_roundIndex = r, ct_prevCircleId = prevRoundId sha rot r\<rparr>,
                  cp_community := nonEmpty (Some (cr_community round1)), cp_fed := cv_fed r1,
                  cp_fedPrefix := cv_fedPrefix r1,
                  cp_communityArbiters := Some (cv_communityArbiters r1),
                  cp_bondedArbiters := Some (cv_bondedArbiters r1)\<rparr>)))"

section \<open>Lemmas\<close>

lemma circleFromEscrow_fields:
  "circleFromEscrow s = Some c \<Longrightarrow>
    cr_circleId c = cv_id s \<and> cr_creatorPubkey c = cv_initiator s \<and> cr_createdAt c = cv_createdAt s
    \<and> cr_mintUrl c = cv_mintUrl s \<and> cr_name c = cv_description s \<and> cr_community c = getOr (cv_community s) []"
  by (auto simp: circleFromEscrow_def withTerms_def split: if_splits)

lemma rotationScan_Inr:
  "rotationScan sha proves shares e ss = Inr rot \<Longrightarrow>
    \<exists>s\<in>set ss. anchorCircle sha proves s = Some (ro_round1 rot) \<and> ro_round1Id rot = cv_id s
      \<and> ro_order rot = rotationOrder (cv_id s) (cr_creatorPubkey (ro_round1 rot)) (commitmentLocks (cv_id s) shares)
      \<and> 3 \<le> length (ro_order rot) \<and> ct_seatThreshold (ro_round1 rot) \<le> int (length (ro_order rot))"
  by (induction ss arbitrary: e) (auto simp: Let_def split: option.splits if_splits)

lemma anchorCircle_SomeD:
  "anchorCircle sha proves s = Some c \<Longrightarrow>
    circleFromEscrow s = Some c \<and> ct_roundIndex c = 1 \<and> lawfulCircle c
    \<and> (\<forall>i r. proves = Some (i, r) \<longrightarrow> r \<ge> 2 \<longrightarrow> roundCircleId sha (cv_id s) r = Some i)"
  by (auto simp: anchorCircle_def lawfulCircle_def split: option.splits if_splits prod.splits)

lemma rotationFromCycle_Inr:
  assumes "rotationFromCycle sha cy proves = Inr rot"
  shows "lawfulCircle (ro_round1 rot)" "distinct (ro_order rot)" "3 \<le> length (ro_order rot)"
    "ct_seatThreshold (ro_round1 rot) \<le> int (length (ro_order rot))"
    "\<exists>s\<in>set (cy_circles cy). cv_id s = ro_round1Id rot \<and> circleFromEscrow s = Some (ro_round1 rot)"
    "proves = Some (i, r) \<Longrightarrow> r \<ge> 2 \<Longrightarrow> roundCircleId sha (ro_round1Id rot) r = Some i"
proof -
  from assms obtain s where s: "s \<in> set (cy_circles cy)" "anchorCircle sha proves s = Some (ro_round1 rot)"
    "ro_round1Id rot = cv_id s" "3 \<le> length (ro_order rot)"
    "ct_seatThreshold (ro_round1 rot) \<le> int (length (ro_order rot))"
    "ro_order rot = rotationOrder (cv_id s) (cr_creatorPubkey (ro_round1 rot)) (commitmentLocks (cv_id s) (cy_shares cy))"
    unfolding rotationFromCycle_def by (blast dest: rotationScan_Inr)
  from anchorCircle_SomeD [OF s(2)] s(1,3-5)
  show "lawfulCircle (ro_round1 rot)" "3 \<le> length (ro_order rot)"
    "ct_seatThreshold (ro_round1 rot) \<le> int (length (ro_order rot))"
    "\<exists>s\<in>set (cy_circles cy). cv_id s = ro_round1Id rot \<and> circleFromEscrow s = Some (ro_round1 rot)"
    "proves = Some (i, r) \<Longrightarrow> r \<ge> 2 \<Longrightarrow> roundCircleId sha (ro_round1Id rot) r = Some i"
    by auto
  show "distinct (ro_order rot)" unfolding s(6) by (rule rotationOrder_distinct)
qed

lemma collectorOf_in_order: "collectorOf sha rot cy r = Some c \<Longrightarrow> c \<in> set (ro_order rot)"
  unfolding collectorOf_def by (rule collectorForRound_in_order)

lemma chamaOutcome_v1: "st_chamaPolicy s = Some SHARE_V1 \<Longrightarrow>
    chamaOutcomeError sha s oc now cycle j ev = None \<longleftrightarrow> oc = REFUND"
  by (simp add: chamaOutcomeError_def)

lemma lawfulOutcomeError_None:
  "lawfulOutcomeError lawful oc = None \<longleftrightarrow> (oc = RELEASE \<and> lawful = RO_RELEASE) \<or> (oc = REFUND \<and> lawful = RO_REFUND)"
  by (cases oc) (auto simp: lawfulOutcomeError_def)

lemma committedEvidence_lawful:
  assumes "committedEvidenceError sha s circle oc now cycle locked = None"
  shows "lawfulOutcomeError (roundOutcomeAt (ct_fillDeadlineSec circle) (ct_roundEndSec circle)
           (int (length locked)) (ct_seatThreshold circle) now) oc = None"
  using assms by (auto simp: committedEvidenceError_def Let_def split: if_splits option.splits)

end
