(* ===== verification/Trade_Identity.thy ===== *)
theory Trade_Identity
  imports Circle_Policy
begin

text \<open>
  Trade identity (\<open>src/escrow-engine/trade-identity.ts\<close>) and the sim tag
  (\<open>src/protocol/core/sim-tag.ts\<close>): a creator-tagged id carries sixteen hexadecimal digits of
  its creator's key, and \<open>selectTradeRoot\<close> decides which CREATE may root a replay. The regular
  expression of a tagged id is read by splitting at underscores.
\<close>

definition eventIsSim :: "event \<Rightarrow> bool" where
  "eventIsSim e = list_ex (\<lambda>t. t \<noteq> [] \<and> hd t = ''chama-sim'') (ev_tags e)"

fun splitOn :: "char \<Rightarrow> string \<Rightarrow> string list" where
  "splitOn c [] = [[]]"
| "splitOn c (x # xs) = (if x = c then [] # splitOn c xs
     else case splitOn c xs of [] \<Rightarrow> [[x]] | w # ws \<Rightarrow> (x # w) # ws)"

definition base36 :: "string \<Rightarrow> bool" where
  "base36 s \<longleftrightarrow> s \<noteq> [] \<and> list_all (\<lambda>c. isDigitChar c \<or> isLowerAlpha c) s"

definition CREATOR_TAG_HEX :: nat where "CREATOR_TAG_HEX = 16"

definition hexTag :: "string \<Rightarrow> bool" where
  "hexTag s \<longleftrightarrow> length s = CREATOR_TAG_HEX \<and> list_all isHexChar s"

definition creatorTaggedEscrowId :: "string \<Rightarrow> string \<Rightarrow> string \<Rightarrow> string option" where
  "creatorTaggedEscrowId time random creatorPubkey =
     (let pk = lower creatorPubkey in
      if \<not> hex64 pk then None
      else Some (''sm_'' @ time @ ''_'' @ take CREATOR_TAG_HEX pk @ ''_'' @ random))"

definition escrowIdCreatorTag :: "string \<Rightarrow> string option" where
  "escrowIdCreatorTag i = (case splitOn (CHR ''_'') i of
     [p, t, tag, r] \<Rightarrow> if p = ''sm'' \<and> base36 t \<and> hexTag tag \<and> base36 r then Some tag else None
   | _ \<Rightarrow> None)"

definition creatorMatchesEscrowId :: "string \<Rightarrow> string \<Rightarrow> bool" where
  "creatorMatchesEscrowId i pubkey = (case escrowIdCreatorTag i of
     None \<Rightarrow> True | Some tag \<Rightarrow> take (length tag) (lower pubkey) = tag)"

definition isRotationRound :: "event \<Rightarrow> bool" where
  "isRotationRound e = (case ev_payload e of
     PCreate p \<Rightarrow> cp_category p = ''chama''
       \<and> (case cp_chamaCircle p of None \<Rightarrow> False
          | Some c \<Rightarrow> ct_pot c = Some ''rotation-v2'' \<and> ct_roundIndex c \<ge> 2)
   | _ \<Rightarrow> False)"

definition lawfulCreate :: "(string \<Rightarrow> string) \<Rightarrow> event \<Rightarrow> bool" where
  "lawfulCreate sha e = (case ev_payload e of
     PCreate p \<Rightarrow> chamaCreateError sha p (ev_escrowId e) (ev_pubkey e) (ev_timestamp e)
       (ev_chamaParent e) (ev_chamaWitness e) (ev_chamaCycle e) (eventIsSim e) = None
   | _ \<Rightarrow> False)"

definition timeIdBefore :: "int \<times> string \<Rightarrow> int \<times> string \<Rightarrow> bool" where
  "timeIdBefore a b = (if fst a \<noteq> fst b then fst a < fst b else snd a < snd b)"

interpretation timeId: comparator timeIdBefore
proof unfold_locales
  fix x y z :: "int \<times> string"
  show "timeIdBefore x y \<Longrightarrow> \<not> timeIdBefore y x" by (auto simp: timeIdBefore_def split: if_splits)
  show "timeIdBefore x y \<Longrightarrow> timeIdBefore y z \<Longrightarrow> timeIdBefore x z"
    by (auto simp: timeIdBefore_def split: if_splits)
  show "x \<noteq> y \<Longrightarrow> timeIdBefore x y \<or> timeIdBefore y x"
    by (cases x; cases y) (auto simp: timeIdBefore_def)
qed

definition byTimeId :: "event list \<Rightarrow> event list" where
  "byTimeId es = sortWith (\<lambda>a b. timeIdBefore (ev_timestamp a, ev_id a) (ev_timestamp b, ev_id b)) es"

definition isCreate :: "event \<Rightarrow> bool" where
  "isCreate e \<longleftrightarrow> ev_kind e = K_CREATE"

text \<open>The events to replay (in order) and the CREATEs set aside, or the code of a refusal.\<close>

definition selectTradeRoot ::
  "(string \<Rightarrow> string) \<Rightarrow> event list \<Rightarrow> string option \<Rightarrow> errcode + (event list \<times> event list)" where
  "selectTradeRoot sha es creator =
     (let creates = filter isCreate es;
          rounds = filter isRotationRound creates;
          valid = byTimeId (filter (lawfulCreate sha) rounds);
          others = filter (\<lambda>e. \<not> isCreate e) es
      in if creates = [] then Inr (es, [])
         else if valid \<noteq> []
         then Inr (valid @ others, filter (\<lambda>e. \<not> (isRotationRound e \<and> lawfulCreate sha e)) creates)
         else if length rounds = length creates then Inl ''INVALID_CHAMA''
         else case nonEmpty (map_option lower creator) of
             Some k \<Rightarrow>
               let ignored = filter (\<lambda>e. lower (ev_pubkey e) \<noteq> k) creates
               in if length ignored = length creates then Inl ''CREATOR_NOT_FOUND''
                  else Inr (filter (\<lambda>e. \<not> (isCreate e \<and> lower (ev_pubkey e) \<noteq> k)) es, ignored)
           | None \<Rightarrow>
               if length (dedupe (map (\<lambda>e. lower (ev_pubkey e)) creates)) > 1
               then Inl ''CONFLICTING_CREATES'' else Inr (es, []))"

section \<open>Lemmas\<close>

lemma splitOn_no: "c \<notin> set w \<Longrightarrow> splitOn c (w @ c # rest) = w # splitOn c rest"
  by (induction w) auto

lemma splitOn_last: "c \<notin> set w \<Longrightarrow> splitOn c w = [w]"
  by (induction w) auto

lemma underscore_chars [simp]: "\<not> isDigitChar (CHR ''_'')" "\<not> isLowerAlpha (CHR ''_'')" "\<not> isHexChar (CHR ''_'')"
  by (simp_all add: isDigitChar_def isLowerAlpha_def isHexChar_def)

lemma no_underscore: "base36 s \<Longrightarrow> CHR ''_'' \<notin> set s" "list_all isHexChar s \<Longrightarrow> CHR ''_'' \<notin> set s"
  unfolding base36_def list_all_iff using underscore_chars by blast+

text \<open>An id built with a creator's tag is read back as that tag, and admits only keys that start with it.\<close>

lemma creatorTag_roundtrip:
  assumes "creatorTaggedEscrowId time random creator = Some i" "base36 time" "base36 random"
  shows "escrowIdCreatorTag i = Some (take CREATOR_TAG_HEX (lower creator))"
proof -
  let ?tag = "take CREATOR_TAG_HEX (lower creator)"
  from assms(1) have pk: "hex64 (lower creator)" and i: "i = ''sm'' @ CHR ''_'' # time @ CHR ''_'' # ?tag @ CHR ''_'' # random"
    by (auto simp: creatorTaggedEscrowId_def Let_def split: if_splits)
  from pk have tag: "length ?tag = CREATOR_TAG_HEX" "list_all isHexChar ?tag"
    by (auto simp: hex64_def CREATOR_TAG_HEX_def list_all_iff dest: in_set_takeD)
  have "splitOn (CHR ''_'') i = [''sm'', time, ?tag, random]"
    unfolding i using no_underscore(1) [OF assms(2)] no_underscore(1) [OF assms(3)] no_underscore(2) [OF tag(2)]
    by (simp add: splitOn_no splitOn_last del: append_Cons)
  then show ?thesis using assms(2,3) tag by (simp add: escrowIdCreatorTag_def hexTag_def)
qed

lemma creatorMatches_tag:
  "creatorMatchesEscrowId i pk \<Longrightarrow> escrowIdCreatorTag i = Some tag \<Longrightarrow> take (length tag) (lower pk) = tag"
  by (simp add: creatorMatchesEscrowId_def)

lemma selectTradeRoot_keeps_others:
  assumes "selectTradeRoot sha es creator = Inr (kept, ignored)" "e \<in> set es" "\<not> isCreate e"
  shows "e \<in> set kept"
  using assms by (auto simp: selectTradeRoot_def Let_def split: if_splits option.splits)

lemma selectTradeRoot_subset:
  "selectTradeRoot sha es creator = Inr (kept, ignored) \<Longrightarrow> set kept \<union> set ignored \<subseteq> set es"
  by (auto simp: selectTradeRoot_def Let_def byTimeId_def split: if_splits option.splits)

end
