(* ===== verification/Slice_Policy.thy ===== *)
theory Slice_Policy
  imports Escrow_Types
begin

text \<open>
  Settlement policies and sequential slicing (\<open>src/escrow-engine/slice-policy.ts\<close> and the pure
  planning part of \<open>src/escrow-engine/tranche-plan.ts\<close>): the exposure cap, the derived slice
  count, the two splitters and the validation of a signed plan start. A thrown exception is
  \<open>Inl\<close> of its message.
\<close>

definition MAX_SLICE_EXPOSURE_MSATS :: int where
  "MAX_SLICE_EXPOSURE_MSATS = 2000000 * 1000"

definition MAX_SLICE_COUNT :: int where
  "MAX_SLICE_COUNT = 100"

definition SETTLEMENT_POLICY_ONCHAIN_FULL :: string where
  "SETTLEMENT_POLICY_ONCHAIN_FULL = ''onchain-full-collateral-single-settlement-v1''"

definition SETTLEMENT_POLICY_ECASH_SLICES :: string where
  "SETTLEMENT_POLICY_ECASH_SLICES = ''ecash-mutual-slices-v1''"

fun defaultSettlementPolicy :: "mode \<Rightarrow> string" where
  "defaultSettlementPolicy ONCHAIN = SETTLEMENT_POLICY_ONCHAIN_FULL"
| "defaultSettlementPolicy ECASH = SETTLEMENT_POLICY_ECASH_SLICES"

definition settlementPolicyMatchesMode :: "string option \<Rightarrow> mode \<Rightarrow> bool" where
  "settlementPolicyMatchesMode policy m \<longleftrightarrow>
     getOr policy (defaultSettlementPolicy m) = defaultSettlementPolicy m"

text \<open>\<open>Math.ceil(a / b)\<close> for integers in the safe range.\<close>

definition ceilDiv :: "int \<Rightarrow> int \<Rightarrow> int" where
  "ceilDiv a b = - ((- a) div b)"

definition minSlicesForCap :: "int \<Rightarrow> string + int" where
  "minSlicesForCap totalMsats =
     (if \<not> isSafe totalMsats \<or> totalMsats \<le> 0
      then Inl ''totalMsats must be a positive safe integer''
      else Inr (max 1 (ceilDiv totalMsats MAX_SLICE_EXPOSURE_MSATS)))"

function splitLoop :: "int \<Rightarrow> int \<Rightarrow> int \<Rightarrow> tranche_row list" where
  "splitLoop remaining cap index =
     (if 0 < remaining \<and> 0 < cap
      then \<lparr>td_index = index, td_amountMsats = min remaining cap\<rparr>
             # splitLoop (remaining - min remaining cap) cap (index + 1)
      else [])"
  by pat_completeness auto
termination
  by (relation "measure (\<lambda>(r, c, i). nat r)") auto

declare splitLoop.simps [simp del]

definition splitTranches :: "int \<Rightarrow> int \<Rightarrow> string + tranche_row list" where
  "splitTranches totalMsats maximumChildMsats =
     guarded
       [(\<not> isSafe totalMsats \<or> totalMsats \<le> 0, ''Total must be positive integer msats''),
        (\<not> isSafe maximumChildMsats \<or> maximumChildMsats \<le> 0, ''Child maximum must be positive integer msats'')]
       (Inr (splitLoop totalMsats maximumChildMsats 0))"

definition splitEven :: "int \<Rightarrow> int \<Rightarrow> tranche_row list" where
  "splitEven totalMsats cnt =
     (let base = totalMsats div cnt; remainder = totalMsats - base * cnt
      in map (\<lambda>i. \<lparr>td_index = int i,
                   td_amountMsats = base + (if int i < remainder then 1 else 0)\<rparr>)
             [0..<nat cnt])"

record slice_plan =
  pl_sliceCount :: int
  pl_tranches :: "tranche_row list"
  pl_maxSliceMsats :: int
  pl_capForcedUp :: bool

definition deriveSlicePlan :: "int \<Rightarrow> int \<Rightarrow> string + slice_plan" where
  "deriveSlicePlan totalMsats userCount =
     guarded
       [(\<not> isSafe userCount \<or> userCount < 1, ''userCount must be a positive safe integer (1 = single settlement)''),
        (userCount > MAX_SLICE_COUNT, ''userCount exceeds MAX_SLICE_COUNT''),
        (totalMsats < userCount * 1000, ''totalMsats too small for a positive amount in every slice'')]
       (case minSlicesForCap totalMsats of
          Inl e \<Rightarrow> Inl e
        | Inr flr \<Rightarrow>
            if flr > MAX_SLICE_COUNT then Inl ''totalMsats requires more than MAX_SLICE_COUNT slices''
            else let sliceCount = max userCount flr in
              (case splitTranches totalMsats MAX_SLICE_EXPOSURE_MSATS of
                 Inl e \<Rightarrow> Inl e
               | Inr tranches \<Rightarrow>
                   let final = (if sliceCount = int (length tranches) then tranches
                                else splitEven totalMsats sliceCount)
                   in Inr \<lparr>pl_sliceCount = sliceCount, pl_tranches = final,
                           pl_maxSliceMsats = Max (set (map td_amountMsats final)),
                           pl_capForcedUp = (flr > userCount)\<rparr>))"

section \<open>Validation of a plan start\<close>

text \<open>The row loop: the first bad row's error, or the sum of the amounts.\<close>

fun planRows :: "int option \<Rightarrow> int \<Rightarrow> int \<Rightarrow> tranche_row list \<Rightarrow> string + int" where
  "planRows cap index tot [] = Inr tot"
| "planRows cap index tot (r # rs) =
     (if td_index r \<noteq> index \<or> \<not> isSafe (td_amountMsats r) \<or> td_amountMsats r \<le> 0
      then Inl ''invalid tranche descriptor''
      else if (case cap of None \<Rightarrow> False | Some c \<Rightarrow> td_amountMsats r > c)
      then Inl ''tranche exceeds slice cap''
      else planRows cap (index + 1) (tot + td_amountMsats r) rs)"

definition validatePlanStart :: "plan_start \<Rightarrow> string option" where
  "validatePlanStart p =
     (case firstFail
        [(\<not> hex64 (ps_planId p) \<or> \<not> hex64 (ps_termsDigest p), ''invalid plan or terms digest''),
         (\<not> hex64 (ps_buyerPubkey p) \<or> \<not> hex64 (ps_sellerPubkey p) \<or> \<not> hex64 (ps_arbiterPubkey p),
          ''invalid participant pubkey''),
         (ps_coordinatorPubkey p \<noteq> ps_sellerPubkey p, ''coordinator must be the parent initiator/seller''),
         (ps_total p < 1 \<or> ps_total p > 100, ''invalid tranche count''),
         (\<not> isSafe (ps_totalMsats p) \<or> ps_totalMsats p \<le> 0, ''invalid total amount''),
         (int (length (ps_tranches p)) \<noteq> ps_total p, ''tranche count mismatch''),
         (case ps_sliceCount p of None \<Rightarrow> False | Some n \<Rightarrow> n \<noteq> ps_total p, ''slice count mismatch''),
         (case ps_sliceCapMsats p of None \<Rightarrow> False | Some c \<Rightarrow> \<not> isSafe c \<or> c \<le> 0, ''invalid slice cap'')]
      of Some e \<Rightarrow> Some e
       | None \<Rightarrow> (case planRows (ps_sliceCapMsats p) 0 0 (ps_tranches p) of
           Inl e \<Rightarrow> Some e
         | Inr tot \<Rightarrow> if tot = ps_totalMsats p then None else Some ''tranche amount mismatch''))"

section \<open>The splitters\<close>

lemma ceilDiv_bounds:
  assumes "0 < b"
  shows "a \<le> ceilDiv a b * b" and "(ceilDiv a b - 1) * b < a"
proof -
  define q r where "q = (- a) div b" and "r = (- a) mod b"
  have "q * b + r = - a" unfolding q_def r_def by (rule div_mult_mod_eq)
  moreover have "0 \<le> r" "r < b" using assms by (simp_all add: r_def)
  moreover have "ceilDiv a b = - q" by (simp add: ceilDiv_def q_def)
  ultimately show "a \<le> ceilDiv a b * b" and "(ceilDiv a b - 1) * b < a"
    by (simp_all add: algebra_simps)
qed

lemma ceilDiv_unique:
  assumes "0 < b" "a \<le> k * b" "(k - 1) * b < a"
  shows "ceilDiv a b = k"
proof -
  have "ceilDiv a b \<le> k"
  proof (rule ccontr)
    assume "\<not> ceilDiv a b \<le> k"
    then have "k * b \<le> (ceilDiv a b - 1) * b" using assms(1) by (intro mult_right_mono) auto
    with ceilDiv_bounds(2) [OF assms(1), of a] assms(2) show False by linarith
  qed
  moreover have "k \<le> ceilDiv a b"
  proof (rule ccontr)
    assume "\<not> k \<le> ceilDiv a b"
    then have "ceilDiv a b * b \<le> (k - 1) * b" using assms(1) by (intro mult_right_mono) auto
    with ceilDiv_bounds(1) [OF assms(1), of a] assms(3) show False by linarith
  qed
  ultimately show ?thesis by simp
qed

lemma ceilDiv_eq:
  assumes "0 < b"
  shows "ceilDiv a b = a div b + (if a mod b = 0 then 0 else 1)"
proof (rule ceilDiv_unique [OF assms])
  define q r where "q = a div b" and "r = a mod b"
  have "q * b + r = a" unfolding q_def r_def by (rule div_mult_mod_eq)
  moreover have "0 \<le> r" "r < b" using assms by (simp_all add: r_def)
  ultimately show "a \<le> (a div b + (if a mod b = 0 then 0 else 1)) * b"
    "(a div b + (if a mod b = 0 then 0 else 1) - 1) * b < a"
    by (simp_all flip: q_def r_def add: algebra_simps)
qed

lemma splitLoop_sum:
  "0 < cap \<Longrightarrow> 0 \<le> remaining \<Longrightarrow> (\<Sum>t\<leftarrow>splitLoop remaining cap index. td_amountMsats t) = remaining"
proof (induction remaining cap index rule: splitLoop.induct)
  case (1 remaining cap index)
  then show ?case by (subst splitLoop.simps) (auto simp: min_def)
qed

lemma splitLoop_bounds:
  "t \<in> set (splitLoop remaining cap index) \<Longrightarrow> 0 < td_amountMsats t \<and> td_amountMsats t \<le> cap"
proof (induction remaining cap index rule: splitLoop.induct)
  case (1 remaining cap index)
  then show ?case by (subst (asm) (2) splitLoop.simps) (auto split: if_splits)
qed

lemma splitLoop_index:
  "i < length (splitLoop remaining cap index) \<Longrightarrow> td_index (splitLoop remaining cap index ! i) = index + int i"
proof (induction remaining cap index arbitrary: i rule: splitLoop.induct)
  case (1 remaining cap index)
  show ?case
  proof (cases "0 < remaining \<and> 0 < cap")
    case True
    with 1 show ?thesis
      by (cases i) (auto simp: splitLoop.simps [of remaining cap index])
  next
    case False
    with "1.prems" show ?thesis by (simp add: splitLoop.simps [of remaining cap index])
  qed
qed

lemma splitLoop_length:
  assumes "0 < cap" "0 < remaining"
  shows "int (length (splitLoop remaining cap index)) = ceilDiv remaining cap"
  using assms
proof (induction remaining cap index rule: splitLoop.induct)
  case (1 remaining cap index)
  note unfold = splitLoop.simps [of remaining cap index]
  show ?case
  proof (cases "remaining \<le> cap")
    case True
    have "ceilDiv remaining cap = 1" using True 1 by (intro ceilDiv_unique) auto
    moreover have "splitLoop 0 cap (index + 1) = []" by (subst splitLoop.simps) simp
    ultimately show ?thesis using True "1.prems" by (subst unfold) (simp add: min_def)
  next
    case False
    with 1 have IH: "int (length (splitLoop (remaining - cap) cap (index + 1))) = ceilDiv (remaining - cap) cap"
      by (simp add: min_def)
    have "ceilDiv remaining cap = ceilDiv (remaining - cap) cap + 1"
      using ceilDiv_bounds [OF "1.prems"(1), of "remaining - cap"] "1.prems"(1)
      by (intro ceilDiv_unique) (auto simp: algebra_simps)
    with IH False "1.prems" show ?thesis by (subst unfold) (simp add: min_def)
  qed
qed

lemma sum_list_indicator:
  "r \<le> n \<Longrightarrow> (\<Sum>i\<leftarrow>[0..<n]. if i < r then 1 else (0::int)) = int r"
proof -
  assume "r \<le> n"
  have "(\<Sum>i\<leftarrow>[0..<n]. if i < r then 1 else (0::int)) = (\<Sum>i\<in>{0..<n}. if i < r then 1 else 0)"
    by (simp add: sum_list_distinct_conv_sum_set)
  also have "\<dots> = int (card ({0..<n} \<inter> {i. i < r}))"
    by (simp add: sum.If_cases)
  also have "{0..<n} \<inter> {i. i < r} = {0..<r}" using \<open>r \<le> n\<close> by auto
  finally show ?thesis by simp
qed

lemma splitEven_sum:
  assumes "0 < cnt"
  shows "(\<Sum>t\<leftarrow>splitEven tot cnt. td_amountMsats t) = tot"
proof -
  let ?r = "tot mod cnt"
  have r: "0 \<le> ?r" "?r < cnt" "tot - tot div cnt * cnt = ?r"
    using assms by (simp_all add: minus_div_mult_eq_mod)
  have "(\<Sum>t\<leftarrow>splitEven tot cnt. td_amountMsats t)
      = (\<Sum>i\<leftarrow>[0..<nat cnt]. tot div cnt + (if i < nat ?r then 1 else 0))"
    using r by (auto simp: splitEven_def Let_def o_def intro!: arg_cong [where f = sum_list] map_cong)
  also have "\<dots> = (\<Sum>i\<leftarrow>[0..<nat cnt]. tot div cnt) + (\<Sum>i\<leftarrow>[0..<nat cnt]. if i < nat ?r then 1 else 0)"
    by (simp add: sum_list_addf)
  also have "\<dots> = cnt * (tot div cnt) + ?r"
    using r assms by (subst sum_list_indicator) (simp_all add: sum_list_triv nat_le_eq_zle less_imp_le)
  finally show ?thesis by simp
qed

lemma splitEven_bounds:
  assumes "0 < cnt" "t \<in> set (splitEven tot cnt)"
  shows "tot div cnt \<le> td_amountMsats t" and "td_amountMsats t \<le> ceilDiv tot cnt"
proof -
  from assms(2) obtain i :: nat where t: "td_amountMsats t = tot div cnt + (if int i < tot - tot div cnt * cnt then 1 else 0)"
    by (auto simp: splitEven_def Let_def)
  show "tot div cnt \<le> td_amountMsats t" using t by simp
  show "td_amountMsats t \<le> ceilDiv tot cnt"
    using t pos_mod_sign [OF assms(1), of tot]
    by (auto simp: ceilDiv_eq [OF assms(1)] minus_div_mult_eq_mod split: if_splits)
qed

lemma splitEven_length: "0 \<le> cnt \<Longrightarrow> int (length (splitEven tot cnt)) = cnt"
  by (simp add: splitEven_def Let_def)

lemma planRows_sum:
  "planRows cap index tot rs = Inr t \<Longrightarrow>
     t = tot + (\<Sum>r\<leftarrow>rs. td_amountMsats r)
     \<and> (\<forall>r\<in>set rs. 0 < td_amountMsats r \<and> (\<forall>c. cap = Some c \<longrightarrow> td_amountMsats r \<le> c))
     \<and> map td_index rs = map (\<lambda>i. index + int i) [0..<length rs]"
proof (induction rs arbitrary: index tot)
  case (Cons r rs)
  then have *: "planRows cap (index + 1) (tot + td_amountMsats r) rs = Inr t"
    "td_index r = index" "0 < td_amountMsats r" "\<forall>c. cap = Some c \<longrightarrow> td_amountMsats r \<le> c"
    by (auto split: if_splits option.splits)
  have "[0..<length (r # rs)] = 0 # map Suc [0..<length rs]"
    by (simp only: length_Cons map_Suc_upt upt_conv_Cons zero_less_Suc)
  with Cons.IH [OF *(1)] * show ?case by (auto simp: o_def)
qed simp

end
