(* ===== verification/Handle_Create.thy ===== *)
theory Handle_Create
  imports Reducer_Base Trade_Identity Slice_Policy
begin

text \<open>
  \<open>handleCreate\<close>, \<open>handlePlanStart\<close> and \<open>handleChildKey\<close> of
  \<open>src/escrow-engine/state-machine.ts\<close>: the bootstrap of an escrow, the freezing of a tranche
  plan and the keys of a tranche child.

  \<open>minSlicesForCap\<close> throws on an amount that is no safe integer; that exception leaves
  \<open>handleCreate\<close>, and is the code \<open>#THROW\<close>.
\<close>

section \<open>CREATE\<close>

definition modeOf :: "create_payload \<Rightarrow> mode" where
  "modeOf p = (if cp_escrowMode p = Some ONCHAIN then ONCHAIN else ECASH)"

definition isChildPurchase :: "create_payload \<Rightarrow> bool" where
  "isChildPurchase p \<longleftrightarrow> cp_parent p \<noteq> None \<and> cp_sellerPubkey p \<noteq> None"

definition initiatorRoleOf :: "create_payload \<Rightarrow> role" where
  "initiatorRoleOf p = (if cp_trancheChild p \<noteq> None then SELLER
     else if cp_category p = ''lending'' \<or> isChildPurchase p then BUYER else SELLER)"

definition createSeats :: "create_payload \<Rightarrow> string \<Rightarrow> role \<Rightarrow> string option" where
  "createSeats p pubkey r = (case cp_trancheChild p of
     Some c \<Rightarrow> (case r of BUYER \<Rightarrow> Some (tc_buyerPubkey c) | SELLER \<Rightarrow> Some (tc_sellerPubkey c)
                | ARBITER \<Rightarrow> Some (tc_arbiterPubkey c))
   | None \<Rightarrow> (case r of
       BUYER \<Rightarrow> if initiatorRoleOf p = BUYER then Some pubkey else None
     | SELLER \<Rightarrow> if isChildPurchase p then cp_sellerPubkey p
                else if initiatorRoleOf p = SELLER then Some pubkey else None
     | ARBITER \<Rightarrow> None))"

definition shareArbiter :: "create_payload \<Rightarrow> string \<Rightarrow> string \<Rightarrow> string option" where
  "shareArbiter p i pubkey = nonEmpty (pickPreferredArbiter (getOr (cp_communityArbiters p) [])
     (getOr (cp_bondedArbiters p) []) i [Some pubkey, cp_sellerPubkey p])"

definition fulfillmentOf :: "create_payload \<Rightarrow> string" where
  "fulfillmentOf p =
     (if cp_category p \<noteq> ''marketplace'' then ''service''
      else case nonEmpty (cp_delivery p) of
        Some d \<Rightarrow> if d = ''service'' \<or> d = ''digital'' then d else ''physical''
      | None \<Rightarrow> getOr (cp_fulfillment p) ''physical'')"

text \<open>The slice-count floor of the amount: does it throw, and is it above the cap?\<close>

definition sliceFloor :: "create_payload \<Rightarrow> string + int" where
  "sliceFloor p = minSlicesForCap (cp_amountMsats p)"

definition createGuards :: "(string \<Rightarrow> string) \<Rightarrow> event \<Rightarrow> create_payload \<Rightarrow> (bool \<times> errcode) list" where
  "createGuards sha e p =
     (let mode = modeOf p; counted = cp_sliceCount p \<noteq> None; n = getOr (cp_sliceCount p) 0 in
      [(chamaCreateError sha p (ev_escrowId e) (ev_pubkey e) (ev_timestamp e) (ev_chamaParent e)
          (ev_chamaWitness e) (ev_chamaCycle e) (eventIsSim e) \<noteq> None, ''INVALID_CHAMA_CREATE''),
       (\<not> creatorMatchesEscrowId (ev_escrowId e) (ev_pubkey e), ''CREATOR_MISMATCH''),
       (cp_description p = [] \<or> cp_amountMsats p \<le> 0, ''INVALID_CREATE''),
       (cp_mintUrl p = [] \<and> cp_escrowMode p \<noteq> Some ONCHAIN, ''INVALID_CREATE''),
       (cp_expirySeconds p \<le> 0, ''INVALID_CREATE''),
       (mode = ONCHAIN \<and> counted, ''ONCHAIN_SLICING_UNSUPPORTED''),
       (\<not> settlementPolicyMatchesMode (cp_settlementPolicy p) mode, ''SETTLEMENT_POLICY_MODE_MISMATCH''),
       (counted \<and> getOr (cp_settlementPolicy p) (defaultSettlementPolicy mode) \<noteq> SETTLEMENT_POLICY_ECASH_SLICES,
         ''ONCHAIN_SLICING_UNSUPPORTED''),
       (counted \<and> (\<not> isSafe n \<or> n < 1), ''INVALID_CREATE''),
       (counted \<and> n > MAX_SLICE_COUNT, ''INVALID_CREATE''),
       (counted \<and> (case sliceFloor p of Inl _ \<Rightarrow> True | Inr _ \<Rightarrow> False), ''#THROW''),
       (counted \<and> (case sliceFloor p of Inl _ \<Rightarrow> False | Inr k \<Rightarrow> k > MAX_SLICE_COUNT), ''INVALID_CREATE''),
       (counted \<and> cp_amountMsats p < n * 1000, ''INVALID_CREATE''),
       (case cp_trancheChild p of None \<Rightarrow> False | Some c \<Rightarrow> ev_pubkey e \<noteq> tc_coordinatorPubkey c,
         ''INVALID_TRANCHE_COORDINATOR''),
       (cp_chamaPolicy p \<noteq> None \<and> shareArbiter p (ev_escrowId e) (ev_pubkey e) = None, ''INVALID_CHAMA_CREATE'')])"

definition createListing :: "create_payload \<Rightarrow> listing" where
  "createListing p = (let market = (cp_category p = ''marketplace'') in
     \<lparr>li_description = getOr (nonEmpty (cp_title p)) (cp_description p), li_title = cp_title p,
      li_body = cp_body p, li_listingKind = nonEmpty (cp_listingKind p),
      li_imageDataUrl = (if market then nonEmpty (cp_imageDataUrl p) else None),
      li_imageUrls = (case cp_imageUrls p of Some (u # us) \<Rightarrow> if market then Some (u # us) else None | _ \<Rightarrow> None),
      li_fiatAmount = cp_fiatAmount p, li_fiatCurrency = cp_fiatCurrency p, li_premiumBps = cp_premiumBps p,
      li_paymentMethods = normalizePaymentMethods (cp_paymentMethods p), li_fulfillment = fulfillmentOf p,
      li_delivery = (if market then nonEmpty (cp_delivery p) else None), li_country = cp_country p,
      li_billType = cp_billType p, li_workCategory = cp_workCategory p, li_stock = cp_stock p,
      li_claimedQuantity = cp_claimedQuantity p, li_tranche = cp_tranche p,
      li_onchainPublicConduct = cp_onchainPublicConduct p\<rparr>)"

definition emptyLock :: lock_state where
  "emptyLock = \<lparr>lk_notesHash = None, lk_lockedAt = None, lk_shares = (\<lambda>_. None), lk_sharePolicy = None,
     lk_onchain = None, lk_arbiterPoolShare = None, lk_substitutionGraceSeconds = None, lk_handle = None,
     lk_selectedItems = None, lk_acceptedBy = None, lk_acceptEventId = None, lk_withheld = None\<rparr>"

definition createFees :: "create_payload \<Rightarrow> fees" where
  "createFees p = \<lparr>fe_platformBps = cp_platformFeeBps p, fe_platformPubkey = cp_platformFeePubkey p,
     fe_platformMsats = jsInt ((cp_amountMsats p * cp_platformFeeBps p) div 10000),
     fe_arbiterMsats = sanitizeArbiterFeeMsats (cp_arbiterFeeMsats p) (cp_amountMsats p)\<rparr>"

text \<open>A share copies its circle's terms from the parent the gate validated.\<close>

definition createCircle :: "event \<Rightarrow> create_payload \<Rightarrow> circle_terms option" where
  "createCircle e p =
     (if cp_chamaCircle p \<noteq> None then cp_chamaCircle p
      else if cp_chamaPolicy p \<noteq> None then Option.bind (ev_chamaParent e) cv_chamaCircle else None)"

definition createdState :: "event \<Rightarrow> create_payload \<Rightarrow> state" where
  "createdState e p =
     (let mode = modeOf p; initRole = initiatorRoleOf p; seats = createSeats p (ev_pubkey e);
          listingExpiresAt = ev_timestamp e + cp_expirySeconds p
      in \<lparr>st_id = ev_escrowId e, st_status = CREATED, st_listing = createListing p,
        st_amountMsats = cp_amountMsats p, st_category = cp_category p,
        st_chamaPolicy = cp_chamaPolicy p, st_chamaCircle = createCircle e p,
        st_items = map_option (map cloneMenuItem) (cp_items p), st_community = cp_community p,
        st_escrowMode = mode, st_onchainNetwork = getOr (cp_onchainNetwork p) MAINNET,
        st_onchainAtomicRelease = cp_onchainAtomicRelease p,
        st_settlementPolicy = getOr (cp_settlementPolicy p) (defaultSettlementPolicy mode),
        st_sliceCount = cp_sliceCount p,
        st_escrowKeys = (case nonEmpty (cp_escrowXonly p) of None \<Rightarrow> (\<lambda>_. None)
                         | Some k \<Rightarrow> (\<lambda>_. None)(initRole := Some (lower k))),
        st_onchainFundingTerms = None, st_onchainRefundClaimed = False, st_onchainPayoutTxid = None,
        st_onchainPayoutAddress = None, st_onchainPayoutSats = None, st_settlementStalled = None,
        st_mintUrl = cp_mintUrl p, st_parent = cp_parent p, st_tranchePlan = None,
        st_trancheChild = cp_trancheChild p, st_childKeys = (\<lambda>_. None),
        st_participants = (if cp_chamaPolicy p \<noteq> None
          then seats(ARBITER := shareArbiter p (ev_escrowId e) (ev_pubkey e)) else seats),
        st_joinHolds = (\<lambda>_. None), st_initiator = ev_pubkey e, st_initiatorRole = initRole,
        st_communityArbiters = getOr (cp_communityArbiters p) [],
        st_bondedArbiters = getOr (cp_bondedArbiters p) [], st_subscription = None, st_votes = [],
        st_resolvedOutcome = None, st_resolvedMajority = None, st_pendingVote = False,
        st_actingArbiter = None, st_fees = createFees p, st_lock = emptyLock, st_claimerRole = None,
        st_claimedAt = None, st_createdAt = ev_timestamp e, st_listingExpiresAt = Some listingExpiresAt,
        st_tradeTimeoutSeconds = Some (cp_expirySeconds p), st_expiresAt = listingExpiresAt,
        st_resolvedAt = None, st_completedAt = None, st_cancelledAt = None, st_eventChain = [e],
        st_chatMessages = [], st_premiumNotes = [], st_settlements = [], st_rejectedLocks = [],
        st_replayNotes = []\<rparr>)"

definition handleCreate :: "(string \<Rightarrow> string) \<Rightarrow> event \<Rightarrow> create_payload \<Rightarrow> result" where
  "handleCreate sha e p = guarded (createGuards sha e p) (Inr (createdState e p))"

section \<open>PLAN_START\<close>

definition planArbiterGuards :: "state \<Rightarrow> plan_start \<Rightarrow> (bool \<times> errcode) list" where
  "planArbiterGuards s p = (case nonEmpty (st_participants s ARBITER) of
     Some a \<Rightarrow> [(a \<noteq> ps_arbiterPubkey p, ''PLAN_PARTICIPANT_MISMATCH'')]
   | None \<Rightarrow>
       (let ex = [Some (ps_buyerPubkey p), Some (ps_sellerPubkey p)];
            preferred = pickPreferredArbiter (st_communityArbiters s) (st_bondedArbiters s) (st_id s) ex;
            legacy = pickArbiterFromPool (st_communityArbiters s) (st_id s) ex
        in [(Some (ps_arbiterPubkey p) \<notin> {nonEmpty preferred, nonEmpty legacy}, ''PLAN_ARBITER_NOT_ASSIGNED'')]))"

definition handlePlanStart :: "state \<Rightarrow> event \<Rightarrow> plan_start \<Rightarrow> result" where
  "handlePlanStart s e p =
     (if st_chamaCircle s \<noteq> None \<or> st_trancheChild s \<noteq> None \<or> truthyS (st_parent s) then Inl ''PLAN_ON_CHILD''
      else case st_tranchePlan s of
        Some (_, i) \<Rightarrow> if i = ev_id e then Inr s else Inl ''PLAN_ALREADY_STARTED''
      | None \<Rightarrow> guarded
          ([(validatePlanStart p \<noteq> None, ''INVALID_PLAN_START''),
            (ev_pubkey e \<noteq> st_initiator s \<or> ev_pubkey e \<noteq> ps_coordinatorPubkey p, ''INVALID_PLAN_COORDINATOR''),
            (st_participants s BUYER \<noteq> Some (ps_buyerPubkey p)
               \<or> st_participants s SELLER \<noteq> Some (ps_sellerPubkey p), ''PLAN_PARTICIPANT_MISMATCH'')]
           @ planArbiterGuards s p
           @ [(ps_totalMsats p \<noteq> st_amountMsats s, ''PLAN_AMOUNT_MISMATCH''),
              (st_sliceCount s \<noteq> None \<and> (ps_settlementPolicy p \<noteq> Some (st_settlementPolicy s)
                 \<or> ps_sliceCount p \<noteq> st_sliceCount s), ''PLAN_POLICY_MISMATCH'')])
          (Inr (s\<lparr>st_participants := (st_participants s)(ARBITER := Some (ps_arbiterPubkey p)),
                  st_tranchePlan := Some (p, ev_id e), st_expiresAt := NEVER_EXPIRES,
                  st_eventChain := st_eventChain s @ [e]\<rparr>)))"

section \<open>CHILD_KEY\<close>

definition handleChildKey :: "state \<Rightarrow> event \<Rightarrow> child_key \<Rightarrow> result" where
  "handleChildKey s e p = (case st_trancheChild s of
     None \<Rightarrow> Inl ''KEY_ON_NON_CHILD''
   | Some t \<Rightarrow> guarded
       [(ck_parent p \<noteq> tc_parent t \<or> ck_planId p \<noteq> tc_planId t \<or> ck_index p \<noteq> tc_index t,
         ''CHILD_KEY_PLAN_MISMATCH''),
        (ck_bitcoinNetwork p \<noteq> tc_bitcoinNetwork t, ''CHILD_KEY_NETWORK_MISMATCH''),
        (st_participants s (ck_role p) \<noteq> Some (ev_pubkey e), ''UNAUTHORIZED_CHILD_KEY''),
        (truthyS (st_childKeys s (ck_role p)) \<and> st_childKeys s (ck_role p) \<noteq> Some (ck_xOnlyPubkey p),
         ''CHILD_KEY_ALREADY_SET'')]
       (Inr (s\<lparr>st_childKeys := (st_childKeys s)(ck_role p := Some (ck_xOnlyPubkey p)),
               st_eventChain := st_eventChain s @ [e]\<rparr>)))"

section \<open>Inversion\<close>

lemma handleCreate_Inr [handler_invert]:
  "handleCreate sha e p = Inr s' \<longleftrightarrow> (\<forall>g\<in>set (createGuards sha e p). \<not> fst g) \<and> s' = createdState e p"
  by (auto simp: handleCreate_def guarded_Inr)

lemma createdState_simps [simp]:
  "st_id (createdState e p) = ev_escrowId e" "st_status (createdState e p) = CREATED"
  "st_amountMsats (createdState e p) = cp_amountMsats p" "st_votes (createdState e p) = []"
  "st_eventChain (createdState e p) = [e]" "st_initiator (createdState e p) = ev_pubkey e"
  "st_createdAt (createdState e p) = ev_timestamp e" "st_resolvedOutcome (createdState e p) = None"
  "st_fees (createdState e p) = createFees p" "st_lock (createdState e p) = emptyLock"
  "st_settlements (createdState e p) = []" "st_subscription (createdState e p) = None"
  "st_chamaPolicy (createdState e p) = cp_chamaPolicy p" "st_chamaCircle (createdState e p) = createCircle e p"
  "st_category (createdState e p) = cp_category p" "st_onchainFundingTerms (createdState e p) = None"
  "st_claimerRole (createdState e p) = None" "st_communityArbiters (createdState e p) = getOr (cp_communityArbiters p) []"
  "st_resolvedMajority (createdState e p) = None" "st_items (createdState e p) = map_option (map cloneMenuItem) (cp_items p)"
  by (simp_all add: createdState_def Let_def)

lemma emptyLock_simps [simp]:
  "lk_onchain emptyLock = None" "lk_withheld emptyLock = None" "lk_notesHash emptyLock = None"
  "lk_lockedAt emptyLock = None" "lk_acceptEventId emptyLock = None" "lk_arbiterPoolShare emptyLock = None"
  by (simp_all add: emptyLock_def)

text \<open>What an accepted plan start writes (or nothing, when it repeats the accepted one).\<close>

lemma handlePlanStart_Inr [handler_invert]:
  assumes "handlePlanStart s e p = Inr s'"
  shows "s' = s \<or> (st_tranchePlan s = None \<and> validatePlanStart p = None \<and> ev_pubkey e = st_initiator s
     \<and> st_participants s BUYER = Some (ps_buyerPubkey p) \<and> st_participants s SELLER = Some (ps_sellerPubkey p)
     \<and> ps_totalMsats p = st_amountMsats s
     \<and> (\<forall>a. nonEmpty (st_participants s ARBITER) = Some a \<longrightarrow> a = ps_arbiterPubkey p)
     \<and> s' = s\<lparr>st_participants := (st_participants s)(ARBITER := Some (ps_arbiterPubkey p)),
              st_tranchePlan := Some (p, ev_id e), st_expiresAt := NEVER_EXPIRES,
              st_eventChain := st_eventChain s @ [e]\<rparr>)"
  using assms
  by (auto simp: handlePlanStart_def guarded_append planArbiterGuards_def Let_def
      split: if_splits option.splits prod.splits)

lemma handleChildKey_Inr [handler_invert]:
  assumes "handleChildKey s e p = Inr s'"
  shows "st_participants s (ck_role p) = Some (ev_pubkey e)
    \<and> s' = s\<lparr>st_childKeys := (st_childKeys s)(ck_role p := Some (ck_xOnlyPubkey p)),
             st_eventChain := st_eventChain s @ [e]\<rparr>"
  using assms by (auto simp: handleChildKey_def split: option.splits)

end
