(* ===== verification/Bitcoin_Escrow.thy ===== *)
theory Bitcoin_Escrow
  imports Escrow_Types "HOL-Library.Monad_Syntax"
begin

unbundle bit_operations_syntax

text \<open>
  The Taproot escrow and its settlement (\<open>src/bond-multisig/onchain-escrow.ts\<close>,
  \<open>onchain-escrow-settle.ts\<close>, \<open>onchain-escrow-funding.ts\<close>): the three spending leaves, the
  recomputed address, hand-assembled witnesses, the checklist a PSBT must pass before it is
  signed, the dispute window, fee ceilings, funding plans and funding verdicts.

  Everything the code takes from a library (script encoding, Taproot trees, PSBT parsing and
  combining, sighashes, Schnorr, SHA-256, JSON, event signatures) is a field of the
  environment \<open>E\<close>. A call that may throw returns an option. Byte strings are written in
  lower-case hexadecimal, so a 32-byte key is 64 digits; satoshi amounts are \<open>int\<close>.
\<close>

section \<open>The environment\<close>

text \<open>A parsed JSON value; a literal such as \<open>1e999\<close> parses to an infinity.\<close>

datatype json = JNull | JBool bool | JNum jsnum | JStr string | JArr "json list" | JObj "(string \<times> json) list"

record tap_sig =
  ts_pubKey :: string
  ts_leafHash :: string
  ts_signature :: string

record psbt_input =
  in_txid :: "string option"
  in_index :: "int option"
  in_witness :: "(string \<times> int) option"
  in_sighashType :: "int option"
  in_sequence :: "int option"
  in_sigs :: "tap_sig list"

record psbt_output =
  out_amount :: "int option"
  out_script :: string

record psbt =
  tx_id :: string
  tx_lockTime :: int
  tx_inputs :: "psbt_input list"
  tx_outputs :: "psbt_output list"

record utxo =
  ux_txid :: string
  ux_index :: int
  ux_amountSats :: int

record env =
  e_sha :: "string \<Rightarrow> string"
  e_msScript :: "string list \<Rightarrow> string option"
  e_csvScript :: "int \<Rightarrow> string \<Rightarrow> string option"
  e_cltvScript :: "int \<Rightarrow> string \<Rightarrow> string option"
  e_treeOutput :: "string list \<Rightarrow> network \<Rightarrow> (string \<times> string) option"
  e_controlBlock :: "string list \<Rightarrow> network \<Rightarrow> string \<Rightarrow> string option"
  e_keyAddress :: "string \<Rightarrow> network \<Rightarrow> string option"
  e_parsePsbt :: "string \<Rightarrow> psbt option"
  e_assemble :: "string list \<Rightarrow> network \<Rightarrow> utxo list \<Rightarrow> int option \<Rightarrow> int \<Rightarrow> string \<Rightarrow> int \<Rightarrow> string option"
  e_combine :: "string list \<Rightarrow> string option"
  e_finalizeAll :: "string \<Rightarrow> string option"
  e_finalizeWith :: "string \<Rightarrow> string list list \<Rightarrow> string option"
  e_outAddress :: "network \<Rightarrow> string \<Rightarrow> string option"
  e_tapLeafHash :: "string \<Rightarrow> string"
  e_sighash :: "psbt \<Rightarrow> nat \<Rightarrow> string list \<Rightarrow> int list \<Rightarrow> string \<Rightarrow> string option"
  e_schnorrVerify :: "string \<Rightarrow> string \<Rightarrow> string \<Rightarrow> bool"
  e_verifyEvent :: "nostr_event \<Rightarrow> bool"
  e_parseJson :: "string \<Rightarrow> json option"

definition hexToBytes :: "string \<Rightarrow> string option" where
  "hexToBytes s = (if even (length s) \<and> list_all isHexChar (lower s) then Some (lower s) else None)"

section \<open>The escrow address\<close>

definition REFUND_CLTV_BLOCKS :: int where "REFUND_CLTV_BLOCKS = 30 * 144"
definition DISPUTE_CSV_BLOCKS :: int where "DISPUTE_CSV_BLOCKS = 144"
definition ESCROW_NETWORK :: network where "ESCROW_NETWORK = MAINNET"
definition ONCHAIN_ESCROW_THRESHOLD_SATS :: int where "ONCHAIN_ESCROW_THRESHOLD_SATS = 100000"
definition ONCHAIN_ESCROW_MINIMUM_SATS :: int where "ONCHAIN_ESCROW_MINIMUM_SATS = 25000"

definition defaultEscrowModeForAmount :: "int \<Rightarrow> mode" where
  "defaultEscrowModeForAmount sats =
     (if sats \<ge> ONCHAIN_ESCROW_MINIMUM_SATS
         \<and> (ESCROW_NETWORK = SIGNET \<or> sats \<ge> ONCHAIN_ESCROW_THRESHOLD_SATS) then ONCHAIN else ECASH)"

definition onchainEscrowAvailable :: "int \<Rightarrow> bool" where
  "onchainEscrowAvailable sats \<longleftrightarrow> sats \<ge> ONCHAIN_ESCROW_MINIMUM_SATS"

datatype spend_leaf = COOP | DISPUTE | REFUND_LEAF

record escrow_params =
  op_buyer :: string
  op_seller :: string
  op_arbiter :: string
  op_funder :: role
  op_refundLockUntil :: int
  op_csv :: int
  op_network :: network

record onchain_escrow =
  oe_address :: string
  oe_script :: string
  oe_coop :: string
  oe_dispute :: string
  oe_refund :: string
  oe_params :: escrow_params

definition okXonly :: "string \<Rightarrow> bool" where
  "okXonly k \<longleftrightarrow> length k = 64"

definition buildCoopLeaf :: "env \<Rightarrow> string \<Rightarrow> string \<Rightarrow> string option" where
  "buildCoopLeaf E b s = (if okXonly b \<and> okXonly s then e_msScript E [b, s] else None)"

definition buildDisputeLeaf :: "env \<Rightarrow> string \<Rightarrow> string \<Rightarrow> string \<Rightarrow> int \<Rightarrow> string option" where
  "buildDisputeLeaf E b s a csv =
     (if \<not> (okXonly b \<and> okXonly s \<and> okXonly a) \<or> \<not> distinct [b, s, a] then None
      else do {
        ms \<leftarrow> e_msScript E [b, s, a];
        if csv = 0 then Some ms
        else if csv \<le> 0 \<or> csv > 65535 then None
        else e_csvScript E csv ms })"

definition buildRefundLeaf :: "env \<Rightarrow> string \<Rightarrow> int \<Rightarrow> string option" where
  "buildRefundLeaf E k lockUntil =
     (if \<not> okXonly k \<or> lockUntil \<le> 0 \<or> lockUntil \<ge> 500000000 then None else e_cltvScript E lockUntil k)"

definition funderKey :: "escrow_params \<Rightarrow> string" where
  "funderKey p = (if op_funder p = BUYER then op_buyer p else op_seller p)"

definition buildOnchainEscrow :: "env \<Rightarrow> escrow_params \<Rightarrow> onchain_escrow option" where
  "buildOnchainEscrow E p =
     (if op_funder p \<noteq> BUYER \<and> op_funder p \<noteq> SELLER then None
      else do {
        coop \<leftarrow> buildCoopLeaf E (op_buyer p) (op_seller p);
        dispute \<leftarrow> buildDisputeLeaf E (op_buyer p) (op_seller p) (op_arbiter p) (op_csv p);
        refund \<leftarrow> buildRefundLeaf E (funderKey p) (op_refundLockUntil p);
        out \<leftarrow> e_treeOutput E [coop, dispute, refund] (op_network p);
        Some \<lparr>oe_address = fst out, oe_script = snd out, oe_coop = coop, oe_dispute = dispute,
              oe_refund = refund, oe_params = p\<rparr> })"

definition onchainEscrowAddressMatches :: "env \<Rightarrow> string \<Rightarrow> escrow_params \<Rightarrow> bool" where
  "onchainEscrowAddressMatches E claimed p = (case buildOnchainEscrow E p of
     None \<Rightarrow> False | Some esc \<Rightarrow> oe_address esc = trim claimed)"

fun leafScript :: "onchain_escrow \<Rightarrow> spend_leaf \<Rightarrow> string" where
  "leafScript esc COOP = oe_coop esc"
| "leafScript esc DISPUTE = oe_dispute esc"
| "leafScript esc REFUND_LEAF = oe_refund esc"

definition treeLeaves :: "onchain_escrow \<Rightarrow> string list" where
  "treeLeaves esc = [oe_coop esc, oe_dispute esc, oe_refund esc]"

text \<open>The witness of one input: signatures in reverse key order, an empty item where none.\<close>

definition leafWitnessFor :: "env \<Rightarrow> onchain_escrow \<Rightarrow> psbt_input \<Rightarrow> spend_leaf \<Rightarrow> string list option" where
  "leafWitnessFor E esc inp leaf =
     (let script = leafScript esc leaf; p = oe_params esc;
          sigs = filter (\<lambda>t. ts_leafHash t = e_tapLeafHash E script) (in_sigs inp)
      in do {
        control \<leftarrow> e_controlBlock E (treeLeaves esc) (op_network p) script;
        if sigs = [] then None
        else if leaf = REFUND_LEAF
        then (case List.find (\<lambda>t. ts_pubKey t = funderKey p) sigs of
                None \<Rightarrow> None | Some t \<Rightarrow> Some [ts_signature t, script, control])
        else (let keys = (if leaf = COOP then [op_buyer p, op_seller p]
                          else [op_buyer p, op_seller p, op_arbiter p]);
                  byKey = map_of (map (\<lambda>t. (ts_pubKey t, ts_signature t)) (rev sigs));
                  stack = rev (map (\<lambda>k. getOr (byKey k) []) keys)
              in Some (stack @ [script, control])) })"

fun LEAF_SPEND_VSIZE :: "spend_leaf \<Rightarrow> int" where
  "LEAF_SPEND_VSIZE COOP = 162"
| "LEAF_SPEND_VSIZE DISPUTE = 179"
| "LEAF_SPEND_VSIZE REFUND_LEAF = 146"

definition estimateSettleFeeSats :: "spend_leaf \<Rightarrow> int \<Rightarrow> int" where
  "estimateSettleFeeSats leaf rate = LEAF_SPEND_VSIZE leaf * rate"

section \<open>Settlement\<close>

definition SEQUENCE_FINAL_MINUS_ONE :: int where "SEQUENCE_FINAL_MINUS_ONE = 0xfffffffe"
definition P2TR_DUST_SATS :: int where "P2TR_DUST_SATS = 330"

text \<open>The bitwise operators of JavaScript work on 32-bit words.\<close>

definition word32 :: "int \<Rightarrow> 32 word" where "word32 n = word_of_int n"

definition BIP68_DISABLE_FLAG :: "32 word" where "BIP68_DISABLE_FLAG = push_bit 31 1"
definition BIP68_SECONDS_FLAG :: "32 word" where "BIP68_SECONDS_FLAG = push_bit 22 1"

definition sequenceForLeaf :: "spend_leaf \<Rightarrow> int \<Rightarrow> int option" where
  "sequenceForLeaf leaf csv =
     (if leaf \<noteq> DISPUTE \<or> csv \<le> 0 then Some SEQUENCE_FINAL_MINUS_ONE
      else if csv > 0xffff then None
      else Some (uint (word32 csv AND 0xffff)))"

definition assertsRelativeBlockAge :: "int \<Rightarrow> bool" where
  "assertsRelativeBlockAge sequence \<longleftrightarrow>
     word32 sequence AND BIP68_DISABLE_FLAG = 0 \<and> word32 sequence AND BIP68_SECONDS_FLAG = 0"

datatype dispute_window = Open | Closed int int

definition disputeWindow :: "int option \<Rightarrow> int option \<Rightarrow> int \<Rightarrow> dispute_window" where
  "disputeWindow fundingHeight tipHeight csv =
     (if csv \<le> 0 then Open
      else case (fundingHeight, tipHeight) of
        (Some f, Some t) \<Rightarrow>
          let opensAt = f + csv; confirmations = t - f + 1
          in if confirmations \<ge> csv then Open else Closed (opensAt - t) opensAt
      | _ \<Rightarrow> Closed csv 0)"

definition sumSats :: "utxo list \<Rightarrow> int" where
  "sumSats us = (\<Sum>u\<leftarrow>us. ux_amountSats u)"

datatype build_error = BE_NO_UTXOS | BE_BAD_FEE | BE_DUST | BE_WINDOW int | BE_REFUND | BE_LIBRARY

definition buildSettlementPsbt ::
  "env \<Rightarrow> onchain_escrow \<Rightarrow> utxo list \<Rightarrow> string \<Rightarrow> int \<Rightarrow> spend_leaf \<Rightarrow> int option \<Rightarrow> int option \<Rightarrow> int option
    \<Rightarrow> build_error + string" where
  "buildSettlementPsbt E esc utxos destination fee leaf lockTime fundingHeight tipHeight =
     (let tot = sumSats utxos; payout = tot - fee; p = oe_params esc;
          window = (if leaf = DISPUTE then disputeWindow fundingHeight tipHeight (op_csv p) else Open)
      in guarded
        [(utxos = [], BE_NO_UTXOS), (fee < 0 \<or> fee \<ge> tot, BE_BAD_FEE), (payout < P2TR_DUST_SATS, BE_DUST),
         (window \<noteq> Open, case window of Closed n _ \<Rightarrow> BE_WINDOW n | Open \<Rightarrow> BE_LIBRARY),
         (leaf = REFUND_LEAF \<and> (lockTime \<noteq> Some (op_refundLockUntil p)
            \<or> (case tipHeight of None \<Rightarrow> True | Some t \<Rightarrow> t < op_refundLockUntil p)), BE_REFUND)]
        (case do { sq \<leftarrow> sequenceForLeaf leaf (op_csv p);
                   e_assemble E (treeLeaves esc) (op_network p) utxos lockTime sq destination payout } of
           None \<Rightarrow> Inl BE_LIBRARY | Some b \<Rightarrow> Inr b))"

text \<open>
  \<open>finalizeSettlement\<close>: combine, then either the library's finalizer or hand-assembled leaf
  witnesses for every input. Below threshold it throws.
\<close>

definition finalizeSettlement :: "env \<Rightarrow> string list \<Rightarrow> (onchain_escrow \<times> spend_leaf) option \<Rightarrow> string option" where
  "finalizeSettlement E psbts opts =
     (if psbts = [] then None
      else do {
        combined \<leftarrow> e_combine E psbts;
        tx \<leftarrow> e_parsePsbt E combined;
        case opts of
          None \<Rightarrow> e_finalizeAll E combined
        | Some (esc, leaf) \<Rightarrow> do {
            ws \<leftarrow> those (map (\<lambda>inp. leafWitnessFor E esc inp leaf) (tx_inputs tx));
            e_finalizeWith E combined ws } })"

record expectation =
  ex_escrow :: onchain_escrow
  ex_utxos :: "utxo list"
  ex_destination :: string
  ex_maxFeeSats :: int
  ex_network :: "network option"
  ex_leaf :: "spend_leaf option"
  ex_tipHeight :: "int option"
  ex_committedOutpoint :: "(string \<times> int) option"
  ex_minInputSats :: "int option"

datatype failure =
    F_UNPARSEABLE | F_NO_INPUTS | F_UNKNOWN_INPUT | F_DUPLICATE_INPUT | F_AMOUNT | F_SCRIPT | F_SIGHASH
  | F_REFUND_SEQUENCE | F_CSV_SEQUENCE | F_LOCKTIME | F_IMMATURE | F_COMMITTED_OUTPOINT | F_NO_MINIMUM
  | F_BELOW_COMMITTED | F_UNSPENT_OUTPUTS | F_OUTPUT_COUNT | F_DESTINATION | F_NEGATIVE_FEE | F_FEE

text \<open>An outpoint; a PSBT input may lack either half.\<close>

type_synonym outpoint = "string \<times> int option"

definition utxoKey :: "utxo \<Rightarrow> outpoint" where
  "utxoKey u = (ux_txid u, Some (ux_index u))"

definition inputKey :: "psbt_input \<Rightarrow> outpoint" where
  "inputKey i = (getOr (in_txid i) [], in_index i)"

definition knownUtxo :: "utxo list \<Rightarrow> outpoint \<Rightarrow> utxo option" where
  "knownUtxo us k = List.find (\<lambda>u. utxoKey u = k) (rev us)"

definition inputFailures :: "expectation \<Rightarrow> psbt_input \<Rightarrow> utxo \<Rightarrow> failure list" where
  "inputFailures ex inp u = allFails
     [(map_option snd (in_witness inp) \<noteq> Some (ux_amountSats u), F_AMOUNT),
      (map_option fst (in_witness inp) \<noteq> Some (oe_script (ex_escrow ex)), F_SCRIPT),
      (in_sighashType inp \<noteq> None \<and> in_sighashType inp \<noteq> Some 0, F_SIGHASH),
      (ex_leaf ex = Some REFUND_LEAF \<and> in_sequence inp \<noteq> Some SEQUENCE_FINAL_MINUS_ONE, F_REFUND_SEQUENCE),
      (ex_leaf ex = Some DISPUTE
         \<and> (\<not> assertsRelativeBlockAge (getOr (in_sequence inp) 0xffffffff)
            \<or> Some (getOr (in_sequence inp) 0xffffffff) \<noteq> sequenceForLeaf DISPUTE (op_csv (oe_params (ex_escrow ex)))),
       F_CSV_SEQUENCE)]"

text \<open>The loop over the inputs: outpoints seen, value in, failures.\<close>

fun checkInputs ::
  "expectation \<Rightarrow> psbt_input list \<Rightarrow> outpoint list \<Rightarrow> int \<Rightarrow> failure list \<Rightarrow> outpoint list \<times> int \<times> failure list" where
  "checkInputs ex [] seen inSum fails = (seen, inSum, fails)"
| "checkInputs ex (inp # inps) seen inSum fails = (case knownUtxo (ex_utxos ex) (inputKey inp) of
     None \<Rightarrow> checkInputs ex inps seen inSum (fails @ [F_UNKNOWN_INPUT])
   | Some u \<Rightarrow>
       if inputKey inp \<in> set seen then checkInputs ex inps seen inSum (fails @ [F_DUPLICATE_INPUT])
       else checkInputs ex inps (seen @ [inputKey inp]) (inSum + ux_amountSats u)
              (fails @ inputFailures ex inp u))"

definition coverageFailures :: "expectation \<Rightarrow> outpoint list \<Rightarrow> int \<Rightarrow> failure list" where
  "coverageFailures ex seen inSum = (case ex_committedOutpoint ex of
     Some (txid, index) \<Rightarrow> allFails
       [((txid, Some index) \<notin> set seen, F_COMMITTED_OUTPOINT),
        (ex_minInputSats ex = None, F_NO_MINIMUM),
        (case ex_minInputSats ex of None \<Rightarrow> False | Some m \<Rightarrow> inSum < m, F_BELOW_COMMITTED)]
   | None \<Rightarrow> allFails [(length seen \<noteq> length (dedupe (map utxoKey (ex_utxos ex))), F_UNSPENT_OUTPUTS)])"

definition outputFailures :: "env \<Rightarrow> expectation \<Rightarrow> network \<Rightarrow> psbt_output list \<Rightarrow> failure list" where
  "outputFailures E ex net outs =
     (if length outs \<noteq> 1 then [F_OUTPUT_COUNT] else [])
     @ concat (map (\<lambda>out. if getOr (e_outAddress E net (out_script out)) ''(undecodable)'' \<noteq> ex_destination ex
                         then [F_DESTINATION] else []) outs)"

text \<open>\<open>None\<close> is a throw: the dispute sequence of an escrow whose CSV does not fit 16 bits.\<close>

definition verifySettlementPsbt :: "env \<Rightarrow> string \<Rightarrow> expectation \<Rightarrow> failure list option" where
  "verifySettlementPsbt E b64 ex = (case e_parsePsbt E b64 of
     None \<Rightarrow> Some [F_UNPARSEABLE]
   | Some tx \<Rightarrow>
       let p = oe_params (ex_escrow ex);
           net = getOr (ex_network ex) (op_network p);
           (seen, inSum, inFails) = checkInputs ex (tx_inputs tx) [] 0 [];
           outSum = (\<Sum>out\<leftarrow>tx_outputs tx. getOr (out_amount out) 0);
           fee = inSum - outSum;
           fails = (if tx_inputs tx = [] then [F_NO_INPUTS] else []) @ inFails
             @ (if ex_leaf ex = Some REFUND_LEAF
                then allFails [(tx_lockTime tx \<noteq> op_refundLockUntil p, F_LOCKTIME),
                  (case ex_tipHeight ex of None \<Rightarrow> True | Some t \<Rightarrow> t < op_refundLockUntil p, F_IMMATURE)]
                else [])
             @ coverageFailures ex seen inSum
             @ outputFailures E ex net (tx_outputs tx)
             @ (if fee < 0 then [F_NEGATIVE_FEE] else if fee > ex_maxFeeSats ex then [F_FEE] else [])
       in if ex_leaf ex = Some DISPUTE \<and> op_csv p > 0xffff \<and> seen \<noteq> [] then None else Some fails)"

definition settlementOk :: "env \<Rightarrow> string \<Rightarrow> expectation \<Rightarrow> bool" where
  "settlementOk E b64 ex \<longleftrightarrow> verifySettlementPsbt E b64 ex = Some []"

definition settlementFeeCeilingSats :: "spend_leaf \<Rightarrow> int \<Rightarrow> int \<Rightarrow> int \<Rightarrow> int" where
  "settlementFeeCeilingSats leaf rate numInputs tolerance =
     (LEAF_SPEND_VSIZE leaf + max 0 (numInputs - 1) * 58) * rate * tolerance"

section \<open>Funding\<close>

definition bip86EscrowPath :: "network \<Rightarrow> int \<Rightarrow> string" where
  "bip86EscrowPath net index =
     ''m/86'' @ [CHR 0x27] @ ''/'' @ showInt (if net = SIGNET then 1 else 0) @ [CHR 0x27] @ ''/1''
       @ [CHR 0x27] @ ''/0/'' @ showInt index"

definition fnvStep :: "32 word \<Rightarrow> char \<Rightarrow> 32 word" where
  "fnvStep h c = (h XOR word_of_nat (of_char c)) * 0x01000193"

definition escrowKeyIndexFor :: "string \<Rightarrow> nat" where
  "escrowKeyIndexFor escrowId = unat (foldl fnvStep 0x811c9dc5 escrowId) mod 0x7fffffff"

datatype funding_blocker = FB_BUYER_KEY | FB_SELLER_KEY | FB_ARBITER_KEY | FB_NOT_DISTINCT
  | FB_REFUND_HEIGHT | FB_INVALID_KEY

definition planKey :: "string option \<Rightarrow> string option" where
  "planKey v = (case v of None \<Rightarrow> None
     | Some s \<Rightarrow> if hex64 (lower (trim s)) then Some (lower (trim s)) else None)"

definition resolveFundingPlan ::
  "env \<Rightarrow> string option \<Rightarrow> string option \<Rightarrow> string option \<Rightarrow> role \<Rightarrow> int \<Rightarrow> int option \<Rightarrow> network
    \<Rightarrow> funding_blocker list + (string \<times> escrow_params)" where
  "resolveFundingPlan E buyer seller arbiter funder refundLockUntil csv net =
     (let b = planKey buyer; s = planKey seller; a = planKey arbiter;
          blockers = allFails
            [(b = None, FB_BUYER_KEY), (s = None, FB_SELLER_KEY), (a = None, FB_ARBITER_KEY),
             (b \<noteq> None \<and> s \<noteq> None \<and> a \<noteq> None \<and> \<not> distinct [b, s, a], FB_NOT_DISTINCT),
             (refundLockUntil \<le> 0 \<or> refundLockUntil \<ge> 500000000, FB_REFUND_HEIGHT)];
          params = \<lparr>op_buyer = the b, op_seller = the s, op_arbiter = the a, op_funder = funder,
            op_refundLockUntil = refundLockUntil, op_csv = getOr csv 0, op_network = net\<rparr>
      in if blockers \<noteq> [] then Inl blockers
         else case buildOnchainEscrow E params of
                None \<Rightarrow> Inl [FB_INVALID_KEY] | Some esc \<Rightarrow> Inr (oe_address esc, params))"

datatype funding_verdict = Funded int string int | NoDeposit | Underfunded int int | Unconfirmed int

definition largestDeposit :: "utxo list \<Rightarrow> utxo option" where
  "largestDeposit us = (case us of [] \<Rightarrow> None
     | u # rest \<Rightarrow> Some (foldl (\<lambda>best d. if ux_amountSats d > ux_amountSats best then d else best) u rest))"

definition deepDeposits :: "utxo list \<Rightarrow> int \<Rightarrow> int list \<Rightarrow> utxo list" where
  "deepDeposits us minConfs confs =
     map fst (filter (\<lambda>x. snd x \<ge> length confs \<or> confs ! snd x \<ge> minConfs) (zip us [0..<length us]))"

text \<open>\<open>None\<close> is the throw on an expected amount of zero with no deep deposit.\<close>

definition verifyFunding :: "utxo list \<Rightarrow> int \<Rightarrow> int \<Rightarrow> int list \<Rightarrow> funding_verdict option" where
  "verifyFunding us expectedSats minConfs0 confs =
     (let minConfs = max 1 minConfs0; deep = deepDeposits us minConfs confs;
          tot = sumSats us; deepTotal = sumSats deep
      in if us = [] then Some NoDeposit
         else if deepTotal < expectedSats
         then Some (if tot \<ge> expectedSats then Unconfirmed deepTotal else Underfunded tot expectedSats)
         else map_option (\<lambda>u. Funded deepTotal (ux_txid u) (ux_index u)) (largestDeposit deep))"

definition buildOnchainLockTerms ::
  "string \<Rightarrow> escrow_params \<Rightarrow> int \<Rightarrow> string \<Rightarrow> int \<Rightarrow> network \<Rightarrow> lock_terms" where
  "buildOnchainLockTerms address p amountSats txid vout net =
     \<lparr>ft_address = address, ft_buyerXonly = op_buyer p, ft_sellerXonly = op_seller p,
      ft_arbiterXonly = op_arbiter p, ft_funder = op_funder p,
      ft_refundLockUntil = op_refundLockUntil p, ft_disputeCsvBlocks = op_csv p, ft_network = net,
      ft_arbiterBond = None, lt_fundingTxid = txid, lt_fundingVout = vout, lt_amountSats = showInt amountSats\<rparr>"

definition escrowDepositWindowSafe :: "int \<Rightarrow> int list \<Rightarrow> int \<Rightarrow> bool \<Rightarrow> bool" where
  "escrowDepositWindowSafe refundLockUntil fundingHeights tipHeight awaiting =
     (fundingHeights \<noteq> [] \<and> list_all (\<lambda>h. 0 < h \<and> h \<le> tipHeight) fundingHeights
      \<and> refundLockUntil \<ge> fold max fundingHeights (hd fundingHeights) + REFUND_CLTV_BLOCKS - DISPUTE_CSV_BLOCKS
      \<and> refundLockUntil > tipHeight + (if awaiting then DISPUTE_CSV_BLOCKS else 0))"

section \<open>Lemmas\<close>

lemma leafScript_in_tree: "leafScript esc leaf \<in> set (treeLeaves esc)"
  by (cases leaf) (simp_all add: treeLeaves_def)

lemma buildOnchainEscrow_Some:
  "buildOnchainEscrow E p = Some esc \<Longrightarrow>
    oe_params esc = p \<and> op_funder p \<noteq> ARBITER \<and> distinct [op_buyer p, op_seller p, op_arbiter p]
    \<and> 0 \<le> op_csv p \<and> op_csv p \<le> 65535 \<and> 0 < op_refundLockUntil p \<and> op_refundLockUntil p < 500000000
    \<and> e_treeOutput E (treeLeaves esc) (op_network p) = Some (oe_address esc, oe_script esc)"
  by (auto simp: buildOnchainEscrow_def buildDisputeLeaf_def buildRefundLeaf_def treeLeaves_def
      bind_eq_Some_conv split: if_splits)

lemma sequenceForLeaf_dispute:
  assumes "0 < csv" "csv \<le> 65535"
  shows "sequenceForLeaf DISPUTE csv = Some csv"
proof -
  have u: "uint (word32 csv) = csv"
    using assms by (simp add: word32_def uint_word_of_int take_bit_int_eq_self_iff)
  have "uint (word32 csv AND 0xffff) = csv AND mask 16"
    by (simp add: unsigned_and_eq u mask_eq_exp_minus_1)
  also have "\<dots> = csv"
    using assms by (simp add: take_bit_eq_mask [symmetric] take_bit_int_eq_self_iff)
  finally show ?thesis using assms by (simp add: sequenceForLeaf_def)
qed

lemma utxoKey_known: "knownUtxo us k = Some u \<Longrightarrow> u \<in> set us \<and> utxoKey u = k"
  unfolding knownUtxo_def by (drule find_Some_in) simp

lemma checkInputs_mono:
  "checkInputs ex inps seen inSum fails = (seen', inSum', fails') \<Longrightarrow> \<exists>xs. fails' = fails @ xs"
proof (induction inps arbitrary: seen inSum fails)
  case (Cons inp inps)
  then show ?case by (fastforce split: option.splits if_splits)
qed simp

text \<open>A clean pass: every input is a known, unspent-before outpoint of the escrow.\<close>

definition witnessSum :: "psbt_input list \<Rightarrow> int" where
  "witnessSum inps = (\<Sum>i\<leftarrow>inps. case in_witness i of None \<Rightarrow> 0 | Some w \<Rightarrow> snd w)"

definition inputClean :: "expectation \<Rightarrow> psbt_input \<Rightarrow> bool" where
  "inputClean ex inp \<longleftrightarrow> (\<exists>u\<in>set (ex_utxos ex). utxoKey u = inputKey inp \<and> inputFailures ex inp u = [])"

lemma checkInputs_clean:
  assumes "checkInputs ex inps seen inSum fails = (seen', inSum', [])" "distinct seen"
  shows "fails = [] \<and> seen' = seen @ map inputKey inps \<and> distinct seen' \<and> (\<forall>i\<in>set inps. inputClean ex i)
    \<and> inSum' = inSum + witnessSum inps"
  using assms
proof (induction inps arbitrary: seen inSum fails)
  case Nil
  then show ?case by (simp add: witnessSum_def)
next
  case (Cons inp inps)
  show ?case
  proof (cases "knownUtxo (ex_utxos ex) (inputKey inp)")
    case None
    with Cons.prems checkInputs_mono show ?thesis by fastforce
  next
    case (Some u)
    show ?thesis
    proof (cases "inputKey inp \<in> set seen")
      case True
      with Some Cons.prems checkInputs_mono show ?thesis by fastforce
    next
      case False
      with Some Cons.prems have rec: "checkInputs ex inps (seen @ [inputKey inp]) (inSum + ux_amountSats u)
          (fails @ inputFailures ex inp u) = (seen', inSum', [])" by simp
      have "distinct (seen @ [inputKey inp])" using False Cons.prems(2) by simp
      note IH = Cons.IH [OF rec this]
      have ih: "fails = []" "inputFailures ex inp u = []" "seen' = seen @ map inputKey (inp # inps)"
          "\<forall>i\<in>set inps. inputClean ex i" "inSum' = inSum + ux_amountSats u + witnessSum inps"
        using IH by simp_all
      have dist: "distinct seen'" using IH by blast
      from ih(2) have "map_option snd (in_witness inp) = Some (ux_amountSats u)"
        by (simp add: inputFailures_def allFails_Nil)
      then have "witnessSum (inp # inps) = ux_amountSats u + witnessSum inps"
        by (auto simp: witnessSum_def)
      moreover have "inputClean ex inp"
        using ih(2) utxoKey_known [OF Some] by (auto simp: inputClean_def)
      ultimately show ?thesis using ih dist by (simp del: distinct_append)
    qed
  qed
qed

lemma inputCleanD:
  assumes "inputClean ex inp"
  shows "\<exists>u\<in>set (ex_utxos ex). utxoKey u = inputKey inp
      \<and> in_witness inp = Some (oe_script (ex_escrow ex), ux_amountSats u)"
    "in_sighashType inp = None \<or> in_sighashType inp = Some 0"
    "ex_leaf ex = Some REFUND_LEAF \<Longrightarrow> in_sequence inp = Some SEQUENCE_FINAL_MINUS_ONE"
    "ex_leaf ex = Some DISPUTE \<Longrightarrow>
      Some (getOr (in_sequence inp) 0xffffffff) = sequenceForLeaf DISPUTE (op_csv (oe_params (ex_escrow ex)))"
  using assms by (auto simp: inputClean_def inputFailures_def allFails_Nil)

text \<open>The checklist, read as what it guarantees about an accepted PSBT.\<close>

lemma settlementOk_sound:
  assumes "settlementOk E b64 ex"
  obtains tx out where "e_parsePsbt E b64 = Some tx" "tx_inputs tx \<noteq> []"
    "distinct (map inputKey (tx_inputs tx))" "\<forall>i\<in>set (tx_inputs tx). inputClean ex i"
    "tx_outputs tx = [out]"
    "getOr (e_outAddress E (getOr (ex_network ex) (op_network (oe_params (ex_escrow ex)))) (out_script out))
       ''(undecodable)'' = ex_destination ex"
    "getOr (out_amount out) 0 \<le> witnessSum (tx_inputs tx)"
    "witnessSum (tx_inputs tx) - getOr (out_amount out) 0 \<le> ex_maxFeeSats ex"
    "ex_committedOutpoint ex = None \<Longrightarrow>
       length (tx_inputs tx) = length (dedupe (map utxoKey (ex_utxos ex)))"
    "ex_leaf ex = Some REFUND_LEAF \<Longrightarrow> tx_lockTime tx = op_refundLockUntil (oe_params (ex_escrow ex))"
proof -
  from assms obtain tx where tx: "e_parsePsbt E b64 = Some tx"
    by (auto simp: settlementOk_def verifySettlementPsbt_def split: option.splits)
  obtain seen inSum inFails where ci: "checkInputs ex (tx_inputs tx) [] 0 [] = (seen, inSum, inFails)"
    by (cases "checkInputs ex (tx_inputs tx) [] 0 []") auto
  note v = assms [unfolded settlementOk_def verifySettlementPsbt_def tx option.case ci Let_def prod.case]
  from v have parts: "tx_inputs tx \<noteq> []" "inFails = []" "coverageFailures ex seen inSum = []"
    "outputFailures E ex (getOr (ex_network ex) (op_network (oe_params (ex_escrow ex)))) (tx_outputs tx) = []"
    "inSum - (\<Sum>out\<leftarrow>tx_outputs tx. getOr (out_amount out) 0) \<ge> 0"
    "inSum - (\<Sum>out\<leftarrow>tx_outputs tx. getOr (out_amount out) 0) \<le> ex_maxFeeSats ex"
    "ex_leaf ex = Some REFUND_LEAF \<longrightarrow> tx_lockTime tx = op_refundLockUntil (oe_params (ex_escrow ex))"
    by (auto simp: allFails_Nil split: if_splits)
  from checkInputs_clean [OF ci [unfolded parts(2)]] have
    clean: "seen = map inputKey (tx_inputs tx)" "distinct seen" "\<forall>i\<in>set (tx_inputs tx). inputClean ex i"
      "inSum = witnessSum (tx_inputs tx)" by auto
  from parts(4) obtain out where out: "tx_outputs tx = [out]"
    by (auto simp: outputFailures_def length_Suc_conv split: if_splits)
  show ?thesis
  proof (rule that [OF tx parts(1) _ clean(3) out])
    show "distinct (map inputKey (tx_inputs tx))" using clean by simp
    show "getOr (e_outAddress E (getOr (ex_network ex) (op_network (oe_params (ex_escrow ex)))) (out_script out))
       ''(undecodable)'' = ex_destination ex"
      using parts(4) out by (simp add: outputFailures_def split: if_splits)
    show "getOr (out_amount out) 0 \<le> witnessSum (tx_inputs tx)"
      "witnessSum (tx_inputs tx) - getOr (out_amount out) 0 \<le> ex_maxFeeSats ex"
      using parts(5,6) out clean(4) by simp_all
    show "length (tx_inputs tx) = length (dedupe (map utxoKey (ex_utxos ex)))"
      if "ex_committedOutpoint ex = None"
      using parts(3) that clean(1) by (simp add: coverageFailures_def allFails_Nil)
    show "tx_lockTime tx = op_refundLockUntil (oe_params (ex_escrow ex))" if "ex_leaf ex = Some REFUND_LEAF"
      using parts(7) that by simp
  qed
qed

lemma escrowKeyIndex_range: "escrowKeyIndexFor i < 2 ^ 31 - 1"
  by (simp add: escrowKeyIndexFor_def)

lemma resolveFundingPlan_Inr:
  assumes "resolveFundingPlan E b s a f h c n = Inr (addr, p)"
  shows "op_funder p = f" "op_refundLockUntil p = h" "op_network p = n" "op_csv p = getOr c 0"
    "\<exists>esc. buildOnchainEscrow E p = Some esc \<and> oe_address esc = addr"
    "hex64 (op_buyer p)" "hex64 (op_seller p)" "hex64 (op_arbiter p)"
    "distinct [op_buyer p, op_seller p, op_arbiter p]"
  using assms
  by (auto simp: resolveFundingPlan_def Let_def allFails_Nil planKey_def split: if_splits option.splits)

lemma sumSats_nonneg: "\<forall>u\<in>set us. 0 \<le> ux_amountSats u \<Longrightarrow> 0 \<le> sumSats us"
  unfolding sumSats_def by (rule sum_list_nonneg) auto

lemma largestDeposit_max:
  assumes "largestDeposit us = Some u"
  shows "u \<in> set us" "v \<in> set us \<Longrightarrow> ux_amountSats v \<le> ux_amountSats u"
proof -
  have fold: "foldl (\<lambda>best d. if ux_amountSats d > ux_amountSats best then d else best) x ds = y \<Longrightarrow>
      y \<in> insert x (set ds) \<and> (\<forall>d\<in>insert x (set ds). ux_amountSats d \<le> ux_amountSats y)" for x y ds
    by (induction ds arbitrary: x) (auto split: if_splits, fastforce+)
  from assms obtain x ds where "us = x # ds"
    "foldl (\<lambda>best d. if ux_amountSats d > ux_amountSats best then d else best) x ds = u"
    by (auto simp: largestDeposit_def split: list.splits)
  with fold show "u \<in> set us" "v \<in> set us \<Longrightarrow> ux_amountSats v \<le> ux_amountSats u" by auto
qed

end
