(* ===== verification/Onchain_Settlement.thy ===== *)
theory Onchain_Settlement
  imports Bitcoin_Escrow Arbiter_Pick Holder_Shares
begin

text \<open>
  The on-chain half of the reducer: bond announcements
  (\<open>src/protocol/core/bond-announcement.ts\<close>), the funding-terms and LOCK gates
  (\<open>onchain-funding-terms.ts\<close>), settlement transport and replay-verifiable proofs
  (\<open>onchain-settlement-transport.ts\<close>), the winner's choice of payout
  (\<open>onchain-settlement-choice.ts\<close>) and stalled payouts (\<open>onchain-stalled.ts\<close>).

  A gate that answers \<open>string | null\<close> returns \<open>string option\<close>. Where an exception can leave the
  function, the result is a sum whose left side is the code \<open>#THROW\<close>.
\<close>

section \<open>Bond announcements\<close>

definition ARBITER_BOND_ANNOUNCEMENT_KIND :: int where "ARBITER_BOND_ANNOUNCEMENT_KIND = 38135"
definition ARBITER_BOND_ANNOUNCEMENT_TYPE :: string where
  "ARBITER_BOND_ANNOUNCEMENT_TYPE = ''chama:commitment-bond''"
definition MAX_LINEAGE_HOPS :: nat where "MAX_LINEAGE_HOPS = 24"

definition normHex :: "string option \<Rightarrow> string option" where
  "normHex v = (case v of None \<Rightarrow> None
     | Some s \<Rightarrow> if hex64 (lower (trim s)) then Some (lower (trim s)) else None)"

text \<open>Reading a parsed JSON value: fields of an object (the last of a repeated key), and casts.\<close>

fun jfield :: "json \<Rightarrow> string \<Rightarrow> json option" where
  "jfield (JObj fs) k = map_of (rev fs) k"
| "jfield _ k = None"

fun jstr :: "json option \<Rightarrow> string option" where
  "jstr (Some (JStr s)) = Some s"
| "jstr _ = None"

fun jposInt :: "json option \<Rightarrow> int option" where
  "jposInt (Some (JNum (Fin q))) = (if q = of_int \<lfloor>q\<rfloor> \<and> q > 0 then Some \<lfloor>q\<rfloor> else None)"
| "jposInt _ = None"

datatype bond_role = BR_ARBITER | BR_MERCHANT

definition bondRoleOf :: "json \<Rightarrow> bond_role option" where
  "bondRoleOf j = (case j of
     JStr s \<Rightarrow> (let r = lower (trim s) in if r = ''arbiter'' then Some BR_ARBITER
                else if r = ''merchant'' then Some BR_MERCHANT else None)
   | _ \<Rightarrow> None)"

definition normRoles :: "json option \<Rightarrow> bond_role list" where
  "normRoles v = (case v of
     Some (JArr xs) \<Rightarrow> (let seen = dedupe (List.map_filter bondRoleOf xs) in if seen = [] then [BR_ARBITER] else seen)
   | _ \<Rightarrow> [BR_ARBITER])"

record lineage_hop =
  lh_fromXonly :: string
  lh_fromLockUntil :: int
  lh_fromTxid :: string

definition normLineageHop :: "json \<Rightarrow> lineage_hop option" where
  "normLineageHop j =
     (case (normHex (jstr (jfield j ''fromXonly'')), normHex (jstr (jfield j ''fromTxid'')),
            jposInt (jfield j ''fromLockUntil'')) of
        (Some x, Some t, Some n) \<Rightarrow> Some \<lparr>lh_fromXonly = x, lh_fromLockUntil = n, lh_fromTxid = t\<rparr>
      | _ \<Rightarrow> None)"

text \<open>Truncate at the first bad or repeated hop.\<close>

fun takeHops :: "json list \<Rightarrow> string list \<Rightarrow> lineage_hop list" where
  "takeHops [] seen = []"
| "takeHops (j # js) seen = (case normLineageHop j of
     None \<Rightarrow> []
   | Some h \<Rightarrow> if lh_fromTxid h \<in> set seen then [] else h # takeHops js (lh_fromTxid h # seen))"

definition normLineage :: "json option \<Rightarrow> (lineage_hop list \<times> string option) option" where
  "normLineage v = (case v of None \<Rightarrow> None
     | Some j \<Rightarrow> (case jfield j ''hops'' of
         Some (JArr xs) \<Rightarrow> (let hops = takeHops (take MAX_LINEAGE_HOPS xs) []
           in if hops = [] then None else Some (hops, normHex (jstr (jfield j ''rootTxid''))))
       | _ \<Rightarrow> None))"

record bond_announcement =
  ba_npub :: string
  ba_community :: string
  ba_ownerXonly :: string
  ba_lockUntil :: int
  ba_claimedSats :: int
  ba_network :: network
  ba_address :: string
  ba_createdAt :: int
  ba_eventId :: string
  ba_roles :: "bond_role list"
  ba_lineage :: "(lineage_hop list \<times> string option) option"

definition networkOf :: "string option \<Rightarrow> network option" where
  "networkOf s = (if s = Some ''signet'' then Some SIGNET else if s = Some ''mainnet'' then Some MAINNET else None)"

text \<open>
  Signer-authoritative: a payload that claims another \<open>npub\<close> is refused, as is one whose
  \<open>npub\<close> is no string (a throw in the source, in callers that treat a throw as a refusal).
\<close>

definition claimsOther :: "json \<Rightarrow> string \<Rightarrow> bool" where
  "claimsOther p signer = (case jfield p ''npub'' of
     None \<Rightarrow> False
   | Some (JStr s) \<Rightarrow> s \<noteq> [] \<and> normHex (Some s) \<noteq> Some signer
   | Some JNull \<Rightarrow> False
   | Some (JBool b) \<Rightarrow> b
   | Some (JNum q) \<Rightarrow> q \<noteq> Fin 0 \<and> q \<noteq> NaN
   | Some _ \<Rightarrow> True)"

definition parseBondAnnouncementEvent :: "env \<Rightarrow> nostr_event \<Rightarrow> bond_announcement option" where
  "parseBondAnnouncementEvent E ev =
     (if ne_kind ev \<noteq> ARBITER_BOND_ANNOUNCEMENT_KIND then None
      else do {
        p \<leftarrow> e_parseJson E (ne_content ev);
        (if jstr (jfield p ''type'') = Some ARBITER_BOND_ANNOUNCEMENT_TYPE then Some () else None);
        signer \<leftarrow> normHex (Some (ne_pubkey ev));
        (if claimsOther p signer then None else Some ());
        owner \<leftarrow> normHex (jstr (jfield p ''ownerXonly''));
        community \<leftarrow> nonEmpty (map_option trim (jstr (jfield p ''community'')));
        lockUntil \<leftarrow> jposInt (jfield p ''lockUntil'');
        amount \<leftarrow> jstr (jfield p ''amountSats'');
        (if allDigits amount then Some () else None);
        net \<leftarrow> networkOf (jstr (jfield p ''network''));
        address \<leftarrow> nonEmpty (jstr (jfield p ''address''));
        (if e_verifyEvent E ev then Some () else None);
        Some \<lparr>ba_npub = signer, ba_community = community, ba_ownerXonly = owner, ba_lockUntil = lockUntil,
              ba_claimedSats = decimal amount, ba_network = net, ba_address = address,
              ba_createdAt = ne_created_at ev, ba_eventId = ne_id ev,
              ba_roles = normRoles (jfield p ''roles''), ba_lineage = normLineage (jfield p ''lineage'')\<rparr> })"

definition commitmentAddress :: "env \<Rightarrow> string \<Rightarrow> int \<Rightarrow> network \<Rightarrow> string option" where
  "commitmentAddress E owner lockUntil net =
     (if lockUntil \<le> 0 \<or> lockUntil \<ge> 500000000 \<or> length owner \<noteq> 64 then None
      else do { leaf \<leftarrow> e_cltvScript E lockUntil owner; map_option fst (e_treeOutput E [leaf] net) })"

section \<open>Funding terms and the on-chain LOCK gate\<close>

definition fundingArbiter :: "state \<Rightarrow> string option" where
  "fundingArbiter s = orElse (st_participants s ARBITER)
     (pickPreferredArbiter (st_communityArbiters s) (st_bondedArbiters s) (st_id s)
        [st_participants s BUYER, st_participants s SELLER])"

definition onchainFunder :: "state \<Rightarrow> role" where
  "onchainFunder s = (if paysSeller s then BUYER else SELLER)"

definition termsKey :: "('a) funding_terms_scheme \<Rightarrow> role \<Rightarrow> string" where
  "termsKey t r = (case r of BUYER \<Rightarrow> ft_buyerXonly t | SELLER \<Rightarrow> ft_sellerXonly t | ARBITER \<Rightarrow> ft_arbiterXonly t)"

definition principalKeyError :: "state \<Rightarrow> ('a) funding_terms_scheme \<Rightarrow> int \<Rightarrow> role \<Rightarrow> string option" where
  "principalKeyError s t ts r =
     (let seat = (if st_onchainFundingTerms s \<noteq> None then st_participants s r else effectiveAt s r ts)
      in firstFail
        [(nonEmpty seat = None, ''Missing participant''),
         (nonEmpty (st_escrowKeys s r) = None \<or> Some (termsKey t r) \<noteq> st_escrowKeys s r, ''Unpublished key'')])"

definition arbiterKeyError :: "env \<Rightarrow> state \<Rightarrow> ('a) funding_terms_scheme \<Rightarrow> string \<Rightarrow> string option" where
  "arbiterKeyError E s t arbiter = (case nonEmpty (st_escrowKeys s ARBITER) of
     Some k \<Rightarrow> if ft_arbiterXonly t \<noteq> k then Some ''Unpublished arbiter key'' else None
   | None \<Rightarrow> (case Option.bind (ft_arbiterBond t) (parseBondAnnouncementEvent E) of
       None \<Rightarrow> Some ''Unverified arbiter bond key''
     | Some bond \<Rightarrow>
         if ba_npub bond \<noteq> arbiter \<or> Some (ba_community bond) \<noteq> st_community s
            \<or> ba_network bond \<noteq> ft_network t \<or> ba_ownerXonly bond \<noteq> ft_arbiterXonly t
            \<or> BR_ARBITER \<notin> set (ba_roles bond)
         then Some ''Unverified arbiter bond key''
         else (case commitmentAddress E (ba_ownerXonly bond) (ba_lockUntil bond) (ft_network t) of
             None \<Rightarrow> Some ''Invalid funding terms''
           | Some a \<Rightarrow> if a \<noteq> ba_address bond then Some ''Arbiter bond descriptor does not reproduce'' else None)))"

definition fundingTermsError :: "env \<Rightarrow> state \<Rightarrow> ('a) funding_terms_scheme \<Rightarrow> int \<Rightarrow> string option" where
  "fundingTermsError E s t ts =
     (let arbiter = nonEmpty (fundingArbiter s);
          keyErr = (case arbiter of None \<Rightarrow> None | Some a \<Rightarrow> arbiterKeyError E s t a);
          plan = resolveFundingPlan E (Some (ft_buyerXonly t)) (Some (ft_sellerXonly t)) (Some (ft_arbiterXonly t))
                   (ft_funder t) (ft_refundLockUntil t) (Some (ft_disputeCsvBlocks t)) (ft_network t)
      in firstFail
        [(st_escrowMode s \<noteq> ONCHAIN, ''Not an on-chain trade''),
         (ft_network t \<noteq> st_onchainNetwork s, ''Wrong Bitcoin network''),
         (ft_funder t \<noteq> onchainFunder s, ''Wrong funder''),
         (ft_disputeCsvBlocks t \<noteq> DISPUTE_CSV_BLOCKS, ''Wrong dispute delay''),
         (principalKeyError s t ts BUYER \<noteq> None, ''Missing or unpublished buyer key''),
         (principalKeyError s t ts SELLER \<noteq> None, ''Missing or unpublished seller key''),
         (arbiter = None, ''Missing arbiter''),
         (keyErr \<noteq> None, getOr keyErr []),
         (\<not> (case plan of Inl _ \<Rightarrow> False | Inr (a, _) \<Rightarrow> a = ft_address t),
          ''Address does not match published keys and terms'')])"

definition sameTerms :: "('a) funding_terms_scheme \<Rightarrow> ('b) funding_terms_scheme \<Rightarrow> bool" where
  "sameTerms t u \<longleftrightarrow> ft_address t = ft_address u \<and> ft_buyerXonly t = ft_buyerXonly u
     \<and> ft_sellerXonly t = ft_sellerXonly u \<and> ft_arbiterXonly t = ft_arbiterXonly u
     \<and> ft_funder t = ft_funder u \<and> ft_refundLockUntil t = ft_refundLockUntil u
     \<and> ft_disputeCsvBlocks t = ft_disputeCsvBlocks u \<and> ft_network t = ft_network u"

definition onchainLockError :: "env \<Rightarrow> state \<Rightarrow> lock_terms \<Rightarrow> int \<Rightarrow> string option" where
  "onchainLockError E s t ts = (case st_onchainFundingTerms s of
     None \<Rightarrow> Some ''Funding terms were not published before LOCK''
   | Some committed \<Rightarrow> (case fundingTermsError E s committed ts of
       Some e \<Rightarrow> Some e
     | None \<Rightarrow> firstFail
         [(\<not> sameTerms t committed, ''LOCK changed a committed term''),
          (\<not> allDigits (lt_amountSats t) \<or> decimal (lt_amountSats t) * 1000 < st_amountMsats s,
           ''Insufficient deposit amount'')]))"

definition holdAmount :: "state \<Rightarrow> int option" where
  "holdAmount s = Option.bind (st_joinHolds s BUYER) jh_amountMsats"

definition onchainFundingInputsChanged :: "state \<Rightarrow> state option \<Rightarrow> bool" where
  "onchainFundingInputsChanged before after = (case after of None \<Rightarrow> True
     | Some t \<Rightarrow> st_id before \<noteq> st_id t \<or> st_status before \<noteq> st_status t
         \<or> st_escrowMode before \<noteq> st_escrowMode t \<or> st_onchainNetwork before \<noteq> st_onchainNetwork t
         \<or> st_community before \<noteq> st_community t \<or> st_amountMsats before \<noteq> st_amountMsats t
         \<or> holdAmount before \<noteq> holdAmount t
         \<or> (st_onchainFundingTerms t = None) \<noteq> (st_onchainFundingTerms before = None)
         \<or> onchainFunder before \<noteq> onchainFunder t \<or> fundingArbiter before \<noteq> fundingArbiter t
         \<or> list_ex (\<lambda>r. st_participants before r \<noteq> st_participants t r
              \<or> st_escrowKeys before r \<noteq> st_escrowKeys t r) allRoles)"

section \<open>Settlement transport\<close>

definition settlementUnsignedId :: "env \<Rightarrow> string \<Rightarrow> string option" where
  "settlementUnsignedId E b64 = map_option tx_id (e_parsePsbt E b64)"

definition msgPsbt :: "settlement_msg \<Rightarrow> string" where
  "msgPsbt m = sp_psbt (sm_payload m)"

definition msgLeaf :: "settlement_msg \<Rightarrow> leaf" where
  "msgLeaf m = sp_leaf (sm_payload m)"

text \<open>Newest first; an unsigned transaction already refused is not tried again.\<close>

fun newestVerified :: "env \<Rightarrow> expectation \<Rightarrow> settlement_msg list \<Rightarrow> string list \<Rightarrow> string option" where
  "newestVerified E ex [] seen = None"
| "newestVerified E ex (m # ms) seen =
     (if msgLeaf m \<noteq> LF_COOP then newestVerified E ex ms seen
      else case settlementUnsignedId E (msgPsbt m) of
        None \<Rightarrow> newestVerified E ex ms seen
      | Some i \<Rightarrow> if i \<in> set seen then newestVerified E ex ms seen
          else if settlementOk E (msgPsbt m) ex then Some (msgPsbt m)
          else newestVerified E ex ms (i # seen))"

definition selectVerifiedCoopSettlement :: "env \<Rightarrow> settlement_msg list \<Rightarrow> expectation \<Rightarrow> string option" where
  "selectVerifiedCoopSettlement E ms ex = newestVerified E ex (rev ms) []"

definition selectVerifiedArbiterSettlement :: "env \<Rightarrow> settlement_msg list \<Rightarrow> expectation \<Rightarrow> string option" where
  "selectVerifiedArbiterSettlement E ms ex =
     map_option msgPsbt (List.find (\<lambda>m. msgLeaf m = LF_ARBITER \<and> settlementOk E (msgPsbt m) ex) (rev ms))"

fun verifiedGroup :: "env \<Rightarrow> expectation \<Rightarrow> leaf \<Rightarrow> settlement_msg list \<Rightarrow> string option \<Rightarrow> string list" where
  "verifiedGroup E ex leaf [] selected = []"
| "verifiedGroup E ex leaf (m # ms) selected =
     (if msgLeaf m \<noteq> leaf \<or> \<not> settlementOk E (msgPsbt m) ex then verifiedGroup E ex leaf ms selected
      else case settlementUnsignedId E (msgPsbt m) of
        None \<Rightarrow> verifiedGroup E ex leaf ms selected
      | Some i \<Rightarrow> (let sel = orElse selected (Some i) in
          (if Some i = sel then [msgPsbt m] else []) @ verifiedGroup E ex leaf ms sel))"

definition verifiedSettlementGroup :: "env \<Rightarrow> settlement_msg list \<Rightarrow> expectation \<Rightarrow> leaf \<Rightarrow> string list" where
  "verifiedSettlementGroup E ms ex leaf = verifiedGroup E ex leaf (rev ms) None"

definition roleKey :: "escrow_params \<Rightarrow> role \<Rightarrow> string" where
  "roleKey p r = (case r of BUYER \<Rightarrow> op_buyer p | SELLER \<Rightarrow> op_seller p | ARBITER \<Rightarrow> op_arbiter p)"

text \<open>A 64-byte Schnorr signature of the committed key over the exact sighash, on this leaf.\<close>

definition inputSignedBy :: "env \<Rightarrow> psbt \<Rightarrow> onchain_escrow \<Rightarrow> role \<Rightarrow> spend_leaf \<Rightarrow> nat \<Rightarrow> bool" where
  "inputSignedBy E tx esc r leaf i =
     (let script = leafScript esc leaf; key = roleKey (oe_params esc) r; inp = tx_inputs tx ! i;
          ws = List.map_filter in_witness (tx_inputs tx)
      in case e_sighash E tx i (map fst ws) (map snd ws) script of
           None \<Rightarrow> False
         | Some msg \<Rightarrow> (case List.find (\<lambda>t. ts_pubKey t = key \<and> ts_leafHash t = e_tapLeafHash E script
                               \<and> length (ts_signature t) = 128) (in_sigs inp) of
             None \<Rightarrow> False | Some t \<Rightarrow> e_schnorrVerify E (ts_signature t) msg key))"

definition hasValidSettlementSignatureForRole ::
  "env \<Rightarrow> string \<Rightarrow> onchain_escrow \<Rightarrow> role \<Rightarrow> spend_leaf \<Rightarrow> bool" where
  "hasValidSettlementSignatureForRole E b64 esc r leaf = (case e_parsePsbt E b64 of
     None \<Rightarrow> False
   | Some tx \<Rightarrow> list_all (\<lambda>i. in_witness i \<noteq> None) (tx_inputs tx)
       \<and> list_all (inputSignedBy E tx esc r leaf) [0..<length (tx_inputs tx)])"

definition hasValidDisputeSignatures :: "env \<Rightarrow> string \<Rightarrow> onchain_escrow \<Rightarrow> role \<Rightarrow> bool" where
  "hasValidDisputeSignatures E b64 esc winnerRole \<longleftrightarrow>
     hasValidSettlementSignatureForRole E b64 esc winnerRole DISPUTE
     \<and> hasValidSettlementSignatureForRole E b64 esc ARBITER DISPUTE"

definition combineSettlementPsbts :: "env \<Rightarrow> string list \<Rightarrow> string option" where
  "combineSettlementPsbts E psbts = (if psbts = [] then None else e_combine E psbts)"

definition adoptedSettlementTxid :: "(bool \<times> string option) list \<Rightarrow> string option" where
  "adoptedSettlementTxid outs =
     (if outs = [] \<or> list_ex (\<lambda>x. \<not> fst x \<or> nonEmpty (snd x) = None) outs then None
      else let txid = snd (hd outs) in if list_all (\<lambda>x. snd x = txid) outs then txid else None)"

definition adoptedExpectedSettlementTxid :: "string \<Rightarrow> (bool \<times> string option) list \<Rightarrow> string option" where
  "adoptedExpectedSettlementTxid expected outs =
     (if adoptedSettlementTxid outs = Some expected then Some expected else None)"

text \<open>Singles first, then pairs.\<close>

definition attemptsOf :: "string list \<Rightarrow> string list list" where
  "attemptsOf grp = map (\<lambda>p. [p]) grp
     @ concat (map (\<lambda>a. map (\<lambda>b. [grp ! a, grp ! b]) [Suc a..<length grp]) [0..<length grp])"

fun firstAttempt :: "(string list \<Rightarrow> (string \<times> string) option) \<Rightarrow> string list list \<Rightarrow> (string \<times> string) option" where
  "firstAttempt f [] = None"
| "firstAttempt f (a # as) = orElse (f a) (firstAttempt f as)"

definition finalizableCoopSettlement ::
  "env \<Rightarrow> settlement_msg list \<Rightarrow> expectation \<Rightarrow> (string \<times> string) option" where
  "finalizableCoopSettlement E ms ex = firstAttempt (\<lambda>a. do {
       b \<leftarrow> combineSettlementPsbts E a; raw \<leftarrow> finalizeSettlement E [b] None; Some (b, raw) })
     (attemptsOf (verifiedSettlementGroup E ms ex LF_COOP))"

definition finalizableArbiterSettlement ::
  "env \<Rightarrow> settlement_msg list \<Rightarrow> expectation \<Rightarrow> onchain_escrow \<Rightarrow> role \<Rightarrow> (string \<times> string) option" where
  "finalizableArbiterSettlement E ms ex esc winnerRole = firstAttempt (\<lambda>a. do {
       b \<leftarrow> combineSettlementPsbts E a;
       if \<not> hasValidDisputeSignatures E b esc winnerRole then None
       else do { raw \<leftarrow> finalizeSettlement E [b] (Some (esc, DISPUTE)); Some (b, raw) } })
     (attemptsOf (verifiedSettlementGroup E
        (filter (\<lambda>m. sp_role (sm_payload m) = winnerRole \<or> sp_role (sm_payload m) = ARBITER) ms) ex LF_ARBITER))"

section \<open>Replay-verifiable settlement proofs\<close>

text \<open>The outer option is the throw of an unparsable final message.\<close>

definition authorizedDirectPayout ::
  "env \<Rightarrow> settlement_payload \<Rightarrow> settlement_msg list \<Rightarrow> role \<Rightarrow> string option \<Rightarrow> string option option" where
  "authorizedDirectPayout E fin ms winnerRole winnerPubkey = (case nonEmpty winnerPubkey of
     None \<Rightarrow> Some None
   | Some pk \<Rightarrow> (case settlementUnsignedId E (sp_psbt fin) of
       None \<Rightarrow> None
     | Some i \<Rightarrow> Some (Option.bind
         (List.find (\<lambda>m. sm_pubkey m = pk \<and> sp_role (sm_payload m) = winnerRole
            \<and> truthyS (sp_payoutAddress (sm_payload m))
            \<and> settlementUnsignedId E (msgPsbt m) = Some i) ms)
         (\<lambda>m. sp_payoutAddress (sm_payload m)))))"

record settlement_proof =
  pf_txid :: string
  pf_destination :: string
  pf_sats :: string
  pf_inputs :: "(string \<times> int) list"

definition rebuildEscrow :: "env \<Rightarrow> ('a) funding_terms_scheme \<Rightarrow> onchain_escrow option" where
  "rebuildEscrow E t = do {
     b \<leftarrow> hexToBytes (ft_buyerXonly t); s \<leftarrow> hexToBytes (ft_sellerXonly t); a \<leftarrow> hexToBytes (ft_arbiterXonly t);
     buildOnchainEscrow E \<lparr>op_buyer = b, op_seller = s, op_arbiter = a, op_funder = ft_funder t,
       op_refundLockUntil = ft_refundLockUntil t, op_csv = ft_disputeCsvBlocks t, op_network = ft_network t\<rparr> }"

definition inputUtxo :: "psbt_input \<Rightarrow> utxo option" where
  "inputUtxo inp = do { t \<leftarrow> in_txid inp; i \<leftarrow> in_index inp; w \<leftarrow> in_witness inp;
     Some \<lparr>ux_txid = t, ux_index = i, ux_amountSats = snd w\<rparr> }"

definition tradeKeyAddress :: "env \<Rightarrow> ('a) funding_terms_scheme \<Rightarrow> role \<Rightarrow> string option" where
  "tradeKeyAddress E t r = do {
     k \<leftarrow> hexToBytes (if r = BUYER then ft_buyerXonly t else ft_sellerXonly t); e_keyAddress E k (ft_network t) }"

definition sweepExpectation ::
  "onchain_escrow \<Rightarrow> utxo list \<Rightarrow> string \<Rightarrow> network \<Rightarrow> spend_leaf option \<Rightarrow> int option \<Rightarrow> expectation" where
  "sweepExpectation esc utxos destination net leaf tip =
     \<lparr>ex_escrow = esc, ex_utxos = utxos, ex_destination = destination, ex_maxFeeSats = sumSats utxos,
      ex_network = Some net, ex_leaf = leaf, ex_tipHeight = tip, ex_committedOutpoint = None,
      ex_minInputSats = None\<rparr>"

definition spendsFunding :: "lock_terms \<Rightarrow> utxo list \<Rightarrow> bool" where
  "spendsFunding t utxos = list_ex (\<lambda>u. ux_txid u = lt_fundingTxid t \<and> ux_index u = lt_fundingVout t) utxos"

definition proofOf :: "psbt \<Rightarrow> string \<Rightarrow> utxo list \<Rightarrow> settlement_proof option" where
  "proofOf tx destination utxos = (case tx_outputs tx of
     [] \<Rightarrow> None
   | out # _ \<Rightarrow> map_option (\<lambda>a. \<lparr>pf_txid = tx_id tx, pf_destination = destination, pf_sats = showInt a,
       pf_inputs = map (\<lambda>u. (ux_txid u, ux_index u)) utxos\<rparr>) (out_amount out))"

definition payoutDestination ::
  "env \<Rightarrow> settlement_payload \<Rightarrow> lock_terms \<Rightarrow> role \<Rightarrow> settlement_msg list \<Rightarrow> string option \<Rightarrow> string option" where
  "payoutDestination E fin t winnerRole ms winnerPubkey = do {
     direct \<leftarrow> authorizedDirectPayout E fin ms winnerRole winnerPubkey;
     (case direct of Some d \<Rightarrow> Some d | None \<Rightarrow> tradeKeyAddress E t winnerRole) }"

definition finalCoopSettlementProof ::
  "env \<Rightarrow> settlement_payload \<Rightarrow> lock_terms \<Rightarrow> role \<Rightarrow> settlement_msg list \<Rightarrow> string option \<Rightarrow> settlement_proof option" where
  "finalCoopSettlementProof E fin t winnerRole ms winnerPubkey =
     (if sp_final fin \<noteq> Some True \<or> sp_leaf fin \<noteq> LF_COOP then None
      else do {
        esc \<leftarrow> rebuildEscrow E t;
        (if oe_address esc = ft_address t then Some () else None);
        tx \<leftarrow> e_parsePsbt E (sp_psbt fin);
        utxos \<leftarrow> those (map inputUtxo (tx_inputs tx));
        (if spendsFunding t utxos then Some () else None);
        destination \<leftarrow> payoutDestination E fin t winnerRole ms winnerPubkey;
        (if settlementOk E (sp_psbt fin) (sweepExpectation esc utxos destination (ft_network t) None None)
         then Some () else None);
        raw \<leftarrow> finalizeSettlement E [sp_psbt fin] None;
        proofOf tx destination utxos })"

definition finalArbiterSettlementProof ::
  "env \<Rightarrow> settlement_payload \<Rightarrow> lock_terms \<Rightarrow> role \<Rightarrow> settlement_msg list \<Rightarrow> string option \<Rightarrow> settlement_proof option" where
  "finalArbiterSettlementProof E fin t winnerRole ms winnerPubkey =
     (if sp_final fin \<noteq> Some True \<or> sp_leaf fin \<noteq> LF_ARBITER then None
      else do {
        esc \<leftarrow> rebuildEscrow E t;
        (if oe_address esc = ft_address t then Some () else None);
        tx \<leftarrow> e_parsePsbt E (sp_psbt fin);
        utxos \<leftarrow> those (map inputUtxo (tx_inputs tx));
        (if spendsFunding t utxos then Some () else None);
        destination \<leftarrow> payoutDestination E fin t winnerRole ms winnerPubkey;
        (if settlementOk E (sp_psbt fin) (sweepExpectation esc utxos destination (ft_network t) (Some DISPUTE) None)
         then Some () else None);
        (if hasValidDisputeSignatures E (sp_psbt fin) esc winnerRole then Some () else None);
        raw \<leftarrow> finalizeSettlement E [sp_psbt fin] (Some (esc, DISPUTE));
        proofOf tx destination utxos })"

text \<open>A refund proof: its txid, the raw transaction and the inputs it spends.\<close>

definition finalRefundSettlementProof ::
  "env \<Rightarrow> settlement_payload \<Rightarrow> ('a) funding_terms_scheme \<Rightarrow> (string \<times> string \<times> (string \<times> int) list) option" where
  "finalRefundSettlementProof E fin t =
     (if sp_final fin \<noteq> Some True \<or> sp_leaf fin \<noteq> LF_REFUND \<or> sp_role fin \<noteq> ft_funder t then None
      else do {
        esc \<leftarrow> rebuildEscrow E t;
        (if oe_address esc = ft_address t then Some () else None);
        tx \<leftarrow> e_parsePsbt E (sp_psbt fin);
        utxos \<leftarrow> those (map inputUtxo (tx_inputs tx));
        destination \<leftarrow> tradeKeyAddress E t (ft_funder t);
        (if settlementOk E (sp_psbt fin) (sweepExpectation esc utxos destination (ft_network t)
              (Some REFUND_LEAF) (Some (ft_refundLockUntil t))) then Some () else None);
        (if hasValidSettlementSignatureForRole E (sp_psbt fin) esc (ft_funder t) REFUND_LEAF then Some () else None);
        raw \<leftarrow> finalizeSettlement E [sp_psbt fin] (Some (esc, REFUND_LEAF));
        Some (tx_id tx, raw, map (\<lambda>u. (ux_txid u, ux_index u)) utxos) })"

definition settlementBuildFeeSats :: "int \<Rightarrow> int \<Rightarrow> spend_leaf \<Rightarrow> int option" where
  "settlementBuildFeeSats rate numInputs leaf =
     (if numInputs < 1 then None else Some ((LEAF_SPEND_VSIZE leaf + (numInputs - 1) * 58) * rate))"

definition signingKeyMatchesRole :: "string \<Rightarrow> role \<Rightarrow> ('a) funding_terms_scheme \<Rightarrow> bool" where
  "signingKeyMatchesRole derived r t \<longleftrightarrow> lower derived = lower (termsKey t r)"

section \<open>The winner's choice\<close>

definition settlementWinner :: "state \<Rightarrow> (string \<times> role) option" where
  "settlementWinner s = payoutRecipientFor s (getOr (st_resolvedOutcome s) RELEASE)"

record choice =
  ch_id :: string
  ch_destination :: string
  ch_locked :: bool
  ch_messages :: "settlement_msg list"
  ch_proposal :: settlement_msg

definition arbitrated :: "state \<Rightarrow> bool" where
  "arbitrated s \<longleftrightarrow> st_settlementStalled s \<noteq> None
     \<or> (case st_resolvedMajority s of None \<Rightarrow> False | Some rs \<Rightarrow> ARBITER \<in> set rs)"

definition otherPrincipal :: "role \<Rightarrow> role" where
  "otherPrincipal r = (if r = BUYER then SELLER else BUYER)"

text \<open>One proposal of the winner, judged on its own.\<close>

definition proposalChoice ::
  "env \<Rightarrow> state \<Rightarrow> lock_terms \<Rightarrow> onchain_escrow \<Rightarrow> string \<times> role \<Rightarrow> string \<Rightarrow> settlement_msg list
    \<Rightarrow> settlement_msg \<Rightarrow> choice option" where
  "proposalChoice E s t esc winner fallback ms m =
     (if sm_pubkey m \<noteq> fst winner \<or> sp_role (sm_payload m) \<noteq> snd winner then None
      else do {
        i \<leftarrow> settlementUnsignedId E (msgPsbt m);
        let destination = getOr (nonEmpty (sp_payoutAddress (sm_payload m))) fallback;
            leaf = (if arbitrated s then DISPUTE else COOP);
            other = (if arbitrated s then ARBITER else otherPrincipal (snd winner));
            grp = filter (\<lambda>x. settlementUnsignedId E (msgPsbt x) = Some i) ms
        in do {
          (case st_settlementStalled s of None \<Rightarrow> Some ()
           | Some d \<Rightarrow> if destination = sd_destination d then Some () else None);
          tx \<leftarrow> e_parsePsbt E (msgPsbt m);
          utxos \<leftarrow> those (map inputUtxo (tx_inputs tx));
          (if spendsFunding t utxos then Some () else None);
          (if settlementOk E (msgPsbt m) (sweepExpectation esc utxos destination (ft_network t) (Some leaf) None)
           then Some () else None);
          Some \<lparr>ch_id = i, ch_destination = destination,
            ch_locked = list_ex (\<lambda>x. hasValidSettlementSignatureForRole E (msgPsbt x) esc other leaf) grp,
            ch_messages = grp, ch_proposal = m\<rparr> } })"

fun choiceLoop ::
  "(settlement_msg \<Rightarrow> choice option) \<Rightarrow> settlement_msg list \<Rightarrow> string list \<Rightarrow> choice option \<Rightarrow> choice option" where
  "choiceLoop judge [] seen latest = latest"
| "choiceLoop judge (m # ms) seen latest = (case judge m of
     None \<Rightarrow> choiceLoop judge ms seen latest
   | Some c \<Rightarrow> if ch_id c \<in> set seen then choiceLoop judge ms seen latest
       else if ch_locked c then Some c
       else choiceLoop judge ms (ch_id c # seen) (Some c))"

definition winnerSettlementChoice :: "env \<Rightarrow> state \<Rightarrow> errcode + choice option" where
  "winnerSettlementChoice E s = (case (lk_onchain (st_lock s), settlementWinner s) of
     (Some t, Some winner) \<Rightarrow>
       if snd winner \<noteq> BUYER \<and> snd winner \<noteq> SELLER then Inr None
       else (case rebuildEscrow E t of
         None \<Rightarrow> Inl ''#THROW''
       | Some esc \<Rightarrow>
           if oe_address esc \<noteq> ft_address t then Inr None
           else (case tradeKeyAddress E t (snd winner) of
             None \<Rightarrow> Inl ''#THROW''
           | Some fallback \<Rightarrow>
               let wire = (if arbitrated s then LF_ARBITER else LF_COOP);
                   ms = filter (\<lambda>m. msgLeaf m = wire) (st_settlements s)
               in Inr (choiceLoop (proposalChoice E s t esc winner fallback ms) ms [] None)))
   | _ \<Rightarrow> Inr None)"

text \<open>\<open>None\<close> is permission; the winner may not move a payout the other signer has locked.\<close>

definition assertWinnerMayChoose :: "env \<Rightarrow> state \<Rightarrow> string \<Rightarrow> string \<Rightarrow> string option" where
  "assertWinnerMayChoose E s pubkey destination =
     (if map_option fst (settlementWinner s) \<noteq> Some pubkey
      then Some ''Only the winner can choose where the sats go.''
      else case winnerSettlementChoice E s of
        Inl e \<Rightarrow> Some e
      | Inr None \<Rightarrow> None
      | Inr (Some c) \<Rightarrow> if ch_locked c \<and> ch_destination c \<noteq> destination
          then Some ''The other signer has already signed. The payout destination cannot change.'' else None)"

definition payoutUsesTradeKey :: "env \<Rightarrow> state \<Rightarrow> errcode + bool" where
  "payoutUsesTradeKey E s = (case (lk_onchain (st_lock s), settlementWinner s) of
     (Some t, Some winner) \<Rightarrow>
       let judge = (\<lambda>d. case tradeKeyAddress E t (snd winner) of
             None \<Rightarrow> Inl ''#THROW'' | Some a \<Rightarrow> Inr (d = a))
       in (case st_onchainPayoutAddress s of
           Some d \<Rightarrow> if d = [] then Inr True else judge d
         | None \<Rightarrow> (case winnerSettlementChoice E s of
             Inl e \<Rightarrow> Inl e
           | Inr None \<Rightarrow> Inr True
           | Inr (Some c) \<Rightarrow> if ch_destination c = [] then Inr True else judge (ch_destination c)))
   | _ \<Rightarrow> Inr False)"

definition voteSettlement :: "event \<Rightarrow> vote_payload \<Rightarrow> settlement_msg option" where
  "voteSettlement e p = map_option (settlementMsg e) (vp_onchainRelease p)"

definition atomicReleaseError :: "env \<Rightarrow> state \<Rightarrow> event \<Rightarrow> vote_payload \<Rightarrow> errcode + string option" where
  "atomicReleaseError E s e p =
     (if lk_onchain (st_lock s) = None \<or> vp_outcome p \<noteq> RELEASE \<or> vp_role p = ARBITER
      then Inr (if vp_onchainRelease p \<noteq> None
                then Some ''Payout signature is only valid on a principal on-chain RELEASE.'' else None)
      else case voteSettlement e p of
        None \<Rightarrow> Inr (if st_onchainAtomicRelease s = Some True
                    then Some ''Choose or sign the payout before confirming.'' else None)
      | Some m \<Rightarrow>
          if sp_role (sm_payload m) \<noteq> vp_role p \<or> msgLeaf m \<noteq> LF_COOP \<or> sp_final (sm_payload m) = Some True
          then Inr (Some ''The vote must carry this participant's cooperative payout.'')
          else (case winnerSettlementChoice E (s\<lparr>st_settlements := st_settlements s @ [m]\<rparr>) of
            Inl c \<Rightarrow> Inl c
          | Inr ch \<Rightarrow> (case (settlementWinner s, ch) of
              (Some winner, Some c) \<Rightarrow> (case settlementUnsignedId E (msgPsbt m) of
                None \<Rightarrow> Inl ''#THROW''
              | Some i \<Rightarrow> Inr (firstFail
                  [(ch_id c \<noteq> i, ''The payout does not match the winner's verified choice.''),
                   (vp_role p \<noteq> snd winner \<and> \<not> ch_locked c,
                    ''Confirming requires a valid Bitcoin signature from the releasing participant.'')]))
            | _ \<Rightarrow> Inr (Some ''The payout does not match the winner's verified choice.''))))"

section \<open>Stalled payouts\<close>

definition STALLED_PAYOUT_WAIT :: int where "STALLED_PAYOUT_WAIT = 86400"

record stalled_eligibility =
  se_winner :: "string \<times> role"
  se_other :: role
  se_choice :: choice
  se_availableAt :: int
  se_ready :: bool

definition stalledPayoutEligibility :: "env \<Rightarrow> state \<Rightarrow> int \<Rightarrow> errcode + stalled_eligibility option" where
  "stalledPayoutEligibility E s now =
     (if lk_onchain (st_lock s) = None \<or> st_status s \<noteq> APPROVED \<or> st_resolvedOutcome s \<noteq> Some RELEASE
         \<or> arbitrated s \<or> st_resolvedAt s = None then Inr None
      else case payoutRecipientFor s RELEASE of
        None \<Rightarrow> Inr None
      | Some winner \<Rightarrow>
          if voteOf s (otherPrincipal (snd winner)) \<noteq> Some RELEASE then Inr None
          else (case winnerSettlementChoice E s of
            Inl e \<Rightarrow> Inl e
          | Inr None \<Rightarrow> Inr None
          | Inr (Some c) \<Rightarrow>
              if ch_locked c then Inr None
              else let availableAt = the (st_resolvedAt s) + STALLED_PAYOUT_WAIT
                   in Inr (Some \<lparr>se_winner = winner, se_other = otherPrincipal (snd winner), se_choice = c,
                        se_availableAt = availableAt, se_ready = (now \<ge> availableAt)\<rparr>)))"

end
