(* ===== verification/Handle_Join.thy ===== *)
theory Handle_Join
  imports Reducer_Base Onchain_Settlement
begin

text \<open>
  \<open>handleJoin\<close> of \<open>src/escrow-engine/state-machine.ts\<close>. A JOIN never moves the status. It has
  three shapes: the funder's JOIN that freezes the on-chain funding terms, a repeated JOIN of a
  seated party that carries an order, and a JOIN that takes a seat.
\<close>

section \<open>Freezing the funding terms\<close>

definition freezeTerms :: "env \<Rightarrow> state \<Rightarrow> event \<Rightarrow> join_payload \<Rightarrow> funding_terms \<Rightarrow> result" where
  "freezeTerms E s e p terms =
     (let r = onchainFunder s in guarded
        [(st_onchainFundingTerms s \<noteq> None, ''FUNDING_TERMS_FROZEN''),
         (jp_role p \<noteq> r \<or> effectiveAt s r (ev_timestamp e) \<noteq> Some (ev_pubkey e), ''INVALID_FUNDING_TERMS''),
         (fundingTermsError E s terms (ev_timestamp e) \<noteq> None, ''INVALID_FUNDING_TERMS'')]
        (Inr (s\<lparr>st_onchainFundingTerms := Some terms,
                st_participants := (st_participants s)(ARBITER := fundingArbiter s),
                st_tradeTimeoutSeconds := Some (tradeTimeoutSecondsFor s),
                st_listingExpiresAt := Some (getOr (st_listingExpiresAt s) (st_expiresAt s)),
                st_expiresAt := NEVER_EXPIRES, st_eventChain := st_eventChain s @ [e]\<rparr>)))"

section \<open>Orders on a seat that is already held\<close>

definition orderItems :: "join_payload \<Rightarrow> selected_item list option" where
  "orderItems p = (case jp_selectedItems p of Some (i # is) \<Rightarrow> Some (map cloneSelectedMenuItem (i # is)) | _ \<Rightarrow> None)"

definition orderAmount :: "join_payload \<Rightarrow> int option" where
  "orderAmount p = (case jp_amountMsats p of Some n \<Rightarrow> if n > 0 then Some n else None | None \<Rightarrow> None)"

definition holdExpiry :: "state \<Rightarrow> join_payload \<Rightarrow> int" where
  "holdExpiry s p = getOr (jp_holdExpiresAt p) (joinHoldExpiresAtFor (jp_joinedAt p) (st_escrowMode s))"

text \<open>A refreshed hold keeps the clock of the hold it replaces.\<close>

definition holdFor :: "state \<Rightarrow> event \<Rightarrow> join_payload \<Rightarrow> join_hold option \<Rightarrow> join_hold" where
  "holdFor s e p existing = \<lparr>jh_role = jp_role p, jh_pubkey = ev_pubkey e,
     jh_joinedAt = (case existing of Some h \<Rightarrow> jh_joinedAt h | None \<Rightarrow> jp_joinedAt p),
     jh_expiresAt = (case existing of Some h \<Rightarrow> jh_expiresAt h | None \<Rightarrow> holdExpiry s p),
     jh_eventId = ev_id e, jh_selectedItems = orderItems p, jh_amountMsats = orderAmount p,
     jh_orderFinalizedAt = inferLegacyInitialOrderFinalizedAt p existing\<rparr>"

definition updateOrder :: "state \<Rightarrow> event \<Rightarrow> join_payload \<Rightarrow> result" where
  "updateOrder s e p =
     (let existing = st_joinHolds s (jp_role p) in
      if \<not> (roleUsesJoinHold (jp_role p) (st_initiatorRole s) \<and> hasJoinOrderPayload p) then Inl ''ALREADY_JOINED''
      else if truthyN (Option.bind existing jh_orderFinalizedAt) then Inl ''ORDER_ALREADY_FINALIZED''
      else Inr (s\<lparr>st_joinHolds := (st_joinHolds s)(jp_role p := Some (holdFor s e p existing)),
                  st_eventChain := st_eventChain s @ [e]\<rparr>))"

section \<open>Taking a seat\<close>

definition acceptedArbiters :: "state \<Rightarrow> string list" where
  "acceptedArbiters s = (let ex = [st_participants s BUYER, st_participants s SELLER] in
     List.map_filter nonEmpty
       [pickPreferredArbiter (st_communityArbiters s) (st_bondedArbiters s) (st_id s) ex,
        pickArbiterFromPool (st_communityArbiters s) (st_id s) ex])"

definition arbiterJoinGuards :: "state \<Rightarrow> event \<Rightarrow> (bool \<times> errcode) list" where
  "arbiterJoinGuards s e =
     [((truthyS (st_community s) \<or> usesMoneyPathHardening (st_createdAt s)) \<and> st_communityArbiters s = [],
       ''ARBITER_POOL_EMPTY''),
      (st_communityArbiters s \<noteq> [] \<and> ev_pubkey e \<notin> set (st_communityArbiters s), ''ARBITER_NOT_IN_POOL''),
      (acceptedArbiters s \<noteq> [] \<and> ev_pubkey e \<notin> set (acceptedArbiters s), ''ARBITER_NOT_ASSIGNED'')]"

definition seatedState :: "state \<Rightarrow> event \<Rightarrow> join_payload \<Rightarrow> state" where
  "seatedState s e p = (let r = jp_role p in
     s\<lparr>st_participants := (st_participants s)(r := Some (ev_pubkey e)),
       st_escrowKeys := (st_escrowKeys s)(r := map_option lower (nonEmpty (jp_escrowXonly p))),
       st_joinHolds := (st_joinHolds s)(r :=
         (if roleUsesJoinHold r (st_initiatorRole s) then Some (holdFor s e p None) else None)),
       st_fees := (if r = ARBITER \<and> jp_arbiterFeeMsats p \<noteq> None
         then (st_fees s)\<lparr>fe_arbiterMsats := sanitizeArbiterFeeMsats (jp_arbiterFeeMsats p) (st_amountMsats s)\<rparr>
         else st_fees s),
       st_eventChain := st_eventChain s @ [e]\<rparr>)"

definition takeSeat :: "state \<Rightarrow> event \<Rightarrow> join_payload \<Rightarrow> result" where
  "takeSeat s e p = guarded
     ((getActiveRole s (ev_pubkey e) (ev_timestamp e) \<noteq> None, ''ALREADY_JOINED'')
       # (if jp_role p = ARBITER then arbiterJoinGuards s e else []))
     (Inr (seatedState s e p))"

definition handleJoin :: "env \<Rightarrow> state \<Rightarrow> event \<Rightarrow> join_payload \<Rightarrow> result" where
  "handleJoin E s e p =
     (if st_chamaCircle s \<noteq> None then Inl ''CHAMA_SEATS_FIXED''
      else if st_status s \<noteq> CREATED then Inl ''INVALID_STATE''
      else case jp_fundingTerms p of
        Some terms \<Rightarrow> freezeTerms E s e p terms
      | None \<Rightarrow>
          if st_onchainFundingTerms s \<noteq> None then Inl ''FUNDING_TERMS_FROZEN''
          else if jp_role p = st_initiatorRole s then Inl ''ROLE_CONFLICT''
          else (case effectiveAt s (jp_role p) (ev_timestamp e) of
                  Some pk \<Rightarrow> if pk = ev_pubkey e then updateOrder s e p else Inl ''ROLE_TAKEN''
                | None \<Rightarrow> takeSeat s e p))"

section \<open>Inversion\<close>

lemma freezeTerms_Inr:
  assumes "freezeTerms E s e p terms = Inr s'"
  shows "st_onchainFundingTerms s = None \<and> jp_role p = onchainFunder s
    \<and> effectiveAt s (onchainFunder s) (ev_timestamp e) = Some (ev_pubkey e)
    \<and> fundingTermsError E s terms (ev_timestamp e) = None
    \<and> s' = s\<lparr>st_onchainFundingTerms := Some terms,
             st_participants := (st_participants s)(ARBITER := fundingArbiter s),
             st_tradeTimeoutSeconds := Some (tradeTimeoutSecondsFor s),
             st_listingExpiresAt := Some (getOr (st_listingExpiresAt s) (st_expiresAt s)),
             st_expiresAt := NEVER_EXPIRES, st_eventChain := st_eventChain s @ [e]\<rparr>"
  using assms by (auto simp: freezeTerms_def Let_def)

lemma updateOrder_Inr:
  assumes "updateOrder s e p = Inr s'"
  shows "s' = s\<lparr>st_joinHolds := (st_joinHolds s)(jp_role p := Some (holdFor s e p (st_joinHolds s (jp_role p)))),
                st_eventChain := st_eventChain s @ [e]\<rparr>"
  using assms by (auto simp: updateOrder_def Let_def split: if_splits)

lemma takeSeat_Inr:
  assumes "takeSeat s e p = Inr s'"
  shows "getActiveRole s (ev_pubkey e) (ev_timestamp e) = None \<and> s' = seatedState s e p"
  using assms by (simp add: takeSeat_def guarded_Inr)

text \<open>The three shapes of an accepted JOIN.\<close>

lemma handleJoin_Inr [handler_invert]:
  assumes "handleJoin E s e p = Inr s'"
  shows "st_status s = CREATED \<and> st_chamaCircle s = None \<and>
    ((\<exists>terms. jp_fundingTerms p = Some terms \<and> freezeTerms E s e p terms = Inr s')
     \<or> (st_onchainFundingTerms s = None \<and> jp_role p \<noteq> st_initiatorRole s
        \<and> (updateOrder s e p = Inr s'
           \<or> (effectiveAt s (jp_role p) (ev_timestamp e) = None \<and> takeSeat s e p = Inr s'))))"
  using assms by (auto simp: handleJoin_def split: if_splits option.splits)

text \<open>The frame of a JOIN: what every accepted JOIN leaves alone.\<close>

lemma handleJoin_frame [handler_frame]:
  assumes "handleJoin E s e p = Inr s'"
  shows "st_id s' = st_id s" "st_status s' = CREATED" "st_eventChain s' = st_eventChain s @ [e]"
    "st_initiator s' = st_initiator s" "st_createdAt s' = st_createdAt s" "st_votes s' = st_votes s"
    "st_amountMsats s' = st_amountMsats s" "st_lock s' = st_lock s"
    "st_resolvedOutcome s' = st_resolvedOutcome s" "st_category s' = st_category s"
    "st_chamaPolicy s' = st_chamaPolicy s" "st_chamaCircle s' = st_chamaCircle s"
    "st_settlements s' = st_settlements s" "st_subscription s' = st_subscription s"
    "st_communityArbiters s' = st_communityArbiters s" "st_claimerRole s' = st_claimerRole s"
    "st_resolvedMajority s' = st_resolvedMajority s" "st_initiatorRole s' = st_initiatorRole s"
  using handleJoin_Inr [OF assms]
  by (auto dest!: freezeTerms_Inr updateOrder_Inr takeSeat_Inr simp: seatedState_def Let_def)

lemma handleJoin_fee:
  assumes "handleJoin E s e p = Inr s'"
  shows "fe_arbiterMsats (st_fees s') = fe_arbiterMsats (st_fees s)
    \<or> fe_arbiterMsats (st_fees s') = sanitizeArbiterFeeMsats (jp_arbiterFeeMsats p) (st_amountMsats s)"
  using handleJoin_Inr [OF assms]
  by (auto dest!: freezeTerms_Inr updateOrder_Inr takeSeat_Inr simp: seatedState_def Let_def)

end
