(* ===== verification/Arbiter_Substitution.thy ===== *)
theory Arbiter_Substitution
  imports Arbiter_Pick Holder_Shares Rotation
begin

text \<open>
  Arbiter substitution (\<open>src/escrow-engine/arbiter-substitution.ts\<close>): the deterministic priority
  order of a trade's arbiters, who receives a copy of the arbiter share, the dispute clock with
  its one-sided and two-sided anchors, the contest that suppresses the expiry refund and the
  no-show record. A committed grace is an \<open>int option\<close> (the parser keeps it integral).
\<close>

definition ARBITER_POOL_SHARE_CAP :: nat where "ARBITER_POOL_SHARE_CAP = 3"
definition SUBSTITUTION_GRACE_MAX_SECONDS :: int where "SUBSTITUTION_GRACE_MAX_SECONDS = 4 * 3600"
definition DISPUTE_CLOCK_SLACK_SECONDS :: int where
  "DISPUTE_CLOCK_SLACK_SECONDS = SUBSTITUTION_GRACE_MAX_SECONDS"

definition clampSubstitutionGraceSeconds :: "int option \<Rightarrow> int" where
  "clampSubstitutionGraceSeconds v = (case v of
     None \<Rightarrow> SUBSTITUTION_GRACE_MAX_SECONDS
   | Some n \<Rightarrow> max 0 (min SUBSTITUTION_GRACE_MAX_SECONDS n))"

definition clampDisputeAnchor :: "state \<Rightarrow> int \<Rightarrow> int" where
  "clampDisputeAnchor s ts =
     (if st_expiresAt s > 0 \<and> ts > st_expiresAt s + DISPUTE_CLOCK_SLACK_SECONDS
      then st_expiresAt s + DISPUTE_CLOCK_SLACK_SECONDS else ts)"

section \<open>The priority order\<close>

text \<open>The \<open>while\<close> loop: pick, exclude, repeat until the cap or an exhausted pool.\<close>

function extendOrder ::
  "string list \<Rightarrow> string \<Rightarrow> string option \<Rightarrow> string option \<Rightarrow> string list \<Rightarrow> string list" where
  "extendOrder pool escrowId buyer seller order =
     (if length order < ARBITER_POOL_SHARE_CAP
      then (case nonEmpty (pickArbiterFromPool pool escrowId (buyer # seller # map Some order)) of
              None \<Rightarrow> order
            | Some nxt \<Rightarrow> extendOrder pool escrowId buyer seller (order @ [nxt]))
      else order)"
  by pat_completeness auto

termination
  by (relation "measure (\<lambda>(pool, i, b, s, order). ARBITER_POOL_SHARE_CAP - length order)") auto

declare extendOrder.simps [simp del]

definition arbiterPriorityOrderFor ::
  "string \<Rightarrow> string list \<Rightarrow> string option \<Rightarrow> string option \<Rightarrow> string option \<Rightarrow> string list" where
  "arbiterPriorityOrderFor escrowId pool buyer seller assigned =
     extendOrder pool escrowId buyer seller (case nonEmpty assigned of None \<Rightarrow> [] | Some a \<Rightarrow> [a])"

definition arbiterShareRecipientsFor ::
  "string \<Rightarrow> string list \<Rightarrow> string option \<Rightarrow> string option \<Rightarrow> string option \<Rightarrow> string list" where
  "arbiterShareRecipientsFor escrowId pool buyer seller assigned =
     take (max 1 (min ARBITER_POOL_SHARE_CAP (length pool - 1)))
       (arbiterPriorityOrderFor escrowId pool buyer seller assigned)"

definition arbiterPriorityOrder :: "state \<Rightarrow> string list" where
  "arbiterPriorityOrder s = arbiterPriorityOrderFor (st_id s) (st_communityArbiters s)
     (st_participants s BUYER) (st_participants s SELLER) (st_participants s ARBITER)"

definition arbiterVotePriority :: "state \<Rightarrow> string \<Rightarrow> nat option" where
  "arbiterVotePriority s pubkey = indexOf (arbiterPriorityOrder s) pubkey"

section \<open>The dispute clock\<close>

definition firstVoteOf :: "event list \<Rightarrow> role \<Rightarrow> (outcome \<times> int) option" where
  "firstVoteOf chain r =
     (case List.map_filter (\<lambda>e. case ev_payload e of
          PVote p \<Rightarrow> if vp_role p = r then Some (vp_outcome p, ev_timestamp e) else None | _ \<Rightarrow> None) chain of
        [] \<Rightarrow> None | v # _ \<Rightarrow> Some v)"

definition findVote :: "event list \<Rightarrow> string option \<Rightarrow> outcome \<Rightarrow> event option" where
  "findVote chain pubkey oc = List.find (\<lambda>e. Some (ev_pubkey e) = pubkey
     \<and> (case ev_payload e of PVote p \<Rightarrow> vp_outcome p = oc | _ \<Rightarrow> False)) chain"

text \<open>A share's lone REFUND, of the buyer or of the seller.\<close>

definition loneRefund :: "state \<Rightarrow> role \<Rightarrow> role \<Rightarrow> (role \<times> int) option" where
  "loneRefund s r q =
     (if voteOf s r \<noteq> Some REFUND \<or> voteOf s q \<noteq> None then None
      else map_option (\<lambda>v. (r, clampDisputeAnchor s (ev_timestamp v)))
             (findVote (st_eventChain s) (st_participants s r) REFUND))"

definition loneRelease :: "state \<Rightarrow> (role \<times> int) option" where
  "loneRelease s = (case (payoutRecipientFor s RELEASE, payoutRecipientFor s REFUND) of
     (Some nonLocker, Some locker) \<Rightarrow>
       if voteOf s (snd locker) \<noteq> None \<or> voteOf s (snd nonLocker) \<noteq> Some RELEASE then None
       else map_option (\<lambda>v. (snd nonLocker, clampDisputeAnchor s (ev_timestamp v)))
              (findVote (st_eventChain s) (st_participants s (snd nonLocker)) RELEASE)
   | _ \<Rightarrow> None)"

definition oneSidedReleaseAnchor :: "state \<Rightarrow> (role \<times> int) option" where
  "oneSidedReleaseAnchor s =
     (if st_chamaPolicy s = None then loneRelease s
      else case orElse (loneRefund s BUYER SELLER) (loneRefund s SELLER BUYER) of
             Some a \<Rightarrow> Some a
           | None \<Rightarrow> if st_chamaPolicy s \<noteq> Some SHARE_V2 then None else loneRelease s)"

text \<open>The window after an anchor: the committed grace, at most half of the remaining life.\<close>

definition graceAfter :: "state \<Rightarrow> int \<Rightarrow> int" where
  "graceAfter s start =
     (let ceiling = clampSubstitutionGraceSeconds (lk_substitutionGraceSeconds (st_lock s));
          half = (if st_expiresAt s \<noteq> 0 then max 0 ((st_expiresAt s - start) div 2) else ceiling)
      in start + min ceiling half)"

definition oneSidedEscalationAt :: "state \<Rightarrow> int option" where
  "oneSidedEscalationAt s = map_option (\<lambda>a. graceAfter s (snd a)) (oneSidedReleaseAnchor s)"

definition disputeStartAt :: "state \<Rightarrow> int option" where
  "disputeStartAt s =
     (case (firstVoteOf (st_eventChain s) BUYER, firstVoteOf (st_eventChain s) SELLER) of
        (Some b, Some v) \<Rightarrow>
          if fst b \<noteq> fst v then Some (clampDisputeAnchor s (max (snd b) (snd v))) else oneSidedEscalationAt s
      | _ \<Rightarrow> oneSidedEscalationAt s)"

definition substitutionEligibleAt :: "state \<Rightarrow> int option" where
  "substitutionEligibleAt s = map_option (graceAfter s) (disputeStartAt s)"

definition isPerformanceContest :: "state \<Rightarrow> int \<Rightarrow> bool" where
  "isPerformanceContest s now = (case payoutRecipientFor s RELEASE of
     None \<Rightarrow> False
   | Some nonLocker \<Rightarrow> voteOf s (snd nonLocker) = Some RELEASE \<and> voteOf s ARBITER \<noteq> Some REFUND
       \<and> \<not> (st_chamaPolicy s = Some SHARE_V2
             \<and> (case st_chamaCircle s of None \<Rightarrow> False | Some c \<Rightarrow> now \<ge> ct_roundEndSec c + COLLECT_WINDOW_SEC)))"

section \<open>Arbiter no-shows\<close>

definition arbiterVoteBy :: "event \<Rightarrow> bool" where
  "arbiterVoteBy e = (case ev_payload e of PVote p \<Rightarrow> vp_role p = ARBITER | _ \<Rightarrow> False)"

definition assignedArbiterVoted :: "state \<Rightarrow> bool" where
  "assignedArbiterVoted s = (case nonEmpty (st_participants s ARBITER) of None \<Rightarrow> False
     | Some a \<Rightarrow> list_ex (\<lambda>e. arbiterVoteBy e \<and> ev_pubkey e = a) (st_eventChain s))"

definition backupArbiterVoted :: "state \<Rightarrow> bool" where
  "backupArbiterVoted s = list_ex (\<lambda>e. arbiterVoteBy e \<and> ev_pubkey e \<noteq> []
     \<and> Some (ev_pubkey e) \<noteq> st_participants s ARBITER) (st_eventChain s)"

definition isArbiterNoShow :: "state \<Rightarrow> int \<Rightarrow> bool" where
  "isArbiterNoShow s now \<longleftrightarrow> nonEmpty (st_participants s ARBITER) \<noteq> None
     \<and> (case substitutionEligibleAt s of None \<Rightarrow> False | Some t \<Rightarrow> t \<le> now)
     \<and> \<not> assignedArbiterVoted s \<and> backupArbiterVoted s"

definition arbiterNoShowNpub :: "state \<Rightarrow> int \<Rightarrow> string option" where
  "arbiterNoShowNpub s now = (if isArbiterNoShow s now then st_participants s ARBITER else None)"

definition countArbiterNoShows :: "state list \<Rightarrow> string \<Rightarrow> int \<Rightarrow> nat" where
  "countArbiterNoShows states npub now =
     length (dedupe (map st_id (filter (\<lambda>s. arbiterNoShowNpub s now = Some npub) states)))"

section \<open>Lemmas\<close>

text \<open>What the loop keeps: a prefix, fresh members only, at most the cap.\<close>

lemma pick_lower_fresh:
  assumes "nonEmpty (pickArbiterFromPool pool i (b # s # map Some order)) = Some a"
  shows "lower a \<in> lower ` set pool" "lower a \<notin> lower ` {x \<in> set order. x \<noteq> []}" "a \<noteq> []"
    "Some x \<in> {b, s} \<Longrightarrow> x \<noteq> [] \<Longrightarrow> lower a \<noteq> lower x"
proof -
  from assms have pick: "pickArbiterFromPool pool i (b # s # map Some order) = Some a" and "a \<noteq> []"
    by (auto simp: nonEmpty_eq_Some)
  then show "a \<noteq> []" by simp
  show "lower a \<in> lower ` set pool" by (rule legacy.pick_member [OF pick])
  from legacy.pick_fresh [OF pick]
  have fresh: "\<not> (\<exists>x. Some x \<in> set (b # s # map Some order) \<and> x \<noteq> [] \<and> lower a = lower x)"
    by (simp only: set_excludedKeys) blast
  then show "lower a \<notin> lower ` {x \<in> set order. x \<noteq> []}"
    "Some x \<in> {b, s} \<Longrightarrow> x \<noteq> [] \<Longrightarrow> lower a \<noteq> lower x" by auto
qed

text \<open>The invariant of the loop: keys pairwise different up to letter case and non-empty.\<close>

definition orderOk :: "string list \<Rightarrow> bool" where
  "orderOk xs \<longleftrightarrow> distinct (map lower xs) \<and> [] \<notin> set xs"

lemma extendOrder_ok: "orderOk order \<Longrightarrow> orderOk (extendOrder pool i b s order)"
proof (induction pool i b s order rule: extendOrder.induct)
  case (1 pool i b s order)
  show ?case
  proof (cases "length order < ARBITER_POOL_SHARE_CAP")
    case True
    show ?thesis
    proof (cases "nonEmpty (pickArbiterFromPool pool i (b # s # map Some order))")
      case None
      with 1 True show ?thesis by (simp add: extendOrder.simps [of pool i b s order])
    next
      case (Some a)
      from pick_lower_fresh(2,3) [OF Some] 1(2) have "orderOk (order @ [a])"
        by (auto simp: orderOk_def)
      from 1(1) [OF True Some this] True Some show ?thesis
        by (simp add: extendOrder.simps [of pool i b s order])
    qed
  next
    case False
    with 1 show ?thesis by (simp add: extendOrder.simps [of pool i b s order])
  qed
qed

lemma extendOrder_prefix: "\<exists>xs. extendOrder pool i b s order = order @ xs
    \<and> lower ` set xs \<subseteq> lower ` set pool
    \<and> (\<forall>x\<in>set xs. \<forall>y. Some y \<in> {b, s} \<longrightarrow> y \<noteq> [] \<longrightarrow> lower x \<noteq> lower y)"
proof (induction pool i b s order rule: extendOrder.induct)
  case (1 pool i b s order)
  show ?case
  proof (cases "length order < ARBITER_POOL_SHARE_CAP")
    case True
    show ?thesis
    proof (cases "nonEmpty (pickArbiterFromPool pool i (b # s # map Some order))")
      case None
      with True show ?thesis by (simp add: extendOrder.simps [of pool i b s order])
    next
      case (Some a)
      from 1 [OF True Some] obtain xs where "extendOrder pool i b s (order @ [a]) = (order @ [a]) @ xs"
        "lower ` set xs \<subseteq> lower ` set pool"
        "\<forall>x\<in>set xs. \<forall>y. Some y \<in> {b, s} \<longrightarrow> y \<noteq> [] \<longrightarrow> lower x \<noteq> lower y" by blast
      with pick_lower_fresh(1,4) [OF Some] True Some show ?thesis
        by (intro exI [of _ "a # xs"]) (auto simp: extendOrder.simps [of pool i b s order])
    qed
  next
    case False
    then show ?thesis by (simp add: extendOrder.simps [of pool i b s order])
  qed
qed

lemma extendOrder_length:
  "length order \<le> ARBITER_POOL_SHARE_CAP \<Longrightarrow> length (extendOrder pool i b s order) \<le> ARBITER_POOL_SHARE_CAP"
proof (induction pool i b s order rule: extendOrder.induct)
  case (1 pool i b s order)
  then show ?case
    by (subst extendOrder.simps) (auto split: option.splits)
qed

lemma priorityOrderFor_ok: "orderOk (arbiterPriorityOrderFor i pool b s assigned)"
  unfolding arbiterPriorityOrderFor_def
  by (rule extendOrder_ok) (auto simp: orderOk_def nonEmpty_eq_Some split: option.splits)

lemma priorityOrderFor_distinct: "distinct (arbiterPriorityOrderFor i pool b s assigned)"
  using priorityOrderFor_ok unfolding orderOk_def by (metis distinct_map)

lemma priorityOrderFor_length: "length (arbiterPriorityOrderFor i pool b s assigned) \<le> ARBITER_POOL_SHARE_CAP"
  unfolding arbiterPriorityOrderFor_def
  by (rule extendOrder_length) (auto simp: ARBITER_POOL_SHARE_CAP_def split: option.splits)

lemma priorityOrderFor_assigned:
  assumes "nonEmpty assigned = Some a"
  shows "\<exists>xs. arbiterPriorityOrderFor i pool b s assigned = a # xs"
  using extendOrder_prefix [of pool i b s "[a]"] assms by (auto simp: arbiterPriorityOrderFor_def)

lemma priority_zero:
  "nonEmpty (st_participants s ARBITER) = Some a \<Longrightarrow> arbiterVotePriority s pk = Some 0 \<longleftrightarrow> pk = a"
  using priorityOrderFor_assigned [of "st_participants s ARBITER" a "st_id s" "st_communityArbiters s"
      "st_participants s BUYER" "st_participants s SELLER"]
  by (auto simp: arbiterVotePriority_def arbiterPriorityOrder_def split: if_splits)

lemma priority_lt_cap: "arbiterVotePriority s pk = Some k \<Longrightarrow> k < ARBITER_POOL_SHARE_CAP"
  using indexOf_Some_nth [of "arbiterPriorityOrder s" pk k]
    priorityOrderFor_length [of "st_id s" "st_communityArbiters s" "st_participants s BUYER"
      "st_participants s SELLER" "st_participants s ARBITER"]
  by (simp add: arbiterVotePriority_def arbiterPriorityOrder_def)

lemma graceClamp_bounds:
  "0 \<le> clampSubstitutionGraceSeconds v" "clampSubstitutionGraceSeconds v \<le> SUBSTITUTION_GRACE_MAX_SECONDS"
  by (auto simp: clampSubstitutionGraceSeconds_def SUBSTITUTION_GRACE_MAX_SECONDS_def split: option.splits)

lemma graceAfter_bounds:
  "t \<le> graceAfter s t" "graceAfter s t \<le> t + SUBSTITUTION_GRACE_MAX_SECONDS"
  using graceClamp_bounds [of "lk_substitutionGraceSeconds (st_lock s)"] by (auto simp: graceAfter_def Let_def)

text \<open>Before expiry the window closes before expiry: a performer can beat the refund.\<close>

lemma graceAfter_before_expiry: "0 < st_expiresAt s \<Longrightarrow> t < st_expiresAt s \<Longrightarrow> graceAfter s t < st_expiresAt s"
  using graceClamp_bounds [of "lk_substitutionGraceSeconds (st_lock s)"]
  by (auto simp: graceAfter_def Let_def SUBSTITUTION_GRACE_MAX_SECONDS_def)

lemma clampDisputeAnchor_le:
  "0 < st_expiresAt s \<Longrightarrow> clampDisputeAnchor s t \<le> st_expiresAt s + DISPUTE_CLOCK_SLACK_SECONDS"
  "clampDisputeAnchor s t \<le> t"
  by (auto simp: clampDisputeAnchor_def)

end
