(* ===== verification/Handle_Lock.thy ===== *)
theory Handle_Lock
  imports Reducer_Base Onchain_Settlement Arbiter_Substitution
begin

text \<open>
  \<open>handleLock\<close> of \<open>src/escrow-engine/state-machine.ts\<close>, the transition that commits custody. The
  guards come in the order of the source and are grouped: the money-path and circle
  pre-checks, the locker, the named participants, the custody shape (shares, withheld shares
  or on-chain terms), the menu order, and the amount and mode. The share entries of a payload
  carry association lists with distinct keys.
\<close>

section \<open>Pre-checks\<close>

definition lockSkewed :: "event \<Rightarrow> lock_payload \<Rightarrow> bool" where
  "lockSkewed e p \<longleftrightarrow> \<not> isSafe (lp_lockedAt p) \<or> \<bar>lp_lockedAt p - ev_timestamp e\<bar> > LOCK_TIMESTAMP_SKEW_SECONDS"

text \<open>Circle terms are present on every share; a share without them would throw.\<close>

definition shareLockBroken :: "state \<Rightarrow> event \<Rightarrow> lock_payload \<Rightarrow> bool" where
  "shareLockBroken s e p \<longleftrightarrow> ev_timestamp e < st_createdAt s
     \<or> (case st_chamaCircle s of None \<Rightarrow> True | Some c \<Rightarrow> ev_timestamp e \<ge> ct_fillDeadlineSec c)
     \<or> lp_lockedAt p \<noteq> ev_timestamp e \<or> st_participants s BUYER \<noteq> Some (lp_buyerPubkey p)
     \<or> st_participants s ARBITER \<noteq> Some (lp_arbiterPubkey p) \<or> lp_arbiterPoolShare p \<noteq> Some True
     \<or> \<not> jsEqInt (lp_arbiterFeeMsats p) 0 \<or> \<not> jsEqInt (lp_sellerReceivesMsats p) (st_amountMsats s)"

definition custodyBroken :: "lock_payload \<Rightarrow> bool" where
  "custodyBroken p \<longleftrightarrow> lp_sharePolicy p \<noteq> Some ''holder-only-v1'' \<or> lp_notesHash p = []
     \<or> (case lp_shares p of None \<Rightarrow> True | Some shares \<Rightarrow> length shares \<noteq> 3)"

definition shareHolders :: "state \<Rightarrow> int \<Rightarrow> string list" where
  "shareHolders s i = (if i = 0 then [getOr (st_participants s BUYER) []]
     else if i = 1 then [getOr (st_participants s SELLER) []] else arbiterPriorityOrder s)"

definition misrouted :: "state \<Rightarrow> share_entry list \<Rightarrow> int \<Rightarrow> bool" where
  "misrouted s shares i = (case filter (\<lambda>x. se_shareIndex x = i) shares of
     [x] \<Rightarrow> length (se_encryptedFor x) \<noteq> length (shareHolders s i)
        \<or> \<not> list_all (\<lambda>pk. truthyS (map_of (se_encryptedFor x) pk)) (shareHolders s i)
   | _ \<Rightarrow> True)"

definition lockPreGuards :: "state \<Rightarrow> event \<Rightarrow> lock_payload \<Rightarrow> (bool \<times> errcode) list" where
  "lockPreGuards s e p =
     (let hardened = usesMoneyPathHardening (st_createdAt s); share = (st_chamaPolicy s \<noteq> None) in
      [(hardened \<and> st_communityArbiters s = [], ''ARBITER_POOL_EMPTY''),
       (hardened \<and> lockSkewed e p, ''LOCK_TIMESTAMP_SKEW''),
       (st_category s = ''chama'', ''CHAMA_MANIFEST''),
       (share \<and> shareLockBroken s e p, ''INVALID_CHAMA_LOCK''),
       (share \<and> custodyBroken p, ''INVALID_CHAMA_LOCK''),
       (share \<and> list_ex (misrouted s (getOr (lp_shares p) [])) [0, 1, 2], ''INVALID_CHAMA_LOCK''),
       (st_status s \<noteq> CREATED, ''INVALID_STATE'')])"

section \<open>Locker and participants\<close>

definition lockerRoleOf :: "state \<Rightarrow> event \<Rightarrow> lock_payload \<Rightarrow> role option" where
  "lockerRoleOf s e p =
     (if st_onchainFundingTerms s \<noteq> None \<and> lp_onchain p \<noteq> None then getRole s (ev_pubkey e)
      else getActiveRole s (ev_pubkey e) (ev_timestamp e))"

text \<open>The buyer or arbiter an earlier JOIN seated, its grace included.\<close>

definition joinedSeat :: "state \<Rightarrow> event \<Rightarrow> role \<Rightarrow> string option" where
  "joinedSeat s e r = nonEmpty (if st_onchainFundingTerms s \<noteq> None then st_participants s r
     else effectiveParticipantAt s r (ev_timestamp e) True None)"

definition lockSeatGuards :: "state \<Rightarrow> event \<Rightarrow> lock_payload \<Rightarrow> (bool \<times> errcode) list" where
  "lockSeatGuards s e p =
     (let locker = lockerRoleOf s e p; seller = nonEmpty (st_participants s SELLER) in
      [(locker = None, ''NOT_PARTICIPANT''),
       (expectedLockerOf s \<noteq> None \<and> locker \<noteq> expectedLockerOf s, ''WRONG_LOCKER''),
       (lp_buyerPubkey p = [], ''MISSING_BUYER_PUBKEY''),
       (lp_arbiterPubkey p = [], ''MISSING_ARBITER_PUBKEY''),
       (joinedSeat s e BUYER \<noteq> None \<and> joinedSeat s e BUYER \<noteq> Some (lp_buyerPubkey p), ''BUYER_PUBKEY_MISMATCH''),
       (joinedSeat s e ARBITER \<noteq> None \<and> joinedSeat s e ARBITER \<noteq> Some (lp_arbiterPubkey p),
         ''ARBITER_PUBKEY_MISMATCH''),
       (st_communityArbiters s \<noteq> [] \<and> lp_arbiterPubkey p \<notin> set (st_communityArbiters s), ''ARBITER_NOT_IN_POOL''),
       (seller = Some (lp_buyerPubkey p) \<or> seller = Some (lp_arbiterPubkey p)
          \<or> lp_buyerPubkey p = lp_arbiterPubkey p, ''DUPLICATE_PARTICIPANT'')])"

section \<open>Custody shape\<close>

definition custodyGuards :: "env \<Rightarrow> state \<Rightarrow> event \<Rightarrow> lock_payload \<Rightarrow> (bool \<times> errcode) list" where
  "custodyGuards E s e p = (case lp_onchain p of
     Some terms \<Rightarrow>
       [(onchainLockError E s terms (ev_timestamp e) \<noteq> None, ''INVALID_ONCHAIN_LOCK''),
        (st_participants s BUYER \<noteq> Some (lp_buyerPubkey p) \<or> st_participants s ARBITER \<noteq> Some (lp_arbiterPubkey p),
         ''INVALID_ONCHAIN_LOCK''),
        (getOr (lp_shares p) [] \<noteq> [], ''INVALID_SHARES'')]
   | None \<Rightarrow> [(length (getOr (lp_shares p) []) \<noteq> 3, ''INVALID_SHARES'')])"

text \<open>
  A withheld-shares LOCK carries the funder's own share and commitments to the other two.
\<close>

definition withheldEntryBroken :: "string \<Rightarrow> int \<Rightarrow> share_entry \<Rightarrow> bool" where
  "withheldEntryBroken pubkey lockerIndex x =
     (if se_shareIndex x = lockerIndex
      then map fst (se_encryptedFor x) \<noteq> [pubkey] \<or> se_commitment x \<noteq> None
      else se_encryptedFor x \<noteq> [] \<or> se_commitment x = None)"

definition withheldCommitments :: "int \<Rightarrow> share_entry list \<Rightarrow> int \<Rightarrow> string option" where
  "withheldCommitments lockerIndex shares =
     foldl (\<lambda>m x. if se_shareIndex x = lockerIndex then m else m(se_shareIndex x := se_commitment x)) (\<lambda>_. None) shares"

definition lockerIndexOf :: "state \<Rightarrow> event \<Rightarrow> lock_payload \<Rightarrow> int" where
  "lockerIndexOf s e p = (case lockerRoleOf s e p of None \<Rightarrow> 0 | Some r \<Rightarrow> shareIndexForRole r)"

definition withheldGuards :: "state \<Rightarrow> event \<Rightarrow> lock_payload \<Rightarrow> (bool \<times> errcode) list" where
  "withheldGuards s e p =
     (if lp_withheldShares p \<noteq> Some True then []
      else let shares = getOr (lp_shares p) []; r = lockerRoleOf s e p in
        [(\<not> usesWithheldShares (st_createdAt s) \<or> lp_onchain p \<noteq> None \<or> st_chamaPolicy s \<noteq> None
            \<or> lp_sharePolicy p \<noteq> Some ''holder-only-v1'' \<or> (r \<noteq> Some BUYER \<and> r \<noteq> Some SELLER), ''INVALID_SHARES''),
         (list_ex (withheldEntryBroken (ev_pubkey e) (lockerIndexOf s e p)) shares, ''INVALID_SHARES''),
         (set (map se_shareIndex shares) \<noteq> {0, 1, 2}, ''INVALID_SHARES'')])"

definition withheldOf :: "state \<Rightarrow> event \<Rightarrow> lock_payload \<Rightarrow> withheld option" where
  "withheldOf s e p =
     (if lp_withheldShares p \<noteq> Some True then None
      else Some \<lparr>wh_lockerPubkey = ev_pubkey e, wh_lockerShareIndex = lockerIndexOf s e p,
             wh_commitments = withheldCommitments (lockerIndexOf s e p) (getOr (lp_shares p) []),
             wh_releaseEventId = None\<rparr>)"

section \<open>The menu order\<close>

text \<open>\<open>new Map(items)\<close>: the last item of an id.\<close>

definition menuById :: "menu_item list \<Rightarrow> string \<Rightarrow> menu_item option" where
  "menuById items i = List.find (\<lambda>m. mi_id m = i) (rev items)"

definition itemGuards :: "menu_item \<Rightarrow> selected_item \<Rightarrow> (bool \<times> errcode) list" where
  "itemGuards m x =
     [(mi_label m \<noteq> si_label x, ''MENU_ITEM_MISMATCH''),
      (si_quantity x < 1, ''QUANTITY_INVALID''),
      (case mi_maxQuantity m of None \<Rightarrow> False | Some q \<Rightarrow> si_quantity x > q, ''QUANTITY_EXCEEDED'')]
     @ (if isAmountBracket m
        then [(si_quantity x \<noteq> 1, ''MENU_ITEM_MISMATCH''),
              (si_amountMsats x < getOr (mi_minAmountMsats m) (mi_amountMsats m)
                 \<or> si_amountMsats x > getOr (mi_maxAmountMsats m) (mi_amountMsats m), ''MENU_ITEM_MISMATCH''),
              (si_kind x \<noteq> None \<and> si_kind x \<noteq> mi_kind m, ''MENU_ITEM_MISMATCH''),
              (si_fiatCurrency x \<noteq> None \<and> si_fiatCurrency x \<noteq> mi_fiatCurrency m, ''MENU_ITEM_MISMATCH'')]
        else [(mi_amountMsats m \<noteq> si_amountMsats x, ''MENU_ITEM_MISMATCH'')])"

fun checkItems :: "menu_item list \<Rightarrow> string list \<Rightarrow> selected_item list \<Rightarrow> errcode option" where
  "checkItems items seen [] = None"
| "checkItems items seen (x # xs) = (case menuById items (si_itemId x) of
     None \<Rightarrow> Some ''UNKNOWN_MENU_ITEM''
   | Some m \<Rightarrow>
       if si_itemId x \<in> set seen then Some ''DUPLICATE_MENU_ITEM''
       else (case firstFail (itemGuards m x) of
         Some c \<Rightarrow> Some c | None \<Rightarrow> checkItems items (si_itemId x # seen) xs))"

definition orderNotFinal :: "join_hold option \<Rightarrow> int \<Rightarrow> bool" where
  "orderNotFinal hold ts = (case hold of None \<Rightarrow> True
     | Some h \<Rightarrow> jh_expiresAt h + JOIN_HOLD_LOCK_GRACE_SECONDS \<le> ts \<or> \<not> truthyN (jh_orderFinalizedAt h)
         \<or> jh_joinedAt h > ts \<or> getOr (jh_orderFinalizedAt h) 0 > ts)"

definition lockedItems :: "lock_payload \<Rightarrow> selected_item list option" where
  "lockedItems p = map_option (map cloneSelectedMenuItem) (lp_selectedItems p)"

definition isMenu :: "state \<Rightarrow> bool" where
  "isMenu s \<longleftrightarrow> getOr (st_items s) [] \<noteq> []"

definition expectedLockAmount :: "state \<Rightarrow> lock_payload \<Rightarrow> int" where
  "expectedLockAmount s p = (if isMenu s then selectedTotal (getOr (lockedItems p) []) else st_amountMsats s)"

definition orderGuards :: "state \<Rightarrow> event \<Rightarrow> lock_payload \<Rightarrow> (bool \<times> errcode) list" where
  "orderGuards s e p =
     (let items = getOr (lockedItems p) [];
          itemError = checkItems (getOr (st_items s) []) [] items;
          selector = menuSelectorRoleFor (st_category s);
          needsOrder = (expectedLockerOf s \<noteq> None \<and> expectedLockerOf s \<noteq> Some selector);
          hold = st_joinHolds s selector
      in if isMenu s then
        [(items = [], ''MISSING_SELECTED_ITEMS''),
         (itemError \<noteq> None, getOr itemError []),
         (needsOrder \<and> orderNotFinal hold (ev_timestamp e), ''ORDER_NOT_FINALIZED''),
         (needsOrder \<and> selectedItemsKey (Option.bind hold jh_selectedItems) \<noteq> selectedItemsKey (lockedItems p),
           ''ORDER_MISMATCH''),
         (expectedLockAmount s p \<le> 0, ''INVALID_MENU_TOTAL'')]
      else [(items \<noteq> [], ''UNEXPECTED_SELECTED_ITEMS'')])"

section \<open>Amount and mode\<close>

text \<open>Seller and arbiter shares sum to the amount; old LOCKs may add a platform fee.\<close>

definition amountBroken :: "lock_payload \<Rightarrow> int \<Rightarrow> bool" where
  "amountBroken p amount =
     (let newSum = jsAdd (lp_sellerReceivesMsats p) (lp_arbiterFeeMsats p);
          legacySum = jsAdd newSum (getOr (lp_platformFeeMsats p) (jsInt 0))
      in \<not> jsEqInt newSum amount \<and> \<not> jsEqInt legacySum amount)"

definition amountGuards :: "state \<Rightarrow> lock_payload \<Rightarrow> (bool \<times> errcode) list" where
  "amountGuards s p =
     (let amount = expectedLockAmount s p in
      [(case lp_onchain p of None \<Rightarrow> False | Some t \<Rightarrow> decimal (lt_amountSats t) * 1000 < amount, ''INVALID_ONCHAIN_LOCK''),
       (amountBroken p amount, ''AMOUNT_MISMATCH''),
       (st_escrowMode s \<noteq> (if lp_onchain p \<noteq> None then ONCHAIN else ECASH), ''ESCROW_MODE_MISMATCH'')])"

section \<open>The commit\<close>

definition storeShares :: "share_entry list \<Rightarrow> (int \<Rightarrow> share_entry option) \<Rightarrow> int \<Rightarrow> share_entry option" where
  "storeShares shares m = foldl (\<lambda>m x. m(se_shareIndex x := Some x)) m shares"

definition lockedLock :: "state \<Rightarrow> event \<Rightarrow> lock_payload \<Rightarrow> lock_state" where
  "lockedLock s e p = (let l = st_lock s in l
     \<lparr>lk_notesHash := Some (lp_notesHash p),
      lk_onchain := (case lp_onchain p of Some t \<Rightarrow> Some t | None \<Rightarrow> lk_onchain l),
      lk_lockedAt := Some (lp_lockedAt p),
      lk_selectedItems := lockedItems p, lk_sharePolicy := lp_sharePolicy p,
      lk_arbiterPoolShare := lp_arbiterPoolShare p,
      lk_substitutionGraceSeconds := (case lp_substitutionGraceSeconds p of
         Some g \<Rightarrow> Some (clampSubstitutionGraceSeconds (Some g)) | None \<Rightarrow> lk_substitutionGraceSeconds l),
      lk_shares := storeShares (getOr (lp_shares p) []) (lk_shares l),
      lk_handle := (case nonEmpty (lp_handle p) of
         Some h \<Rightarrow> Some \<lparr>hd_id = lp_handleId p, hd_value = h, hd_rail = lp_rail p,
                         hd_networks = getOr (lp_handleNetworks p) []\<rparr>
       | None \<Rightarrow> lk_handle l),
      lk_withheld := (case withheldOf s e p of Some w \<Rightarrow> Some w | None \<Rightarrow> lk_withheld l)\<rparr>)"

definition lockedState :: "state \<Rightarrow> event \<Rightarrow> lock_payload \<Rightarrow> state" where
  "lockedState s e p = (let amount = expectedLockAmount s p in
     s\<lparr>st_status := LOCKED, st_amountMsats := amount, st_lock := lockedLock s e p,
       st_listingExpiresAt := Some (getOr (st_listingExpiresAt s) (st_expiresAt s)),
       st_tradeTimeoutSeconds := Some (tradeTimeoutSecondsFor s),
       st_expiresAt := (if st_chamaPolicy s \<noteq> None then st_expiresAt s
                        else lp_lockedAt p + tradeTimeoutSecondsFor s),
       st_participants := (st_participants s)(BUYER := Some (lp_buyerPubkey p), ARBITER := Some (lp_arbiterPubkey p)),
       st_fees := (st_fees s)\<lparr>fe_platformMsats := getOr (lp_platformFeeMsats p) (jsInt 0),
         fe_arbiterMsats := sanitizeArbiterFeeMsats (Some (lp_arbiterFeeMsats p)) amount\<rparr>,
       st_eventChain := st_eventChain s @ [e]\<rparr>)"

definition lockGuards :: "env \<Rightarrow> state \<Rightarrow> event \<Rightarrow> lock_payload \<Rightarrow> (bool \<times> errcode) list" where
  "lockGuards E s e p = lockPreGuards s e p @ lockSeatGuards s e p @ custodyGuards E s e p
     @ withheldGuards s e p @ orderGuards s e p @ amountGuards s p"

definition handleLock :: "env \<Rightarrow> state \<Rightarrow> event \<Rightarrow> lock_payload \<Rightarrow> result" where
  "handleLock E s e p = guarded (lockGuards E s e p) (Inr (lockedState s e p))"

section \<open>What an accepted LOCK guarantees\<close>

lemma handleLock_Inr [handler_invert]:
  "handleLock E s e p = Inr s' \<longleftrightarrow> (\<forall>g\<in>set (lockGuards E s e p). \<not> fst g) \<and> s' = lockedState s e p"
  by (auto simp: handleLock_def guarded_Inr)

lemma lockGuards_parts:
  assumes "\<forall>g\<in>set (lockGuards E s e p). \<not> fst g"
  shows "\<forall>g\<in>set (lockPreGuards s e p). \<not> fst g" "\<forall>g\<in>set (lockSeatGuards s e p). \<not> fst g"
    "\<forall>g\<in>set (custodyGuards E s e p). \<not> fst g" "\<forall>g\<in>set (withheldGuards s e p). \<not> fst g"
    "\<forall>g\<in>set (orderGuards s e p). \<not> fst g" "\<forall>g\<in>set (amountGuards s p). \<not> fst g"
  using assms by (auto simp: lockGuards_def)

lemma handleLock_pre:
  assumes "handleLock E s e p = Inr s'"
  shows "st_status s = CREATED" "st_category s \<noteq> ''chama''"
    "usesMoneyPathHardening (st_createdAt s) \<Longrightarrow> st_communityArbiters s \<noteq> []"
    "usesMoneyPathHardening (st_createdAt s) \<Longrightarrow> \<not> lockSkewed e p"
    "st_chamaPolicy s \<noteq> None \<Longrightarrow> \<not> shareLockBroken s e p \<and> \<not> custodyBroken p"
proof -
  from assms have "\<forall>g\<in>set (lockPreGuards s e p). \<not> fst g"
    by (auto simp: handleLock_Inr dest: lockGuards_parts)
  then show "st_status s = CREATED" "st_category s \<noteq> ''chama''"
    "usesMoneyPathHardening (st_createdAt s) \<Longrightarrow> st_communityArbiters s \<noteq> []"
    "usesMoneyPathHardening (st_createdAt s) \<Longrightarrow> \<not> lockSkewed e p"
    "st_chamaPolicy s \<noteq> None \<Longrightarrow> \<not> shareLockBroken s e p \<and> \<not> custodyBroken p"
    by (simp_all add: lockPreGuards_def Let_def)
qed

lemma handleLock_seats:
  assumes "handleLock E s e p = Inr s'"
  shows "lockerRoleOf s e p \<noteq> None" "expectedLockerOf s \<noteq> None \<Longrightarrow> lockerRoleOf s e p = expectedLockerOf s"
    "lp_buyerPubkey p \<noteq> []" "lp_arbiterPubkey p \<noteq> []" "lp_buyerPubkey p \<noteq> lp_arbiterPubkey p"
    "st_participants s SELLER = Some k \<Longrightarrow> k \<noteq> [] \<Longrightarrow> k \<noteq> lp_buyerPubkey p \<and> k \<noteq> lp_arbiterPubkey p"
    "st_communityArbiters s \<noteq> [] \<Longrightarrow> lp_arbiterPubkey p \<in> set (st_communityArbiters s)"
proof -
  from assms have "\<forall>g\<in>set (lockSeatGuards s e p). \<not> fst g"
    by (auto simp: handleLock_Inr dest: lockGuards_parts)
  then show "lockerRoleOf s e p \<noteq> None" "expectedLockerOf s \<noteq> None \<Longrightarrow> lockerRoleOf s e p = expectedLockerOf s"
    "lp_buyerPubkey p \<noteq> []" "lp_arbiterPubkey p \<noteq> []" "lp_buyerPubkey p \<noteq> lp_arbiterPubkey p"
    "st_participants s SELLER = Some k \<Longrightarrow> k \<noteq> [] \<Longrightarrow> k \<noteq> lp_buyerPubkey p \<and> k \<noteq> lp_arbiterPubkey p"
    "st_communityArbiters s \<noteq> [] \<Longrightarrow> lp_arbiterPubkey p \<in> set (st_communityArbiters s)"
    by (auto simp add: lockSeatGuards_def Let_def)
qed

lemma handleLock_amount:
  assumes "handleLock E s e p = Inr s'"
  shows "\<not> amountBroken p (expectedLockAmount s p)"
    "st_escrowMode s = ONCHAIN \<longleftrightarrow> lp_onchain p \<noteq> None"
    "lp_onchain p = Some t \<Longrightarrow> expectedLockAmount s p \<le> decimal (lt_amountSats t) * 1000"
proof -
  from assms have "\<forall>g\<in>set (amountGuards s p). \<not> fst g"
    by (auto simp: handleLock_Inr dest: lockGuards_parts)
  then show "\<not> amountBroken p (expectedLockAmount s p)"
    "st_escrowMode s = ONCHAIN \<longleftrightarrow> lp_onchain p \<noteq> None"
    "lp_onchain p = Some t \<Longrightarrow> expectedLockAmount s p \<le> decimal (lt_amountSats t) * 1000"
    by (auto simp: amountGuards_def Let_def split: if_splits)
qed

lemma handleLock_order:
  assumes "handleLock E s e p = Inr s'" "isMenu s"
  shows "checkItems (getOr (st_items s) []) [] (getOr (lockedItems p) []) = None"
    "getOr (lockedItems p) [] \<noteq> []" "0 < expectedLockAmount s p"
proof -
  from assms(1) have "\<forall>g\<in>set (orderGuards s e p). \<not> fst g"
    by (auto simp: handleLock_Inr dest: lockGuards_parts)
  with assms(2) show "checkItems (getOr (st_items s) []) [] (getOr (lockedItems p) []) = None"
    "getOr (lockedItems p) [] \<noteq> []" "0 < expectedLockAmount s p"
    by (simp_all add: orderGuards_def Let_def)
qed

text \<open>Every accepted item is on the menu, within its cap and at its price.\<close>

definition itemFits :: "menu_item list \<Rightarrow> selected_item \<Rightarrow> bool" where
  "itemFits items x \<longleftrightarrow> (\<exists>m\<in>set items. mi_id m = si_itemId x \<and> mi_label m = si_label x \<and> 1 \<le> si_quantity x
     \<and> (\<forall>q. mi_maxQuantity m = Some q \<longrightarrow> si_quantity x \<le> q)
     \<and> (if isAmountBracket m
        then si_quantity x = 1 \<and> getOr (mi_minAmountMsats m) (mi_amountMsats m) \<le> si_amountMsats x
           \<and> si_amountMsats x \<le> getOr (mi_maxAmountMsats m) (mi_amountMsats m)
        else si_amountMsats x = mi_amountMsats m))"

lemma itemGuards_fit:
  assumes "menuById items (si_itemId x) = Some m" "firstFail (itemGuards m x) = None"
  shows "itemFits items x"
proof -
  from assms(1) have "m \<in> set items" "mi_id m = si_itemId x"
    unfolding menuById_def by (auto dest!: find_Some_in)
  with assms(2) show ?thesis
    unfolding itemFits_def by (intro bexI [of _ m])
      (auto simp: firstFail_None itemGuards_def split: if_splits)
qed

lemma checkItems_None:
  "checkItems items seen xs = None \<Longrightarrow>
    (\<forall>x\<in>set xs. itemFits items x) \<and> distinct (map si_itemId xs) \<and> set seen \<inter> si_itemId ` set xs = {}"
proof (induction xs arbitrary: seen)
  case (Cons x xs)
  then obtain m where "menuById items (si_itemId x) = Some m" "si_itemId x \<notin> set seen"
    "firstFail (itemGuards m x) = None" "checkItems items (si_itemId x # seen) xs = None"
    by (auto split: option.splits if_splits)
  with Cons.IH [of "si_itemId x # seen"] itemGuards_fit show ?case by auto
qed simp

lemma lockedState_simps [simp]:
  "st_id (lockedState s e p) = st_id s" "st_status (lockedState s e p) = LOCKED"
  "st_eventChain (lockedState s e p) = st_eventChain s @ [e]" "st_initiator (lockedState s e p) = st_initiator s"
  "st_createdAt (lockedState s e p) = st_createdAt s" "st_votes (lockedState s e p) = st_votes s"
  "st_amountMsats (lockedState s e p) = expectedLockAmount s p" "st_lock (lockedState s e p) = lockedLock s e p"
  "st_resolvedOutcome (lockedState s e p) = st_resolvedOutcome s" "st_category (lockedState s e p) = st_category s"
  "st_chamaPolicy (lockedState s e p) = st_chamaPolicy s" "st_chamaCircle (lockedState s e p) = st_chamaCircle s"
  "st_settlements (lockedState s e p) = st_settlements s" "st_subscription (lockedState s e p) = st_subscription s"
  "st_communityArbiters (lockedState s e p) = st_communityArbiters s"
  "st_claimerRole (lockedState s e p) = st_claimerRole s"
  "st_resolvedMajority (lockedState s e p) = st_resolvedMajority s"
  "st_participants (lockedState s e p)
     = (st_participants s)(BUYER := Some (lp_buyerPubkey p), ARBITER := Some (lp_arbiterPubkey p))"
  "fe_arbiterMsats (st_fees (lockedState s e p))
     = sanitizeArbiterFeeMsats (Some (lp_arbiterFeeMsats p)) (expectedLockAmount s p)"
  by (simp_all add: lockedState_def Let_def)

end
