(* ===== verification/Handle_Vote.thy ===== *)
theory Handle_Vote
  imports Handle_Lock Arbiter_Substitution Circle_Policy
begin

text \<open>
  After the LOCK: \<open>handleLockStep\<close>, \<open>handleVote\<close>, \<open>handleResolve\<close>, \<open>handleClaim\<close>,
  \<open>getWinner\<close> and the sender's gate \<open>canVote\<close> of \<open>src/escrow-engine/state-machine.ts\<close>.
  \<open>E\<close> is the Bitcoin environment and \<open>sha\<close> (inside it) the digest of the circle laws. An
  exception of the source is the error \<open>#THROW\<close>.
\<close>

section \<open>LOCK_STEP\<close>

definition lockCounterparty :: "state \<Rightarrow> string \<Rightarrow> string option" where
  "lockCounterparty s locker =
     (if st_participants s BUYER = Some locker then st_participants s SELLER
      else if st_participants s SELLER = Some locker then st_participants s BUYER else None)"

definition lockStepGuards :: "state \<Rightarrow> string \<Rightarrow> (bool \<times> errcode) list" where
  "lockStepGuards s lockId =
     [(\<not> usesWithheldShares (st_createdAt s) \<or> st_chamaPolicy s \<noteq> None, ''LOCK_STEP_NOT_IN_FORCE''),
      ((case firstLock (st_eventChain s) of None \<Rightarrow> True | Some (l, _) \<Rightarrow> ev_id l \<noteq> lockId)
         \<or> lk_onchain (st_lock s) \<noteq> None \<or> st_status s \<notin> {LOCKED, EXPIRED}, ''LOCK_STEP_NO_LOCK'')]"

definition lockerPubkeyOf :: "state \<Rightarrow> string" where
  "lockerPubkeyOf s = (case firstLock (st_eventChain s) of None \<Rightarrow> [] | Some (l, _) \<Rightarrow> ev_pubkey l)"

definition acceptStep :: "state \<Rightarrow> event \<Rightarrow> string \<Rightarrow> result" where
  "acceptStep s e lockId = (let counterparty = nonEmpty (lockCounterparty s (lockerPubkeyOf s)) in guarded
     [(counterparty = None \<or> Some (ev_pubkey e) \<noteq> counterparty, ''NOT_PARTICIPANT''),
      (ev_prev e \<noteq> Some lockId, ''LOCK_STEP_ORDER''),
      (truthyS (lk_acceptEventId (st_lock s)), ''ALREADY_ACCEPTED'')]
     (Inr (s\<lparr>st_lock := (st_lock s)\<lparr>lk_acceptedBy := Some (ev_pubkey e), lk_acceptEventId := Some (ev_id e)\<rparr>\<rparr>)))"

text \<open>Who may hold the arbiter's share of a released LOCK.\<close>

definition allowedArbiterHolders :: "state \<Rightarrow> string list" where
  "allowedArbiterHolders s = (case nonEmpty (st_participants s ARBITER) of
     None \<Rightarrow> []
   | Some a \<Rightarrow> if lk_arbiterPoolShare (st_lock s) = Some True
       then arbiterShareRecipientsFor (st_id s) (st_communityArbiters s)
              (st_participants s BUYER) (st_participants s SELLER) (Some a)
       else [a])"

definition releasedShareBroken :: "state \<Rightarrow> share_entry \<Rightarrow> bool" where
  "releasedShareBroken s x =
     (let recipients = map fst (se_encryptedFor x) in
      if se_shareIndex x = 2
      then nonEmpty (st_participants s ARBITER) = None
           \<or> length recipients \<noteq> length (allowedArbiterHolders s)
           \<or> \<not> set (allowedArbiterHolders s) \<subseteq> set recipients
           \<or> list_ex (\<lambda>pk. Some pk = st_participants s BUYER \<or> Some pk = st_participants s SELLER) recipients
      else (case nonEmpty (if se_shareIndex x = 0 then st_participants s BUYER else st_participants s SELLER) of
              None \<Rightarrow> True
            | Some holder \<Rightarrow> recipients \<noteq> [holder]))"

definition withoutCommitment :: "share_entry \<Rightarrow> share_entry" where
  "withoutCommitment x = x\<lparr>se_commitment := None\<rparr>"

definition releasedLock :: "lock_state \<Rightarrow> withheld \<Rightarrow> string \<Rightarrow> share_entry list \<Rightarrow> lock_state" where
  "releasedLock l w eventId shares =
     l\<lparr>lk_shares := storeShares (map withoutCommitment shares) (lk_shares l),
       lk_withheld := Some (w\<lparr>wh_releaseEventId := Some eventId\<rparr>)\<rparr>"

definition releaseStep :: "state \<Rightarrow> event \<Rightarrow> share_entry list \<Rightarrow> result" where
  "releaseStep s e shares = (case lk_withheld (st_lock s) of
     None \<Rightarrow> Inl ''LOCK_STEP_NO_LOCK''
   | Some w \<Rightarrow> guarded
       [(ev_pubkey e \<noteq> wh_lockerPubkey w, ''NOT_PARTICIPANT''),
        (truthyS (wh_releaseEventId w), ''ALREADY_RELEASED''),
        (\<not> truthyS (lk_acceptEventId (st_lock s)) \<or> ev_prev e \<noteq> lk_acceptEventId (st_lock s), ''LOCK_STEP_ORDER''),
        (sortWith (\<lambda>a b. a < b) (map se_shareIndex shares)
           \<noteq> filter (\<lambda>i. i \<noteq> wh_lockerShareIndex w) [0, 1, 2], ''INVALID_SHARES''),
        (list_ex (releasedShareBroken s) shares, ''INVALID_SHARES'')]
       (Inr (s\<lparr>st_lock := releasedLock (st_lock s) w (ev_id e) shares\<rparr>)))"

definition handleLockStep :: "state \<Rightarrow> event \<Rightarrow> lock_step \<Rightarrow> result" where
  "handleLockStep s e p = guarded (lockStepGuards s (stepLockId p))
     (case p of
        Withdraw _ \<Rightarrow> Inl ''LOCK_WITHDRAWN''
      | Accept lockId \<Rightarrow> acceptStep s e lockId
      | Release _ shares \<Rightarrow> releaseStep s e shares)"

section \<open>VOTE\<close>

definition bothVoted :: "state \<Rightarrow> bool" where
  "bothVoted s \<longleftrightarrow> voteOf s BUYER \<noteq> None \<and> voteOf s SELLER \<noteq> None"

definition principalsAgree :: "state \<Rightarrow> bool" where
  "principalsAgree s \<longleftrightarrow> voteOf s BUYER = voteOf s SELLER"

text \<open>A moment that does not exist or has not come.\<close>

definition notYet :: "int option \<Rightarrow> int \<Rightarrow> bool" where
  "notYet t now = (case t of None \<Rightarrow> True | Some a \<Rightarrow> now < a)"

definition substituteGuards :: "state \<Rightarrow> event \<Rightarrow> vote_payload \<Rightarrow> (bool \<times> errcode) list" where
  "substituteGuards s e p =
     [(vp_role p \<noteq> ARBITER \<or> lk_arbiterPoolShare (st_lock s) \<noteq> Some True, ''NOT_PARTICIPANT''),
      (arbiterVotePriority s (ev_pubkey e) = None, ''NOT_POOL_ARBITER'')]
     @ (if st_status s = EXPIRED
        then [(\<not> isPerformanceContest s (ev_timestamp e) \<and> vp_outcome p \<noteq> REFUND, ''INVALID_HEAL_OUTCOME'')]
        else [(\<not> bothVoted s \<and> oneSidedEscalationAt s = None, ''ARBITER_TOO_EARLY''),
              (bothVoted s \<and> principalsAgree s, ''ARBITER_NOT_NEEDED''),
              (notYet (substitutionEligibleAt s) (ev_timestamp e), ''SUBSTITUTE_TOO_EARLY'')])"

definition voterRoleFor :: "state \<Rightarrow> event \<Rightarrow> vote_payload \<Rightarrow> errcode + role" where
  "voterRoleFor s e p = (case getRole s (ev_pubkey e) of
     Some r \<Rightarrow> Inr r
   | None \<Rightarrow> guarded (substituteGuards s e p) (Inr ARBITER))"

definition lawCode :: "string option \<Rightarrow> errcode" where
  "lawCode law = (if law = Some ''#THROW'' then ''#THROW'' else ''CHAMA_REFUND_ONLY'')"

definition voteJudgment :: "state \<Rightarrow> event \<Rightarrow> outcome_judgment" where
  "voteJudgment s e = (if isPrincipal s (ev_pubkey e) then JObservePrincipal else JObserveArbiter)"

definition voteLaw :: "env \<Rightarrow> state \<Rightarrow> event \<Rightarrow> vote_payload \<Rightarrow> string option" where
  "voteLaw E s e p = chamaOutcomeError (e_sha E) s (vp_outcome p) (ev_timestamp e) (ev_chamaCycle e)
     (voteJudgment s e) (vp_fillEvidence p)"

text \<open>A LOCK whose funder still holds every share back.\<close>

definition sharesHeldBack :: "state \<Rightarrow> bool" where
  "sharesHeldBack s = (case lk_withheld (st_lock s) of None \<Rightarrow> False | Some w \<Rightarrow> \<not> truthyS (wh_releaseEventId w))"

definition votePreGuards :: "env \<Rightarrow> state \<Rightarrow> event \<Rightarrow> vote_payload \<Rightarrow> (bool \<times> errcode) list" where
  "votePreGuards E s e p =
     [((case atomicReleaseError E s e p of Inl _ \<Rightarrow> True | Inr r \<Rightarrow> truthyS r), ''INVALID_SETTLEMENT_PROOF''),
      (voteLaw E s e p \<noteq> None, lawCode (voteLaw E s e p)),
      (sharesHeldBack s, ''SHARES_NOT_RELEASED''),
      (st_status s \<notin> {LOCKED, EXPIRED}, ''INVALID_STATE'')]"

definition voteRoleGuards :: "state \<Rightarrow> event \<Rightarrow> vote_payload \<Rightarrow> role \<Rightarrow> (bool \<times> errcode) list" where
  "voteRoleGuards s e p r =
     [(r \<noteq> vp_role p, ''ROLE_MISMATCH''),
      (hasVoted s (ev_pubkey e), ''ALREADY_VOTED'')]
     @ (if r = ARBITER \<and> st_status s \<noteq> EXPIRED
        then [(\<not> bothVoted s \<and> notYet (oneSidedEscalationAt s) (ev_timestamp e), ''ARBITER_TOO_EARLY''),
              (bothVoted s \<and> principalsAgree s, ''ARBITER_NOT_NEEDED'')]
        else [])
     @ [(case vp_shareEnvelope p of None \<Rightarrow> False
         | Some env \<Rightarrow> validateVoteShareEnvelope env s r (vp_outcome p) (lk_notesHash (st_lock s)) \<noteq> None,
         ''INVALID_SHARE_ENVELOPE'')]"

text \<open>The arbiter slot of a pooled lock: the arbiter vote of the lowest priority index, the
  first of its index in the chain.\<close>

record slot =
  sl_priority :: nat
  sl_outcome :: outcome
  sl_pubkey :: string

definition slotOf :: "state \<Rightarrow> event \<Rightarrow> slot option" where
  "slotOf s e = (case ev_payload e of
     PVote p \<Rightarrow> if vp_role p \<noteq> ARBITER then None
       else map_option (\<lambda>k. \<lparr>sl_priority = k, sl_outcome = vp_outcome p, sl_pubkey = ev_pubkey e\<rparr>)
              (arbiterVotePriority s (ev_pubkey e))
   | _ \<Rightarrow> None)"

fun bestSlot :: "state \<Rightarrow> event list \<Rightarrow> slot option \<Rightarrow> slot option" where
  "bestSlot s [] best = best"
| "bestSlot s (e # es) best = (case slotOf s e of
     None \<Rightarrow> bestSlot s es best
   | Some c \<Rightarrow> (case best of
       None \<Rightarrow> bestSlot s es (Some c)
     | Some b \<Rightarrow> if sl_priority c < sl_priority b then bestSlot s es (Some c) else bestSlot s es best))"

definition votedState :: "state \<Rightarrow> event \<Rightarrow> vote_payload \<Rightarrow> role \<Rightarrow> state" where
  "votedState s e p r =
     (let next = s\<lparr>st_settlements := st_settlements s @ (case voteSettlement e p of None \<Rightarrow> [] | Some m \<Rightarrow> [m]),
                   st_eventChain := st_eventChain s @ [e]\<rparr>
      in if r = ARBITER \<and> lk_arbiterPoolShare (st_lock s) = Some True
         then (case bestSlot next (st_eventChain next) None of
                 None \<Rightarrow> next
               | Some b \<Rightarrow> next\<lparr>st_votes := AList.update ARBITER (sl_outcome b) (st_votes s),
                                st_actingArbiter := Some (sl_pubkey b)\<rparr>)
         else next\<lparr>st_votes := AList.update r (vp_outcome p) (st_votes s),
                   st_actingArbiter := (if r = ARBITER then Some (ev_pubkey e) else st_actingArbiter s)\<rparr>)"

definition handleVote :: "env \<Rightarrow> state \<Rightarrow> event \<Rightarrow> vote_payload \<Rightarrow> result" where
  "handleVote E s e p = guarded (votePreGuards E s e p)
     (case voterRoleFor s e p of
        Inl c \<Rightarrow> Inl c
      | Inr r \<Rightarrow> guarded (voteRoleGuards s e p r) (Inr (votedState s e p r)))"

section \<open>RESOLVE and CLAIM\<close>

definition getWinner :: "state \<Rightarrow> (string \<times> role) option" where
  "getWinner s = Option.bind (st_resolvedOutcome s) (payoutRecipientFor s)"

definition resolveLaw :: "env \<Rightarrow> state \<Rightarrow> event \<Rightarrow> resolve_payload \<Rightarrow> string option" where
  "resolveLaw E s e p = chamaOutcomeError (e_sha E) s (rp_outcome p) (ev_timestamp e) (ev_chamaCycle e)
     JFinalize (rp_fillEvidence p)"

definition handleResolve :: "env \<Rightarrow> state \<Rightarrow> event \<Rightarrow> resolve_payload \<Rightarrow> result" where
  "handleResolve E s e p = (let threshold = checkVoteThreshold (st_votes s) in guarded
     [(resolveLaw E s e p \<noteq> None, lawCode (resolveLaw E s e p)),
      (st_status s \<notin> {LOCKED, EXPIRED}, ''INVALID_STATE''),
      (threshold = None, ''THRESHOLD_NOT_MET''),
      (map_option fst threshold \<noteq> Some (rp_outcome p), ''OUTCOME_MISMATCH''),
      (map_option (\<lambda>t. set (fst (snd t))) threshold \<noteq> Some (set (rp_majority p)), ''MAJORITY_MISMATCH'')]
     (Inr (s\<lparr>st_status := APPROVED, st_resolvedOutcome := Some (rp_outcome p),
             st_resolvedMajority := Some (rp_majority p), st_resolvedAt := Some (rp_resolvedAt p),
             st_eventChain := st_eventChain s @ [e]\<rparr>)))"

definition handleClaim :: "state \<Rightarrow> event \<Rightarrow> claim_payload \<Rightarrow> result" where
  "handleClaim s e p = (let winner = getWinner s; claimerRole = getRole s (ev_pubkey e) in guarded
     [(st_status s \<noteq> APPROVED, ''INVALID_STATE''),
      (st_resolvedOutcome s = None, ''NO_OUTCOME''),
      (winner = None, ''NO_WINNER''),
      (claimerRole \<noteq> map_option snd winner, ''WRONG_CLAIMER''),
      (truthyS (lk_notesHash (st_lock s)) \<and> Some (clp_notesHashVerification p) \<noteq> lk_notesHash (st_lock s),
       ''NOTES_HASH_MISMATCH'')]
     (Inr (s\<lparr>st_status := CLAIMED, st_claimerRole := claimerRole, st_claimedAt := Some (clp_claimedAt p),
             st_eventChain := st_eventChain s @ [e]\<rparr>)))"

section \<open>The sender's gate\<close>

text \<open>The role a key would vote in, and whether it would vote as a backup.\<close>

definition votingSeat :: "state \<Rightarrow> string \<Rightarrow> (role \<times> bool) option" where
  "votingSeat s pk = (case getRole s pk of
     Some r \<Rightarrow> Some (r, False)
   | None \<Rightarrow> if lk_arbiterPoolShare (st_lock s) \<noteq> Some True \<or> arbiterVotePriority s pk = None
            then None else Some (ARBITER, True))"

definition healingAt :: "state \<Rightarrow> int \<Rightarrow> bool" where
  "healingAt s now \<longleftrightarrow> st_status s = EXPIRED \<or> (st_expiresAt s > 0 \<and> now > st_expiresAt s)"

definition seatTimingGuards :: "state \<Rightarrow> int \<Rightarrow> role \<Rightarrow> bool \<Rightarrow> (bool \<times> string) list" where
  "seatTimingGuards s now r isSubstitute =
     (if r = ARBITER \<and> \<not> healingAt s now
      then [(\<not> bothVoted s \<and> notYet (oneSidedEscalationAt s) now,
             ''Waiting for buyer and seller to vote first''),
            (bothVoted s \<and> principalsAgree s, ''Buyer and seller agree'')]
      else [])
     @ (if isSubstitute \<and> \<not> healingAt s now
        then [(notYet (substitutionEligibleAt s) now, ''The assigned arbiter still has the floor'')] else [])"

text \<open>\<open>None\<close> means the key may vote; \<open>Some reason\<close> that it may not.\<close>

definition canVote ::
  "env \<Rightarrow> state \<Rightarrow> string \<Rightarrow> int \<Rightarrow> outcome option \<Rightarrow> chama_cycle option \<Rightarrow> string option" where
  "canVote E s pk now oc cycle =
     (let law = (case oc of None \<Rightarrow> None | Some v \<Rightarrow> chamaOutcomeError (e_sha E) s v now cycle JIntent None) in
      case firstFail
        [(st_pendingVote s, ''Your vote is awaiting confirmation''),
         (law \<noteq> None, getOr law []),
         (st_status s \<notin> {LOCKED, EXPIRED}, ''State is not LOCKED or EXPIRED''),
         (sharesHeldBack s, ''The funder has not released the shares yet'')] of
        Some reason \<Rightarrow> Some reason
      | None \<Rightarrow> (case votingSeat s pk of
          None \<Rightarrow> Some ''Not a participant''
        | Some (r, isSubstitute) \<Rightarrow>
            firstFail ((hasVoted s pk, ''Already voted'') # seatTimingGuards s now r isSubstitute)))"

section \<open>LOCK_STEP lemmas\<close>

text \<open>A step moves the lock record only: never the status, the chain, the votes or the seats.\<close>

lemma handleLockStep_only_lock:
  assumes "handleLockStep s e p = Inr s'"
  shows "\<exists>l. s' = s\<lparr>st_lock := l\<rparr>"
  using assms by (auto simp: handleLockStep_def acceptStep_def releaseStep_def guarded_Inr Let_def
      split: lock_step.splits option.splits)

lemma handleLockStep_force:
  assumes "handleLockStep s e p = Inr s'"
  shows "usesWithheldShares (st_createdAt s)" "st_chamaPolicy s = None" "st_status s \<in> {LOCKED, EXPIRED}"
    "lk_onchain (st_lock s) = None" "\<exists>l q. firstLock (st_eventChain s) = Some (l, q) \<and> ev_id l = stepLockId p"
  using assms by (auto simp: handleLockStep_def guarded_Inr lockStepGuards_def split: option.splits)

lemma acceptStep_Inr:
  assumes "acceptStep s e lockId = Inr s'"
  shows "lockCounterparty s (lockerPubkeyOf s) = Some (ev_pubkey e)" "ev_prev e = Some lockId"
    "\<not> truthyS (lk_acceptEventId (st_lock s))"
    "s' = s\<lparr>st_lock := (st_lock s)\<lparr>lk_acceptedBy := Some (ev_pubkey e), lk_acceptEventId := Some (ev_id e)\<rparr>\<rparr>"
  using assms by (auto simp: acceptStep_def Let_def nonEmpty_eq_Some nonEmpty_eq_None)

lemma releaseStep_Inr:
  assumes "releaseStep s e shares = Inr s'"
  obtains w where "lk_withheld (st_lock s) = Some w" "ev_pubkey e = wh_lockerPubkey w"
    "\<not> truthyS (wh_releaseEventId w)" "truthyS (lk_acceptEventId (st_lock s))"
    "ev_prev e = lk_acceptEventId (st_lock s)"
    "sortWith (\<lambda>a b. a < b) (map se_shareIndex shares) = filter (\<lambda>i. i \<noteq> wh_lockerShareIndex w) [0, 1, 2]"
    "\<forall>x\<in>set shares. \<not> releasedShareBroken s x"
    "s' = s\<lparr>st_lock := releasedLock (st_lock s) w (ev_id e) shares\<rparr>"
  using assms by (auto simp: releaseStep_def list_ex_iff split: option.splits)

text \<open>The released shares are exactly the two the funder withheld.\<close>

lemma releaseStep_indices:
  assumes "releaseStep s e shares = Inr s'" "lk_withheld (st_lock s) = Some w"
  shows "se_shareIndex ` set shares = {0, 1, 2} - {wh_lockerShareIndex w}"
proof (rule releaseStep_Inr [OF assms(1)])
  fix v assume "lk_withheld (st_lock s) = Some v"
    and "sortWith (\<lambda>a b. a < b) (map se_shareIndex shares) = filter (\<lambda>i. i \<noteq> wh_lockerShareIndex v) [0, 1, 2]"
  with assms(2) have "set (sortWith (\<lambda>a b. a < b) (map se_shareIndex shares))
      = set (filter (\<lambda>i. i \<noteq> wh_lockerShareIndex w) [0, 1, 2])" by simp
  then show ?thesis by (simp only: set_sortWith set_map set_filter) auto
qed

section \<open>VOTE lemmas\<close>

lemma handleVote_Inr [handler_invert]:
  "handleVote E s e p = Inr s' \<longleftrightarrow> (\<forall>g\<in>set (votePreGuards E s e p). \<not> fst g)
    \<and> (\<exists>r. voterRoleFor s e p = Inr r \<and> (\<forall>g\<in>set (voteRoleGuards s e p r). \<not> fst g) \<and> s' = votedState s e p r)"
  by (auto simp: handleVote_def guarded_Inr split: sum.splits)

lemma voterRoleFor_Inr:
  "voterRoleFor s e p = Inr r \<Longrightarrow> getRole s (ev_pubkey e) = Some r
    \<or> (getRole s (ev_pubkey e) = None \<and> r = ARBITER \<and> (\<forall>g\<in>set (substituteGuards s e p). \<not> fst g))"
  by (auto simp: voterRoleFor_def guarded_Inr split: option.splits)

text \<open>Who may have signed an accepted vote in a role.\<close>

definition mayVoteAs :: "state \<Rightarrow> string \<Rightarrow> role \<Rightarrow> bool" where
  "mayVoteAs s pk r \<longleftrightarrow> st_participants s r = Some pk
     \<or> (r = ARBITER \<and> lk_arbiterPoolShare (st_lock s) = Some True \<and> arbiterVotePriority s pk \<noteq> None)"

lemma voterRoleFor_mayVote: "voterRoleFor s e p = Inr r \<Longrightarrow> mayVoteAs s (ev_pubkey e) r"
  by (auto dest!: voterRoleFor_Inr getRole_Some simp: mayVoteAs_def substituteGuards_def)

lemma handleVote_facts:
  assumes "handleVote E s e p = Inr s'"
  shows "st_status s \<in> {LOCKED, EXPIRED}" "\<not> hasVoted s (ev_pubkey e)" "\<not> sharesHeldBack s"
    "voterRoleFor s e p = Inr (vp_role p)" "s' = votedState s e p (vp_role p)"
    "mayVoteAs s (ev_pubkey e) (vp_role p)" "voteLaw E s e p = None"
  using assms voterRoleFor_mayVote
  by (auto simp: handleVote_Inr votePreGuards_def voteRoleGuards_def)

lemma votedState_frame:
  "st_id (votedState s e p r) = st_id s" "st_status (votedState s e p r) = st_status s"
  "st_eventChain (votedState s e p r) = st_eventChain s @ [e]" "st_initiator (votedState s e p r) = st_initiator s"
  "st_createdAt (votedState s e p r) = st_createdAt s" "st_lock (votedState s e p r) = st_lock s"
  "st_amountMsats (votedState s e p r) = st_amountMsats s" "st_fees (votedState s e p r) = st_fees s"
  "st_resolvedOutcome (votedState s e p r) = st_resolvedOutcome s"
  "st_participants (votedState s e p r) = st_participants s" "st_category (votedState s e p r) = st_category s"
  "st_chamaPolicy (votedState s e p r) = st_chamaPolicy s" "st_subscription (votedState s e p r) = st_subscription s"
  "st_communityArbiters (votedState s e p r) = st_communityArbiters s"
  "st_claimerRole (votedState s e p r) = st_claimerRole s" "st_expiresAt (votedState s e p r) = st_expiresAt s"
  "st_resolvedMajority (votedState s e p r) = st_resolvedMajority s"
  "st_joinHolds (votedState s e p r) = st_joinHolds s" "st_items (votedState s e p r) = st_items s"
  by (simp_all add: votedState_def Let_def split: option.splits)

text \<open>The slot of a pooled lock holds a vote of the chain whose signer is in the priority order,
  and no arbiter vote of the chain has a lower index.\<close>

lemma slotOf_Some:
  "slotOf s e = Some c \<longleftrightarrow> (\<exists>p. ev_payload e = PVote p \<and> vp_role p = ARBITER \<and> sl_outcome c = vp_outcome p
     \<and> sl_pubkey c = ev_pubkey e \<and> arbiterVotePriority s (ev_pubkey e) = Some (sl_priority c))"
  by (cases c) (auto simp: slotOf_def split: payload.splits if_splits)

lemma bestSlot_char:
  "bestSlot s es best = Some b \<Longrightarrow> (best = Some b \<or> (\<exists>e\<in>set es. slotOf s e = Some b))
    \<and> (\<forall>a. best = Some a \<longrightarrow> sl_priority b \<le> sl_priority a)
    \<and> (\<forall>e\<in>set es. \<forall>c. slotOf s e = Some c \<longrightarrow> sl_priority b \<le> sl_priority c)"
proof (induction es arbitrary: best)
  case (Cons e es)
  show ?case
  proof (cases "slotOf s e")
    case None
    with Cons show ?thesis by auto
  next
    case (Some c)
    show ?thesis
    proof (cases best)
      case None
      with Some Cons.prems have "bestSlot s es (Some c) = Some b" by simp
      from Cons.IH [OF this] None Some show ?thesis by auto
    next
      case (Some a)
      with \<open>slotOf s e = Some c\<close> Cons.prems
      have "bestSlot s es (Some (if sl_priority c < sl_priority a then c else a)) = Some b"
        by (simp split: if_splits)
      from Cons.IH [OF this] Some \<open>slotOf s e = Some c\<close> show ?thesis
        by (auto split: if_splits)
    qed
  qed
qed simp

lemma bestSlot_None: "bestSlot s es best = None \<longleftrightarrow> best = None \<and> (\<forall>e\<in>set es. slotOf s e = None)"
  by (induction es arbitrary: best) (auto split: option.splits)

text \<open>The next votes: one slot updated, or (a pooled arbiter vote nobody may cast) none.\<close>

lemma votedState_votes:
  "st_votes (votedState s e p r) = st_votes s
   \<or> (\<exists>oc. st_votes (votedState s e p r) = AList.update r oc (st_votes s))"
  by (auto simp: votedState_def Let_def split: option.splits)

lemma votedState_votes_distinct:
  "distinct (map fst (st_votes s)) \<Longrightarrow> distinct (map fst (st_votes (votedState s e p r)))"
  using votedState_votes [of s e p r] by (auto intro: votes_update_distinct)

lemma voteOf_update: "map_of (AList.update r oc xs) q = (if q = r then Some oc else map_of xs q)"
  by (simp add: update_conv')

text \<open>Outside pooled arbiter votes the voter's own slot is written with the voted outcome.\<close>

lemma votedState_voteOf:
  assumes "r \<noteq> ARBITER \<or> lk_arbiterPoolShare (st_lock s) \<noteq> Some True"
  shows "voteOf (votedState s e p r) q = (if q = r then Some (vp_outcome p) else voteOf s q)"
  using assms by (auto simp: votedState_def Let_def voteOf_def voteOf_update)

section \<open>RESOLVE and CLAIM lemmas\<close>

lemma handleResolve_Inr [handler_invert]:
  assumes "handleResolve E s e p = Inr s'"
  obtains maj arb where "checkVoteThreshold (st_votes s) = Some (rp_outcome p, maj, arb)"
    "set (rp_majority p) = set maj" "st_status s \<in> {LOCKED, EXPIRED}" "resolveLaw E s e p = None"
    "s' = s\<lparr>st_status := APPROVED, st_resolvedOutcome := Some (rp_outcome p),
            st_resolvedMajority := Some (rp_majority p), st_resolvedAt := Some (rp_resolvedAt p),
            st_eventChain := st_eventChain s @ [e]\<rparr>"
  using assms by (cases "checkVoteThreshold (st_votes s)") (auto simp: handleResolve_def Let_def)

lemma getWinner_seated:
  "getWinner s = Some (pk, r) \<Longrightarrow> \<exists>oc. st_resolvedOutcome s = Some oc \<and> r = winnerRoleFor s oc
    \<and> st_participants s r = Some pk"
  by (auto simp: getWinner_def bind_eq_Some_conv dest: payoutRecipient_seated)

lemma handleClaim_Inr [handler_invert]:
  assumes "handleClaim s e p = Inr s'"
  obtains pk r where "st_status s = APPROVED" "getWinner s = Some (pk, r)" "getRole s (ev_pubkey e) = Some r"
    "truthyS (lk_notesHash (st_lock s)) \<longrightarrow> lk_notesHash (st_lock s) = Some (clp_notesHashVerification p)"
    "s' = s\<lparr>st_status := CLAIMED, st_claimerRole := Some r, st_claimedAt := Some (clp_claimedAt p),
            st_eventChain := st_eventChain s @ [e]\<rparr>"
  using assms by (cases "getWinner s") (auto simp: handleClaim_def Let_def)

text \<open>The winner's role is read through the signing key, so the key is the winner's own.\<close>

lemma handleClaim_signer:
  assumes "handleClaim s e p = Inr s'"
  shows "map_option fst (getWinner s) = Some (ev_pubkey e)"
  using assms by (elim handleClaim_Inr) (auto dest!: getWinner_seated getRole_Some)

section \<open>The sender's gate\<close>

lemma canVote_None:
  "canVote E s pk now oc cycle = None \<longleftrightarrow>
    \<not> st_pendingVote s \<and> (\<forall>v. oc = Some v \<longrightarrow> chamaOutcomeError (e_sha E) s v now cycle JIntent None = None)
    \<and> st_status s \<in> {LOCKED, EXPIRED} \<and> \<not> sharesHeldBack s \<and> \<not> hasVoted s pk
    \<and> (\<exists>r b. votingSeat s pk = Some (r, b) \<and> firstFail (seatTimingGuards s now r b) = None)"
  by (cases oc; cases "votingSeat s pk") (auto simp: canVote_def Let_def split: if_splits)

lemma votingSeat_Some:
  "votingSeat s pk = Some (r, b) \<longleftrightarrow> (getRole s pk = Some r \<and> \<not> b)
    \<or> (getRole s pk = None \<and> r = ARBITER \<and> b \<and> lk_arbiterPoolShare (st_lock s) = Some True
       \<and> arbiterVotePriority s pk \<noteq> None)"
  by (auto simp: votingSeat_def split: option.splits if_splits)

end
