(* ===== verification/Handle_Settle.thy ===== *)
theory Handle_Settle
  imports Handle_Vote
begin

text \<open>
  The closing handlers of \<open>src/escrow-engine/state-machine.ts\<close>: the stalled on-chain payout,
  COMPLETE, CANCEL, subscriptions and their period releases, and the three auxiliary kinds
  CHAT, PREMIUM and SETTLEMENT, which never touch the event chain. Period counts and indices
  are integers here; the wire format only promises numbers.
\<close>

section \<open>SETTLEMENT_STALLED\<close>

definition stalledState :: "state \<Rightarrow> event \<Rightarrow> string \<Rightarrow> settlement_payload \<Rightarrow> string \<Rightarrow> state" where
  "stalledState s e proposalId payout destination =
     s\<lparr>st_settlementStalled := Some \<lparr>sd_requestedAt = ev_timestamp e, sd_proposalId = proposalId,
                                     sd_destination = destination\<rparr>,
       st_settlements := st_settlements s @ [settlementMsg e payout]\<rparr>"

definition stalledRequestBroken :: "event \<Rightarrow> string \<Rightarrow> settlement_payload \<Rightarrow> stalled_eligibility \<Rightarrow> bool" where
  "stalledRequestBroken e proposalId payout el \<longleftrightarrow>
     \<not> se_ready el \<or> ev_pubkey e \<noteq> fst (se_winner el) \<or> proposalId \<noteq> sm_id (ch_proposal (se_choice el))
     \<or> sp_role payout \<noteq> snd (se_winner el) \<or> sp_leaf payout \<noteq> LF_ARBITER \<or> sp_final payout = Some True
     \<or> sp_payoutAddress payout \<noteq> Some (ch_destination (se_choice el))"

definition handleSettlementStalled ::
  "env \<Rightarrow> state \<Rightarrow> event \<Rightarrow> string \<Rightarrow> settlement_payload \<Rightarrow> result" where
  "handleSettlementStalled E s e proposalId payout = (case stalledPayoutEligibility E s (ev_timestamp e) of
     Inl c \<Rightarrow> Inl c
   | Inr None \<Rightarrow> Inl ''INVALID_SETTLEMENT_PROOF''
   | Inr (Some el) \<Rightarrow>
       if stalledRequestBroken e proposalId payout el then Inl ''INVALID_SETTLEMENT_PROOF''
       else (let next = stalledState s e proposalId payout (ch_destination (se_choice el)) in
         case winnerSettlementChoice E next of
           Inl c \<Rightarrow> Inl c
         | Inr ch \<Rightarrow> if map_option (\<lambda>c. sm_id (ch_proposal c)) ch \<noteq> Some (ev_id e)
             then Inl ''INVALID_SETTLEMENT_PROOF''
             else Inr (next\<lparr>st_eventChain := st_eventChain s @ [e]\<rparr>)))"

section \<open>COMPLETE\<close>

text \<open>The id in the event's first \<open>settlement\<close> tag, and the message it names.\<close>

definition settlementTag :: "event \<Rightarrow> string option" where
  "settlementTag e = (case List.find (\<lambda>t. t \<noteq> [] \<and> hd t = ''settlement'') (ev_tags e) of
     Some (_ # v # _) \<Rightarrow> Some v | _ \<Rightarrow> None)"

definition taggedSettlement :: "state \<Rightarrow> event \<Rightarrow> settlement_msg option" where
  "taggedSettlement s e = List.find (\<lambda>m. Some (sm_id m) = settlementTag e) (st_settlements s)"

definition refundComplete :: "env \<Rightarrow> state \<Rightarrow> event \<Rightarrow> settlement_msg \<Rightarrow> result" where
  "refundComplete E s e m = (case st_onchainFundingTerms s of
     None \<Rightarrow> Inl ''INVALID_SETTLEMENT_PROOF''
   | Some terms \<Rightarrow>
       if Some (ev_pubkey e) \<noteq> st_participants s (onchainFunder s)
          \<or> finalRefundSettlementProof E (sm_payload m) terms = None
       then Inl ''INVALID_SETTLEMENT_PROOF''
       else Inr (s\<lparr>st_onchainRefundClaimed := True, st_eventChain := st_eventChain s @ [e]\<rparr>))"

text \<open>The proof a COMPLETE of a locked on-chain trade carries, and who may send it.\<close>

definition completeProof :: "env \<Rightarrow> state \<Rightarrow> event \<Rightarrow> lock_terms \<Rightarrow> (settlement_proof \<times> bool) option" where
  "completeProof E s e t = (case (taggedSettlement s e, getWinner s) of
     (Some m, Some (pk, r)) \<Rightarrow>
       if r \<noteq> BUYER \<and> r \<noteq> SELLER then None
       else if arbitrated s
       then map_option (\<lambda>pf. (pf, True)) (finalArbiterSettlementProof E (sm_payload m) t r (st_settlements s) (Some pk))
       else map_option (\<lambda>pf. (pf, False)) (finalCoopSettlementProof E (sm_payload m) t r (st_settlements s) (Some pk))
   | _ \<Rightarrow> None)"

definition completeSender :: "state \<Rightarrow> string \<Rightarrow> bool \<Rightarrow> bool" where
  "completeSender s sender byArbiter =
     (if byArbiter
      then (case getWinner s of None \<Rightarrow> False
            | Some (_, r) \<Rightarrow> st_participants s r = Some sender \<or> st_participants s ARBITER = Some sender)
      else isPrincipal s sender)"

definition completedState :: "state \<Rightarrow> event \<Rightarrow> int \<Rightarrow> settlement_proof option \<Rightarrow> state" where
  "completedState s e ts proof_opt =
     (let next = s\<lparr>st_status := COMPLETED, st_completedAt := Some ts, st_eventChain := st_eventChain s @ [e]\<rparr>
      in case proof_opt of None \<Rightarrow> next
         | Some pf \<Rightarrow> next\<lparr>st_onchainPayoutTxid := Some (pf_txid pf),
             st_onchainPayoutAddress := Some (pf_destination pf), st_onchainPayoutSats := Some (pf_sats pf)\<rparr>)"

definition handleComplete :: "env \<Rightarrow> state \<Rightarrow> event \<Rightarrow> int \<Rightarrow> result" where
  "handleComplete E s e ts =
     (let tagged = taggedSettlement s e in
      if map_option msgLeaf tagged = Some LF_REFUND then refundComplete E s e (the tagged)
      else if st_status s \<noteq> CLAIMED \<and> \<not> (st_status s = APPROVED \<and> lk_onchain (st_lock s) \<noteq> None)
      then Inl ''INVALID_STATE''
      else (case lk_onchain (st_lock s) of
          None \<Rightarrow> Inr (completedState s e ts None)
        | Some t \<Rightarrow> (case completeProof E s e t of
            None \<Rightarrow> Inl ''INVALID_SETTLEMENT_PROOF''
          | Some (pf, byArbiter) \<Rightarrow>
              if \<not> completeSender s (ev_pubkey e) byArbiter then Inl ''INVALID_SETTLEMENT_PROOF''
              else Inr (completedState s e ts (Some pf)))))"

section \<open>CANCEL\<close>

definition handleCancel :: "state \<Rightarrow> event \<Rightarrow> int \<Rightarrow> result" where
  "handleCancel s e ts = guarded
     [(st_onchainFundingTerms s \<noteq> None, ''FUNDING_TERMS_FROZEN''),
      (st_status s \<noteq> CREATED, ''INVALID_STATE''),
      (ev_pubkey e \<noteq> st_initiator s, ''NOT_INITIATOR'')]
     (Inr (s\<lparr>st_status := CANCELLED, st_cancelledAt := Some ts, st_eventChain := st_eventChain s @ [e]\<rparr>))"

section \<open>Subscriptions\<close>

definition newSubscription :: "subscribe_payload \<Rightarrow> subscription" where
  "newSubscription p = \<lparr>sub_totalPeriods = sbp_totalPeriods p, sub_periodAmountMsats = sbp_periodAmountMsats p,
     sub_periodDurationSeconds = sbp_periodDurationSeconds p,
     sub_periodStartTimes = map (\<lambda>i. sbp_startsAt p + int i * sbp_periodDurationSeconds p)
       [0..<nat (sbp_totalPeriods p)],
     sub_periodStatuses = replicate (nat (sbp_totalPeriods p)) P_PENDING,
     sub_releasedCount = 0, sub_disputedCount = 0, sub_totalReleasedMsats = 0, sub_startsAt = sbp_startsAt p\<rparr>"

definition handleSubscribe :: "state \<Rightarrow> event \<Rightarrow> subscribe_payload \<Rightarrow> result" where
  "handleSubscribe s e p = guarded
     [(st_chamaCircle s \<noteq> None, ''CHAMA_NO_SUBSCRIPTION''),
      (st_status s \<noteq> CREATED, ''INVALID_STATE''),
      (getRole s (ev_pubkey e) = None, ''NOT_PARTICIPANT''),
      (st_subscription s \<noteq> None, ''ALREADY_SUBSCRIBED''),
      (sbp_totalPeriods p * sbp_periodAmountMsats p \<noteq> st_amountMsats s, ''AMOUNT_MISMATCH'')]
     (Inr (s\<lparr>st_subscription := Some (newSubscription p), st_eventChain := st_eventChain s @ [e]\<rparr>))"

text \<open>The status of a period; an index past the array reads as undefined.\<close>

definition periodStatus :: "subscription \<Rightarrow> int \<Rightarrow> period_status option" where
  "periodStatus sub i = (if 0 \<le> i \<and> i < int (length (sub_periodStatuses sub))
     then Some (sub_periodStatuses sub ! nat i) else None)"

definition releasePeriod :: "subscription \<Rightarrow> release_payload \<Rightarrow> subscription" where
  "releasePeriod sub p = sub\<lparr>sub_periodStatuses := (sub_periodStatuses sub)[nat (prp_periodIndex p) := P_RELEASED],
     sub_releasedCount := sub_releasedCount sub + 1,
     sub_totalReleasedMsats := sub_totalReleasedMsats sub + prp_amountMsats p\<rparr>"

definition handlePeriodRelease :: "state \<Rightarrow> event \<Rightarrow> release_payload \<Rightarrow> result" where
  "handlePeriodRelease s e p =
     (if st_status s \<noteq> LOCKED then Inl ''INVALID_STATE''
      else case st_subscription s of
        None \<Rightarrow> Inl ''NOT_SUBSCRIPTION''
      | Some sub \<Rightarrow> guarded
          [(prp_periodIndex p < 0 \<or> prp_periodIndex p \<ge> sub_totalPeriods sub, ''INVALID_PERIOD''),
           (periodStatus sub (prp_periodIndex p) = Some P_RELEASED, ''ALREADY_RELEASED''),
           (periodStatus sub (prp_periodIndex p) = Some P_DISPUTED, ''PERIOD_DISPUTED''),
           (getRole s (ev_pubkey e) = None, ''NOT_PARTICIPANT''),
           (prp_amountMsats p \<noteq> sub_periodAmountMsats sub, ''AMOUNT_MISMATCH'')]
          (let sub' = releasePeriod sub p;
               next = s\<lparr>st_subscription := Some sub', st_eventChain := st_eventChain s @ [e]\<rparr>
           in Inr (if sub_releasedCount sub' \<ge> sub_totalPeriods sub'
                   then next\<lparr>st_status := COMPLETED, st_completedAt := Some (prp_releasedAt p)\<rparr> else next)))"

section \<open>CHAT, PREMIUM, SETTLEMENT\<close>

definition handleChat :: "state \<Rightarrow> event \<Rightarrow> result" where
  "handleChat s e = guarded
     [(getActiveRole s (ev_pubkey e) (ev_timestamp e) = None, ''NOT_PARTICIPANT''),
      (st_status s \<in> TERMINAL_STATES, ''TRADE_CLOSED'')]
     (Inr (s\<lparr>st_chatMessages := st_chatMessages s @ [e]\<rparr>))"

definition handlePremium :: "state \<Rightarrow> event \<Rightarrow> result" where
  "handlePremium s e =
     (if list_ex (\<lambda>x. ev_id x = ev_id e) (st_premiumNotes s) then Inr s
      else if \<not> isPrincipal s (ev_pubkey e) then Inl ''NOT_PARTICIPANT''
      else Inr (s\<lparr>st_premiumNotes := st_premiumNotes s @ [e]\<rparr>))"

definition handleSettlement :: "state \<Rightarrow> event \<Rightarrow> settlement_payload \<Rightarrow> result" where
  "handleSettlement s e p =
     (if list_ex (\<lambda>m. sm_id m = ev_id e) (st_settlements s) then Inr s
      else if getRole s (ev_pubkey e) \<noteq> Some (sp_role p) then Inl ''NOT_PARTICIPANT''
      else Inr (s\<lparr>st_settlements := st_settlements s @ [settlementMsg e p]\<rparr>))"

section \<open>Lemmas\<close>

lemma handleSettlementStalled_Inr [handler_invert]:
  assumes "handleSettlementStalled E s e i payout = Inr s'"
  obtains el where "stalledPayoutEligibility E s (ev_timestamp e) = Inr (Some el)"
    "\<not> stalledRequestBroken e i payout el"
    "s' = (stalledState s e i payout (ch_destination (se_choice el)))\<lparr>st_eventChain := st_eventChain s @ [e]\<rparr>"
  using assms by (auto simp: handleSettlementStalled_def Let_def split: sum.splits option.splits if_splits)

text \<open>Only an approved RELEASE without an arbiter can stall, a day after it was resolved.\<close>

lemma stalledPayoutEligibility_Some:
  assumes "stalledPayoutEligibility E s now = Inr (Some el)"
  shows "st_status s = APPROVED" "st_resolvedOutcome s = Some RELEASE" "\<not> arbitrated s"
    "payoutRecipientFor s RELEASE = Some (se_winner el)" "lk_onchain (st_lock s) \<noteq> None"
    "\<exists>t. st_resolvedAt s = Some t \<and> se_availableAt el = t + STALLED_PAYOUT_WAIT
       \<and> (se_ready el \<longleftrightarrow> t + STALLED_PAYOUT_WAIT \<le> now)"
    "\<not> ch_locked (se_choice el)"
  using assms by (auto simp: stalledPayoutEligibility_def Let_def split: if_splits option.splits sum.splits)

lemma handleComplete_Inr [handler_invert]:
  assumes "handleComplete E s e ts = Inr s'"
  shows "(\<exists>m terms. taggedSettlement s e = Some m \<and> msgLeaf m = LF_REFUND \<and> st_onchainFundingTerms s = Some terms
            \<and> st_participants s (onchainFunder s) = Some (ev_pubkey e)
            \<and> finalRefundSettlementProof E (sm_payload m) terms \<noteq> None
            \<and> s' = s\<lparr>st_onchainRefundClaimed := True, st_eventChain := st_eventChain s @ [e]\<rparr>)
    \<or> (st_status s = CLAIMED \<and> lk_onchain (st_lock s) = None \<and> s' = completedState s e ts None)
    \<or> (\<exists>t pf b. st_status s \<in> {APPROVED, CLAIMED} \<and> lk_onchain (st_lock s) = Some t
            \<and> completeProof E s e t = Some (pf, b) \<and> completeSender s (ev_pubkey e) b
            \<and> s' = completedState s e ts (Some pf))"
proof (cases "map_option msgLeaf (taggedSettlement s e) = Some LF_REFUND")
  case True
  then obtain m where "taggedSettlement s e = Some m" "msgLeaf m = LF_REFUND" by auto
  with assms show ?thesis
    by (auto simp: handleComplete_def refundComplete_def split: option.splits if_splits)
next
  case False
  with assms have "(st_status s = CLAIMED \<or> (st_status s = APPROVED \<and> lk_onchain (st_lock s) \<noteq> None))
     \<and> (case lk_onchain (st_lock s) of None \<Rightarrow> Inr (completedState s e ts None)
        | Some t \<Rightarrow> (case completeProof E s e t of None \<Rightarrow> Inl ''INVALID_SETTLEMENT_PROOF''
          | Some (pf, byArbiter) \<Rightarrow>
              if \<not> completeSender s (ev_pubkey e) byArbiter then Inl ''INVALID_SETTLEMENT_PROOF''
              else Inr (completedState s e ts (Some pf)))) = Inr s'"
    by (simp add: handleComplete_def Let_def split: if_splits)
  then show ?thesis by (auto split: option.splits prod.splits if_splits)
qed

lemma completedState_simps [simp]:
  "st_id (completedState s e ts pf) = st_id s" "st_status (completedState s e ts pf) = COMPLETED"
  "st_eventChain (completedState s e ts pf) = st_eventChain s @ [e]"
  "st_votes (completedState s e ts pf) = st_votes s" "st_fees (completedState s e ts pf) = st_fees s"
  "st_amountMsats (completedState s e ts pf) = st_amountMsats s" "st_lock (completedState s e ts pf) = st_lock s"
  "st_createdAt (completedState s e ts pf) = st_createdAt s" "st_initiator (completedState s e ts pf) = st_initiator s"
  "st_participants (completedState s e ts pf) = st_participants s" "st_category (completedState s e ts pf) = st_category s"
  "st_resolvedOutcome (completedState s e ts pf) = st_resolvedOutcome s"
  "st_resolvedMajority (completedState s e ts pf) = st_resolvedMajority s"
  "st_chamaPolicy (completedState s e ts pf) = st_chamaPolicy s" "st_claimerRole (completedState s e ts pf) = st_claimerRole s"
  "st_communityArbiters (completedState s e ts pf) = st_communityArbiters s"
  "st_subscription (completedState s e ts pf) = st_subscription s"
  "st_settlements (completedState s e ts pf) = st_settlements s"
  by (simp_all add: completedState_def Let_def split: option.splits)

lemma handleCancel_Inr [handler_invert]:
  "handleCancel s e ts = Inr s' \<longleftrightarrow> st_onchainFundingTerms s = None \<and> st_status s = CREATED
    \<and> ev_pubkey e = st_initiator s
    \<and> s' = s\<lparr>st_status := CANCELLED, st_cancelledAt := Some ts, st_eventChain := st_eventChain s @ [e]\<rparr>"
  by (auto simp: handleCancel_def)

lemma handleSubscribe_Inr [handler_invert]:
  "handleSubscribe s e p = Inr s' \<longleftrightarrow> st_chamaCircle s = None \<and> st_status s = CREATED
    \<and> getRole s (ev_pubkey e) \<noteq> None \<and> st_subscription s = None
    \<and> sbp_totalPeriods p * sbp_periodAmountMsats p = st_amountMsats s
    \<and> s' = s\<lparr>st_subscription := Some (newSubscription p), st_eventChain := st_eventChain s @ [e]\<rparr>"
  by (auto simp: handleSubscribe_def)

lemma handlePeriodRelease_Inr [handler_invert]:
  assumes "handlePeriodRelease s e p = Inr s'"
  obtains sub where "st_status s = LOCKED" "st_subscription s = Some sub"
    "0 \<le> prp_periodIndex p" "prp_periodIndex p < sub_totalPeriods sub"
    "periodStatus sub (prp_periodIndex p) \<noteq> Some P_RELEASED" "periodStatus sub (prp_periodIndex p) \<noteq> Some P_DISPUTED"
    "getRole s (ev_pubkey e) \<noteq> None" "prp_amountMsats p = sub_periodAmountMsats sub"
    "s' = (let next = s\<lparr>st_subscription := Some (releasePeriod sub p), st_eventChain := st_eventChain s @ [e]\<rparr>
           in if sub_releasedCount sub + 1 \<ge> sub_totalPeriods sub
              then next\<lparr>st_status := COMPLETED, st_completedAt := Some (prp_releasedAt p)\<rparr> else next)"
  using assms by (auto simp: handlePeriodRelease_def Let_def releasePeriod_def split: option.splits if_splits)

text \<open>The books of a subscription: one status per period, and the counters count the released ones.\<close>

definition releasedPeriods :: "subscription \<Rightarrow> int" where
  "releasedPeriods sub = int (length (filter (\<lambda>x. x = P_RELEASED) (sub_periodStatuses sub)))"

definition subOk :: "subscription \<Rightarrow> bool" where
  "subOk sub \<longleftrightarrow> int (length (sub_periodStatuses sub)) = max 0 (sub_totalPeriods sub)
     \<and> sub_releasedCount sub = releasedPeriods sub
     \<and> sub_totalReleasedMsats sub = sub_releasedCount sub * sub_periodAmountMsats sub"

lemma newSubscription_ok: "subOk (newSubscription p)"
  by (simp add: subOk_def newSubscription_def releasedPeriods_def)

lemma length_filter_update:
  "i < length xs \<Longrightarrow> xs ! i \<noteq> v \<Longrightarrow>
    length (filter (\<lambda>x. x = v) (xs[i := v])) = Suc (length (filter (\<lambda>x. x = v) xs))"
proof (induction xs arbitrary: i)
  case (Cons x xs)
  then show ?case by (cases i) auto
qed simp

lemma releasePeriod_ok:
  assumes "subOk sub" "0 \<le> prp_periodIndex p" "prp_periodIndex p < sub_totalPeriods sub"
    and "periodStatus sub (prp_periodIndex p) \<noteq> Some P_RELEASED" "prp_amountMsats p = sub_periodAmountMsats sub"
  shows "subOk (releasePeriod sub p)"
proof -
  from assms(1-3) have i: "nat (prp_periodIndex p) < length (sub_periodStatuses sub)"
    by (auto simp: subOk_def)
  with assms(2,4) have "sub_periodStatuses sub ! nat (prp_periodIndex p) \<noteq> P_RELEASED"
    by (auto simp: periodStatus_def nat_less_iff split: if_splits)
  from length_filter_update [OF i this] assms show ?thesis
    by (simp add: subOk_def releasePeriod_def releasedPeriods_def distrib_right)
qed

lemma subOk_released_le: "subOk sub \<Longrightarrow> sub_releasedCount sub \<le> max 0 (sub_totalPeriods sub)"
  using length_filter_le [of "\<lambda>x. x = P_RELEASED" "sub_periodStatuses sub"]
  unfolding subOk_def releasedPeriods_def by linarith

lemma handleChat_Inr [handler_invert]:
  "handleChat s e = Inr s' \<longleftrightarrow> getActiveRole s (ev_pubkey e) (ev_timestamp e) \<noteq> None
    \<and> st_status s \<notin> TERMINAL_STATES \<and> s' = s\<lparr>st_chatMessages := st_chatMessages s @ [e]\<rparr>"
  by (auto simp: handleChat_def)

lemma handlePremium_Inr [handler_invert]:
  "handlePremium s e = Inr s' \<Longrightarrow> \<exists>ns. s' = s\<lparr>st_premiumNotes := ns\<rparr>"
  by (auto simp: handlePremium_def split: if_splits intro: exI [of _ "st_premiumNotes s"])

lemma handleSettlement_Inr [handler_invert]:
  "handleSettlement s e p = Inr s' \<Longrightarrow> \<exists>ms. s' = s\<lparr>st_settlements := ms\<rparr>
    \<and> (ms = st_settlements s \<or> (ms = st_settlements s @ [settlementMsg e p] \<and> getRole s (ev_pubkey e) = Some (sp_role p)))"
  by (auto simp: handleSettlement_def split: if_splits intro: exI [of _ "st_settlements s"])

end
