(* ===== verification/Reducer.thy ===== *)
theory Reducer
  imports Handle_Create Handle_Join Handle_Settle
begin

text \<open>
  The reducer of \<open>src/escrow-engine/state-machine.ts\<close>: \<open>applyEvent\<close> with its pre-checks
  (circle outcome law, auxiliary kinds, event-id idempotency, terminal states, the expiry
  clause), \<open>mayCarryPastExpiry\<close> and \<open>isExpired\<close>; the contract every handler meets
  (locale \<open>handler\<close>), reachable states and the invariants of reachability.
\<close>

section \<open>applyEvent\<close>

definition circleLaw :: "env \<Rightarrow> state \<Rightarrow> event \<Rightarrow> string option" where
  "circleLaw E s e = (if st_chamaPolicy s = None then None else case ev_payload e of
     PVote p \<Rightarrow> voteLaw E s e p
   | PResolve p \<Rightarrow> resolveLaw E s e p
   | _ \<Rightarrow> None)"

definition mayCarryPastExpiry :: "state \<Rightarrow> string \<Rightarrow> bool" where
  "mayCarryPastExpiry s pk \<longleftrightarrow> getRole s pk \<noteq> None
     \<or> (lk_arbiterPoolShare (st_lock s) = Some True \<and> arbiterVotePriority s pk \<noteq> None)"

definition activatesDeferredTranche :: "state \<Rightarrow> event \<Rightarrow> bool" where
  "activatesDeferredTranche s e \<longleftrightarrow> li_tranche (st_listing s) \<noteq> None \<and> ev_kind e \<in> {K_LOCK, K_CHILD_KEY}"

text \<open>The event comes after a deadline that binds it.\<close>

definition pastDeadline :: "state \<Rightarrow> event \<Rightarrow> bool" where
  "pastDeadline s e \<longleftrightarrow> \<not> (ev_kind e = K_COMPLETE \<and> st_onchainFundingTerms s \<noteq> None)
     \<and> \<not> activatesDeferredTranche s e \<and> ev_timestamp e > st_expiresAt s \<and> st_status s \<notin> {APPROVED, CLAIMED}"

definition strangerPastExpiry :: "state \<Rightarrow> event \<Rightarrow> bool" where
  "strangerPastExpiry s e \<longleftrightarrow> st_status s \<notin> {EXPIRED, CREATED} \<and> usesDecemberTradeRules (st_createdAt s)
     \<and> \<not> mayCarryPastExpiry s (ev_pubkey e)"

definition dispatch :: "env \<Rightarrow> state \<Rightarrow> event \<Rightarrow> result" where
  "dispatch E s e = (case ev_payload e of
     PJoin p \<Rightarrow> handleJoin E s e p
   | PLock p \<Rightarrow> handleLock E s e p
   | PStalled i p \<Rightarrow> handleSettlementStalled E s e i p
   | PVote p \<Rightarrow> handleVote E s e p
   | PResolve p \<Rightarrow> handleResolve E s e p
   | PClaim p \<Rightarrow> handleClaim s e p
   | PComplete t \<Rightarrow> handleComplete E s e t
   | PCancel t \<Rightarrow> handleCancel s e t
   | PChat _ \<Rightarrow> handleChat s e
   | PSubscribe p \<Rightarrow> handleSubscribe s e p
   | PPeriodRelease p \<Rightarrow> handlePeriodRelease s e p
   | PPlanStart p \<Rightarrow> handlePlanStart s e p
   | PChildKey p \<Rightarrow> handleChildKey s e p
   | PLockStep p \<Rightarrow> handleLockStep s e p
   | _ \<Rightarrow> Inl ''UNKNOWN_EVENT_KIND'')"

definition expire :: "state \<Rightarrow> state" where
  "expire s = s\<lparr>st_status := EXPIRED\<rparr>"

definition applyChained :: "env \<Rightarrow> state \<Rightarrow> event \<Rightarrow> result" where
  "applyChained E s e =
     (if inChain s (ev_id e) then Inr s
      else if st_status s \<in> TRULY_TERMINAL_STATES then Inl ''TERMINAL_STATE''
      else if \<not> pastDeadline s e then dispatch E s e
      else if strangerPastExpiry s e then Inl ''EXPIRY_NOT_IN_TRADE''
      else if st_status s = EXPIRED then dispatch E s e
      else if ev_kind e = K_VOTE \<or> ev_kind e = K_LOCK_STEP then dispatch E (expire s) e
      else Inr (expire s))"

definition applyTo :: "env \<Rightarrow> state \<Rightarrow> event \<Rightarrow> result" where
  "applyTo E s e =
     (if circleLaw E s e \<noteq> None then Inl (lawCode (circleLaw E s e))
      else case ev_payload e of
        PPremium _ \<Rightarrow> handlePremium s e
      | PSettlement p \<Rightarrow> handleSettlement s e p
      | _ \<Rightarrow> applyChained E s e)"

definition applyEvent :: "env \<Rightarrow> state option \<Rightarrow> event \<Rightarrow> result" where
  "applyEvent E st e = (case ev_payload e of
     PCreate p \<Rightarrow> if st \<noteq> None then Inl ''DUPLICATE_CREATE'' else handleCreate (e_sha E) e p
   | _ \<Rightarrow> (case st of None \<Rightarrow> Inl ''NO_STATE'' | Some s \<Rightarrow> applyTo E s e))"

definition isExpired :: "state \<Rightarrow> int \<Rightarrow> bool" where
  "isExpired s now = (if st_status s \<in> TERMINAL_STATES then st_status s = EXPIRED
     else st_status s \<notin> {APPROVED, CLAIMED} \<and> now > st_expiresAt s)"

text \<open>Reachable states: a CREATE bootstraps, every accepted event steps.\<close>

inductive reachable :: "env \<Rightarrow> state \<Rightarrow> bool" for E where
  created: "applyEvent E None e = Inr s \<Longrightarrow> reachable E s"
| stepped: "reachable E s \<Longrightarrow> applyEvent E (Some s) e = Inr s' \<Longrightarrow> reachable E s'"

inductive_cases reachableE: "reachable E s"

section \<open>The shape of a step\<close>

lemma expire_simps [simp]:
  "st_status (expire s) = EXPIRED" "st_id (expire s) = st_id s" "st_eventChain (expire s) = st_eventChain s"
  "st_votes (expire s) = st_votes s" "st_lock (expire s) = st_lock s" "st_fees (expire s) = st_fees s"
  "st_participants (expire s) = st_participants s" "st_createdAt (expire s) = st_createdAt s"
  "st_initiator (expire s) = st_initiator s" "st_amountMsats (expire s) = st_amountMsats s"
  "st_category (expire s) = st_category s" "st_chamaPolicy (expire s) = st_chamaPolicy s"
  "st_resolvedOutcome (expire s) = st_resolvedOutcome s" "st_subscription (expire s) = st_subscription s"
  "st_communityArbiters (expire s) = st_communityArbiters s" "st_claimerRole (expire s) = st_claimerRole s"
  "st_resolvedMajority (expire s) = st_resolvedMajority s" "st_chamaCircle (expire s) = st_chamaCircle s"
  "st_expiresAt (expire s) = st_expiresAt s" "st_settlements (expire s) = st_settlements s"
  by (simp_all add: expire_def)

lemma pastDeadline_status: "pastDeadline s e \<Longrightarrow> st_status s \<notin> {APPROVED, CLAIMED}"
  by (simp add: pastDeadline_def)

text \<open>An accepted event on a state is a repetition, an auxiliary note, an expiry, or a handler's
  step from the state or from its expiry.\<close>

lemma applyTo_cases:
  assumes "applyTo E s e = Inr s'"
  obtains (same) "s' = s"
    | (premium) ns where "s' = s\<lparr>st_premiumNotes := ns\<rparr>"
    | (settlement) ms where "s' = s\<lparr>st_settlements := ms\<rparr>"
    | (expired) "s' = expire s" "pastDeadline s e" "st_status s \<notin> TRULY_TERMINAL_STATES" "st_status s \<noteq> EXPIRED"
    | (handled) "dispatch E s e = Inr s'" "\<not> inChain s (ev_id e)" "st_status s \<notin> TRULY_TERMINAL_STATES"
        "\<not> pastDeadline s e \<or> st_status s = EXPIRED"
    | (late) "dispatch E (expire s) e = Inr s'" "\<not> inChain s (ev_id e)" "pastDeadline s e"
        "st_status s \<notin> TRULY_TERMINAL_STATES" "ev_kind e = K_VOTE \<or> ev_kind e = K_LOCK_STEP"
        "st_status s \<noteq> EXPIRED"
proof (cases "(\<exists>x. ev_payload e = PPremium x) \<or> (\<exists>p. ev_payload e = PSettlement p)")
  case True
  then consider x where "handlePremium s e = Inr s'" | p where "handleSettlement s e p = Inr s'"
    using assms by (auto simp: applyTo_def split: if_splits)
  then show ?thesis
    by cases (auto dest!: handlePremium_Inr handleSettlement_Inr intro: premium settlement)
next
  case False
  with assms have c: "applyChained E s e = Inr s'"
    by (cases "ev_payload e") (simp_all add: applyTo_def split: if_splits)
  show ?thesis
  proof (cases "inChain s (ev_id e) \<or> st_status s \<in> TRULY_TERMINAL_STATES")
    case True
    with c show ?thesis by (intro same) (auto simp: applyChained_def split: if_splits)
  next
    case fresh: False
    show ?thesis
    proof (cases "pastDeadline s e \<and> st_status s \<noteq> EXPIRED")
      case False
      with c fresh have "dispatch E s e = Inr s'" by (auto simp: applyChained_def split: if_splits)
      with fresh False show ?thesis by (intro handled) auto
    next
      case True
      with c fresh show ?thesis
        by (cases "ev_kind e = K_VOTE \<or> ev_kind e = K_LOCK_STEP")
          (auto simp: applyChained_def split: if_splits intro: expired late)
    qed
  qed
qed

lemma applyEvent_None:
  "applyEvent E None e = Inr s \<longleftrightarrow> (\<exists>p. ev_payload e = PCreate p \<and> handleCreate (e_sha E) e p = Inr s)"
  by (auto simp: applyEvent_def split: payload.splits)

lemma applyEvent_Some: "applyEvent E (Some s) e = Inr s' \<Longrightarrow> applyTo E s e = Inr s'"
  by (auto simp: applyEvent_def split: payload.splits)

lemma applyEvent_Some_iff:
  "ev_kind e \<noteq> K_CREATE \<Longrightarrow> applyEvent E (Some s) e = applyTo E s e"
  by (auto simp: applyEvent_def ev_kind_def split: payload.splits)

text \<open>The handler that an event kind runs.\<close>

lemma dispatch_simps:
  "ev_payload e = PJoin p1 \<Longrightarrow> dispatch E s e = handleJoin E s e p1"
  "ev_payload e = PLock p2 \<Longrightarrow> dispatch E s e = handleLock E s e p2"
  "ev_payload e = PStalled i p3 \<Longrightarrow> dispatch E s e = handleSettlementStalled E s e i p3"
  "ev_payload e = PVote p4 \<Longrightarrow> dispatch E s e = handleVote E s e p4"
  "ev_payload e = PResolve p5 \<Longrightarrow> dispatch E s e = handleResolve E s e p5"
  "ev_payload e = PClaim p6 \<Longrightarrow> dispatch E s e = handleClaim s e p6"
  "ev_payload e = PComplete t \<Longrightarrow> dispatch E s e = handleComplete E s e t"
  "ev_payload e = PCancel t \<Longrightarrow> dispatch E s e = handleCancel s e t"
  "ev_payload e = PChat x \<Longrightarrow> dispatch E s e = handleChat s e"
  "ev_payload e = PSubscribe p7 \<Longrightarrow> dispatch E s e = handleSubscribe s e p7"
  "ev_payload e = PPeriodRelease p8 \<Longrightarrow> dispatch E s e = handlePeriodRelease s e p8"
  "ev_payload e = PPlanStart p9 \<Longrightarrow> dispatch E s e = handlePlanStart s e p9"
  "ev_payload e = PChildKey p10 \<Longrightarrow> dispatch E s e = handleChildKey s e p10"
  "ev_payload e = PLockStep p11 \<Longrightarrow> dispatch E s e = handleLockStep s e p11"
  by (simp_all add: dispatch_def)

section \<open>The contract of a handler\<close>

text \<open>
  What the reducer relies on: the identity of the trade is never rewritten, the event chain
  grows by at most the event itself, and the status moves along \<open>moves\<close>.
\<close>

definition staying :: "(status \<times> status) set" where
  "staying = {(x, y). x = y}"

definition statusMoves :: "(status \<times> status) set" where
  "statusMoves = {(CREATED, LOCKED), (CREATED, CANCELLED), (CREATED, EXPIRED), (LOCKED, EXPIRED),
     (LOCKED, APPROVED), (LOCKED, COMPLETED), (EXPIRED, APPROVED), (APPROVED, CLAIMED),
     (APPROVED, COMPLETED), (CLAIMED, COMPLETED)}"

definition lawfulStep :: "(status \<times> status) set \<Rightarrow> state \<Rightarrow> event \<Rightarrow> state \<Rightarrow> bool" where
  "lawfulStep moves s e s' \<longleftrightarrow>
     st_id s' = st_id s \<and> st_createdAt s' = st_createdAt s \<and> st_initiator s' = st_initiator s
     \<and> st_category s' = st_category s \<and> st_chamaPolicy s' = st_chamaPolicy s
     \<and> st_communityArbiters s' = st_communityArbiters s
     \<and> (st_eventChain s' = st_eventChain s \<or> st_eventChain s' = st_eventChain s @ [e])
     \<and> (st_status s, st_status s') \<in> moves"

lemma moves_subset:
  "{(x, x)} \<subseteq> statusMoves \<union> staying" "{(LOCKED, LOCKED), (EXPIRED, EXPIRED)} \<subseteq> statusMoves \<union> staying"
  "{(LOCKED, APPROVED), (EXPIRED, APPROVED)} \<subseteq> statusMoves \<union> staying"
  "{(APPROVED, COMPLETED), (CLAIMED, COMPLETED)} \<union> staying \<subseteq> statusMoves \<union> staying"
  "{(LOCKED, LOCKED), (LOCKED, COMPLETED)} \<subseteq> statusMoves \<union> staying" "staying \<subseteq> statusMoves \<union> staying"
  "{(CREATED, LOCKED)} \<subseteq> statusMoves \<union> staying" "{(APPROVED, CLAIMED)} \<subseteq> statusMoves \<union> staying"
  "{(CREATED, CANCELLED)} \<subseteq> statusMoves \<union> staying"
  by (auto simp: statusMoves_def staying_def)

locale handler =
  fixes handle :: "state \<Rightarrow> event \<Rightarrow> result" and moves :: "(status \<times> status) set"
  assumes contract: "handle s e = Inr s' \<Longrightarrow> lawfulStep moves s e s'"
begin

lemma identity: "handle s e = Inr s' \<Longrightarrow> st_id s' = st_id s \<and> st_createdAt s' = st_createdAt s
    \<and> st_initiator s' = st_initiator s \<and> st_category s' = st_category s
    \<and> st_chamaPolicy s' = st_chamaPolicy s \<and> st_communityArbiters s' = st_communityArbiters s"
  by (drule contract) (simp add: lawfulStep_def)

lemma chain: "handle s e = Inr s' \<Longrightarrow> st_eventChain s' = st_eventChain s \<or> st_eventChain s' = st_eventChain s @ [e]"
  by (drule contract) (simp add: lawfulStep_def)

lemma status: "handle s e = Inr s' \<Longrightarrow> (st_status s, st_status s') \<in> moves"
  by (drule contract) (simp add: lawfulStep_def)

lemma widen: "handle s e = Inr s' \<Longrightarrow> moves \<subseteq> wider \<Longrightarrow> lawfulStep wider s e s'"
  by (drule contract) (auto simp: lawfulStep_def)

lemma chain_prefix: "handle s e = Inr s' \<Longrightarrow> set (st_eventChain s) \<subseteq> set (st_eventChain s')"
  by (drule chain) auto

lemma ids_distinct:
  "handle s e = Inr s' \<Longrightarrow> distinct (map ev_id (st_eventChain s)) \<Longrightarrow> \<not> inChain s (ev_id e)
    \<Longrightarrow> distinct (map ev_id (st_eventChain s'))"
  by (drule chain) (auto simp: inChain_iff)

text \<open>The first LOCK of the chain never changes once there is one.\<close>

lemma firstLock_stable:
  "handle s e = Inr s' \<Longrightarrow> firstLock (st_eventChain s) = Some l \<Longrightarrow> firstLock (st_eventChain s') = Some l"
  by (drule chain) (auto simp: firstLock_def find_append split: option.splits)

end

interpretation joining: handler "\<lambda>s e. handleJoin E s e p" "{(CREATED, CREATED)}" for E p
  by unfold_locales (simp add: lawfulStep_def handleJoin_frame, drule handleJoin_Inr, simp)

interpretation locking: handler "\<lambda>s e. handleLock E s e p" "{(CREATED, LOCKED)}" for E p
  by unfold_locales (frule handleLock_pre(1), simp add: lawfulStep_def handleLock_Inr)

interpretation stepping: handler "\<lambda>s e. handleLockStep s e p" "{(LOCKED, LOCKED), (EXPIRED, EXPIRED)}" for p
  by unfold_locales (frule handleLockStep_force(3), drule handleLockStep_only_lock, auto simp: lawfulStep_def)

interpretation voting: handler "\<lambda>s e. handleVote E s e p" "{(LOCKED, LOCKED), (EXPIRED, EXPIRED)}" for E p
  by unfold_locales (frule handleVote_facts(1), drule handleVote_facts(5), auto simp: lawfulStep_def votedState_frame)

interpretation resolving: handler "\<lambda>s e. handleResolve E s e p" "{(LOCKED, APPROVED), (EXPIRED, APPROVED)}" for E p
  by unfold_locales (erule handleResolve_Inr, auto simp: lawfulStep_def)

interpretation claiming: handler "\<lambda>s e. handleClaim s e p" "{(APPROVED, CLAIMED)}" for p
  by unfold_locales (erule handleClaim_Inr, simp add: lawfulStep_def)

interpretation stalling: handler "\<lambda>s e. handleSettlementStalled E s e i p" "{(APPROVED, APPROVED)}" for E i p
  by unfold_locales (erule handleSettlementStalled_Inr, drule stalledPayoutEligibility_Some(1),
      simp add: lawfulStep_def stalledState_def)

interpretation completing: handler "\<lambda>s e. handleComplete E s e t"
  "{(APPROVED, COMPLETED), (CLAIMED, COMPLETED)} \<union> staying" for E t
  by unfold_locales (drule handleComplete_Inr, auto simp: lawfulStep_def staying_def)

interpretation cancelling: handler "\<lambda>s e. handleCancel s e t" "{(CREATED, CANCELLED)}" for t
  by unfold_locales (simp add: handleCancel_Inr lawfulStep_def)

interpretation subscribing: handler "\<lambda>s e. handleSubscribe s e p" "{(CREATED, CREATED)}" for p
  by unfold_locales (simp add: handleSubscribe_Inr lawfulStep_def)

interpretation releasing: handler "\<lambda>s e. handlePeriodRelease s e p" "{(LOCKED, LOCKED), (LOCKED, COMPLETED)}" for p
  by unfold_locales (erule handlePeriodRelease_Inr, simp add: lawfulStep_def Let_def)

interpretation planning: handler "\<lambda>s e. handlePlanStart s e p" staying for p
  by unfold_locales (drule handlePlanStart_Inr, auto simp: lawfulStep_def staying_def)

interpretation keying: handler "\<lambda>s e. handleChildKey s e p" staying for p
  by unfold_locales (drule handleChildKey_Inr, simp add: lawfulStep_def staying_def)

interpretation chatting: handler "\<lambda>s e. handleChat s e" staying
  by unfold_locales (simp add: handleChat_Inr lawfulStep_def staying_def)

lemmas handler_widen = joining.widen locking.widen stepping.widen voting.widen resolving.widen claiming.widen
  stalling.widen completing.widen cancelling.widen subscribing.widen releasing.widen planning.widen
  keying.widen chatting.widen

interpretation switching: handler "dispatch E" "statusMoves \<union> staying" for E
proof unfold_locales
  fix s e s' assume "dispatch E s e = Inr s'"
  then show "lawfulStep (statusMoves \<union> staying) s e s'"
    by (cases "ev_payload e", simp_all add: dispatch_def) (erule handler_widen, rule moves_subset)+
qed

end
