(* ===== verification/Reducer_Invariants.thy ===== *)
theory Reducer_Invariants
  imports Reducer
begin

text \<open>
  Invariants of the reducer, each a predicate on states proved inductive once and for all by the
  locale \<open>reducer_invariant\<close>: a predicate that a CREATE establishes, that every handler keeps on
  fresh events of live trades, and that expiry and the auxiliary notes do not touch, holds in
  every reachable state. Books of the event chain (\<open>chainOk\<close>), of the single LOCK
  (\<open>lockedOk\<close>), of the ballots and the resolution (\<open>ballotOk\<close>), of the arbiter fee
  (\<open>feeOk\<close>) and of subscriptions (\<open>subscriptionOk\<close>).
\<close>

section \<open>Inductive predicates of the reducer\<close>

locale reducer_invariant =
  fixes E :: env and inv :: "state \<Rightarrow> bool"
  assumes created: "ev_payload e = PCreate p \<Longrightarrow> handleCreate (e_sha E) e p = Inr s \<Longrightarrow> inv s"
    and handling: "inv s \<Longrightarrow> dispatch E s e = Inr s' \<Longrightarrow> \<not> inChain s (ev_id e)
      \<Longrightarrow> st_status s \<notin> TRULY_TERMINAL_STATES \<Longrightarrow> inv s'"
    and expiring: "inv s \<Longrightarrow> st_status s \<in> {CREATED, LOCKED} \<Longrightarrow> inv (expire s)"
    and premiums: "inv s \<Longrightarrow> inv (s\<lparr>st_premiumNotes := ns\<rparr>)"
    and transport: "inv s \<Longrightarrow> inv (s\<lparr>st_settlements := ms\<rparr>)"
    and noting: "inv s \<Longrightarrow> inv (s\<lparr>st_replayNotes := rs\<rparr>)"
    and rejecting: "inv s \<Longrightarrow> inv (s\<lparr>st_rejectedLocks := ls\<rparr>)"
begin

lemma live_status: "st_status s \<notin> TRULY_TERMINAL_STATES \<Longrightarrow> st_status s \<noteq> EXPIRED \<Longrightarrow> pastDeadline s e
    \<Longrightarrow> st_status s \<in> {CREATED, LOCKED}"
  by (cases "st_status s") (auto simp: TRULY_TERMINAL_STATES_def pastDeadline_def)

lemma applied: "inv s \<Longrightarrow> applyEvent E (Some s) e = Inr s' \<Longrightarrow> inv s'"
proof (drule applyEvent_Some, erule applyTo_cases)
  assume "inv s" "s' = expire s" "pastDeadline s e" "st_status s \<notin> TRULY_TERMINAL_STATES" "st_status s \<noteq> EXPIRED"
  then show ?thesis using expiring live_status by blast
next
  assume i: "inv s" and d: "dispatch E (expire s) e = Inr s'" and c: "\<not> inChain s (ev_id e)"
    and "pastDeadline s e" "st_status s \<notin> TRULY_TERMINAL_STATES" "st_status s \<noteq> EXPIRED"
  then have x: "inv (expire s)" using expiring live_status by blast
  from c have "\<not> inChain (expire s) (ev_id e)" by (simp add: inChain_def)
  with handling [OF x d] show ?thesis by (simp add: TRULY_TERMINAL_STATES_def)
qed (use handling premiums transport in auto)

lemma started: "applyEvent E None e = Inr s \<Longrightarrow> inv s"
  by (auto simp: applyEvent_None intro: created)

lemma always: "reachable E s \<Longrightarrow> inv s"
  by (induction rule: reachable.induct) (auto intro: started applied)

end

section \<open>The event chain\<close>

definition votersOf :: "event list \<Rightarrow> string list" where
  "votersOf es = map ev_pubkey (filter (\<lambda>e. ev_kind e = K_VOTE) es)"

definition chainOk :: "state \<Rightarrow> bool" where
  "chainOk s \<longleftrightarrow> distinct (map ev_id (st_eventChain s)) \<and> distinct (votersOf (st_eventChain s))"

lemma votersOf_append: "votersOf (es @ [e]) = votersOf es @ (if ev_kind e = K_VOTE then [ev_pubkey e] else [])"
  by (simp add: votersOf_def)

lemma hasVoted_votersOf: "hasVoted s pk \<longleftrightarrow> pk \<in> set (votersOf (st_eventChain s))"
  by (auto simp: hasVoted_iff votersOf_def)

text \<open>An accepted VOTE is the first of its signer.\<close>

lemma dispatch_vote_fresh:
  "dispatch E s e = Inr s' \<Longrightarrow> ev_kind e = K_VOTE \<Longrightarrow> \<not> hasVoted s (ev_pubkey e)"
  by (auto simp: ev_kind_cases dispatch_simps dest: handleVote_facts(2))

lemma chainOk_dispatch:
  assumes "chainOk s" "dispatch E s e = Inr s'" "\<not> inChain s (ev_id e)"
  shows "chainOk s'"
proof -
  from assms have "distinct (map ev_id (st_eventChain s'))"
    using switching.ids_distinct by (auto simp: chainOk_def)
  moreover from assms(1,2) switching.chain [OF assms(2)] dispatch_vote_fresh [OF assms(2)]
  have "distinct (votersOf (st_eventChain s'))"
    by (auto simp: chainOk_def votersOf_append hasVoted_votersOf)
  ultimately show ?thesis by (simp add: chainOk_def)
qed

interpretation chains: reducer_invariant E chainOk for E
  by unfold_locales
    (simp_all add: handleCreate_Inr chainOk_dispatch, simp_all add: chainOk_def votersOf_def)

section \<open>The LOCK\<close>

definition lockCount :: "state \<Rightarrow> nat" where
  "lockCount s = length (filter (\<lambda>e. ev_kind e = K_LOCK) (st_eventChain s))"

text \<open>The seats a LOCK fixes: buyer and arbiter, different from each other and from the seller.\<close>

definition seatsFixed :: "state \<Rightarrow> bool" where
  "seatsFixed s \<longleftrightarrow> (\<exists>b a. st_participants s BUYER = Some b \<and> st_participants s ARBITER = Some a
     \<and> b \<noteq> [] \<and> a \<noteq> [] \<and> a \<noteq> b
     \<and> (\<forall>k. st_participants s SELLER = Some k \<longrightarrow> k \<noteq> [] \<longrightarrow> k \<noteq> b \<and> k \<noteq> a))"

definition lockedOk :: "state \<Rightarrow> bool" where
  "lockedOk s \<longleftrightarrow> lockCount s \<le> 1 \<and> (0 < lockCount s \<longrightarrow> seatsFixed s)
     \<and> (st_status s \<in> {CREATED, CANCELLED} \<longrightarrow> lockCount s = 0) \<and> (st_status s = LOCKED \<longrightarrow> 0 < lockCount s)"

lemma hasLock_count: "hasLock s \<longleftrightarrow> 0 < lockCount s"
  by (auto simp: hasLock_iff lockCount_def filter_empty_conv)

lemma handleLock_fixes_seats:
  assumes "handleLock E s e p = Inr s'"
  shows "seatsFixed s'"
  unfolding seatsFixed_def
proof (intro exI conjI allI impI)
  have s': "s' = lockedState s e p" using assms by (simp add: handleLock_Inr)
  show "st_participants s' BUYER = Some (lp_buyerPubkey p)" "st_participants s' ARBITER = Some (lp_arbiterPubkey p)"
    by (simp_all add: s')
  show "lp_buyerPubkey p \<noteq> []" "lp_arbiterPubkey p \<noteq> []" "lp_arbiterPubkey p \<noteq> lp_buyerPubkey p"
    using handleLock_seats(3-5) [OF assms] by auto
  fix k assume "st_participants s' SELLER = Some k" "k \<noteq> []"
  then have "k \<noteq> lp_buyerPubkey p \<and> k \<noteq> lp_arbiterPubkey p"
    using handleLock_seats(6) [OF assms, of k] by (simp add: s')
  then show "k \<noteq> lp_buyerPubkey p" "k \<noteq> lp_arbiterPubkey p" by auto
qed

text \<open>What every event but a JOIN and a LOCK leaves alone: both principals, and, once locked, the
  arbiter and the pooled-share flag.\<close>

definition sameBench :: "state \<Rightarrow> state \<Rightarrow> bool" where
  "sameBench s s' \<longleftrightarrow> st_participants s' BUYER = st_participants s BUYER
     \<and> st_participants s' SELLER = st_participants s SELLER \<and> st_id s' = st_id s
     \<and> st_communityArbiters s' = st_communityArbiters s \<and> lockCount s' = lockCount s
     \<and> lk_arbiterPoolShare (st_lock s') = lk_arbiterPoolShare (st_lock s)
     \<and> (seatsFixed s \<longrightarrow> st_participants s' ARBITER = st_participants s ARBITER)"

lemma lockCount_append: "st_eventChain s' = st_eventChain s @ [e] \<Longrightarrow> ev_kind e \<noteq> K_LOCK \<Longrightarrow> lockCount s' = lockCount s"
  by (simp add: lockCount_def)

lemma lockCount_same: "st_eventChain s' = st_eventChain s \<Longrightarrow> lockCount s' = lockCount s"
  by (simp add: lockCount_def)

lemma dispatch_lockCount: "dispatch E s e = Inr s' \<Longrightarrow> ev_kind e \<noteq> K_LOCK \<Longrightarrow> lockCount s' = lockCount s"
  by (drule switching.chain) (auto intro: lockCount_append lockCount_same)

lemma plan_keeps_arbiter:
  "handlePlanStart s e p = Inr s' \<Longrightarrow> seatsFixed s \<Longrightarrow> st_participants s' = st_participants s"
  by (drule handlePlanStart_Inr) (auto simp: seatsFixed_def)

lemma plan_frame:
  "handlePlanStart s e p = Inr s' \<Longrightarrow> st_participants s' BUYER = st_participants s BUYER
    \<and> st_participants s' SELLER = st_participants s SELLER \<and> st_lock s' = st_lock s \<and> st_votes s' = st_votes s
    \<and> st_resolvedOutcome s' = st_resolvedOutcome s \<and> st_resolvedMajority s' = st_resolvedMajority s
    \<and> st_fees s' = st_fees s \<and> st_amountMsats s' = st_amountMsats s \<and> st_subscription s' = st_subscription s
    \<and> st_claimerRole s' = st_claimerRole s"
  by (drule handlePlanStart_Inr) auto

text \<open>The participants and the pooled-share flag of the other handlers.\<close>

lemma step_poolShare: "handleLockStep s e p = Inr s' \<Longrightarrow>
    lk_arbiterPoolShare (st_lock s') = lk_arbiterPoolShare (st_lock s)"
  by (auto simp: handleLockStep_def acceptStep_def releaseStep_def releasedLock_def guarded_Inr Let_def
      split: lock_step.splits option.splits)

lemma dispatch_rest:
  assumes "dispatch E s e = Inr s'" "ev_kind e \<notin> {K_JOIN, K_LOCK, K_PLAN_START}"
  shows "st_participants s' = st_participants s"
    "lk_arbiterPoolShare (st_lock s') = lk_arbiterPoolShare (st_lock s)"
proof -
  have "st_participants s' = st_participants s
      \<and> lk_arbiterPoolShare (st_lock s') = lk_arbiterPoolShare (st_lock s)"
  proof (cases "ev_payload e")
    case (PLockStep p)
    with assms(1) have st: "handleLockStep s e p = Inr s'" by (simp add: dispatch_simps)
    from step_poolShare [OF st] handleLockStep_only_lock [OF st] show ?thesis by auto
  next
    case (PVote p)
    with assms(1) show ?thesis by (auto simp: dispatch_simps votedState_frame dest!: handleVote_facts(5))
  next
    case (PComplete t)
    with assms(1) show ?thesis by (auto simp: dispatch_simps dest!: handleComplete_Inr)
  qed (use assms in \<open>auto simp: dispatch_def ev_kind_def handleCancel_Inr handleSubscribe_Inr handleChat_Inr
      stalledState_def Let_def elim!: handleResolve_Inr handleClaim_Inr handleSettlementStalled_Inr
      handlePeriodRelease_Inr dest!: handleChildKey_Inr\<close>)
  then show "st_participants s' = st_participants s"
    "lk_arbiterPoolShare (st_lock s') = lk_arbiterPoolShare (st_lock s)" by auto
qed

lemma dispatch_bench:
  assumes "dispatch E s e = Inr s'" "ev_kind e \<notin> {K_JOIN, K_LOCK}"
  shows "sameBench s s'"
proof (cases "ev_kind e = K_PLAN_START")
  case True
  then obtain p where "handlePlanStart s e p = Inr s'"
    using assms(1) by (cases "ev_payload e") (auto simp: ev_kind_def dispatch_simps)
  with plan_frame plan_keeps_arbiter dispatch_lockCount [OF assms(1)] switching.identity [OF assms(1)] assms(2)
  show ?thesis by (auto simp: sameBench_def)
next
  case False
  with assms dispatch_rest [OF assms(1)] dispatch_lockCount [OF assms(1)] switching.identity [OF assms(1)]
  show ?thesis by (auto simp: sameBench_def)
qed

lemma sameBench_seats: "sameBench s s' \<Longrightarrow> seatsFixed s \<Longrightarrow> seatsFixed s'"
  by (simp add: sameBench_def seatsFixed_def)

lemma dispatch_status_source:
  assumes "dispatch E s e = Inr s'"
  shows "st_status s' = LOCKED \<Longrightarrow> st_status s = LOCKED \<or> ev_kind e = K_LOCK"
    "st_status s' = CREATED \<Longrightarrow> st_status s = CREATED"
    "st_status s' = CANCELLED \<Longrightarrow> st_status s \<in> {CREATED, CANCELLED}"
    "st_status s' = EXPIRED \<Longrightarrow> st_status s = EXPIRED"
proof -
  from switching.status [OF assms] show "st_status s' = CREATED \<Longrightarrow> st_status s = CREATED"
    "st_status s' = CANCELLED \<Longrightarrow> st_status s \<in> {CREATED, CANCELLED}"
    by (auto simp: statusMoves_def staying_def)
  from assms show "st_status s' = LOCKED \<Longrightarrow> st_status s = LOCKED \<or> ev_kind e = K_LOCK"
    "st_status s' = EXPIRED \<Longrightarrow> st_status s = EXPIRED"
    by (cases "ev_payload e", auto simp: dispatch_def ev_kind_def staying_def
      dest: joining.status locking.status stepping.status voting.status resolving.status claiming.status
        stalling.status completing.status cancelling.status subscribing.status releasing.status
        planning.status keying.status chatting.status)+
qed

lemma lockedOk_dispatch:
  assumes i: "lockedOk s" and d: "dispatch E s e = Inr s'" and live: "st_status s \<notin> TRULY_TERMINAL_STATES"
  shows "lockedOk s'"
proof (cases "ev_kind e = K_LOCK")
  case True
  then obtain p where p: "handleLock E s e p = Inr s'"
    using d by (auto simp: ev_kind_cases dispatch_simps)
  from handleLock_pre(1) [OF p] i have "lockCount s = 0" by (simp add: lockedOk_def)
  then have "lockCount s' = 1" using p True by (simp add: handleLock_Inr lockCount_def)
  with handleLock_fixes_seats [OF p] locking.status [OF p] show ?thesis by (simp add: lockedOk_def)
next
  case False
  note count = dispatch_lockCount [OF d False]
  have "seatsFixed s'" if "0 < lockCount s"
  proof -
    from that i have s: "seatsFixed s" "st_status s \<noteq> CREATED" by (auto simp: lockedOk_def)
    then have "ev_kind e \<noteq> K_JOIN" using d by (auto simp: ev_kind_cases dispatch_simps dest: handleJoin_Inr)
    with False s(1) dispatch_bench [OF d] show ?thesis by (auto intro: sameBench_seats)
  qed
  with i count live False dispatch_status_source [OF d] show ?thesis
    by (auto simp: lockedOk_def TRULY_TERMINAL_STATES_def)
qed

interpretation locks: reducer_invariant E lockedOk for E
  by unfold_locales
    (simp_all add: handleCreate_Inr lockedOk_dispatch,
     auto simp: lockedOk_def lockCount_def ev_kind_def seatsFixed_def)

section \<open>Ballots, the resolution and the claim\<close>

text \<open>A standing vote is in the chain, signed by someone entitled to the slot (for the arbiter's
  slot of a locked trade: its arbiter or a backup of the priority order).\<close>

definition backedVote :: "state \<Rightarrow> role \<Rightarrow> outcome \<Rightarrow> bool" where
  "backedVote s r oc \<longleftrightarrow> (\<exists>e\<in>set (st_eventChain s). \<exists>p. ev_payload e = PVote p \<and> vp_role p = r \<and> vp_outcome p = oc
     \<and> (r \<noteq> ARBITER \<or> 0 < lockCount s \<longrightarrow> mayVoteAs s (ev_pubkey e) r))"

definition resolvedBy :: "state \<Rightarrow> outcome \<Rightarrow> bool" where
  "resolvedBy s oc \<longleftrightarrow> (\<exists>a b. a \<noteq> b \<and> map_option set (st_resolvedMajority s) = Some {a, b}
     \<and> voteOf s a = Some oc \<and> voteOf s b = Some oc)"

definition ballotOk :: "state \<Rightarrow> bool" where
  "ballotOk s \<longleftrightarrow> distinct (map fst (st_votes s))
     \<and> (\<forall>r oc. voteOf s r = Some oc \<longrightarrow> backedVote s r oc)
     \<and> (st_status s = CREATED \<longrightarrow> st_votes s = [])
     \<and> (st_status s \<in> {APPROVED, CLAIMED} \<longrightarrow> st_resolvedOutcome s \<noteq> None)
     \<and> (\<forall>oc. st_resolvedOutcome s = Some oc \<longrightarrow> st_status s \<in> {APPROVED, CLAIMED, COMPLETED} \<and> resolvedBy s oc)
     \<and> (st_status s = CLAIMED \<longrightarrow> st_claimerRole s \<noteq> None \<and> st_claimerRole s = map_option snd (getWinner s))"

lemma dispatch_votes:
  assumes "dispatch E s e = Inr s'"
  shows "ev_kind e \<notin> {K_VOTE, K_RESOLVE} \<Longrightarrow> st_votes s' = st_votes s \<and> st_resolvedOutcome s' = st_resolvedOutcome s
      \<and> st_resolvedMajority s' = st_resolvedMajority s"
    "ev_kind e \<noteq> K_CLAIM \<Longrightarrow> st_claimerRole s' = st_claimerRole s"
proof -
  have "(ev_kind e \<notin> {K_VOTE, K_RESOLVE} \<longrightarrow> st_votes s' = st_votes s \<and> st_resolvedOutcome s' = st_resolvedOutcome s
      \<and> st_resolvedMajority s' = st_resolvedMajority s) \<and> (ev_kind e \<noteq> K_CLAIM \<longrightarrow> st_claimerRole s' = st_claimerRole s)"
  proof (cases "ev_payload e")
    case (PVote p)
    with assms show ?thesis by (auto simp: dispatch_simps ev_kind_def votedState_frame dest!: handleVote_facts(5))
  next
    case (PComplete t)
    with assms show ?thesis by (auto simp: dispatch_simps dest!: handleComplete_Inr)
  qed (use assms in \<open>auto simp: dispatch_def ev_kind_def handleCancel_Inr handleSubscribe_Inr handleChat_Inr
      stalledState_def Let_def handleLock_Inr handleJoin_frame elim!: handleResolve_Inr handleClaim_Inr
      handleSettlementStalled_Inr handlePeriodRelease_Inr
      dest!: handleChildKey_Inr plan_frame handleLockStep_only_lock\<close>)
  then show "ev_kind e \<notin> {K_VOTE, K_RESOLVE} \<Longrightarrow> st_votes s' = st_votes s \<and> st_resolvedOutcome s' = st_resolvedOutcome s
      \<and> st_resolvedMajority s' = st_resolvedMajority s"
    "ev_kind e \<noteq> K_CLAIM \<Longrightarrow> st_claimerRole s' = st_claimerRole s" by auto
qed

lemma mayVoteAs_bench:
  "sameBench s s' \<Longrightarrow> r \<noteq> ARBITER \<or> seatsFixed s \<Longrightarrow> mayVoteAs s pk r \<Longrightarrow> mayVoteAs s' pk r"
  by (cases r) (auto simp: sameBench_def mayVoteAs_def arbiterVotePriority_def arbiterPriorityOrder_def)

lemma backedVote_bench:
  assumes "backedVote s r oc" "sameBench s s'" "set (st_eventChain s) \<subseteq> set (st_eventChain s')" "lockedOk s"
  shows "backedVote s' r oc"
proof -
  from assms(1) obtain e p where e: "e \<in> set (st_eventChain s)" "ev_payload e = PVote p" "vp_role p = r"
    "vp_outcome p = oc" "r \<noteq> ARBITER \<or> 0 < lockCount s \<longrightarrow> mayVoteAs s (ev_pubkey e) r"
    by (auto simp: backedVote_def)
  with assms(2,4) mayVoteAs_bench [OF assms(2)]
  have "r \<noteq> ARBITER \<or> 0 < lockCount s' \<longrightarrow> mayVoteAs s' (ev_pubkey e) r"
    by (auto simp: sameBench_def lockedOk_def)
  with e assms(3) show ?thesis by (auto simp: backedVote_def)
qed

lemma backed_carry:
  assumes "ballotOk s" "lockedOk s" "dispatch E s e = Inr s'" "sameBench s s'" "st_votes s' = st_votes s"
  shows "\<forall>r oc. voteOf s' r = Some oc \<longrightarrow> backedVote s' r oc"
proof (intro allI impI)
  fix r oc assume "voteOf s' r = Some oc"
  with assms(1,5) have "backedVote s r oc" by (simp add: ballotOk_def voteOf_def)
  then show "backedVote s' r oc"
    by (rule backedVote_bench [OF _ assms(4) switching.chain_prefix [OF assms(3)] assms(2)])
qed

lemma getWinner_bench:
  assumes "dispatch E s e = Inr s'" "sameBench s s'" "st_resolvedOutcome s' = st_resolvedOutcome s"
  shows "getWinner s' = getWinner s"
proof -
  have "payoutRecipientFor s' oc = payoutRecipientFor s oc" for oc
    using assms(2) switching.identity [OF assms(1)] winnerRole_principal [of s oc]
    by (cases "winnerRoleFor s oc")
      (auto simp: payoutRecipientFor_def winnerRoleFor_def paysSeller_def sameBench_def)
  then show ?thesis using assms(3) by (cases "st_resolvedOutcome s") (simp_all add: getWinner_def)
qed

text \<open>The vote an accepted VOTE leaves standing in a slot is backed.\<close>

lemma votedState_backed:
  assumes "handleVote E s e p = Inr s'" "ev_payload e = PVote p" "ballotOk s" "lockedOk s"
    and "voteOf s' r = Some oc"
  shows "backedVote s' r oc"
proof -
  note v = handleVote_facts [OF assms(1)]
  have bench: "sameBench s s'" using dispatch_bench [of E s e s'] assms(1,2) by (simp add: dispatch_simps ev_kind_def)
  have chain: "st_eventChain s' = st_eventChain s @ [e]" using v(5) by (simp add: votedState_frame)
  have old: "voteOf s r = Some oc \<Longrightarrow> ?thesis"
    using backedVote_bench [OF _ bench _ assms(4)] chain assms(3) by (auto simp: ballotOk_def)
  show ?thesis
  proof (cases "vp_role p = ARBITER \<and> lk_arbiterPoolShare (st_lock s) = Some True")
    case False
    with v(5) assms(5) have "voteOf s r = Some oc \<or> (r = vp_role p \<and> oc = vp_outcome p)"
      by (auto simp: votedState_voteOf split: if_splits)
    moreover have "backedVote s' (vp_role p) (vp_outcome p)"
      unfolding backedVote_def
    proof (intro bexI exI conjI impI)
      show "ev_payload e = PVote p" "vp_role p = vp_role p" "vp_outcome p = vp_outcome p" by (simp_all add: assms(2))
      show "e \<in> set (st_eventChain s')" by (simp add: chain)
      assume "vp_role p \<noteq> ARBITER \<or> 0 < lockCount s'"
      with bench assms(4) v(6) show "mayVoteAs s' (ev_pubkey e) (vp_role p)"
        by (intro mayVoteAs_bench [OF bench]) (auto simp: sameBench_def lockedOk_def)
    qed
    ultimately show ?thesis using old by auto
  next
    case True
    let ?next = "s\<lparr>st_settlements := st_settlements s @ (case voteSettlement e p of None \<Rightarrow> [] | Some m \<Rightarrow> [m]),
                   st_eventChain := st_eventChain s @ [e]\<rparr>"
    show ?thesis
    proof (cases "bestSlot ?next (st_eventChain s @ [e]) None")
      case None
      with True v(5) assms(5) old show ?thesis by (auto simp: votedState_def Let_def voteOf_def)
    next
      case (Some b)
      with True v(5) assms(5) have "voteOf s r = Some oc \<or> (r = ARBITER \<and> oc = sl_outcome b)"
        by (auto simp: votedState_def Let_def voteOf_def voteOf_update split: if_splits)
      moreover from bestSlot_char [OF Some] obtain x where x: "x \<in> set (st_eventChain s')" "slotOf ?next x = Some b"
        by (auto simp: chain)
      then obtain q where q: "ev_payload x = PVote q" "vp_role q = ARBITER" "sl_outcome b = vp_outcome q"
        "arbiterVotePriority ?next (ev_pubkey x) = Some (sl_priority b)"
        by (auto simp: slotOf_Some)
      have "arbiterVotePriority s' (ev_pubkey x) = arbiterVotePriority ?next (ev_pubkey x)"
        using v(5) by (simp add: votedState_frame arbiterVotePriority_def arbiterPriorityOrder_def)
      with q(4) True v(5) have "mayVoteAs s' (ev_pubkey x) ARBITER"
        by (simp add: mayVoteAs_def votedState_frame)
      with x(1) q(1-3) have "backedVote s' ARBITER (sl_outcome b)" unfolding backedVote_def by (metis (no_types))
      ultimately show ?thesis using old by auto
    qed
  qed
qed

lemma ballotOk_dispatch:
  assumes i: "ballotOk s" "lockedOk s" and d: "dispatch E s e = Inr s'"
    and live: "st_status s \<notin> TRULY_TERMINAL_STATES"
  shows "ballotOk s'"
proof -
  consider (join) "ev_kind e \<in> {K_JOIN, K_LOCK}" | (vote) p where "ev_payload e = PVote p"
    | (resolve) p where "ev_payload e = PResolve p" | (claim) p where "ev_payload e = PClaim p"
    | (other) "ev_kind e \<notin> {K_JOIN, K_LOCK, K_VOTE, K_RESOLVE, K_CLAIM}"
    by (cases "ev_payload e") (auto simp: ev_kind_def)
  then show ?thesis
  proof cases
    case join
    then have "st_status s = CREATED" "st_status s' \<in> {CREATED, LOCKED}"
      using d by (auto simp: ev_kind_cases dispatch_simps dest: joining.status locking.status)
    moreover have "st_votes s' = st_votes s \<and> st_resolvedOutcome s' = st_resolvedOutcome s"
      using join dispatch_votes(1) [OF d] by auto
    ultimately show ?thesis using i(1) by (auto simp: ballotOk_def voteOf_def)
  next
    case vote
    with d have h: "handleVote E s e p = Inr s'" by (simp add: dispatch_simps)
    note v = handleVote_facts [OF h]
    have "\<forall>r oc. voteOf s' r = Some oc \<longrightarrow> backedVote s' r oc" using votedState_backed [OF h vote i] by blast
    moreover have "distinct (map fst (st_votes s'))"
      using i(1) v(5) votedState_votes_distinct by (auto simp: ballotOk_def)
    ultimately show ?thesis using i(1) v(1,5) by (auto simp: ballotOk_def votedState_frame)
  next
    case resolve
    with d have h: "handleResolve E s e p = Inr s'" by (simp add: dispatch_simps)
    have b: "sameBench s s'" using dispatch_bench [OF d] resolve by (simp add: ev_kind_def)
    from h i(1) show ?thesis
    proof (elim handleResolve_Inr)
      fix maj arb
      assume t: "checkVoteThreshold (st_votes s) = Some (rp_outcome p, maj, arb)" "set (rp_majority p) = set maj"
        and s': "s' = s\<lparr>st_status := APPROVED, st_resolvedOutcome := Some (rp_outcome p),
            st_resolvedMajority := Some (rp_majority p), st_resolvedAt := Some (rp_resolvedAt p),
            st_eventChain := st_eventChain s @ [e]\<rparr>"
      from i(1) have "distinct (map fst (st_votes s))" by (simp add: ballotOk_def)
      from checkVoteThreshold_Some [OF t(1) this] obtain a b where ab: "maj = [a, b]" "a \<noteq> b"
        "map_of (st_votes s) a = Some (rp_outcome p)" "map_of (st_votes s) b = Some (rp_outcome p)" by blast
      have "resolvedBy s' (rp_outcome p)"
        unfolding resolvedBy_def by (intro exI [of _ a] exI [of _ b]) (use ab t(2) in \<open>simp add: voteOf_def s'\<close>)
      moreover have "\<forall>r oc. voteOf s' r = Some oc \<longrightarrow> backedVote s' r oc"
        by (rule backed_carry [OF i d b]) (simp add: s')
      ultimately show ?thesis using i(1) by (simp add: ballotOk_def s')
    qed
  next
    case claim
    with d have h: "handleClaim s e p = Inr s'" by (simp add: dispatch_simps)
    have b: "sameBench s s'" using dispatch_bench [OF d] claim by (simp add: ev_kind_def)
    have votes: "st_votes s' = st_votes s" "st_resolvedOutcome s' = st_resolvedOutcome s"
      "st_resolvedMajority s' = st_resolvedMajority s"
      using dispatch_votes(1) [OF d] claim by (simp_all add: ev_kind_def)
    note backed_carry [OF i d b votes(1)]
    moreover from h have "st_status s = APPROVED" "st_status s' = CLAIMED" "st_claimerRole s' = map_option snd (getWinner s)"
      "getWinner s \<noteq> None"
      by (auto elim!: handleClaim_Inr)
    ultimately show ?thesis using i(1) votes getWinner_bench [OF d b votes(2)]
      by (auto simp: ballotOk_def resolvedBy_def voteOf_def)
  next
    case other
    then have b: "sameBench s s'" using dispatch_bench [OF d] by auto
    have votes: "st_votes s' = st_votes s" "st_resolvedOutcome s' = st_resolvedOutcome s"
      "st_resolvedMajority s' = st_resolvedMajority s" "st_claimerRole s' = st_claimerRole s"
      using dispatch_votes [OF d] other by auto
    note backed_carry [OF i d b votes(1)]
    moreover have "(st_status s, st_status s') \<in> {(CREATED, CANCELLED), (LOCKED, COMPLETED), (APPROVED, COMPLETED),
        (CLAIMED, COMPLETED)} \<union> staying"
      using d other by (cases "ev_payload e", auto simp: dispatch_def ev_kind_def staying_def
        dest: stepping.status stalling.status completing.status cancelling.status subscribing.status
          releasing.status planning.status keying.status chatting.status)
    ultimately show ?thesis using i(1) votes getWinner_bench [OF d b votes(2)]
      by (auto simp: ballotOk_def resolvedBy_def voteOf_def staying_def)
  qed
qed

text \<open>Only these fields matter, so expiry and notes leave the ballots in order.\<close>

lemma backedVote_cong:
  assumes "st_eventChain t = st_eventChain s" "st_participants t = st_participants s" "st_id t = st_id s"
    and "st_communityArbiters t = st_communityArbiters s" "st_lock t = st_lock s"
  shows "backedVote t r oc = backedVote s r oc"
proof -
  have "lockCount t = lockCount s" "mayVoteAs t pk q = mayVoteAs s pk q" for pk q
    using assms by (simp_all add: lockCount_def mayVoteAs_def arbiterVotePriority_def arbiterPriorityOrder_def)
  then show ?thesis using assms(1) by (simp add: backedVote_def)
qed

definition sameBooks :: "state \<Rightarrow> state \<Rightarrow> bool" where
  "sameBooks s t \<longleftrightarrow> st_eventChain t = st_eventChain s \<and> st_participants t = st_participants s \<and> st_id t = st_id s
    \<and> st_communityArbiters t = st_communityArbiters s \<and> st_lock t = st_lock s \<and> st_votes t = st_votes s
    \<and> st_resolvedOutcome t = st_resolvedOutcome s \<and> st_resolvedMajority t = st_resolvedMajority s
    \<and> st_claimerRole t = st_claimerRole s \<and> st_category t = st_category s \<and> st_chamaPolicy t = st_chamaPolicy s"

lemma ballotOk_sameBooks:
  assumes b: "sameBooks s t" and s: "st_status t = st_status s \<or> (st_status t = EXPIRED \<and> st_status s \<in> {CREATED, LOCKED})"
    and i: "ballotOk s"
  shows "ballotOk t"
proof -
  have "payoutRecipientFor t = payoutRecipientFor s"
    using b by (intro ext payoutRecipient_cong) (simp_all add: sameBooks_def)
  then have w: "getWinner t = getWinner s" using b by (simp add: sameBooks_def getWinner_def)
  have fields: "st_votes t = st_votes s" "st_resolvedOutcome t = st_resolvedOutcome s"
    "st_claimerRole t = st_claimerRole s" using b by (simp_all add: sameBooks_def)
  have backed: "backedVote t r oc = backedVote s r oc" for r oc
    using b by (intro backedVote_cong) (simp_all add: sameBooks_def)
  have derived: "voteOf t r = voteOf s r" "resolvedBy t oc = resolvedBy s oc" for r oc
    using b by (simp_all add: sameBooks_def voteOf_def resolvedBy_def)
  from s show ?thesis
  proof
    assume "st_status t = st_status s"
    then have "ballotOk t = ballotOk s" by (simp only: ballotOk_def w fields derived backed)
    with i show ?thesis by simp
  next
    assume e: "st_status t = EXPIRED \<and> st_status s \<in> {CREATED, LOCKED}"
    with i have "st_resolvedOutcome s = None" by (auto simp: ballotOk_def)
    with i e show ?thesis by (simp add: ballotOk_def w fields derived backed)
  qed
qed

interpretation ballots: reducer_invariant E "\<lambda>s. lockedOk s \<and> ballotOk s" for E
proof unfold_locales
  fix s e s' assume "lockedOk s \<and> ballotOk s" "dispatch E s e = Inr s'" "st_status s \<notin> TRULY_TERMINAL_STATES"
  then show "lockedOk s' \<and> ballotOk s'" using ballotOk_dispatch lockedOk_dispatch by blast
next
  fix e p s assume "ev_payload e = PCreate p" "handleCreate (e_sha E) e p = Inr s"
  then show "lockedOk s \<and> ballotOk s" using locks.created
    by (auto simp: handleCreate_Inr ballotOk_def voteOf_def)
next
  fix s assume "lockedOk s \<and> ballotOk s" "st_status s \<in> {CREATED, LOCKED}"
  then show "lockedOk (expire s) \<and> ballotOk (expire s)"
    using locks.expiring [of s] ballotOk_sameBooks [of s "expire s"] by (simp add: sameBooks_def)
next
  fix s ns assume "lockedOk s \<and> ballotOk s"
  then show "lockedOk (s\<lparr>st_premiumNotes := ns\<rparr>) \<and> ballotOk (s\<lparr>st_premiumNotes := ns\<rparr>)"
    using locks.premiums [of s ns] ballotOk_sameBooks [of s "s\<lparr>st_premiumNotes := ns\<rparr>"] by (simp add: sameBooks_def)
next
  fix s ns assume "lockedOk s \<and> ballotOk s"
  then show "lockedOk (s\<lparr>st_settlements := ns\<rparr>) \<and> ballotOk (s\<lparr>st_settlements := ns\<rparr>)"
    using locks.transport [of s ns] ballotOk_sameBooks [of s "s\<lparr>st_settlements := ns\<rparr>"] by (simp add: sameBooks_def)
next
  fix s ns assume "lockedOk s \<and> ballotOk s"
  then show "lockedOk (s\<lparr>st_replayNotes := ns\<rparr>) \<and> ballotOk (s\<lparr>st_replayNotes := ns\<rparr>)"
    using locks.noting [of s ns] ballotOk_sameBooks [of s "s\<lparr>st_replayNotes := ns\<rparr>"] by (simp add: sameBooks_def)
next
  fix s ns assume "lockedOk s \<and> ballotOk s"
  then show "lockedOk (s\<lparr>st_rejectedLocks := ns\<rparr>) \<and> ballotOk (s\<lparr>st_rejectedLocks := ns\<rparr>)"
    using locks.rejecting [of s ns] ballotOk_sameBooks [of s "s\<lparr>st_rejectedLocks := ns\<rparr>"] by (simp add: sameBooks_def)
qed

section \<open>Fees and subscriptions\<close>

definition feeOk :: "state \<Rightarrow> bool" where
  "feeOk s \<longleftrightarrow> 0 < st_amountMsats s \<and> 0 \<le> fe_arbiterMsats (st_fees s)
     \<and> fe_arbiterMsats (st_fees s) \<le> st_amountMsats s"

lemma sanitize_feeOk: "0 < a \<Longrightarrow> 0 \<le> sanitizeArbiterFeeMsats v a \<and> sanitizeArbiterFeeMsats v a \<le> a"
  using sanitize_bounds [of v a] by auto

lemma handleCreate_amount: "handleCreate sha e p = Inr s \<Longrightarrow> 0 < cp_amountMsats p"
  by (auto simp: handleCreate_Inr createGuards_def Let_def)

lemma handleLock_positive: "handleLock E s e p = Inr s' \<Longrightarrow> 0 < st_amountMsats s \<Longrightarrow> 0 < expectedLockAmount s p"
  using handleLock_order(3) [of E s e p s'] by (cases "isMenu s") (simp_all add: expectedLockAmount_def)

lemma dispatch_fees:
  assumes "dispatch E s e = Inr s'" "ev_kind e \<notin> {K_JOIN, K_LOCK}"
  shows "st_fees s' = st_fees s \<and> st_amountMsats s' = st_amountMsats s"
proof (cases "ev_payload e")
  case (PVote p)
  with assms show ?thesis by (auto simp: dispatch_simps votedState_frame dest!: handleVote_facts(5))
next
  case (PComplete t)
  with assms show ?thesis by (auto simp: dispatch_simps dest!: handleComplete_Inr)
qed (use assms in \<open>auto simp: dispatch_def ev_kind_def handleCancel_Inr handleSubscribe_Inr handleChat_Inr
    stalledState_def Let_def elim!: handleResolve_Inr handleClaim_Inr handleSettlementStalled_Inr
    handlePeriodRelease_Inr dest!: handleChildKey_Inr plan_frame handleLockStep_only_lock\<close>)

lemma feeOk_dispatch:
  assumes "feeOk s" "dispatch E s e = Inr s'"
  shows "feeOk s'"
proof -
  consider (join) p where "handleJoin E s e p = Inr s'" | (lock) p where "handleLock E s e p = Inr s'"
    | (other) "ev_kind e \<notin> {K_JOIN, K_LOCK}"
    using assms(2) by (cases "ev_payload e") (auto simp: dispatch_def ev_kind_def)
  then show ?thesis
  proof cases
    case join
    with handleJoin_fee [OF join] assms(1) sanitize_feeOk show ?thesis by (auto simp: feeOk_def handleJoin_frame)
  next
    case lock
    from assms(1) have "0 < expectedLockAmount s p" using handleLock_positive [OF lock] by (simp add: feeOk_def)
    with lock show ?thesis using sanitize_feeOk by (simp add: handleLock_Inr feeOk_def)
  next
    case other
    with assms dispatch_fees show ?thesis by (simp add: feeOk_def)
  qed
qed

lemma feeOk_create: "handleCreate sha e p = Inr s \<Longrightarrow> feeOk s"
  using handleCreate_amount [of sha e p s] sanitize_feeOk
  by (simp add: handleCreate_Inr feeOk_def createFees_def)

interpretation arbiterFees: reducer_invariant E feeOk for E
  by unfold_locales (simp_all add: feeOk_create feeOk_dispatch, simp_all add: feeOk_def)

definition subscriptionOk :: "state \<Rightarrow> bool" where
  "subscriptionOk s \<longleftrightarrow> (\<forall>sub. st_subscription s = Some sub \<longrightarrow> subOk sub)"

lemma subscriptionOk_dispatch:
  assumes "subscriptionOk s" "dispatch E s e = Inr s'"
  shows "subscriptionOk s'"
proof (cases "ev_payload e")
  case (PVote p)
  with assms show ?thesis
    by (auto simp: dispatch_simps votedState_frame subscriptionOk_def dest!: handleVote_facts(5))
next
  case (PComplete t)
  with assms show ?thesis by (auto simp: dispatch_simps subscriptionOk_def dest!: handleComplete_Inr)
next
  case (PPeriodRelease p)
  with assms show ?thesis
    by (auto simp: dispatch_simps subscriptionOk_def Let_def elim!: handlePeriodRelease_Inr
        intro: releasePeriod_ok split: if_splits)
qed (use assms in \<open>auto simp: dispatch_def ev_kind_def handleCancel_Inr handleSubscribe_Inr handleChat_Inr
    stalledState_def Let_def handleLock_Inr handleJoin_frame subscriptionOk_def newSubscription_ok
    elim!: handleResolve_Inr handleClaim_Inr handleSettlementStalled_Inr
    dest!: handleChildKey_Inr plan_frame handleLockStep_only_lock\<close>)

interpretation subscriptions: reducer_invariant E subscriptionOk for E
  by unfold_locales (simp_all add: subscriptionOk_dispatch handleCreate_Inr, auto simp: subscriptionOk_def)

end
