(* ===== verification/Replay.thy ===== *)
theory Replay
  imports Reducer_Invariants
begin

text \<open>
  Replaying a trade's events (\<open>src/escrow-engine/state-machine.ts\<close>): who an error counts
  against (\<open>replayAuthorEntitled\<close>), the repeated on-chain LOCK, the replay-level decisions on
  refused locks (\<open>refusedLockSteps\<close>) and \<open>replayEventChain\<close> itself, one event at a time. The
  recursive probe of the source (the same chain with withdraws ignored) goes one level deep, so
  it is a first call of the same function. An exception (\<open>#THROW\<close>) is never forgiven.
\<close>

section \<open>Entitlement\<close>

definition presupposesLock :: "ekind \<Rightarrow> bool" where
  "presupposesLock k \<longleftrightarrow> k \<in> {K_VOTE, K_RESOLVE, K_CLAIM, K_PERIOD_RELEASE, K_SETTLEMENT_STALLED}"

definition replayAuthorEntitled :: "state \<Rightarrow> event \<Rightarrow> bool" where
  "replayAuthorEntitled s e =
     (let pk = ev_pubkey e; seated = getRole s pk in
      if \<not> hasLock s \<and> presupposesLock (ev_kind e) then True
      else if ev_kind e = K_LOCK
      then (case orElse seated (getActiveRole s pk (ev_timestamp e)) of
              None \<Rightarrow> False
            | Some r \<Rightarrow> expectedLockerOf s = None \<or> expectedLockerOf s = Some r)
      else if ev_kind e = K_CLAIM then seated = Some BUYER \<or> seated = Some SELLER
      else if ev_kind e = K_VOTE \<or> ev_kind e = K_RESOLVE then mayCarryPastExpiry s pk
      else if ev_kind e = K_CANCEL \<or> ev_kind e = K_PLAN_START then pk = st_initiator s
      else seated \<noteq> None)"

text \<open>The signed terms of a LOCK, less its signing time; keys are compared after sorting.\<close>

definition sortedKeys :: "(string \<times> string) list \<Rightarrow> (string \<times> string) list" where
  "sortedKeys xs = sortWith (\<lambda>a b. fst a < fst b) xs"

definition canonicalLock :: "lock_payload \<Rightarrow> lock_payload" where
  "canonicalLock p = p\<lparr>lp_lockedAt := 0,
     lp_shares := map_option (map (\<lambda>x. x\<lparr>se_encryptedFor := sortedKeys (se_encryptedFor x)\<rparr>)) (lp_shares p),
     lp_handleEnvelope := map_option sortedKeys (lp_handleEnvelope p)\<rparr>"

definition redundantOnchainLock :: "state \<Rightarrow> event \<Rightarrow> lock_payload \<Rightarrow> bool" where
  "redundantOnchainLock s e p = (case firstLock (st_eventChain s) of
     None \<Rightarrow> False
   | Some (a, q) \<Rightarrow> lp_onchain q \<noteq> None \<and> lp_onchain p \<noteq> None \<and> lk_onchain (st_lock s) \<noteq> None
       \<and> ev_pubkey a = ev_pubkey e \<and> canonicalLock q = canonicalLock p)"

definition ruleBreaks :: "ekind \<Rightarrow> errcode \<Rightarrow> bool" where
  "ruleBreaks k c \<longleftrightarrow> (k = K_VOTE \<and> c \<in> {''ROLE_MISMATCH'', ''SHARES_NOT_RELEASED''})
     \<or> (k = K_JOIN \<and> c \<in> {''ROLE_CONFLICT'', ''ORDER_ALREADY_FINALIZED'', ''CHAMA_SEATS_FIXED''})"

definition benignCodes :: "errcode set" where
  "benignCodes = {''ALREADY_VOTED'', ''ALREADY_JOINED'', ''ALREADY_SUBSCRIBED'', ''DUPLICATE_CREATE'',
     ''ROLE_TAKEN'', ''TERMINAL_STATE'', ''ARBITER_POOL_EMPTY'', ''ARBITER_NOT_IN_POOL''}"

definition isFunds :: "ekind \<Rightarrow> bool" where
  "isFunds k \<longleftrightarrow> k \<in> {K_LOCK, K_CLAIM, K_SUBSCRIBE, K_PERIOD_RELEASE}"

definition prevOf :: "event \<Rightarrow> string option" where
  "prevOf e = nonEmpty (ev_prev e)"

section \<open>One rejected event\<close>

text \<open>What a replay knows beyond the state: the ids it holds, who asked for a seat, the ids
  set aside with a withdrawn LOCK; and what it accumulates: the state, the displaced claimants
  and the events skipped because of a withdrawn LOCK.\<close>

record replay_ctx =
  rx_available :: "string list"
  rx_seekers :: "string list"
  rx_withdrawn :: "string list"

record replay_pos =
  po_state :: "state option"
  po_claimants :: "string list"
  po_skipped :: "string list"

definition heldPrev :: "replay_ctx \<Rightarrow> event \<Rightarrow> bool" where
  "heldPrev x e = (case prevOf e of None \<Rightarrow> False | Some i \<Rightarrow> i \<in> set (rx_available x))"

definition missingPrev :: "replay_ctx \<Rightarrow> event \<Rightarrow> bool" where
  "missingPrev x e = (case prevOf e of None \<Rightarrow> False | Some i \<Rightarrow> i \<notin> set (rx_available x))"

definition strictLock :: "replay_ctx \<Rightarrow> state \<Rightarrow> event \<Rightarrow> bool" where
  "strictLock x s e = (case ev_payload e of
     PLock p \<Rightarrow> \<not> hasLock s \<or> ev_pubkey e \<in> set (rx_seekers x) \<or> Some (lp_notesHash p) \<noteq> lk_notesHash (st_lock s)
   | _ \<Rightarrow> False)"

definition entitled :: "replay_ctx \<Rightarrow> replay_pos \<Rightarrow> event \<Rightarrow> bool" where
  "entitled x pos e = (case po_state pos of
     None \<Rightarrow> True
   | Some s \<Rightarrow> ev_pubkey e \<in> set (po_claimants pos) \<or> strictLock x s e
       \<or> (isFunds (ev_kind e) \<and> missingPrev x e) \<or> replayAuthorEntitled s e)"

text \<open>The two positive refusals of an ecash LOCK, kept for the funder's recovery.\<close>

definition cancelledBefore :: "state \<Rightarrow> event \<Rightarrow> bool" where
  "cancelledBefore s e \<longleftrightarrow> list_ex (\<lambda>c. ev_kind c = K_CANCEL \<and> ev_pubkey c = st_initiator s
     \<and> ev_timestamp c < ev_timestamp e) (st_eventChain s)"

definition refusedByCancel :: "replay_ctx \<Rightarrow> state \<Rightarrow> event \<Rightarrow> errcode \<Rightarrow> bool" where
  "refusedByCancel x s e c = (case ev_payload e of
     PLock p \<Rightarrow> c = ''TERMINAL_STATE'' \<and> st_status s = CANCELLED \<and> \<not> hasLock s \<and> replayAuthorEntitled s e
       \<and> lp_onchain p = None \<and> heldPrev x e \<and> cancelledBefore s e
   | _ \<Rightarrow> False)"

definition refusedByLapse :: "replay_ctx \<Rightarrow> state \<Rightarrow> event \<Rightarrow> errcode \<Rightarrow> bool" where
  "refusedByLapse x s e c = (case (ev_payload e, st_joinHolds s (menuSelectorRoleFor (st_category s))) of
     (PLock p, Some h) \<Rightarrow> c = ''ORDER_NOT_FINALIZED'' \<and> lp_onchain p = None
       \<and> Some (jh_eventId h) = ev_prev e \<and> jh_joinedAt h \<le> ev_timestamp e
       \<and> jh_expiresAt h + JOIN_HOLD_LOCK_GRACE_SECONDS \<le> ev_timestamp e \<and> heldPrev x e
   | _ \<Rightarrow> False)"

definition aboutWithdrawn :: "replay_ctx \<Rightarrow> replay_pos \<Rightarrow> state \<Rightarrow> event \<Rightarrow> errcode \<Rightarrow> bool" where
  "aboutWithdrawn x pos s e c \<longleftrightarrow> st_status s = CREATED
     \<and> (case prevOf e of None \<Rightarrow> False | Some i \<Rightarrow> i \<in> set (rx_withdrawn x) \<or> i \<in> set (po_skipped pos))
     \<and> \<not> hasLock s \<and> c = ''INVALID_STATE'' \<and> ev_kind e \<in> {K_VOTE, K_RESOLVE, K_COMPLETE}"

definition repeatsLock :: "state \<Rightarrow> event \<Rightarrow> errcode \<Rightarrow> bool" where
  "repeatsLock s e c = (case ev_payload e of
     PLock p \<Rightarrow> redundantOnchainLock s e p \<and> c \<in> {''INVALID_STATE'', ''TERMINAL_STATE''} | _ \<Rightarrow> False)"

definition repeatsResolve :: "state option \<Rightarrow> event \<Rightarrow> errcode \<Rightarrow> bool" where
  "repeatsResolve st e c = (case (st, ev_payload e) of
     (Some s, PResolve p) \<Rightarrow> st_resolvedOutcome s = Some (rp_outcome p) \<and> c \<in> {''INVALID_STATE'', ''TERMINAL_STATE''}
   | _ \<Rightarrow> False)"

datatype verdict = Strict | Note bool | NoteWithdrawn | RefuseLock errcode

text \<open>The rules that read the state before any LOCK or RESOLVE is judged by its author.\<close>

definition stateVerdict :: "replay_ctx \<Rightarrow> replay_pos \<Rightarrow> state \<Rightarrow> event \<Rightarrow> errcode \<Rightarrow> verdict option" where
  "stateVerdict x pos s e c =
     (if refusedByCancel x s e c then Some (RefuseLock ''CANCELLED_BEFORE_LOCK'')
      else if refusedByLapse x s e c then Some (RefuseLock ''ORDER_NOT_FINALIZED'')
      else if c = ''EXPIRY_NOT_IN_TRADE'' \<and> hasLock s then Some (Note False)
      else if aboutWithdrawn x pos s e c then Some NoteWithdrawn
      else if repeatsLock s e c then Some (Note True)
      else None)"

definition lateAcknowledgement :: "state option \<Rightarrow> event \<Rightarrow> bool" where
  "lateAcknowledgement st e = (case st of None \<Rightarrow> False
     | Some s \<Rightarrow> ev_kind e = K_JOIN \<or> (ev_kind e = K_VOTE \<and> hasLock s) \<or> ev_kind e = K_COMPLETE)"

definition unprovenComplete :: "state option \<Rightarrow> event \<Rightarrow> errcode \<Rightarrow> bool" where
  "unprovenComplete st e c = (case st of None \<Rightarrow> False
     | Some s \<Rightarrow> ev_kind e = K_COMPLETE \<and> c = ''INVALID_SETTLEMENT_PROOF'' \<and> st_status s = APPROVED
         \<and> lk_onchain (st_lock s) \<noteq> None)"

definition kindVerdict :: "replay_ctx \<Rightarrow> replay_pos \<Rightarrow> event \<Rightarrow> errcode \<Rightarrow> verdict" where
  "kindVerdict x pos e c =
     (let k = ev_kind e; st = po_state pos; byParty = entitled x pos e in
      if isFunds k then (if byParty then Strict else Note False)
      else if k = K_RESOLVE
      then (if repeatsResolve st e c then Note True else if byParty then Strict else Note False)
      else if c \<in> benignCodes then Note True
      else if c = ''INVALID_STATE'' \<and> lateAcknowledgement st e then Note True
      else if unprovenComplete st e c then Note False
      else if k = K_CHAT then Note (c \<in> {''TRADE_CLOSED'', ''TERMINAL_STATE''})
      else if (k = K_PREMIUM \<or> k = K_SETTLEMENT) \<and> c = ''NOT_PARTICIPANT'' then Note False
      else if k = K_LOCK_STEP then Note (c \<in> {''ALREADY_ACCEPTED'', ''ALREADY_RELEASED''})
      else if \<not> byParty \<or> ruleBreaks k c then Note False
      else Strict)"

definition verdictOf :: "replay_ctx \<Rightarrow> replay_pos \<Rightarrow> event \<Rightarrow> errcode \<Rightarrow> verdict" where
  "verdictOf x pos e c =
     (case Option.bind (po_state pos) (\<lambda>s. stateVerdict x pos s e c) of
        Some v \<Rightarrow> v | None \<Rightarrow> kindVerdict x pos e c)"

definition addNote :: "event \<Rightarrow> errcode \<Rightarrow> bool \<Rightarrow> state \<Rightarrow> state" where
  "addNote e c benign s = s\<lparr>st_replayNotes := st_replayNotes s
     @ [\<lparr>rn_eventId = ev_id e, rn_kind = ev_kind e, rn_code = c, rn_benign = benign\<rparr>]\<rparr>"

definition addRejected :: "event \<Rightarrow> errcode \<Rightarrow> state \<Rightarrow> state" where
  "addRejected e c s = addNote e c False (s\<lparr>st_rejectedLocks := st_rejectedLocks s @ [(e, c)]\<rparr>)"

definition withClaimant :: "event \<Rightarrow> errcode \<Rightarrow> replay_pos \<Rightarrow> replay_pos" where
  "withClaimant e c pos = (if ev_kind e = K_JOIN \<and> c = ''ROLE_TAKEN''
     then pos\<lparr>po_claimants := ev_pubkey e # po_claimants pos\<rparr> else pos)"

definition onReject :: "replay_ctx \<Rightarrow> replay_pos \<Rightarrow> event \<Rightarrow> errcode \<Rightarrow> errcode + replay_pos" where
  "onReject x pos e c =
     (let pos' = withClaimant e c pos in
      if c = ''#THROW'' then Inl c
      else case verdictOf x pos e c of
        Strict \<Rightarrow> Inl c
      | Note b \<Rightarrow> Inr (pos'\<lparr>po_state := map_option (addNote e c b) (po_state pos)\<rparr>)
      | NoteWithdrawn \<Rightarrow> Inr (pos'\<lparr>po_state := map_option (addNote e c False) (po_state pos),
                                   po_skipped := ev_id e # po_skipped pos\<rparr>)
      | RefuseLock d \<Rightarrow> Inr (pos'\<lparr>po_state := map_option (addRejected e d) (po_state pos)\<rparr>))"

definition replayStep :: "env \<Rightarrow> replay_ctx \<Rightarrow> replay_pos \<Rightarrow> event \<Rightarrow> errcode + replay_pos" where
  "replayStep E x pos e = (case applyEvent E (po_state pos) e of
     Inl c \<Rightarrow> onReject x pos e c
   | Inr s \<Rightarrow> if ev_kind e \<noteq> K_JOIN \<and> missingPrev x e \<and> inChain s (ev_id e)
       then Inl ''MISSING_PREDECESSOR'' else Inr (pos\<lparr>po_state := Some s\<rparr>))"

fun replayLoop :: "env \<Rightarrow> replay_ctx \<Rightarrow> event list \<Rightarrow> replay_pos \<Rightarrow> errcode + replay_pos" where
  "replayLoop E x [] pos = Inr pos"
| "replayLoop E x (e # es) pos = (case replayStep E x pos e of
     Inl c \<Rightarrow> Inl c | Inr pos' \<Rightarrow> replayLoop E x es pos')"

section \<open>Refused locks\<close>

definition stepOf :: "event \<Rightarrow> lock_step option" where
  "stepOf e = (case ev_payload e of PLockStep p \<Rightarrow> Some p | _ \<Rightarrow> None)"

definition isRelease :: "event \<Rightarrow> bool" where
  "isRelease e = (case stepOf e of Some (Release _ _) \<Rightarrow> True | _ \<Rightarrow> False)"

definition isWithdraw :: "event \<Rightarrow> bool" where
  "isWithdraw e = (case stepOf e of Some (Withdraw _) \<Rightarrow> True | _ \<Rightarrow> False)"

definition isAccept :: "event \<Rightarrow> bool" where
  "isAccept e = (case stepOf e of Some (Accept _) \<Rightarrow> True | _ \<Rightarrow> False)"

definition namedLock :: "event \<Rightarrow> string option" where
  "namedLock e = map_option stepLockId (stepOf e)"

text \<open>The LOCK of an id (a later event of the same id would replace an earlier one).\<close>

definition lockById :: "event list \<Rightarrow> string option \<Rightarrow> (event \<times> lock_payload) option" where
  "lockById es i = (case List.find (\<lambda>e. ev_kind e = K_LOCK \<and> Some (ev_id e) = i) (rev es) of
     Some e \<Rightarrow> (case ev_payload e of PLock p \<Rightarrow> Some (e, p) | _ \<Rightarrow> None) | None \<Rightarrow> None)"

record lock_steps =
  ls_withdrawn :: "event list"
  ls_setAside :: "string list"

definition withdrawable :: "event list \<Rightarrow> string list \<Rightarrow> lock_steps \<Rightarrow> event \<Rightarrow> event option" where
  "withdrawable es released acc e =
     (if \<not> isWithdraw e then None
      else case lockById es (namedLock e) of
        None \<Rightarrow> None
      | Some (l, p) \<Rightarrow>
          if lp_withheldShares p \<noteq> Some True \<or> lp_onchain p \<noteq> None \<or> ev_id l \<in> set (ls_setAside acc)
             \<or> ev_pubkey e \<noteq> ev_pubkey l \<or> ev_prev e \<noteq> Some (ev_id l) \<or> ev_id l \<in> set released
          then None else Some l)"

definition setAsideWith :: "event list \<Rightarrow> string list \<Rightarrow> lock_steps \<Rightarrow> event \<Rightarrow> lock_steps" where
  "setAsideWith es released acc e = (case withdrawable es released acc e of
     None \<Rightarrow> acc
   | Some l \<Rightarrow> acc\<lparr>ls_withdrawn := ls_withdrawn acc @ [l],
       ls_setAside := ls_setAside acc @ ev_id l # map ev_id (filter (\<lambda>x. namedLock x = Some (ev_id l)) es)\<rparr>)"

definition pinsCancel :: "event list \<Rightarrow> string list \<Rightarrow> event \<Rightarrow> bool" where
  "pinsCancel es setAside e \<longleftrightarrow> isAccept e \<and> ev_id e \<notin> set setAside
     \<and> (case lockById es (namedLock e) of None \<Rightarrow> False
        | Some (l, p) \<Rightarrow> lp_onchain p = None \<and> ev_prev e = Some (ev_id l) \<and> ev_pubkey e \<noteq> ev_pubkey l)"

text \<open>\<open>None\<close> for the released locks is the probe: withdraws are ignored.\<close>

definition withdrawnLocks :: "event list \<Rightarrow> string list option \<Rightarrow> lock_steps" where
  "withdrawnLocks es released = (case released of
     None \<Rightarrow> \<lparr>ls_withdrawn = [], ls_setAside = []\<rparr>
   | Some rel \<Rightarrow> foldl (setAsideWith es rel) \<lparr>ls_withdrawn = [], ls_setAside = []\<rparr>
       (filter (\<lambda>e. stepOf e \<noteq> None) es))"

definition refusedLockSteps :: "event list \<Rightarrow> string list option \<Rightarrow> lock_steps \<times> event list" where
  "refusedLockSteps es released =
     (let w = withdrawnLocks es released;
          acceptors = map ev_pubkey (filter (pinsCancel es (ls_setAside w)) es);
          pinned = filter (\<lambda>e. ev_kind e = K_CANCEL \<and> ev_pubkey e \<in> set acceptors) es
      in (w\<lparr>ls_setAside := ls_setAside w @ map ev_id pinned\<rparr>, pinned))"

section \<open>replayEventChain\<close>

definition gatedSteps :: "event list \<Rightarrow> bool" where
  "gatedSteps es = (case es of
     e # _ \<Rightarrow> (case ev_payload e of
        PCreate p \<Rightarrow> usesWithheldShares (ev_timestamp e) \<and> cp_chamaPolicy p = None | _ \<Rightarrow> False)
   | [] \<Rightarrow> False)"

definition addNotes :: "event list \<Rightarrow> errcode \<Rightarrow> state \<Rightarrow> state" where
  "addNotes es c s = foldl (\<lambda>s e. addNote e c False s) s es"

definition foreignCode :: "state \<Rightarrow> errcode" where
  "foreignCode s = (case st_chamaCircle s of
     Some c \<Rightarrow> if ct_pot c = Some ''rotation-v2'' \<and> ct_roundIndex c \<ge> 2 then ''INVALID_CHAMA'' else ''FOREIGN_CREATE''
   | None \<Rightarrow> ''FOREIGN_CREATE'')"

text \<open>The reports appended to the final state: withdrawn locks, pinned cancels, foreign CREATEs.\<close>

definition closing :: "event list \<Rightarrow> event list \<Rightarrow> event list \<Rightarrow> state \<Rightarrow> state" where
  "closing withdrawn pinned ignored s =
     (let s1 = s\<lparr>st_rejectedLocks := st_rejectedLocks s @ map (\<lambda>e. (e, ''WITHDRAWN_BEFORE_ACCEPT'')) withdrawn\<rparr>;
          s2 = addNotes pinned ''CANCEL_AFTER_ACCEPT'' (addNotes withdrawn ''WITHDRAWN_BEFORE_ACCEPT'' s1)
      in addNotes ignored (foreignCode s2) s2)"

definition stepsFor :: "event list \<Rightarrow> string list option \<Rightarrow> lock_steps \<times> event list" where
  "stepsFor es released = (if gatedSteps es then refusedLockSteps es released
     else (\<lparr>ls_withdrawn = [], ls_setAside = []\<rparr>, []))"

text \<open>The events that reach the reducer and the context they are replayed in.\<close>

definition replayedEvents :: "event list \<Rightarrow> string list option \<Rightarrow> event list" where
  "replayedEvents es released =
     filter (\<lambda>e. ev_id e \<notin> set (ls_setAside (fst (stepsFor es released)))) es"

definition replayContext :: "event list \<Rightarrow> event list \<Rightarrow> string list option \<Rightarrow> replay_ctx" where
  "replayContext original es released =
     (let (w, pinned) = stepsFor es released in
      \<lparr>rx_available = map ev_id es,
       rx_seekers = map ev_pubkey (filter (\<lambda>e. ev_kind e = K_JOIN) original),
       rx_withdrawn = filter (\<lambda>i. i \<notin> ev_id ` set pinned) (ls_setAside w)\<rparr>)"

definition startPos :: "event list \<Rightarrow> replay_pos" where
  "startPos original = \<lparr>po_state = None, po_claimants = map ev_pubkey (filter isCreate original),
     po_skipped = []\<rparr>"

text \<open>Replay of a rooted chain (\<open>original\<close> is the chain before rooting).\<close>

definition replayRooted ::
  "env \<Rightarrow> event list \<Rightarrow> event list \<Rightarrow> event list \<Rightarrow> string list option \<Rightarrow> result" where
  "replayRooted E original es ignored released =
     (case replayLoop E (replayContext original es released) (replayedEvents es released) (startPos original) of
        Inl c \<Rightarrow> Inl c
      | Inr pos \<Rightarrow> (case po_state pos of
          None \<Rightarrow> Inl ''#THROW''
        | Some s \<Rightarrow> Inr (closing (ls_withdrawn (fst (stepsFor es released))) (snd (stepsFor es released)) ignored s)))"

definition replayWith ::
  "env \<Rightarrow> event list \<Rightarrow> string option \<Rightarrow> (event list \<Rightarrow> errcode + string list option) \<Rightarrow> result" where
  "replayWith E original creator decide =
     (if original = [] then Inl ''EMPTY_CHAIN''
      else case selectTradeRoot (e_sha E) original creator of
        Inl c \<Rightarrow> Inl c
      | Inr (es, ignored) \<Rightarrow>
          if es = [] \<or> ev_kind (hd es) \<noteq> K_CREATE then Inl ''MISSING_CREATE''
          else (case decide es of
              Inl c \<Rightarrow> Inl c
            | Inr released \<Rightarrow> replayRooted E original es ignored released))"

definition replayProbe :: "env \<Rightarrow> event list \<Rightarrow> string option \<Rightarrow> result" where
  "replayProbe E es creator = replayWith E es creator (\<lambda>_. Inr None)"

text \<open>A release signed by the funder of the LOCK it names.\<close>

definition funderRelease :: "event list \<Rightarrow> event \<Rightarrow> bool" where
  "funderRelease es e \<longleftrightarrow> isRelease e
     \<and> list_ex (\<lambda>l. ev_kind l = K_LOCK \<and> Some (ev_id l) = namedLock e \<and> ev_pubkey l = ev_pubkey e) es"

definition probeReleased :: "env \<Rightarrow> event list \<Rightarrow> string option \<Rightarrow> errcode + string list" where
  "probeReleased E es creator =
     (if \<not> list_ex isWithdraw es then Inr []
      else case replayProbe E es creator of
        Inl c \<Rightarrow> if c = ''#THROW'' then Inl c
                else Inr (List.map_filter (\<lambda>e. if funderRelease es e then namedLock e else None) es)
      | Inr s \<Rightarrow> Inr (case (firstLock (st_eventChain s), lk_withheld (st_lock s)) of
            (Some (l, _), Some w) \<Rightarrow> if truthyS (wh_releaseEventId w) then [ev_id l] else []
          | _ \<Rightarrow> []))"

text \<open>A funder's release whose accept is missing from this read counts as released too.\<close>

definition orphanReleases :: "event list \<Rightarrow> string list" where
  "orphanReleases es = List.map_filter (\<lambda>e.
     if funderRelease es e \<and> (case prevOf e of None \<Rightarrow> True | Some i \<Rightarrow> i \<notin> ev_id ` set es)
     then namedLock e else None) es"

definition releasedLocks :: "env \<Rightarrow> string option \<Rightarrow> event list \<Rightarrow> errcode + string list option" where
  "releasedLocks E creator es =
     (if \<not> gatedSteps es then Inr (Some [])
      else case probeReleased E es creator of
        Inl c \<Rightarrow> Inl c | Inr ids \<Rightarrow> Inr (Some (ids @ orphanReleases es)))"

definition replayEventChain :: "env \<Rightarrow> event list \<Rightarrow> string option \<Rightarrow> result" where
  "replayEventChain E original creator = replayWith E original creator (releasedLocks E creator)"

section \<open>What a replayed state keeps\<close>

text \<open>Every invariant of the reducer holds of a replayed state: notes and refusals do not matter.\<close>

context reducer_invariant begin

lemma addNote_keeps: "inv s \<Longrightarrow> inv (addNote e c b s)"
  unfolding addNote_def by (rule noting)

lemma addRejected_keeps: "inv s \<Longrightarrow> inv (addRejected e c s)"
  unfolding addRejected_def by (intro addNote_keeps rejecting)

lemma onReject_keeps:
  "onReject x pos e c = Inr pos' \<Longrightarrow> (\<forall>s. po_state pos = Some s \<longrightarrow> inv s) \<Longrightarrow> (\<forall>s. po_state pos' = Some s \<longrightarrow> inv s)"
  by (auto simp: onReject_def Let_def withClaimant_def addNote_keeps addRejected_keeps
      split: verdict.splits if_splits)

lemma replayStep_keeps:
  assumes "replayStep E x pos e = Inr pos'" "\<forall>s. po_state pos = Some s \<longrightarrow> inv s"
  shows "\<forall>s. po_state pos' = Some s \<longrightarrow> inv s"
proof (cases "applyEvent E (po_state pos) e")
  case (Inl c)
  with assms(1) have "onReject x pos e c = Inr pos'" by (simp add: replayStep_def)
  then show ?thesis using assms(2) by (rule onReject_keeps)
next
  case (Inr s)
  with assms(2) have "inv s" by (cases "po_state pos") (auto intro: started applied)
  moreover from Inr assms(1) have "po_state pos' = Some s" by (auto simp: replayStep_def split: if_splits)
  ultimately show ?thesis by simp
qed

lemma replayLoop_keeps:
  "replayLoop E x es pos = Inr pos' \<Longrightarrow> (\<forall>s. po_state pos = Some s \<longrightarrow> inv s) \<Longrightarrow> (\<forall>s. po_state pos' = Some s \<longrightarrow> inv s)"
proof (induction es arbitrary: pos)
  case (Cons e es)
  from Cons.prems(1) obtain q where q: "replayStep E x pos e = Inr q" "replayLoop E x es q = Inr pos'"
    by (auto split: sum.splits)
  from Cons.IH [OF q(2) replayStep_keeps [OF q(1) Cons.prems(2)]] show ?case .
qed simp

lemma addNotes_keeps: "inv s \<Longrightarrow> inv (addNotes es c s)"
  unfolding addNotes_def by (induction es arbitrary: s) (auto intro: addNote_keeps)

lemma closing_keeps: "inv s \<Longrightarrow> inv (closing w p i s)"
  unfolding closing_def Let_def by (intro addNotes_keeps rejecting)

lemma rooted:
  assumes "replayRooted E original es ignored released = Inr s"
  shows "inv s"
proof -
  from assms obtain pos t where l: "replayLoop E (replayContext original es released)
      (replayedEvents es released) (startPos original) = Inr pos" "po_state pos = Some t"
    "s = closing (ls_withdrawn (fst (stepsFor es released))) (snd (stepsFor es released)) ignored t"
    by (auto simp: replayRooted_def split: sum.splits option.splits)
  from replayLoop_keeps [OF l(1)] l(2) have "inv t" by (simp add: startPos_def)
  then show ?thesis unfolding l(3) by (rule closing_keeps)
qed

lemma replayed: "replayEventChain E es creator = Inr s \<Longrightarrow> inv s"
  by (auto simp: replayEventChain_def replayWith_def dest: rooted split: if_splits sum.splits)

end

section \<open>Noise never stops a replay\<close>

lemma kindVerdict_Strict: "kindVerdict x pos e c = Strict \<Longrightarrow> entitled x pos e"
  by (auto simp: kindVerdict_def Let_def split: if_splits)

lemma stateVerdict_not_Strict: "stateVerdict x pos s e c \<noteq> Some Strict"
  by (auto simp: stateVerdict_def)

lemma verdictOf_Strict: "verdictOf x pos e c = Strict \<Longrightarrow> entitled x pos e"
  by (auto simp: verdictOf_def stateVerdict_not_Strict bind_eq_Some_conv dest: kindVerdict_Strict split: option.splits)

lemma onReject_noise:
  "\<not> entitled x pos e \<Longrightarrow> c \<noteq> ''#THROW'' \<Longrightarrow> \<exists>pos'. onReject x pos e c = Inr pos'"
  using verdictOf_Strict [of x pos e c] by (auto simp: onReject_def Let_def split: verdict.splits)

text \<open>A skipped event changes no field of the state that the reducer reads.\<close>

definition sameButNotes :: "state \<Rightarrow> state \<Rightarrow> bool" where
  "sameButNotes s t \<longleftrightarrow> (\<exists>ns ls. t = s\<lparr>st_replayNotes := ns, st_rejectedLocks := ls\<rparr>)"

lemma sameButNotes_addNote: "sameButNotes s (addNote e c b s)"
  unfolding sameButNotes_def addNote_def
  by (intro exI [of _ "st_replayNotes s @ _"] exI [of _ "st_rejectedLocks s"]) simp

lemma sameButNotes_addRejected: "sameButNotes s (addRejected e c s)"
  unfolding sameButNotes_def addRejected_def addNote_def
  by (intro exI [of _ "st_replayNotes s @ [\<lparr>rn_eventId = ev_id e, rn_kind = ev_kind e, rn_code = c,
      rn_benign = False\<rparr>]"] exI [of _ "st_rejectedLocks s @ [(e, c)]"]) simp

lemma onReject_state:
  "onReject x pos e c = Inr pos' \<Longrightarrow> po_state pos = Some s \<Longrightarrow> \<exists>t. po_state pos' = Some t \<and> sameButNotes s t"
  by (auto simp: onReject_def Let_def withClaimant_def sameButNotes_addNote sameButNotes_addRejected
      split: verdict.splits if_splits)

section \<open>Where the replayed chain comes from\<close>

text \<open>Every event of the chain is one of the replayed events and, unless it is a JOIN, its
  predecessor is in the read.\<close>

definition chainFrom :: "replay_ctx \<Rightarrow> event list \<Rightarrow> state option \<Rightarrow> bool" where
  "chainFrom x es st \<longleftrightarrow> (\<forall>s. st = Some s \<longrightarrow>
     set (st_eventChain s) \<subseteq> set es \<and> (\<forall>e\<in>set (st_eventChain s). ev_kind e = K_JOIN \<or> \<not> missingPrev x e))"

lemma applyTo_chain:
  assumes "applyTo E s e = Inr s'"
  shows "st_eventChain s' = st_eventChain s \<or> st_eventChain s' = st_eventChain s @ [e]"
  using assms by (cases rule: applyTo_cases) (auto dest: switching.chain)

lemma applyEvent_chain:
  assumes "applyEvent E st e = Inr s'"
  shows "set (st_eventChain s') \<subseteq> insert e (case st of None \<Rightarrow> {} | Some s \<Rightarrow> set (st_eventChain s))"
proof (cases st)
  case None
  with assms show ?thesis by (auto simp: applyEvent_None handleCreate_Inr)
next
  case (Some s)
  with assms show ?thesis by (auto dest!: applyEvent_Some applyTo_chain)
qed

lemma sameButNotes_chain: "sameButNotes s t \<Longrightarrow> st_eventChain t = st_eventChain s"
  by (auto simp: sameButNotes_def)

lemma replayStep_chainFrom:
  assumes "replayStep E x pos e = Inr pos'" "chainFrom x es (po_state pos)" "e \<in> set es"
  shows "chainFrom x es (po_state pos')"
proof (cases "applyEvent E (po_state pos) e")
  case (Inl c)
  with assms(1) have r: "onReject x pos e c = Inr pos'" by (simp add: replayStep_def)
  show ?thesis
  proof (cases "po_state pos")
    case None
    with r show ?thesis
      by (auto simp: chainFrom_def onReject_def Let_def withClaimant_def split: verdict.splits if_splits)
  next
    case (Some s)
    from onReject_state [OF r this] obtain t where "po_state pos' = Some t" "sameButNotes s t" by blast
    with assms(2) Some show ?thesis by (simp add: chainFrom_def sameButNotes_chain [of s t])
  qed
next
  case (Inr s)
  with assms(1) have p: "po_state pos' = Some s" "ev_kind e \<noteq> K_JOIN \<Longrightarrow> missingPrev x e \<Longrightarrow> \<not> inChain s (ev_id e)"
    by (auto simp: replayStep_def split: if_splits)
  have sub: "set (st_eventChain s) \<subseteq> insert e (case po_state pos of None \<Rightarrow> {} | Some s \<Rightarrow> set (st_eventChain s))"
    by (rule applyEvent_chain [OF Inr])
  have "ev_kind f = K_JOIN \<or> \<not> missingPrev x f" "f \<in> set es" if f: "f \<in> set (st_eventChain s)" for f
  proof -
    have "f \<noteq> e \<Longrightarrow> \<exists>t. po_state pos = Some t \<and> f \<in> set (st_eventChain t)"
      using sub f by (auto split: option.splits)
    with assms(2,3) p(2) f show "ev_kind f = K_JOIN \<or> \<not> missingPrev x f" "f \<in> set es"
      by (cases "f = e"; auto simp: chainFrom_def inChain_iff)+
  qed
  with p(1) show ?thesis by (auto simp: chainFrom_def)
qed

lemma replayLoop_chainFrom:
  "replayLoop E x rest pos = Inr pos' \<Longrightarrow> set rest \<subseteq> set es \<Longrightarrow> chainFrom x es (po_state pos)
    \<Longrightarrow> chainFrom x es (po_state pos')"
proof (induction rest arbitrary: pos)
  case (Cons e rest)
  then obtain q where "replayStep E x pos e = Inr q" "replayLoop E x rest q = Inr pos'"
    by (auto split: sum.splits)
  with Cons replayStep_chainFrom [of E x pos e q es] show ?case by auto
qed simp

lemma addNotes_chain: "st_eventChain (addNotes es c s) = st_eventChain s"
  unfolding addNotes_def by (induction es arbitrary: s) (auto simp: addNote_def)

lemma closing_chain: "st_eventChain (closing w p i s) = st_eventChain s"
  by (simp add: closing_def Let_def addNotes_chain)

lemma replayRooted_chain:
  assumes "replayRooted E original es ignored released = Inr s" "e \<in> set (st_eventChain s)"
  shows "e \<in> set es" "ev_id e \<notin> set (ls_setAside (fst (stepsFor es released)))"
    "ev_kind e = K_JOIN \<or> \<not> missingPrev (replayContext original es released) e"
proof -
  from assms(1) obtain pos t where l: "replayLoop E (replayContext original es released)
      (replayedEvents es released) (startPos original) = Inr pos" "po_state pos = Some t"
    "st_eventChain s = st_eventChain t"
    by (auto simp: replayRooted_def closing_chain split: sum.splits option.splits)
  have "chainFrom (replayContext original es released) (replayedEvents es released) (po_state (startPos original))"
    by (simp add: startPos_def chainFrom_def)
  from replayLoop_chainFrom [OF l(1) order.refl this]
  have "chainFrom (replayContext original es released) (replayedEvents es released) (Some t)" by (simp only: l(2))
  moreover from assms(2) have "e \<in> set (st_eventChain t)" by (simp only: l(3))
  ultimately have "e \<in> set (replayedEvents es released)"
    "ev_kind e = K_JOIN \<or> \<not> missingPrev (replayContext original es released) e"
    unfolding chainFrom_def by blast+
  then show "e \<in> set es" "ev_id e \<notin> set (ls_setAside (fst (stepsFor es released)))"
    "ev_kind e = K_JOIN \<or> \<not> missingPrev (replayContext original es released) e"
    by (auto simp: replayedEvents_def)
qed

end
