(* ===== verification/Chain_Sort.thy ===== *)
theory Chain_Sort
  imports Handle_Settle
begin

text \<open>
  \<open>sortEventChain\<close> of \<open>src/escrow-engine/event-parser.ts\<close>: the dependency order in which a
  replay reads events. State events are sorted topologically on their predecessor references
  (signed time, kind priority and id break ties), the auxiliary kinds are interleaved by time,
  then transport messages are moved before the stalled request or the COMPLETE that needs them.
  Event ids are hexadecimal, so \<open>localeCompare\<close> is the order of code units.
\<close>

section \<open>State events\<close>

definition isAux :: "event \<Rightarrow> bool" where
  "isAux e \<longleftrightarrow> ev_kind e \<in> {K_CHAT, K_PREMIUM, K_SETTLEMENT}"

fun kindPriority :: "ekind \<Rightarrow> rat" where
  "kindPriority K_CREATE = 0"
| "kindPriority K_SUBSCRIBE = 1"
| "kindPriority K_JOIN = 2"
| "kindPriority K_LOCK = 3"
| "kindPriority K_LOCK_STEP = 7/2"
| "kindPriority K_VOTE = 4"
| "kindPriority K_PERIOD_RELEASE = 4"
| "kindPriority K_RESOLVE = 5"
| "kindPriority K_SETTLEMENT_STALLED = 11/2"
| "kindPriority K_CLAIM = 6"
| "kindPriority K_COMPLETE = 7"
| "kindPriority K_CANCEL = 8"
| "kindPriority _ = 99"

definition eventBefore :: "event \<Rightarrow> event \<Rightarrow> bool" where
  "eventBefore a b \<longleftrightarrow> ev_timestamp a < ev_timestamp b
     \<or> (ev_timestamp a = ev_timestamp b \<and> (kindPriority (ev_kind a) < kindPriority (ev_kind b)
        \<or> (kindPriority (ev_kind a) = kindPriority (ev_kind b) \<and> ev_id a < ev_id b)))"

text \<open>\<open>new Map(events.map(e => [id, e]))\<close>: the place of the first event of an id, the value of the last.\<close>

definition lastById :: "event list \<Rightarrow> event \<Rightarrow> event" where
  "lastById es e = (case List.find (\<lambda>f. ev_id f = ev_id e) (rev es) of Some f \<Rightarrow> f | None \<Rightarrow> e)"

definition uniqueById :: "event list \<Rightarrow> event list" where
  "uniqueById es = map (lastById es) (dedupeOn ev_id [] es)"

text \<open>The predecessor of an event that is still waiting to be placed.\<close>

definition waitsFor :: "event list \<Rightarrow> event \<Rightarrow> bool" where
  "waitsFor remaining e = (case nonEmpty (ev_prev e) of None \<Rightarrow> False | Some i \<Rightarrow> i \<in> ev_id ` set remaining)"

definition readyEvents :: "event list \<Rightarrow> event list" where
  "readyEvents remaining = sortWith eventBefore (filter (\<lambda>e. \<not> waitsFor remaining e) remaining)"

definition nextEvent :: "event list \<Rightarrow> event" where
  "nextEvent remaining = (let ready = readyEvents remaining in
     case List.find (\<lambda>e. ev_kind e = K_CREATE) ready of
       Some e \<Rightarrow> e
     | None \<Rightarrow> (case ready of e # _ \<Rightarrow> e | [] \<Rightarrow> hd (sortWith eventBefore remaining)))"

lemma nextEvent_in: "remaining \<noteq> [] \<Longrightarrow> nextEvent remaining \<in> set remaining"
proof -
  assume ne: "remaining \<noteq> []"
  have sub: "set (readyEvents remaining) \<subseteq> set remaining" by (auto simp: readyEvents_def)
  have "sortWith eventBefore remaining \<noteq> []" using ne by (metis length_0_conv length_sortWith)
  then have "hd (sortWith eventBefore remaining) \<in> set remaining" by (metis hd_in_set set_sortWith)
  with sub show ?thesis
    by (auto simp: nextEvent_def Let_def dest!: find_Some_in split: option.splits list.splits)
qed

definition dropId :: "string \<Rightarrow> event list \<Rightarrow> event list" where
  "dropId i es = filter (\<lambda>e. ev_id e \<noteq> i) es"

lemma dropId_shorter: "e \<in> set es \<Longrightarrow> length (dropId (ev_id e) es) < length es"
  unfolding dropId_def by (rule length_filter_less) auto

function topoSort :: "event list \<Rightarrow> event list" where
  "topoSort remaining = (if remaining = [] then []
     else (let e = nextEvent remaining in e # topoSort (dropId (ev_id e) remaining)))"
  by pat_completeness auto

termination
  by (relation "measure length") (auto simp: Let_def dropId_shorter nextEvent_in)

declare topoSort.simps [simp del]

section \<open>Auxiliary events\<close>

text \<open>After the last event that is not later; at the end when all are later.\<close>

definition insertChat :: "event list \<Rightarrow> event \<Rightarrow> event list" where
  "insertChat evs c = (let later = takeWhile (\<lambda>x. ev_timestamp x > ev_timestamp c) (rev evs) in
     if length later = length evs then evs @ [c]
     else take (length evs - length later) evs @ c # drop (length evs - length later) evs)"

definition messageBefore :: "event \<Rightarrow> event \<Rightarrow> bool" where
  "messageBefore a b \<longleftrightarrow> ev_timestamp a < ev_timestamp b \<or> (ev_timestamp a = ev_timestamp b \<and> ev_id a < ev_id b)"

fun insertBefore :: "event \<Rightarrow> event \<Rightarrow> event list \<Rightarrow> event list" where
  "insertBefore request m [] = [m]"
| "insertBefore request m (e # es) = (if e = request then m # e # es else e # insertBefore request m es)"

definition moveBefore :: "event \<Rightarrow> event list \<Rightarrow> event \<Rightarrow> event list" where
  "moveBefore request evs m = insertBefore request m (remove1 m evs)"

definition gatherTransport :: "event list \<Rightarrow> event \<Rightarrow> event list" where
  "gatherTransport evs request = foldl (moveBefore request) evs
     (sortWith messageBefore
       (filter (\<lambda>e. ev_kind e = K_SETTLEMENT \<and> ev_timestamp e \<le> ev_timestamp request) evs))"

definition proofIndex :: "event list \<Rightarrow> string \<Rightarrow> nat option" where
  "proofIndex evs i = (let n = length (takeWhile (\<lambda>e. \<not> (ev_id e = i \<and> ev_kind e = K_SETTLEMENT)) evs)
     in if n < length evs then Some n else None)"

definition removeAt :: "nat \<Rightarrow> event list \<Rightarrow> event list" where
  "removeAt n evs = take n evs @ drop (Suc n) evs"

definition insertAt :: "nat \<Rightarrow> event \<Rightarrow> event list \<Rightarrow> event list" where
  "insertAt n e evs = take n evs @ e # drop n evs"

definition linkProof :: "event list \<Rightarrow> nat \<Rightarrow> event list" where
  "linkProof evs k =
     (if ev_kind (evs ! k) \<noteq> K_COMPLETE then evs
      else case nonEmpty (settlementTag (evs ! k)) of
        None \<Rightarrow> evs
      | Some i \<Rightarrow> (case proofIndex evs i of
          None \<Rightarrow> evs
        | Some n \<Rightarrow> if Suc n = k then evs
            else insertAt (if n < k then k - 1 else k) (evs ! n) (removeAt n evs)))"

definition sortEventChain :: "event list \<Rightarrow> event list" where
  "sortEventChain events =
     (let sorted = topoSort (uniqueById (filter (\<lambda>e. \<not> isAux e) events));
          woven = foldl insertChat sorted (filter isAux events);
          gathered = foldl gatherTransport woven (filter (\<lambda>e. ev_kind e = K_SETTLEMENT_STALLED) woven)
      in foldl linkProof gathered [0..<length gathered])"

section \<open>The topological phase\<close>

lemma uniqueById_ids: "map ev_id (uniqueById es) = map ev_id (dedupeOn ev_id [] es)"
proof -
  have "ev_id (lastById es e) = ev_id e" for e
    by (auto simp: lastById_def dest!: find_Some_in split: option.splits)
  then show ?thesis by (simp add: uniqueById_def)
qed

lemma uniqueById_distinct: "distinct (map ev_id (uniqueById es))"
  by (simp add: uniqueById_ids dedupeOn_distinct)

lemma uniqueById_set_ids: "ev_id ` set (uniqueById es) = ev_id ` set es"
  using dedupeOn_set [of ev_id "[]" es] uniqueById_ids [of es] by (metis Diff_empty list.set(1) set_map)

lemma lastById_in: "e \<in> set es \<Longrightarrow> lastById es e \<in> set es"
  by (auto simp: lastById_def dest!: find_Some_in split: option.splits)

lemma uniqueById_subset: "set (uniqueById es) \<subseteq> set es"
  using dedupeOn_subset [of ev_id "[]" es] by (auto simp: uniqueById_def intro: lastById_in)

text \<open>Without two events of one id nothing is dropped.\<close>

lemma dedupeOn_id:
  "distinct (map key xs) \<Longrightarrow> key ` set xs \<inter> set seen = {} \<Longrightarrow> dedupeOn key seen xs = xs"
  by (induction xs arbitrary: seen) auto

lemma lastById_self: "distinct (map ev_id es) \<Longrightarrow> e \<in> set es \<Longrightarrow> lastById es e = e"
  by (auto simp: lastById_def distinct_map inj_on_def dest!: find_Some_in split: option.splits)

lemma uniqueById_self: "distinct (map ev_id es) \<Longrightarrow> uniqueById es = es"
  by (simp add: uniqueById_def dedupeOn_id lastById_self map_idI)

lemma dropId_mset:
  "distinct (map ev_id es) \<Longrightarrow> e \<in> set es \<Longrightarrow> add_mset e (mset (dropId (ev_id e) es)) = mset es"
proof (induction es)
  case (Cons x es)
  show ?case
  proof (cases "x = e")
    case True
    with Cons.prems have "\<forall>x\<in>set es. ev_id x \<noteq> ev_id e" by (metis distinct.simps(2) image_eqI list.simps(9) set_map)
    then have "dropId (ev_id e) es = es" by (simp add: dropId_def)
    with True show ?thesis by (simp add: dropId_def)
  next
    case False
    with Cons.prems have "ev_id x \<noteq> ev_id e" "e \<in> set es" by auto
    with Cons show ?thesis by (auto simp: dropId_def)
  qed
qed simp

lemma dropId_distinct: "distinct (map ev_id es) \<Longrightarrow> distinct (map ev_id (dropId i es))"
  by (simp add: dropId_def distinct_map_filter)

lemma topoSort_mset: "distinct (map ev_id es) \<Longrightarrow> mset (topoSort es) = mset es"
proof (induction es rule: topoSort.induct)
  case (1 es)
  show ?case
  proof (cases "es = []")
    case False
    with 1 have "mset (topoSort (dropId (ev_id (nextEvent es)) es)) = mset (dropId (ev_id (nextEvent es)) es)"
      by (simp add: dropId_distinct)
    with 1(2) False nextEvent_in [OF False] show ?thesis
      by (subst topoSort.simps) (simp add: Let_def dropId_mset)
  qed (simp add: topoSort.simps)
qed

text \<open>A root CREATE is placed first.\<close>

lemma nextEvent_create:
  assumes "c \<in> set es" "ev_kind c = K_CREATE" "nonEmpty (ev_prev c) = None"
  shows "ev_kind (nextEvent es) = K_CREATE"
proof -
  from assms have "c \<in> set (readyEvents es)" by (simp add: readyEvents_def waitsFor_def)
  with assms(2) obtain e where "List.find (\<lambda>e. ev_kind e = K_CREATE) (readyEvents es) = Some e"
    by (cases "List.find (\<lambda>e. ev_kind e = K_CREATE) (readyEvents es)") (auto simp: find_None_iff_ball)
  then show ?thesis by (auto simp: nextEvent_def Let_def dest: find_Some_in)
qed

text \<open>On an acyclic read (\<open>rank\<close> grows along the references) every event is placed when its
  predecessor no longer waits.\<close>

lemma ready_exists:
  fixes rank :: "event \<Rightarrow> nat"
  assumes "es \<noteq> []" "\<And>a b. a \<in> set es \<Longrightarrow> b \<in> set es \<Longrightarrow> nonEmpty (ev_prev a) = Some (ev_id b) \<Longrightarrow> rank b < rank a"
  shows "readyEvents es \<noteq> []"
proof -
  obtain e where e: "e \<in> set es" "\<forall>f\<in>set es. rank e \<le> rank f"
    using ex_min_if_finite [of "rank ` set es"] assms(1) by (metis (no_types, lifting) List.finite_set
        arg_min_if_finite(1) arg_min_least set_empty)
  have "\<not> waitsFor es e"
  proof
    assume "waitsFor es e"
    then obtain f where "f \<in> set es" "nonEmpty (ev_prev e) = Some (ev_id f)"
      by (auto simp: waitsFor_def split: option.splits)
    with assms(2) e show False by (meson leD)
  qed
  with e(1) have "e \<in> set (readyEvents es)" by (simp add: readyEvents_def)
  then show ?thesis by auto
qed

lemma nextEvent_ready: "readyEvents es \<noteq> [] \<Longrightarrow> nextEvent es \<in> set (readyEvents es)"
  by (auto simp: nextEvent_def Let_def dest!: find_Some_in split: option.splits list.splits)

lemma topoSort_causal:
  fixes rank :: "event \<Rightarrow> nat"
  assumes "distinct (map ev_id es)"
    and "\<And>a b. a \<in> set es \<Longrightarrow> b \<in> set es \<Longrightarrow> nonEmpty (ev_prev a) = Some (ev_id b) \<Longrightarrow> rank b < rank a"
  shows "sorted_wrt (\<lambda>a b. nonEmpty (ev_prev a) \<noteq> Some (ev_id b)) (topoSort es)"
  using assms
proof (induction es rule: topoSort.induct)
  case (1 es)
  show ?case
  proof (cases "es = []")
    case False
    let ?e = "nextEvent es" let ?rest = "dropId (ev_id ?e) es"
    have rest: "set ?rest \<subseteq> set es" by (auto simp: dropId_def)
    have "sorted_wrt (\<lambda>a b. nonEmpty (ev_prev a) \<noteq> Some (ev_id b)) (topoSort ?rest)"
      using 1(2,3) rest by (intro 1(1) [OF False refl]) (auto simp: dropId_distinct)
    moreover have "nonEmpty (ev_prev ?e) \<noteq> Some (ev_id b)" if "b \<in> set (topoSort ?rest)" for b
    proof -
      have "b \<in> set es" using that topoSort_mset [OF dropId_distinct [OF 1(2)], of "ev_id ?e"] rest
        by (metis in_mono set_mset_mset)
      moreover have "\<not> waitsFor es ?e"
        using nextEvent_ready [OF ready_exists [OF False 1(3)]] by (auto simp: readyEvents_def)
      ultimately show ?thesis by (auto simp: waitsFor_def)
    qed
    ultimately show ?thesis using False by (subst topoSort.simps) (simp add: Let_def)
  qed (simp add: topoSort.simps)
qed

section \<open>The auxiliary phases\<close>

text \<open>Each phase only adds or moves auxiliary events: the state events keep their order.\<close>

lemma insertChat_split: "\<exists>us vs. evs = us @ vs \<and> insertChat evs c = us @ c # vs"
proof (cases "length (takeWhile (\<lambda>x. ev_timestamp x > ev_timestamp c) (rev evs)) = length evs")
  case True
  then show ?thesis by (intro exI [of _ evs] exI [of _ "[]"]) (simp add: insertChat_def Let_def)
next
  case False
  let ?n = "length evs - length (takeWhile (\<lambda>x. ev_timestamp x > ev_timestamp c) (rev evs))"
  from False show ?thesis
    by (intro exI [of _ "take ?n evs"] exI [of _ "drop ?n evs"]) (simp add: insertChat_def Let_def)
qed

lemma insertChat_mset: "mset (insertChat evs c) = add_mset c (mset evs)"
  using insertChat_split [of evs c] by auto

lemma insertChat_state: "isAux c \<Longrightarrow> filter (\<lambda>e. \<not> isAux e) (insertChat evs c) = filter (\<lambda>e. \<not> isAux e) evs"
  using insertChat_split [of evs c] by auto

lemma foldl_insertChat:
  "list_all isAux cs \<Longrightarrow> mset (foldl insertChat evs cs) = mset evs + mset cs
    \<and> filter (\<lambda>e. \<not> isAux e) (foldl insertChat evs cs) = filter (\<lambda>e. \<not> isAux e) evs"
  by (induction cs arbitrary: evs) (auto simp: insertChat_mset insertChat_state)

text \<open>The contract of a rearrangement: a permutation that keeps the order of the state events.\<close>

locale rearrangement =
  fixes move :: "event list \<Rightarrow> 'a \<Rightarrow> event list" and ok :: "event list \<Rightarrow> 'a \<Rightarrow> bool"
  assumes same_events: "ok evs a \<Longrightarrow> mset (move evs a) = mset evs"
    and same_order: "ok evs a \<Longrightarrow> filter (\<lambda>e. \<not> isAux e) (move evs a) = filter (\<lambda>e. \<not> isAux e) evs"
    and ok_stable: "ok evs a \<Longrightarrow> ok evs b \<Longrightarrow> ok (move evs a) b"
begin

lemma fold_keeps:
  "\<forall>a\<in>set as. ok evs a \<Longrightarrow> mset (foldl move evs as) = mset evs
    \<and> filter (\<lambda>e. \<not> isAux e) (foldl move evs as) = filter (\<lambda>e. \<not> isAux e) evs"
proof (induction as arbitrary: evs)
  case (Cons a as)
  then have a: "ok evs a" "\<forall>b\<in>set as. ok (move evs a) b" using ok_stable by auto
  from Cons.IH [OF a(2)] same_events [OF a(1)] same_order [OF a(1)] show ?case by simp
qed simp

end

lemma insertBefore_split: "\<exists>us vs. evs = us @ vs \<and> insertBefore r m evs = us @ m # vs"
proof (induction evs)
  case (Cons e evs)
  then obtain us vs where "evs = us @ vs" "insertBefore r m evs = us @ m # vs" by blast
  then show ?case
    by (cases "e = r") (auto intro: exI [of _ "[]"] exI [of _ "e # us"])
qed simp

lemma filter_remove1_not: "\<not> P m \<Longrightarrow> filter P (remove1 m evs) = filter P evs"
  by (induction evs) auto

interpretation moving: rearrangement "moveBefore request" "\<lambda>evs m. isAux m \<and> m \<in> set evs" for request
proof unfold_locales
  fix evs m assume a: "isAux m \<and> m \<in> set evs"
  obtain us vs where s: "remove1 m evs = us @ vs" "moveBefore request evs m = us @ m # vs"
    using insertBefore_split [of "remove1 m evs" request m] by (auto simp: moveBefore_def)
  have "mset (moveBefore request evs m) = add_mset m (mset (remove1 m evs))" by (simp add: s)
  with a show ms: "mset (moveBefore request evs m) = mset evs" by simp
  have "filter (\<lambda>e. \<not> isAux e) (moveBefore request evs m) = filter (\<lambda>e. \<not> isAux e) (remove1 m evs)"
    using a by (simp add: s)
  with a show "filter (\<lambda>e. \<not> isAux e) (moveBefore request evs m) = filter (\<lambda>e. \<not> isAux e) evs"
    by (simp add: filter_remove1_not)
  fix b assume "isAux b \<and> b \<in> set evs"
  with ms show "isAux b \<and> b \<in> set (moveBefore request evs m)" by (metis set_mset_mset)
qed

interpretation gathering: rearrangement gatherTransport "\<lambda>_ _. True"
proof unfold_locales
  fix evs and request :: event
  have "\<forall>m\<in>set (sortWith messageBefore
       (filter (\<lambda>e. ev_kind e = K_SETTLEMENT \<and> ev_timestamp e \<le> ev_timestamp request) evs)). isAux m \<and> m \<in> set evs"
    by (auto simp: isAux_def)
  from moving.fold_keeps [OF this]
  show "mset (gatherTransport evs request) = mset evs"
    "filter (\<lambda>e. \<not> isAux e) (gatherTransport evs request) = filter (\<lambda>e. \<not> isAux e) evs"
    by (simp_all add: gatherTransport_def)
qed simp

lemma proofIndex_Some:
  assumes "proofIndex evs i = Some n"
  shows "n < length evs" "isAux (evs ! n)"
proof -
  let ?P = "\<lambda>e. \<not> (ev_id e = i \<and> ev_kind e = K_SETTLEMENT)"
  from assms have n: "n = length (takeWhile ?P evs)" "n < length evs"
    by (auto simp: proofIndex_def Let_def split: if_splits)
  then show "n < length evs" by simp
  from nth_length_takeWhile [of ?P evs] n show "isAux (evs ! n)" by (simp add: isAux_def)
qed

lemma removeAt_facts:
  assumes "n < length evs"
  shows "add_mset (evs ! n) (mset (removeAt n evs)) = mset evs"
    "isAux (evs ! n) \<Longrightarrow> filter (\<lambda>e. \<not> isAux e) (removeAt n evs) = filter (\<lambda>e. \<not> isAux e) evs"
proof -
  have e: "evs = take n evs @ evs ! n # drop (Suc n) evs" using assms by (rule id_take_nth_drop)
  show "add_mset (evs ! n) (mset (removeAt n evs)) = mset evs"
    by (subst (3) e) (simp add: removeAt_def)
  assume "isAux (evs ! n)"
  then show "filter (\<lambda>e. \<not> isAux e) (removeAt n evs) = filter (\<lambda>e. \<not> isAux e) evs"
    by (subst (2) e) (simp add: removeAt_def)
qed

lemma insertAt_facts:
  "mset (insertAt k e evs) = add_mset e (mset evs)"
  "isAux e \<Longrightarrow> filter (\<lambda>e. \<not> isAux e) (insertAt k e evs) = filter (\<lambda>e. \<not> isAux e) evs"
proof -
  have s: "mset (take k evs) + mset (drop k evs) = mset evs"
    by (metis append_take_drop_id mset_append)
  show "mset (insertAt k e evs) = add_mset e (mset evs)"
    using s by (simp add: insertAt_def)
  assume a: "isAux e"
  have "filter (\<lambda>e. \<not> isAux e) evs = filter (\<lambda>e. \<not> isAux e) (take k evs @ drop k evs)" by simp
  with a show "filter (\<lambda>e. \<not> isAux e) (insertAt k e evs) = filter (\<lambda>e. \<not> isAux e) evs"
    by (simp add: insertAt_def del: append_take_drop_id)
qed

text \<open>A linked proof is moved, or nothing happens.\<close>

lemma linkProof_cases:
  "linkProof evs k = evs \<or> (\<exists>n m. n < length evs \<and> isAux (evs ! n)
     \<and> linkProof evs k = insertAt m (evs ! n) (removeAt n evs))"
proof (cases "proofIndex evs (getOr (nonEmpty (settlementTag (evs ! k))) [])")
  case None
  then show ?thesis by (auto simp: linkProof_def split: option.splits)
next
  case (Some n)
  from proofIndex_Some [OF this] Some show ?thesis by (auto simp: linkProof_def split: option.splits)
qed

interpretation linking: rearrangement linkProof "\<lambda>_ _. True"
proof unfold_locales
  fix evs k
  consider "linkProof evs k = evs" | n m where "n < length evs" "isAux (evs ! n)"
    "linkProof evs k = insertAt m (evs ! n) (removeAt n evs)"
    using linkProof_cases [of evs k] by blast
  then have "mset (linkProof evs k) = mset evs
      \<and> filter (\<lambda>e. \<not> isAux e) (linkProof evs k) = filter (\<lambda>e. \<not> isAux e) evs"
    by cases (simp_all add: insertAt_facts removeAt_facts)
  then show "mset (linkProof evs k) = mset evs"
    "filter (\<lambda>e. \<not> isAux e) (linkProof evs k) = filter (\<lambda>e. \<not> isAux e) evs" by auto
qed simp

text \<open>The whole sort: the unique state events and every auxiliary event, once each; the state
  events in topological order.\<close>

lemma sortEventChain_facts:
  "mset (sortEventChain es) = mset (uniqueById (filter (\<lambda>e. \<not> isAux e) es)) + mset (filter isAux es)"
  "filter (\<lambda>e. \<not> isAux e) (sortEventChain es) = topoSort (uniqueById (filter (\<lambda>e. \<not> isAux e) es))"
proof -
  let ?u = "uniqueById (filter (\<lambda>e. \<not> isAux e) es)"
  let ?w = "foldl insertChat (topoSort ?u) (filter isAux es)"
  let ?g = "foldl gatherTransport ?w (filter (\<lambda>e. ev_kind e = K_SETTLEMENT_STALLED) ?w)"
  have t: "mset (topoSort ?u) = mset ?u" by (rule topoSort_mset) (rule uniqueById_distinct)
  have "set (topoSort ?u) = set ?u" by (rule mset_eq_setD [OF t])
  moreover have "set ?u \<subseteq> {e. \<not> isAux e}"
    by (rule order_trans [OF uniqueById_subset]) auto
  ultimately have "\<forall>e\<in>set (topoSort ?u). \<not> isAux e" by blast
  then have f: "filter (\<lambda>e. \<not> isAux e) (topoSort ?u) = topoSort ?u" by (rule filter_True)
  have w: "mset ?w = mset (topoSort ?u) + mset (filter isAux es)" "filter (\<lambda>e. \<not> isAux e) ?w = topoSort ?u"
    using foldl_insertChat [of "filter isAux es" "topoSort ?u"] f by (simp_all add: list_all_iff)
  note g = gathering.fold_keeps [of "filter (\<lambda>e. ev_kind e = K_SETTLEMENT_STALLED) ?w" ?w, simplified]
  note l = linking.fold_keeps [of "[0..<length ?g]" ?g, simplified]
  from l g w t show "mset (sortEventChain es) = mset ?u + mset (filter isAux es)"
    "filter (\<lambda>e. \<not> isAux e) (sortEventChain es) = topoSort ?u"
    by (simp_all add: sortEventChain_def Let_def)
qed

end
