(* ===== verification/Worked_Trade.thy ===== *)
theory Worked_Trade
  imports Replay Chain_Sort
begin

text \<open>
  Worked trades: concrete event sequences the properties are instantiated on. A peer-to-peer
  trade of 3000 msats with seller \<open>S\<close>, buyer \<open>B\<close> and a pool of arbiters headed by \<open>A\<close>, its
  share-withholding variant after the switch-on date, and an environment without Bitcoin.
\<close>

section \<open>Running a list of events\<close>

fun run :: "env \<Rightarrow> state option \<Rightarrow> event list \<Rightarrow> state option" where
  "run E st [] = st"
| "run E st (e # es) = (case applyEvent E st e of Inl _ \<Rightarrow> None | Inr s \<Rightarrow> run E (Some s) es)"

lemma run_append: "run E st (xs @ [e]) = Some s' \<Longrightarrow> xs \<noteq> [] \<Longrightarrow>
    \<exists>s. run E st xs = Some s \<and> applyEvent E (Some s) e = Inr s'"
proof (induction xs arbitrary: st)
  case (Cons x xs)
  then obtain t where t: "applyEvent E st x = Inr t" "run E (Some t) (xs @ [e]) = Some s'"
    by (auto split: sum.splits)
  with Cons.IH [OF t(2)] show ?case by (cases xs) (auto split: sum.splits)
qed simp

lemma run_from: "run E (Some s) es = Some s' \<Longrightarrow> reachable E s \<Longrightarrow> reachable E s'"
  by (induction es arbitrary: s) (auto split: sum.splits intro: reachable.stepped)

lemma run_reachable: "run E None es = Some s \<Longrightarrow> es \<noteq> [] \<Longrightarrow> reachable E s"
  by (cases es) (auto split: sum.splits intro: run_from reachable.created)

section \<open>The environment and the events\<close>

definition plainEnv :: env where
  "plainEnv = \<lparr>e_sha = (\<lambda>s. s), e_msScript = (\<lambda>_. None), e_csvScript = (\<lambda>_ _. None),
     e_cltvScript = (\<lambda>_ _. None), e_treeOutput = (\<lambda>_ _. None), e_controlBlock = (\<lambda>_ _ _. None),
     e_keyAddress = (\<lambda>_ _. None), e_parsePsbt = (\<lambda>_. None), e_assemble = (\<lambda>_ _ _ _ _ _ _. None),
     e_combine = (\<lambda>_. None), e_finalizeAll = (\<lambda>_. None), e_finalizeWith = (\<lambda>_ _. None),
     e_outAddress = (\<lambda>_ _. None), e_tapLeafHash = (\<lambda>s. s), e_sighash = (\<lambda>_ _ _ _ _. None),
     e_schnorrVerify = (\<lambda>_ _ _. False), e_verifyEvent = (\<lambda>_. False), e_parseJson = (\<lambda>_. None)\<rparr>"

definition mkEvent :: "string \<Rightarrow> string \<Rightarrow> int \<Rightarrow> string option \<Rightarrow> payload \<Rightarrow> event" where
  "mkEvent i pk t prev p = \<lparr>ev_id = i, ev_pubkey = pk, ev_timestamp = t, ev_tags = [], ev_escrowId = ''trade'',
     ev_prev = prev, ev_payload = p, ev_chamaParent = None, ev_chamaWitness = None, ev_chamaCycle = None\<rparr>"

definition wCreate :: "int \<Rightarrow> event" where
  "wCreate t = mkEvent ''e0'' ''S'' t None (PCreate ((plainCreate ''sats'' ''p2p-trade'' 3000 ''mint'' ''P'' 1000 t)
     \<lparr>cp_communityArbiters := Some [''A'', ''C'', ''D'']\<rparr>))"

definition wJoin :: "int \<Rightarrow> event" where
  "wJoin t = mkEvent ''e1'' ''B'' (t + 10) (Some ''e0'') (PJoin \<lparr>jp_fundingTerms = None, jp_role = BUYER,
     jp_escrowXonly = None, jp_arbiterFeeMsats = None, jp_joinedAt = t + 10, jp_holdExpiresAt = None,
     jp_selectedItems = None, jp_amountMsats = None, jp_orderFinalizedAt = None\<rparr>)"

definition wShare :: "int \<Rightarrow> string list \<Rightarrow> string option \<Rightarrow> share_entry" where
  "wShare i keys commitment = \<lparr>se_shareIndex = i, se_encryptedFor = map (\<lambda>k. (k, ''x'')) keys, se_commitment = commitment\<rparr>"

definition wLock :: "int \<Rightarrow> bool \<Rightarrow> event" where
  "wLock t held = mkEvent ''e2'' ''S'' (t + 20) (Some ''e1'') (PLock \<lparr>lp_notesHash = ''notes'', lp_onchain = None,
     lp_shares = Some (if held then [wShare 0 [] (Some ''c0''), wShare 1 [''S''] None, wShare 2 [] (Some ''c2'')]
       else [wShare 0 [''B''] None, wShare 1 [''S''] None, wShare 2 [''A''] None]),
     lp_sharePolicy = Some ''holder-only-v1'', lp_arbiterPoolShare = Some True,
     lp_substitutionGraceSeconds = Some 100, lp_withheldShares = (if held then Some True else None),
     lp_withheldBackup = None, lp_sellerReceivesMsats = jsInt 2900, lp_arbiterFeeMsats = jsInt 100,
     lp_platformFeeMsats = None, lp_selectedItems = None, lp_buyerPubkey = ''B'', lp_arbiterPubkey = ''A'',
     lp_handleEnvelope = None, lp_handleId = None, lp_handle = None, lp_rail = None,
     lp_handleNetworks = None, lp_lockedAt = t + 20\<rparr>)"

definition wVote :: "string \<Rightarrow> string \<Rightarrow> role \<Rightarrow> outcome \<Rightarrow> int \<Rightarrow> event" where
  "wVote i pk r oc t = mkEvent i pk t (Some ''e2'') (PVote \<lparr>vp_onchainRelease = None, vp_outcome = oc, vp_role = r,
     vp_shareEnvelope = None, vp_fillEvidence = None, vp_votedAt = t\<rparr>)"

definition wResolve :: "outcome \<Rightarrow> role list \<Rightarrow> int \<Rightarrow> event" where
  "wResolve oc rs t = mkEvent ''e6'' ''A'' t (Some ''e2'') (PResolve \<lparr>rp_outcome = oc, rp_majority = rs,
     rp_fillEvidence = None, rp_resolvedAt = t\<rparr>)"

definition wClaim :: "string \<Rightarrow> int \<Rightarrow> event" where
  "wClaim pk t = mkEvent ''e7'' pk t (Some ''e6'') (PClaim \<lparr>clp_claimerRole = ARBITER,
     clp_notesHashVerification = ''notes'', clp_claimedAt = t\<rparr>)"

definition wComplete :: "string \<Rightarrow> int \<Rightarrow> event" where
  "wComplete pk t = mkEvent ''e8'' pk t (Some ''e7'') (PComplete t)"

text \<open>A disputed trade that the seated arbiter decides for the buyer.\<close>

definition wLocked :: "int \<Rightarrow> event list" where
  "wLocked t = [wCreate t, wJoin t, wLock t False]"

definition wDispute :: "int \<Rightarrow> event list" where
  "wDispute t = wLocked t @ [wVote ''e3'' ''B'' BUYER RELEASE (t + 30), wVote ''e4'' ''S'' SELLER REFUND (t + 40)]"

definition wDecided :: "int \<Rightarrow> event list" where
  "wDecided t = wDispute t @ [wVote ''e5'' ''A'' ARBITER RELEASE (t + 50),
     wResolve RELEASE [ARBITER, BUYER] (t + 60)]"

definition wClaimed :: "int \<Rightarrow> event list" where
  "wClaimed t = wDecided t @ [wClaim ''B'' (t + 70)]"

section \<open>Reached states\<close>

text \<open>The state after a list of events, and a decidable test that every event was accepted.\<close>

definition stateAfter :: "event list \<Rightarrow> state" where
  "stateAfter es = the (run plainEnv None es)"

definition ran :: "event list \<Rightarrow> bool" where
  "ran es = (case run plainEnv None es of None \<Rightarrow> False | Some _ \<Rightarrow> es \<noteq> [])"

lemma ran_reachable: "ran es \<Longrightarrow> reachable plainEnv (stateAfter es)"
  by (auto simp: ran_def stateAfter_def intro: run_reachable split: option.splits)

lemma ran_step:
  assumes "ran (es @ [e])" "es \<noteq> []"
  shows "applyEvent plainEnv (Some (stateAfter es)) e = Inr (stateAfter (es @ [e]))" "ran es"
  using assms by (auto simp: ran_def stateAfter_def dest!: run_append split: option.splits)

text \<open>One run settles every decidable fact of its last state.\<close>

definition ends :: "event list \<Rightarrow> (state \<Rightarrow> bool) \<Rightarrow> bool" where
  "ends es P = (case run plainEnv None es of None \<Rightarrow> False | Some s \<Rightarrow> es \<noteq> [] \<and> P s)"

lemma endsD:
  assumes "ends es P"
  shows "ran es" "P (stateAfter es)"
  using assms by (simp_all add: ends_def ran_def stateAfter_def split: option.splits)

lemma worked_ends:
  "ends (wLocked 1000) (\<lambda>s. st_status s = LOCKED)" "ends (wDispute 1000) (\<lambda>s. st_status s = LOCKED)"
  "ends (wDecided 1000) (\<lambda>s. st_status s = APPROVED)" "ends (wClaimed 1000) (\<lambda>s. st_status s = CLAIMED)"
  by code_simp+

lemmas worked_ran = worked_ends [THEN endsD(1)]
lemmas worked_status = worked_ends [THEN endsD(2)]

end
