(* ===== verification/Vote_Properties.thy ===== *)
theory Vote_Properties
  imports Worked_Trade
begin

text \<open>
  Who decides a trade and when: the sender's gate \<open>canVote\<close> against the reducer's \<open>handleVote\<close>,
  the conditions under which an arbiter's vote is accepted, the priority order of a pooled LOCK
  and its clocks. Properties across \<open>Handle_Vote\<close>, \<open>Arbiter_Substitution\<close> and \<open>Reducer\<close>.
\<close>

section \<open>Votes\<close>

lemma vote_pastDeadline:
  "ev_payload e = PVote p \<Longrightarrow> st_status s \<in> {LOCKED, EXPIRED} \<Longrightarrow> pastDeadline s e \<longleftrightarrow> st_expiresAt s < ev_timestamp e"
  by (auto simp: pastDeadline_def activatesDeferredTranche_def ev_kind_def)

text \<open>A vote is judged by \<open>handleVote\<close> on the trade, or on its expiry once the deadline is past.\<close>

definition judgedOn :: "state \<Rightarrow> event \<Rightarrow> state" where
  "judgedOn s e = (if st_expiresAt s < ev_timestamp e then expire s else s)"

lemma vote_handled:
  assumes "ev_payload e = PVote p" "st_status s \<in> {LOCKED, EXPIRED}" "\<not> inChain s (ev_id e)"
    and "circleLaw E s e = None" "st_expiresAt s < ev_timestamp e \<Longrightarrow> \<not> strangerPastExpiry s e"
  shows "applyEvent E (Some s) e = handleVote E (judgedOn s e) e p"
proof -
  have "expire s = s" if "st_status s = EXPIRED" using that by (simp add: expire_def)
  with assms vote_pastDeadline [OF assms(1,2)] show ?thesis
    by (auto simp: applyEvent_def applyTo_def applyChained_def dispatch_simps judgedOn_def ev_kind_def
        TRULY_TERMINAL_STATES_def)
qed

text \<open>The state a vote is judged on differs from the trade in its status only.\<close>

lemma judgedOn_fields:
  "st_votes (judgedOn s e) = st_votes s" "st_lock (judgedOn s e) = st_lock s"
  "st_participants (judgedOn s e) = st_participants s" "st_eventChain (judgedOn s e) = st_eventChain s"
  "st_chamaPolicy (judgedOn s e) = st_chamaPolicy s" "st_id (judgedOn s e) = st_id s"
  "st_communityArbiters (judgedOn s e) = st_communityArbiters s" "st_category (judgedOn s e) = st_category s"
  "st_expiresAt (judgedOn s e) = st_expiresAt s" "st_chamaCircle (judgedOn s e) = st_chamaCircle s"
  by (simp_all add: judgedOn_def)

lemma judgedOn_recipient: "payoutRecipientFor (judgedOn s e) = payoutRecipientFor s"
  by (intro ext payoutRecipient_cong) (simp_all add: judgedOn_fields)

lemma judgedOn_same:
  "bothVoted (judgedOn s e) = bothVoted s" "principalsAgree (judgedOn s e) = principalsAgree s"
  "hasVoted (judgedOn s e) = hasVoted s" "sharesHeldBack (judgedOn s e) = sharesHeldBack s"
  "getRole (judgedOn s e) = getRole s" "arbiterVotePriority (judgedOn s e) = arbiterVotePriority s"
  "isPerformanceContest (judgedOn s e) = isPerformanceContest s"
  by (simp_all add: fun_eq_iff bothVoted_def principalsAgree_def voteOf_def hasVoted_def sharesHeldBack_def
      getRole_def arbiterVotePriority_def arbiterPriorityOrder_def isPerformanceContest_def judgedOn_recipient
      judgedOn_fields cong: option.case_cong)

lemma judgedOn_envelope: "validateVoteShareEnvelope env (judgedOn s e) = validateVoteShareEnvelope env s"
  by (intro ext) (simp add: validateVoteShareEnvelope_def judgedOn_recipient)

text \<open>C13. The sender's gate is sound: when \<open>canVote\<close> lets a key vote on an ecash trade outside the
  circles, the reducer accepts its VOTE for the seat \<open>canVote\<close> found, as long as the envelope is
  valid; the only case the gate does not cover is a backup arbiter on an expired trade who does
  not vote REFUND in an undecided performance contest.\<close>

theorem canVote_sound:
  assumes "canVote E s pk now (Some oc) cycle = None" "votingSeat s pk = Some (r, backup)"
    and "ev_payload e = PVote p" "ev_pubkey e = pk" "ev_timestamp e = now" "vp_role p = r" "vp_outcome p = oc"
    and "st_chamaPolicy s = None" "lk_onchain (st_lock s) = None" "vp_onchainRelease p = None"
    and "vp_shareEnvelope p = None \<or> (\<exists>env. vp_shareEnvelope p = Some env
           \<and> validateVoteShareEnvelope env s r oc (lk_notesHash (st_lock s)) = None)"
    and "\<not> inChain s (ev_id e)" "0 < st_expiresAt s"
    and "backup \<longrightarrow> healingAt s now \<longrightarrow> oc = REFUND \<or> isPerformanceContest s now"
  shows "\<exists>s'. applyEvent E (Some s) e = Inr s' \<and> hasVoted s' pk"
proof -
  from assms(1,2) have gate: "st_status s \<in> {LOCKED, EXPIRED}" "\<not> sharesHeldBack s" "\<not> hasVoted s pk"
    "\<forall>g\<in>set (seatTimingGuards s now r backup). \<not> fst g" by (auto simp: canVote_None firstFail_None)
  let ?t = "judgedOn s e"
  note fields = judgedOn_fields [of s e] and same = judgedOn_same [of s e] and envs = judgedOn_envelope [of _ s e]
  have exp: "st_status ?t = EXPIRED \<longleftrightarrow> healingAt s now" "st_status ?t \<in> {LOCKED, EXPIRED}"
    "\<not> healingAt s now \<Longrightarrow> ?t = s"
    using assms(5,13) gate(1) by (auto simp: judgedOn_def healingAt_def)
  have law: "voteLaw E x e p = None" "circleLaw E s e = None" if "st_chamaPolicy x = None" for x
    using that assms(8) by (simp_all add: voteLaw_def chamaOutcomeError_def circleLaw_def)
  have subs: "\<forall>g\<in>set (substituteGuards ?t e p). \<not> fst g" if "backup"
  proof (cases "healingAt s now")
    case True
    with that assms(2,4-7,14) exp(1) show ?thesis
      by (auto simp: substituteGuards_def same fields votingSeat_Some)
  next
    case False
    with that assms(2,4-7) gate(4) exp(1,3) show ?thesis
      by (simp add: substituteGuards_def votingSeat_Some seatTimingGuards_def notYet_def
          split: option.splits)
  qed
  have role: "voterRoleFor ?t e p = Inr r"
  proof (cases backup)
    case True
    with assms(2,4) subs show ?thesis by (simp add: voterRoleFor_def votingSeat_Some guarded_Inr same)
  next
    case False
    with assms(2,4) show ?thesis by (simp add: voterRoleFor_def votingSeat_Some same)
  qed
  have pre: "\<forall>g\<in>set (votePreGuards E ?t e p). \<not> fst g"
    using gate(2) exp(2) law(1) [of ?t] assms(8-10)
    by (simp add: votePreGuards_def same fields atomicReleaseError_def)
  have "\<not> healingAt s now \<Longrightarrow> r = ARBITER \<Longrightarrow> \<not> (\<not> bothVoted s \<and> notYet (oneSidedEscalationAt s) now)
      \<and> \<not> (bothVoted s \<and> principalsAgree s)"
    using gate(4) by (simp add: seatTimingGuards_def)
  then have own: "\<forall>g\<in>set (voteRoleGuards ?t e p r). \<not> fst g"
    using gate(3) exp(1,3) assms(4-7,11)
    by (auto simp: voteRoleGuards_def same fields envs)
  have "handleVote E ?t e p = Inr (votedState ?t e p r)"
    using pre own role by (auto simp: handleVote_Inr)
  moreover have "\<not> strangerPastExpiry s e"
    using assms(2,4) by (auto simp: strangerPastExpiry_def mayCarryPastExpiry_def votingSeat_Some)
  ultimately have "applyEvent E (Some s) e = Inr (votedState ?t e p r)"
    using vote_handled [OF assms(3) gate(1) assms(12) law(2) [OF assms(8)]] by simp
  then show ?thesis using assms(3,4)
    by (auto simp: hasVoted_iff votedState_frame ev_kind_def)
qed

theorem canVote_sound_witness:
  "\<exists>s'. applyEvent plainEnv (Some (stateAfter (wLocked 1000))) (wVote ''e3'' ''B'' BUYER RELEASE 1030) = Inr s'
    \<and> hasVoted s' ''B''"
proof (rule canVote_sound)
  have "ends (wLocked 1000) (\<lambda>s. Option.is_none (canVote plainEnv s ''B'' 1030 (Some RELEASE) None)
    \<and> votingSeat s ''B'' = Some (BUYER, False) \<and> Option.is_none (st_chamaPolicy s) \<and> Option.is_none (lk_onchain (st_lock s))
    \<and> \<not> inChain s (ev_id (wVote ''e3'' ''B'' BUYER RELEASE 1030)) \<and> 0 < st_expiresAt s)" by code_simp
  from endsD(2) [OF this]
  show "canVote plainEnv (stateAfter (wLocked 1000)) ''B'' 1030 (Some RELEASE) None = None"
    "votingSeat (stateAfter (wLocked 1000)) ''B'' = Some (BUYER, False)"
    "st_chamaPolicy (stateAfter (wLocked 1000)) = None" "lk_onchain (st_lock (stateAfter (wLocked 1000))) = None"
    "\<not> inChain (stateAfter (wLocked 1000)) (ev_id (wVote ''e3'' ''B'' BUYER RELEASE 1030))"
    "0 < st_expiresAt (stateAfter (wLocked 1000))" by (simp_all add: Option.is_none_def)
qed (simp add: wVote_def mkEvent_def)+

lemma vote_applied:
  assumes "applyEvent E (Some s) e = Inr s'" "ev_payload e = PVote p" "\<not> inChain s (ev_id e)"
    and "st_status s = LOCKED" "ev_timestamp e \<le> st_expiresAt s"
  shows "handleVote E s e p = Inr s'"
proof -
  have c: "circleLaw E s e = None" using assms(1,2) by (auto simp: applyEvent_def applyTo_def split: if_splits)
  show ?thesis
    using vote_handled [OF assms(2) _ assms(3) c] assms by (simp add: judgedOn_def)
qed

text \<open>The arbiter only speaks into a contest: an arbiter's VOTE accepted on a LOCKED trade in
  time finds buyer and seller on different outcomes, or one of them silent past the escalation
  moment. A signer who holds no seat is a backup of a pooled LOCK, and waited for the
  substitution window.\<close>

theorem arbiter_votes_only_in_a_contest:
  assumes "applyEvent E (Some s) e = Inr s'" "ev_payload e = PVote p" "vp_role p = ARBITER" "\<not> inChain s (ev_id e)"
    and "st_status s = LOCKED" "ev_timestamp e \<le> st_expiresAt s"
  shows "(if bothVoted s then voteOf s BUYER \<noteq> voteOf s SELLER
          else \<exists>t. oneSidedEscalationAt s = Some t \<and> t \<le> ev_timestamp e)
    \<and> (st_participants s ARBITER = Some (ev_pubkey e)
       \<or> (lk_arbiterPoolShare (st_lock s) = Some True \<and> arbiterVotePriority s (ev_pubkey e) \<noteq> None
          \<and> (\<exists>t. substitutionEligibleAt s = Some t \<and> t \<le> ev_timestamp e)))"
proof -
  from vote_applied [OF assms(1,2,4-6)] have h: "handleVote E s e p = Inr s'" .
  then have r: "voterRoleFor s e p = Inr ARBITER" and g: "\<forall>g\<in>set (voteRoleGuards s e p ARBITER). \<not> fst g"
    using assms(3) handleVote_facts(4) [OF h] by (auto simp: handleVote_Inr)
  from g assms(5) have "if bothVoted s then voteOf s BUYER \<noteq> voteOf s SELLER
      else \<exists>t. oneSidedEscalationAt s = Some t \<and> t \<le> ev_timestamp e"
    by (auto simp: voteRoleGuards_def principalsAgree_def notYet_def split: option.splits)
  moreover from voterRoleFor_Inr [OF r] assms(5) have "st_participants s ARBITER = Some (ev_pubkey e)
       \<or> (lk_arbiterPoolShare (st_lock s) = Some True \<and> arbiterVotePriority s (ev_pubkey e) \<noteq> None
          \<and> (\<exists>t. substitutionEligibleAt s = Some t \<and> t \<le> ev_timestamp e))"
    by (auto simp: substituteGuards_def notYet_def dest: getRole_Some split: option.splits)
  ultimately show ?thesis by blast
qed

definition wBallot :: "event list" where
  "wBallot = wDispute 1000 @ [wVote ''e5'' ''A'' ARBITER RELEASE 1050]"

lemma wVote_simps: "ev_id (wVote i pk r oc t) = i" "ev_pubkey (wVote i pk r oc t) = pk"
  "ev_timestamp (wVote i pk r oc t) = t"
  "\<exists>p. ev_payload (wVote i pk r oc t) = PVote p \<and> vp_role p = r \<and> vp_outcome p = oc"
  by (simp_all add: wVote_def mkEvent_def)

lemma wBallot_ends: "ends wBallot (\<lambda>s. st_actingArbiter s = Some ''A'')" by code_simp

lemma wBallot_step: "applyEvent plainEnv (Some (stateAfter (wDispute 1000))) (wVote ''e5'' ''A'' ARBITER RELEASE 1050)
    = Inr (stateAfter wBallot)"
proof -
  from endsD(1) [OF wBallot_ends] show ?thesis unfolding wBallot_def by (rule ran_step(1)) (simp add: wDispute_def wLocked_def)
qed

lemma wBallot_facts: "\<not> inChain (stateAfter (wDispute 1000)) ''e5''"
  "1050 \<le> st_expiresAt (stateAfter (wDispute 1000))" "bothVoted (stateAfter (wDispute 1000))"
  "st_participants (stateAfter (wDispute 1000)) ARBITER = Some ''A''"
  "lk_arbiterPoolShare (st_lock (stateAfter (wDispute 1000))) = Some True"
proof -
  have "ends (wDispute 1000) (\<lambda>s. \<not> inChain s ''e5'' \<and> 1050 \<le> st_expiresAt s \<and> bothVoted s
    \<and> st_participants s ARBITER = Some ''A'' \<and> lk_arbiterPoolShare (st_lock s) = Some True)" by code_simp
  from endsD(2) [OF this]
  show "\<not> inChain (stateAfter (wDispute 1000)) ''e5''"
    "1050 \<le> st_expiresAt (stateAfter (wDispute 1000))" "bothVoted (stateAfter (wDispute 1000))"
    "st_participants (stateAfter (wDispute 1000)) ARBITER = Some ''A''"
    "lk_arbiterPoolShare (st_lock (stateAfter (wDispute 1000))) = Some True" by simp_all
qed

theorem arbiter_votes_only_in_a_contest_witness:
  "voteOf (stateAfter (wDispute 1000)) BUYER \<noteq> voteOf (stateAfter (wDispute 1000)) SELLER
    \<and> st_participants (stateAfter (wDispute 1000)) ARBITER = Some ''A''"
  using arbiter_votes_only_in_a_contest [OF wBallot_step _ _ _ worked_status(2)] wBallot_facts
  by (auto simp: wVote_def mkEvent_def)

text \<open>C18. In a pooled LOCK the arbiter's slot follows the priority order: after an accepted
  arbiter VOTE it holds a vote of the chain by a member of the order, that member is the acting
  arbiter, and no other arbiter vote of the chain is by a member that comes earlier.\<close>

theorem lowest_priority_arbiter_decides:
  assumes "handleVote E s e p = Inr s'" "ev_payload e = PVote p" "vp_role p = ARBITER"
    and "lk_arbiterPoolShare (st_lock s) = Some True" "nonEmpty (st_participants s ARBITER) \<noteq> None"
  shows "\<exists>v q k. v \<in> set (st_eventChain s') \<and> ev_payload v = PVote q \<and> vp_role q = ARBITER
    \<and> voteOf s' ARBITER = Some (vp_outcome q) \<and> st_actingArbiter s' = Some (ev_pubkey v)
    \<and> arbiterVotePriority s' (ev_pubkey v) = Some k
    \<and> (\<forall>w\<in>set (st_eventChain s'). \<forall>r j. ev_payload w = PVote r \<longrightarrow> vp_role r = ARBITER
         \<longrightarrow> arbiterVotePriority s' (ev_pubkey w) = Some j \<longrightarrow> k \<le> j)"
proof -
  let ?next = "s\<lparr>st_settlements := st_settlements s @ (case voteSettlement e p of None \<Rightarrow> [] | Some m \<Rightarrow> [m]),
                 st_eventChain := st_eventChain s @ [e]\<rparr>"
  note v = handleVote_facts [OF assms(1)]
  have prio: "arbiterVotePriority s' = arbiterVotePriority ?next" "arbiterVotePriority ?next = arbiterVotePriority s"
    by (simp_all add: fun_eq_iff v(5) votedState_frame arbiterVotePriority_def arbiterPriorityOrder_def)
  obtain a where a: "nonEmpty (st_participants s ARBITER) = Some a" using assms(5) by auto
  then have "st_participants s ARBITER = Some a" by (simp add: nonEmpty_eq_Some)
  with v(6) assms(3) have "arbiterVotePriority s (ev_pubkey e) \<noteq> None"
    using priority_zero [OF a] by (auto simp: mayVoteAs_def)
  then obtain c where c: "slotOf ?next e = Some c"
    using assms(2,3) prio(2) by (auto simp: slotOf_def)
  then obtain b where b: "bestSlot ?next (st_eventChain s @ [e]) None = Some b"
    using bestSlot_None [of ?next "st_eventChain s @ [e]" None] by (cases "bestSlot ?next (st_eventChain s @ [e]) None") auto
  have s': "st_eventChain s' = st_eventChain s @ [e]" "voteOf s' ARBITER = Some (sl_outcome b)"
    "st_actingArbiter s' = Some (sl_pubkey b)"
    using v(5) b assms(3,4) by (auto simp: votedState_def Let_def voteOf_def voteOf_update)
  from bestSlot_char [OF b] obtain x where x: "x \<in> set (st_eventChain s')" "slotOf ?next x = Some b"
    and least: "\<forall>w\<in>set (st_eventChain s'). \<forall>d. slotOf ?next w = Some d \<longrightarrow> sl_priority b \<le> sl_priority d"
    by (auto simp: s'(1))
  from x(2) obtain q where q: "ev_payload x = PVote q" "vp_role q = ARBITER" "sl_outcome b = vp_outcome q"
    "sl_pubkey b = ev_pubkey x" "arbiterVotePriority s' (ev_pubkey x) = Some (sl_priority b)"
    by (auto simp: slotOf_Some prio(1))
  have "sl_priority b \<le> j" if "w \<in> set (st_eventChain s')" "ev_payload w = PVote r" "vp_role r = ARBITER"
      "arbiterVotePriority s' (ev_pubkey w) = Some j" for w r j
    using least that by (auto simp: slotOf_def prio(1))
  with x(1) q s' show ?thesis by (intro exI [of _ x] exI [of _ q] exI [of _ "sl_priority b"]) auto
qed

theorem lowest_priority_arbiter_decides_witness:
  "\<exists>v q. v \<in> set (st_eventChain (stateAfter wBallot)) \<and> ev_payload v = PVote q
    \<and> voteOf (stateAfter wBallot) ARBITER = Some (vp_outcome q) \<and> ev_pubkey v = ''A''"
proof -
  have f: "lk_arbiterPoolShare (st_lock (stateAfter (wDispute 1000))) = Some True"
    "nonEmpty (st_participants (stateAfter (wDispute 1000)) ARBITER) \<noteq> None"
    "st_actingArbiter (stateAfter wBallot) = Some ''A''"
    using wBallot_facts(4,5) endsD(2) [OF wBallot_ends] by (simp_all add: nonEmpty_def)
  obtain p where p: "ev_payload (wVote ''e5'' ''A'' ARBITER RELEASE 1050) = PVote p" "vp_role p = ARBITER"
    using wVote_simps(4) by blast
  have h: "handleVote plainEnv (stateAfter (wDispute 1000)) (wVote ''e5'' ''A'' ARBITER RELEASE 1050) p
      = Inr (stateAfter wBallot)"
    using vote_applied [OF wBallot_step p(1) _ worked_status(2)] wBallot_facts by (simp add: wVote_simps)
  from lowest_priority_arbiter_decides [OF h p f(1,2)] f(3) show ?thesis by auto
qed

text \<open>The substitution clock never outlives the trade: a dispute that starts before the
  deadline opens the backups' window at or after its start, at most the largest grace later, and
  still before the deadline.\<close>

theorem backups_speak_before_expiry:
  assumes "substitutionEligibleAt s = Some t" "disputeStartAt s = Some d" "d < st_expiresAt s" "0 < st_expiresAt s"
  shows "d \<le> t \<and> t \<le> d + SUBSTITUTION_GRACE_MAX_SECONDS \<and> t < st_expiresAt s"
proof -
  from assms(1,2) have "t = graceAfter s d" by (simp add: substitutionEligibleAt_def)
  with graceAfter_bounds(1) [of d s] graceAfter_bounds(2) [of s d] graceAfter_before_expiry [OF assms(4,3)] show ?thesis by simp
qed

theorem backups_speak_before_expiry_witness:
  "\<exists>t. substitutionEligibleAt (stateAfter (wDispute 1000)) = Some t \<and> t < st_expiresAt (stateAfter (wDispute 1000))"
proof -
  have f: "substitutionEligibleAt (stateAfter (wDispute 1000)) = Some 1140"
    "disputeStartAt (stateAfter (wDispute 1000)) = Some 1040"
    "1040 < st_expiresAt (stateAfter (wDispute 1000))" "0 < st_expiresAt (stateAfter (wDispute 1000))"
  proof -
    have "ends (wDispute 1000) (\<lambda>s. substitutionEligibleAt s = Some 1140 \<and> disputeStartAt s = Some 1040 \<and> 1040 < st_expiresAt s)"
      by code_simp
    from endsD(2) [OF this] show "substitutionEligibleAt (stateAfter (wDispute 1000)) = Some 1140"
      "disputeStartAt (stateAfter (wDispute 1000)) = Some 1040"
      "1040 < st_expiresAt (stateAfter (wDispute 1000))" "0 < st_expiresAt (stateAfter (wDispute 1000))" by simp_all
  qed
  from backups_speak_before_expiry [OF this] f(1) show ?thesis by blast
qed

text \<open>The priority order of a trade has no repeated key, at most three members, and the
  seated arbiter first; every other member comes from the trade's pool and is neither principal
  (keys compared without letter case).\<close>

theorem priority_order_is_lawful:
  shows "distinct (arbiterPriorityOrder s)
    \<and> length (arbiterPriorityOrder s) \<le> 3
    \<and> (\<forall>a. nonEmpty (st_participants s ARBITER) = Some a \<longrightarrow> hd (arbiterPriorityOrder s) = a
         \<and> arbiterPriorityOrder s \<noteq> []
         \<and> (\<forall>x\<in>set (tl (arbiterPriorityOrder s)). lower x \<in> lower ` set (st_communityArbiters s)
              \<and> (\<forall>q\<in>{BUYER, SELLER}. \<forall>y. st_participants s q = Some y \<longrightarrow> y \<noteq> [] \<longrightarrow> lower x \<noteq> lower y)))"
proof (intro conjI allI impI)
  show "distinct (arbiterPriorityOrder s)" unfolding arbiterPriorityOrder_def by (rule priorityOrderFor_distinct)
  show "length (arbiterPriorityOrder s) \<le> 3"
    using priorityOrderFor_length unfolding arbiterPriorityOrder_def ARBITER_POOL_SHARE_CAP_def .
  fix a assume a: "nonEmpty (st_participants s ARBITER) = Some a"
  from extendOrder_prefix [of "st_communityArbiters s" "st_id s" "st_participants s BUYER" "st_participants s SELLER" "[a]"]
  obtain xs where x: "arbiterPriorityOrder s = a # xs" "lower ` set xs \<subseteq> lower ` set (st_communityArbiters s)"
    "\<forall>x\<in>set xs. \<forall>y. Some y \<in> {st_participants s BUYER, st_participants s SELLER} \<longrightarrow> y \<noteq> [] \<longrightarrow> lower x \<noteq> lower y"
    using a by (auto simp: arbiterPriorityOrder_def arbiterPriorityOrderFor_def)
  then show "hd (arbiterPriorityOrder s) = a" "arbiterPriorityOrder s \<noteq> []"
    "\<forall>x\<in>set (tl (arbiterPriorityOrder s)). lower x \<in> lower ` set (st_communityArbiters s)
       \<and> (\<forall>q\<in>{BUYER, SELLER}. \<forall>y. st_participants s q = Some y \<longrightarrow> y \<noteq> [] \<longrightarrow> lower x \<noteq> lower y)"
    by auto
qed

theorem priority_order_is_lawful_witness:
  "hd (arbiterPriorityOrder (stateAfter (wLocked 1000))) = ''A'' \<and> arbiterPriorityOrder (stateAfter (wLocked 1000)) \<noteq> []"
proof -
  have "nonEmpty (st_participants (stateAfter (wLocked 1000)) ARBITER) = Some ''A''" by code_simp
  with priority_order_is_lawful [of "stateAfter (wLocked 1000)"] show ?thesis by blast
qed

end
