(* ===== verification/State_View.thy ===== *)
theory State_View
  imports Reducer
begin

text \<open>
  What the reducer does not read. \<open>viewed f c n l\<close> changes the events of the chain by \<open>f\<close>, the chat
  by \<open>c\<close>, the replay's notes by \<open>n\<close> and its list of refused LOCKs by \<open>l\<close>. As long as \<open>f\<close> keeps every
  event but what a vote carries beside its outcome and role, and \<open>c\<close> only adds earlier messages
  (locale \<open>event_view\<close>), every query of the reducer is the same on the viewed state and every handler
  commutes with the view (the collection \<open>viewing\<close>).
\<close>

section \<open>Views of a state\<close>

named_theorems viewing

definition viewed :: "(event \<Rightarrow> event) \<Rightarrow> (event list \<Rightarrow> event list) \<Rightarrow> (replay_note list \<Rightarrow> replay_note list)
    \<Rightarrow> ((event \<times> errcode) list \<Rightarrow> (event \<times> errcode) list) \<Rightarrow> state \<Rightarrow> state" where
  "viewed f c n l s = s\<lparr>st_eventChain := map f (st_eventChain s), st_chatMessages := c (st_chatMessages s),
     st_replayNotes := n (st_replayNotes s), st_rejectedLocks := l (st_rejectedLocks s)\<rparr>"

lemma viewed_fields [viewing]:
  "st_id (viewed f c n l s) = st_id s"
  "st_status (viewed f c n l s) = st_status s"
  "st_listing (viewed f c n l s) = st_listing s"
  "st_amountMsats (viewed f c n l s) = st_amountMsats s"
  "st_category (viewed f c n l s) = st_category s"
  "st_chamaPolicy (viewed f c n l s) = st_chamaPolicy s"
  "st_chamaCircle (viewed f c n l s) = st_chamaCircle s"
  "st_items (viewed f c n l s) = st_items s"
  "st_community (viewed f c n l s) = st_community s"
  "st_escrowMode (viewed f c n l s) = st_escrowMode s"
  "st_onchainNetwork (viewed f c n l s) = st_onchainNetwork s"
  "st_onchainAtomicRelease (viewed f c n l s) = st_onchainAtomicRelease s"
  "st_settlementPolicy (viewed f c n l s) = st_settlementPolicy s"
  "st_sliceCount (viewed f c n l s) = st_sliceCount s"
  "st_escrowKeys (viewed f c n l s) = st_escrowKeys s"
  "st_onchainFundingTerms (viewed f c n l s) = st_onchainFundingTerms s"
  "st_onchainRefundClaimed (viewed f c n l s) = st_onchainRefundClaimed s"
  "st_onchainPayoutTxid (viewed f c n l s) = st_onchainPayoutTxid s"
  "st_onchainPayoutAddress (viewed f c n l s) = st_onchainPayoutAddress s"
  "st_onchainPayoutSats (viewed f c n l s) = st_onchainPayoutSats s"
  "st_settlementStalled (viewed f c n l s) = st_settlementStalled s"
  "st_mintUrl (viewed f c n l s) = st_mintUrl s"
  "st_parent (viewed f c n l s) = st_parent s"
  "st_tranchePlan (viewed f c n l s) = st_tranchePlan s"
  "st_trancheChild (viewed f c n l s) = st_trancheChild s"
  "st_childKeys (viewed f c n l s) = st_childKeys s"
  "st_participants (viewed f c n l s) = st_participants s"
  "st_joinHolds (viewed f c n l s) = st_joinHolds s"
  "st_initiator (viewed f c n l s) = st_initiator s"
  "st_initiatorRole (viewed f c n l s) = st_initiatorRole s"
  "st_communityArbiters (viewed f c n l s) = st_communityArbiters s"
  "st_bondedArbiters (viewed f c n l s) = st_bondedArbiters s"
  "st_subscription (viewed f c n l s) = st_subscription s"
  "st_votes (viewed f c n l s) = st_votes s"
  "st_resolvedOutcome (viewed f c n l s) = st_resolvedOutcome s"
  "st_resolvedMajority (viewed f c n l s) = st_resolvedMajority s"
  "st_pendingVote (viewed f c n l s) = st_pendingVote s"
  "st_actingArbiter (viewed f c n l s) = st_actingArbiter s"
  "st_fees (viewed f c n l s) = st_fees s"
  "st_lock (viewed f c n l s) = st_lock s"
  "st_claimerRole (viewed f c n l s) = st_claimerRole s"
  "st_claimedAt (viewed f c n l s) = st_claimedAt s"
  "st_createdAt (viewed f c n l s) = st_createdAt s"
  "st_listingExpiresAt (viewed f c n l s) = st_listingExpiresAt s"
  "st_tradeTimeoutSeconds (viewed f c n l s) = st_tradeTimeoutSeconds s"
  "st_expiresAt (viewed f c n l s) = st_expiresAt s"
  "st_resolvedAt (viewed f c n l s) = st_resolvedAt s"
  "st_completedAt (viewed f c n l s) = st_completedAt s"
  "st_cancelledAt (viewed f c n l s) = st_cancelledAt s"
  "st_eventChain (viewed f c n l s) = map f (st_eventChain s)"
  "st_chatMessages (viewed f c n l s) = c (st_chatMessages s)"
  "st_premiumNotes (viewed f c n l s) = st_premiumNotes s"
  "st_settlements (viewed f c n l s) = st_settlements s"
  by (simp_all add: viewed_def)

lemma viewed_updates [viewing]:
  "(viewed f c n l s)\<lparr>st_id := v0\<rparr> = viewed f c n l (s\<lparr>st_id := v0\<rparr>)"
  "(viewed f c n l s)\<lparr>st_status := v1\<rparr> = viewed f c n l (s\<lparr>st_status := v1\<rparr>)"
  "(viewed f c n l s)\<lparr>st_listing := v2\<rparr> = viewed f c n l (s\<lparr>st_listing := v2\<rparr>)"
  "(viewed f c n l s)\<lparr>st_amountMsats := v3\<rparr> = viewed f c n l (s\<lparr>st_amountMsats := v3\<rparr>)"
  "(viewed f c n l s)\<lparr>st_category := v4\<rparr> = viewed f c n l (s\<lparr>st_category := v4\<rparr>)"
  "(viewed f c n l s)\<lparr>st_chamaPolicy := v5\<rparr> = viewed f c n l (s\<lparr>st_chamaPolicy := v5\<rparr>)"
  "(viewed f c n l s)\<lparr>st_chamaCircle := v6\<rparr> = viewed f c n l (s\<lparr>st_chamaCircle := v6\<rparr>)"
  "(viewed f c n l s)\<lparr>st_items := v7\<rparr> = viewed f c n l (s\<lparr>st_items := v7\<rparr>)"
  "(viewed f c n l s)\<lparr>st_community := v8\<rparr> = viewed f c n l (s\<lparr>st_community := v8\<rparr>)"
  "(viewed f c n l s)\<lparr>st_escrowMode := v9\<rparr> = viewed f c n l (s\<lparr>st_escrowMode := v9\<rparr>)"
  "(viewed f c n l s)\<lparr>st_onchainNetwork := v10\<rparr> = viewed f c n l (s\<lparr>st_onchainNetwork := v10\<rparr>)"
  "(viewed f c n l s)\<lparr>st_onchainAtomicRelease := v11\<rparr> = viewed f c n l (s\<lparr>st_onchainAtomicRelease := v11\<rparr>)"
  "(viewed f c n l s)\<lparr>st_settlementPolicy := v12\<rparr> = viewed f c n l (s\<lparr>st_settlementPolicy := v12\<rparr>)"
  "(viewed f c n l s)\<lparr>st_sliceCount := v13\<rparr> = viewed f c n l (s\<lparr>st_sliceCount := v13\<rparr>)"
  "(viewed f c n l s)\<lparr>st_escrowKeys := v14\<rparr> = viewed f c n l (s\<lparr>st_escrowKeys := v14\<rparr>)"
  "(viewed f c n l s)\<lparr>st_onchainFundingTerms := v15\<rparr> = viewed f c n l (s\<lparr>st_onchainFundingTerms := v15\<rparr>)"
  "(viewed f c n l s)\<lparr>st_onchainRefundClaimed := v16\<rparr> = viewed f c n l (s\<lparr>st_onchainRefundClaimed := v16\<rparr>)"
  "(viewed f c n l s)\<lparr>st_onchainPayoutTxid := v17\<rparr> = viewed f c n l (s\<lparr>st_onchainPayoutTxid := v17\<rparr>)"
  "(viewed f c n l s)\<lparr>st_onchainPayoutAddress := v18\<rparr> = viewed f c n l (s\<lparr>st_onchainPayoutAddress := v18\<rparr>)"
  "(viewed f c n l s)\<lparr>st_onchainPayoutSats := v19\<rparr> = viewed f c n l (s\<lparr>st_onchainPayoutSats := v19\<rparr>)"
  "(viewed f c n l s)\<lparr>st_settlementStalled := v20\<rparr> = viewed f c n l (s\<lparr>st_settlementStalled := v20\<rparr>)"
  "(viewed f c n l s)\<lparr>st_mintUrl := v21\<rparr> = viewed f c n l (s\<lparr>st_mintUrl := v21\<rparr>)"
  "(viewed f c n l s)\<lparr>st_parent := v22\<rparr> = viewed f c n l (s\<lparr>st_parent := v22\<rparr>)"
  "(viewed f c n l s)\<lparr>st_tranchePlan := v23\<rparr> = viewed f c n l (s\<lparr>st_tranchePlan := v23\<rparr>)"
  "(viewed f c n l s)\<lparr>st_trancheChild := v24\<rparr> = viewed f c n l (s\<lparr>st_trancheChild := v24\<rparr>)"
  "(viewed f c n l s)\<lparr>st_childKeys := v25\<rparr> = viewed f c n l (s\<lparr>st_childKeys := v25\<rparr>)"
  "(viewed f c n l s)\<lparr>st_participants := v26\<rparr> = viewed f c n l (s\<lparr>st_participants := v26\<rparr>)"
  "(viewed f c n l s)\<lparr>st_joinHolds := v27\<rparr> = viewed f c n l (s\<lparr>st_joinHolds := v27\<rparr>)"
  "(viewed f c n l s)\<lparr>st_initiator := v28\<rparr> = viewed f c n l (s\<lparr>st_initiator := v28\<rparr>)"
  "(viewed f c n l s)\<lparr>st_initiatorRole := v29\<rparr> = viewed f c n l (s\<lparr>st_initiatorRole := v29\<rparr>)"
  "(viewed f c n l s)\<lparr>st_communityArbiters := v30\<rparr> = viewed f c n l (s\<lparr>st_communityArbiters := v30\<rparr>)"
  "(viewed f c n l s)\<lparr>st_bondedArbiters := v31\<rparr> = viewed f c n l (s\<lparr>st_bondedArbiters := v31\<rparr>)"
  "(viewed f c n l s)\<lparr>st_subscription := v32\<rparr> = viewed f c n l (s\<lparr>st_subscription := v32\<rparr>)"
  "(viewed f c n l s)\<lparr>st_votes := v33\<rparr> = viewed f c n l (s\<lparr>st_votes := v33\<rparr>)"
  "(viewed f c n l s)\<lparr>st_resolvedOutcome := v34\<rparr> = viewed f c n l (s\<lparr>st_resolvedOutcome := v34\<rparr>)"
  "(viewed f c n l s)\<lparr>st_resolvedMajority := v35\<rparr> = viewed f c n l (s\<lparr>st_resolvedMajority := v35\<rparr>)"
  "(viewed f c n l s)\<lparr>st_pendingVote := v36\<rparr> = viewed f c n l (s\<lparr>st_pendingVote := v36\<rparr>)"
  "(viewed f c n l s)\<lparr>st_actingArbiter := v37\<rparr> = viewed f c n l (s\<lparr>st_actingArbiter := v37\<rparr>)"
  "(viewed f c n l s)\<lparr>st_fees := v38\<rparr> = viewed f c n l (s\<lparr>st_fees := v38\<rparr>)"
  "(viewed f c n l s)\<lparr>st_lock := v39\<rparr> = viewed f c n l (s\<lparr>st_lock := v39\<rparr>)"
  "(viewed f c n l s)\<lparr>st_claimerRole := v40\<rparr> = viewed f c n l (s\<lparr>st_claimerRole := v40\<rparr>)"
  "(viewed f c n l s)\<lparr>st_claimedAt := v41\<rparr> = viewed f c n l (s\<lparr>st_claimedAt := v41\<rparr>)"
  "(viewed f c n l s)\<lparr>st_createdAt := v42\<rparr> = viewed f c n l (s\<lparr>st_createdAt := v42\<rparr>)"
  "(viewed f c n l s)\<lparr>st_listingExpiresAt := v43\<rparr> = viewed f c n l (s\<lparr>st_listingExpiresAt := v43\<rparr>)"
  "(viewed f c n l s)\<lparr>st_tradeTimeoutSeconds := v44\<rparr> = viewed f c n l (s\<lparr>st_tradeTimeoutSeconds := v44\<rparr>)"
  "(viewed f c n l s)\<lparr>st_expiresAt := v45\<rparr> = viewed f c n l (s\<lparr>st_expiresAt := v45\<rparr>)"
  "(viewed f c n l s)\<lparr>st_resolvedAt := v46\<rparr> = viewed f c n l (s\<lparr>st_resolvedAt := v46\<rparr>)"
  "(viewed f c n l s)\<lparr>st_completedAt := v47\<rparr> = viewed f c n l (s\<lparr>st_completedAt := v47\<rparr>)"
  "(viewed f c n l s)\<lparr>st_cancelledAt := v48\<rparr> = viewed f c n l (s\<lparr>st_cancelledAt := v48\<rparr>)"
  "(viewed f c n l s)\<lparr>st_eventChain := map f es\<rparr> = viewed f c n l (s\<lparr>st_eventChain := es\<rparr>)"
  "(viewed f c n l s)\<lparr>st_premiumNotes := v51\<rparr> = viewed f c n l (s\<lparr>st_premiumNotes := v51\<rparr>)"
  "(viewed f c n l s)\<lparr>st_settlements := v52\<rparr> = viewed f c n l (s\<lparr>st_settlements := v52\<rparr>)"
  by (simp_all add: viewed_def)

lemma guarded_viewed [viewing]: "guarded gs (map_sum id (viewed f c n l) r) = map_sum id (viewed f c n l) (guarded gs r)"
  by (induction gs) (auto simp: guarded.simps)

lemma guarded_Inr_viewed [viewing]: "guarded gs (Inr (viewed f c n l s)) = map_sum id (viewed f c n l) (guarded gs (Inr s))"
  by (induction gs) (auto simp: guarded.simps)

lemma guarded_Inl_viewed [viewing]: "map_sum id (viewed f c n l) (guarded gs (Inl code)) = guarded gs (Inl code)"
  by (induction gs) (auto simp: guarded.simps)

lemmas viewing_cong = option.case_cong sum.case_cong if_cong chama_policy.case_cong list.case_cong payload.case_cong prod.case_cong


lemma viewed_chat [viewing]:
  "c (xs @ [e]) = c xs @ [e] \<Longrightarrow>
    (viewed f c n l s)\<lparr>st_chatMessages := c xs @ [e]\<rparr> = viewed f c n l (s\<lparr>st_chatMessages := xs @ [e]\<rparr>)"
  by (simp add: viewed_def)

lemma viewed_chain [viewing]:
  "f e = e \<Longrightarrow> (viewed f c n l s)\<lparr>st_eventChain := map f es @ [e]\<rparr> = viewed f c n l (s\<lparr>st_eventChain := es @ [e]\<rparr>)"
  by (simp add: viewed_def)

section \<open>Views that keep what the reducer reads\<close>

locale event_view =
  fixes f :: "event \<Rightarrow> event" and c :: "event list \<Rightarrow> event list"
  assumes head [viewing]: "ev_id (f e) = ev_id e" "ev_pubkey (f e) = ev_pubkey e" "ev_timestamp (f e) = ev_timestamp e"
      "ev_prev (f e) = ev_prev e"
    and kept: "ev_kind e \<noteq> K_VOTE \<Longrightarrow> f e = e"
    and ballot: "ev_payload e = PVote p \<Longrightarrow>
      \<exists>q. ev_payload (f e) = PVote q \<and> vp_outcome q = vp_outcome p \<and> vp_role q = vp_role p"
    and chat: "c (xs @ [e]) = c xs @ [e]"
begin

lemma payload_cases:
  "(\<exists>p q. ev_payload e = PVote p \<and> ev_payload (f e) = PVote q \<and> vp_outcome q = vp_outcome p \<and> vp_role q = vp_role p)
   \<or> (f e = e \<and> (\<forall>p. ev_payload e \<noteq> PVote p))"
  using ballot [of e] kept [of e] by (cases "ev_payload e") (auto simp: ev_kind_def)

lemma kind_seen [viewing]: "ev_kind (f e) = ev_kind e"
  using payload_cases [of e] by (auto simp: ev_kind_def)

lemma list_ex_seen: "list_ex P (map f es) = list_ex (\<lambda>e. P (f e)) es"
  by (induction es) simp_all

lemma firstLock_seen [viewing]: "firstLock (map f es) = firstLock es"
proof -
  have "List.find (\<lambda>e. ev_kind e = K_LOCK) (map f es) = List.find (\<lambda>e. ev_kind e = K_LOCK) es"
    by (induction es) (auto simp: viewing kept)
  then show ?thesis by (simp add: firstLock_def)
qed

lemma firstVoteOf_seen [viewing]: "firstVoteOf (map f es) r = firstVoteOf es r"
proof -
  let ?v = "\<lambda>e. case ev_payload e of
    PVote p \<Rightarrow> if vp_role p = r then Some (vp_outcome p, ev_timestamp e) else None | _ \<Rightarrow> None"
  have "?v (f e) = ?v e" for e using payload_cases [of e] by (auto simp: viewing split: payload.splits)
  then have "List.map_filter ?v (map f es) = List.map_filter ?v es"
    by (induction es) (simp_all add: List.map_filter_def)
  then show ?thesis unfolding firstVoteOf_def by (rule arg_cong)
qed

lemma findVote_seen [viewing]: "findVote (map f es) pk oc = map_option f (findVote es pk oc)"
proof -
  let ?v = "\<lambda>e. case ev_payload e of PVote p \<Rightarrow> vp_outcome p = oc | _ \<Rightarrow> False"
  have "?v (f e) = ?v e" for e using payload_cases [of e] by (auto split: payload.splits)
  then show ?thesis unfolding findVote_def by (induction es) (simp_all add: viewing)
qed

lemma map_option_seen [viewing]:
  "map_option (\<lambda>v. (r, g (ev_timestamp v))) (map_option f x) = map_option (\<lambda>v. (r, g (ev_timestamp v))) x"
  by (cases x) (simp_all add: viewing)

lemma voteOf_viewed [viewing]: "voteOf (viewed f c n l s) = voteOf s"
  by (((rule ext)+)?, simp add: voteOf_def viewing Let_def cong: viewing_cong)

lemma inChain_viewed [viewing]: "inChain (viewed f c n l s) = inChain s"
  by (rule ext) (simp add: inChain_def viewing list_ex_seen)

lemma hasLock_viewed [viewing]: "hasLock (viewed f c n l s) = hasLock s"
  by (simp add: hasLock_def viewing list_ex_seen)

lemma hasVoted_viewed [viewing]: "hasVoted (viewed f c n l s) = hasVoted s"
  by (rule ext) (simp add: hasVoted_def viewing list_ex_seen)

lemma createPayloadOf_viewed [viewing]: "createPayloadOf (viewed f c n l s) = createPayloadOf s"
proof (cases "st_eventChain s")
  case (Cons e es)
  then show ?thesis using payload_cases [of e]
    by (auto simp: createPayloadOf_def viewing split: payload.splits)
qed (simp add: createPayloadOf_def viewing)

lemma viewOf_viewed [viewing]: "viewOf (viewed f c n l s) = viewOf s"
  by (simp add: viewOf_def viewing)

lemma preLockPhase_viewed [viewing]: "preLockPhase (viewed f c n l s) = preLockPhase s"
  by (((rule ext)+)?, simp add: preLockPhase_def viewing Let_def cong: viewing_cong)

lemma holdLapse_viewed [viewing]: "holdLapse (viewed f c n l s) = holdLapse s"
  by (((rule ext)+)?, simp add: holdLapse_def viewing Let_def cong: viewing_cong)

lemma preLockDeadline_viewed [viewing]: "preLockDeadline (viewed f c n l s) = preLockDeadline s"
  by (((rule ext)+)?, simp add: preLockDeadline_def viewing Let_def cong: viewing_cong)

lemma effectiveParticipantAt_viewed [viewing]: "effectiveParticipantAt (viewed f c n l s) = effectiveParticipantAt s"
  by (((rule ext)+)?, simp add: effectiveParticipantAt_def viewing Let_def cong: viewing_cong)

lemma paysSeller_viewed [viewing]: "paysSeller (viewed f c n l s) = paysSeller s"
  by (((rule ext)+)?, simp add: paysSeller_def viewing Let_def cong: viewing_cong)

lemma winnerRoleFor_viewed [viewing]: "winnerRoleFor (viewed f c n l s) = winnerRoleFor s"
  by (((rule ext)+)?, simp add: winnerRoleFor_def viewing Let_def cong: viewing_cong)

lemma payoutRecipientFor_viewed [viewing]: "payoutRecipientFor (viewed f c n l s) = payoutRecipientFor s"
  by (((rule ext)+)?, simp add: payoutRecipientFor_def viewing Let_def cong: viewing_cong)

lemma validateVoteShareEnvelope_viewed [viewing]: "validateVoteShareEnvelope x0 (viewed f c n l s) = validateVoteShareEnvelope x0 s"
  by (((rule ext)+)?, simp add: validateVoteShareEnvelope_def viewing Let_def cong: viewing_cong)

lemma getRole_viewed [viewing]: "getRole (viewed f c n l s) = getRole s"
  by (((rule ext)+)?, simp add: getRole_def viewing Let_def cong: viewing_cong)

lemma getActiveRole_viewed [viewing]: "getActiveRole (viewed f c n l s) = getActiveRole s"
  by (((rule ext)+)?, simp add: getActiveRole_def viewing Let_def cong: viewing_cong)

lemma isPrincipal_viewed [viewing]: "isPrincipal (viewed f c n l s) = isPrincipal s"
  by (((rule ext)+)?, simp add: isPrincipal_def viewing Let_def cong: viewing_cong)

lemma tradeTimeoutSecondsFor_viewed [viewing]: "tradeTimeoutSecondsFor (viewed f c n l s) = tradeTimeoutSecondsFor s"
  by (((rule ext)+)?, simp add: tradeTimeoutSecondsFor_def viewing Let_def cong: viewing_cong)

lemma expectedLockerOf_viewed [viewing]: "expectedLockerOf (viewed f c n l s) = expectedLockerOf s"
  by (((rule ext)+)?, simp add: expectedLockerOf_def viewing Let_def cong: viewing_cong)

lemma provesOf_viewed [viewing]: "provesOf (viewed f c n l s) = provesOf s"
  by (((rule ext)+)?, simp add: provesOf_def viewing Let_def cong: viewing_cong)

lemma cycleSeatError_viewed [viewing]: "cycleSeatError x0 (viewed f c n l s) = cycleSeatError x0 s"
  by (((rule ext)+)?, simp add: cycleSeatError_def viewing Let_def cong: viewing_cong)

lemma committedEvidenceError_viewed [viewing]: "committedEvidenceError x0 (viewed f c n l s) = committedEvidenceError x0 s"
  by (((rule ext)+)?, simp add: committedEvidenceError_def viewing Let_def cong: viewing_cong)

lemma intentError_viewed [viewing]: "intentError x0 (viewed f c n l s) = intentError x0 s"
  by (((rule ext)+)?, simp add: intentError_def viewing Let_def cong: viewing_cong)

lemma chamaOutcomeError_viewed [viewing]: "chamaOutcomeError x0 (viewed f c n l s) = chamaOutcomeError x0 s"
  by (((rule ext)+)?, simp add: chamaOutcomeError_def viewing Let_def cong: viewing_cong)

lemma fundingArbiter_viewed [viewing]: "fundingArbiter (viewed f c n l s) = fundingArbiter s"
  by (((rule ext)+)?, simp add: fundingArbiter_def viewing Let_def cong: viewing_cong)

lemma onchainFunder_viewed [viewing]: "onchainFunder (viewed f c n l s) = onchainFunder s"
  by (((rule ext)+)?, simp add: onchainFunder_def viewing Let_def cong: viewing_cong)

lemma principalKeyError_viewed [viewing]: "principalKeyError (viewed f c n l s) = principalKeyError s"
  by (((rule ext)+)?, simp add: principalKeyError_def viewing Let_def cong: viewing_cong)

lemma arbiterKeyError_viewed [viewing]: "arbiterKeyError x0 (viewed f c n l s) = arbiterKeyError x0 s"
  by (((rule ext)+)?, simp add: arbiterKeyError_def viewing Let_def cong: viewing_cong)

lemma fundingTermsError_viewed [viewing]: "fundingTermsError x0 (viewed f c n l s) = fundingTermsError x0 s"
  by (((rule ext)+)?, simp add: fundingTermsError_def viewing Let_def cong: viewing_cong)

lemma onchainLockError_viewed [viewing]: "onchainLockError x0 (viewed f c n l s) = onchainLockError x0 s"
  by (((rule ext)+)?, simp add: onchainLockError_def viewing Let_def cong: viewing_cong)

lemma settlementWinner_viewed [viewing]: "settlementWinner (viewed f c n l s) = settlementWinner s"
  by (((rule ext)+)?, simp add: settlementWinner_def viewing Let_def cong: viewing_cong)

lemma arbitrated_viewed [viewing]: "arbitrated (viewed f c n l s) = arbitrated s"
  by (((rule ext)+)?, simp add: arbitrated_def viewing Let_def cong: viewing_cong)

lemma proposalChoice_viewed [viewing]: "proposalChoice x0 (viewed f c n l s) = proposalChoice x0 s"
  by (((rule ext)+)?, simp add: proposalChoice_def viewing Let_def cong: viewing_cong)

lemma winnerSettlementChoice_viewed [viewing]: "winnerSettlementChoice x0 (viewed f c n l s) = winnerSettlementChoice x0 s"
  by (((rule ext)+)?, simp add: winnerSettlementChoice_def viewing Let_def cong: viewing_cong)

lemma atomicReleaseError_viewed [viewing]: "atomicReleaseError x0 (viewed f c n l s) = atomicReleaseError x0 s"
  by (((rule ext)+)?, simp add: atomicReleaseError_def viewing Let_def cong: viewing_cong)

lemma stalledPayoutEligibility_viewed [viewing]: "stalledPayoutEligibility x0 (viewed f c n l s) = stalledPayoutEligibility x0 s"
  by (((rule ext)+)?, simp add: stalledPayoutEligibility_def viewing Let_def cong: viewing_cong)

lemma clampDisputeAnchor_viewed [viewing]: "clampDisputeAnchor (viewed f c n l s) = clampDisputeAnchor s"
  by (((rule ext)+)?, simp add: clampDisputeAnchor_def viewing Let_def cong: viewing_cong)

lemma arbiterPriorityOrder_viewed [viewing]: "arbiterPriorityOrder (viewed f c n l s) = arbiterPriorityOrder s"
  by (((rule ext)+)?, simp add: arbiterPriorityOrder_def viewing Let_def cong: viewing_cong)

lemma arbiterVotePriority_viewed [viewing]: "arbiterVotePriority (viewed f c n l s) = arbiterVotePriority s"
  by (((rule ext)+)?, simp add: arbiterVotePriority_def viewing Let_def cong: viewing_cong)

lemma loneRefund_viewed [viewing]: "loneRefund (viewed f c n l s) = loneRefund s"
  by (((rule ext)+)?, simp add: loneRefund_def viewing Let_def cong: viewing_cong)

lemma loneRelease_viewed [viewing]: "loneRelease (viewed f c n l s) = loneRelease s"
  by (((rule ext)+)?, simp add: loneRelease_def viewing Let_def cong: viewing_cong)

lemma oneSidedReleaseAnchor_viewed [viewing]: "oneSidedReleaseAnchor (viewed f c n l s) = oneSidedReleaseAnchor s"
  by (((rule ext)+)?, simp add: oneSidedReleaseAnchor_def viewing Let_def cong: viewing_cong)

lemma graceAfter_viewed [viewing]: "graceAfter (viewed f c n l s) = graceAfter s"
  by (((rule ext)+)?, simp add: graceAfter_def viewing Let_def cong: viewing_cong)

lemma oneSidedEscalationAt_viewed [viewing]: "oneSidedEscalationAt (viewed f c n l s) = oneSidedEscalationAt s"
  by (((rule ext)+)?, simp add: oneSidedEscalationAt_def viewing Let_def cong: viewing_cong)

lemma disputeStartAt_viewed [viewing]: "disputeStartAt (viewed f c n l s) = disputeStartAt s"
  by (((rule ext)+)?, simp add: disputeStartAt_def viewing Let_def cong: viewing_cong)

lemma substitutionEligibleAt_viewed [viewing]: "substitutionEligibleAt (viewed f c n l s) = substitutionEligibleAt s"
  by (((rule ext)+)?, simp add: substitutionEligibleAt_def viewing Let_def cong: viewing_cong)

lemma isPerformanceContest_viewed [viewing]: "isPerformanceContest (viewed f c n l s) = isPerformanceContest s"
  by (((rule ext)+)?, simp add: isPerformanceContest_def viewing Let_def cong: viewing_cong)

lemma planArbiterGuards_viewed [viewing]: "planArbiterGuards (viewed f c n l s) = planArbiterGuards s"
  by (((rule ext)+)?, simp add: planArbiterGuards_def viewing Let_def cong: viewing_cong)

lemma handlePlanStart_viewed [viewing]: "f x1 = x1 \<Longrightarrow> handlePlanStart (viewed f c n l s) x1 x2 = map_sum id (viewed f c n l) (handlePlanStart s x1 x2)"
  by (simp add: handlePlanStart_def viewing Let_def split: option.splits)

lemma handleChildKey_viewed [viewing]: "f x1 = x1 \<Longrightarrow> handleChildKey (viewed f c n l s) x1 x2 = map_sum id (viewed f c n l) (handleChildKey s x1 x2)"
  by (simp add: handleChildKey_def viewing Let_def split: option.splits)

lemma freezeTerms_viewed [viewing]: "f x2 = x2 \<Longrightarrow> freezeTerms x0 (viewed f c n l s) x2 x3 x4 = map_sum id (viewed f c n l) (freezeTerms x0 s x2 x3 x4)"
  by (simp add: freezeTerms_def viewing Let_def split: option.splits sum.splits lock_step.splits prod.splits)

lemma holdExpiry_viewed [viewing]: "holdExpiry (viewed f c n l s) = holdExpiry s"
  by (((rule ext)+)?, simp add: holdExpiry_def viewing Let_def cong: viewing_cong)

lemma holdFor_viewed [viewing]: "holdFor (viewed f c n l s) = holdFor s"
  by (((rule ext)+)?, simp add: holdFor_def viewing Let_def cong: viewing_cong)

lemma updateOrder_viewed [viewing]: "f x1 = x1 \<Longrightarrow> updateOrder (viewed f c n l s) x1 x2 = map_sum id (viewed f c n l) (updateOrder s x1 x2)"
  by (simp add: updateOrder_def viewing Let_def split: option.splits sum.splits lock_step.splits prod.splits)

lemma acceptedArbiters_viewed [viewing]: "acceptedArbiters (viewed f c n l s) = acceptedArbiters s"
  by (((rule ext)+)?, simp add: acceptedArbiters_def viewing Let_def cong: viewing_cong)

lemma arbiterJoinGuards_viewed [viewing]: "arbiterJoinGuards (viewed f c n l s) = arbiterJoinGuards s"
  by (((rule ext)+)?, simp add: arbiterJoinGuards_def viewing Let_def cong: viewing_cong)

lemma seatedState_viewed [viewing]: "f x1 = x1 \<Longrightarrow> seatedState (viewed f c n l s) x1 x2 = viewed f c n l (seatedState s x1 x2)"
  by (simp add: seatedState_def viewing Let_def cong: viewing_cong)

lemma takeSeat_viewed [viewing]: "f x1 = x1 \<Longrightarrow> takeSeat (viewed f c n l s) x1 x2 = map_sum id (viewed f c n l) (takeSeat s x1 x2)"
  by (simp add: takeSeat_def viewing Let_def split: option.splits sum.splits lock_step.splits prod.splits)

lemma handleJoin_viewed [viewing]: "f x2 = x2 \<Longrightarrow> handleJoin x0 (viewed f c n l s) x2 x3 = map_sum id (viewed f c n l) (handleJoin x0 s x2 x3)"
  by (auto simp: handleJoin_def viewing Let_def split: option.splits sum.splits lock_step.splits prod.splits)

lemma shareLockBroken_viewed [viewing]: "shareLockBroken (viewed f c n l s) = shareLockBroken s"
  by (((rule ext)+)?, simp add: shareLockBroken_def viewing Let_def cong: viewing_cong)

lemma shareHolders_viewed [viewing]: "shareHolders (viewed f c n l s) = shareHolders s"
  by (((rule ext)+)?, simp add: shareHolders_def viewing Let_def cong: viewing_cong)

lemma misrouted_viewed [viewing]: "misrouted (viewed f c n l s) = misrouted s"
  by (((rule ext)+)?, simp add: misrouted_def viewing Let_def cong: viewing_cong)

lemma lockPreGuards_viewed [viewing]: "lockPreGuards (viewed f c n l s) = lockPreGuards s"
  by (((rule ext)+)?, simp add: lockPreGuards_def viewing Let_def cong: viewing_cong)

lemma lockerRoleOf_viewed [viewing]: "lockerRoleOf (viewed f c n l s) = lockerRoleOf s"
  by (((rule ext)+)?, simp add: lockerRoleOf_def viewing Let_def cong: viewing_cong)

lemma joinedSeat_viewed [viewing]: "joinedSeat (viewed f c n l s) = joinedSeat s"
  by (((rule ext)+)?, simp add: joinedSeat_def viewing Let_def cong: viewing_cong)

lemma lockSeatGuards_viewed [viewing]: "lockSeatGuards (viewed f c n l s) = lockSeatGuards s"
  by (((rule ext)+)?, simp add: lockSeatGuards_def viewing Let_def cong: viewing_cong)

lemma custodyGuards_viewed [viewing]: "custodyGuards x0 (viewed f c n l s) = custodyGuards x0 s"
  by (((rule ext)+)?, simp add: custodyGuards_def viewing Let_def cong: viewing_cong)

lemma lockerIndexOf_viewed [viewing]: "lockerIndexOf (viewed f c n l s) = lockerIndexOf s"
  by (((rule ext)+)?, simp add: lockerIndexOf_def viewing Let_def cong: viewing_cong)

lemma withheldGuards_viewed [viewing]: "withheldGuards (viewed f c n l s) = withheldGuards s"
  by (((rule ext)+)?, simp add: withheldGuards_def viewing Let_def cong: viewing_cong)

lemma withheldOf_viewed [viewing]: "withheldOf (viewed f c n l s) = withheldOf s"
  by (((rule ext)+)?, simp add: withheldOf_def viewing Let_def cong: viewing_cong)

lemma isMenu_viewed [viewing]: "isMenu (viewed f c n l s) = isMenu s"
  by (((rule ext)+)?, simp add: isMenu_def viewing Let_def cong: viewing_cong)

lemma expectedLockAmount_viewed [viewing]: "expectedLockAmount (viewed f c n l s) = expectedLockAmount s"
  by (((rule ext)+)?, simp add: expectedLockAmount_def viewing Let_def cong: viewing_cong)

lemma orderGuards_viewed [viewing]: "orderGuards (viewed f c n l s) = orderGuards s"
  by (((rule ext)+)?, simp add: orderGuards_def viewing Let_def cong: viewing_cong)

lemma amountGuards_viewed [viewing]: "amountGuards (viewed f c n l s) = amountGuards s"
  by (((rule ext)+)?, simp add: amountGuards_def viewing Let_def cong: viewing_cong)

lemma lockedLock_viewed [viewing]: "lockedLock (viewed f c n l s) = lockedLock s"
  by (((rule ext)+)?, simp add: lockedLock_def viewing Let_def cong: viewing_cong)

lemma lockedState_viewed [viewing]: "f x1 = x1 \<Longrightarrow> lockedState (viewed f c n l s) x1 x2 = viewed f c n l (lockedState s x1 x2)"
  by (simp add: lockedState_def viewing Let_def cong: viewing_cong)

lemma lockGuards_viewed [viewing]: "lockGuards x0 (viewed f c n l s) = lockGuards x0 s"
  by (((rule ext)+)?, simp add: lockGuards_def viewing Let_def cong: viewing_cong)

lemma handleLock_viewed [viewing]: "f x2 = x2 \<Longrightarrow> handleLock x0 (viewed f c n l s) x2 x3 = map_sum id (viewed f c n l) (handleLock x0 s x2 x3)"
  by (simp add: handleLock_def viewing Let_def split: option.splits sum.splits lock_step.splits prod.splits)

lemma lockCounterparty_viewed [viewing]: "lockCounterparty (viewed f c n l s) = lockCounterparty s"
  by (((rule ext)+)?, simp add: lockCounterparty_def viewing Let_def cong: viewing_cong)

lemma lockStepGuards_viewed [viewing]: "lockStepGuards (viewed f c n l s) = lockStepGuards s"
  by (((rule ext)+)?, simp add: lockStepGuards_def viewing Let_def cong: viewing_cong)

lemma lockerPubkeyOf_viewed [viewing]: "lockerPubkeyOf (viewed f c n l s) = lockerPubkeyOf s"
  by (((rule ext)+)?, simp add: lockerPubkeyOf_def viewing Let_def cong: viewing_cong)

lemma acceptStep_viewed [viewing]: "f x1 = x1 \<Longrightarrow> acceptStep (viewed f c n l s) x1 x2 = map_sum id (viewed f c n l) (acceptStep s x1 x2)"
  by (simp add: acceptStep_def viewing Let_def split: option.splits sum.splits lock_step.splits prod.splits)

lemma allowedArbiterHolders_viewed [viewing]: "allowedArbiterHolders (viewed f c n l s) = allowedArbiterHolders s"
  by (((rule ext)+)?, simp add: allowedArbiterHolders_def viewing Let_def cong: viewing_cong)

lemma releasedShareBroken_viewed [viewing]: "releasedShareBroken (viewed f c n l s) = releasedShareBroken s"
  by (((rule ext)+)?, simp add: releasedShareBroken_def viewing Let_def cong: viewing_cong)

lemma releaseStep_viewed [viewing]: "f x1 = x1 \<Longrightarrow> releaseStep (viewed f c n l s) x1 x2 = map_sum id (viewed f c n l) (releaseStep s x1 x2)"
  by (simp add: releaseStep_def viewing Let_def split: option.splits sum.splits lock_step.splits prod.splits)

lemma handleLockStep_viewed [viewing]: "f x1 = x1 \<Longrightarrow> handleLockStep (viewed f c n l s) x1 x2 = map_sum id (viewed f c n l) (handleLockStep s x1 x2)"
  by (auto simp: handleLockStep_def viewing Let_def split: option.splits sum.splits lock_step.splits prod.splits)

lemma bothVoted_viewed [viewing]: "bothVoted (viewed f c n l s) = bothVoted s"
  by (((rule ext)+)?, simp add: bothVoted_def viewing Let_def cong: viewing_cong)

lemma principalsAgree_viewed [viewing]: "principalsAgree (viewed f c n l s) = principalsAgree s"
  by (((rule ext)+)?, simp add: principalsAgree_def viewing Let_def cong: viewing_cong)

lemma substituteGuards_viewed [viewing]: "substituteGuards (viewed f c n l s) = substituteGuards s"
  by (((rule ext)+)?, simp add: substituteGuards_def viewing Let_def cong: viewing_cong)

lemma voterRoleFor_viewed [viewing]: "voterRoleFor (viewed f c n l s) = voterRoleFor s"
  by (((rule ext)+)?, simp add: voterRoleFor_def viewing Let_def cong: viewing_cong)

lemma voteJudgment_viewed [viewing]: "voteJudgment (viewed f c n l s) = voteJudgment s"
  by (((rule ext)+)?, simp add: voteJudgment_def viewing Let_def cong: viewing_cong)

lemma voteLaw_viewed [viewing]: "voteLaw x0 (viewed f c n l s) = voteLaw x0 s"
  by (((rule ext)+)?, simp add: voteLaw_def viewing Let_def cong: viewing_cong)

lemma sharesHeldBack_viewed [viewing]: "sharesHeldBack (viewed f c n l s) = sharesHeldBack s"
  by (((rule ext)+)?, simp add: sharesHeldBack_def viewing Let_def cong: viewing_cong)

lemma votePreGuards_viewed [viewing]: "votePreGuards x0 (viewed f c n l s) = votePreGuards x0 s"
  by (((rule ext)+)?, simp add: votePreGuards_def viewing Let_def cong: viewing_cong)

lemma voteRoleGuards_viewed [viewing]: "voteRoleGuards (viewed f c n l s) = voteRoleGuards s"
  by (((rule ext)+)?, simp add: voteRoleGuards_def viewing Let_def cong: viewing_cong)

lemma slotOf_viewed [viewing]: "slotOf (viewed f c n l s) = slotOf s"
  by (((rule ext)+)?, simp add: slotOf_def viewing Let_def cong: viewing_cong)

lemma bestSlot_viewed [viewing]: "bestSlot (viewed f c n l s) = bestSlot s"
proof (intro ext)
  fix es best show "bestSlot (viewed f c n l s) es best = bestSlot s es best"
    by (induction es arbitrary: best) (simp_all add: viewing cong: viewing_cong)
qed

lemma slotOf_seen [viewing]: "slotOf s (f e) = slotOf s e"
  using payload_cases [of e] by (auto simp: slotOf_def kept viewing split: payload.splits)

lemma bestSlot_seen [viewing]: "bestSlot s (map f es) best = bestSlot s es best"
  by (induction es arbitrary: best) (simp_all add: viewing cong: viewing_cong)

lemma votedState_seen:
  assumes "vp_outcome q = vp_outcome p" "voteSettlement (f e) q = voteSettlement e p"
  shows "votedState (viewed f c n l s) (f e) q r = viewed f c n l (votedState s e p r)"
proof -
  have "map f (st_eventChain s) @ [f e] = map f (st_eventChain s @ [e])" by simp
  then show ?thesis using assms unfolding votedState_def Let_def
    by (simp only: viewing) (simp add: viewing split: option.splits)
qed

lemma votedState_viewed [viewing]:
  "f x1 = x1 \<Longrightarrow> votedState (viewed f c n l s) x1 x2 x3 = viewed f c n l (votedState s x1 x2 x3)"
  using votedState_seen [of x2 x2 x1] by simp

lemma handleVote_viewed [viewing]: "f x2 = x2 \<Longrightarrow> handleVote x0 (viewed f c n l s) x2 x3 = map_sum id (viewed f c n l) (handleVote x0 s x2 x3)"
  by (auto simp: handleVote_def viewing Let_def split: sum.splits)

lemma getWinner_viewed [viewing]: "getWinner (viewed f c n l s) = getWinner s"
  by (((rule ext)+)?, simp add: getWinner_def viewing Let_def cong: viewing_cong)

lemma resolveLaw_viewed [viewing]: "resolveLaw x0 (viewed f c n l s) = resolveLaw x0 s"
  by (((rule ext)+)?, simp add: resolveLaw_def viewing Let_def cong: viewing_cong)

lemma handleResolve_viewed [viewing]: "f x2 = x2 \<Longrightarrow> handleResolve x0 (viewed f c n l s) x2 x3 = map_sum id (viewed f c n l) (handleResolve x0 s x2 x3)"
  by (simp add: handleResolve_def viewing Let_def split: option.splits sum.splits lock_step.splits prod.splits)

lemma handleClaim_viewed [viewing]: "f x1 = x1 \<Longrightarrow> handleClaim (viewed f c n l s) x1 x2 = map_sum id (viewed f c n l) (handleClaim s x1 x2)"
  by (simp add: handleClaim_def viewing Let_def split: option.splits sum.splits lock_step.splits prod.splits)

lemma stalledState_viewed [viewing]: "f x1 = x1 \<Longrightarrow> stalledState (viewed f c n l s) x1 x2 x3 x4 = viewed f c n l (stalledState s x1 x2 x3 x4)"
  by (simp add: stalledState_def viewing Let_def cong: viewing_cong)

lemma handleSettlementStalled_viewed [viewing]: "f x2 = x2 \<Longrightarrow> handleSettlementStalled x0 (viewed f c n l s) x2 x3 x4 = map_sum id (viewed f c n l) (handleSettlementStalled x0 s x2 x3 x4)"
  by (auto simp: handleSettlementStalled_def viewing Let_def split: option.splits sum.splits lock_step.splits prod.splits)

lemma taggedSettlement_viewed [viewing]: "taggedSettlement (viewed f c n l s) = taggedSettlement s"
  by (((rule ext)+)?, simp add: taggedSettlement_def viewing Let_def cong: viewing_cong)

lemma refundComplete_viewed [viewing]: "f x2 = x2 \<Longrightarrow> refundComplete x0 (viewed f c n l s) x2 x3 = map_sum id (viewed f c n l) (refundComplete x0 s x2 x3)"
  by (simp add: refundComplete_def viewing Let_def split: option.splits sum.splits lock_step.splits prod.splits)

lemma completeProof_viewed [viewing]: "completeProof x0 (viewed f c n l s) = completeProof x0 s"
  by (((rule ext)+)?, simp add: completeProof_def viewing Let_def cong: viewing_cong)

lemma completeSender_viewed [viewing]: "completeSender (viewed f c n l s) = completeSender s"
  by (((rule ext)+)?, simp add: completeSender_def viewing Let_def cong: viewing_cong)

lemma completedState_viewed [viewing]: "f x1 = x1 \<Longrightarrow> completedState (viewed f c n l s) x1 x2 x3 = viewed f c n l (completedState s x1 x2 x3)"
  by (simp add: completedState_def viewing Let_def split: option.splits)

lemma handleComplete_viewed [viewing]: "f x2 = x2 \<Longrightarrow> handleComplete x0 (viewed f c n l s) x2 x3 = map_sum id (viewed f c n l) (handleComplete x0 s x2 x3)"
  by (auto simp: handleComplete_def viewing Let_def split: option.splits sum.splits lock_step.splits prod.splits)

lemma handleCancel_viewed [viewing]: "f x1 = x1 \<Longrightarrow> handleCancel (viewed f c n l s) x1 x2 = map_sum id (viewed f c n l) (handleCancel s x1 x2)"
  by (simp add: handleCancel_def viewing Let_def split: option.splits sum.splits lock_step.splits prod.splits)

lemma handleSubscribe_viewed [viewing]: "f x1 = x1 \<Longrightarrow> handleSubscribe (viewed f c n l s) x1 x2 = map_sum id (viewed f c n l) (handleSubscribe s x1 x2)"
  by (simp add: handleSubscribe_def viewing Let_def split: option.splits sum.splits lock_step.splits prod.splits)

lemma handlePeriodRelease_viewed [viewing]: "f x1 = x1 \<Longrightarrow> handlePeriodRelease (viewed f c n l s) x1 x2 = map_sum id (viewed f c n l) (handlePeriodRelease s x1 x2)"
  by (simp add: handlePeriodRelease_def viewing Let_def split: option.splits sum.splits lock_step.splits prod.splits)

lemma handleChat_viewed [viewing]: "f x1 = x1 \<Longrightarrow> handleChat (viewed f c n l s) x1 = map_sum id (viewed f c n l) (handleChat s x1)"
  by (simp add: handleChat_def viewing chat Let_def split: option.splits sum.splits lock_step.splits prod.splits)

lemma handlePremium_viewed [viewing]: "f x1 = x1 \<Longrightarrow> handlePremium (viewed f c n l s) x1 = map_sum id (viewed f c n l) (handlePremium s x1)"
  by (simp add: handlePremium_def viewing Let_def split: option.splits sum.splits lock_step.splits prod.splits)

lemma handleSettlement_viewed [viewing]: "f x1 = x1 \<Longrightarrow> handleSettlement (viewed f c n l s) x1 x2 = map_sum id (viewed f c n l) (handleSettlement s x1 x2)"
  by (simp add: handleSettlement_def viewing Let_def split: option.splits sum.splits lock_step.splits prod.splits)

lemma circleLaw_viewed [viewing]: "circleLaw x0 (viewed f c n l s) = circleLaw x0 s"
  by (((rule ext)+)?, simp add: circleLaw_def viewing Let_def cong: viewing_cong)

lemma mayCarryPastExpiry_viewed [viewing]: "mayCarryPastExpiry (viewed f c n l s) = mayCarryPastExpiry s"
  by (((rule ext)+)?, simp add: mayCarryPastExpiry_def viewing Let_def cong: viewing_cong)

lemma activatesDeferredTranche_viewed [viewing]: "activatesDeferredTranche (viewed f c n l s) = activatesDeferredTranche s"
  by (((rule ext)+)?, simp add: activatesDeferredTranche_def viewing Let_def cong: viewing_cong)

lemma pastDeadline_viewed [viewing]: "pastDeadline (viewed f c n l s) = pastDeadline s"
  by (((rule ext)+)?, simp add: pastDeadline_def viewing Let_def cong: viewing_cong)

lemma strangerPastExpiry_viewed [viewing]: "strangerPastExpiry (viewed f c n l s) = strangerPastExpiry s"
  by (((rule ext)+)?, simp add: strangerPastExpiry_def viewing Let_def cong: viewing_cong)

lemma dispatch_viewed [viewing]: "f x2 = x2 \<Longrightarrow> dispatch x0 (viewed f c n l s) x2 = map_sum id (viewed f c n l) (dispatch x0 s x2)"
  by (cases "ev_payload x2") (simp_all add: dispatch_def viewing Let_def split: option.splits sum.splits lock_step.splits prod.splits)

lemma expire_viewed [viewing]: "expire (viewed f c n l s) = viewed f c n l (expire s)"
  by (((rule ext)+)?, simp add: expire_def viewing Let_def cong: viewing_cong)

lemma applyChained_viewed [viewing]: "f x2 = x2 \<Longrightarrow> applyChained x0 (viewed f c n l s) x2 = map_sum id (viewed f c n l) (applyChained x0 s x2)"
  by (simp add: applyChained_def viewing)

lemma applyTo_viewed [viewing]: "f x2 = x2 \<Longrightarrow> applyTo x0 (viewed f c n l s) x2 = map_sum id (viewed f c n l) (applyTo x0 s x2)"
  by (cases "ev_payload x2") (simp_all add: applyTo_def viewing Let_def split: option.splits sum.splits lock_step.splits prod.splits)

lemma applyEvent_viewed:
  "f e = e \<Longrightarrow> applyEvent E (Some (viewed f c n l s)) e = map_sum id (viewed f c n l) (applyEvent E (Some s) e)"
  by (cases "ev_payload e") (simp_all add: applyEvent_def viewing)

end

end
