(* ===== verification/Replay_Refinement.thy ===== *)
theory Replay_Refinement
  imports Worked_Trade State_View "HOL-Library.Sublist"
begin

text \<open>
  Replay against the reducer. The notes a replay leaves (\<open>replayNotes\<close>, \<open>rejectedLocks\<close>) are read by
  nothing the reducer computes: they are a view of the state (\<open>event_view\<close> with the identity on
  events), so every query and every handler commutes with them. So a replayed state is the reducer's
  state on the accepted events, with notes added; and an honest chain replays to exactly what the
  reducer makes of it.
\<close>

section \<open>Nothing reads the notes\<close>

definition withNotes :: "replay_note list \<Rightarrow> (event \<times> errcode) list \<Rightarrow> state \<Rightarrow> state" where
  "withNotes ns ls s = s\<lparr>st_replayNotes := ns, st_rejectedLocks := ls\<rparr>"

lemma withNotes_viewed: "withNotes ns ls = viewed id (\<lambda>x. x) (\<lambda>_. ns) (\<lambda>_. ls)"
  by (rule ext) (simp add: withNotes_def viewed_def)

lemma withNotes_chain: "st_eventChain (withNotes ns ls s) = st_eventChain s"
  by (simp add: withNotes_def)

interpretation noteView: event_view id "\<lambda>x. x"
  by unfold_locales simp_all

lemma applyEvent_noted:
  "applyEvent E (Some (withNotes ns ls s)) e = map_sum id (withNotes ns ls) (applyEvent E (Some s) e)"
  by (simp add: withNotes_viewed noteView.applyEvent_viewed)

section \<open>The state without its notes\<close>

definition stripNotes :: "state \<Rightarrow> state" where
  "stripNotes s = withNotes [] [] s"

lemma stripNotes_withNotes [simp]: "stripNotes (withNotes ns ls s) = stripNotes s"
  by (simp add: stripNotes_def withNotes_def)

lemma withNotes_strip: "withNotes (st_replayNotes s) (st_rejectedLocks s) (stripNotes s) = s"
  by (simp add: stripNotes_def withNotes_def)

lemma sameButNotes_strip: "sameButNotes s t \<Longrightarrow> stripNotes t = stripNotes s"
  by (auto simp: sameButNotes_def stripNotes_def withNotes_def)

lemma strip_created: "stripNotes (createdState e p) = createdState e p"
  by (simp add: stripNotes_def withNotes_def createdState_def Let_def)

lemma strip_applied:
  assumes "applyEvent E st e = Inr s"
  shows "applyEvent E (map_option stripNotes st) e = Inr (stripNotes s)"
proof (cases st)
  case None
  with assms show ?thesis by (auto simp: applyEvent_None handleCreate_Inr strip_created)
next
  case (Some t)
  with assms show ?thesis by (simp add: stripNotes_def applyEvent_noted)
qed

lemma replayStep_strip:
  assumes "replayStep E x pos e = Inr pos'"
  shows "map_option stripNotes (po_state pos') = map_option stripNotes (po_state pos)
    \<or> (\<exists>s. po_state pos' = Some s \<and> applyEvent E (map_option stripNotes (po_state pos)) e = Inr (stripNotes s))"
proof (cases "applyEvent E (po_state pos) e")
  case (Inl c)
  with assms have r: "onReject x pos e c = Inr pos'" by (simp add: replayStep_def)
  show ?thesis
  proof (cases "po_state pos")
    case None
    with r show ?thesis
      by (auto simp: onReject_def Let_def withClaimant_def split: verdict.splits if_splits)
  next
    case (Some s)
    with onReject_state [OF r Some] show ?thesis by (auto dest: sameButNotes_strip)
  qed
next
  case (Inr s)
  with assms have "po_state pos' = Some s" by (auto simp: replayStep_def split: if_splits)
  with strip_applied [OF Inr] show ?thesis by blast
qed

lemma replayLoop_strip:
  "replayLoop E x es pos = Inr pos' \<Longrightarrow>
    \<exists>acc. subseq acc es \<and> run E (map_option stripNotes (po_state pos)) acc = map_option stripNotes (po_state pos')"
proof (induction es arbitrary: pos)
  case Nil
  then show ?case by (intro exI [of _ "[]"]) simp
next
  case (Cons e es)
  then obtain q where q: "replayStep E x pos e = Inr q" "replayLoop E x es q = Inr pos'"
    by (auto split: sum.splits)
  from Cons.IH [OF q(2)] obtain acc where a: "subseq acc es"
    "run E (map_option stripNotes (po_state q)) acc = map_option stripNotes (po_state pos')" by blast
  from replayStep_strip [OF q(1)] show ?case
  proof
    assume "map_option stripNotes (po_state q) = map_option stripNotes (po_state pos)"
    with a show ?thesis by (intro exI [of _ acc]) (auto intro: list_emb_Cons)
  next
    assume "\<exists>s. po_state q = Some s \<and> applyEvent E (map_option stripNotes (po_state pos)) e = Inr (stripNotes s)"
    with a show ?thesis by (intro exI [of _ "e # acc"]) auto
  qed
qed

lemma strip_addNotes: "stripNotes (addNotes es c s) = stripNotes s"
  unfolding addNotes_def
  by (induction es arbitrary: s) (auto simp: addNote_def stripNotes_def withNotes_def)

lemma strip_closing: "stripNotes (closing w p i s) = stripNotes s"
proof -
  have "stripNotes (s\<lparr>st_rejectedLocks := ls\<rparr>) = stripNotes s" for ls by (simp add: stripNotes_def withNotes_def)
  then show ?thesis by (simp add: closing_def Let_def strip_addNotes)
qed

lemma replayRooted_strip:
  assumes "replayRooted E original es ignored released = Inr s"
  shows "\<exists>acc. subseq acc es \<and> run E None acc = Some (stripNotes s)"
proof -
  from assms obtain pos t where l: "replayLoop E (replayContext original es released)
      (replayedEvents es released) (startPos original) = Inr pos" "po_state pos = Some t" "stripNotes s = stripNotes t"
    by (auto simp: replayRooted_def strip_closing split: sum.splits option.splits)
  from replayLoop_strip [OF l(1)] obtain acc where "subseq acc (replayedEvents es released)"
    "run E None acc = Some (stripNotes s)" using l(2,3) by (auto simp: startPos_def)
  moreover have "subseq (replayedEvents es released) es"
    unfolding replayedEvents_def by (rule subseq_filter_left)
  ultimately show ?thesis using subseq_order.trans by blast
qed

section \<open>Replay refines the reducer\<close>

text \<open>C3. Replay refines the reducer: whatever events a relay returns, a replayed state is, but for
  the notes about skipped and refused events, the state the reducer reaches on some subsequence
  of the rooted chain, every event of which it accepted in turn. In particular it is reachable.\<close>

theorem replay_refines_reducer:
  assumes "replayEventChain E original creator = Inr s"
  shows "\<exists>es ignored acc t. selectTradeRoot (e_sha E) original creator = Inr (es, ignored)
    \<and> subseq acc es \<and> run E None acc = Some t \<and> reachable E t
    \<and> s = withNotes (st_replayNotes s) (st_rejectedLocks s) t"
proof -
  from assms obtain es ignored released where r: "selectTradeRoot (e_sha E) original creator = Inr (es, ignored)"
    "replayRooted E original es ignored released = Inr s"
    by (auto simp: replayEventChain_def replayWith_def split: if_splits sum.splits)
  from replayRooted_strip [OF r(2)] obtain acc where a: "subseq acc es" "run E None acc = Some (stripNotes s)" by blast
  then have "acc \<noteq> []" by auto
  with a r(1) run_reachable [OF a(2)] show ?thesis
    by (intro exI [of _ es] exI [of _ ignored] exI [of _ acc] exI [of _ "stripNotes s"]) (simp add: withNotes_strip)
qed

section \<open>Replay of an honest chain\<close>

lemma replayLoop_run:
  "run E (po_state pos) es = Some t \<Longrightarrow> \<forall>e\<in>set es. ev_kind e = K_JOIN \<or> \<not> missingPrev x e
    \<Longrightarrow> \<exists>pos'. replayLoop E x es pos = Inr pos' \<and> po_state pos' = Some t"
proof (induction es arbitrary: pos)
  case (Cons e es)
  from Cons.prems(1) obtain s where s: "applyEvent E (po_state pos) e = Inr s" "run E (Some s) es = Some t"
    by (auto split: sum.splits)
  from s(1) Cons.prems(2) have "replayStep E x pos e = Inr (pos\<lparr>po_state := Some s\<rparr>)"
    by (auto simp: replayStep_def)
  with Cons.IH [of "pos\<lparr>po_state := Some s\<rparr>"] s(2) Cons.prems(2) show ?case by simp
qed simp

lemma no_steps:
  assumes "\<forall>e\<in>set es. stepOf e = None"
  shows "stepsFor es released = (\<lparr>ls_withdrawn = [], ls_setAside = []\<rparr>, [])"
    "\<not> list_ex isWithdraw es" "replayedEvents es released = es"
proof -
  have f: "filter (\<lambda>e. stepOf e \<noteq> None) es = []" "filter (pinsCancel es ids) es = []" for ids
    using assms by (auto simp: filter_empty_conv pinsCancel_def isAccept_def)
  then show s: "stepsFor es released = (\<lparr>ls_withdrawn = [], ls_setAside = []\<rparr>, [])"
    by (auto simp: stepsFor_def refusedLockSteps_def withdrawnLocks_def Let_def split: option.splits)
  then show "replayedEvents es released = es" by (simp add: replayedEvents_def)
  show "\<not> list_ex isWithdraw es" using assms by (auto simp: list_ex_iff isWithdraw_def)
qed

text \<open>C20. Replay loses nothing of an honest chain: when the reducer accepts every event of the
  chain in order, the chain has a single root, no LOCK step, and every predecessor an event other
  than a JOIN names is in it, the replayed state is exactly the reducer's.\<close>

theorem replay_of_honest_chain:
  assumes "run E None es = Some t" "selectTradeRoot (e_sha E) es creator = Inr (es, [])"
    and "\<forall>e\<in>set es. stepOf e = None"
    and "\<forall>e\<in>set es. ev_kind e = K_JOIN \<or> (\<forall>i. prevOf e = Some i \<longrightarrow> i \<in> ev_id ` set es)"
  shows "replayEventChain E es creator = Inr t"
proof -
  note none = no_steps [OF assms(3)]
  from assms(1) have root: "es \<noteq> []" by auto
  then obtain e rest where es: "es = e # rest" by (cases es) auto
  with assms(1) obtain s where "applyEvent E None e = Inr s" by (auto split: sum.splits)
  then have create: "ev_kind (hd es) = K_CREATE" by (auto simp: applyEvent_None ev_kind_def es)
  have "\<exists>released. releasedLocks E creator es = Inr released"
    using none(2) by (simp add: releasedLocks_def probeReleased_def)
  then obtain released where rel: "releasedLocks E creator es = Inr released" by blast
  have "\<forall>f\<in>set es. ev_kind f = K_JOIN \<or> \<not> missingPrev (replayContext es es released) f"
    using assms(4) by (auto simp: missingPrev_def replayContext_def none(1) split: option.splits)
  moreover have "run E (po_state (startPos es)) es = Some t" using assms(1) by (simp add: startPos_def)
  ultimately obtain pos where "replayLoop E (replayContext es es released) es (startPos es) = Inr pos"
    "po_state pos = Some t" using replayLoop_run by blast
  then have "replayRooted E es es [] released = Inr t"
    by (simp add: replayRooted_def none closing_def addNotes_def)
  then show ?thesis using root create rel assms(2)
    by (simp add: replayEventChain_def replayWith_def)
qed

lemma worked_chain: "wDecided 1000 = [wCreate 1000, wJoin 1000, wLock 1000 False, wVote ''e3'' ''B'' BUYER RELEASE 1030,
    wVote ''e4'' ''S'' SELLER REFUND 1040, wVote ''e5'' ''A'' ARBITER RELEASE 1050, wResolve RELEASE [ARBITER, BUYER] 1060]"
  by (simp add: wDecided_def wDispute_def wLocked_def)

lemmas worked_events = wCreate_def wJoin_def wLock_def wVote_def wResolve_def mkEvent_def

theorem replay_of_honest_chain_witness:
  "replayEventChain plainEnv (wDecided 1000) None = Inr (stateAfter (wDecided 1000))"
proof (rule replay_of_honest_chain)
  show "run plainEnv None (wDecided 1000) = Some (stateAfter (wDecided 1000))"
    using worked_ran(3) by (auto simp: ran_def stateAfter_def split: option.splits)
  have c: "filter isCreate (wDecided 1000) = [wCreate 1000]"
    by (simp add: worked_chain isCreate_def worked_events ev_kind_def)
  have "\<not> isRotationRound (wCreate 1000)" by code_simp
  with c show "selectTradeRoot (e_sha plainEnv) (wDecided 1000) None = Inr (wDecided 1000, [])"
    by (simp add: selectTradeRoot_def Let_def byTimeId_def dedupe_def)
qed (simp_all add: worked_chain stepOf_def prevOf_def worked_events ev_kind_def)


definition wNoisy :: "event list" where
  "wNoisy = wDispute 1000 @ [wVote ''n'' ''X'' ARBITER REFUND 1045]"

theorem replay_refines_reducer_witness:
  "\<exists>es acc t. selectTradeRoot (e_sha plainEnv) wNoisy None = Inr (es, []) \<and> subseq acc es
    \<and> run plainEnv None acc = Some t \<and> length (st_eventChain t) = 5"
proof -
  have f: "(case replayEventChain plainEnv wNoisy None of Inl _ \<Rightarrow> False | Inr s \<Rightarrow> length (st_eventChain s) = 5)"
    "(case selectTradeRoot (e_sha plainEnv) wNoisy None of Inl _ \<Rightarrow> False | Inr r \<Rightarrow> (case snd r of [] \<Rightarrow> True | _ \<Rightarrow> False))"
    by code_simp+
  then obtain s where s: "replayEventChain plainEnv wNoisy None = Inr s" "length (st_eventChain s) = 5"
    by (auto split: sum.splits)
  from replay_refines_reducer [OF s(1)] obtain es ignored acc t where
    r: "selectTradeRoot (e_sha plainEnv) wNoisy None = Inr (es, ignored)" "subseq acc es" "run plainEnv None acc = Some t"
      "s = withNotes (st_replayNotes s) (st_rejectedLocks s) t" by blast
  from r(4) have "st_eventChain s = st_eventChain t"
    by (metis withNotes_chain)
  with r f(2) s(2) show ?thesis by (auto split: list.splits)
qed

section \<open>Noise\<close>

text \<open>C40. An event the reducer refuses, whose signer is not entitled to count against the trade,
  never stops a replay: the step goes on, and the state it goes on with differs at most in the
  replay's notes.\<close>

theorem noise_cannot_stop_a_replay:
  assumes "po_state pos = Some s" "applyEvent E (Some s) e = Inl c" "c \<noteq> ''#THROW''" "\<not> entitled x pos e"
  shows "\<exists>pos' t. replayStep E x pos e = Inr pos' \<and> po_state pos' = Some t \<and> sameButNotes s t"
proof -
  obtain pos' where "onReject x pos e c = Inr pos'" using onReject_noise [OF assms(4,3)] by blast
  with onReject_state [OF this assms(1)] assms(1,2) show ?thesis by (auto simp: replayStep_def)
qed

definition noiseEvent :: event where
  "noiseEvent = wComplete ''X'' 1070"

definition noisePos :: replay_pos where
  "noisePos = (startPos (wDecided 1000))\<lparr>po_state := Some (stateAfter (wDecided 1000))\<rparr>"

lemma noise_facts:
  "applyEvent plainEnv (Some (stateAfter (wDecided 1000))) noiseEvent = Inl ''INVALID_STATE''"
  "\<not> entitled (replayContext (wDecided 1000) (wDecided 1000) None) noisePos noiseEvent"
proof -
  have "case applyEvent plainEnv (Some (stateAfter (wDecided 1000))) noiseEvent of
      Inl c \<Rightarrow> c = ''INVALID_STATE'' | Inr _ \<Rightarrow> False" by code_simp
  then show "applyEvent plainEnv (Some (stateAfter (wDecided 1000))) noiseEvent = Inl ''INVALID_STATE''"
    by (auto split: sum.splits)
  show "\<not> entitled (replayContext (wDecided 1000) (wDecided 1000) None) noisePos noiseEvent" by code_simp
qed

theorem noise_cannot_stop_a_replay_witness:
  "\<exists>pos' t. replayStep plainEnv (replayContext (wDecided 1000) (wDecided 1000) None) noisePos noiseEvent = Inr pos'
    \<and> po_state pos' = Some t \<and> sameButNotes (stateAfter (wDecided 1000)) t"
  by (rule noise_cannot_stop_a_replay [OF _ noise_facts(1) _ noise_facts(2)]) (simp_all add: noisePos_def)

end
