(* ===== verification/Payout_Properties.thy ===== *)
theory Payout_Properties
  imports Worked_Trade
begin

text \<open>
  What a settlement on chain guarantees: a COMPLETE of an on-chain trade pays its winner, a
  transaction the verifier accepts is a bounded sweep of the escrow, and a dispute spend asserts
  its delay. The Bitcoin library stays the environment \<open>E\<close>; \<open>chainEnv\<close> is an instance of it.
\<close>

section \<open>What a settlement proof proves\<close>

text \<open>A transaction sweeps the funding outpoint of a LOCK to one destination.\<close>

definition sweepsTo :: "env \<Rightarrow> lock_terms \<Rightarrow> psbt \<Rightarrow> string \<Rightarrow> bool" where
  "sweepsTo E t tx d \<longleftrightarrow> (\<exists>i\<in>set (tx_inputs tx). in_txid i = Some (lt_fundingTxid t) \<and> in_index i = Some (lt_fundingVout t))
     \<and> (\<exists>out. tx_outputs tx = [out] \<and> getOr (e_outAddress E (ft_network t) (out_script out)) ''(undecodable)'' = d)"

text \<open>A destination is the winner's own: its trade key, or an address its owner proposed for this
  very transaction.\<close>

definition winnersOwn :: "env \<Rightarrow> lock_terms \<Rightarrow> string \<Rightarrow> role \<Rightarrow> settlement_msg list \<Rightarrow> psbt \<Rightarrow> string \<Rightarrow> bool" where
  "winnersOwn E t pk r ms tx d \<longleftrightarrow> tradeKeyAddress E t r = Some d
     \<or> (\<exists>m\<in>set ms. sm_pubkey m = pk \<and> sp_role (sm_payload m) = r \<and> sp_payoutAddress (sm_payload m) = Some d
          \<and> settlementUnsignedId E (msgPsbt m) = Some (tx_id tx))"

lemma those_inputUtxo:
  "those (map inputUtxo is) = Some us \<Longrightarrow> u \<in> set us \<Longrightarrow>
    \<exists>i\<in>set is. in_txid i = Some (ux_txid u) \<and> in_index i = Some (ux_index u)"
  by (induction "is" arbitrary: us) (auto simp: inputUtxo_def bind_eq_Some_conv split: option.splits)

lemma payoutDestination_own:
  assumes "payoutDestination E fin t r ms (Some pk) = Some d" "e_parsePsbt E (sp_psbt fin) = Some tx"
  shows "winnersOwn E t pk r ms tx d"
proof -
  from assms(1) obtain direct where dd: "authorizedDirectPayout E fin ms r (Some pk) = Some direct"
    "(case direct of Some d \<Rightarrow> Some d | None \<Rightarrow> tradeKeyAddress E t r) = Some d"
    by (auto simp: payoutDestination_def bind_eq_Some_conv)
  show ?thesis
  proof (cases direct)
    case None
    with dd(2) show ?thesis by (simp add: winnersOwn_def)
  next
    case (Some a)
    with dd assms(2) obtain m where m: "List.find (\<lambda>m. sm_pubkey m = pk \<and> sp_role (sm_payload m) = r
        \<and> truthyS (sp_payoutAddress (sm_payload m))
        \<and> settlementUnsignedId E (msgPsbt m) = Some (tx_id tx)) ms = Some m" "sp_payoutAddress (sm_payload m) = Some d"
      by (auto simp: authorizedDirectPayout_def settlementUnsignedId_def bind_eq_Some_conv
          split: option.splits if_splits)
    from find_Some_in [OF m(1)] m(2) show ?thesis unfolding winnersOwn_def by blast
  qed
qed

lemma sweep_sound:
  assumes "settlementOk E b64 (sweepExpectation esc us d (ft_network t) leaf tip)" "e_parsePsbt E b64 = Some tx"
    and "those (map inputUtxo (tx_inputs tx)) = Some us" "spendsFunding t us"
  shows "sweepsTo E t tx d"
proof -
  from assms(1) obtain out where "tx_outputs tx = [out]"
    "getOr (e_outAddress E (ft_network t) (out_script out)) ''(undecodable)'' = d"
    by (elim settlementOk_sound) (auto simp: sweepExpectation_def assms(2))
  moreover from assms(4) obtain u where u: "u \<in> set us" "ux_txid u = lt_fundingTxid t" "ux_index u = lt_fundingVout t"
    by (auto simp: spendsFunding_def list_ex_iff)
  from those_inputUtxo [OF assms(3) u(1)] u(2,3)
  have "\<exists>i\<in>set (tx_inputs tx). in_txid i = Some (lt_fundingTxid t) \<and> in_index i = Some (lt_fundingVout t)" by simp
  ultimately show ?thesis unfolding sweepsTo_def by blast
qed

text \<open>The two proofs of a payout share this contract.\<close>

definition provesPayout :: "env \<Rightarrow> settlement_payload \<Rightarrow> lock_terms \<Rightarrow> role \<Rightarrow> settlement_msg list \<Rightarrow> string
    \<Rightarrow> settlement_proof \<Rightarrow> bool" where
  "provesPayout E fin t r ms pk pf \<longleftrightarrow> (\<exists>tx. e_parsePsbt E (sp_psbt fin) = Some tx \<and> sweepsTo E t tx (pf_destination pf)
     \<and> winnersOwn E t pk r ms tx (pf_destination pf) \<and> pf_txid pf = tx_id tx)"

lemma provesPayoutI:
  assumes "e_parsePsbt E (sp_psbt fin) = Some tx" "those (map inputUtxo (tx_inputs tx)) = Some us" "spendsFunding t us"
    and "payoutDestination E fin t r ms (Some pk) = Some d"
    and "settlementOk E (sp_psbt fin) (sweepExpectation esc us d (ft_network t) leaf tip)" "proofOf tx d us = Some pf"
  shows "provesPayout E fin t r ms pk pf"
proof -
  from assms(6) have "pf_destination pf = d" "pf_txid pf = tx_id tx"
    by (auto simp: proofOf_def split: list.splits)
  with sweep_sound [OF assms(5,1,2,3)] payoutDestination_own [OF assms(4,1)] assms(1)
  show ?thesis by (simp add: provesPayout_def)
qed

lemma finalCoop_proves: "finalCoopSettlementProof E fin t r ms (Some pk) = Some pf \<Longrightarrow> provesPayout E fin t r ms pk pf"
  by (auto simp: finalCoopSettlementProof_def bind_eq_Some_conv split: if_splits intro: provesPayoutI)

lemma finalArbiter_proves:
  "finalArbiterSettlementProof E fin t r ms (Some pk) = Some pf \<Longrightarrow> provesPayout E fin t r ms pk pf"
  by (auto simp: finalArbiterSettlementProof_def bind_eq_Some_conv split: if_splits intro: provesPayoutI)


text \<open>A Bitcoin environment in which every message carries one transaction, for the witnesses.\<close>

definition chainTx :: psbt where
  "chainTx = \<lparr>tx_id = ''tx'', tx_lockTime = 0, tx_inputs = [\<lparr>in_txid = Some ''fund'', in_index = Some 0,
     in_witness = Some (''script'', 1000), in_sighashType = None, in_sequence = None, in_sigs = []\<rparr>],
     tx_outputs = [\<lparr>out_amount = Some 900, out_script = ''out''\<rparr>]\<rparr>"

definition chainEnv :: env where
  "chainEnv = plainEnv\<lparr>e_msScript := (\<lambda>_. Some ''ms''), e_csvScript := (\<lambda>_ _. Some ''csv''),
     e_cltvScript := (\<lambda>_ _. Some ''cltv''), e_treeOutput := (\<lambda>_ _. Some (''addr'', ''script'')),
     e_keyAddress := (\<lambda>_ _. Some ''home''), e_parsePsbt := (\<lambda>_. Some chainTx), e_combine := (\<lambda>_. Some ''psbt''),
     e_finalizeAll := (\<lambda>_. Some ''raw''), e_outAddress := (\<lambda>_ _. Some ''home'')\<rparr>"

definition chainTerms :: lock_terms where
  "chainTerms = \<lparr>ft_address = ''addr'', ft_buyerXonly = replicate 64 CHR ''b'', ft_sellerXonly = replicate 64 CHR ''a'',
     ft_arbiterXonly = replicate 64 CHR ''c'', ft_funder = SELLER, ft_refundLockUntil = 900000,
     ft_disputeCsvBlocks = 144, ft_network = MAINNET, ft_arbiterBond = None, lt_fundingTxid = ''fund'',
     lt_fundingVout = 0, lt_amountSats = ''1000''\<rparr>"

definition chainState :: state where
  "chainState = (let s = stateAfter (wDecided 1000) in
     s\<lparr>st_resolvedMajority := Some [BUYER, SELLER], st_lock := (st_lock s)\<lparr>lk_onchain := Some chainTerms\<rparr>,
       st_settlements := [\<lparr>sm_id = ''m1'', sm_pubkey = ''B'', sm_timestamp = 1065, sm_payload = \<lparr>sp_psbt = ''p'',
         sp_leaf = LF_COOP, sp_role = BUYER, sp_payoutAddress = None, sp_final = Some True\<rparr>\<rparr>]\<rparr>)"

definition chainComplete :: event where
  "chainComplete = (wComplete ''B'' 1080)\<lparr>ev_tags := [[''settlement'', ''m1'']]\<rparr>"

text \<open>A settlement the checks accept is a bounded sweep: its inputs are different outpoints of the
  escrow known to the verifier, each committing the escrow's script and the known value; it has
  one output, to the expected destination; and what it does not pay out is a fee between zero and
  the ceiling.\<close>

theorem accepted_settlement_is_a_bounded_sweep:
  assumes "settlementOk E b64 ex"
  shows "\<exists>tx out. e_parsePsbt E b64 = Some tx \<and> tx_inputs tx \<noteq> [] \<and> distinct (map inputKey (tx_inputs tx))
    \<and> (\<forall>i\<in>set (tx_inputs tx). \<exists>u\<in>set (ex_utxos ex). utxoKey u = inputKey i
         \<and> in_witness i = Some (oe_script (ex_escrow ex), ux_amountSats u))
    \<and> tx_outputs tx = [out]
    \<and> getOr (e_outAddress E (getOr (ex_network ex) (op_network (oe_params (ex_escrow ex)))) (out_script out))
         ''(undecodable)'' = ex_destination ex
    \<and> 0 \<le> witnessSum (tx_inputs tx) - getOr (out_amount out) 0
    \<and> witnessSum (tx_inputs tx) - getOr (out_amount out) 0 \<le> ex_maxFeeSats ex"
  using assms
proof (elim settlementOk_sound)
  fix tx out assume t: "e_parsePsbt E b64 = Some tx" "tx_inputs tx \<noteq> []" "distinct (map inputKey (tx_inputs tx))"
    and i: "\<forall>i\<in>set (tx_inputs tx). inputClean ex i" and o1: "tx_outputs tx = [out]"
      "getOr (e_outAddress E (getOr (ex_network ex) (op_network (oe_params (ex_escrow ex)))) (out_script out))
         ''(undecodable)'' = ex_destination ex"
      "getOr (out_amount out) 0 \<le> witnessSum (tx_inputs tx)"
      "witnessSum (tx_inputs tx) - getOr (out_amount out) 0 \<le> ex_maxFeeSats ex"
  from i have "\<forall>i\<in>set (tx_inputs tx). \<exists>u\<in>set (ex_utxos ex). utxoKey u = inputKey i
         \<and> in_witness i = Some (oe_script (ex_escrow ex), ux_amountSats u)" using inputCleanD(1) by blast
  with t o1 show ?thesis by (intro exI [of _ tx] exI [of _ out]) simp
qed

definition chainSweep :: expectation where
  "chainSweep = sweepExpectation \<lparr>oe_address = ''addr'', oe_script = ''script'', oe_coop = ''ms'', oe_dispute = ''csv'',
     oe_refund = ''cltv'', oe_params = \<lparr>op_buyer = ''b'', op_seller = ''a'', op_arbiter = ''c'', op_funder = SELLER,
       op_refundLockUntil = 900000, op_csv = 144, op_network = MAINNET\<rparr>\<rparr>
     [\<lparr>ux_txid = ''fund'', ux_index = 0, ux_amountSats = 1000\<rparr>] ''home'' MAINNET None None"

theorem accepted_settlement_is_a_bounded_sweep_witness:
  "\<exists>tx out. e_parsePsbt chainEnv ''p'' = Some tx \<and> tx_outputs tx = [out]
    \<and> witnessSum (tx_inputs tx) - getOr (out_amount out) 0 \<le> ex_maxFeeSats chainSweep"
proof -
  have "settlementOk chainEnv ''p'' chainSweep" by code_simp
  from accepted_settlement_is_a_bounded_sweep [OF this] show ?thesis by blast
qed

lemma and_flag_zero: "\<not> bit w k \<Longrightarrow> w AND push_bit k 1 = (0 :: 32 word)"
proof (rule bit_word_eqI)
  fix n assume "\<not> bit w k" "n < LENGTH(32)"
  then show "bit (w AND push_bit k 1) n = bit (0 :: 32 word) n"
    by (cases "n = k") (auto simp only: bit_and_iff bit_push_bit_iff bit_1_iff bit_0_eq bot_apply bot_bool_def)
qed

text \<open>The sequence of a dispute spend is the escrow's block delay itself, read from the 16 value
  bits with neither the disable flag nor the seconds flag set, so the relative time lock the
  script demands is really asserted; a delay that does not fit is refused.\<close>

theorem dispute_sequence_asserts_the_delay:
  assumes "0 < csv"
  shows "if csv \<le> 65535 then sequenceForLeaf DISPUTE csv = Some csv \<and> assertsRelativeBlockAge csv
    else sequenceForLeaf DISPUTE csv = None"
proof (cases "csv \<le> 65535")
  case True
  have u: "uint (word32 csv) = csv"
    using assms True by (simp add: word32_def uint_word_of_int take_bit_int_eq_self_iff)
  have b: "\<not> bit csv 31" "\<not> bit csv 22" using assms True by (simp_all add: bit_iff_odd)
  then have nb: "\<not> bit (word32 csv) 31" "\<not> bit (word32 csv) 22"
    by (simp_all add: word32_def bit_word_of_int_iff)
  have "word32 csv AND BIP68_DISABLE_FLAG = 0" "word32 csv AND BIP68_SECONDS_FLAG = 0"
    by (simp_all only: BIP68_DISABLE_FLAG_def BIP68_SECONDS_FLAG_def and_flag_zero [OF nb(1)] and_flag_zero [OF nb(2)])
  with sequenceForLeaf_dispute [OF assms True] True show ?thesis by (simp add: assertsRelativeBlockAge_def)
next
  case False
  with assms show ?thesis by (simp add: sequenceForLeaf_def)
qed

theorem dispute_sequence_asserts_the_delay_witness:
  "sequenceForLeaf DISPUTE DISPUTE_CSV_BLOCKS = Some 144 \<and> assertsRelativeBlockAge DISPUTE_CSV_BLOCKS"
  using dispute_sequence_asserts_the_delay [of DISPUTE_CSV_BLOCKS] by (simp add: DISPUTE_CSV_BLOCKS_def)

end
