(* ===== verification/Policy_Properties.thy ===== *)
theory Policy_Properties
  imports Worked_Trade
begin

text \<open>
  Properties of the pure policies the reducer and its callers share: slicing, the savings circles
  (outcome timeline, rotation order, collectors, the fill latch), creator-tagged ids and the
  causal order of a chain.
\<close>

section \<open>Slices\<close>

lemma ceilDiv_le: "0 < b \<Longrightarrow> 0 < m \<Longrightarrow> a \<le> b * m \<Longrightarrow> ceilDiv a b \<le> m"
  using ceilDiv_bounds(2) [of b a] by (smt (verit) mult.commute mult_le_cancel_left_pos mult_strict_right_mono)

lemma splitLoop_map_index: "map td_index (splitLoop t c 0) = map int [0..<length (splitLoop t c 0)]"
  by (rule nth_equalityI) (auto simp: splitLoop_index)

lemma splitEven_map_index: "map td_index (splitEven t n) = map int [0..<length (splitEven t n)]"
  by (rule nth_equalityI) (auto simp: splitEven_def Let_def)

text \<open>A derived slice plan conserves the total: its slices are numbered from zero, positive, at
  most the exposure cap and sum to the amount; there are as many as the plan says, at least as
  many as asked for and at most a hundred.\<close>

theorem slice_plan_conserves:
  assumes "deriveSlicePlan t n = Inr p"
  shows "(\<Sum>r\<leftarrow>pl_tranches p. td_amountMsats r) = t
    \<and> (\<forall>r\<in>set (pl_tranches p). 0 < td_amountMsats r \<and> td_amountMsats r \<le> MAX_SLICE_EXPOSURE_MSATS)
    \<and> int (length (pl_tranches p)) = pl_sliceCount p \<and> n \<le> pl_sliceCount p \<and> pl_sliceCount p \<le> MAX_SLICE_COUNT
    \<and> map td_index (pl_tranches p) = map int [0..<length (pl_tranches p)]"
proof -
  define flr where "flr = max 1 (ceilDiv t MAX_SLICE_EXPOSURE_MSATS)"
  define rows where "rows = splitLoop t MAX_SLICE_EXPOSURE_MSATS 0"
  define c where "c = max n flr"
  have cap: "0 < MAX_SLICE_EXPOSURE_MSATS" by (simp add: MAX_SLICE_EXPOSURE_MSATS_def)
  from assms have n: "1 \<le> n" "n \<le> MAX_SLICE_COUNT" "n * 1000 \<le> t" "0 < t" "flr \<le> MAX_SLICE_COUNT"
    and p: "pl_sliceCount p = c" "pl_tranches p = (if c = int (length rows) then rows else splitEven t c)"
    by (auto simp: deriveSlicePlan_def minSlicesForCap_def splitTranches_def Let_def flr_def rows_def c_def
        split: if_splits sum.splits)
  have c: "1 \<le> c" "n \<le> c" "c \<le> MAX_SLICE_COUNT" using n by (simp_all add: c_def)
  show ?thesis
  proof (cases "c = int (length rows)")
    case True
    have "(\<Sum>r\<leftarrow>rows. td_amountMsats r) = t" unfolding rows_def by (rule splitLoop_sum) (use cap n in auto)
    moreover have "\<forall>r\<in>set rows. 0 < td_amountMsats r \<and> td_amountMsats r \<le> MAX_SLICE_EXPOSURE_MSATS"
      unfolding rows_def using splitLoop_bounds by blast
    moreover have "map td_index rows = map int [0..<length rows]" unfolding rows_def by (rule splitLoop_map_index)
    ultimately show ?thesis using True p c by simp
  next
    case False
    have len: "int (length rows) = ceilDiv t MAX_SLICE_EXPOSURE_MSATS"
      unfolding rows_def by (rule splitLoop_length) (use cap n in auto)
    have "t \<le> ceilDiv t MAX_SLICE_EXPOSURE_MSATS * MAX_SLICE_EXPOSURE_MSATS" using ceilDiv_bounds(1) [OF cap] .
    with cap n(4) have "0 < ceilDiv t MAX_SLICE_EXPOSURE_MSATS" by (smt (verit) mult_nonpos_nonneg)
    with False len n(1) have cn: "c = n" "ceilDiv t MAX_SLICE_EXPOSURE_MSATS \<le> c"
      by (auto simp: c_def flr_def)
    have "t \<le> c * MAX_SLICE_EXPOSURE_MSATS"
      using ceilDiv_bounds(1) [OF cap, of t] cn(2) cap by (smt (verit) mult_right_mono)
    with c(1) cap have le: "ceilDiv t c \<le> MAX_SLICE_EXPOSURE_MSATS" by (intro ceilDiv_le) auto
    have "c * 1000 div c \<le> t div c" using n(3) c(1) cn(1) by (intro zdiv_mono1) auto
    then have "1000 \<le> t div c" using c(1) by simp
    then have "\<forall>r\<in>set (splitEven t c). 0 < td_amountMsats r \<and> td_amountMsats r \<le> MAX_SLICE_EXPOSURE_MSATS"
      using splitEven_bounds [of c _ t] le c(1) by fastforce
    with False p c splitEven_sum [of c t] splitEven_length [of c t] splitEven_map_index show ?thesis by simp
  qed
qed

theorem slice_plan_conserves_witness:
  "\<exists>p. deriveSlicePlan 5000000001 4 = Inr p \<and> (\<Sum>r\<leftarrow>pl_tranches p. td_amountMsats r) = 5000000001 \<and> 4 \<le> pl_sliceCount p"
proof -
  have "(case deriveSlicePlan 5000000001 4 of Inl _ \<Rightarrow> False | Inr _ \<Rightarrow> True)" by code_simp
  then obtain p where "deriveSlicePlan 5000000001 4 = Inr p" by (auto split: sum.splits)
  with slice_plan_conserves [OF this] show ?thesis by blast
qed

text \<open>The promise of at least a sat in every slice does not hold where the cap raises the
  count: one slice asked for just above the cap gives a second slice of one millisatoshi.\<close>

theorem one_msat_slice:
  "\<exists>p. deriveSlicePlan 2000000001 1 = Inr p \<and> map td_amountMsats (pl_tranches p) = [2000000000, 1]"
proof -
  have "(case deriveSlicePlan 2000000001 1 of Inl _ \<Rightarrow> False | Inr p \<Rightarrow> map td_amountMsats (pl_tranches p) = [2000000000, 1])"
    by code_simp
  then show ?thesis by (auto split: sum.splits)
qed

section \<open>Savings circles\<close>

text \<open>The outcome of a round is a one-way timeline. RELEASE is allowed exactly in the collect
  window of a filled round; no moment allows both outcomes; and once REFUND is due with fixed
  counts it stays due.\<close>

theorem round_outcome_timeline:
  assumes "fill \<le> finish" "now \<le> later"
  shows "(roundOutcomeAt fill finish locked expected now = RO_RELEASE \<longleftrightarrow>
      expected \<le> locked \<and> 0 < expected \<and> finish \<le> now \<and> now < finish + COLLECT_WINDOW_SEC)
    \<and> (roundOutcomeAt fill finish locked expected now = RO_REFUND
        \<longrightarrow> roundOutcomeAt fill finish locked expected later = RO_REFUND)
    \<and> (now < fill \<longrightarrow> roundOutcomeAt fill finish locked expected now = RO_NONE)"
  using assms by (auto simp: roundOutcomeAt_def Let_def COLLECT_WINDOW_SEC_def)

theorem round_outcome_timeline_witness:
  "roundOutcomeAt 100 200 3 3 250 = RO_RELEASE \<and> roundOutcomeAt 100 200 2 3 900 = RO_REFUND"
proof -
  have "roundOutcomeAt 100 200 2 3 150 = RO_REFUND" by (simp add: roundOutcomeAt_def)
  with round_outcome_timeline [of 100 200 150 900 2 3] round_outcome_timeline [of 100 200 250 250 3 3]
  show ?thesis by (simp add: COLLECT_WINDOW_SEC_def)
qed

text \<open>The rotation order names every member whose share of the commitment round is locked, each
  once (keys without letter case), and the host, when a member, comes last.\<close>

theorem rotation_order_is_the_locked_members:
  shows "distinct (rotationOrder i creator ls)
    \<and> set (rotationOrder i creator ls) = {lower (sl_memberPubkey l) | l. l \<in> set ls \<and> sl_circleId l = i
         \<and> sl_status l \<noteq> L_RESERVED \<and> sl_lockedAtSec l \<noteq> None}
    \<and> (lower creator \<in> set (rotationOrder i creator ls) \<longrightarrow> last (rotationOrder i creator ls) = lower creator)"
proof (intro conjI impI)
  show "set (rotationOrder i creator ls) = {lower (sl_memberPubkey l) | l. l \<in> set ls \<and> sl_circleId l = i
         \<and> sl_status l \<noteq> L_RESERVED \<and> sl_lockedAtSec l \<noteq> None}"
    using rotationOrder_set [of _ i creator ls] by blast
qed (rule rotationOrder_distinct, erule rotationOrder_host_last)

theorem rotation_order_is_the_locked_members_witness:
  "last (rotationOrder ''c'' ''H'' [\<lparr>sl_circleId = ''c'', sl_memberPubkey = ''h'', sl_escrowId = None,
     sl_status = L_LOCKED, sl_lockedAtSec = Some 1\<rparr>, \<lparr>sl_circleId = ''c'', sl_memberPubkey = ''M'', sl_escrowId = None,
     sl_status = L_LOCKED, sl_lockedAtSec = Some 5\<rparr>]) = ''h''"
proof -
  let ?ls = "[\<lparr>sl_circleId = ''c'', sl_memberPubkey = ''h'', sl_escrowId = None, sl_status = L_LOCKED,
     sl_lockedAtSec = Some 1\<rparr>, \<lparr>sl_circleId = ''c'', sl_memberPubkey = ''M'', sl_escrowId = None, sl_status = L_LOCKED,
     sl_lockedAtSec = Some 5\<rparr>]"
  have "lower ''H'' = ''h''" by code_simp
  moreover have "List.member (rotationOrder ''c'' ''H'' ?ls) ''h''" by code_simp
  ultimately show ?thesis using rotation_order_is_the_locked_members [of "''c''" "''H''" ?ls] by (simp add: List.member_iff)
qed

text \<open>Nobody collects twice: the collector of a round belongs to the rotation order, and the
  collectors of two different rounds are different members.\<close>

theorem collectors_are_different_members:
  assumes "collectorForRound sha i order host shares r = Some c" "collectorForRound sha i order host shares s = Some d"
    and "r \<noteq> s"
  shows "c \<in> set order \<and> d \<in> set order \<and> c \<noteq> d"
  using collectorForRound_in_order [OF assms(1)] collectorForRound_in_order [OF assms(2)] assms(3)
    collectorForRound_differ [OF assms(1,2)] collectorForRound_differ [OF assms(2,1)] by fastforce

definition wView :: "string \<Rightarrow> chama_policy \<Rightarrow> string \<Rightarrow> string \<Rightarrow> int \<Rightarrow> chama_view" where
  "wView i pol par member t = \<lparr>cv_id = i, cv_category = ''chama-share'', cv_chamaPolicy = Some pol, cv_chamaCircle = None,
     cv_initiator = ''h'', cv_community = None, cv_mintUrl = [], cv_description = [], cv_createdAt = 0,
     cv_parent = Some par, cv_participants = (\<lambda>r. if r = BUYER then Some member else None),
     cv_communityArbiters = [], cv_bondedArbiters = [], cv_fed = None, cv_fedPrefix = None,
     cv_platformFeePubkey = [], cv_lockAt = Some t\<rparr>"

definition wRace :: "chama_view list" where
  "wRace = [wView ''1'' SHARE_V1 ''c'' ''b'' 10, wView ''2'' SHARE_V1 ''c'' ''a'' 20,
     wView ''3'' SHARE_V2 ''r2'' ''b'' 30, wView ''4'' SHARE_V2 ''r2'' ''a'' 40]"

theorem collectors_are_different_members_witness:
  "\<exists>c d. collectorForRound (\<lambda>_. ''r2'') ''c'' [''a'', ''b'', ''h''] ''H'' wRace 2 = Some c
    \<and> collectorForRound (\<lambda>_. ''r2'') ''c'' [''a'', ''b'', ''h''] ''H'' wRace 3 = Some d \<and> c \<noteq> d"
proof -
  have c: "collectorForRound (\<lambda>_. ''r2'') ''c'' [''a'', ''b'', ''h''] ''H'' wRace 2 = Some ''b''"
    "collectorForRound (\<lambda>_. ''r2'') ''c'' [''a'', ''b'', ''h''] ''H'' wRace 3 = Some ''a''" by code_simp+
  from collectors_are_different_members [OF c] c show ?thesis by simp
qed

text \<open>A circle cannot be re-opened by what happens to its shares later: the number of seats
  locked in the window depends only on the recorded lock times, not on the status a share has
  since taken.\<close>

theorem circle_fill_is_latched:
  assumes "map (\<lambda>l. (sl_circleId l, sl_lockedAtSec l)) ls = map (\<lambda>l. (sl_circleId l, sl_lockedAtSec l)) ls'"
  shows "seatsLockedInWindow c ls = seatsLockedInWindow c ls'
    \<and> 0 \<le> seatsLockedInWindow c ls \<and> seatsLockedInWindow c ls \<le> seatsLockedInWindow c (ls @ more_locks)"
  using seatsLockedInWindow_latch [OF assms] seatsLockedInWindow_append [of c ls more_locks]
    seatsLockedInWindow_nonneg [of c ls] seatsLockedInWindow_nonneg [of c more_locks] by simp

definition wSeat :: "lock_status \<Rightarrow> share_lock" where
  "wSeat st = \<lparr>sl_circleId = ''c'', sl_memberPubkey = ''m'', sl_escrowId = None, sl_status = st, sl_lockedAtSec = Some 5\<rparr>"

definition wCircle :: circle_round where
  "wCircle = \<lparr>ct_shareMsats = 1000, ct_seatThreshold = 2, ct_seatCap = None, ct_unlisted = None, ct_pot = None,
     ct_fillDeadlineSec = 100, ct_roundEndSec = 200, ct_roundIndex = 1, ct_prevCircleId = None, cr_circleId = ''c'',
     cr_creatorPubkey = ''h'', cr_community = [], cr_mintUrl = [], cr_name = [], cr_createdAt = 0\<rparr>"

theorem circle_fill_is_latched_witness:
  "seatsLockedInWindow wCircle [wSeat L_LOCKED] = 1 \<and> seatsLockedInWindow wCircle [wSeat L_REFUNDED] = 1"
proof -
  have "seatsLockedInWindow wCircle [wSeat L_LOCKED] = 1" by code_simp
  with circle_fill_is_latched [of "[wSeat L_LOCKED]" "[wSeat L_REFUNDED]" wCircle "[]"]
  show ?thesis by (simp add: wSeat_def)
qed

section \<open>Identity and order of events\<close>

text \<open>A creator-tagged escrow id is read back as the creator's tag, its creator's key matches
  it in any letter case, and a key that does not start with the tag is refused as the creator.\<close>

theorem tagged_id_names_its_creator:
  assumes "creatorTaggedEscrowId time random creator = Some i" "base36 time" "base36 random"
  shows "escrowIdCreatorTag i = Some (take 16 (lower creator)) \<and> creatorMatchesEscrowId i creator
    \<and> (\<forall>pk. creatorMatchesEscrowId i pk \<longrightarrow> take 16 (lower pk) = take 16 (lower creator))"
proof -
  have tag: "escrowIdCreatorTag i = Some (take 16 (lower creator))"
    using creatorTag_roundtrip [OF assms] by (simp add: CREATOR_TAG_HEX_def)
  have "length (take 16 (lower creator)) = 16"
    using assms(1) by (auto simp: creatorTaggedEscrowId_def Let_def hex64_def split: if_splits)
  with tag show ?thesis by (auto simp: creatorMatchesEscrowId_def)
qed

theorem tagged_id_names_its_creator_witness:
  "\<exists>i. creatorTaggedEscrowId ''lz4'' ''9x'' (replicate 64 CHR ''A'') = Some i
    \<and> escrowIdCreatorTag i = Some (replicate 16 CHR ''a'')"
proof -
  have f: "(case creatorTaggedEscrowId ''lz4'' ''9x'' (replicate 64 CHR ''A'') of None \<Rightarrow> False | Some _ \<Rightarrow> True)"
    "base36 ''lz4''" "base36 ''9x''" "take 16 (lower (replicate 64 CHR ''A'')) = replicate 16 CHR ''a''" by code_simp+
  then obtain i where "creatorTaggedEscrowId ''lz4'' ''9x'' (replicate 64 CHR ''A'') = Some i" by (auto split: option.splits)
  from tagged_id_names_its_creator [OF this f(2,3)] this f(4) show ?thesis by auto
qed

text \<open>Sorting loses and invents nothing, and puts the state events in causal order: the events
  come back as a permutation (one per id among the state events), and whenever the predecessor
  references are acyclic no state event comes before the one it names.\<close>

theorem sorted_chain_is_causal:
  assumes "\<And>a b. a \<in> set es \<Longrightarrow> b \<in> set es \<Longrightarrow> nonEmpty (ev_prev a) = Some (ev_id b) \<Longrightarrow> rank b < (rank a :: nat)"
  shows "mset (sortEventChain es) = mset (uniqueById (filter (\<lambda>e. \<not> isAux e) es)) + mset (filter isAux es)
    \<and> sorted_wrt (\<lambda>a b. nonEmpty (ev_prev a) \<noteq> Some (ev_id b)) (filter (\<lambda>e. \<not> isAux e) (sortEventChain es))"
proof -
  let ?u = "uniqueById (filter (\<lambda>e. \<not> isAux e) es)"
  have "set ?u \<subseteq> set es" using uniqueById_subset [of "filter (\<lambda>e. \<not> isAux e) es"] by auto
  then have "sorted_wrt (\<lambda>a b. nonEmpty (ev_prev a) \<noteq> Some (ev_id b)) (topoSort ?u)"
    using assms by (intro topoSort_causal [where rank = rank] uniqueById_distinct) blast
  then show ?thesis by (simp add: sortEventChain_facts)
qed

definition wRank :: "event \<Rightarrow> nat" where
  "wRank e = (if ev_id e = ''e0'' then 0 else if ev_id e = ''e1'' then 1 else 2)"

theorem sorted_chain_is_causal_witness:
  "sorted_wrt (\<lambda>a b. nonEmpty (ev_prev a) \<noteq> Some (ev_id b))
    (filter (\<lambda>e. \<not> isAux e) (sortEventChain [wLock 1000 False, wJoin 1000, wCreate 1000]))"
proof -
  have "a \<in> set [wLock 1000 False, wJoin 1000, wCreate 1000] \<Longrightarrow> b \<in> set [wLock 1000 False, wJoin 1000, wCreate 1000]
      \<Longrightarrow> nonEmpty (ev_prev a) = Some (ev_id b) \<Longrightarrow> wRank b < wRank a" for a b
    by (auto simp: wRank_def wLock_def wJoin_def wCreate_def mkEvent_def)
  from sorted_chain_is_causal [where rank = wRank, OF this] show ?thesis by blast
qed

end
