(* ===== verification/Closing_Properties.thy ===== *)
theory Closing_Properties
  imports Worked_Trade
begin

text \<open>
  How a trade ends: what a deadline does to strangers, to a plan and to an unfunded trade, and
  who may acknowledge a claim. Properties across \<open>Handle_Create\<close>, \<open>Handle_Settle\<close> and \<open>Reducer\<close>.
\<close>

section \<open>After the deadline\<close>

text \<open>Once the December rules bind a funded trade, a key that neither holds a seat nor belongs
  to the pooled arbiters cannot carry it past its deadline: whatever it sends then, other than
  the auxiliary notes and the exempted tranche and on-chain refund events, is refused and the
  trade stays as it was.\<close>

theorem stranger_cannot_expire_a_funded_trade:
  assumes "st_status s = LOCKED" "usesDecemberTradeRules (st_createdAt s)" "st_expiresAt s < ev_timestamp e"
    and "\<not> mayCarryPastExpiry s (ev_pubkey e)" "\<not> inChain s (ev_id e)" "st_chamaPolicy s = None"
    and "ev_kind e \<notin> {K_CREATE, K_PREMIUM, K_SETTLEMENT}"
    and "\<not> activatesDeferredTranche s e" "ev_kind e = K_COMPLETE \<Longrightarrow> st_onchainFundingTerms s = None"
  shows "applyEvent E (Some s) e = Inl ''EXPIRY_NOT_IN_TRADE''"
proof -
  have "pastDeadline s e" using assms by (auto simp: pastDeadline_def)
  moreover have "strangerPastExpiry s e" using assms by (simp add: strangerPastExpiry_def)
  ultimately have "applyChained E s e = Inl ''EXPIRY_NOT_IN_TRADE''"
    using assms(1,5) by (simp add: applyChained_def TRULY_TERMINAL_STATES_def)
  with assms(6,7) show ?thesis
    by (cases "ev_payload e") (auto simp: applyEvent_def applyTo_def circleLaw_def ev_kind_def)
qed

definition wHeld :: "event list" where
  "wHeld = [wCreate 1796083200, wJoin 1796083200, wLock 1796083200 True]"

lemma wHeld_facts: "ran wHeld" "st_status (stateAfter wHeld) = LOCKED"
  "usesDecemberTradeRules (st_createdAt (stateAfter wHeld))" "st_expiresAt (stateAfter wHeld) < 1999999999"
  "\<not> mayCarryPastExpiry (stateAfter wHeld) ''X''" "\<not> inChain (stateAfter wHeld) ''e8''"
  "st_chamaPolicy (stateAfter wHeld) = None" "st_onchainFundingTerms (stateAfter wHeld) = None"
  "sharesHeldBack (stateAfter wHeld)"
proof -
  have e: "ends wHeld (\<lambda>s. st_status s = LOCKED \<and> usesDecemberTradeRules (st_createdAt s) \<and> st_expiresAt s < 1999999999
    \<and> \<not> mayCarryPastExpiry s ''X'' \<and> \<not> inChain s ''e8'' \<and> Option.is_none (st_chamaPolicy s)
    \<and> Option.is_none (st_onchainFundingTerms s) \<and> sharesHeldBack s)" by code_simp
  from endsD [OF e] show "ran wHeld" "st_status (stateAfter wHeld) = LOCKED"
    "usesDecemberTradeRules (st_createdAt (stateAfter wHeld))" "st_expiresAt (stateAfter wHeld) < 1999999999"
    "\<not> mayCarryPastExpiry (stateAfter wHeld) ''X''" "\<not> inChain (stateAfter wHeld) ''e8''"
    "st_chamaPolicy (stateAfter wHeld) = None" "st_onchainFundingTerms (stateAfter wHeld) = None"
    "sharesHeldBack (stateAfter wHeld)" by (simp_all add: Option.is_none_def)
qed

theorem stranger_cannot_expire_a_funded_trade_witness:
  "applyEvent plainEnv (Some (stateAfter wHeld)) (wComplete ''X'' 1999999999) = Inl ''EXPIRY_NOT_IN_TRADE''"
  by (rule stranger_cannot_expire_a_funded_trade [OF wHeld_facts(2,3)])
    (use wHeld_facts in \<open>simp_all add: wComplete_def mkEvent_def ev_kind_def activatesDeferredTranche_def\<close>)

text \<open>A PLAN_START is not tied to the status: accepted on a LOCKED trade it leaves the trade
  LOCKED and takes its deadline away, so that no later event of any sane clock expires it.\<close>

theorem plan_start_unbounds_a_locked_trade:
  assumes "handlePlanStart s e p = Inr s'" "st_tranchePlan s = None" "st_status s = LOCKED"
    and "ev_timestamp e2 \<le> NEVER_EXPIRES"
  shows "st_status s' = LOCKED \<and> st_expiresAt s' = NEVER_EXPIRES \<and> \<not> pastDeadline s' e2"
proof -
  have "st_tranchePlan s' \<noteq> None"
    using assms(1,2) by (auto simp: handlePlanStart_def guarded_append guarded_Inr split: if_splits)
  with handlePlanStart_Inr [OF assms(1)] assms(2) have "st_expiresAt s' = NEVER_EXPIRES" "st_status s' = st_status s"
    by auto
  with assms(3,4) show ?thesis by (simp add: pastDeadline_def)
qed

definition wKey :: "char \<Rightarrow> string" where
  "wKey c = replicate 64 c"

definition wSliced :: state where
  "wSliced = (stateAfter (wLocked 1000))\<lparr>st_initiator := wKey CHR ''a'', st_participants :=
     (\<lambda>r. case r of BUYER \<Rightarrow> Some (wKey CHR ''b'') | SELLER \<Rightarrow> Some (wKey CHR ''a'') | ARBITER \<Rightarrow> Some (wKey CHR ''c''))\<rparr>"

definition wPlan :: plan_start where
  "wPlan = \<lparr>ps_planId = wKey CHR ''1'', ps_total = 1, ps_totalMsats = 3000, ps_buyerPubkey = wKey CHR ''b'',
     ps_sellerPubkey = wKey CHR ''a'', ps_arbiterPubkey = wKey CHR ''c'', ps_termsDigest = wKey CHR ''2'',
     ps_coordinatorPubkey = wKey CHR ''a'', ps_bitcoinNetwork = MAINNET, ps_settlementPolicy = None,
     ps_sliceCount = None, ps_sliceCapMsats = None, ps_tranches = [\<lparr>td_index = 0, td_amountMsats = 3000\<rparr>],
     ps_startedAt = 1060\<rparr>"

theorem plan_start_unbounds_a_locked_trade_witness:
  "\<exists>s'. handlePlanStart wSliced (mkEvent ''p'' (wKey CHR ''a'') 1060 None (PPlanStart wPlan)) wPlan = Inr s'
    \<and> st_expiresAt s' = NEVER_EXPIRES"
proof -
  have "(case handlePlanStart wSliced (mkEvent ''p'' (wKey CHR ''a'') 1060 None (PPlanStart wPlan)) wPlan of
      Inl _ \<Rightarrow> False | Inr _ \<Rightarrow> True)" "ev_timestamp (wClaim ''B'' 5000) \<le> NEVER_EXPIRES" by code_simp+
  moreover have "ends (wLocked 1000) (\<lambda>s. Option.is_none (st_tranchePlan s))" by code_simp
  from endsD(2) [OF this] worked_status(1) have "st_tranchePlan wSliced = None" "st_status wSliced = LOCKED"
    by (simp_all add: wSliced_def Option.is_none_def)
  ultimately show ?thesis using plan_start_unbounds_a_locked_trade by (auto split: sum.splits)
qed

definition wUnfunded :: "event list" where
  "wUnfunded = [wCreate 1000, wJoin 1000, wVote ''e3'' ''B'' BUYER RELEASE 9000000,
     wVote ''e4'' ''S'' SELLER RELEASE 9000010, wResolve RELEASE [BUYER, SELLER] 9000020,
     wClaim ''B'' 9000030, wComplete ''B'' 9000040]"

text \<open>A trade that expired without ever being LOCKED can still be voted on, resolved, claimed
  and completed: the worked trade without its LOCK runs to COMPLETED although nothing was funded.\<close>

theorem unfunded_trade_completes:
  "reachable plainEnv (stateAfter wUnfunded) \<and> st_status (stateAfter wUnfunded) = COMPLETED
    \<and> \<not> hasLock (stateAfter wUnfunded) \<and> st_resolvedOutcome (stateAfter wUnfunded) = Some RELEASE"
proof -
  have "ends wUnfunded (\<lambda>s. st_status s = COMPLETED \<and> \<not> hasLock s \<and> st_resolvedOutcome s = Some RELEASE)" by code_simp
  from endsD [OF this] show ?thesis using ran_reachable by blast
qed

text \<open>On a CLAIMED ecash trade the COMPLETE of anybody closes it: outside the circles and
  without a refund proof attached to it, the handler asks nothing about the sender.\<close>

theorem anyone_completes_a_claimed_trade:
  assumes "st_status s = CLAIMED" "lk_onchain (st_lock s) = None" "ev_payload e = PComplete t"
    and "taggedSettlement s e = None" "\<not> inChain s (ev_id e)"
  shows "applyEvent E (Some s) e = Inr (s\<lparr>st_status := COMPLETED, st_completedAt := Some t,
    st_eventChain := st_eventChain s @ [e]\<rparr>)"
  using assms by (simp add: applyEvent_def applyTo_def applyChained_def circleLaw_def pastDeadline_def
      TRULY_TERMINAL_STATES_def dispatch_simps handleComplete_def completedState_def)

theorem anyone_completes_a_claimed_trade_witness:
  "st_status (stateAfter (wClaimed 1000)) = CLAIMED
    \<and> (\<exists>s'. applyEvent plainEnv (Some (stateAfter (wClaimed 1000))) (wComplete ''X'' 1080) = Inr s' \<and> st_status s' = COMPLETED)"
proof -
  have "ends (wClaimed 1000) (\<lambda>s. Option.is_none (lk_onchain (st_lock s)) \<and> \<not> inChain s (ev_id (wComplete ''X'' 1080))
    \<and> Option.is_none (taggedSettlement s (wComplete ''X'' 1080)))" by code_simp
  with endsD(2) [OF this] anyone_completes_a_claimed_trade [of "stateAfter (wClaimed 1000)" "wComplete ''X'' 1080" 1080 plainEnv] worked_status(4)
  show ?thesis by (auto simp: wComplete_def mkEvent_def Option.is_none_def)
qed

end
