(* ===== verification/Custody_Properties.thy ===== *)
theory Custody_Properties
  imports Closing_Properties
begin

text \<open>
  Custody: the money and the menu of a LOCK, shares that the funder holds back until the
  counterparty accepts, the share a vote hands over, and the books of a subscription. Properties
  of \<open>Handle_Lock\<close>, \<open>Handle_Vote\<close> and \<open>Handle_Settle\<close>, on the handlers themselves and on every
  state the reducer reaches.
\<close>

section \<open>The money of a LOCK\<close>

lemma jsAdd_finite: "jsAdd x y = Fin r \<Longrightarrow> \<exists>a b. x = Fin a \<and> y = Fin b \<and> r = a + b"
  by (cases x; cases y) auto


lemma worked_lock:
  "\<exists>p. ev_payload (wLock 1000 False) = PLock p \<and> lp_sellerReceivesMsats p = Fin 2900 \<and> lp_arbiterFeeMsats p = Fin 100
    \<and> handleLock plainEnv (stateAfter [wCreate 1000, wJoin 1000]) (wLock 1000 False) p = Inr (stateAfter (wLocked 1000))"
proof -
  have d: "wLocked 1000 = [wCreate 1000, wJoin 1000] @ [wLock 1000 False]" by (simp add: wLocked_def)
  have a: "applyEvent plainEnv (Some (stateAfter [wCreate 1000, wJoin 1000])) (wLock 1000 False) = Inr (stateAfter (wLocked 1000))"
    unfolding d by (rule ran_step(1)) (use worked_ran(1) d in simp_all)
  obtain p where p: "ev_payload (wLock 1000 False) = PLock p" "lp_sellerReceivesMsats p = Fin 2900" "lp_arbiterFeeMsats p = Fin 100"
    by (auto simp: wLock_def mkEvent_def jsInt_def)
  have "ends [wCreate 1000, wJoin 1000] (\<lambda>s. \<not> pastDeadline s (wLock 1000 False)
    \<and> \<not> inChain s (ev_id (wLock 1000 False)) \<and> st_status s = CREATED)" by code_simp
  with endsD(2) [OF this] a p show ?thesis
    by (auto simp: applyEvent_def applyTo_def applyChained_def dispatch_simps circleLaw_def TRULY_TERMINAL_STATES_def
        split: if_splits)
qed


text \<open>A bakery menu, ordered three times by the buyer.\<close>

definition menuItem :: menu_item where
  "menuItem = \<lparr>mi_id = ''bread'', mi_label = ''loaf'', mi_amountMsats = 1000, mi_kind = None,
     mi_minAmountMsats = None, mi_maxAmountMsats = None, mi_description = None, mi_fiatAmount = None,
     mi_fiatCurrency = None, mi_fulfillment = None, mi_imageDataUrl = None, mi_imageUrls = None, mi_dueAt = None,
     mi_termDays = None, mi_aprBps = None, mi_trustTier = None, mi_maxQuantity = Some 5\<rparr>"

definition menuOrder :: selected_item where
  "menuOrder = \<lparr>si_itemId = ''bread'', si_label = ''loaf'', si_amountMsats = 1000, si_quantity = 3, si_kind = None,
     si_minAmountMsats = None, si_maxAmountMsats = None, si_description = None, si_fiatAmount = None,
     si_fiatCurrency = None, si_fulfillment = None, si_dueAt = None, si_termDays = None, si_aprBps = None,
     si_trustTier = None\<rparr>"

definition menuCreate :: event where
  "menuCreate = mkEvent ''e0'' ''S'' 1000 None (PCreate ((plainCreate ''bakery'' ''marketplace'' 3000 ''mint'' ''P'' 1000 1000)
     \<lparr>cp_communityArbiters := Some [''A'', ''C'', ''D''], cp_items := Some [menuItem]\<rparr>))"

definition menuLock :: lock_payload where
  "menuLock = (case ev_payload (wLock 1000 False) of PLock p \<Rightarrow> p\<lparr>lp_selectedItems := Some [menuOrder]\<rparr>)"

definition menuLockEvent :: event where
  "menuLockEvent = mkEvent ''e2'' ''B'' 1020 (Some ''e1'') (PLock menuLock)"

lemma menu_lock_accepted:
  "\<exists>s'. handleLock plainEnv (stateAfter [menuCreate, wJoin 1000]) menuLockEvent menuLock = Inr s'"
  "isMenu (stateAfter [menuCreate, wJoin 1000])" "getOr (st_items (stateAfter [menuCreate, wJoin 1000])) [] = [menuItem]"
  "getOr (lp_selectedItems menuLock) [] = [menuOrder]"
proof -
  have "ends [menuCreate, wJoin 1000] (\<lambda>s. (case handleLock plainEnv s menuLockEvent menuLock of
      Inl _ \<Rightarrow> False | Inr _ \<Rightarrow> True) \<and> isMenu s \<and> getOr (st_items s) [] = [menuItem])" by code_simp
  from endsD(2) [OF this]
  show "\<exists>s'. handleLock plainEnv (stateAfter [menuCreate, wJoin 1000]) menuLockEvent menuLock = Inr s'"
    "isMenu (stateAfter [menuCreate, wJoin 1000])" "getOr (st_items (stateAfter [menuCreate, wJoin 1000])) [] = [menuItem]"
    by (auto split: sum.splits)
  show "getOr (lp_selectedItems menuLock) [] = [menuOrder]" by code_simp
qed

text \<open>In a menu order an accepted LOCK orders at least one item, none twice, and every item is on
  the signed menu with its label, within its quantity cap and at its price (or, for an amount
  bracket, within its bounds).\<close>

theorem lock_orders_from_the_menu:
  assumes "handleLock E s e p = Inr s'" "isMenu s"
  shows "getOr (lp_selectedItems p) [] \<noteq> [] \<and> distinct (map si_itemId (getOr (lp_selectedItems p) []))
    \<and> (\<forall>x\<in>set (getOr (lp_selectedItems p) []). \<exists>m\<in>set (getOr (st_items s) []).
         mi_id m = si_itemId x \<and> 1 \<le> si_quantity x \<and> (\<forall>q. mi_maxQuantity m = Some q \<longrightarrow> si_quantity x \<le> q)
         \<and> (if isAmountBracket m
            then getOr (mi_minAmountMsats m) (mi_amountMsats m) \<le> si_amountMsats x
               \<and> si_amountMsats x \<le> getOr (mi_maxAmountMsats m) (mi_amountMsats m)
            else si_amountMsats x = mi_amountMsats m))"
proof -
  let ?xs = "getOr (lp_selectedItems p) []"
  have l: "getOr (lockedItems p) [] = map cloneSelectedMenuItem ?xs"
    by (cases "lp_selectedItems p") (simp_all add: lockedItems_def)
  note o1 = handleLock_order(1,2) [OF assms, unfolded l]
  from checkItems_None [OF o1(1)] have fit: "\<forall>x\<in>set ?xs. itemFits (getOr (st_items s) []) (cloneSelectedMenuItem x)"
    and d: "distinct (map si_itemId ?xs)" by (simp_all add: comp_def)
  have "\<exists>m\<in>set (getOr (st_items s) []). mi_id m = si_itemId x \<and> 1 \<le> si_quantity x
      \<and> (\<forall>q. mi_maxQuantity m = Some q \<longrightarrow> si_quantity x \<le> q)
      \<and> (if isAmountBracket m
         then getOr (mi_minAmountMsats m) (mi_amountMsats m) \<le> si_amountMsats x
           \<and> si_amountMsats x \<le> getOr (mi_maxAmountMsats m) (mi_amountMsats m)
         else si_amountMsats x = mi_amountMsats m)" if "x \<in> set ?xs" for x
  proof -
    from fit that have "itemFits (getOr (st_items s) []) (cloneSelectedMenuItem x)" by blast
    then obtain m where "m \<in> set (getOr (st_items s) [])" "mi_id m = si_itemId x" "1 \<le> si_quantity x"
      "\<forall>q. mi_maxQuantity m = Some q \<longrightarrow> si_quantity x \<le> q"
      "if isAmountBracket m then getOr (mi_minAmountMsats m) (mi_amountMsats m) \<le> si_amountMsats x
         \<and> si_amountMsats x \<le> getOr (mi_maxAmountMsats m) (mi_amountMsats m) else si_amountMsats x = mi_amountMsats m"
      unfolding itemFits_def cloneSelected_simps by (elim bexE conjE) (force split: if_splits)
    then show ?thesis by blast
  qed
  with d o1(2) show ?thesis by simp
qed

theorem lock_orders_from_the_menu_witness:
  "distinct (map si_itemId [menuOrder]) \<and> (\<exists>m\<in>set [menuItem]. mi_id m = si_itemId menuOrder \<and> 1 \<le> si_quantity menuOrder)"
proof -
  from menu_lock_accepted(1) obtain s' where
    "handleLock plainEnv (stateAfter [menuCreate, wJoin 1000]) menuLockEvent menuLock = Inr s'" by blast
  from lock_orders_from_the_menu [OF this menu_lock_accepted(2), unfolded menu_lock_accepted(3,4)]
  show ?thesis by auto
qed

section \<open>Shares held back\<close>

lemma releasedShareBroken_sound:
  assumes "\<not> releasedShareBroken s x"
  shows "se_shareIndex x = 0 \<Longrightarrow> st_participants s BUYER = Some (hd (map fst (se_encryptedFor x))) \<and> length (se_encryptedFor x) = 1"
    "se_shareIndex x = 1 \<Longrightarrow> st_participants s SELLER = Some (hd (map fst (se_encryptedFor x))) \<and> length (se_encryptedFor x) = 1"
    "se_shareIndex x = 2 \<Longrightarrow> length (se_encryptedFor x) = length (allowedArbiterHolders s)
      \<and> set (allowedArbiterHolders s) \<subseteq> fst ` set (se_encryptedFor x)
      \<and> (\<forall>y\<in>set (se_encryptedFor x). Some (fst y) \<noteq> st_participants s BUYER \<and> Some (fst y) \<noteq> st_participants s SELLER)"
proof -
  have one: "st_participants s r = Some (hd (map fst xs)) \<and> length xs = 1"
    if "\<not> (case nonEmpty (st_participants s r) of None \<Rightarrow> True | Some holder \<Rightarrow> map fst xs \<noteq> [holder])"
    for r and xs :: "(string \<times> string) list"
    using that by (cases xs) (auto simp: nonEmpty_eq_Some split: option.splits)
  show "se_shareIndex x = 0 \<Longrightarrow> st_participants s BUYER = Some (hd (map fst (se_encryptedFor x))) \<and> length (se_encryptedFor x) = 1"
    "se_shareIndex x = 1 \<Longrightarrow> st_participants s SELLER = Some (hd (map fst (se_encryptedFor x))) \<and> length (se_encryptedFor x) = 1"
    using assms one by (simp_all add: releasedShareBroken_def Let_def)
  assume "se_shareIndex x = 2"
  with assms have "length (se_encryptedFor x) = length (allowedArbiterHolders s)"
    "set (allowedArbiterHolders s) \<subseteq> fst ` set (se_encryptedFor x)"
    "\<not> list_ex (\<lambda>pk. Some pk = st_participants s BUYER \<or> Some pk = st_participants s SELLER) (map fst (se_encryptedFor x))"
    by (simp_all add: releasedShareBroken_def Let_def)
  moreover from this(3) have "\<forall>y\<in>set (se_encryptedFor x). Some (fst y) \<noteq> st_participants s BUYER \<and> Some (fst y) \<noteq> st_participants s SELLER"
    by (simp add: list_ex_iff)
  ultimately show "length (se_encryptedFor x) = length (allowedArbiterHolders s)
      \<and> set (allowedArbiterHolders s) \<subseteq> fst ` set (se_encryptedFor x)
      \<and> (\<forall>y\<in>set (se_encryptedFor x). Some (fst y) \<noteq> st_participants s BUYER \<and> Some (fst y) \<noteq> st_participants s SELLER)"
    by blast
qed

text \<open>C11. A funder who held the shares back hands them out only after the counterparty accepted the
  LOCK, citing that acceptance, once, and completely: exactly the two other shares, the buyer's
  and the seller's to that party alone, the arbiter's to exactly the lawful arbiter holders.\<close>

theorem shares_are_released_after_acceptance:
  assumes "handleLockStep s e (Release lockId shares) = Inr s'"
  shows "\<exists>w a. lk_withheld (st_lock s) = Some w \<and> ev_pubkey e = wh_lockerPubkey w \<and> \<not> truthyS (wh_releaseEventId w)
    \<and> lk_acceptEventId (st_lock s) = Some a \<and> a \<noteq> [] \<and> ev_prev e = Some a
    \<and> se_shareIndex ` set shares = {0, 1, 2} - {wh_lockerShareIndex w}
    \<and> (\<forall>x\<in>set shares. let holders = map fst (se_encryptedFor x) in
         (se_shareIndex x = 0 \<longrightarrow> st_participants s BUYER = Some (hd holders) \<and> length holders = 1)
       \<and> (se_shareIndex x = 1 \<longrightarrow> st_participants s SELLER = Some (hd holders) \<and> length holders = 1)
       \<and> (se_shareIndex x = 2 \<longrightarrow> length holders = length (allowedArbiterHolders s)
            \<and> set (allowedArbiterHolders s) \<subseteq> set holders
            \<and> (\<forall>pk\<in>set holders. Some pk \<noteq> st_participants s BUYER \<and> Some pk \<noteq> st_participants s SELLER)))"
proof -
  from assms have r: "releaseStep s e shares = Inr s'" by (simp add: handleLockStep_def guarded_Inr)
  obtain w where w: "lk_withheld (st_lock s) = Some w" "ev_pubkey e = wh_lockerPubkey w"
    "\<not> truthyS (wh_releaseEventId w)" "truthyS (lk_acceptEventId (st_lock s))"
    "ev_prev e = lk_acceptEventId (st_lock s)" "\<forall>x\<in>set shares. \<not> releasedShareBroken s x"
    by (rule releaseStep_Inr [OF r])
  have own: "let holders = map fst (se_encryptedFor x) in
         (se_shareIndex x = 0 \<longrightarrow> st_participants s BUYER = Some (hd holders) \<and> length holders = 1)
       \<and> (se_shareIndex x = 1 \<longrightarrow> st_participants s SELLER = Some (hd holders) \<and> length holders = 1)
       \<and> (se_shareIndex x = 2 \<longrightarrow> length holders = length (allowedArbiterHolders s)
            \<and> set (allowedArbiterHolders s) \<subseteq> set holders
            \<and> (\<forall>pk\<in>set holders. Some pk \<noteq> st_participants s BUYER \<and> Some pk \<noteq> st_participants s SELLER))"
    if "x \<in> set shares" for x
  proof -
    from that r w(1) have "se_shareIndex x \<in> {0, 1, 2}" by (auto dest: releaseStep_indices)
    moreover from that w(6) have "\<not> releasedShareBroken s x" by blast
    ultimately show ?thesis using releasedShareBroken_sound by (simp add: Let_def)
  qed
  from w(4) obtain a where a: "lk_acceptEventId (st_lock s) = Some a" "a \<noteq> []"
    by (cases "lk_acceptEventId (st_lock s)") (auto simp: truthyS_def)
  with w(5) have prev: "ev_prev e = Some a" by simp
  show ?thesis
    by (intro exI conjI ballI) (rule w(1-3) a prev releaseStep_indices [OF r w(1)] own; assumption?)+
qed

text \<open>A trade whose seller holds the shares back until the buyer accepts.\<close>

definition acceptEvent :: event where
  "acceptEvent = mkEvent ''a0'' ''B'' 1796083230 (Some ''e2'') (PLockStep (Accept ''e2''))"

definition releasedShares :: "share_entry list" where
  "releasedShares = [wShare 0 [''B''] None, wShare 2 [''A'', ''C''] None]"

definition releaseEvent :: event where
  "releaseEvent = mkEvent ''r0'' ''S'' 1796083240 (Some ''a0'') (PLockStep (Release ''e2'' releasedShares))"

definition acceptedTrade :: "event list" where "acceptedTrade = wHeld @ [acceptEvent]"

lemma acceptedTrade_ends: "ends acceptedTrade (\<lambda>s. \<not> pastDeadline s releaseEvent \<and> \<not> inChain s (ev_id releaseEvent)
    \<and> st_status s = LOCKED \<and> (case applyEvent plainEnv (Some s) releaseEvent of Inl _ \<Rightarrow> False | Inr _ \<Rightarrow> True))"
  by code_simp

lemma release_accepted:
  "\<exists>s'. handleLockStep (stateAfter acceptedTrade) releaseEvent (Release ''e2'' releasedShares) = Inr s'"
proof -
  note f = endsD(2) [OF acceptedTrade_ends]
  then obtain s' where "applyEvent plainEnv (Some (stateAfter acceptedTrade)) releaseEvent = Inr s'" by (auto split: sum.splits)
  with f show ?thesis
    by (auto simp: releaseEvent_def mkEvent_def applyEvent_def applyTo_def applyChained_def dispatch_simps circleLaw_def
        TRULY_TERMINAL_STATES_def split: if_splits)
qed

theorem shares_are_released_after_acceptance_witness:
  "\<exists>a. lk_acceptEventId (st_lock (stateAfter acceptedTrade)) = Some a \<and> ev_prev releaseEvent = Some a"
  using release_accepted shares_are_released_after_acceptance by blast

section \<open>No ballot before the shares are out\<close>

lemma dispatch_lock_kept:
  assumes "dispatch E s e = Inr s'" "ev_kind e \<notin> {K_LOCK, K_LOCK_STEP}"
  shows "st_lock s' = st_lock s"
proof (cases "ev_payload e")
  case (PVote p)
  with assms show ?thesis by (auto simp: dispatch_simps votedState_frame dest!: handleVote_facts(5))
next
  case (PJoin p)
  with assms show ?thesis by (auto simp: dispatch_simps handleJoin_frame)
next
  case (PComplete t)
  with assms show ?thesis by (auto simp: dispatch_simps dest!: handleComplete_Inr)
next
  case (PPlanStart p)
  with assms show ?thesis by (auto simp: dispatch_simps dest: plan_frame)
qed (use assms in \<open>auto simp: dispatch_def ev_kind_def handleCancel_Inr handleSubscribe_Inr handleChat_Inr
      stalledState_def Let_def elim!: handleResolve_Inr handleClaim_Inr handleSettlementStalled_Inr
      handlePeriodRelease_Inr dest!: handleChildKey_Inr\<close>)

definition heldOk :: "state \<Rightarrow> bool" where
  "heldOk s \<longleftrightarrow> (st_status s = CREATED \<longrightarrow> votersOf (st_eventChain s) = [])
     \<and> (sharesHeldBack s \<longrightarrow> votersOf (st_eventChain s) = [])
     \<and> (\<forall>w. lk_withheld (st_lock s) = Some w \<longrightarrow> truthyS (wh_releaseEventId w) \<longrightarrow> truthyS (lk_acceptEventId (st_lock s)))
     \<and> (st_status s = CREATED \<longrightarrow> lk_withheld (st_lock s) = None)"

lemma dispatch_voters:
  "dispatch E s e = Inr s' \<Longrightarrow> ev_kind e \<noteq> K_VOTE \<Longrightarrow> votersOf (st_eventChain s') = votersOf (st_eventChain s)"
  by (drule switching.chain) (auto simp: votersOf_append)

lemma step_releases_accepted:
  assumes "handleLockStep s e p = Inr s'" "heldOk s"
  shows "heldOk s'"
proof (cases p)
  case (Withdraw x)
  with assms show ?thesis by (simp add: handleLockStep_def guarded_Inr)
next
  case (Accept lockId)
  with assms(1) have a: "acceptStep s e lockId = Inr s'" by (simp add: handleLockStep_def guarded_Inr)
  from acceptStep_Inr(3,4) [OF a] assms(2) show ?thesis by (auto simp: heldOk_def sharesHeldBack_def)
next
  case (Release lockId shares)
  with assms(1) have r: "releaseStep s e shares = Inr s'" by (simp add: handleLockStep_def guarded_Inr)
  from handleLockStep_force(3) [OF assms(1)] have "st_status s \<noteq> CREATED" by auto
  with assms(2) show ?thesis
    by (auto simp: heldOk_def sharesHeldBack_def releasedLock_def split: option.splits
        intro: releaseStep_Inr [OF r] elim!: releaseStep_Inr [OF r])
qed

lemma heldOk_dispatch:
  assumes "heldOk s" "dispatch E s e = Inr s'"
  shows "heldOk s'"
proof -
  consider (vote) p where "ev_payload e = PVote p" | (lock) p where "ev_payload e = PLock p"
    | (step) p where "ev_payload e = PLockStep p" | (other) "ev_kind e \<notin> {K_VOTE, K_LOCK, K_LOCK_STEP}"
    by (cases "ev_payload e") (auto simp: ev_kind_def)
  then show ?thesis
  proof cases
    case (vote p)
    with assms(2) have v: "handleVote E s e p = Inr s'" by (simp add: dispatch_simps)
    from handleVote_facts(1,3,5) [OF v] assms(1) show ?thesis
      by (auto simp: heldOk_def votedState_frame sharesHeldBack_def)
  next
    case (lock p)
    with assms(2) have l: "handleLock E s e p = Inr s'" by (simp add: dispatch_simps)
    from lock have "ev_kind e \<noteq> K_VOTE" by (simp add: ev_kind_def)
    with assms(1) handleLock_pre(1) [OF l] dispatch_voters [OF assms(2)] l show ?thesis
      by (auto simp: heldOk_def handleLock_Inr lockedLock_def withheldOf_def Let_def truthyS_def split: option.splits)
  next
    case (step p)
    with assms step_releases_accepted show ?thesis by (auto simp: dispatch_simps)
  next
    case other
    with dispatch_lock_kept [OF assms(2)] dispatch_voters [OF assms(2)] dispatch_status_source(2) [OF assms(2)] assms(1)
    show ?thesis by (auto simp: heldOk_def sharesHeldBack_def)
  qed
qed

interpretation heldShares: reducer_invariant E heldOk for E
  by unfold_locales
    (simp_all add: heldOk_dispatch handleCreate_Inr, auto simp: heldOk_def votersOf_def emptyLock_def sharesHeldBack_def ev_kind_def)

text \<open>C10. In every state the program can reach, a trade whose shares are held back has no vote in its
  chain, and shares that were released were accepted first.\<close>

theorem no_ballot_while_shares_are_held:
  assumes "reachable E s"
  shows "(sharesHeldBack s \<longrightarrow> (\<forall>e\<in>set (st_eventChain s). ev_kind e \<noteq> K_VOTE))
    \<and> (\<forall>w. lk_withheld (st_lock s) = Some w \<longrightarrow> truthyS (wh_releaseEventId w)
         \<longrightarrow> truthyS (lk_acceptEventId (st_lock s)))"
  using heldShares.always [OF assms] by (auto simp: heldOk_def votersOf_def filter_empty_conv)

theorem no_ballot_while_shares_are_held_witness:
  "sharesHeldBack (stateAfter wHeld) \<and> \<not> (\<exists>e\<in>set (st_eventChain (stateAfter wHeld)). ev_kind e = K_VOTE)"
proof
  show "sharesHeldBack (stateAfter wHeld)" by (rule wHeld_facts(9))
  with no_ballot_while_shares_are_held [OF ran_reachable [OF wHeld_facts(1)]]
  show "\<not> (\<exists>e\<in>set (st_eventChain (stateAfter wHeld)). ev_kind e = K_VOTE)" by blast
qed

section \<open>Where a vote sends its share\<close>

text \<open>An accepted vote that carries a share carries the voter's own share, for the outcome it
  votes and the notes of the LOCK, and to exactly the seated party that outcome pays, who can
  open it.\<close>

theorem vote_hands_its_share_to_the_paid_party:
  assumes "handleVote E s e p = Inr s'" "vp_shareEnvelope p = Some env"
  shows "ve_shareIndex env = shareIndexForRole (vp_role p) \<and> ve_outcome env = vp_outcome p
    \<and> (\<forall>h. lk_notesHash (st_lock s) = Some h \<longrightarrow> h \<noteq> [] \<longrightarrow> ve_notesHash env = h)
    \<and> st_participants s (winnerRoleFor s (vp_outcome p)) = Some (ve_recipientPubkey env)
    \<and> ve_recipientPubkey env \<in> fst ` set (ve_encryptedFor env)"
proof -
  from assms handleVote_facts(4) [OF assms(1)]
  have "validateVoteShareEnvelope env s (vp_role p) (vp_outcome p) (lk_notesHash (st_lock s)) = None"
    by (auto simp: handleVote_Inr voteRoleGuards_def)
  then obtain q where v: "ve_shareIndex env = shareIndexForRole (vp_role p)" "ve_outcome env = vp_outcome p"
    "truthyS (lk_notesHash (st_lock s)) \<longrightarrow> lk_notesHash (st_lock s) = Some (ve_notesHash env)"
    "payoutRecipientFor s (vp_outcome p) = Some (ve_recipientPubkey env, q)"
    "map_of (ve_encryptedFor env) (ve_recipientPubkey env) \<noteq> None"
    by (auto simp: validateVoteShareEnvelope_None)
  from payoutRecipient_seated [OF v(4)] v(1-3,5) show ?thesis
    by (auto simp: truthyS_def map_of_eq_None_iff)
qed

definition envelopeVote :: vote_payload where
  "envelopeVote = \<lparr>vp_onchainRelease = None, vp_outcome = RELEASE, vp_role = SELLER,
     vp_shareEnvelope = Some \<lparr>ve_shareIndex = 1, ve_outcome = RELEASE, ve_notesHash = ''notes'',
       ve_recipientPubkey = ''B'', ve_encryptedFor = [(''B'', ''x'')]\<rparr>,
     vp_fillEvidence = None, vp_votedAt = 1030\<rparr>"

lemma envelope_vote_accepted:
  "\<exists>s'. handleVote plainEnv (stateAfter (wLocked 1000)) (mkEvent ''e3'' ''S'' 1030 (Some ''e2'') (PVote envelopeVote))
    envelopeVote = Inr s'"
proof -
  have "ends (wLocked 1000) (\<lambda>s. case handleVote plainEnv s (mkEvent ''e3'' ''S'' 1030 (Some ''e2'') (PVote envelopeVote))
    envelopeVote of Inl _ \<Rightarrow> False | Inr _ \<Rightarrow> True)" by code_simp
  from endsD(2) [OF this] show ?thesis by (auto split: sum.splits)
qed

theorem vote_hands_its_share_to_the_paid_party_witness:
  "st_participants (stateAfter (wLocked 1000)) (winnerRoleFor (stateAfter (wLocked 1000)) RELEASE) = Some ''B''"
proof -
  from envelope_vote_accepted obtain s' where a: "handleVote plainEnv (stateAfter (wLocked 1000))
    (mkEvent ''e3'' ''S'' 1030 (Some ''e2'') (PVote envelopeVote)) envelopeVote = Inr s'" by blast
  from vote_hands_its_share_to_the_paid_party [OF a] show ?thesis by (simp add: envelopeVote_def)
qed

section \<open>Subscription books\<close>


definition subscribedTrade :: "event list" where
  "subscribedTrade = [wCreate 1000, wJoin 1000,
     mkEvent ''s1'' ''B'' 1012 (Some ''e1'') (PSubscribe \<lparr>sbp_totalPeriods = 3, sbp_periodAmountMsats = 1000,
       sbp_periodDurationSeconds = 60, sbp_startsAt = 1012\<rparr>), wLock 1000 False,
     mkEvent ''s2'' ''B'' 1040 (Some ''e2'') (PPeriodRelease \<lparr>prp_periodIndex = 1, prp_amountMsats = 1000, prp_triggeredBy = BUYER, prp_releasedAt = 1040\<rparr>)]"

lemma subscribed_ends: "ends subscribedTrade (\<lambda>s. map_option sub_totalReleasedMsats (st_subscription s) = Some 1000)"
  by code_simp


end
