(* ===== verification/Event_Parser.thy ===== *)
theory Event_Parser
  imports Handle_Vote Trade_Identity
begin

text \<open>
  The wire boundary (\<open>src/escrow-engine/event-parser.ts\<close>, \<open>protocol/core/listing-image-ref.ts\<close>):
  the shape of every payload, and \<open>parseEscrowEvent\<close>, which admits a raw Nostr event to the
  reducer. A JavaScript value is a \<open>json option\<close>, \<open>None\<close> for \<open>undefined\<close>. A validator that
  reads a field of \<open>null\<close> throws; it answers \<open>None\<close> there, and \<open>Some\<close> a boolean otherwise.

  \<open>JSON.parse\<close>, the URL parser, SHA-256 and the cast of a validated value to its payload type
  (which runs no code in TypeScript) are the fields of the record \<open>wire\<close>.
\<close>

section \<open>JavaScript values\<close>

definition arrayIndex :: "string \<Rightarrow> nat option" where
  "arrayIndex k = (if allDigits k \<and> (k = ''0'' \<or> hd k \<noteq> CHR ''0'') then Some (nat (decimal k)) else None)"

text \<open>The own property \<open>k\<close> of an object or array; primitives have none the code asks for.\<close>

fun field :: "json \<Rightarrow> string \<Rightarrow> json option" where
  "field (JObj fs) k = map_of (rev fs) k"
| "field (JArr xs) k = (case arrayIndex k of
     Some i \<Rightarrow> if i < length xs then Some (xs ! i) else None
   | None \<Rightarrow> if k = ''length'' then Some (JNum (jsInt (int (length xs)))) else None)"
| "field _ k = None"

text \<open>\<open>Object.entries\<close>, a key once; an array's keys are its indices.\<close>

fun entries :: "json \<Rightarrow> (string \<times> json) list" where
  "entries (JObj fs) = map (\<lambda>k. (k, the (map_of (rev fs) k))) (dedupe (map fst fs))"
| "entries (JArr xs) = map (\<lambda>i. (natDigits i, xs ! i)) [0..<length xs]"
| "entries _ = []"

fun isObject :: "json option \<Rightarrow> bool" where
  "isObject (Some (JObj _)) = True"
| "isObject (Some (JArr _)) = True"
| "isObject _ = False"

fun isArray :: "json option \<Rightarrow> bool" where
  "isArray (Some (JArr _)) = True"
| "isArray _ = False"

fun isStr :: "json option \<Rightarrow> bool" where
  "isStr (Some (JStr _)) = True"
| "isStr _ = False"

fun isBool :: "json option \<Rightarrow> bool" where
  "isBool (Some (JBool _)) = True"
| "isBool _ = False"

fun isNum :: "json option \<Rightarrow> bool" where
  "isNum (Some (JNum _)) = True"
| "isNum _ = False"

fun isFinite :: "json option \<Rightarrow> bool" where
  "isFinite (Some (JNum (Fin _))) = True"
| "isFinite _ = False"

fun isInteger :: "json option \<Rightarrow> bool" where
  "isInteger (Some (JNum (Fin q))) = (q = of_int \<lfloor>q\<rfloor>)"
| "isInteger _ = False"

text \<open>\<open>v > r\<close>, \<open>v >= r\<close> and \<open>v <= r\<close> for a value that is a number; NaN compares false.\<close>

fun numGt :: "json option \<Rightarrow> rat \<Rightarrow> bool" where
  "numGt (Some (JNum (Fin q))) r = (q > r)"
| "numGt (Some (JNum PosInf)) r = True"
| "numGt _ r = False"

fun numLe :: "json option \<Rightarrow> rat \<Rightarrow> bool" where
  "numLe (Some (JNum (Fin q))) r = (q \<le> r)"
| "numLe (Some (JNum NegInf)) r = True"
| "numLe _ r = False"

definition numGe :: "json option \<Rightarrow> rat \<Rightarrow> bool" where
  "numGe v r \<longleftrightarrow> numGt v r \<or> v = Some (JNum (Fin r))"

fun strOf :: "json option \<Rightarrow> string" where
  "strOf (Some (JStr s)) = s"
| "strOf _ = []"

fun items :: "json option \<Rightarrow> json list" where
  "items (Some (JArr xs)) = xs"
| "items _ = []"

definition isFilled :: "json option \<Rightarrow> bool" where
  "isFilled v \<longleftrightarrow> isStr v \<and> strOf v \<noteq> []"

definition oneOf :: "string list \<Rightarrow> json option \<Rightarrow> bool" where
  "oneOf names v \<longleftrightarrow> isStr v \<and> strOf v \<in> set names"

text \<open>\<open>v === undefined || p(v)\<close>.\<close>

definition optional :: "(json option \<Rightarrow> bool) \<Rightarrow> json option \<Rightarrow> bool" where
  "optional p v \<longleftrightarrow> v = None \<or> p v"

definition isRole :: "json option \<Rightarrow> bool" where
  "isRole v = oneOf [''buyer'', ''seller'', ''arbiter''] v"

definition isOutcome :: "json option \<Rightarrow> bool" where
  "isOutcome v = oneOf [''release'', ''refund''] v"

definition isNetwork :: "json option \<Rightarrow> bool" where
  "isNetwork v = oneOf [''mainnet'', ''signet''] v"

definition isHex64 :: "json option \<Rightarrow> bool" where
  "isHex64 v \<longleftrightarrow> isStr v \<and> hex64 (strOf v)"

lemmas shape_defs = isFilled_def oneOf_def optional_def isRole_def isOutcome_def isNetwork_def isHex64_def

section \<open>The wire environment\<close>

record wire =
  wr_parseJson :: "string \<Rightarrow> json option"
  wr_parseUrl :: "string \<Rightarrow> (string \<times> string) option"
  wr_sha :: "string \<Rightarrow> string"
  wr_view :: "ekind \<Rightarrow> json \<Rightarrow> payload"

section \<open>Listing images\<close>

definition MAX_LISTING_IMAGE_REFS :: nat where "MAX_LISTING_IMAGE_REFS = 9"

definition startsWith :: "string \<Rightarrow> string \<Rightarrow> bool" where
  "startsWith s p \<longleftrightarrow> take (length p) s = p"

text \<open>\<open>new URL\<close> gives the protocol and the normalised text.\<close>

definition validateRemoteImageUrl :: "wire \<Rightarrow> string \<Rightarrow> string option" where
  "validateRemoteImageUrl W v = (case wr_parseUrl W v of
     None \<Rightarrow> None | Some (protocol, href) \<Rightarrow> if protocol = ''https:'' then Some href else None)"

definition isSupportedListingImageRef :: "wire \<Rightarrow> json option \<Rightarrow> bool" where
  "isSupportedListingImageRef W v \<longleftrightarrow> isStr v \<and>
     (if startsWith (strOf v) ''data:image/'' then length (strOf v) \<le> 500000
      else length (strOf v) \<le> 2048 \<and> validateRemoteImageUrl W (strOf v) \<noteq> None)"

definition areSupportedListingImageRefs :: "wire \<Rightarrow> json option \<Rightarrow> bool" where
  "areSupportedListingImageRefs W v \<longleftrightarrow> isArray v \<and> length (items v) \<le> MAX_LISTING_IMAGE_REFS
     \<and> list_all (\<lambda>x. isSupportedListingImageRef W (Some x)) (items v)"

section \<open>Menus\<close>

definition isFulfillment :: "json option \<Rightarrow> bool" where
  "isFulfillment v = oneOf [''physical'', ''service'', ''digital''] v"

definition isMenuItemKind :: "json option \<Rightarrow> bool" where
  "isMenuItemKind v = oneOf [''exchange-bracket'', ''bill'', ''loan'', ''market-item''] v"

definition isPositiveNumber :: "json option \<Rightarrow> bool" where
  "isPositiveNumber v \<longleftrightarrow> isFinite v \<and> numGt v 0"

definition numberOf :: "json option \<Rightarrow> rat" where
  "numberOf v = (case v of Some (JNum (Fin q)) \<Rightarrow> q | _ \<Rightarrow> 0)"

text \<open>\<open>g\<close> reads a property of the item: of the object itself for a menu, of the object the
  validator of a selection builds otherwise.\<close>

definition menuItemShape :: "wire \<Rightarrow> (string \<Rightarrow> json option) \<Rightarrow> bool" where
  "menuItemShape W g =
     (let lo = g ''minAmountMsats''; hi = g ''maxAmountMsats''; kind = g ''kind'' in
      optional isMenuItemKind kind \<and> optional isPositiveNumber lo \<and> optional isPositiveNumber hi
      \<and> \<not> (isPositiveNumber lo \<and> isPositiveNumber hi \<and> numberOf lo > numberOf hi)
      \<and> \<not> (kind = Some (JStr ''exchange-bracket'') \<and> (\<not> isPositiveNumber lo \<or> \<not> isPositiveNumber hi))
      \<and> \<not> ((lo \<noteq> None \<or> hi \<noteq> None) \<and> kind \<noteq> None \<and> kind \<noteq> Some (JStr ''exchange-bracket''))
      \<and> optional (isSupportedListingImageRef W) (g ''imageDataUrl'')
      \<and> optional (areSupportedListingImageRefs W) (g ''imageUrls'')
      \<and> isFilled (g ''id'') \<and> isStr (g ''label'') \<and> trim (strOf (g ''label'')) \<noteq> []
      \<and> isPositiveNumber (g ''amountMsats'') \<and> optional isStr (g ''description'')
      \<and> optional isNum (g ''fiatAmount'') \<and> optional isStr (g ''fiatCurrency'')
      \<and> optional isFulfillment (g ''fulfillment'') \<and> optional isPositiveNumber (g ''dueAt'')
      \<and> optional isPositiveNumber (g ''termDays'') \<and> optional isPositiveNumber (g ''aprBps'')
      \<and> optional isPositiveNumber (g ''trustTier'')
      \<and> optional (\<lambda>v. isPositiveNumber v \<and> isInteger v) (g ''maxQuantity''))"

definition validateMenuItem :: "wire \<Rightarrow> json \<Rightarrow> bool" where
  "validateMenuItem W d \<longleftrightarrow> isObject (Some d) \<and> menuItemShape W (field d)"

fun menuItemsOk :: "wire \<Rightarrow> string list \<Rightarrow> json list \<Rightarrow> bool" where
  "menuItemsOk W seen [] = True"
| "menuItemsOk W seen (x # xs) = (validateMenuItem W x \<and> strOf (field x ''id'') \<notin> set seen
     \<and> menuItemsOk W (strOf (field x ''id'') # seen) xs)"

definition validateMenuItems :: "wire \<Rightarrow> json option \<Rightarrow> bool" where
  "validateMenuItems W v = optional (\<lambda>v. isArray v \<and> items v \<noteq> [] \<and> length (items v) \<le> 50
     \<and> menuItemsOk W [] (items v)) v"

definition selectedKeys :: "string list" where
  "selectedKeys = [''label'', ''amountMsats'', ''kind'', ''minAmountMsats'', ''maxAmountMsats'', ''description'',
     ''fiatAmount'', ''fiatCurrency'', ''fulfillment'', ''dueAt'', ''termDays'', ''aprBps'', ''trustTier'']"

definition validateSelectedMenuItem :: "wire \<Rightarrow> json \<Rightarrow> bool" where
  "validateSelectedMenuItem W d \<longleftrightarrow> isObject (Some d)
     \<and> menuItemShape W (\<lambda>k. if k = ''id'' then field d ''itemId'' else if k \<in> set selectedKeys then field d k else None)
     \<and> isInteger (field d ''quantity'') \<and> numGt (field d ''quantity'') 0 \<and> numLe (field d ''quantity'') 99"

definition validateSelectedMenuItems :: "wire \<Rightarrow> json option \<Rightarrow> bool" where
  "validateSelectedMenuItems W v = optional (\<lambda>v. isArray v \<and> items v \<noteq> [] \<and> length (items v) \<le> 50
     \<and> list_all (validateSelectedMenuItem W) (items v)) v"

section \<open>CREATE and JOIN\<close>

definition validEscrowXonly :: "json option \<Rightarrow> bool" where
  "validEscrowXonly v = optional (\<lambda>v. isStr v \<and> hex64 (lower (trim (strOf v)))) v"

definition trancheChildShape :: "json \<Rightarrow> json \<Rightarrow> bool" where
  "trancheChildShape d t \<longleftrightarrow> isObject (Some t) \<and> field t ''privatePlanChild'' = Some (JBool True)
     \<and> isStr (field t ''parent'') \<and> isStr (field t ''planId'') \<and> isStr (field t ''planStartEventId'')
     \<and> isInteger (field t ''index'') \<and> isInteger (field t ''total'') \<and> isNum (field t ''totalMsats'')
     \<and> isStr (field t ''buyerPubkey'') \<and> isStr (field t ''sellerPubkey'') \<and> isStr (field t ''arbiterPubkey'')
     \<and> isStr (field t ''termsDigest'') \<and> isStr (field t ''coordinatorPubkey'') \<and> isNetwork (field t ''bitcoinNetwork'')
     \<and> field d ''parent'' = field t ''parent'' \<and> field d ''sellerPubkey'' = field t ''sellerPubkey''"

definition createOptionalShape :: "wire \<Rightarrow> json \<Rightarrow> bool" where
  "createOptionalShape W d \<longleftrightarrow> validEscrowXonly (field d ''escrowXonly'')
     \<and> optional isBool (field d ''onchainPublicConduct'') \<and> optional isBool (field d ''onchainAtomicRelease'')
     \<and> optional isNetwork (field d ''onchainNetwork'')
     \<and> optional (oneOf [''work'', ''work-request'']) (field d ''listingKind'')
     \<and> optional (isSupportedListingImageRef W) (field d ''imageDataUrl'')
     \<and> optional (areSupportedListingImageRefs W) (field d ''imageUrls'')
     \<and> optional (\<lambda>v. isStr v \<and> length (strOf v) = 10) (field d ''fedPrefix'')
     \<and> optional isFilled (field d ''fed'') \<and> optional isFilled (field d ''community'')
     \<and> optional (oneOf [''ship'', ''meet'', ''service'', ''digital'']) (field d ''delivery'')
     \<and> optional isFulfillment (field d ''fulfillment'') \<and> validateMenuItems W (field d ''items'')
     \<and> optional (\<lambda>v. isPositiveNumber v \<and> isInteger v) (field d ''stock'')
     \<and> optional isFilled (field d ''parent'')
     \<and> optional (\<lambda>v. isPositiveNumber v \<and> isInteger v) (field d ''claimedQuantity'')
     \<and> optional isFilled (field d ''sellerPubkey'')
     \<and> (case field d ''trancheChild'' of None \<Rightarrow> True | Some t \<Rightarrow> trancheChildShape d t)
     \<and> \<not> (field d ''parent'' \<noteq> None \<and> \<not> isFilled (field d ''sellerPubkey''))"

definition validateCreatePayload :: "wire \<Rightarrow> json \<Rightarrow> bool" where
  "validateCreatePayload W d \<longleftrightarrow> createOptionalShape W d
     \<and> field d ''type'' = Some (JStr ''escrow:create'') \<and> isStr (field d ''description'')
     \<and> optional (\<lambda>v. isStr v \<and> length (strOf v) \<le> 160) (field d ''title'')
     \<and> optional (\<lambda>v. isStr v \<and> length (strOf v) \<le> 8000) (field d ''body'')
     \<and> numGt (field d ''amountMsats'') 0 \<and> optional isFinite (field d ''fiatAmount'')
     \<and> optional isStr (field d ''fiatCurrency'') \<and> optional isFinite (field d ''premiumBps'')
     \<and> isStr (field d ''mintUrl'') \<and> isStr (field d ''category'') \<and> isNum (field d ''platformFeeBps'')
     \<and> isStr (field d ''platformFeePubkey'') \<and> numGt (field d ''expirySeconds'') 0 \<and> isNum (field d ''createdAt'')"

text \<open>The structural check on the terms of an on-chain escrow: every field is an input of its address.\<close>

definition onchainKeys :: "json \<Rightarrow> json option list" where
  "onchainKeys t = [field t ''buyerXonly'', field t ''sellerXonly'', field t ''arbiterXonly'']"

fun isValidOnchainLockTermsShape :: "json option \<Rightarrow> bool" where
  "isValidOnchainLockTermsShape (Some (JObj fs)) = (let t = JObj fs in
     isFilled (field t ''address'') \<and> isHex64 (field t ''fundingTxid'')
     \<and> isInteger (field t ''fundingVout'') \<and> numGe (field t ''fundingVout'') 0
     \<and> isStr (field t ''amountSats'') \<and> allDigits (strOf (field t ''amountSats'')) \<and> strOf (field t ''amountSats'') \<noteq> ''0''
     \<and> list_all isHex64 (onchainKeys t) \<and> distinct (onchainKeys t)
     \<and> oneOf [''buyer'', ''seller''] (field t ''funder'')
     \<and> isInteger (field t ''refundLockUntil'') \<and> numGt (field t ''refundLockUntil'') 0
     \<and> \<not> numGe (field t ''refundLockUntil'') 500000000
     \<and> isInteger (field t ''disputeCsvBlocks'') \<and> numGe (field t ''disputeCsvBlocks'') 0
     \<and> numLe (field t ''disputeCsvBlocks'') 65535 \<and> isNetwork (field t ''network''))"
| "isValidOnchainLockTermsShape _ = False"

text \<open>The funding terms of a JOIN are the lock terms before there is a funding outpoint: a spread
  of the value with placeholders for it (a spread string has only indices, which nothing reads).\<close>

definition withPlaceholders :: "json \<Rightarrow> json" where
  "withPlaceholders v = JObj (entries v @ [(''fundingTxid'', JStr (replicate 64 CHR ''0'')),
     (''fundingVout'', JNum (jsInt 0)), (''amountSats'', JStr ''1'')])"

definition validateJoinPayload :: "wire \<Rightarrow> json \<Rightarrow> bool" where
  "validateJoinPayload W d \<longleftrightarrow> validEscrowXonly (field d ''escrowXonly'')
     \<and> (case field d ''fundingTerms'' of None \<Rightarrow> True
        | Some v \<Rightarrow> isValidOnchainLockTermsShape (Some (withPlaceholders v)))
     \<and> validateSelectedMenuItems W (field d ''selectedItems'')
     \<and> optional (\<lambda>v. isNum v \<and> \<not> numLe v 0) (field d ''amountMsats'')
     \<and> optional (\<lambda>v. isNum v \<and> \<not> numLe v 0) (field d ''orderFinalizedAt'')
     \<and> field d ''type'' = Some (JStr ''escrow:join'') \<and> isRole (field d ''role'')
     \<and> optional (\<lambda>v. isStr v \<and> length (strOf v) \<le> 100) (field d ''payoutAddress'')
     \<and> isNum (field d ''joinedAt'') \<and> optional isNum (field d ''holdExpiresAt'')"

section \<open>LOCK and LOCK_STEP\<close>

definition isShareCommitment :: "json option \<Rightarrow> bool" where
  "isShareCommitment v = isHex64 v"

text \<open>The ciphertexts of an entry, by recipient.\<close>

definition ciphertexts :: "json \<Rightarrow> (string \<times> json) list" where
  "ciphertexts x = (case field x ''encryptedFor'' of Some (JObj fs) \<Rightarrow> entries (JObj fs) | _ \<Rightarrow> [])"

definition filledEntry :: "string \<times> json \<Rightarrow> bool" where
  "filledEntry e \<longleftrightarrow> fst e \<noteq> [] \<and> isFilled (Some (snd e))"

definition isWithheldShapeEntry :: "json \<Rightarrow> bool" where
  "isWithheldShapeEntry x \<longleftrightarrow> isObject (Some x) \<and> isInteger (field x ''shareIndex'')
     \<and> isObject (field x ''encryptedFor'') \<and> \<not> isArray (field x ''encryptedFor'')
     \<and> list_all filledEntry (ciphertexts x)"

definition carriesShare :: "json \<Rightarrow> bool" where
  "carriesShare x \<longleftrightarrow> ciphertexts x \<noteq> []"

definition withheldLockEntry :: "json \<Rightarrow> bool" where
  "withheldLockEntry x \<longleftrightarrow> isWithheldShapeEntry x
     \<and> (if carriesShare x then field x ''commitment'' = None else isShareCommitment (field x ''commitment''))"

definition withheldLockShape :: "json \<Rightarrow> bool" where
  "withheldLockShape d = (case field d ''withheldShares'' of
     None \<Rightarrow> True
   | Some (JBool b) \<Rightarrow> \<not> b \<or> (field d ''onchain'' = None \<and> isArray (field d ''shares'')
       \<and> length (items (field d ''shares'')) = 3 \<and> list_all withheldLockEntry (items (field d ''shares''))
       \<and> length (filter carriesShare (items (field d ''shares''))) = 1)
   | _ \<Rightarrow> False)"

definition handleEnvelopeShape :: "json \<Rightarrow> bool" where
  "handleEnvelopeShape v \<longleftrightarrow> isObject (Some v) \<and> isObject (field v ''encryptedFor'')
     \<and> list_all filledEntry (entries (the (field v ''encryptedFor'')))"

definition lockMoneyShape :: "json \<Rightarrow> bool" where
  "lockMoneyShape d \<longleftrightarrow> isFinite (field d ''sellerReceivesMsats'') \<and> isFinite (field d ''arbiterFeeMsats'')
     \<and> isFilled (field d ''buyerPubkey'') \<and> isFilled (field d ''arbiterPubkey'') \<and> isNum (field d ''lockedAt'')"

definition validateLockPayload :: "wire \<Rightarrow> json \<Rightarrow> bool" where
  "validateLockPayload W d \<longleftrightarrow> optional isFilled (field d ''handleId'') \<and> optional isFilled (field d ''handle'')
     \<and> optional isFilled (field d ''rail'')
     \<and> (case field d ''handleEnvelope'' of None \<Rightarrow> True | Some v \<Rightarrow> handleEnvelopeShape v)
     \<and> validateSelectedMenuItems W (field d ''selectedItems'')
     \<and> optional isBool (field d ''arbiterPoolShare'')
     \<and> optional isFinite (field d ''substitutionGraceSeconds'') \<and> withheldLockShape d
     \<and> field d ''type'' = Some (JStr ''escrow:lock'') \<and> lockMoneyShape d
     \<and> (if field d ''onchain'' \<noteq> None
        then isValidOnchainLockTermsShape (field d ''onchain'') \<and> \<not> (isArray (field d ''shares'') \<and> items (field d ''shares'') \<noteq> [])
        else isStr (field d ''notesHash'') \<and> isArray (field d ''shares'') \<and> length (items (field d ''shares'')) = 3)"

definition validateLockStepPayload :: "json \<Rightarrow> bool" where
  "validateLockStepPayload d \<longleftrightarrow> field d ''type'' = Some (JStr ''escrow:lock_step'') \<and> isHex64 (field d ''lockEventId'')
     \<and> (if oneOf [''accept'', ''withdraw''] (field d ''step'') then field d ''shares'' = None
        else field d ''step'' = Some (JStr ''release'') \<and> isArray (field d ''shares'')
          \<and> length (items (field d ''shares'')) = 2
          \<and> list_all (\<lambda>x. isWithheldShapeEntry x \<and> carriesShare x \<and> field x ''commitment'' = None) (items (field d ''shares'')))"

section \<open>Votes, decisions and the closing kinds\<close>

definition isValidVoteShareEnvelopeShape :: "json \<Rightarrow> bool" where
  "isValidVoteShareEnvelopeShape e \<longleftrightarrow> isObject (Some e) \<and> isInteger (field e ''shareIndex'')
     \<and> numGe (field e ''shareIndex'') 0 \<and> numLe (field e ''shareIndex'') 2
     \<and> isOutcome (field e ''outcome'') \<and> isStr (field e ''notesHash'') \<and> isFilled (field e ''recipientPubkey'')
     \<and> isObject (field e ''encryptedFor'')
     \<and> isStr (field (the (field e ''encryptedFor'')) (strOf (field e ''recipientPubkey'')))"

text \<open>Reading a field of \<open>undefined\<close> or \<open>null\<close> throws.\<close>

definition validateSettlementPayload :: "json option \<Rightarrow> bool option" where
  "validateSettlementPayload v = (case v of
     None \<Rightarrow> None
   | Some JNull \<Rightarrow> None
   | Some d \<Rightarrow> Some (field d ''type'' = Some (JStr ''escrow:settlement'') \<and> isFilled (field d ''psbt'')
       \<and> oneOf [''coop'', ''arbiter'', ''refund''] (field d ''leaf'') \<and> isRole (field d ''role'')
       \<and> optional isBool (field d ''final'')))"

definition voteShape :: "json \<Rightarrow> bool" where
  "voteShape d \<longleftrightarrow> (case field d ''shareEnvelope'' of None \<Rightarrow> True | Some e \<Rightarrow> isValidVoteShareEnvelopeShape e)
     \<and> field d ''type'' = Some (JStr ''escrow:vote'') \<and> isOutcome (field d ''outcome'') \<and> isRole (field d ''role'')
     \<and> isNum (field d ''votedAt'')"

definition validateVotePayload :: "json \<Rightarrow> bool option" where
  "validateVotePayload d = (case field d ''onchainRelease'' of
     None \<Rightarrow> Some (voteShape d)
   | Some r \<Rightarrow> map_option (\<lambda>ok. ok \<and> voteShape d) (validateSettlementPayload (Some r)))"

definition validateResolvePayload :: "json \<Rightarrow> bool" where
  "validateResolvePayload d \<longleftrightarrow> field d ''type'' = Some (JStr ''escrow:resolve'') \<and> isOutcome (field d ''outcome'')
     \<and> isArray (field d ''majority'') \<and> length (items (field d ''majority'')) = 2
     \<and> isBool (field d ''arbiterInvolved'') \<and> isNum (field d ''resolvedAt'')"

definition validateClaimPayload :: "json \<Rightarrow> bool" where
  "validateClaimPayload d \<longleftrightarrow> field d ''type'' = Some (JStr ''escrow:claim'') \<and> isRole (field d ''claimerRole'')
     \<and> isStr (field d ''notesHashVerification'') \<and> isNum (field d ''claimedAt'')"

definition validateCompletePayload :: "json \<Rightarrow> bool" where
  "validateCompletePayload d \<longleftrightarrow> field d ''type'' = Some (JStr ''escrow:complete'') \<and> isNum (field d ''completedAt'')"

definition validateCancelPayload :: "json \<Rightarrow> bool" where
  "validateCancelPayload d \<longleftrightarrow> field d ''type'' = Some (JStr ''escrow:cancel'') \<and> isRole (field d ''cancellerRole'')
     \<and> isNum (field d ''cancelledAt'')"

definition validateEnvelope :: "json option \<Rightarrow> bool" where
  "validateEnvelope v = (case v of None \<Rightarrow> False
   | Some d \<Rightarrow> isObject (field d ''encryptedFor'') \<and> \<not> isArray (field d ''encryptedFor'')
       \<and> list_all (\<lambda>e. isStr (Some (snd e))) (entries (the (field d ''encryptedFor''))))"

definition validateChatAttachment :: "json \<Rightarrow> bool" where
  "validateChatAttachment d \<longleftrightarrow> field d ''kind'' = Some (JStr ''image'') \<and> isStr (field d ''id'')
     \<and> isStr (field d ''mimeType'') \<and> startsWith (strOf (field d ''mimeType'')) ''image/''
     \<and> isStr (field d ''dataUrl'') \<and> startsWith (strOf (field d ''dataUrl'')) ''data:image/''
     \<and> optional isStr (field d ''name'') \<and> optional isNum (field d ''width'')
     \<and> optional isNum (field d ''height'') \<and> optional isNum (field d ''sizeBytes'')"

definition validateChatPayload :: "json \<Rightarrow> bool" where
  "validateChatPayload d \<longleftrightarrow> field d ''type'' = Some (JStr ''escrow:chat'') \<and> isStr (field d ''message'')
     \<and> optional (\<lambda>v. isArray v \<and> list_all validateChatAttachment (items v)) (field d ''attachments'')
     \<and> optional validateEnvelope (field d ''bodyEnvelope'') \<and> isRole (field d ''senderRole'') \<and> isNum (field d ''sentAt'')"

definition validatePremiumPayload :: "json \<Rightarrow> bool" where
  "validatePremiumPayload d \<longleftrightarrow> field d ''type'' = Some (JStr ''escrow:premium'') \<and> validateEnvelope (field d ''noteEnvelope'')
     \<and> isRole (field d ''payerRole'') \<and> oneOf [''ambient'', ''dispute''] (field d ''noteKind'') \<and> isNum (field d ''sentAt'')"

definition validateSubscribePayload :: "json \<Rightarrow> bool" where
  "validateSubscribePayload d \<longleftrightarrow> field d ''type'' = Some (JStr ''escrow:subscribe'')
     \<and> numGt (field d ''totalPeriods'') 0 \<and> isNum (field d ''totalPeriods'') \<and> numLe (field d ''totalPeriods'') 52
     \<and> numGt (field d ''periodAmountMsats'') 0 \<and> numGt (field d ''periodDurationSeconds'') 0
     \<and> isStr (field d ''description'') \<and> isNum (field d ''startsAt'')"

definition validatePeriodReleasePayload :: "json \<Rightarrow> bool" where
  "validatePeriodReleasePayload d \<longleftrightarrow> field d ''type'' = Some (JStr ''escrow:period_release'')
     \<and> numGe (field d ''periodIndex'') 0 \<and> numGt (field d ''amountMsats'') 0
     \<and> isStr (field d ''triggeredBy'') \<and> isNum (field d ''releasedAt'')"

text \<open>A row of \<open>null\<close> is falsy; any other primitive has no \<open>index\<close>.\<close>

definition trancheRowShape :: "json \<Rightarrow> bool" where
  "trancheRowShape t \<longleftrightarrow> isInteger (field t ''index'') \<and> isNum (field t ''amountMsats'')"

definition validatePlanStartPayload :: "json \<Rightarrow> bool" where
  "validatePlanStartPayload d \<longleftrightarrow> field d ''type'' = Some (JStr ''escrow:plan_start'')
     \<and> isStr (field d ''planId'') \<and> isStr (field d ''termsDigest'') \<and> isInteger (field d ''total'')
     \<and> isNum (field d ''totalMsats'') \<and> isStr (field d ''buyerPubkey'') \<and> isStr (field d ''sellerPubkey'')
     \<and> isStr (field d ''arbiterPubkey'') \<and> isStr (field d ''coordinatorPubkey'') \<and> isNetwork (field d ''bitcoinNetwork'')
     \<and> optional isStr (field d ''settlementPolicy'') \<and> optional isInteger (field d ''sliceCount'')
     \<and> optional isNum (field d ''sliceCapMsats'') \<and> isArray (field d ''tranches'')
     \<and> list_all trancheRowShape (items (field d ''tranches'')) \<and> isNum (field d ''startedAt'')"

definition validateChildKeyPayload :: "json \<Rightarrow> bool" where
  "validateChildKeyPayload d \<longleftrightarrow> field d ''type'' = Some (JStr ''escrow:child_key'') \<and> isStr (field d ''planId'')
     \<and> isStr (field d ''parent'') \<and> isInteger (field d ''index'') \<and> isRole (field d ''role'')
     \<and> isNetwork (field d ''bitcoinNetwork'') \<and> isHex64 (field d ''xOnlyPubkey'') \<and> isNum (field d ''publishedAt'')"

definition validateStalledPayload :: "json \<Rightarrow> bool option" where
  "validateStalledPayload d =
     (if field d ''type'' = Some (JStr ''escrow:settlement_stalled'') \<and> isHex64 (field d ''proposalId'')
      then validateSettlementPayload (field d ''payout'') else Some False)"

section \<open>The parser\<close>

definition allKinds :: "ekind list" where
  "allKinds = [K_CREATE, K_JOIN, K_LOCK, K_VOTE, K_RESOLVE, K_CLAIM, K_COMPLETE, K_CANCEL, K_CHAT, K_SUBSCRIBE,
     K_PERIOD_RELEASE, K_PREMIUM, K_SETTLEMENT, K_PLAN_START, K_CHILD_KEY, K_SETTLEMENT_STALLED, K_LOCK_STEP]"

definition kindOfNumber :: "int \<Rightarrow> ekind option" where
  "kindOfNumber n = List.find (\<lambda>k. kindNumber k = n) allKinds"

fun kindToType :: "ekind \<Rightarrow> string" where
  "kindToType K_CREATE = ''escrow:create''"
| "kindToType K_JOIN = ''escrow:join''"
| "kindToType K_LOCK = ''escrow:lock''"
| "kindToType K_VOTE = ''escrow:vote''"
| "kindToType K_RESOLVE = ''escrow:resolve''"
| "kindToType K_CLAIM = ''escrow:claim''"
| "kindToType K_COMPLETE = ''escrow:complete''"
| "kindToType K_CANCEL = ''escrow:cancel''"
| "kindToType K_CHAT = ''escrow:chat''"
| "kindToType K_PREMIUM = ''escrow:premium''"
| "kindToType K_SETTLEMENT = ''escrow:settlement''"
| "kindToType K_SETTLEMENT_STALLED = ''escrow:settlement_stalled''"
| "kindToType K_SUBSCRIBE = ''escrow:subscribe''"
| "kindToType K_PERIOD_RELEASE = ''escrow:period_release''"
| "kindToType K_PLAN_START = ''escrow:plan_start''"
| "kindToType K_CHILD_KEY = ''escrow:child_key''"
| "kindToType K_LOCK_STEP = ''escrow:lock_step''"

fun payloadValidator :: "wire \<Rightarrow> ekind \<Rightarrow> json \<Rightarrow> bool option" where
  "payloadValidator W K_CREATE d = Some (validateCreatePayload W d)"
| "payloadValidator W K_JOIN d = Some (validateJoinPayload W d)"
| "payloadValidator W K_LOCK d = Some (validateLockPayload W d)"
| "payloadValidator W K_VOTE d = validateVotePayload d"
| "payloadValidator W K_RESOLVE d = Some (validateResolvePayload d)"
| "payloadValidator W K_CLAIM d = Some (validateClaimPayload d)"
| "payloadValidator W K_COMPLETE d = Some (validateCompletePayload d)"
| "payloadValidator W K_CANCEL d = Some (validateCancelPayload d)"
| "payloadValidator W K_CHAT d = Some (validateChatPayload d)"
| "payloadValidator W K_PREMIUM d = Some (validatePremiumPayload d)"
| "payloadValidator W K_SETTLEMENT d = validateSettlementPayload (Some d)"
| "payloadValidator W K_SETTLEMENT_STALLED d = validateStalledPayload d"
| "payloadValidator W K_SUBSCRIBE d = Some (validateSubscribePayload d)"
| "payloadValidator W K_PERIOD_RELEASE d = Some (validatePeriodReleasePayload d)"
| "payloadValidator W K_PLAN_START d = Some (validatePlanStartPayload d)"
| "payloadValidator W K_CHILD_KEY d = Some (validateChildKeyPayload d)"
| "payloadValidator W K_LOCK_STEP d = Some (validateLockStepPayload d)"

definition nthTag :: "nat \<Rightarrow> string list \<Rightarrow> string option" where
  "nthTag i t = (if i < length t then Some (t ! i) else None)"

definition getTagValue :: "string list list \<Rightarrow> string \<Rightarrow> string option" where
  "getTagValue tags name = Option.bind (List.find (\<lambda>t. nthTag 0 t = Some name) tags) (nthTag 1)"

definition getPrevEventId :: "string list list \<Rightarrow> string option" where
  "getPrevEventId tags = (case List.find (\<lambda>t. nthTag 0 t = Some ''e'' \<and> nthTag 3 t = Some ''reply'') tags of
     Some t \<Rightarrow> nthTag 1 t
   | None \<Rightarrow> (case rev (filter (\<lambda>t. nthTag 0 t = Some ''e'') tags) of [] \<Rightarrow> None | t # _ \<Rightarrow> nthTag 1 t))"

record parse_context =
  pc_parent :: "chama_view option"
  pc_witness :: "chama_view option"
  pc_cycle :: "chama_cycle option"
  pc_state :: "state option"

text \<open>Reading and validating the content; an exception anywhere is a \<open>PARSE_ERROR\<close>.\<close>

definition readPayload :: "wire \<Rightarrow> ekind \<Rightarrow> string \<Rightarrow> errcode + json" where
  "readPayload W k content = (case wr_parseJson W content of
     None \<Rightarrow> Inl ''PARSE_ERROR''
   | Some JNull \<Rightarrow> Inl ''PARSE_ERROR''
   | Some d \<Rightarrow> if field d ''type'' \<noteq> Some (JStr (kindToType k)) then Inl ''TYPE_MISMATCH''
       else (case payloadValidator W k d of
         None \<Rightarrow> Inl ''PARSE_ERROR'' | Some ok \<Rightarrow> if ok then Inr d else Inl ''INVALID_PAYLOAD''))"

definition parsedEvent :: "nostr_event \<Rightarrow> string \<Rightarrow> ekind \<Rightarrow> payload \<Rightarrow> parse_context \<Rightarrow> event" where
  "parsedEvent raw i k p ctx = \<lparr>ev_id = ne_id raw, ev_pubkey = ne_pubkey raw, ev_timestamp = ne_created_at raw,
     ev_tags = ne_tags raw, ev_escrowId = i, ev_prev = (if k = K_CREATE then None else getPrevEventId (ne_tags raw)),
     ev_payload = p, ev_chamaParent = pc_parent ctx, ev_chamaWitness = pc_witness ctx, ev_chamaCycle = pc_cycle ctx\<rparr>"

definition createRefusal :: "wire \<Rightarrow> event \<Rightarrow> string option" where
  "createRefusal W e = (case ev_payload e of
     PCreate p \<Rightarrow> chamaCreateError (wr_sha W) p (ev_escrowId e) (ev_pubkey e) (ev_timestamp e)
       (ev_chamaParent e) (ev_chamaWitness e) (ev_chamaCycle e) (eventIsSim e)
   | _ \<Rightarrow> None)"

definition outcomeRefusal :: "wire \<Rightarrow> parse_context \<Rightarrow> event \<Rightarrow> string option" where
  "outcomeRefusal W ctx e = (case pc_state ctx of
     None \<Rightarrow> None
   | Some s \<Rightarrow> if st_chamaPolicy s = None then None else (case ev_payload e of
       PVote p \<Rightarrow> chamaOutcomeError (wr_sha W) s (vp_outcome p) (ev_timestamp e) (pc_cycle ctx)
         (voteJudgment s e) (vp_fillEvidence p)
     | PResolve p \<Rightarrow> chamaOutcomeError (wr_sha W) s (rp_outcome p) (ev_timestamp e) (pc_cycle ctx)
         JFinalize (rp_fillEvidence p)
     | _ \<Rightarrow> None))"

definition parseEscrowEvent :: "wire \<Rightarrow> nostr_event \<Rightarrow> string \<Rightarrow> parse_context \<Rightarrow> errcode + event" where
  "parseEscrowEvent W raw content ctx = (case kindOfNumber (ne_kind raw) of
     None \<Rightarrow> Inl ''INVALID_KIND''
   | Some k \<Rightarrow> (case nonEmpty (getTagValue (ne_tags raw) ''d'') of
       None \<Rightarrow> Inl ''MISSING_ESCROW_ID''
     | Some i \<Rightarrow>
         if k = K_CREATE \<and> \<not> creatorMatchesEscrowId i (ne_pubkey raw) then Inl ''CREATOR_MISMATCH''
         else (case readPayload W k content of
           Inl c \<Rightarrow> Inl c
         | Inr d \<Rightarrow> (let e = parsedEvent raw i k (wr_view W k d) ctx in guarded
             [(createRefusal W e \<noteq> None, ''INVALID_CHAMA_CREATE''),
              (outcomeRefusal W ctx e \<noteq> None, lawCode (outcomeRefusal W ctx e))] (Inr e)))))"

section \<open>Relay filters\<close>

record relay_filter =
  rf_kinds :: "int list"
  rf_tag :: "string \<times> string list"
  rf_since :: "int option"

definition buildEscrowFilter :: "string \<Rightarrow> relay_filter" where
  "buildEscrowFilter i = \<lparr>rf_kinds = map kindNumber allKinds, rf_tag = (''#d'', [i]), rf_since = None\<rparr>"

definition buildParticipantFilter :: "string \<Rightarrow> int option \<Rightarrow> relay_filter" where
  "buildParticipantFilter pubkey since = \<lparr>rf_kinds = [kindNumber K_CREATE, kindNumber K_JOIN],
     rf_tag = (''#p'', [pubkey]), rf_since = (if truthyN since then since else None)\<rparr>"

section \<open>What the parser admits\<close>

lemma set_allKinds: "set allKinds = UNIV"
proof -
  have "k \<in> set allKinds" for k by (cases k) (simp_all add: allKinds_def)
  then show ?thesis by blast
qed

lemma kindNumber_inject: "kindNumber k = kindNumber l \<longleftrightarrow> k = l"
  by (cases k; cases l) simp_all

lemma kindOfNumber_Some: "kindOfNumber n = Some k \<longleftrightarrow> kindNumber k = n"
proof
  show "kindOfNumber n = Some k \<Longrightarrow> kindNumber k = n" unfolding kindOfNumber_def by (auto dest: find_Some_in)
  assume n: "kindNumber k = n"
  then have "kindOfNumber n \<noteq> None" using set_allKinds by (auto simp: kindOfNumber_def find_None_iff_ball)
  then obtain l where "kindOfNumber n = Some l" by blast
  moreover from this have "kindNumber l = n" unfolding kindOfNumber_def by (auto dest: find_Some_in)
  ultimately show "kindOfNumber n = Some k" using n kindNumber_inject by metis
qed

lemma readPayload_Inr:
  "readPayload W k content = Inr d \<longleftrightarrow> wr_parseJson W content = Some d \<and> d \<noteq> JNull
    \<and> field d ''type'' = Some (JStr (kindToType k)) \<and> payloadValidator W k d = Some True"
  by (auto simp: readPayload_def split: option.splits json.splits if_splits)

lemma parseEscrowEvent_Inr:
  assumes "parseEscrowEvent W raw content ctx = Inr e"
  obtains k i d where "kindNumber k = ne_kind raw" "getTagValue (ne_tags raw) ''d'' = Some i" "i \<noteq> []"
    "k = K_CREATE \<Longrightarrow> creatorMatchesEscrowId i (ne_pubkey raw)" "wr_parseJson W content = Some d"
    "payloadValidator W k d = Some True" "e = parsedEvent raw i k (wr_view W k d) ctx"
    "createRefusal W e = None" "outcomeRefusal W ctx e = None"
  using assms unfolding parseEscrowEvent_def Let_def
  by (auto simp: kindOfNumber_Some nonEmpty_eq_Some readPayload_Inr guarded_Inr split: option.splits sum.splits if_splits)

end
