(* ===== verification/Wire_Properties.thy ===== *)
theory Wire_Properties
  imports Event_Parser Handle_Create
begin

text \<open>
  What crosses the wire boundary: the custody of a parsed LOCK, the agreement of the parser with
  the reducer's own CREATE gates, and a gap in the shape of the shares.
\<close>

section \<open>LOCK\<close>

lemma validateLock_withheld:
  assumes "validateLockPayload W d" "field d ''withheldShares'' = Some (JBool True)"
  shows "field d ''onchain'' = None \<and> list_all withheldLockEntry (items (field d ''shares''))
    \<and> length (filter carriesShare (items (field d ''shares''))) = 1"
  using assms by (simp add: validateLockPayload_def withheldLockShape_def)

lemma termsShape_bounds:
  assumes "isValidOnchainLockTermsShape v"
  shows "\<exists>t u c. v = Some t \<and> field t ''refundLockUntil'' = Some (JNum (jsInt u)) \<and> 0 < u \<and> u < 500000000
    \<and> field t ''disputeCsvBlocks'' = Some (JNum (jsInt c)) \<and> 0 \<le> c \<and> c \<le> 65535
    \<and> distinct [field t ''buyerXonly'', field t ''sellerXonly'', field t ''arbiterXonly'']"
proof -
  from assms obtain fs where t: "v = Some (JObj fs)" by (cases v rule: isValidOnchainLockTermsShape.cases) auto
  have whole: "\<exists>n. x = Some (JNum (jsInt n))" if "isInteger x" for x
    using that by (cases x rule: isInteger.cases) (auto simp: jsInt_def)
  from assms t have i: "isInteger (field (JObj fs) ''refundLockUntil'')" "isInteger (field (JObj fs) ''disputeCsvBlocks'')"
    "numGt (field (JObj fs) ''refundLockUntil'') 0" "\<not> numGe (field (JObj fs) ''refundLockUntil'') 500000000"
    "numGe (field (JObj fs) ''disputeCsvBlocks'') 0" "numLe (field (JObj fs) ''disputeCsvBlocks'') 65535"
    "distinct [field (JObj fs) ''buyerXonly'', field (JObj fs) ''sellerXonly'', field (JObj fs) ''arbiterXonly'']"
    by (simp_all only: isValidOnchainLockTermsShape.simps onchainKeys_def Let_def simp_thms)
  from whole [OF i(1)] whole [OF i(2)] obtain u c where
    uc: "field (JObj fs) ''refundLockUntil'' = Some (JNum (jsInt u))" "field (JObj fs) ''disputeCsvBlocks'' = Some (JNum (jsInt c))"
    by blast
  with i(3-6) have "0 < u" "u < 500000000" "0 \<le> c" "c \<le> 65535" by (auto simp: jsInt_def numGe_def)
  with t uc i(7) show ?thesis by blast
qed


definition wireLock :: json where
  "wireLock = JObj [(''type'', JStr ''escrow:lock''), (''notesHash'', JStr ''notes''),
     (''shares'', JArr [JNull, JNull, JNull]), (''sellerReceivesMsats'', JNum (jsInt 2900)),
     (''arbiterFeeMsats'', JNum (jsInt 100)), (''buyerPubkey'', JStr ''B''), (''arbiterPubkey'', JStr ''A''),
     (''lockedAt'', JNum (jsInt 1020))]"

definition lockWire :: wire where
  "lockWire = \<lparr>wr_parseJson = (\<lambda>_. Some wireLock), wr_parseUrl = (\<lambda>_. None), wr_sha = (\<lambda>s. s),
     wr_view = (\<lambda>_ _. PComplete 0)\<rparr>"

definition noContext :: parse_context where
  "noContext = \<lparr>pc_parent = None, pc_witness = None, pc_cycle = None, pc_state = None\<rparr>"

definition rawEvent :: "ekind \<Rightarrow> string \<Rightarrow> nostr_event" where
  "rawEvent k pk = \<lparr>ne_id = ''e2'', ne_pubkey = pk, ne_created_at = 1020, ne_kind = kindNumber k,
     ne_tags = [[''d'', ''trade''], [''e'', ''e1'', [], ''reply'']], ne_content = [], ne_sig = []\<rparr>"

lemma lock_parses: "\<exists>e. parseEscrowEvent lockWire (rawEvent K_LOCK ''S'') [] noContext = Inr e \<and> ev_prev e = Some ''e1''"
proof -
  have "case parseEscrowEvent lockWire (rawEvent K_LOCK ''S'') [] noContext of Inl _ \<Rightarrow> False | Inr e \<Rightarrow> ev_prev e = Some ''e1''"
    by code_simp
  then show ?thesis by (auto split: sum.splits)
qed


text \<open>The parser does not look inside the shares of a plain ecash LOCK: three nulls are admitted,
  and so is a RESOLVE whose majority names no roles.\<close>

theorem parser_admits_null_shares:
  "items (field wireLock ''shares'') = [JNull, JNull, JNull] \<and> validateLockPayload lockWire wireLock
    \<and> validateResolvePayload (JObj [(''type'', JStr ''escrow:resolve''), (''outcome'', JStr ''release''),
        (''majority'', JArr [JNull, JNum (jsInt 7)]), (''arbiterInvolved'', JBool False), (''resolvedAt'', JNum (jsInt 1))])"
  by code_simp

section \<open>CREATE\<close>

text \<open>The parser and the reducer agree on who may open a trade: a CREATE the parser admits, seen
  by the same SHA-256, is never refused by the reducer for its circle's laws at the front gate or
  for a creator that does not match its id, and it bootstraps the chain without a predecessor.\<close>

theorem parsed_create_passes_the_reducers_gates:
  assumes "parseEscrowEvent W raw content ctx = Inr e" "ne_kind raw = kindNumber K_CREATE" "ev_payload e = PCreate p"
  shows "ev_prev e = None \<and> ev_escrowId e \<noteq> [] \<and> ev_kind e = K_CREATE
    \<and> creatorMatchesEscrowId (ev_escrowId e) (ev_pubkey e)
    \<and> chamaCreateError (wr_sha W) p (ev_escrowId e) (ev_pubkey e) (ev_timestamp e) (ev_chamaParent e)
        (ev_chamaWitness e) (ev_chamaCycle e) (eventIsSim e) = None
    \<and> handleCreate (wr_sha W) e p \<noteq> Inl ''CREATOR_MISMATCH''"
proof (rule parseEscrowEvent_Inr [OF assms(1)])
  fix k i d assume k: "k = K_CREATE \<Longrightarrow> creatorMatchesEscrowId i (ne_pubkey raw)" "i \<noteq> []"
    "e = parsedEvent raw i k (wr_view W k d) ctx" "createRefusal W e = None" "kindNumber k = ne_kind raw"
  with assms(2) have "kindNumber k = kindNumber K_CREATE" by (simp only:)
  then have "k = K_CREATE" by (simp only: kindNumber_inject)
  with k assms(3) have f: "ev_prev e = None" "ev_escrowId e \<noteq> []" "ev_kind e = K_CREATE"
    "creatorMatchesEscrowId (ev_escrowId e) (ev_pubkey e)"
    "chamaCreateError (wr_sha W) p (ev_escrowId e) (ev_pubkey e) (ev_timestamp e) (ev_chamaParent e)
        (ev_chamaWitness e) (ev_chamaCycle e) (eventIsSim e) = None"
    by (simp_all add: parsedEvent_def ev_kind_def createRefusal_def)
  have "handleCreate (wr_sha W) e p \<noteq> Inl ''CREATOR_MISMATCH''"
  proof
    assume "handleCreate (wr_sha W) e p = Inl ''CREATOR_MISMATCH''"
    with f(4) show False
      by (auto simp: handleCreate_def createGuards_def Let_def guarded.simps split: if_splits)
  qed
  with f show ?thesis by simp
qed

definition wireCreate :: json where
  "wireCreate = JObj [(''type'', JStr ''escrow:create''), (''description'', JStr ''sats''), (''amountMsats'', JNum (jsInt 3000)),
     (''mintUrl'', JStr ''mint''), (''category'', JStr ''p2p-trade''), (''platformFeeBps'', JNum (jsInt 0)),
     (''platformFeePubkey'', JStr ''P''), (''expirySeconds'', JNum (jsInt 1000)), (''createdAt'', JNum (jsInt 1020))]"

definition createView :: create_payload where
  "createView = plainCreate ''sats'' ''p2p-trade'' 3000 ''mint'' ''P'' 1000 1020"

definition createWire :: wire where
  "createWire = \<lparr>wr_parseJson = (\<lambda>_. Some wireCreate), wr_parseUrl = (\<lambda>_. None), wr_sha = (\<lambda>s. s),
     wr_view = (\<lambda>_ _. PCreate createView)\<rparr>"

theorem parsed_create_passes_the_reducers_gates_witness:
  "\<exists>e. parseEscrowEvent createWire (rawEvent K_CREATE ''S'') [] noContext = Inr e
    \<and> handleCreate (wr_sha createWire) e createView \<noteq> Inl ''CREATOR_MISMATCH''"
proof -
  have "case parseEscrowEvent createWire (rawEvent K_CREATE ''S'') [] noContext of Inl _ \<Rightarrow> False
    | Inr e \<Rightarrow> (case ev_payload e of PCreate _ \<Rightarrow> True | _ \<Rightarrow> False)" by code_simp
  then obtain e where e: "parseEscrowEvent createWire (rawEvent K_CREATE ''S'') [] noContext = Inr e" by (auto split: sum.splits)
  have p: "ev_payload e = PCreate createView"
    using e by (rule parseEscrowEvent_Inr) (simp add: parsedEvent_def createWire_def)
  have k: "ne_kind (rawEvent K_CREATE ''S'') = kindNumber K_CREATE" by (simp add: rawEvent_def)
  from parsed_create_passes_the_reducers_gates [OF e k p] e show ?thesis by blast
qed

end
