(* ===== verification/Tranche_Plan.thy ===== *)
theory Tranche_Plan
  imports Slice_Policy Reducer_Base
begin

text \<open>
  Sequential trades with a frozen plan (\<open>src/escrow-engine/tranche-plan.ts\<close>): the digests and
  deterministic ids of a plan's children, the descriptor a child must carry and its
  verification, and the plan state derived from the parent and the children. SHA-256 and the
  decimal rendering of a fraction are the fields of the record \<open>tranche_env\<close>; an exception
  thrown is \<open>Inl\<close> of a short form of its message. The validation of a plan and the splitter are
  in \<open>Slice_Policy\<close>.
\<close>

record tranche_env =
  tv_sha :: "string \<Rightarrow> string"
  tv_num :: "rat \<Rightarrow> string"

section \<open>Digests and ids\<close>

text \<open>The canonical text of a value: keys in code-unit order, an absent field as \<open>undefined\<close>.\<close>

datatype cvalue = C_undefined | C_str string | C_num jsnum | C_strs "string list"

fun canonicalValue :: "tranche_env \<Rightarrow> cvalue \<Rightarrow> string" where
  "canonicalValue T C_undefined = ''undefined''"
| "canonicalValue T (C_str s) = jsonString s"
| "canonicalValue T (C_num (Fin q)) = (if q = of_int \<lfloor>q\<rfloor> then showInt \<lfloor>q\<rfloor> else tv_num T q)"
| "canonicalValue T (C_num _) = ''null''"
| "canonicalValue T (C_strs xs) = ''['' @ joinWith '','' (map jsonString xs) @ '']''"

definition canonical :: "tranche_env \<Rightarrow> (string \<times> cvalue) list \<Rightarrow> string" where
  "canonical T kvs = ''{'' @ joinWith '','' (map (\<lambda>(k, v). jsonString k @ '':'' @ canonicalValue T v)
     (sortWith (\<lambda>a b. fst a < fst b) kvs)) @ ''}''"

definition optValue :: "('a \<Rightarrow> cvalue) \<Rightarrow> 'a option \<Rightarrow> cvalue" where
  "optValue f v = (case v of None \<Rightarrow> C_undefined | Some x \<Rightarrow> f x)"

definition intValue :: "int \<Rightarrow> cvalue" where
  "intValue n = C_num (jsInt n)"

definition trancheTermsDigest :: "tranche_env \<Rightarrow> create_payload \<Rightarrow> string" where
  "trancheTermsDigest T p = tv_sha T (canonical T
     [(''description'', C_str (cp_description p)), (''category'', C_str (cp_category p)),
      (''fulfillment'', optValue C_str (cp_fulfillment p)), (''community'', optValue C_str (cp_community p)),
      (''fiatAmount'', optValue (\<lambda>q. C_num (Fin q)) (cp_fiatAmount p)),
      (''fiatCurrency'', optValue C_str (cp_fiatCurrency p)),
      (''premiumBps'', optValue (\<lambda>q. C_num (Fin q)) (cp_premiumBps p)),
      (''paymentMethods'', optValue C_strs (cp_paymentMethods p)), (''mintUrl'', C_str (cp_mintUrl p)),
      (''platformFeeBps'', intValue (cp_platformFeeBps p)), (''platformFeePubkey'', C_str (cp_platformFeePubkey p)),
      (''arbiterFeeMsats'', optValue C_num (cp_arbiterFeeMsats p)), (''expirySeconds'', intValue (cp_expirySeconds p))])"

definition nul :: string where "nul = [char_of (0 :: nat)]"

definition tranchePlanId :: "tranche_env \<Rightarrow> string \<Rightarrow> string \<Rightarrow> string \<Rightarrow> string" where
  "tranchePlanId T parentId termsDigest buyerPubkey =
     tv_sha T (''chama-tranche-plan-v1'' @ nul @ parentId @ nul @ termsDigest @ nul @ buyerPubkey)"

definition trancheChildId :: "tranche_env \<Rightarrow> string \<Rightarrow> string \<Rightarrow> int \<Rightarrow> string + string" where
  "trancheChildId T parentId planId index =
     (if index < 0 then Inl ''Tranche index must be a non-negative integer''
      else Inr (tv_sha T (''chama-tranche-child-v1'' @ nul @ parentId @ nul @ planId @ nul @ showInt index)))"

definition assertChildEscrowId :: "tranche_env \<Rightarrow> string \<Rightarrow> string \<Rightarrow> int \<Rightarrow> string \<Rightarrow> string + string" where
  "assertChildEscrowId T parentId planId index escrowId = (case trancheChildId T parentId planId index of
     Inl e \<Rightarrow> Inl e
   | Inr expected \<Rightarrow> if escrowId \<noteq> expected then Inl ''H3 violation'' else Inr escrowId)"

section \<open>The children of a frozen plan\<close>

text \<open>The tranche of an array index; an index out of the array is missing.\<close>

definition rowAt :: "plan_start \<Rightarrow> int \<Rightarrow> tranche_row option" where
  "rowAt plan index = (if 0 \<le> index \<and> index < int (length (ps_tranches plan))
     then Some (ps_tranches plan ! nat index) else None)"

definition buildChildDescriptor :: "string \<Rightarrow> string \<Rightarrow> plan_start \<Rightarrow> int \<Rightarrow> string + tranche_child" where
  "buildChildDescriptor parentId planStartEventId plan index =
     (if rowAt plan index = None then Inl ''Missing tranche''
      else Inr \<lparr>tc_parent = parentId, tc_planId = ps_planId plan, tc_planStartEventId = planStartEventId,
        tc_index = index, tc_total = ps_total plan, tc_totalMsats = ps_totalMsats plan,
        tc_buyerPubkey = ps_buyerPubkey plan, tc_sellerPubkey = ps_sellerPubkey plan,
        tc_arbiterPubkey = ps_arbiterPubkey plan, tc_termsDigest = ps_termsDigest plan,
        tc_coordinatorPubkey = ps_coordinatorPubkey plan, tc_bitcoinNetwork = ps_bitcoinNetwork plan\<rparr>)"

text \<open>The loop over the descriptor's keys, in their order; \<open>privatePlanChild\<close> is \<open>true\<close> on both sides.\<close>

definition descriptorMismatch :: "tranche_child \<Rightarrow> tranche_child \<Rightarrow> string option" where
  "descriptorMismatch c x = firstFail
     [(tc_parent c \<noteq> tc_parent x, ''child parent does not match parent plan''),
      (tc_planId c \<noteq> tc_planId x, ''child planId does not match parent plan''),
      (tc_planStartEventId c \<noteq> tc_planStartEventId x, ''child planStartEventId does not match parent plan''),
      (tc_index c \<noteq> tc_index x, ''child index does not match parent plan''),
      (tc_total c \<noteq> tc_total x, ''child total does not match parent plan''),
      (tc_totalMsats c \<noteq> tc_totalMsats x, ''child totalMsats does not match parent plan''),
      (tc_buyerPubkey c \<noteq> tc_buyerPubkey x, ''child buyerPubkey does not match parent plan''),
      (tc_sellerPubkey c \<noteq> tc_sellerPubkey x, ''child sellerPubkey does not match parent plan''),
      (tc_arbiterPubkey c \<noteq> tc_arbiterPubkey x, ''child arbiterPubkey does not match parent plan''),
      (tc_termsDigest c \<noteq> tc_termsDigest x, ''child termsDigest does not match parent plan''),
      (tc_coordinatorPubkey c \<noteq> tc_coordinatorPubkey x, ''child coordinatorPubkey does not match parent plan''),
      (tc_bitcoinNetwork c \<noteq> tc_bitcoinNetwork x, ''child bitcoinNetwork does not match parent plan'')]"

definition verifyTrancheChild ::
  "tranche_env \<Rightarrow> string \<Rightarrow> string \<Rightarrow> plan_start \<Rightarrow> string \<Rightarrow> create_payload \<Rightarrow> string + string option" where
  "verifyTrancheChild T parentId planStartEventId plan childId p = (case cp_trancheChild p of
     None \<Rightarrow> Inr (Some ''not a private plan child'')
   | Some c \<Rightarrow>
       if tc_parent c \<noteq> parentId \<or> tc_planStartEventId c \<noteq> planStartEventId \<or> tc_planId c \<noteq> ps_planId plan
       then Inr (Some ''wrong parent plan'')
       else (case trancheChildId T parentId (ps_planId plan) (tc_index c) of
         Inl e \<Rightarrow> Inl e
       | Inr expectedId \<Rightarrow>
           if childId \<noteq> expectedId then Inr (Some ''non-deterministic child id'')
           else (case buildChildDescriptor parentId planStartEventId plan (tc_index c) of
             Inl e \<Rightarrow> Inl e
           | Inr expected \<Rightarrow> (case descriptorMismatch c expected of
               Some m \<Rightarrow> Inr (Some m)
             | None \<Rightarrow>
                 if map_option td_amountMsats (rowAt plan (tc_index c)) \<noteq> Some (cp_amountMsats p)
                 then Inr (Some ''wrong child amount'')
                 else if trancheTermsDigest T p \<noteq> ps_termsDigest plan
                 then Inr (Some ''child commercial terms changed'') else Inr None))))"

definition isPrivatePlanChild :: "create_payload \<Rightarrow> bool" where
  "isPrivatePlanChild p \<longleftrightarrow> cp_trancheChild p \<noteq> None"

record plan_row =
  pr_id :: string
  pr_index :: int
  pr_amountMsats :: int
  pr_status :: status
  pr_valid :: bool
  pr_error :: "string option"

datatype plan_action = PUBLISH_MISSING | FUND_ACTIVE | SETTLE_ACTIVE | PLAN_COMPLETE | REPAIR_PLAN

record plan_state =
  pt_children :: "plan_row list"
  pt_settledCount :: int
  pt_outstandingMsats :: int
  pt_activeChildId :: "string option"
  pt_stopped :: "int option"
  pt_nextSafeAction :: plan_action

text \<open>\<open>new Map(...)\<close>: the last child of an index.\<close>

definition childAt :: "plan_start \<Rightarrow> state list \<Rightarrow> int \<Rightarrow> state option" where
  "childAt plan children index = List.find (\<lambda>c. case st_trancheChild c of None \<Rightarrow> False
     | Some d \<Rightarrow> tc_planId d = ps_planId plan \<and> tc_index d = index) (rev children)"

definition createOf :: "state \<Rightarrow> create_payload option" where
  "createOf s = (case List.find (\<lambda>e. ev_kind e = K_CREATE) (st_eventChain s) of
     None \<Rightarrow> None | Some e \<Rightarrow> (case ev_payload e of PCreate p \<Rightarrow> Some p | _ \<Rightarrow> None))"

definition childError :: "tranche_env \<Rightarrow> state \<Rightarrow> plan_start \<Rightarrow> string \<Rightarrow> state \<Rightarrow> string + string option" where
  "childError T parent plan eventId child = (case createOf child of
     None \<Rightarrow> Inr (Some ''missing child CREATE'')
   | Some p \<Rightarrow> verifyTrancheChild T (st_id parent) eventId plan (st_id child) p)"

definition exactParticipants :: "plan_start \<Rightarrow> state \<Rightarrow> bool" where
  "exactParticipants plan child \<longleftrightarrow> st_participants child BUYER = Some (ps_buyerPubkey plan)
     \<and> st_participants child SELLER = Some (ps_sellerPubkey plan)
     \<and> st_participants child ARBITER = Some (ps_arbiterPubkey plan)"

definition planRow :: "tranche_env \<Rightarrow> state \<Rightarrow> plan_start \<Rightarrow> string \<Rightarrow> state list \<Rightarrow> tranche_row \<Rightarrow> string + plan_row" where
  "planRow T parent plan eventId children r = (case childAt plan children (td_index r) of
     None \<Rightarrow> (case trancheChildId T (st_id parent) (ps_planId plan) (td_index r) of
         Inl e \<Rightarrow> Inl e
       | Inr i \<Rightarrow> Inr \<lparr>pr_id = i, pr_index = td_index r, pr_amountMsats = td_amountMsats r, pr_status = CREATED,
           pr_valid = False, pr_error = Some ''missing child''\<rparr>)
   | Some c \<Rightarrow> (case childError T parent plan eventId c of
         Inl e \<Rightarrow> Inl e
       | Inr err \<Rightarrow> (let ok = (err = None \<and> exactParticipants plan c) in
           Inr \<lparr>pr_id = st_id c, pr_index = td_index r, pr_amountMsats = td_amountMsats r, pr_status = st_status c,
             pr_valid = ok,
             pr_error = (if ok then None else Some (getOr err ''child participants do not match frozen plan''))\<rparr>)))"

text \<open>What one row does to the running totals: a missing child leaves them alone, the first
  invalid one stops the plan, and a valid COMPLETED child counts in sequence only.\<close>

record plan_tally =
  ta_settled :: int
  ta_outstanding :: int
  ta_stopped :: "int option"

definition tallyRow :: "plan_tally \<Rightarrow> plan_row \<Rightarrow> plan_tally" where
  "tallyRow t r = (if pr_error r = Some ''missing child'' then t
     else let t' = (if \<not> pr_valid r \<and> ta_stopped t = None then t\<lparr>ta_stopped := Some (pr_index r + 1)\<rparr> else t)
       in if pr_valid r \<and> pr_status r = COMPLETED \<and> pr_index r = ta_settled t'
          then t'\<lparr>ta_settled := ta_settled t' + 1, ta_outstanding := ta_outstanding t' - pr_amountMsats r\<rparr> else t')"

fun mapSum :: "('a \<Rightarrow> 'e + 'b) \<Rightarrow> 'a list \<Rightarrow> 'e + 'b list" where
  "mapSum f [] = Inr []"
| "mapSum f (x # xs) = (case f x of Inl e \<Rightarrow> Inl e
     | Inr y \<Rightarrow> (case mapSum f xs of Inl e \<Rightarrow> Inl e | Inr ys \<Rightarrow> Inr (y # ys)))"

definition activeRow :: "plan_tally \<Rightarrow> plan_row list \<Rightarrow> plan_row option" where
  "activeRow t rows = (if ta_stopped t \<noteq> None then None
     else List.find (\<lambda>r. pr_index r = ta_settled t \<and> pr_valid r) rows)"

definition planAction :: "plan_start \<Rightarrow> plan_tally \<Rightarrow> plan_row list \<Rightarrow> plan_action" where
  "planAction plan t rows = (if ta_stopped t \<noteq> None then REPAIR_PLAN
     else if list_ex (\<lambda>r. pr_error r = Some ''missing child'') rows then PUBLISH_MISSING
     else if ta_settled t = ps_total plan then PLAN_COMPLETE
     else if map_option pr_status (activeRow t rows) = Some CREATED then FUND_ACTIVE else SETTLE_ACTIVE)"

definition derivePlanState :: "tranche_env \<Rightarrow> state \<Rightarrow> state list \<Rightarrow> string + plan_state option" where
  "derivePlanState T parent children = (case st_tranchePlan parent of
     None \<Rightarrow> Inr None
   | Some (plan, eventId) \<Rightarrow> (case mapSum (planRow T parent plan eventId children) (ps_tranches plan) of
       Inl e \<Rightarrow> Inl e
     | Inr rows \<Rightarrow>
         (let t = foldl tallyRow \<lparr>ta_settled = 0, ta_outstanding = ps_totalMsats plan, ta_stopped = None\<rparr> rows in
          Inr (Some \<lparr>pt_children = rows, pt_settledCount = ta_settled t, pt_outstandingMsats = ta_outstanding t,
            pt_activeChildId = map_option pr_id (activeRow t rows), pt_stopped = ta_stopped t,
            pt_nextSafeAction = planAction plan t rows\<rparr>))))"

definition canFundTranche :: "tranche_env \<Rightarrow> state \<Rightarrow> state list \<Rightarrow> string \<Rightarrow> string + bool" where
  "canFundTranche T parent children childId = map_sum id (\<lambda>ps. case ps of None \<Rightarrow> False
     | Some p \<Rightarrow> pt_activeChildId p = Some childId \<and> pt_nextSafeAction p = FUND_ACTIVE) (derivePlanState T parent children)"

definition networkMatches :: "network \<Rightarrow> network \<Rightarrow> bool" where
  "networkMatches parentNetwork childNetwork \<longleftrightarrow> parentNetwork = childNetwork"

end
