(* ===== verification/Slice_Funding.thy ===== *)
theory Slice_Funding
  imports Tranche_Plan
begin

text \<open>
  The driver that funds the children of a frozen plan in order
  (\<open>src/payments/slice-funding-loop.ts\<close>). Its dependencies are the record \<open>slice_deps\<close>: what the
  \<open>k\<close>-th look at the plan finds (the total and the derived state, no plan, or a throw), what the
  \<open>k\<close>-th funding answers, and the abort signal. The loop may run for ever; it returns its result
  with the rows it funded. Progress callbacks and error texts are left out.
\<close>

datatype child_terminal = CT_LOCKED | CT_ABORTED | CT_LOCK_FAILED | CT_ENDED | CT_THREW

datatype slice_stop = SS_COMPLETE | SS_AWAITING_SETTLEMENT | SS_PUBLISH_MISSING | SS_REPAIR_PLAN | SS_NO_PLAN | SS_FUND_FAILED | SS_ABORTED

record slice_result =
  sr_stop :: slice_stop
  sr_fundedThisRun :: nat
  sr_settledCount :: int
  sr_total :: int
  sr_activeChildId :: "string option"

record slice_deps =
  sd_getPlanState :: "nat \<Rightarrow> string + (int \<times> plan_state) option"
  sd_fundChild :: "nat \<Rightarrow> string \<Rightarrow> child_terminal"
  sd_aborted :: "nat \<Rightarrow> bool"

definition stoppedAt :: "slice_stop \<Rightarrow> nat \<Rightarrow> int \<Rightarrow> plan_state \<Rightarrow> string option \<Rightarrow> slice_result" where
  "stoppedAt why funded tot ps active = \<lparr>sr_stop = why, sr_fundedThisRun = funded,
     sr_settledCount = pt_settledCount ps, sr_total = tot, sr_activeChildId = active\<rparr>"

definition stoppedBlind :: "slice_stop \<Rightarrow> nat \<Rightarrow> slice_result" where
  "stoppedBlind why funded = \<lparr>sr_stop = why, sr_fundedThisRun = funded, sr_settledCount = 0, sr_total = 0, sr_activeChildId = None\<rparr>"

text \<open>One look at the plan: a stop, or the row to fund. \<open>last\<close> is the child just funded.\<close>

definition sliceTurn :: "string option \<Rightarrow> nat \<Rightarrow> int \<Rightarrow> plan_state \<Rightarrow> slice_result + plan_row" where
  "sliceTurn lastFunded funded tot ps = (let active = pt_activeChildId ps in
     case pt_nextSafeAction ps of
       PLAN_COMPLETE \<Rightarrow> Inl (stoppedAt SS_COMPLETE funded tot ps None)
     | REPAIR_PLAN \<Rightarrow> Inl (stoppedAt SS_REPAIR_PLAN funded tot ps None)
     | PUBLISH_MISSING \<Rightarrow> Inl (stoppedAt SS_PUBLISH_MISSING funded tot ps active)
     | SETTLE_ACTIVE \<Rightarrow> Inl (stoppedAt SS_AWAITING_SETTLEMENT funded tot ps active)
     | FUND_ACTIVE \<Rightarrow> (case List.find (\<lambda>c. Some (pr_id c) = active \<and> pr_valid c) (pt_children ps) of
           None \<Rightarrow> Inl (stoppedAt SS_REPAIR_PLAN funded tot ps active)
         | Some row \<Rightarrow> if Some (pr_id row) = lastFunded
             then Inl (stoppedAt SS_AWAITING_SETTLEMENT funded tot ps active) else Inr row))"

text \<open>What an answer to the funding means; \<open>None\<close> is going round again.\<close>

definition sliceAnswer :: "child_terminal \<Rightarrow> nat \<Rightarrow> int \<Rightarrow> plan_state \<Rightarrow> slice_result option" where
  "sliceAnswer t funded tot ps = (case t of
     CT_LOCKED \<Rightarrow> None
   | CT_ABORTED \<Rightarrow> Some (stoppedAt SS_ABORTED funded tot ps (pt_activeChildId ps))
   | _ \<Rightarrow> Some (stoppedAt SS_FUND_FAILED funded tot ps (pt_activeChildId ps)))"

partial_function (option) sliceLoop ::
  "slice_deps \<Rightarrow> string option \<Rightarrow> nat \<Rightarrow> plan_row list \<Rightarrow> nat \<Rightarrow> ((string + slice_result) \<times> plan_row list) option"
where
  "sliceLoop D lastFunded funded calls i =
     (if sd_aborted D i then Some (Inr (stoppedBlind SS_ABORTED funded), calls)
      else case sd_getPlanState D i of
        Inl e \<Rightarrow> Some (Inl e, calls)
      | Inr None \<Rightarrow> Some (Inr (stoppedBlind SS_NO_PLAN funded), calls)
      | Inr (Some (tot, ps)) \<Rightarrow> (case sliceTurn lastFunded funded tot ps of
          Inl r \<Rightarrow> Some (Inr r, calls)
        | Inr row \<Rightarrow> (case sliceAnswer (sd_fundChild D i (pr_id row)) funded tot ps of
            Some r \<Rightarrow> Some (Inr r, calls @ [row])
          | None \<Rightarrow> sliceLoop D (Some (pr_id row)) (funded + 1) (calls @ [row]) (Suc i))))"

declare sliceLoop.simps [code]

definition runSliceFundingLoop :: "slice_deps \<Rightarrow> ((string + slice_result) \<times> plan_row list) option" where
  "runSliceFundingLoop D = sliceLoop D None 0 [] 0"

end
