(* ===== verification/Plan_Properties.thy ===== *)
theory Plan_Properties
  imports Tranche_Plan Worked_Trade
begin

text \<open>
  The frozen plan of a parent trade and its children: what a reached parent and its reached
  children guarantee of the derived plan state, and the order in which children are funded.
\<close>

section \<open>The frozen plan and the descriptor of a reached trade\<close>

definition plansOk :: "state \<Rightarrow> bool" where
  "plansOk s \<longleftrightarrow> (\<forall>plan i. st_tranchePlan s = Some (plan, i) \<longrightarrow> validatePlanStart plan = None)
     \<and> (\<exists>e es p. st_eventChain s = e # es \<and> ev_payload e = PCreate p \<and> st_trancheChild s = cp_trancheChild p)"

lemma handleJoin_plans:
  assumes "handleJoin E s e p = Inr s'"
  shows "st_tranchePlan s' = st_tranchePlan s \<and> st_trancheChild s' = st_trancheChild s"
  using handleJoin_Inr [OF assms]
  by (auto dest!: freezeTerms_Inr updateOrder_Inr takeSeat_Inr simp: seatedState_def Let_def)

lemma votedState_plans:
  "st_tranchePlan (votedState s e p r) = st_tranchePlan s" "st_trancheChild (votedState s e p r) = st_trancheChild s"
  by (auto simp: votedState_def Let_def split: option.splits)

lemma dispatch_plans:
  assumes "dispatch E s e = Inr s'"
  shows "st_trancheChild s' = st_trancheChild s
    \<and> (st_tranchePlan s' = st_tranchePlan s \<or> (\<exists>p. st_tranchePlan s' = Some (p, ev_id e) \<and> validatePlanStart p = None))"
proof (cases "ev_payload e")
  case (PVote p)
  with assms show ?thesis by (auto simp: dispatch_simps votedState_plans dest!: handleVote_facts(5))
next
  case (PComplete t)
  with assms show ?thesis by (auto simp: dispatch_simps completedState_def Let_def dest!: handleComplete_Inr)
next
  case (PJoin p)
  with assms show ?thesis using handleJoin_plans by (simp add: dispatch_simps)
qed (use assms in \<open>auto simp: dispatch_def ev_kind_def handleCancel_Inr handleSubscribe_Inr handleChat_Inr
    stalledState_def Let_def handleLock_Inr lockedState_def elim!: handleResolve_Inr handleClaim_Inr handleSettlementStalled_Inr
    handlePeriodRelease_Inr dest!: handleChildKey_Inr handlePlanStart_Inr handleLockStep_only_lock\<close>)

lemma plansOk_dispatch:
  assumes "plansOk s" "dispatch E s e = Inr s'"
  shows "plansOk s'"
proof -
  from switching.chain [OF assms(2)] have "st_eventChain s' = st_eventChain s \<or> st_eventChain s' = st_eventChain s @ [e]"
    by auto
  with assms(1) dispatch_plans [OF assms(2)] show ?thesis by (fastforce simp: plansOk_def)
qed

lemma plansOk_create: "ev_payload e = PCreate p \<Longrightarrow> handleCreate sha e p = Inr s \<Longrightarrow> plansOk s"
  by (auto simp: handleCreate_Inr plansOk_def createdState_def Let_def)

interpretation plans: reducer_invariant E plansOk for E
  by unfold_locales (simp_all add: plansOk_create plansOk_dispatch, simp_all add: plansOk_def expire_def)

lemma reachable_createOf:
  assumes "reachable E s"
  obtains p where "createOf s = Some p" "st_trancheChild s = cp_trancheChild p"
  using plans.always [OF assms] by (auto simp: plansOk_def createOf_def ev_kind_def)

lemma reachable_plan: "reachable E s \<Longrightarrow> st_tranchePlan s = Some (plan, i) \<Longrightarrow> validatePlanStart plan = None"
  using plans.always [of E s] by (simp add: plansOk_def)

section \<open>The rows of a plan and their tally\<close>

lemma validPlan_facts:
  assumes "validatePlanStart plan = None"
  shows "map td_index (ps_tranches plan) = map int [0..<length (ps_tranches plan)]"
    "int (length (ps_tranches plan)) = ps_total plan" "ps_totalMsats plan = (\<Sum>r\<leftarrow>ps_tranches plan. td_amountMsats r)"
    "\<forall>r\<in>set (ps_tranches plan). 0 < td_amountMsats r"
proof -
  from assms have "int (length (ps_tranches plan)) = ps_total plan
      \<and> planRows (ps_sliceCapMsats plan) 0 0 (ps_tranches plan) = Inr (ps_totalMsats plan)"
    by (auto simp: validatePlanStart_def split: option.splits sum.splits if_splits)
  then show "map td_index (ps_tranches plan) = map int [0..<length (ps_tranches plan)]"
    "int (length (ps_tranches plan)) = ps_total plan" "ps_totalMsats plan = (\<Sum>r\<leftarrow>ps_tranches plan. td_amountMsats r)"
    "\<forall>r\<in>set (ps_tranches plan). 0 < td_amountMsats r"
    by (auto dest!: planRows_sum)
qed

lemma mapSum_Inr: "mapSum f xs = Inr ys \<Longrightarrow> list_all2 (\<lambda>x y. f x = Inr y) xs ys"
  by (induction xs arbitrary: ys) (auto split: sum.splits)

lemma planRow_facts:
  assumes "planRow T parent plan i children r = Inr row"
  shows "pr_index row = td_index r \<and> pr_amountMsats row = td_amountMsats r
    \<and> (pr_valid row \<longrightarrow> pr_error row = None \<and> (\<exists>c. childAt plan children (td_index r) = Some c \<and> st_id c = pr_id row
          \<and> st_status c = pr_status row \<and> childError T parent plan i c = Inr None \<and> exactParticipants plan c))"
  using assms by (auto simp: planRow_def Let_def split: option.splits sum.splits if_splits)

lemma tally_facts:
  assumes "t = foldl tallyRow \<lparr>ta_settled = 0, ta_outstanding = tot, ta_stopped = None\<rparr> rows"
    "map pr_index rows = map int [0..<length rows]" "\<forall>r\<in>set rows. pr_valid r \<longrightarrow> pr_error r = None"
  shows "0 \<le> ta_settled t \<and> ta_settled t \<le> int (length rows)
    \<and> (\<forall>r\<in>set (take (nat (ta_settled t)) rows). pr_valid r \<and> pr_status r = COMPLETED)
    \<and> ta_outstanding t = tot - (\<Sum>r\<leftarrow>take (nat (ta_settled t)) rows. pr_amountMsats r)
    \<and> (ta_stopped t = None \<longrightarrow> (\<forall>r\<in>set rows. pr_valid r \<or> pr_error r = Some ''missing child''))"
  using assms
proof (induction rows arbitrary: t rule: rev_induct)
  case (snoc r rows)
  define u where "u = foldl tallyRow \<lparr>ta_settled = 0, ta_outstanding = tot, ta_stopped = None\<rparr> rows"
  have i: "map pr_index rows = map int [0..<length rows]" "pr_index r = int (length rows)" using snoc.prems(2) by simp_all
  from snoc.IH [OF u_def i(1)] snoc.prems(3)
  have u: "0 \<le> ta_settled u" "ta_settled u \<le> int (length rows)"
    "\<forall>r\<in>set (take (nat (ta_settled u)) rows). pr_valid r \<and> pr_status r = COMPLETED"
    "ta_outstanding u = tot - (\<Sum>r\<leftarrow>take (nat (ta_settled u)) rows. pr_amountMsats r)"
    "ta_stopped u = None \<longrightarrow> (\<forall>r\<in>set rows. pr_valid r \<or> pr_error r = Some ''missing child'')" by auto
  have t: "t = tallyRow u r" using snoc.prems(1) by (simp add: u_def)
  have k: "nat (ta_settled u) \<le> length rows" using u(2) by simp
  have st: "ta_stopped t = None \<longrightarrow> ta_stopped u = None \<and> (pr_valid r \<or> pr_error r = Some ''missing child'')"
    by (auto simp: t tallyRow_def Let_def split: if_splits)
  show ?case
  proof (cases "pr_valid r \<and> pr_status r = COMPLETED \<and> pr_index r = ta_settled u")
    case True
    then have "ta_settled t = ta_settled u + 1" "ta_outstanding t = ta_outstanding u - pr_amountMsats r"
      "nat (ta_settled u) = length rows"
      using snoc.prems(3) i(2) by (auto simp: t tallyRow_def Let_def)
    with True u st show ?thesis by (auto simp: nat_add_distrib)
  next
    case False
    then have "ta_settled t = ta_settled u" "ta_outstanding t = ta_outstanding u"
      by (auto simp: t tallyRow_def Let_def split: if_splits)
    with u st k show ?thesis by auto
  qed
qed simp

text \<open>What a derived plan state says of its rows and of the children behind them.\<close>

lemma derivePlanState_facts:
  assumes "derivePlanState T parent children = Inr (Some ps)" "st_tranchePlan parent = Some (plan, i)"
    "validatePlanStart plan = None"
  defines "rows \<equiv> pt_children ps" and "k \<equiv> nat (pt_settledCount ps)"
  shows "length rows = length (ps_tranches plan)" "map pr_index rows = map int [0..<length rows]"
    "map pr_amountMsats rows = map td_amountMsats (ps_tranches plan)"
    "list_all2 (\<lambda>r row. planRow T parent plan i children r = Inr row) (ps_tranches plan) rows"
    "0 \<le> pt_settledCount ps" "k \<le> length rows" "\<forall>r\<in>set (take k rows). pr_valid r \<and> pr_status r = COMPLETED"
    "pt_outstandingMsats ps = (\<Sum>r\<leftarrow>drop k rows. pr_amountMsats r)"
    "pt_stopped ps = None \<longrightarrow> (\<forall>r\<in>set rows. pr_valid r \<or> pr_error r = Some ''missing child'')"
proof -
  define t where "t = foldl tallyRow \<lparr>ta_settled = 0, ta_outstanding = ps_totalMsats plan, ta_stopped = None\<rparr> rows"
  from assms(1,2) have m: "mapSum (planRow T parent plan i children) (ps_tranches plan) = Inr rows"
    and ps: "pt_settledCount ps = ta_settled t" "pt_outstandingMsats ps = ta_outstanding t" "pt_stopped ps = ta_stopped t"
    by (auto simp: derivePlanState_def Let_def rows_def t_def split: sum.splits)
  note v = validPlan_facts [OF assms(3)]
  show l: "list_all2 (\<lambda>r row. planRow T parent plan i children r = Inr row) (ps_tranches plan) rows"
    by (rule mapSum_Inr [OF m])
  then show n: "length rows = length (ps_tranches plan)" by (simp add: list_all2_lengthD)
  from l have "map pr_index rows = map td_index (ps_tranches plan) \<and> map pr_amountMsats rows = map td_amountMsats (ps_tranches plan)
      \<and> (\<forall>r\<in>set rows. pr_valid r \<longrightarrow> pr_error r = None)"
    by (induction rule: list_all2_induct) (auto dest!: planRow_facts)
  then have a: "map pr_index rows = map int [0..<length rows]" "map pr_amountMsats rows = map td_amountMsats (ps_tranches plan)"
    "\<forall>r\<in>set rows. pr_valid r \<longrightarrow> pr_error r = None" using v(1) n by simp_all
  then show "map pr_index rows = map int [0..<length rows]" "map pr_amountMsats rows = map td_amountMsats (ps_tranches plan)"
    by simp_all
  note f = tally_facts [OF t_def a(1,3)]
  then show "0 \<le> pt_settledCount ps" "k \<le> length rows" "\<forall>r\<in>set (take k rows). pr_valid r \<and> pr_status r = COMPLETED"
    "pt_stopped ps = None \<longrightarrow> (\<forall>r\<in>set rows. pr_valid r \<or> pr_error r = Some ''missing child'')"
    by (auto simp: ps k_def)
  have "ps_totalMsats plan = (\<Sum>r\<leftarrow>take k rows. pr_amountMsats r) + (\<Sum>r\<leftarrow>drop k rows. pr_amountMsats r)"
    unfolding v(3) a(2) [symmetric] by (metis append_take_drop_id map_append sum_list.append)
  with f show "pt_outstandingMsats ps = (\<Sum>r\<leftarrow>drop k rows. pr_amountMsats r)" by (simp add: ps k_def)
qed

section \<open>Children of a frozen plan\<close>

text \<open>What makes a state the child of row \<open>j\<close> of a plan frozen by the event \<open>i\<close> of \<open>parent\<close>.\<close>

definition planChild :: "tranche_env \<Rightarrow> state \<Rightarrow> plan_start \<Rightarrow> string \<Rightarrow> nat \<Rightarrow> state \<Rightarrow> bool" where
  "planChild T parent plan i j c \<longleftrightarrow> trancheChildId T (st_id parent) (ps_planId plan) (int j) = Inr (st_id c)
     \<and> exactParticipants plan c
     \<and> (\<exists>p d. createOf c = Some p \<and> cp_trancheChild p = Some d
         \<and> buildChildDescriptor (st_id parent) i plan (int j) = Inr d
         \<and> cp_amountMsats p = td_amountMsats (ps_tranches plan ! j) \<and> trancheTermsDigest T p = ps_termsDigest plan)"

lemma descriptorMismatch_None: "descriptorMismatch c x = None \<Longrightarrow> c = x"
  by (cases c, cases x) (simp add: descriptorMismatch_def split: if_splits)

lemma verifyTrancheChild_accepts:
  assumes "verifyTrancheChild T pid i plan cid p = Inr None"
  shows "\<exists>d. cp_trancheChild p = Some d \<and> trancheChildId T pid (ps_planId plan) (tc_index d) = Inr cid
    \<and> buildChildDescriptor pid i plan (tc_index d) = Inr d
    \<and> map_option td_amountMsats (rowAt plan (tc_index d)) = Some (cp_amountMsats p)
    \<and> trancheTermsDigest T p = ps_termsDigest plan"
  using assms by (auto simp: verifyTrancheChild_def split: option.splits if_splits sum.splits dest!: descriptorMismatch_None)

lemma childAt_Some:
  assumes "childAt plan children k = Some c"
  shows "c \<in> set children \<and> (\<exists>d. st_trancheChild c = Some d \<and> tc_index d = k)"
  using find_Some_in [OF assms [unfolded childAt_def]] by (auto split: option.splits)

lemma valid_row_child:
  assumes "planRow T parent plan i children r = Inr row" "pr_valid row" "td_index r = int j"
    "j < length (ps_tranches plan)" "\<forall>c\<in>set children. reachable E c"
  shows "\<exists>c\<in>set children. planChild T parent plan i j c \<and> st_id c = pr_id row \<and> st_status c = pr_status row"
proof -
  from planRow_facts [OF assms(1)] assms(2,3) obtain c where c: "childAt plan children (int j) = Some c" "st_id c = pr_id row"
    "st_status c = pr_status row" "childError T parent plan i c = Inr None" "exactParticipants plan c" by auto
  from childAt_Some [OF c(1)] obtain d where d: "c \<in> set children" "st_trancheChild c = Some d" "tc_index d = int j" by blast
  with assms(5) obtain p where p: "createOf c = Some p" "st_trancheChild c = cp_trancheChild p"
    using reachable_createOf by metis
  with c(4) have "verifyTrancheChild T (st_id parent) i plan (st_id c) p = Inr None" by (simp add: childError_def)
  from verifyTrancheChild_accepts [OF this] p d assms(4) c(5) have "planChild T parent plan i j c"
    by (auto simp: planChild_def rowAt_def)
  with d(1) c show ?thesis by blast
qed

text \<open>A reached parent's plan state is exact: the settled count is a prefix of the rows, each valid
  and COMPLETED; what is outstanding is the sum of the rest, never negative, and it is zero
  exactly when the prefix is the whole plan; a plan reported complete owes nothing.\<close>

theorem plan_owes_the_unsettled_rest:
  assumes "reachable E parent" "derivePlanState T parent children = Inr (Some ps)"
  shows "0 \<le> pt_settledCount ps \<and> pt_settledCount ps \<le> int (length (pt_children ps))
    \<and> (\<forall>r\<in>set (take (nat (pt_settledCount ps)) (pt_children ps)). pr_valid r \<and> pr_status r = COMPLETED)
    \<and> pt_outstandingMsats ps = (\<Sum>r\<leftarrow>drop (nat (pt_settledCount ps)) (pt_children ps). pr_amountMsats r)
    \<and> 0 \<le> pt_outstandingMsats ps
    \<and> (pt_outstandingMsats ps = 0) = (pt_settledCount ps = int (length (pt_children ps)))
    \<and> (pt_nextSafeAction ps \<noteq> PLAN_COMPLETE \<or> pt_outstandingMsats ps = 0)"
proof -
  from assms(2) obtain plan i where f: "st_tranchePlan parent = Some (plan, i)"
    by (auto simp: derivePlanState_def split: option.splits)
  note v = reachable_plan [OF assms(1) f]
  note d = derivePlanState_facts [OF assms(2) f v]
  define rest where "rest = map pr_amountMsats (drop (nat (pt_settledCount ps)) (pt_children ps))"
  have "rest = drop (nat (pt_settledCount ps)) (map td_amountMsats (ps_tranches plan))"
    unfolding rest_def d(3) [symmetric] by (rule drop_map [symmetric])
  then have p: "\<forall>x\<in>set rest. 0 < x" using validPlan_facts(4) [OF v] by (auto dest!: in_set_dropD)
  then have nn: "0 \<le> sum_list rest" by (simp add: less_imp_le sum_list_nonneg)
  have z: "(sum_list rest = 0) = (rest = [])"
    using p nn by (cases rest) (auto, smt (verit) less_imp_le sum_list_nonneg)
  have l: "(rest = []) = (pt_settledCount ps = int (length (pt_children ps)))" using d(5,6) by (auto simp: rest_def)
  have o: "pt_outstandingMsats ps = sum_list rest" using d(8) by (simp add: rest_def)
  have "pt_settledCount ps = int (length (pt_children ps))" if "pt_nextSafeAction ps = PLAN_COMPLETE"
    using that assms(2) f d(1) validPlan_facts(2) [OF v]
    by (auto simp: derivePlanState_def planAction_def Let_def split: sum.splits if_splits)
  with z l o have "pt_nextSafeAction ps \<noteq> PLAN_COMPLETE \<or> pt_outstandingMsats ps = 0" by auto
  with d(5-8) nn z l o show ?thesis by auto
qed

text \<open>C37. A child is funded only in its turn: when the plan of a reached parent lets an escrow be
  funded, that escrow is the CREATED child of some row, every row has its own deterministic child
  with the frozen descriptor, participants, amount and terms, and all earlier ones are COMPLETED.\<close>

theorem children_are_funded_in_turn:
  assumes "reachable E parent" "\<forall>c\<in>set children. reachable E c" "canFundTranche T parent children cid = Inr True"
  shows "\<exists>plan i k. st_tranchePlan parent = Some (plan, i) \<and> k < length (ps_tranches plan)
    \<and> (\<forall>j<length (ps_tranches plan). \<exists>c\<in>set children. planChild T parent plan i j c)
    \<and> (\<forall>j<k. \<exists>c\<in>set children. planChild T parent plan i j c \<and> st_status c = COMPLETED)
    \<and> (\<exists>c\<in>set children. planChild T parent plan i k c \<and> st_id c = cid \<and> st_status c = CREATED)"
proof -
  from assms(3) obtain ps where ps: "derivePlanState T parent children = Inr (Some ps)"
    "pt_activeChildId ps = Some cid" "pt_nextSafeAction ps = FUND_ACTIVE"
    by (cases "derivePlanState T parent children") (auto simp: canFundTranche_def split: option.splits)
  then obtain plan i where f: "st_tranchePlan parent = Some (plan, i)"
    by (auto simp: derivePlanState_def split: option.splits)
  note v = reachable_plan [OF assms(1) f]
  note d = derivePlanState_facts [OF ps(1) f v]
  let ?rows = "pt_children ps" and ?k = "nat (pt_settledCount ps)"
  from ps f have a: "pt_stopped ps = None" "\<not> list_ex (\<lambda>r. pr_error r = Some ''missing child'') ?rows"
    "\<exists>row. List.find (\<lambda>r. pr_index r = pt_settledCount ps \<and> pr_valid r) ?rows = Some row \<and> pr_id row = cid \<and> pr_status row = CREATED"
    by (auto simp: derivePlanState_def planAction_def activeRow_def Let_def split: sum.splits if_splits)
  from a(3) obtain row where row: "row \<in> set ?rows" "pr_index row = int ?k" "pr_valid row" "pr_id row = cid" "pr_status row = CREATED"
    using find_Some_in d(5) by fastforce
  have ix: "pr_index (?rows ! j) = int j" if "j < length ?rows" for j
    using that d(2) by (metis (no_types, lifting) add_0 diff_zero length_upt nth_map nth_upt)
  from row(1) obtain n where n: "n < length ?rows" "?rows ! n = row" by (auto simp: in_set_conv_nth)
  with ix [OF n(1)] row(2) have "n = ?k" by (simp only: of_nat_eq_iff)
  with n have k: "?k < length ?rows" "?rows ! ?k = row" by simp_all
  have child: "\<exists>c\<in>set children. planChild T parent plan i j c \<and> st_id c = pr_id (?rows ! j) \<and> st_status c = pr_status (?rows ! j)"
    if "j < length ?rows" for j
  proof (rule valid_row_child [OF list_all2_nthD2 [OF d(4) that]])
    show "pr_valid (?rows ! j)" using nth_mem [OF that] d(9) a(1,2) by (auto simp: list_ex_iff)
    show "td_index (ps_tranches plan ! j) = int j"
      using ix [OF that] planRow_facts [OF list_all2_nthD2 [OF d(4) that]] by simp
  qed (use that d(1) assms(2) in auto)
  have settled: "pr_status (?rows ! j) = COMPLETED" if "j < ?k" for j
  proof -
    have "?rows ! j \<in> set (take ?k ?rows)" using that k(1) by (auto simp: in_set_conv_nth)
    with d(7) show ?thesis by blast
  qed
  have "\<exists>c\<in>set children. planChild T parent plan i j c \<and> st_status c = COMPLETED" if "j < ?k" for j
    using child [of j] settled [OF that] that k(1) by fastforce
  moreover have "\<exists>c\<in>set children. planChild T parent plan i ?k c \<and> st_id c = cid \<and> st_status c = CREATED"
    using child [OF k(1)] k(2) row(4,5) by fastforce
  moreover have "\<exists>c\<in>set children. planChild T parent plan i j c" if "j < length (ps_tranches plan)" for j
    using child [of j] that d(1) by fastforce
  ultimately show ?thesis using f k(1) d(1) by metis
qed

text \<open>A plan of two slices, frozen on a worked trade, and its two published children.\<close>

definition wKey :: "char \<Rightarrow> string" where "wKey c = replicate 64 c"

definition wTranches :: tranche_env where
  "wTranches = \<lparr>tv_sha = (\<lambda>s. wKey (if isHexChar (last s) then last s else CHR ''f'')), tv_num = (\<lambda>_. [])\<rparr>"

definition wPlan :: plan_start where
  "wPlan = \<lparr>ps_planId = wKey CHR ''f'', ps_total = 2, ps_totalMsats = 3000, ps_buyerPubkey = wKey CHR ''b'',
     ps_sellerPubkey = wKey CHR ''c'', ps_arbiterPubkey = wKey CHR ''a'', ps_termsDigest = wKey CHR ''f'',
     ps_coordinatorPubkey = wKey CHR ''c'', ps_bitcoinNetwork = MAINNET, ps_settlementPolicy = None,
     ps_sliceCount = None, ps_sliceCapMsats = None,
     ps_tranches = [\<lparr>td_index = 0, td_amountMsats = 2000\<rparr>, \<lparr>td_index = 1, td_amountMsats = 1000\<rparr>],
     ps_startedAt = 1020\<rparr>"


definition wBase :: create_payload where
  "wBase = (plainCreate ''sats'' ''p2p-trade'' 3000 ''mint'' ''P'' 1000 1000)\<lparr>cp_communityArbiters := Some [wKey CHR ''a'']\<rparr>"

definition wParent0 :: event where "wParent0 = mkEvent ''e0'' (wKey CHR ''c'') 1000 None (PCreate wBase)"
definition wParent1 :: event where
   "wParent1 =  mkEvent ''e1'' (wKey CHR ''b'') 1010 (Some ''e0'') (PJoin \<lparr>jp_fundingTerms = None, jp_role = BUYER,
       jp_escrowXonly = None, jp_arbiterFeeMsats = None, jp_joinedAt = 1010, jp_holdExpiresAt = None,
       jp_selectedItems = None, jp_amountMsats = None, jp_orderFinalizedAt = None\<rparr>)"
definition wParent2 :: event where
   "wParent2 = mkEvent ''plan'' (wKey CHR ''c'') 1020 (Some ''e1'') (PPlanStart wPlan)"

lemma wKey_simps [simp]: "wKey a = wKey b \<longleftrightarrow> a = b" "hex64 (wKey a) = isHexChar a" "wKey a \<noteq> []" "lower (wKey a) = wKey (lowerChar a)"
  by (simp_all add: wKey_def hex64_def list_all_iff lower_def map_replicate del: replicate.simps)

lemma p0: "applyEvent plainEnv None wParent0 = Inr (createdState wParent0 wBase)"
  by (simp add: applyEvent_None handleCreate_Inr wParent0_def wBase_def mkEvent_def) code_simp
definition wOpened :: state where "wOpened = createdState wParent0 wBase"

lemma wOpened_facts:
  "st_chamaPolicy wOpened = None" "st_chamaCircle wOpened = None" "st_status wOpened = CREATED" "st_escrowMode wOpened = ECASH"
  "st_participants wOpened BUYER = None" "st_participants wOpened SELLER = Some (wKey CHR ''c'')"
  "st_participants wOpened ARBITER = None" "st_initiator wOpened = wKey CHR ''c''" "st_initiatorRole wOpened = SELLER"
  "st_expiresAt wOpened = 2000" "st_onchainFundingTerms wOpened = None" "st_joinHolds wOpened = (\<lambda>_. None)"
  "st_id wOpened = ''trade''" "st_tranchePlan wOpened = None" "st_trancheChild wOpened = None" "st_parent wOpened = None"
  "st_communityArbiters wOpened = [wKey CHR ''a'']" "st_bondedArbiters wOpened = []" "st_amountMsats wOpened = 3000"
  "st_sliceCount wOpened = None" "map ev_id (st_eventChain wOpened) = [''e0'']"
  unfolding wOpened_def
  by (simp_all add: createdState_def Let_def wParent0_def wBase_def mkEvent_def plainCreate_def createSeats_def initiatorRoleOf_def
      isChildPurchase_def modeOf_def createCircle_def)

definition wJoined :: state where
  "wJoined = wOpened\<lparr>st_participants := (st_participants wOpened)(BUYER := Some (wKey CHR ''b'')), st_escrowKeys := (st_escrowKeys wOpened)(BUYER := None),
      st_joinHolds := (st_joinHolds wOpened)(BUYER := Some (holdFor wOpened wParent1 (case ev_payload wParent1 of PJoin p \<Rightarrow> p) None)),
      st_eventChain := st_eventChain wOpened @ [wParent1]\<rparr>"

lemma wJoined_step: "applyEvent plainEnv (Some wOpened) wParent1 = Inr wJoined"
proof -
  have f: "\<not> inChain wOpened ''e1''" using wOpened_facts(21) by (auto simp: inChain_def list_ex_iff map_eq_Cons_conv)
  have "effectiveAt wOpened r 1010 \<noteq> Some (wKey CHR ''b'')" for r
    using wOpened_facts(5-7) by (cases r) (auto dest: effective_is_participant)
  then have "getActiveRole wOpened (wKey CHR ''b'') 1010 = None"
    by (simp add: getActiveRole_def find_None_iff_ball)
  with f show ?thesis
    by (simp add: applyEvent_def applyTo_def circleLaw_def applyChained_def wOpened_facts TRULY_TERMINAL_STATES_def
        pastDeadline_def dispatch_def handleJoin_def effectiveParticipantAt_def takeSeat_def seatedState_def wJoined_def
        wParent1_def mkEvent_def ev_kind_def roleUsesJoinHold_def Let_def guarded.simps)
qed

definition wPlanned :: state where
  "wPlanned = wJoined\<lparr>st_participants := (st_participants wJoined)(ARBITER := Some (wKey CHR ''a'')),
     st_tranchePlan := Some (wPlan, ''plan''), st_expiresAt := NEVER_EXPIRES, st_eventChain := st_eventChain wJoined @ [wParent2]\<rparr>"

lemma wPlan_simps [simp]:
  "ps_planId wPlan = wKey CHR ''f''" "ps_total wPlan = 2" "ps_totalMsats wPlan = 3000"
  "ps_buyerPubkey wPlan = wKey CHR ''b''" "ps_sellerPubkey wPlan = wKey CHR ''c''" "ps_arbiterPubkey wPlan = wKey CHR ''a''"
  "ps_termsDigest wPlan = wKey CHR ''f''" "ps_coordinatorPubkey wPlan = wKey CHR ''c''" "ps_bitcoinNetwork wPlan = MAINNET"
  "ps_tranches wPlan = [\<lparr>td_index = 0, td_amountMsats = 2000\<rparr>, \<lparr>td_index = 1, td_amountMsats = 1000\<rparr>]"
  by (simp_all add: wPlan_def)

lemma wPlan_valid: "validatePlanStart wPlan = None"
  by (simp add: validatePlanStart_def wPlan_def isHexChar_def isDigitChar_def isSafe_def MAX_SAFE_def)

lemma wPlanned_step: "applyEvent plainEnv (Some wJoined) wParent2 = Inr wPlanned"
proof -
  have f: "\<not> inChain wJoined ''plan''"
    using wOpened_facts(21) by (auto simp: inChain_def list_ex_iff map_eq_Cons_conv wJoined_def wParent1_def mkEvent_def)
  show ?thesis using f
    by (simp add: applyEvent_def applyTo_def circleLaw_def applyChained_def wOpened_facts wJoined_def TRULY_TERMINAL_STATES_def
        pastDeadline_def dispatch_def handlePlanStart_def wPlan_valid planArbiterGuards_def pickPreferredArbiter_def pickArbiterFromPool_def
        set_excludedKeys lowerChar_def wPlanned_def wParent2_def mkEvent_def ev_kind_def Let_def guarded.simps)
qed

lemma wPlanned_reachable: "reachable plainEnv wPlanned"
  using reachable.created [OF p0 [folded wOpened_def]] wJoined_step wPlanned_step by (meson reachable.stepped)

definition wDescriptor :: "int \<Rightarrow> tranche_child" where
  "wDescriptor j = \<lparr>tc_parent = ''trade'', tc_planId = wKey CHR ''f'', tc_planStartEventId = ''plan'', tc_index = j,
     tc_total = 2, tc_totalMsats = 3000, tc_buyerPubkey = wKey CHR ''b'', tc_sellerPubkey = wKey CHR ''c'',
     tc_arbiterPubkey = wKey CHR ''a'', tc_termsDigest = wKey CHR ''f'', tc_coordinatorPubkey = wKey CHR ''c'',
     tc_bitcoinNetwork = MAINNET\<rparr>"

definition wChildPayload :: "int \<Rightarrow> int \<Rightarrow> create_payload" where
  "wChildPayload j amount = (plainCreate ''sats'' ''p2p-trade'' amount ''mint'' ''P'' 1000 1000)
     \<lparr>cp_parent := Some ''trade'', cp_trancheChild := Some (wDescriptor j)\<rparr>"

definition wChild :: "int \<Rightarrow> int \<Rightarrow> event" where
  "wChild j amount = (mkEvent ''k0'' (wKey CHR ''c'') 1030 None (PCreate (wChildPayload j amount)))
     \<lparr>ev_escrowId := wKey (if j = 0 then CHR ''0'' else CHR ''1'')\<rparr>"

lemma child_ran: "ran [wChild 0 2000]" "ran [wChild 1 1000]"
  by code_simp+

definition wChildState :: "int \<Rightarrow> int \<Rightarrow> state" where
  "wChildState j amount = createdState (wChild j amount) (wChildPayload j amount)"

lemma child_reachable: "reachable plainEnv (wChildState 0 2000)" "reachable plainEnv (wChildState 1 1000)"
proof -
  have "applyEvent plainEnv None (wChild j a) = Inr (wChildState j a)" if "ran [wChild j a]" for j a
    using that by (auto simp: ran_def applyEvent_None handleCreate_Inr wChildState_def wChild_def mkEvent_def
        split: option.splits sum.splits)
  with child_ran show "reachable plainEnv (wChildState 0 2000)" "reachable plainEnv (wChildState 1 1000)"
    by (auto intro: reachable.created)
qed

lemma wChildState_facts:
  "st_trancheChild (wChildState j a) = Some (wDescriptor j)" "createOf (wChildState j a) = Some (wChildPayload j a)"
  "exactParticipants wPlan (wChildState j a)" "st_status (wChildState j a) = CREATED"
  "st_id (wChildState j a) = wKey (if j = 0 then CHR ''0'' else CHR ''1'')"
  "cp_trancheChild (wChildPayload j a) = Some (wDescriptor j)" "cp_amountMsats (wChildPayload j a) = a"
  by (simp_all add: wChildState_def createdState_def Let_def wChildPayload_def createOf_def ev_kind_def wChild_def mkEvent_def
      exactParticipants_def createSeats_def wDescriptor_def plainCreate_def)

lemma wDigest: "trancheTermsDigest wTranches p = wKey CHR ''f''"
  by (simp add: trancheTermsDigest_def canonical_def wTranches_def isHexChar_def isDigitChar_def)

lemma wChild_id: "trancheChildId wTranches i pl 0 = Inr (wKey CHR ''0'')" "trancheChildId wTranches i pl 1 = Inr (wKey CHR ''1'')"
proof -
  have "showInt 0 = ''0''" "showInt 1 = ''1''" by code_simp+
  then show "trancheChildId wTranches i pl 0 = Inr (wKey CHR ''0'')" "trancheChildId wTranches i pl 1 = Inr (wKey CHR ''1'')"
    by (simp_all add: trancheChildId_def wTranches_def nul_def last_append isHexChar_def isDigitChar_def)
qed

definition wChildren :: "state list" where
  "wChildren = [wChildState 1 1000, wChildState 0 2000]"

lemma wChild_ok: "st_id s = ''trade'' \<Longrightarrow> childError wTranches s wPlan ''plan'' (wChildState 0 2000) = Inr None"
  "st_id s = ''trade'' \<Longrightarrow> childError wTranches s wPlan ''plan'' (wChildState 1 1000) = Inr None"
  by (simp_all add: childError_def wChildState_facts verifyTrancheChild_def wChild_id wDigest wDescriptor_def
      buildChildDescriptor_def rowAt_def descriptorMismatch_def)

lemma wPlanned_derived: "derivePlanState wTranches wPlanned wChildren = Inr (Some
    \<lparr>pt_children = map (\<lambda>j. \<lparr>pr_id = wKey (if j = 0 then CHR ''0'' else CHR ''1''), pr_index = j,
        pr_amountMsats = (if j = 0 then 2000 else 1000), pr_status = CREATED, pr_valid = True, pr_error = None\<rparr>) [0, 1],
      pt_settledCount = 0, pt_outstandingMsats = 3000, pt_activeChildId = Some (wKey CHR ''0''), pt_stopped = None,
      pt_nextSafeAction = FUND_ACTIVE\<rparr>)"
proof -
  have p: "st_id wPlanned = ''trade''" "st_tranchePlan wPlanned = Some (wPlan, ''plan'')"
    by (simp_all add: wPlanned_def wJoined_def wOpened_facts)
  show ?thesis
    by (simp add: derivePlanState_def p planRow_def childAt_def wChildren_def wChildState_facts wDescriptor_def wChild_ok
        tallyRow_def activeRow_def planAction_def Let_def)
qed

theorem plan_owes_the_unsettled_rest_witness:
  "\<exists>ps. derivePlanState wTranches wPlanned wChildren = Inr (Some ps) \<and> pt_outstandingMsats ps = 3000
    \<and> pt_settledCount ps \<noteq> int (length (pt_children ps))"
  using plan_owes_the_unsettled_rest [OF wPlanned_reachable wPlanned_derived] wPlanned_derived by simp

theorem children_are_funded_in_turn_witness:
  "canFundTranche wTranches wPlanned wChildren (wKey CHR ''0'') = Inr True
    \<and> (\<exists>c\<in>set wChildren. st_id c = wKey CHR ''0'' \<and> st_status c = CREATED)"
proof -
  have c: "\<forall>c\<in>set wChildren. reachable plainEnv c" using child_reachable by (auto simp: wChildren_def)
  have f: "canFundTranche wTranches wPlanned wChildren (wKey CHR ''0'') = Inr True"
    by (simp add: canFundTranche_def wPlanned_derived)
  from children_are_funded_in_turn [OF wPlanned_reachable c f] f show ?thesis by blast
qed

end
