(* ===== verification/Slice_Properties.thy ===== *)
theory Slice_Properties
  imports Slice_Funding Plan_Properties
begin

text \<open>
  The slice driver over a plan that is re-derived at every turn: it returns, and it funds each child
  at most once, in order, and only in its turn.
\<close>

text \<open>The looks of a driver at the plan of \<open>parent\<close>: the \<open>k\<close>-th derives it from the children \<open>cs k\<close>.\<close>

definition looksAt :: "tranche_env \<Rightarrow> state \<Rightarrow> plan_start \<Rightarrow> (nat \<Rightarrow> state list) \<Rightarrow> slice_deps \<Rightarrow> bool" where
  "looksAt T parent plan cs D \<longleftrightarrow> (\<forall>k. sd_getPlanState D k = map_sum id (map_option (Pair (ps_total plan))) (derivePlanState T parent (cs k)))"

text \<open>The settled count does not fall from one look to the next: completed children stay so.\<close>

definition settlesOn :: "tranche_env \<Rightarrow> state \<Rightarrow> (nat \<Rightarrow> state list) \<Rightarrow> bool" where
  "settlesOn T parent cs \<longleftrightarrow> (\<forall>k ps ps'. derivePlanState T parent (cs k) = Inr (Some ps)
     \<longrightarrow> derivePlanState T parent (cs (Suc k)) = Inr (Some ps') \<longrightarrow> pt_settledCount ps \<le> pt_settledCount ps')"

text \<open>The rows of the plan have different child ids.\<close>

definition childIdsDiffer :: "tranche_env \<Rightarrow> state \<Rightarrow> plan_start \<Rightarrow> bool" where
  "childIdsDiffer T parent plan \<longleftrightarrow> (\<forall>a<length (ps_tranches plan). \<forall>b<length (ps_tranches plan).
     trancheChildId T (st_id parent) (ps_planId plan) (int a) = trancheChildId T (st_id parent) (ps_planId plan) (int b) \<longrightarrow> a = b)"

lemma turn_row:
  assumes ps: "derivePlanState T parent children = Inr (Some ps)" and f: "st_tranchePlan parent = Some (plan, i)"
    and v: "validatePlanStart plan = None" and ch: "\<forall>c\<in>set children. reachable E c"
    and ids: "childIdsDiffer T parent plan" and turn: "sliceTurn lastFunded funded tot ps = Inr row"
  shows "pr_index row = pt_settledCount ps" "pt_settledCount ps < int (length (ps_tranches plan))"
    "trancheChildId T (st_id parent) (ps_planId plan) (pt_settledCount ps) = Inr (pr_id row)"
    "canFundTranche T parent children (pr_id row) = Inr True" "lastFunded \<noteq> Some (pr_id row)"
proof -
  note d = derivePlanState_facts [OF ps f v]
  let ?rows = "pt_children ps"
  from turn have act: "pt_nextSafeAction ps = FUND_ACTIVE" and row: "List.find (\<lambda>c. Some (pr_id c) = pt_activeChildId ps \<and> pr_valid c) ?rows = Some row"
    and new: "lastFunded \<noteq> Some (pr_id row)"
    by (auto simp: sliceTurn_def Let_def split: plan_action.splits option.splits if_splits)
  show "lastFunded \<noteq> Some (pr_id row)" by (rule new)
  from find_Some_in [OF row] have r: "row \<in> set ?rows" "Some (pr_id row) = pt_activeChildId ps" "pr_valid row" by auto
  show "canFundTranche T parent children (pr_id row) = Inr True" using ps act r(2) by (simp add: canFundTranche_def)
  from ps f act obtain t where t: "pt_activeChildId ps = map_option pr_id (activeRow t ?rows)" "pt_settledCount ps = ta_settled t"
    by (auto simp: derivePlanState_def Let_def split: sum.splits)
  with r(2) obtain r0 where r0: "activeRow t ?rows = Some r0" "pr_id r0 = pr_id row" by (cases "activeRow t ?rows") auto
  then have "List.find (\<lambda>r. pr_index r = ta_settled t \<and> pr_valid r) ?rows = Some r0" by (auto simp: activeRow_def split: if_splits)
  from find_Some_in [OF this] have a: "r0 \<in> set ?rows" "pr_index r0 = pt_settledCount ps" "pr_valid r0" by (auto simp: t(2))
  have at: "\<exists>j<length (ps_tranches plan). pr_index x = int j \<and> trancheChildId T (st_id parent) (ps_planId plan) (int j) = Inr (pr_id x)"
    if "x \<in> set ?rows" "pr_valid x" for x
  proof -
    from that(1) obtain j where j: "j < length ?rows" "?rows ! j = x" by (auto simp: in_set_conv_nth)
    have "map pr_index ?rows ! j = map int [0..<length ?rows] ! j" using d(2) by simp
    then have ix: "pr_index x = int j" using j by simp
    have pr: "planRow T parent plan i children (ps_tranches plan ! j) = Inr x"
      using list_all2_nthD2 [OF d(4) j(1)] j(2) by simp
    then have "td_index (ps_tranches plan ! j) = int j" using planRow_facts [OF pr] ix by simp
    from valid_row_child [OF pr that(2) this _ ch] j(1) d(1) obtain c where "planChild T parent plan i j c" "st_id c = pr_id x" by auto
    then have "trancheChildId T (st_id parent) (ps_planId plan) (int j) = Inr (pr_id x)" by (simp add: planChild_def)
    with ix j(1) d(1) show ?thesis by auto
  qed
  from at [OF r(1,3)] at [OF a(1,3)] r0(2) ids a(2)
  show "pr_index row = pt_settledCount ps" "pt_settledCount ps < int (length (ps_tranches plan))"
    "trancheChildId T (st_id parent) (ps_planId plan) (pt_settledCount ps) = Inr (pr_id row)"
    by (auto simp: childIdsDiffer_def)
qed

text \<open>From any turn: the rows funded from here on have indices from \<open>b\<close> on, where \<open>b - 1\<close> is the child just
  funded.\<close>

lemma sliceLoop_returns:
  assumes f: "st_tranchePlan parent = Some (plan, e)" and v: "validatePlanStart plan = None"
    and ch: "\<forall>k. \<forall>c\<in>set (cs k). reachable E c" and ids: "childIdsDiffer T parent plan"
    and looks: "looksAt T parent plan cs D" and mono: "settlesOn T parent cs"
    and b: "0 \<le> b" "b \<le> int (length (ps_tranches plan))"
    and fresh: "case lastFunded of None \<Rightarrow> b = 0 | Some x \<Rightarrow> 0 < b \<and> trancheChildId T (st_id parent) (ps_planId plan) (b - 1) = Inr x"
    and low: "\<forall>ps. derivePlanState T parent (cs i) = Inr (Some ps) \<longrightarrow> b - 1 \<le> pt_settledCount ps"
  shows "\<exists>res new. sliceLoop D lastFunded funded calls i = Some (res, calls @ new) \<and> sorted_wrt (<) (map pr_index new)
    \<and> (\<forall>row\<in>set new. b \<le> pr_index row \<and> pr_index row < int (length (ps_tranches plan))
        \<and> (\<exists>k. canFundTranche T parent (cs k) (pr_id row) = Inr True))"
  using b fresh low
proof (induction "nat (int (length (ps_tranches plan)) - b)" arbitrary: b lastFunded funded calls i rule: less_induct)
  case less
  have look: "sd_getPlanState D i = map_sum id (map_option (Pair (ps_total plan))) (derivePlanState T parent (cs i))"
    using looks by (simp add: looksAt_def)
  show ?case
  proof (cases "\<exists>ps row. \<not> sd_aborted D i \<and> derivePlanState T parent (cs i) = Inr (Some ps)
      \<and> sliceTurn lastFunded funded (ps_total plan) ps = Inr row")
    case False
    then have "\<exists>res. sliceLoop D lastFunded funded calls i = Some (res, calls)"
      by (subst sliceLoop.simps) (auto simp: look map_sum_def split: sum.splits option.splits)
    then show ?thesis by force
  next
    case True
    then obtain ps row where live: "\<not> sd_aborted D i" and ps: "derivePlanState T parent (cs i) = Inr (Some ps)"
      and turn: "sliceTurn lastFunded funded (ps_total plan) ps = Inr row" by blast
    from ch have chi: "\<forall>c\<in>set (cs i). reachable E c" by blast
    note r = turn_row [OF ps f v chi ids turn]
    have s: "b \<le> pt_settledCount ps"
    proof (cases lastFunded)
      case None
      with less.prems(3) derivePlanState_facts(5) [OF ps f v] show ?thesis by simp
    next
      case (Some x)
      with less.prems(3) r(3,5) have "pt_settledCount ps \<noteq> b - 1" by auto
      with less.prems(4) ps show ?thesis by force
    qed
    show ?thesis
    proof (cases "sliceAnswer (sd_fundChild D i (pr_id row)) funded (ps_total plan) ps")
      case (Some res)
      then have "sliceLoop D lastFunded funded calls i = Some (Inr res, calls @ [row])"
        by (subst sliceLoop.simps) (simp add: live look ps turn)
      then show ?thesis using r s by (intro exI [of _ "Inr res"] exI [of _ "[row]"]) auto
    next
      case None
      let ?b = "pt_settledCount ps + 1"
      have step: "sliceLoop D lastFunded funded calls i = sliceLoop D (Some (pr_id row)) (funded + 1) (calls @ [row]) (Suc i)"
        by (subst sliceLoop.simps) (simp add: live look ps turn None)
      have next_low: "\<forall>ps'. derivePlanState T parent (cs (Suc i)) = Inr (Some ps') \<longrightarrow> ?b - 1 \<le> pt_settledCount ps'"
        using mono ps by (auto simp: settlesOn_def)
      have "nat (int (length (ps_tranches plan)) - ?b) < nat (int (length (ps_tranches plan)) - b)"
        using s r(2) by simp
      from less.hyps [OF this _ _ _ next_low, of "Some (pr_id row)" "funded + 1" "calls @ [row]"] s r(2,3) less.prems(1)
      obtain res new where n: "sliceLoop D (Some (pr_id row)) (funded + 1) (calls @ [row]) (Suc i) = Some (res, (calls @ [row]) @ new)"
        "sorted_wrt (<) (map pr_index new)" "\<forall>x\<in>set new. ?b \<le> pr_index x \<and> pr_index x < int (length (ps_tranches plan))
          \<and> (\<exists>k. canFundTranche T parent (cs k) (pr_id x) = Inr True)" by auto
      have "sorted_wrt (<) (map pr_index (row # new))" using n(2,3) r(1) by auto
      with n r s step show ?thesis by (intro exI [of _ res] exI [of _ "row # new"]) auto
    qed
  qed
qed

text \<open>C33. The slice driver returns, and funds each slice at most once, in order. When every look at the plan
  derives it anew from reached children, completed children stay completed and the rows have
  different child ids: the driver ends after finitely many turns whatever its fundings answer, the
  slices it funded have strictly increasing indices of the plan, and each was the one the funding
  gate had opened at that moment.\<close>

theorem slices_are_funded_once_in_order:
  assumes "reachable E parent" "st_tranchePlan parent = Some (plan, e)" "\<forall>k. \<forall>c\<in>set (cs k). reachable E c"
    "childIdsDiffer T parent plan" "looksAt T parent plan cs D" "settlesOn T parent cs"
  shows "\<exists>res calls. runSliceFundingLoop D = Some (res, calls) \<and> sorted_wrt (<) (map pr_index calls)
    \<and> (\<forall>row\<in>set calls. 0 \<le> pr_index row \<and> pr_index row < int (length (ps_tranches plan))
        \<and> (\<exists>k. canFundTranche T parent (cs k) (pr_id row) = Inr True))"
proof -
  note v = reachable_plan [OF assms(1,2)]
  have low: "\<forall>ps. derivePlanState T parent (cs 0) = Inr (Some ps) \<longrightarrow> 0 - 1 \<le> pt_settledCount ps"
    using derivePlanState_facts(5) [OF _ assms(2) v] by force
  from sliceLoop_returns [OF assms(2) v assms(3-6) _ _ _ low, of None 0 "[]"] show ?thesis
    by (auto simp: runSliceFundingLoop_def)
qed

text \<open>The frozen plan of two slices whose children stay CREATED: the first is funded, once.\<close>

definition wSliceDeps :: slice_deps where
  "wSliceDeps = \<lparr>sd_getPlanState = (\<lambda>_. map_sum id (map_option (Pair (ps_total wPlan))) (derivePlanState wTranches wPlanned wChildren)),
     sd_fundChild = (\<lambda>_ _. CT_LOCKED), sd_aborted = (\<lambda>_. False)\<rparr>"

theorem slices_are_funded_once_in_order_witness:
  "\<exists>res calls. runSliceFundingLoop wSliceDeps = Some (res, calls) \<and> sorted_wrt (<) (map pr_index calls)
    \<and> looksAt wTranches wPlanned wPlan (\<lambda>_. wChildren) wSliceDeps"
proof -
  have p: "st_id wPlanned = ''trade''" "st_tranchePlan wPlanned = Some (wPlan, ''plan'')"
    by (simp_all add: wPlanned_def wJoined_def wOpened_facts)
  have c: "\<forall>k::nat. \<forall>c\<in>set wChildren. reachable plainEnv c" using child_reachable by (auto simp: wChildren_def)
  have "childIdsDiffer wTranches wPlanned wPlan"
    unfolding childIdsDiffer_def
  proof (intro allI impI)
    fix a b assume ab: "a < length (ps_tranches wPlan)" "b < length (ps_tranches wPlan)"
      "trancheChildId wTranches (st_id wPlanned) (ps_planId wPlan) (int a) = trancheChildId wTranches (st_id wPlanned) (ps_planId wPlan) (int b)"
    then have "a \<in> {0, 1}" "b \<in> {0, 1}" by auto
    with ab(3) wChild_id show "a = b" by auto
  qed
  moreover have l: "looksAt wTranches wPlanned wPlan (\<lambda>_. wChildren) wSliceDeps" by (simp add: looksAt_def wSliceDeps_def)
  moreover have "settlesOn wTranches wPlanned (\<lambda>_. wChildren)" by (simp add: settlesOn_def)
  ultimately show ?thesis using slices_are_funded_once_in_order [OF wPlanned_reachable p(2) c] by blast
qed

end
