(* ===== verification/Lightning_Fees.thy ===== *)
theory Lightning_Fees
  imports Slice_Policy
begin

text \<open>
  What a Lightning payout may cost and carry: the fee estimate and the largest payout a balance
  can fund (\<open>src/payments/lightning-fees.ts\<close>), the amount an invoice names and the refusal of an
  amountless or oversized one (\<open>src/payments/bolt11.ts\<close>). Balances are whole millisatoshis. The
  bech32 codec is the record \<open>bech32\<close>.
\<close>

section \<open>Fees\<close>

definition estimateLightningSendFeeMsats :: "int \<Rightarrow> int" where
  "estimateLightningSendFeeMsats invoiceAmountMsats =
     (let amount = max 0 invoiceAmountMsats in 2000 + ceilDiv (amount * 5000) 1000000 + 500)"

definition payoutCost :: "int \<Rightarrow> int" where
  "payoutCost sats = sats * 1000 + estimateLightningSendFeeMsats (sats * 1000)"

lemma ceil_half: "ceilDiv (a + b) 2 = (a + b + 1) div 2" for a b :: int
  unfolding ceilDiv_def by presburger

text \<open>The bisection of \<open>maxLightningPayoutSats\<close>.\<close>

function payoutSearch :: "int \<Rightarrow> int \<Rightarrow> int \<Rightarrow> int" where
  "payoutSearch balance lo hi =
     (if lo < hi then let mid = ceilDiv (lo + hi) 2 in
        if payoutCost mid \<le> balance then payoutSearch balance mid hi else payoutSearch balance lo (mid - 1)
      else lo)"
  by pat_completeness auto
termination
  by (relation "measure (\<lambda>(_, lo, hi). nat (hi - lo))") (auto simp: ceil_half Let_def)

declare payoutSearch.simps [simp del]

definition maxLightningPayoutSats :: "int \<Rightarrow> int" where
  "maxLightningPayoutSats balanceMsats = (let balance = max 0 balanceMsats in payoutSearch balance 0 (balance div 1000))"

definition hasLightningWithdrawableBalance :: "int \<Rightarrow> bool" where
  "hasLightningWithdrawableBalance balanceMsats \<longleftrightarrow> 0 < maxLightningPayoutSats balanceMsats"

definition MATERIAL_RECOVERY_MIN_SATS :: int where "MATERIAL_RECOVERY_MIN_SATS = 2000"

definition balanceBlocksFederationSwitch :: "int \<Rightarrow> bool" where
  "balanceBlocksFederationSwitch balanceMsats \<longleftrightarrow>
     MATERIAL_RECOVERY_MIN_SATS \<le> max 0 balanceMsats div 1000 \<and> hasLightningWithdrawableBalance balanceMsats"

definition lightningPayoutReserveSats :: "int \<Rightarrow> int" where
  "lightningPayoutReserveSats balanceMsats =
     max 0 (ceilDiv (max 0 balanceMsats - maxLightningPayoutSats balanceMsats * 1000) 1000)"

datatype payout_target = LIGHTNING_TARGET | ECASH_TARGET

definition claimPayoutSats :: "int \<Rightarrow> payout_target \<Rightarrow> int" where
  "claimPayoutSats balanceMsats target = (if target = ECASH_TARGET then max 0 (balanceMsats div 1000)
     else maxLightningPayoutSats balanceMsats)"

definition claimPayoutReserveSats :: "int \<Rightarrow> payout_target \<Rightarrow> int" where
  "claimPayoutReserveSats balanceMsats target = (if target = ECASH_TARGET then 0 else lightningPayoutReserveSats balanceMsats)"

definition retrySmallerLightningPayoutSats :: "int \<Rightarrow> int" where
  "retrySmallerLightningPayoutSats currentPayoutSats = (let current = max 0 currentPayoutSats in
     if current \<le> 1 then 0 else max 1 (current div 2))"

section \<open>Invoices\<close>

fun dropPrefix :: "string \<Rightarrow> string \<Rightarrow> string option" where
  "dropPrefix [] s = Some s"
| "dropPrefix (p # ps) (c # cs) = (if p = c then dropPrefix ps cs else None)"
| "dropPrefix (p # ps) [] = None"

definition stripLightningUri :: "string \<Rightarrow> string" where
  "stripLightningUri raw = (let s = trim raw in
     if lower (take 10 s) = ''lightning:'' then drop 10 s else s)"

definition networkTags :: "string list" where
  "networkTags = [''bc'', ''tb'', ''bcrt'', ''sb'', ''bcsim'']"

definition isBolt11PaymentInfo :: "string \<Rightarrow> bool" where
  "isBolt11PaymentInfo raw = (case dropPrefix ''ln'' (lower (stripLightningUri raw)) of None \<Rightarrow> False
     | Some s \<Rightarrow> dropPrefix ''url'' s = None \<and> list_ex (\<lambda>t. dropPrefix t s \<noteq> None) networkTags)"

text \<open>The tail \<open>(\d*)([munp]?)1\<close> of the pattern, the digits greedy with backtracking: the digits and the
  multiplier of the first match.\<close>

definition multiplierAt :: "string \<Rightarrow> char option option" where
  "multiplierAt s = (case s of
     c # d # _ \<Rightarrow> if c \<in> set ''munp'' \<and> d = CHR ''1'' then Some (Some c) else if c = CHR ''1'' then Some None else None
   | [c] \<Rightarrow> if c = CHR ''1'' then Some None else None
   | [] \<Rightarrow> None)"

fun amountMatch :: "nat \<Rightarrow> string \<Rightarrow> (string \<times> char option) option" where
  "amountMatch 0 s = map_option (\<lambda>m. ([], m)) (multiplierAt s)"
| "amountMatch (Suc n) s = (case multiplierAt (drop (Suc n) s) of
     Some m \<Rightarrow> Some (take (Suc n) s, m)
   | None \<Rightarrow> amountMatch n s)"

definition prefixMatch :: "string \<Rightarrow> (string \<times> char option) option" where
  "prefixMatch invoice = (case dropPrefix ''ln'' invoice of None \<Rightarrow> None
     | Some s \<Rightarrow> (case List.map_filter (\<lambda>t. Option.bind (dropPrefix t s)
            (\<lambda>r. amountMatch (length (takeWhile isDigitChar r)) r)) networkTags of
         [] \<Rightarrow> None | m # _ \<Rightarrow> Some m))"

definition parseBolt11Msats :: "string \<Rightarrow> int option" where
  "parseBolt11Msats raw = (case prefixMatch (lower (stripLightningUri raw)) of
     None \<Rightarrow> None
   | Some (digits, m) \<Rightarrow>
       if digits = [] then None
       else let amount = decimal digits in
         if \<not> isSafe amount \<or> amount \<le> 0 then None
         else case m of
           None \<Rightarrow> Some (amount * 100000000000)
         | Some c \<Rightarrow> if c = CHR ''m'' then Some (amount * 100000000)
             else if c = CHR ''u'' then Some (amount * 100000)
             else if c = CHR ''n'' then Some (amount * 100)
             else if c = CHR ''p'' then Some (amount div 10) else None)"

definition hasBolt11Amount :: "string \<Rightarrow> bool" where
  "hasBolt11Amount raw \<longleftrightarrow> parseBolt11Msats raw \<noteq> None"

record bech32 =
  b32_decode :: "string \<Rightarrow> int list option"
  b32_fromWords :: "int list \<Rightarrow> int list option"

record bolt11_tags =
  bt_expiry :: int
  bt_descriptionHash :: "int list option"

definition wordsValue :: "int \<Rightarrow> int list \<Rightarrow> int" where
  "wordsValue start ws = foldl (\<lambda>v w. v * 32 + w) start ws"

text \<open>One tagged field; a length that overruns the tagged part refuses the invoice. The code adds the
  length to a position, so the words are taken as the natural numbers a decoder yields.\<close>

function tagScan :: "bech32 \<Rightarrow> int list \<Rightarrow> bolt11_tags \<Rightarrow> bolt11_tags option" where
  "tagScan B [] t = Some t"
| "tagScan B [x] t = None"
| "tagScan B [x, y] t = None"
| "tagScan B (tag # hi # lo # ws) t =
     (let n = nat (hi * 32 + lo); body = take n ws in
      if n > length ws then None
      else tagScan B (drop n ws)
        (if tag = 6 then t\<lparr>bt_expiry := wordsValue 0 body\<rparr>
         else if tag = 23 \<and> n = 52 then (case b32_fromWords B body of
             Some bytes \<Rightarrow> if 32 \<le> length bytes then t\<lparr>bt_descriptionHash := Some (take 32 bytes)\<rparr> else t
           | None \<Rightarrow> t)
         else t))"
  by pat_completeness auto
termination
  by (relation "measure (\<lambda>(_, ws, _). length ws)") auto

record bolt11_payment =
  bp_amountMsats :: int
  bp_expiresAt :: int
  bp_descriptionHash :: "int list option"

definition decodeBolt11Payment :: "bech32 \<Rightarrow> string \<Rightarrow> bolt11_payment option" where
  "decodeBolt11Payment B raw = (let invoice = lower (stripLightningUri raw) in
     case b32_decode B invoice of None \<Rightarrow> None
   | Some words \<Rightarrow> (case parseBolt11Msats invoice of None \<Rightarrow> None
     | Some amount \<Rightarrow>
         if \<not> isSafe amount \<or> length words < 7 + 104 then None
         else let timestamp = wordsValue 0 (take 7 words); tagged = drop 7 (take (length words - 104) words) in
           (case tagScan B tagged \<lparr>bt_expiry = 3600, bt_descriptionHash = None\<rparr> of None \<Rightarrow> None
            | Some t \<Rightarrow> if \<not> isSafe timestamp \<or> \<not> isSafe (bt_expiry t) \<or> bt_expiry t \<le> 0 then None
                else Some \<lparr>bp_amountMsats = amount, bp_expiresAt = timestamp + bt_expiry t,
                  bp_descriptionHash = bt_descriptionHash t\<rparr>)))"

datatype invoice_refusal = NO_AMOUNT | TOO_MUCH int int

definition payoutInvoiceError :: "string \<Rightarrow> int \<Rightarrow> invoice_refusal option" where
  "payoutInvoiceError raw maxMsats = (case parseBolt11Msats raw of
     None \<Rightarrow> Some NO_AMOUNT
   | Some amount \<Rightarrow> if amount > maxMsats
       then Some (TOO_MUCH (ceilDiv amount 1000) (max 0 maxMsats div 1000)) else None)"

section \<open>The bisection is exact\<close>

lemma payoutCost_mono: "a \<le> b \<Longrightarrow> payoutCost a \<le> payoutCost b"
proof -
  assume ab: "a \<le> b"
  have "ceilDiv (max 0 (a * 1000) * 5000) 1000000 \<le> ceilDiv (max 0 (b * 1000) * 5000) 1000000"
    unfolding ceilDiv_def using ab by (intro le_imp_neg_le zdiv_mono1) auto
  with ab show ?thesis by (simp add: payoutCost_def estimateLightningSendFeeMsats_def Let_def)
qed

lemma payoutCost_above: "s * 1000 < payoutCost s"
proof -
  have "0 \<le> ceilDiv (max 0 (s * 1000) * 5000) 1000000"
    using ceilDiv_bounds(1) [of 1000000 "max 0 (s * 1000) * 5000"] by (smt (verit) mult_nonneg_nonneg zero_less_mult_iff max.cobounded1)
  then show ?thesis by (simp add: payoutCost_def estimateLightningSendFeeMsats_def Let_def)
qed

lemma payoutSearch_exact:
  assumes "lo \<le> hi" "lo = 0 \<or> payoutCost lo \<le> b" "\<forall>s>hi. b < payoutCost s" "0 \<le> lo" "s = payoutSearch b lo hi"
  shows "lo \<le> s \<and> s \<le> hi \<and> (s = 0 \<or> payoutCost s \<le> b) \<and> (\<forall>m>s. b < payoutCost m)"
  using assms
proof (induction b lo hi arbitrary: s rule: payoutSearch.induct)
  case (1 b lo hi)
  show ?case
  proof (cases "lo < hi")
    case False
    then have "s = lo" using 1(7) by (simp add: payoutSearch.simps [of b lo hi])
    with False 1(3-6) show ?thesis by auto
  next
    case True
    define mid where "mid = ceilDiv (lo + hi) 2"
    have mid: "lo < mid" "mid \<le> hi" using True by (simp_all add: mid_def ceil_half)
    show ?thesis
    proof (cases "payoutCost mid \<le> b")
      case fits: True
      with True have "s = payoutSearch b mid hi"
        by (simp add: 1(7) payoutSearch.simps [of b lo hi] mid_def Let_def)
      from "1.IH"(1) [OF True mid_def fits mid(2) _ 1(5) _ this] fits mid 1(6) show ?thesis by auto
    next
      case large: False
      with True have s: "s = payoutSearch b lo (mid - 1)"
        by (simp add: 1(7) payoutSearch.simps [of b lo hi] mid_def Let_def)
      have "\<forall>m>mid - 1. b < payoutCost m"
      proof (intro allI impI)
        fix m assume "mid - 1 < m"
        then have "payoutCost mid \<le> payoutCost m" by (intro payoutCost_mono) linarith
        with large show "b < payoutCost m" by linarith
      qed
      from "1.IH"(2) [OF True mid_def large _ 1(4) this 1(6) s] mid show ?thesis by auto
    qed
  qed
qed

lemma maxLightningPayoutSats_exact:
  defines "s \<equiv> \<lambda>b. maxLightningPayoutSats b"
  shows "0 \<le> s b" "s b = 0 \<or> payoutCost (s b) \<le> max 0 b" "m > s b \<Longrightarrow> max 0 b < payoutCost m"
proof -
  have h: "\<forall>m>max 0 b div 1000. max 0 b < payoutCost m"
  proof (intro allI impI)
    fix m assume "max 0 b div 1000 < m"
    then have "max 0 b < m * 1000" by linarith
    then show "max 0 b < payoutCost m" using payoutCost_above [of m] by linarith
  qed
  have "s b = payoutSearch (max 0 b) 0 (max 0 b div 1000)" by (simp add: s_def maxLightningPayoutSats_def Let_def)
  from payoutSearch_exact [OF _ _ h _ this]
  show "0 \<le> s b" "s b = 0 \<or> payoutCost (s b) \<le> max 0 b" "m > s b \<Longrightarrow> max 0 b < payoutCost m" by auto
qed

end
