(* ===== verification/Payout_Journal.thy ===== *)
theory Payout_Journal
  imports Chama_Prelude
begin

text \<open>
  The two device ledgers of a claim. \<open>src/payments/payout-journal.ts\<close>: the record of a payout per
  escrow that guards against paying twice. \<open>src/payments/claim-credit-ledger.ts\<close>: the proofs that a
  claim's money arrived, and the verdict the slice gate asks for.

  A stored journal is absent, unreadable or an association list from escrow ids (the object
  under the storage key, whose JSON text is read back as it was written). A write may fail at any
  time: the store carries the outcomes of the writes to come, and a write past their end succeeds.
\<close>

section \<open>The journal\<close>

datatype payout_status = P_INTENT | P_SUBMITTED | P_SETTLED

record payout_record =
  py_escrowId :: string
  py_status :: payout_status
  py_operationId :: "string option"
  py_amountMsats :: "int option"
  py_createdAt :: int
  py_settledAt :: "int option"

type_synonym journal = "(string \<times> payout_record) list"

datatype stored = Absent | Unreadable | Readable journal

record journal_store =
  js_journal :: stored
  js_writes :: "bool list"

datatype journal_error = JOURNAL_UNREADABLE | STORAGE_UNAVAILABLE

definition PAY_RECONCILE_SINCE_MARGIN_MS :: int where
  "PAY_RECONCILE_SINCE_MARGIN_MS = 60 * 60 * 1000"

text \<open>One write: whether it succeeds, and the store with that outcome used up.\<close>

definition writeOutcome :: "journal_store \<Rightarrow> bool \<times> journal_store" where
  "writeOutcome s = (case js_writes s of [] \<Rightarrow> (True, s) | b # bs \<Rightarrow> (b, s\<lparr>js_writes := bs\<rparr>))"

definition loadJournalStrict :: "journal_store \<Rightarrow> journal_error + journal" where
  "loadJournalStrict s = (case js_journal s of
     Absent \<Rightarrow> Inr [] | Unreadable \<Rightarrow> Inl JOURNAL_UNREADABLE | Readable j \<Rightarrow> Inr j)"

definition loadJournal :: "journal_store \<Rightarrow> journal" where
  "loadJournal s = (case loadJournalStrict s of Inl _ \<Rightarrow> [] | Inr j \<Rightarrow> j)"

text \<open>A failed write leaves the journal as it was; the writer decides what to do about it.\<close>

definition saveJournal :: "journal_store \<Rightarrow> journal \<Rightarrow> journal_error option \<times> journal_store" where
  "saveJournal s j = (case writeOutcome s of
     (True, s') \<Rightarrow> (None, s'\<lparr>js_journal := Readable j\<rparr>)
   | (False, s') \<Rightarrow> (Some STORAGE_UNAVAILABLE, s'))"

definition assertPayoutJournalWritable :: "journal_store \<Rightarrow> journal_error option \<times> journal_store" where
  "assertPayoutJournalWritable s = (case loadJournalStrict s of
     Inl e \<Rightarrow> (Some e, s)
   | Inr _ \<Rightarrow> (case writeOutcome s of (True, s') \<Rightarrow> (None, s') | (False, s') \<Rightarrow> (Some STORAGE_UNAVAILABLE, s')))"

definition assertPayoutJournalReadable :: "journal_store \<Rightarrow> journal_error option" where
  "assertPayoutJournalReadable s = (case loadJournalStrict s of Inl e \<Rightarrow> Some e | Inr _ \<Rightarrow> None)"

definition getPayoutRecord :: "journal_store \<Rightarrow> string \<Rightarrow> payout_record option" where
  "getPayoutRecord s i = map_of (loadJournal s) i"

text \<open>\<open>x?.field\<close> of a record that may be missing.\<close>

definition priorOp :: "payout_record option \<Rightarrow> string option" where
  "priorOp r = Option.bind r py_operationId"

definition priorAmount :: "payout_record option \<Rightarrow> int option" where
  "priorAmount r = Option.bind r py_amountMsats"

definition priorCreated :: "payout_record option \<Rightarrow> int \<Rightarrow> int" where
  "priorCreated r now = (case r of Some p \<Rightarrow> py_createdAt p | None \<Rightarrow> now)"

definition putRecord :: "journal_store \<Rightarrow> journal \<Rightarrow> payout_record \<Rightarrow> journal_error option \<times> journal_store" where
  "putRecord s j r = saveJournal s (AList.update (py_escrowId r) r j)"

definition recordPayoutIntent ::
  "int \<Rightarrow> journal_store \<Rightarrow> string \<Rightarrow> int option \<Rightarrow> journal_error option \<times> journal_store" where
  "recordPayoutIntent now s i amount = (case loadJournalStrict s of
     Inl e \<Rightarrow> (Some e, s)
   | Inr j \<Rightarrow> (let existing = map_of j i in
       if map_option py_status existing \<in> {Some P_SETTLED, Some P_SUBMITTED} then (None, s)
       else putRecord s j \<lparr>py_escrowId = i, py_status = P_INTENT, py_operationId = None,
         py_amountMsats = orElse amount (priorAmount existing), py_createdAt = priorCreated existing now,
         py_settledAt = None\<rparr>))"

definition recordPayoutSubmitted ::
  "int \<Rightarrow> journal_store \<Rightarrow> string \<Rightarrow> string option \<Rightarrow> int option \<Rightarrow> journal_error option \<times> journal_store" where
  "recordPayoutSubmitted now s i op amount = (case loadJournalStrict s of
     Inl e \<Rightarrow> (Some e, s)
   | Inr j \<Rightarrow> (let existing = map_of j i in
       if map_option py_status existing = Some P_SETTLED then (None, s)
       else putRecord s j \<lparr>py_escrowId = i, py_status = P_SUBMITTED, py_operationId = orElse op (priorOp existing),
         py_amountMsats = orElse amount (priorAmount existing), py_createdAt = priorCreated existing now,
         py_settledAt = None\<rparr>))"

definition markPayoutSettled ::
  "int \<Rightarrow> journal_store \<Rightarrow> string \<Rightarrow> string option \<Rightarrow> journal_error option \<times> journal_store" where
  "markPayoutSettled now s i op = (case loadJournalStrict s of
     Inl e \<Rightarrow> (Some e, s)
   | Inr j \<Rightarrow> (let existing = map_of j i in
       putRecord s j \<lparr>py_escrowId = i, py_status = P_SETTLED, py_operationId = orElse op (priorOp existing),
         py_amountMsats = priorAmount existing, py_createdAt = priorCreated existing now, py_settledAt = Some now\<rparr>))"

text \<open>Never throws: an unreadable journal and a failed write leave the record in place. The flag says
  whether the record is gone, which the code only logs.\<close>

definition clearPayoutRecord :: "journal_store \<Rightarrow> string \<Rightarrow> bool \<times> journal_store" where
  "clearPayoutRecord s i = (case loadJournalStrict s of
     Inl _ \<Rightarrow> (False, s)
   | Inr j \<Rightarrow> if map_of j i = None then (True, s)
       else (case saveJournal s (AList.delete i j) of (e, s') \<Rightarrow> (e = None, s')))"

definition listPayoutRecords :: "journal_store \<Rightarrow> payout_record list" where
  "listPayoutRecords s = map snd (loadJournal s)"

section \<open>The credit ledger\<close>

definition MAX_CLAIM_CREDITS :: nat where "MAX_CLAIM_CREDITS = 500"

record claim_credit =
  cc_escrowId :: string
  cc_amountMsats :: int
  cc_creditedAt :: int

type_synonym ledger = "(string \<times> claim_credit) list"

text \<open>The ledger after recording; a failed save keeps the old one.\<close>

definition recordClaimCredit :: "int \<Rightarrow> bool \<Rightarrow> ledger \<Rightarrow> string \<Rightarrow> int \<Rightarrow> ledger" where
  "recordClaimCredit now saves ledger i amount =
     (if i = [] \<or> map_of ledger i \<noteq> None then ledger
      else let full = AList.update i \<lparr>cc_escrowId = i, cc_amountMsats = amount, cc_creditedAt = now\<rparr> ledger;
               oldest = take (length full - MAX_CLAIM_CREDITS)
                 (sortWith (\<lambda>a b. cc_creditedAt (snd a) < cc_creditedAt (snd b)) full)
        in if saves then filter (\<lambda>e. fst e \<notin> set (map fst oldest)) full else ledger)"

definition listClaimCredits :: "ledger \<Rightarrow> claim_credit list" where
  "listClaimCredits ledger = map snd ledger"

definition getClaimCredit :: "ledger \<Rightarrow> string \<Rightarrow> claim_credit option" where
  "getClaimCredit ledger i = map_of ledger i"

definition clearAllClaimCredits :: "bool \<Rightarrow> ledger \<Rightarrow> ledger" where
  "clearAllClaimCredits saves ledger = (if saves then [] else ledger)"

datatype credit_verdict = CREDITED | NOT_CREDITED | UNKNOWN

record redemption_evidence =
  re_unresolvedCredit :: bool
  re_resolvedAt :: "int option"
  re_lastError :: "string option"
  re_creditedAt :: "int option"

record credit_evidence =
  ce_credit :: "int option"
  ce_redemption :: "redemption_evidence option"
  ce_payout :: "payout_status option"

text \<open>A zero time or an empty message counts as none.\<close>

definition judgeCredit :: "credit_evidence \<Rightarrow> credit_verdict" where
  "judgeCredit ev = (case ce_redemption ev of
     Some r \<Rightarrow>
       if re_unresolvedCredit r \<and> \<not> truthyN (re_resolvedAt r) then NOT_CREDITED
       else if truthyS (re_lastError r) then NOT_CREDITED
       else if truthyN (re_creditedAt r) then CREDITED else NOT_CREDITED
   | None \<Rightarrow>
       if ce_credit ev \<noteq> None then CREDITED
       else if ce_payout ev = Some P_SETTLED then CREDITED else UNKNOWN)"

definition creditObserved :: "credit_evidence \<Rightarrow> bool" where
  "creditObserved ev \<longleftrightarrow> judgeCredit ev = CREDITED"

text \<open>The live stores; a reader that throws is \<open>None\<close>.\<close>

record credit_readers =
  cr_redemption :: "string \<Rightarrow> redemption_evidence option option"
  cr_payout :: "string \<Rightarrow> payout_status option option"

definition readCreditEvidence :: "ledger \<Rightarrow> credit_readers \<Rightarrow> string \<Rightarrow> credit_evidence option" where
  "readCreditEvidence ledger R i = (case (cr_redemption R i, cr_payout R i) of
     (Some r, Some p) \<Rightarrow> Some \<lparr>ce_credit = map_option cc_amountMsats (getClaimCredit ledger i), ce_redemption = r, ce_payout = p\<rparr>
   | _ \<Rightarrow> None)"

definition makeCreditObserver :: "ledger \<Rightarrow> credit_readers \<Rightarrow> string \<Rightarrow> bool" where
  "makeCreditObserver ledger R i = (case readCreditEvidence ledger R i of None \<Rightarrow> False | Some ev \<Rightarrow> creditObserved ev)"

text \<open>The observer over the pending redemptions (by escrow id, in their order) and the journal.\<close>

definition defaultCreditObserver ::
  "ledger \<Rightarrow> (string \<times> redemption_evidence) list \<Rightarrow> journal_store \<Rightarrow> string \<Rightarrow> bool" where
  "defaultCreditObserver ledger pending s = makeCreditObserver ledger
     \<lparr>cr_redemption = (\<lambda>i. Some (map_of pending i)), cr_payout = (\<lambda>i. Some (map_option py_status (getPayoutRecord s i)))\<rparr>"

end
