(* ===== verification/Claim_Payout.thy ===== *)
theory Claim_Payout
  imports Lightning_Fees Payout_Journal
begin

text \<open>
  The claim orchestrator (\<open>src/payments/claim-and-payout.ts\<close>): \<open>runClaimAndPayout\<close> with its
  double-pay guard, claim, settlement verdict and payout, and the balance watchdog. The injected
  dependencies are the record \<open>claim_deps\<close> of their answers during one run (a balance and a clock
  reading per call); the journal dependencies are bound to \<open>Payout_Journal\<close>, as the hook binds
  them. What a run does to the world is logged in order, each entry with the journal as it is
  stored at that moment, so that a crash is a prefix of the log. Progress callbacks, traces and the
  diagnostic ledger of leftover sats are left out; a thrown error is reduced to what the code
  reads of it. Thresholds are exact rationals.
\<close>

section \<open>Balance\<close>

datatype payout_kind = PK_LIGHTNING | PK_ONCHAIN | PK_ECASH

definition balanceCoversPayout :: "int \<Rightarrow> int \<Rightarrow> payout_kind \<Rightarrow> bool" where
  "balanceCoversPayout balanceMsats expectedDeltaMsats kind =
     (let balance = max 0 balanceMsats; expected = max 0 expectedDeltaMsats in
      if expected \<le> 0 then False
      else if kind = PK_ONCHAIN \<or> kind = PK_ECASH then
        (let grossSats = expected div 1000 in 0 < grossSats \<and> grossSats \<le> balance div 1000)
      else (let invoiceSats = maxLightningPayoutSats expected in
        0 < invoiceSats \<and> invoiceSats \<le> maxLightningPayoutSats balance))"

definition DEFAULT_CONFIRM_TIMEOUT_MS :: int where "DEFAULT_CONFIRM_TIMEOUT_MS = 90 * 1000"
definition DEFAULT_POLL_INTERVAL_MS :: int where "DEFAULT_POLL_INTERVAL_MS = 5000"
definition CONFIRM_HARD_CAP_MULTIPLIER :: int where "CONFIRM_HARD_CAP_MULTIPLIER = 3"
definition DEFAULT_THRESHOLD_PCT :: rat where "DEFAULT_THRESHOLD_PCT = 9 / 10"

record wait_opts =
  wt_baselineMsats :: int
  wt_expectedDeltaMsats :: int
  wt_timeoutMs :: int
  wt_pollIntervalMs :: int
  wt_thresholdPct :: rat

definition requiredDelta :: "wait_opts \<Rightarrow> int" where
  "requiredDelta W = \<lfloor>of_int (wt_expectedDeltaMsats W) * wt_thresholdPct W\<rfloor>"

definition hardCapMs :: "wait_opts \<Rightarrow> int" where
  "hardCapMs W = wt_timeoutMs W * CONFIRM_HARD_CAP_MULTIPLIER"

definition readExtension :: "wait_opts \<Rightarrow> int \<Rightarrow> int option \<Rightarrow> int" where
  "readExtension W ext reading = (case reading of
     None \<Rightarrow> min (ext + wt_pollIntervalMs W) (max 0 (hardCapMs W - wt_timeoutMs W)) | Some _ \<Rightarrow> ext)"

definition readDelta :: "wait_opts \<Rightarrow> int option \<Rightarrow> int" where
  "readDelta W reading = (case reading of None \<Rightarrow> 0 | Some b \<Rightarrow> b - wt_baselineMsats W)"

datatype wait_outcome = W_GREW | W_TIMEOUT | W_ABORTED

text \<open>The polling loop: \<open>i\<close> polls done, the \<open>i\<close>-th balance reading (\<open>None\<close> for one that throws), clock
  reading and abort flag. It returns the outcome and the number of polls.\<close>

partial_function (option) waitLoop ::
  "wait_opts \<Rightarrow> (nat \<Rightarrow> int option) \<Rightarrow> (nat \<Rightarrow> int) \<Rightarrow> (nat \<Rightarrow> bool) \<Rightarrow> int \<Rightarrow> int \<Rightarrow> nat \<Rightarrow> (wait_outcome \<times> nat) option"
where
  "waitLoop W balance clock aborted start ext i =
     (if aborted i then Some (W_ABORTED, i)
      else let ext' = readExtension W ext (balance i) in
        if requiredDelta W \<le> readDelta W (balance i) then Some (W_GREW, Suc i)
        else if min (wt_timeoutMs W + ext') (hardCapMs W) \<le> clock i - start then Some (W_TIMEOUT, Suc i)
        else waitLoop W balance clock aborted start ext' (Suc i))"

declare waitLoop.simps [code]

definition waitForBalanceGrowth ::
  "wait_opts \<Rightarrow> (nat \<Rightarrow> int option) \<Rightarrow> (nat \<Rightarrow> int) \<Rightarrow> (nat \<Rightarrow> bool) \<Rightarrow> (wait_outcome \<times> nat) option" where
  "waitForBalanceGrowth W balance clock aborted = waitLoop W balance (\<lambda>i. clock (Suc i)) aborted (clock 0) 0 0"

section \<open>Options, answers and effects\<close>

record claim_opts =
  co_escrowId :: string
  co_bolt11 :: string
  co_expectedDeltaMsats :: int
  co_claimAlreadyPublished :: bool
  co_payoutKind :: payout_kind
  co_saveAfter :: bool
  co_addressUsed :: "string option"
  co_confirmTimeoutMs :: "int option"
  co_pollIntervalMs :: "int option"

text \<open>What \<open>claimAndRedeem\<close> throws: a bridge code, and the flags of a published or prepared claim.\<close>

record claim_throw =
  ct_bridgeCode :: bool
  ct_claimPublished :: bool
  ct_claimPrepared :: bool
  ct_settlementFailed :: bool

datatype pay_code = LN_PAY_INFLIGHT | LN_PAY_REFUNDED | LN_PAY_SUBMIT_FAILED | UNCODED

datatype pay_answer = Paid "string option" | PayThrew pay_code "string option"

datatype pay_outcome = O_SETTLED | O_REFUNDED | O_INFLIGHT | O_NONE | O_UNKNOWN

record claim_deps =
  cd_now :: int
  cd_balance :: "nat \<Rightarrow> int option"
  cd_clock :: "nat \<Rightarrow> int"
  cd_claimAndRedeem :: "claim_throw option"
  cd_prepareEcashExport :: "(string \<times> int) option option"
  cd_claimAndExportEcash :: "(string \<times> int) option option"
  cd_payInvoice :: pay_answer
  cd_payOnchain :: "bool option"
  cd_payOutcomeByEscrow :: "string \<Rightarrow> int \<Rightarrow> (pay_outcome \<times> string option) option"
  cd_awaitPayoutOutcome :: "string \<Rightarrow> pay_outcome option"
  cd_creditSaves :: bool

datatype effect = REDEEM_CLAIM | PAY_INVOICE string | PAY_REFUSED | PAY_ONCHAIN int | EXPORT_NOTES
  | PUBLISH_COMPLETE | RELEASE_RESERVATION | RESERVE_CREDIT | RECORD_CREDIT int | SAVE_HANDLE string
  | JOURNAL_WRITE | CLEAR_FAILED

record claim_world =
  cw_store :: journal_store
  cw_ledger :: ledger
  cw_log :: "(effect \<times> stored) list"

datatype payout_failure = F_EXPORT_UNSAFE | F_INVOICE invoice_refusal | F_JOURNAL_UNREADABLE | F_NO_DIRECT_ECASH
  | F_JOURNAL_UNWRITABLE | F_INTENT_UNSAVED | F_SEND

datatype claim_terminal = T_DONE | T_ECASH_READY "string \<times> int" | T_CLAIM_FAILED | T_BRIDGE_THREW | T_CLAIM_PENDING
  | T_PAYOUT_CONFIRMING | T_PAYOUT_FAILED payout_failure

definition act :: "effect \<Rightarrow> claim_world \<Rightarrow> claim_world" where
  "act x w = w\<lparr>cw_log := cw_log w @ [(x, js_journal (cw_store w))]\<rparr>"

definition stored_as :: "journal_store \<Rightarrow> claim_world \<Rightarrow> claim_world" where
  "stored_as s w = act JOURNAL_WRITE (w\<lparr>cw_store := s\<rparr>)"

definition cleared :: "claim_opts \<Rightarrow> claim_world \<Rightarrow> claim_world" where
  "cleared Op w = (case clearPayoutRecord (cw_store w) (co_escrowId Op) of
     (gone, s) \<Rightarrow> if gone then stored_as s w else act CLEAR_FAILED (w\<lparr>cw_store := s\<rparr>))"

section \<open>The double-pay guard\<close>

text \<open>A payout found settled: the record is upgraded if it can be, the claim completed, the
  reservation released.\<close>

definition finishSettled :: "claim_opts \<Rightarrow> claim_deps \<Rightarrow> string option \<Rightarrow> claim_world \<Rightarrow> claim_terminal option \<times> claim_world" where
  "finishSettled Op D op w = (let s = snd (markPayoutSettled (cd_now D) (cw_store w) (co_escrowId Op) op) in
     (Some T_DONE, act RELEASE_RESERVATION (act PUBLISH_COMPLETE (stored_as s w))))"

definition reconcileByEscrow ::
  "claim_opts \<Rightarrow> claim_deps \<Rightarrow> int \<Rightarrow> bool \<Rightarrow> claim_world \<Rightarrow> claim_terminal option \<times> claim_world" where
  "reconcileByEscrow Op D createdAt trustNone w =
     (case getOr (cd_payOutcomeByEscrow D (co_escrowId Op) (createdAt - PAY_RECONCILE_SINCE_MARGIN_MS)) (O_UNKNOWN, None) of
        (found, op) \<Rightarrow>
          if found = O_SETTLED then finishSettled Op D op w
          else if found = O_INFLIGHT then
            (Some T_PAYOUT_CONFIRMING, stored_as (snd (recordPayoutSubmitted (cd_now D) (cw_store w) (co_escrowId Op) op
               (Some (co_expectedDeltaMsats Op)))) w)
          else if found = O_REFUNDED \<or> (found = O_NONE \<and> trustNone) then (None, cleared Op w)
          else (Some T_PAYOUT_CONFIRMING, w))"

definition reattach :: "claim_opts \<Rightarrow> claim_deps \<Rightarrow> string \<Rightarrow> claim_world \<Rightarrow> claim_terminal option \<times> claim_world" where
  "reattach Op D op w = (case getOr (cd_awaitPayoutOutcome D op) O_UNKNOWN of
     O_SETTLED \<Rightarrow> finishSettled Op D (Some op) w
   | O_REFUNDED \<Rightarrow> (None, cleared Op w)
   | _ \<Rightarrow> (Some T_PAYOUT_CONFIRMING, w))"

text \<open>\<open>None\<close> is falling through to a fresh claim and payout. An empty operation id counts as none.\<close>

definition payoutGuard :: "claim_opts \<Rightarrow> claim_deps \<Rightarrow> claim_world \<Rightarrow> claim_terminal option \<times> claim_world" where
  "payoutGuard Op D w =
     (if assertPayoutJournalReadable (cw_store w) \<noteq> None then (Some (T_PAYOUT_FAILED F_JOURNAL_UNREADABLE), w)
      else case getPayoutRecord (cw_store w) (co_escrowId Op) of
        None \<Rightarrow> (None, w)
      | Some r \<Rightarrow> (case py_status r of
          P_SETTLED \<Rightarrow> (Some T_DONE, act RELEASE_RESERVATION (act PUBLISH_COMPLETE w))
        | P_INTENT \<Rightarrow> reconcileByEscrow Op D (py_createdAt r) True w
        | P_SUBMITTED \<Rightarrow> (case nonEmpty (py_operationId r) of
            None \<Rightarrow> reconcileByEscrow Op D (py_createdAt r) False w
          | Some op \<Rightarrow> reattach Op D op w)))"

section \<open>Claim and settlement verdict\<close>

datatype settled_by = BY_GROWTH | BY_COVER

definition waitOptsFor :: "claim_opts \<Rightarrow> int \<Rightarrow> wait_opts" where
  "waitOptsFor Op baseline = \<lparr>wt_baselineMsats = baseline, wt_expectedDeltaMsats = co_expectedDeltaMsats Op,
     wt_timeoutMs = getOr (co_confirmTimeoutMs Op) DEFAULT_CONFIRM_TIMEOUT_MS,
     wt_pollIntervalMs = getOr (co_pollIntervalMs Op) DEFAULT_POLL_INTERVAL_MS,
     wt_thresholdPct = DEFAULT_THRESHOLD_PCT\<rparr>"

text \<open>The claim call: a terminal, or whether settlement has failed for good.\<close>

definition claimCall :: "claim_opts \<Rightarrow> claim_deps \<Rightarrow> bool \<Rightarrow> claim_terminal + bool" where
  "claimCall Op D resumed = (if resumed then Inr False else case cd_claimAndRedeem D of
     None \<Rightarrow> Inr False
   | Some e \<Rightarrow>
       if ct_bridgeCode e then Inl T_BRIDGE_THREW
       else if (ct_claimPublished e \<or> ct_claimPrepared e) \<and> ct_settlementFailed e then Inr True
       else if ct_claimPublished e \<or> ct_claimPrepared e then Inr False
       else Inl T_CLAIM_FAILED)"

text \<open>The verdict: \<open>None\<close> while the watchdog has not returned. Reading 0 is the baseline, the watchdog's
  polls follow, then the covering read.\<close>

definition settlementVerdict ::
  "claim_opts \<Rightarrow> claim_deps \<Rightarrow> int \<Rightarrow> bool \<Rightarrow> bool \<Rightarrow> settled_by option option" where
  "settlementVerdict Op D baseline resumed failedHard =
     (if resumed then Some (Some BY_COVER)
      else let waited = (if failedHard then Some (W_TIMEOUT, 0)
             else waitForBalanceGrowth (waitOptsFor Op baseline) (\<lambda>i. cd_balance D (Suc i)) (cd_clock D) (\<lambda>_. False))
        in map_option (\<lambda>(grew, polls).
             if grew = W_GREW then Some BY_GROWTH
             else (case cd_balance D (Suc polls) of
               Some b \<Rightarrow> if balanceCoversPayout b (co_expectedDeltaMsats Op) (co_payoutKind Op) then Some BY_COVER else None
             | None \<Rightarrow> None)) waited)"

section \<open>The payout\<close>

definition finishPaid :: "claim_opts \<Rightarrow> claim_world \<Rightarrow> claim_terminal option \<times> claim_world" where
  "finishPaid Op w = (let w' = act RELEASE_RESERVATION (act PUBLISH_COMPLETE w) in
     (Some T_DONE, case nonEmpty (co_addressUsed Op) of
        Some a \<Rightarrow> if co_saveAfter Op then act (SAVE_HANDLE a) w' else w' | None \<Rightarrow> w'))"

text \<open>The invoice is dispatched under a freshly written intent; the answer decides the record.\<close>

definition payLightning :: "claim_opts \<Rightarrow> claim_deps \<Rightarrow> claim_world \<Rightarrow> claim_terminal option \<times> claim_world" where
  "payLightning Op D w = (case assertPayoutJournalWritable (cw_store w) of
     (Some _, s) \<Rightarrow> (Some (T_PAYOUT_FAILED F_JOURNAL_UNWRITABLE), w\<lparr>cw_store := s\<rparr>)
   | (None, s) \<Rightarrow> (case recordPayoutIntent (cd_now D) s (co_escrowId Op) (Some (co_expectedDeltaMsats Op)) of
       (Some _, s1) \<Rightarrow> (Some (T_PAYOUT_FAILED F_INTENT_UNSAVED), w\<lparr>cw_store := s1\<rparr>)
     | (None, s1) \<Rightarrow> (let w1 = act (PAY_INVOICE (co_bolt11 Op)) (stored_as s1 w) in
         case cd_payInvoice D of
           Paid op \<Rightarrow> (case markPayoutSettled (cd_now D) (cw_store w1) (co_escrowId Op) op of
             (Some _, s2) \<Rightarrow> (Some T_PAYOUT_CONFIRMING, w1\<lparr>cw_store := s2\<rparr>)
           | (None, s2) \<Rightarrow> finishPaid Op (stored_as s2 w1))
         | PayThrew code op \<Rightarrow>
             if code = LN_PAY_INFLIGHT then
               (Some T_PAYOUT_CONFIRMING, stored_as (snd (recordPayoutSubmitted (cd_now D) (cw_store w1) (co_escrowId Op) op
                  (Some (co_expectedDeltaMsats Op)))) w1)
             else if code = LN_PAY_REFUNDED \<or> code = LN_PAY_SUBMIT_FAILED then
               (Some (T_PAYOUT_FAILED F_SEND), cleared Op (act PAY_REFUSED w1))
             else (Some (T_PAYOUT_FAILED F_SEND), w1))))"

definition payOnchainOut :: "claim_opts \<Rightarrow> claim_deps \<Rightarrow> claim_world \<Rightarrow> claim_terminal option \<times> claim_world" where
  "payOnchainOut Op D w = (case cd_payOnchain D of
     None \<Rightarrow> (Some (T_PAYOUT_FAILED F_SEND), w)
   | Some ok \<Rightarrow> (let w1 = act (PAY_ONCHAIN (co_expectedDeltaMsats Op div 1000)) w in
       if ok then finishPaid Op w1 else (Some (T_PAYOUT_FAILED F_SEND), w1)))"

definition creditProof :: "claim_opts \<Rightarrow> claim_deps \<Rightarrow> settled_by \<Rightarrow> claim_world \<Rightarrow> claim_world" where
  "creditProof Op D by w = (if by = BY_GROWTH
     then act RESERVE_CREDIT (act (RECORD_CREDIT (co_expectedDeltaMsats Op))
       (w\<lparr>cw_ledger := recordClaimCredit (cd_now D) (cd_creditSaves D) (cw_ledger w) (co_escrowId Op) (co_expectedDeltaMsats Op)\<rparr>))
     else w)"

section \<open>The orchestrator\<close>

definition exportEcashNow :: "claim_opts \<Rightarrow> claim_deps \<Rightarrow> claim_world \<Rightarrow> claim_terminal option \<times> claim_world" where
  "exportEcashNow Op D w = (case cd_claimAndExportEcash D of
     None \<Rightarrow> (Some (T_PAYOUT_FAILED F_NO_DIRECT_ECASH), w)
   | Some None \<Rightarrow> (Some T_CLAIM_FAILED, act EXPORT_NOTES w)
   | Some (Some n) \<Rightarrow> (Some (T_ECASH_READY n), act EXPORT_NOTES w))"

definition claimAndPay :: "claim_opts \<Rightarrow> claim_deps \<Rightarrow> claim_world \<Rightarrow> claim_terminal option \<times> claim_world" where
  "claimAndPay Op D w = (case cd_balance D 0 of
     None \<Rightarrow> (Some T_CLAIM_FAILED, w)
   | Some baseline \<Rightarrow> (let
       resumed = (co_claimAlreadyPublished Op \<and> balanceCoversPayout baseline (co_expectedDeltaMsats Op) (co_payoutKind Op));
       w1 = (if resumed then w else act REDEEM_CLAIM w)
     in case claimCall Op D resumed of
       Inl t \<Rightarrow> (Some t, w1)
     | Inr failedHard \<Rightarrow> (case settlementVerdict Op D baseline resumed failedHard of
         None \<Rightarrow> (None, w1)
       | Some None \<Rightarrow> (Some (if failedHard then T_CLAIM_FAILED else T_CLAIM_PENDING), w1)
       | Some (Some by) \<Rightarrow> (let w2 = creditProof Op D by w1 in
           if co_payoutKind Op = PK_ONCHAIN then payOnchainOut Op D w2 else payLightning Op D w2))))"

text \<open>The terminal is \<open>None\<close> while the watchdog polls on.\<close>

definition runClaimAndPayout :: "claim_opts \<Rightarrow> claim_deps \<Rightarrow> claim_world \<Rightarrow> claim_terminal option \<times> claim_world" where
  "runClaimAndPayout Op D w =
     (if co_payoutKind Op = PK_ECASH \<and> cd_prepareEcashExport D = None
      then (Some (T_PAYOUT_FAILED F_EXPORT_UNSAFE), w)
      else case (if co_payoutKind Op = PK_ECASH then Option.bind (cd_prepareEcashExport D) id else None) of
        Some n \<Rightarrow> (Some (T_ECASH_READY n), w)
      | None \<Rightarrow> (case (if co_payoutKind Op = PK_LIGHTNING then payoutInvoiceError (co_bolt11 Op) (co_expectedDeltaMsats Op) else None) of
          Some e \<Rightarrow> (Some (T_PAYOUT_FAILED (F_INVOICE e)), w)
        | None \<Rightarrow> (case payoutGuard Op D w of
            (Some t, w1) \<Rightarrow> (Some t, w1)
          | (None, w1) \<Rightarrow> if co_payoutKind Op = PK_ECASH then exportEcashNow Op D w1 else claimAndPay Op D w1)))"

end
