(* ===== verification/Double_Pay.thy ===== *)
theory Double_Pay
  imports Claim_Payout
begin

text \<open>
  The double-pay guard across retries and crashes. A payment is live from its dispatch until it
  comes back; \<open>payHistory\<close> relates an escrow to the pairs of a stored journal and the operation ids
  of its live Lightning payments that any number of runs, each cut at any point, can lead to.
  What the wallet answers is assumed to be true of the live payments (\<open>truthful\<close>); what the
  journal says is not.
\<close>

section \<open>Live payments\<close>

type_synonym ghost = "stored \<times> string list"

text \<open>One log entry: a dispatch makes the payment live under the id the wallet gives it, a coded
  refusal takes it back.\<close>

fun follow :: "string \<Rightarrow> ghost \<Rightarrow> effect \<times> stored \<Rightarrow> ghost" where
  "follow o1 (J, L) (x, J') = (J', case x of PAY_INVOICE _ \<Rightarrow> o1 # L | PAY_REFUSED \<Rightarrow> remove1 o1 L | _ \<Rightarrow> L)"

definition sendsMoney :: "effect \<Rightarrow> bool" where
  "sendsMoney x \<longleftrightarrow> (case x of PAY_INVOICE _ \<Rightarrow> True | PAY_ONCHAIN _ \<Rightarrow> True | EXPORT_NOTES \<Rightarrow> True | _ \<Rightarrow> False)"

definition recordOf :: "stored \<Rightarrow> string \<Rightarrow> payout_record option" where
  "recordOf J i = (case J of Readable j \<Rightarrow> map_of j i | _ \<Rightarrow> None)"

text \<open>The wallet's answers are true of the live payments \<open>L\<close>: a refund means that the payment asked
  about is not live, an empty scan that no payment left under an intent (a submitted payment may
  predate the stamps the scan reads), an in-flight answer names the live one, and the error of the
  payment about to be dispatched carries no other id than its own.\<close>

definition truthful :: "claim_deps \<Rightarrow> string \<Rightarrow> ghost \<Rightarrow> string \<Rightarrow> bool" where
  "truthful D i g o1 \<longleftrightarrow>
     (\<forall>t. (case cd_payOutcomeByEscrow D i t of
         Some (O_REFUNDED, _) \<Rightarrow> snd g = []
       | Some (O_NONE, _) \<Rightarrow> map_option py_status (recordOf (fst g) i) = Some P_INTENT \<longrightarrow> snd g = []
       | Some (O_INFLIGHT, Some op) \<Rightarrow> set (snd g) \<subseteq> {op}
       | _ \<Rightarrow> True))
     \<and> (\<forall>op. cd_awaitPayoutOutcome D op = Some O_REFUNDED \<longrightarrow> op \<notin> set (snd g))
     \<and> (case cd_payInvoice D of PayThrew LN_PAY_INFLIGHT (Some op) \<Rightarrow> op = o1 | _ \<Rightarrow> True)"

text \<open>At most one payment is live, and while one is the journal holds a record, which names no other
  operation unless it is settled.\<close>

fun guarded_by :: "string \<Rightarrow> ghost \<Rightarrow> bool" where
  "guarded_by i (J, L) \<longleftrightarrow> length L \<le> 1 \<and> (L = [] \<or> J = Unreadable
     \<or> (\<exists>r. recordOf J i = Some r \<and> (\<forall>op. py_status r \<noteq> P_SETTLED \<and> py_operationId r = Some op \<longrightarrow> set L \<subseteq> {op})))"

inductive payHistory :: "string \<Rightarrow> ghost \<Rightarrow> bool" for i where
  fresh: "recordOf J i = None \<Longrightarrow> payHistory i (J, [])"
| attempt: "payHistory i g \<Longrightarrow> truthful D i g o1 \<Longrightarrow> co_escrowId Op = i \<Longrightarrow> js_journal (cw_store w) = fst g \<Longrightarrow> cw_log w = []
    \<Longrightarrow> runClaimAndPayout Op D w = (t, w') \<Longrightarrow> CLEAR_FAILED \<notin> fst ` set (take n (cw_log w'))
    \<Longrightarrow> payHistory i (foldl (follow o1) g (take n (cw_log w')))"
| refunded: "payHistory i (J, L) \<Longrightarrow> payHistory i (J, remove1 op L)"

declare follow.simps [simp del] guarded_by.simps [simp del]

section \<open>Logs\<close>

text \<open>A log from \<open>g\<close> is lawful when every state it passes is guarded and money is sent only while no
  payment is live; nothing is asked after a failed clear.\<close>

fun lawful :: "string \<Rightarrow> string \<Rightarrow> ghost \<Rightarrow> (effect \<times> stored) list \<Rightarrow> bool" where
  "lawful i o1 g [] \<longleftrightarrow> guarded_by i g"
| "lawful i o1 g (x # xs) \<longleftrightarrow> guarded_by i g \<and> (sendsMoney (fst x) \<longrightarrow> snd g = [])
     \<and> (fst x = CLEAR_FAILED \<or> lawful i o1 (follow o1 g x) xs)"

definition failedClear :: "claim_world \<Rightarrow> bool" where
  "failedClear w \<longleftrightarrow> CLEAR_FAILED \<in> fst ` set (cw_log w)"

lemma lawful_append:
  "lawful i o1 g (xs @ ys) \<longleftrightarrow> lawful i o1 g xs \<and> (CLEAR_FAILED \<in> fst ` set xs \<or> lawful i o1 (foldl (follow o1) g xs) ys)"
proof (induction xs arbitrary: g)
  case Nil
  then show ?case by (cases ys) auto
qed auto

text \<open>\<open>onTrack\<close>: the log so far is lawful and, unless a clear failed, leads to the stored journal and the
  live payments \<open>L\<close>.\<close>

definition onTrack :: "string \<Rightarrow> string \<Rightarrow> ghost \<Rightarrow> claim_world \<Rightarrow> string list \<Rightarrow> bool" where
  "onTrack i o1 g w L \<longleftrightarrow> lawful i o1 g (cw_log w)
     \<and> (failedClear w \<or> foldl (follow o1) g (cw_log w) = (js_journal (cw_store w), L))"

lemma onTrack_start:
  "guarded_by i g \<Longrightarrow> js_journal (cw_store w) = fst g \<Longrightarrow> cw_log w = [] \<Longrightarrow> onTrack i o1 g w (snd g)"
  by (simp add: onTrack_def)

lemma onTrack_guarded: "onTrack i o1 g w L \<Longrightarrow> failedClear w \<or> guarded_by i (js_journal (cw_store w), L)"
proof -
  assume a: "onTrack i o1 g w L"
  have "lawful i o1 g xs \<Longrightarrow> CLEAR_FAILED \<in> fst ` set xs \<or> guarded_by i (foldl (follow o1) g xs)" for xs
  proof (induction xs arbitrary: g)
    case (Cons x xs)
    from Cons.IH [of "follow o1 g x"] Cons.prems show ?case by auto
  qed simp
  with a show ?thesis unfolding onTrack_def failedClear_def by metis
qed

lemma onTrack_ledger [simp]: "onTrack i o1 g (w\<lparr>cw_ledger := l\<rparr>) L = onTrack i o1 g w L"
  by (simp add: onTrack_def failedClear_def)

lemma onTrack_sameJournal:
  "onTrack i o1 g w L \<Longrightarrow> js_journal s = js_journal (cw_store w) \<Longrightarrow> onTrack i o1 g (w\<lparr>cw_store := s\<rparr>) L"
  by (simp add: onTrack_def failedClear_def)

text \<open>Acting: the next entry leads where \<open>follow\<close> says.\<close>

lemma onTrack_act:
  assumes "onTrack i o1 g w L" "js_journal s = J'" "follow o1 (js_journal (cw_store w), L) (x, J') = (J', L')"
    "failedClear w \<or> guarded_by i (J', L')" "sendsMoney x \<Longrightarrow> failedClear w \<or> L = []" "x \<noteq> CLEAR_FAILED"
  shows "onTrack i o1 g (act x (w\<lparr>cw_store := s\<rparr>)) L'"
proof (cases "failedClear w")
  case True
  with assms(1) show ?thesis by (simp add: onTrack_def act_def failedClear_def lawful_append)
next
  case False
  with assms onTrack_guarded [OF assms(1)] show ?thesis
    by (auto simp: onTrack_def act_def failedClear_def lawful_append)
qed

lemma onTrack_quiet:
  assumes "onTrack i o1 g w L" "\<not> sendsMoney x" "x \<notin> {PAY_REFUSED, CLEAR_FAILED}"
  shows "onTrack i o1 g (act x w) L"
proof -
  have "follow o1 (js_journal (cw_store w), L) (x, js_journal (cw_store w)) = (js_journal (cw_store w), L)"
    using assms(2,3) by (auto simp: sendsMoney_def follow.simps split: effect.splits)
  from onTrack_act [OF assms(1) refl this] onTrack_guarded [OF assms(1)] assms(2,3) show ?thesis by simp
qed

lemma onTrack_stored:
  assumes "onTrack i o1 g w L" "failedClear w \<or> guarded_by i (js_journal s, L)"
  shows "onTrack i o1 g (stored_as s w) L"
  unfolding stored_as_def using onTrack_act [OF assms(1) refl _ assms(2), where x = JOURNAL_WRITE]
  by (simp add: sendsMoney_def follow.simps)

lemma failedClear_act [simp]: "failedClear (act x w) = (x = CLEAR_FAILED \<or> failedClear w)"
  by (auto simp: failedClear_def act_def)

lemma failedClear_stored [simp]: "failedClear (stored_as s w) = failedClear w" "failedClear (w\<lparr>cw_store := s\<rparr>) = failedClear w"
  "failedClear (w\<lparr>cw_ledger := l\<rparr>) = failedClear w"
  by (simp_all add: stored_as_def) (simp_all add: failedClear_def)

section \<open>Journal writes\<close>

lemma writeOutcome_journal: "writeOutcome s = (b, s') \<Longrightarrow> js_journal s' = js_journal s"
  by (auto simp: writeOutcome_def split: list.splits)

lemma saveJournal_journal: "saveJournal s j = (e, s') \<Longrightarrow> js_journal s' = (if e = None then Readable j else js_journal s)"
  by (auto simp: saveJournal_def dest: writeOutcome_journal split: prod.splits bool.splits)

lemma putRecord_record:
  assumes "putRecord s j r = (e, s')" "py_escrowId r = i" "recordOf (js_journal s) i = map_of j i"
  shows "recordOf (js_journal s') i = (if e = None then Some r else map_of j i)"
  using saveJournal_journal [OF assms(1) [unfolded putRecord_def]] assms(2,3) by (auto simp: recordOf_def update_conv')

lemma loadJournalStrict_Inr: "loadJournalStrict s = Inr j \<Longrightarrow> recordOf (js_journal s) i = map_of j i"
  by (auto simp: loadJournalStrict_def recordOf_def split: stored.splits)

lemma recordOf_loaded: "getPayoutRecord s i = recordOf (js_journal s) i"
  by (simp add: getPayoutRecord_def loadJournal_def loadJournalStrict_def recordOf_def split: stored.splits)

lemma clearPayoutRecord_gone:
  assumes "clearPayoutRecord s i = (True, s')"
  shows "recordOf (js_journal s') i = None"
  using assms by (auto simp: clearPayoutRecord_def loadJournalStrict_Inr recordOf_def delete_conv'
      split: sum.splits if_splits prod.splits dest!: saveJournal_journal dest: loadJournalStrict_Inr [where i = i])

text \<open>What the writers leave under the escrow's key.\<close>

lemma markPayoutSettled_record:
  assumes "markPayoutSettled now s i op = (e, s')"
  shows "js_journal s' = js_journal s \<or> (\<exists>r. recordOf (js_journal s') i = Some r \<and> py_status r = P_SETTLED)"
proof (cases "loadJournalStrict s")
  case (Inr j)
  with assms obtain r where p: "putRecord s j r = (e, s')" "py_escrowId r = i" "py_status r = P_SETTLED"
    by (auto simp: markPayoutSettled_def Let_def)
  from putRecord_record [OF p(1,2) loadJournalStrict_Inr [OF Inr]] p(3) saveJournal_journal [OF p(1) [unfolded putRecord_def]]
  show ?thesis by (cases e) auto
qed (use assms in \<open>simp add: markPayoutSettled_def\<close>)

lemma recordPayoutSubmitted_record:
  assumes "recordPayoutSubmitted now s i op amount = (e, s')"
  shows "js_journal s' = js_journal s \<or> (\<exists>r. recordOf (js_journal s') i = Some r \<and> py_status r = P_SUBMITTED
    \<and> py_operationId r = orElse op (priorOp (recordOf (js_journal s) i)))"
proof (cases "loadJournalStrict s")
  case (Inr j)
  show ?thesis
  proof (cases "map_option py_status (map_of j i) = Some P_SETTLED")
    case False
    with Inr assms obtain r where p: "putRecord s j r = (e, s')" "py_escrowId r = i" "py_status r = P_SUBMITTED"
      "py_operationId r = orElse op (priorOp (map_of j i))"
      by (auto simp: recordPayoutSubmitted_def Let_def split: if_splits)
    from putRecord_record [OF p(1,2) loadJournalStrict_Inr [OF Inr]] p(3,4) loadJournalStrict_Inr [OF Inr, of i]
      saveJournal_journal [OF p(1) [unfolded putRecord_def]]
    show ?thesis by (cases e) auto
  qed (use assms Inr in \<open>simp add: recordPayoutSubmitted_def Let_def\<close>)
qed (use assms in \<open>simp add: recordPayoutSubmitted_def\<close>)

lemma recordPayoutIntent_record:
  assumes "recordPayoutIntent now s i amount = (None, s')"
  shows "\<exists>r. recordOf (js_journal s') i = Some r
    \<and> (py_operationId r = None \<or> recordOf (js_journal s) i = Some r)"
proof (cases "loadJournalStrict s")
  case (Inr j)
  show ?thesis
  proof (cases "map_option py_status (map_of j i) \<in> {Some P_SETTLED, Some P_SUBMITTED}")
    case True
    with Inr assms show ?thesis using loadJournalStrict_Inr [OF Inr, of i]
      by (auto simp: recordPayoutIntent_def Let_def)
  next
    case False
    with Inr assms obtain r where p: "putRecord s j r = (None, s')" "py_escrowId r = i" "py_operationId r = None"
      by (auto simp: recordPayoutIntent_def Let_def split: if_splits)
    from putRecord_record [OF p(1,2) loadJournalStrict_Inr [OF Inr]] p(3) show ?thesis by auto
  qed
qed (use assms in \<open>simp add: recordPayoutIntent_def\<close>)

text \<open>A write keeps the guard when the record it leaves names no operation but the live one.\<close>

lemma guarded_write:
  assumes "guarded_by i (J, L)"
    "J' = J \<or> (\<exists>r. recordOf J' i = Some r \<and> (\<forall>op. py_status r \<noteq> P_SETTLED \<and> py_operationId r = Some op \<longrightarrow> set L \<subseteq> {op}))"
  shows "guarded_by i (J', L)"
  using assms by (auto simp: guarded_by.simps)

lemma guarded_none: "guarded_by i (J, [])"
  by (simp add: guarded_by.simps)

lemma onTrack_settled:
  assumes "onTrack i o1 g w L" "markPayoutSettled now (cw_store w) i op = (e, s')"
  shows "onTrack i o1 g (stored_as s' w) L"
  using onTrack_stored [OF assms(1)] onTrack_guarded [OF assms(1)] guarded_write markPayoutSettled_record [OF assms(2)]
  by metis

lemma onTrack_submitted:
  assumes "onTrack i o1 g w L" "recordPayoutSubmitted now (cw_store w) i op amount = (e, s')"
    "failedClear w \<or> (\<forall>x. orElse op (priorOp (recordOf (js_journal (cw_store w)) i)) = Some x \<longrightarrow> set L \<subseteq> {x})"
  shows "onTrack i o1 g (stored_as s' w) L"
  using onTrack_stored [OF assms(1)] onTrack_guarded [OF assms(1)] guarded_write recordPayoutSubmitted_record [OF assms(2)] assms(3)
  by metis

lemma onTrack_cleared:
  assumes "onTrack i o1 g w L" "failedClear w \<or> L = []" "co_escrowId Op = i"
  shows "onTrack i o1 g (cleared Op w) L"
proof -
  obtain gone s where c: "clearPayoutRecord (cw_store w) i = (gone, s)" by fastforce
  show ?thesis
  proof (cases gone)
    case True
    with c assms show ?thesis using onTrack_stored [OF assms(1), of s] by (auto simp: cleared_def guarded_none)
  next
    case False
    with c assms(1,3) onTrack_guarded [OF assms(1)] show ?thesis
      by (auto simp: cleared_def onTrack_def act_def failedClear_def lawful_append sendsMoney_def)
  qed
qed

lemma cleared_record:
  "co_escrowId Op = i \<Longrightarrow> failedClear (cleared Op w) \<or> recordOf (js_journal (cw_store (cleared Op w))) i = None"
proof -
  assume op: "co_escrowId Op = i"
  obtain gone s where c: "clearPayoutRecord (cw_store w) i = (gone, s)" by fastforce
  then have "\<not> gone \<or> recordOf (js_journal s) i = None" using clearPayoutRecord_gone by (cases gone) auto
  with c op show ?thesis by (auto simp: cleared_def stored_as_def act_def failedClear_def)
qed

section \<open>One run\<close>

lemma finishSettled_onTrack:
  assumes "onTrack i o1 g w L" "finishSettled Op D op w = (t, w')" "co_escrowId Op = i"
  shows "onTrack i o1 g w' L" "t \<noteq> None"
  using assms onTrack_settled [OF assms(1) surjective_pairing]
  by (auto simp: finishSettled_def Let_def sendsMoney_def intro!: onTrack_quiet)

lemma finishPaid_onTrack:
  assumes "onTrack i o1 g w L" "finishPaid Op w = (t, w')"
  shows "onTrack i o1 g w' L"
  using assms by (auto simp: finishPaid_def Let_def sendsMoney_def split: option.splits if_splits intro!: onTrack_quiet)

lemma reconcile_onTrack:
  assumes on: "onTrack i o1 g w (snd g)" and tr: "truthful D i g o1" and op: "co_escrowId Op = i"
    and j: "js_journal (cw_store w) = fst g" and r: "recordOf (fst g) i = Some r"
    and st: "py_status r \<noteq> P_SETTLED" "trust \<Longrightarrow> py_status r = P_INTENT" and grd: "guarded_by i g"
    and run: "reconcileByEscrow Op D createdAt trust w = (t, w')"
  shows "onTrack i o1 g w' (snd g) \<and> (t = None \<longrightarrow> failedClear w' \<or> snd g = [] \<and> recordOf (js_journal (cw_store w')) i = None)"
proof -
  obtain found x where f: "getOr (cd_payOutcomeByEscrow D i (createdAt - PAY_RECONCILE_SINCE_MARGIN_MS)) (O_UNKNOWN, None) = (found, x)"
    by fastforce
  then have w: "cd_payOutcomeByEscrow D i (createdAt - PAY_RECONCILE_SINCE_MARGIN_MS) = Some (found, x) \<or> found = O_UNKNOWN"
    by (cases "cd_payOutcomeByEscrow D i (createdAt - PAY_RECONCILE_SINCE_MARGIN_MS)") (auto simp: getOr_def)
  show ?thesis
  proof (cases found)
    case O_SETTLED
    with run f op have "finishSettled Op D x w = (t, w')" by (simp add: reconcileByEscrow_def)
    from finishSettled_onTrack [OF on this op] show ?thesis by blast
  next
    case O_INFLIGHT
    obtain J L where g: "g = (J, L)" by fastforce
    have "\<forall>y. orElse x (priorOp (Some r)) = Some y \<longrightarrow> set (snd g) \<subseteq> {y}"
    proof (cases x)
      case None
      with grd r st(1) g show ?thesis by (auto simp: orElse_def priorOp_def guarded_by.simps recordOf_def split: stored.splits)
    next
      case (Some y)
      with O_INFLIGHT w tr show ?thesis
        by (auto simp: truthful_def orElse_def dest!: spec [of _ "createdAt - PAY_RECONCILE_SINCE_MARGIN_MS"])
    qed
    with O_INFLIGHT run f op show ?thesis
      using onTrack_submitted [OF on surjective_pairing, where now = "cd_now D" and op = x and amount = "Some (co_expectedDeltaMsats Op)"] j r
      by (auto simp: reconcileByEscrow_def)
  next
    case O_REFUNDED
    with w tr have "snd g = []" by (auto simp: truthful_def dest!: spec [of _ "createdAt - PAY_RECONCILE_SINCE_MARGIN_MS"])
    with O_REFUNDED run f op show ?thesis using onTrack_cleared [OF on _ op] cleared_record [OF op, of w] by (auto simp: reconcileByEscrow_def)
  next
    case O_NONE
    show ?thesis
    proof (cases trust)
      case True
      with O_NONE w tr st(2) r have "snd g = []"
        by (auto simp: truthful_def dest!: spec [of _ "createdAt - PAY_RECONCILE_SINCE_MARGIN_MS"])
      with O_NONE run f op True show ?thesis using onTrack_cleared [OF on _ op] cleared_record [OF op, of w] by (auto simp: reconcileByEscrow_def)
    qed (use O_NONE run f op on in \<open>auto simp: reconcileByEscrow_def\<close>)
  qed (use run f op on in \<open>auto simp: reconcileByEscrow_def\<close>)
qed

lemma reattach_onTrack:
  assumes on: "onTrack i o1 g w (snd g)" and tr: "truthful D i g o1" and op: "co_escrowId Op = i"
    and r: "recordOf (fst g) i = Some r" "py_status r = P_SUBMITTED" "py_operationId r = Some x" and grd: "guarded_by i g"
    and run: "reattach Op D x w = (t, w')"
  shows "onTrack i o1 g w' (snd g) \<and> (t = None \<longrightarrow> failedClear w' \<or> snd g = [] \<and> recordOf (js_journal (cw_store w')) i = None)"
proof -
  define found where "found = getOr (cd_awaitPayoutOutcome D x) O_UNKNOWN"
  show ?thesis
  proof (cases found)
    case O_SETTLED
    with run have "finishSettled Op D (Some x) w = (t, w')" by (simp add: reattach_def found_def)
    from finishSettled_onTrack [OF on this op] show ?thesis by blast
  next
    case O_REFUNDED
    then have "cd_awaitPayoutOutcome D x = Some O_REFUNDED" by (cases "cd_awaitPayoutOutcome D x") (auto simp: found_def)
    with tr have "x \<notin> set (snd g)" by (simp add: truthful_def)
    moreover have "set (snd g) \<subseteq> {x}"
      using grd r by (cases g) (auto simp: guarded_by.simps recordOf_def split: stored.splits)
    ultimately have "snd g = []" by (cases "snd g") auto
    with O_REFUNDED run show ?thesis using onTrack_cleared [OF on _ op] cleared_record [OF op, of w] by (auto simp: reattach_def found_def)
  qed (use run on in \<open>auto simp: reattach_def found_def\<close>)
qed

lemma payoutGuard_onTrack:
  assumes on: "onTrack i o1 g w (snd g)" and tr: "truthful D i g o1" and op: "co_escrowId Op = i"
    and j: "js_journal (cw_store w) = fst g" and grd: "guarded_by i g" and run: "payoutGuard Op D w = (t, w')"
  shows "onTrack i o1 g w' (snd g) \<and> (t = None \<longrightarrow> failedClear w' \<or> snd g = [] \<and> recordOf (js_journal (cw_store w')) i = None)"
proof (cases "assertPayoutJournalReadable (cw_store w) = None")
  case False
  with run on show ?thesis by (auto simp: payoutGuard_def)
next
  case readable: True
  then have nu: "fst g \<noteq> Unreadable"
    using j by (auto simp: assertPayoutJournalReadable_def loadJournalStrict_def split: stored.splits)
  show ?thesis
  proof (cases "recordOf (fst g) i")
    case None
    with grd nu have "snd g = []" by (cases g) (auto simp: guarded_by.simps)
    with None run on readable op j show ?thesis by (simp add: payoutGuard_def recordOf_loaded)
  next
    case (Some r)
    show ?thesis
    proof (cases "py_status r")
      case P_SETTLED
      with Some run on readable op j show ?thesis
        by (auto simp: payoutGuard_def recordOf_loaded sendsMoney_def intro!: onTrack_quiet)
    next
      case P_INTENT
      with Some run readable op j have "reconcileByEscrow Op D (py_createdAt r) True w = (t, w')"
        by (simp add: payoutGuard_def recordOf_loaded)
      from reconcile_onTrack [OF on tr op j Some _ _ grd this] P_INTENT show ?thesis by simp
    next
      case P_SUBMITTED
      show ?thesis
      proof (cases "nonEmpty (py_operationId r)")
        case None
        with P_SUBMITTED Some run readable op j have "reconcileByEscrow Op D (py_createdAt r) False w = (t, w')"
          by (simp add: payoutGuard_def recordOf_loaded)
        from reconcile_onTrack [OF on tr op j Some _ _ grd this] P_SUBMITTED show ?thesis by simp
      next
        case (Some x)
        with P_SUBMITTED \<open>recordOf (fst g) i = Some r\<close> run readable op j have "reattach Op D x w = (t, w')"
          by (simp add: payoutGuard_def recordOf_loaded)
        from reattach_onTrack [OF on tr op _ P_SUBMITTED _ grd this] Some \<open>recordOf (fst g) i = Some r\<close> show ?thesis
          by (auto simp: nonEmpty_eq_Some)
      qed
    qed
  qed
qed

text \<open>The payout phases, entered with no live payment and no record.\<close>

definition clear_to_pay :: "string \<Rightarrow> string \<Rightarrow> ghost \<Rightarrow> claim_world \<Rightarrow> bool" where
  "clear_to_pay i o1 g w \<longleftrightarrow> (\<exists>L. onTrack i o1 g w L \<and> (failedClear w \<or> L = [] \<and> recordOf (js_journal (cw_store w)) i = None))"

lemma payLightning_onTrack:
  assumes clr: "clear_to_pay i o1 g w" and inflight: "\<forall>x. cd_payInvoice D = PayThrew LN_PAY_INFLIGHT (Some x) \<longrightarrow> x = o1"
    and op: "co_escrowId Op = i" and run: "payLightning Op D w = (t, w')"
  shows "\<exists>L. onTrack i o1 g w' L"
proof -
  obtain a s where a: "assertPayoutJournalWritable (cw_store w) = (a, s)" by fastforce
  then have sj: "js_journal s = js_journal (cw_store w)"
    by (auto simp: assertPayoutJournalWritable_def dest: writeOutcome_journal split: sum.splits prod.splits bool.splits)
  obtain b s1 where b: "recordPayoutIntent (cd_now D) s i (Some (co_expectedDeltaMsats Op)) = (b, s1)" by fastforce
  from clr obtain L where on: "onTrack i o1 g w L" "failedClear w \<or> L = [] \<and> recordOf (js_journal (cw_store w)) i = None"
    by (auto simp: clear_to_pay_def)
  have s1j: "js_journal s1 = js_journal s" if "b \<noteq> None"
    using b that by (auto simp: recordPayoutIntent_def putRecord_def Let_def dest!: saveJournal_journal split: sum.splits if_splits)
  show ?thesis
  proof (cases "a = None \<and> b = None")
    case False
    with run a b op have "w' = w\<lparr>cw_store := s\<rparr> \<or> w' = w\<lparr>cw_store := s1\<rparr> \<and> b \<noteq> None"
      by (auto simp: payLightning_def split: option.splits)
    with onTrack_sameJournal [OF on(1)] sj s1j show ?thesis by auto
  next
    case True
    then have ab: "a = None" "b = None" by simp_all
    define w1 where "w1 = act (PAY_INVOICE (co_bolt11 Op)) (stored_as s1 w)"
    obtain r where r: "recordOf (js_journal s1) i = Some r" "py_operationId r = None \<or> recordOf (js_journal s) i = Some r"
      using recordPayoutIntent_record [OF b [unfolded ab(2)]] by blast
    have grd: "failedClear w \<or> guarded_by i (js_journal s1, [o1]) \<and> guarded_by i (js_journal s1, [])"
      using on(2) r sj by (auto simp: guarded_by.simps)
    have on': "onTrack i o1 g (stored_as s1 w) L" using onTrack_stored [OF on(1)] grd on(2) by auto
    have on1: "onTrack i o1 g w1 (o1 # L)"
      unfolding w1_def
      using onTrack_act [OF on' refl, where x = "PAY_INVOICE (co_bolt11 Op)" and L' = "o1 # L" and s = "cw_store (stored_as s1 w)"] grd on(2)
      by (auto simp: follow.simps stored_as_def act_def failedClear_def)
    have j1: "cw_store w1 = s1" "failedClear w1 = failedClear w" by (simp_all add: w1_def stored_as_def act_def) (simp add: failedClear_def)
    show ?thesis
    proof (cases "cd_payInvoice D")
      case (Paid x)
      obtain e s2 where m: "markPayoutSettled (cd_now D) (cw_store w1) i x = (e, s2)" by fastforce
      show ?thesis
      proof (cases e)
        case None
        with run a b ab op Paid m have "finishPaid Op (stored_as s2 w1) = (t, w')" by (simp add: payLightning_def w1_def Let_def)
        from finishPaid_onTrack [OF onTrack_settled [OF on1 m] this] show ?thesis by blast
      next
        case (Some y)
        with run a b ab op Paid m have "w' = w1\<lparr>cw_store := s2\<rparr>" by (simp add: payLightning_def w1_def Let_def)
        moreover have "js_journal s2 = js_journal (cw_store w1)"
          using m Some by (auto simp: markPayoutSettled_def putRecord_def Let_def dest!: saveJournal_journal split: sum.splits)
        ultimately show ?thesis using onTrack_sameJournal [OF on1] by blast
      qed
    next
      case (PayThrew code x)
      show ?thesis
      proof (cases "code = LN_PAY_INFLIGHT")
        case True
        obtain e s2 where m: "recordPayoutSubmitted (cd_now D) (cw_store w1) i x (Some (co_expectedDeltaMsats Op)) = (e, s2)" by fastforce
        from run a b ab op PayThrew True m have w': "w' = stored_as s2 w1" by (simp add: payLightning_def w1_def Let_def)
        have "failedClear w1 \<or> (\<forall>y. orElse x (priorOp (recordOf (js_journal (cw_store w1)) i)) = Some y \<longrightarrow> set (o1 # L) \<subseteq> {y})"
          using inflight PayThrew True on(2) r sj j1 by (cases x) (auto simp: orElse_def priorOp_def)
        from onTrack_submitted [OF on1 m this] w' show ?thesis by blast
      next
        case False
        show ?thesis
        proof (cases "code = LN_PAY_REFUNDED \<or> code = LN_PAY_SUBMIT_FAILED")
          case True
          with run a b ab op PayThrew False have w': "w' = cleared Op (act PAY_REFUSED w1)" by (auto simp: payLightning_def w1_def Let_def)
          have "onTrack i o1 g (act PAY_REFUSED w1) L"
            using onTrack_act [OF on1 refl, where x = PAY_REFUSED and L' = L and s = "cw_store w1"] grd j1 on(2) by (auto simp: follow.simps sendsMoney_def)
          from onTrack_cleared [OF this _ op] w' on(2) j1 show ?thesis by auto
        next
          case other: False
          with run a b ab op PayThrew False on1 show ?thesis by (auto simp: payLightning_def w1_def Let_def)
        qed
      qed
    qed
  qed
qed

lemma clear_to_pay_act:
  "clear_to_pay i o1 g w \<Longrightarrow> \<not> sendsMoney x \<Longrightarrow> x \<notin> {PAY_REFUSED, CLEAR_FAILED} \<Longrightarrow> clear_to_pay i o1 g (act x w)"
  using onTrack_quiet by (fastforce simp: clear_to_pay_def act_def failedClear_def)

lemma clear_to_pay_ledger: "clear_to_pay i o1 g w \<Longrightarrow> clear_to_pay i o1 g (w\<lparr>cw_ledger := l\<rparr>)"
  by (simp add: clear_to_pay_def)

lemma clear_to_send:
  assumes "clear_to_pay i o1 g w" "sendsMoney x" "\<forall>b. x \<noteq> PAY_INVOICE b"
  shows "clear_to_pay i o1 g (act x w)"
proof -
  from assms(1) obtain L where on: "onTrack i o1 g w L" "failedClear w \<or> L = [] \<and> recordOf (js_journal (cw_store w)) i = None"
    by (auto simp: clear_to_pay_def)
  have "onTrack i o1 g (act x (w\<lparr>cw_store := cw_store w\<rparr>)) L"
    using onTrack_guarded [OF on(1)] on(2) assms(2,3)
    by (intro onTrack_act [OF on(1) refl]) (auto simp: follow.simps sendsMoney_def split: effect.splits)
  with on(2) show ?thesis by (auto simp: clear_to_pay_def act_def failedClear_def)
qed

lemma clear_onTrack: "clear_to_pay i o1 g w \<Longrightarrow> \<exists>L. onTrack i o1 g w L"
  by (auto simp: clear_to_pay_def)

lemma claimAndPay_onTrack:
  assumes clr: "clear_to_pay i o1 g w" and inflight: "\<forall>x. cd_payInvoice D = PayThrew LN_PAY_INFLIGHT (Some x) \<longrightarrow> x = o1"
    and op: "co_escrowId Op = i" and run: "claimAndPay Op D w = (t, w')"
  shows "\<exists>L. onTrack i o1 g w' L"
proof -
  have c1: "clear_to_pay i o1 g (if b then w else act REDEEM_CLAIM w)" for b
    using clr clear_to_pay_act [OF clr] by (simp add: sendsMoney_def)
  have c2: "clear_to_pay i o1 g (creditProof Op D b v)" if v: "clear_to_pay i o1 g v" for b v
  proof -
    let ?v = "v\<lparr>cw_ledger := recordClaimCredit (cd_now D) (cd_creditSaves D) (cw_ledger v) (co_escrowId Op) (co_expectedDeltaMsats Op)\<rparr>"
    have "clear_to_pay i o1 g (act (RECORD_CREDIT x) ?v)" for x
      by (rule clear_to_pay_act [OF clear_to_pay_ledger [OF v]]) (simp_all add: sendsMoney_def)
    then have "clear_to_pay i o1 g (act RESERVE_CREDIT (act (RECORD_CREDIT x) ?v))" for x
      by (rule clear_to_pay_act) (simp_all add: sendsMoney_def)
    with v show ?thesis by (simp add: creditProof_def)
  qed
  have c3: "\<exists>L. onTrack i o1 g w' L" if v: "clear_to_pay i o1 g v" and r: "payOnchainOut Op D v = (t, w')" for v
  proof -
    have "clear_to_pay i o1 g (act (PAY_ONCHAIN x) v)" for x
      by (rule clear_to_send [OF v]) (simp_all add: sendsMoney_def)
    then obtain L where "onTrack i o1 g (act (PAY_ONCHAIN (co_expectedDeltaMsats Op div 1000)) v) L"
      using clear_onTrack by blast
    with finishPaid_onTrack [OF this] clear_onTrack [OF v] r show ?thesis
      by (auto simp: payOnchainOut_def Let_def split: option.splits if_splits)
  qed
  show ?thesis
  proof (cases "cd_balance D 0")
    case None
    with run clear_onTrack [OF clr] show ?thesis by (simp add: claimAndPay_def)
  next
    case (Some base)
    define resumed where "resumed = (co_claimAlreadyPublished Op \<and> balanceCoversPayout base (co_expectedDeltaMsats Op) (co_payoutKind Op))"
    define w1 where "w1 = (if resumed then w else act REDEEM_CLAIM w)"
    have w1: "clear_to_pay i o1 g w1" using c1 by (simp add: w1_def)
    have run1: "(case claimCall Op D resumed of Inl t \<Rightarrow> (Some t, w1)
       | Inr failedHard \<Rightarrow> (case settlementVerdict Op D base resumed failedHard of None \<Rightarrow> (None, w1)
         | Some None \<Rightarrow> (Some (if failedHard then T_CLAIM_FAILED else T_CLAIM_PENDING), w1)
         | Some (Some b) \<Rightarrow> (if co_payoutKind Op = PK_ONCHAIN then payOnchainOut Op D (creditProof Op D b w1)
             else payLightning Op D (creditProof Op D b w1)))) = (t, w')"
      using run unfolding claimAndPay_def Some option.case Let_def resumed_def w1_def .
    show ?thesis
    proof (cases "w' = w1")
      case True
      with clear_onTrack [OF w1] show ?thesis by simp
    next
      case False
      with run1 obtain b where "(if co_payoutKind Op = PK_ONCHAIN then payOnchainOut Op D (creditProof Op D b w1)
             else payLightning Op D (creditProof Op D b w1)) = (t, w')"
        by (auto split: sum.splits option.splits)
      with c3 [OF c2 [OF w1]] payLightning_onTrack [OF c2 [OF w1] inflight op] show ?thesis by (auto split: if_splits)
    qed
  qed
qed

lemma run_onTrack:
  assumes grd: "guarded_by i g" and tr: "truthful D i g o1" and op: "co_escrowId Op = i"
    and w: "js_journal (cw_store w) = fst g" "cw_log w = []" and run: "runClaimAndPayout Op D w = (t, w')"
  shows "lawful i o1 g (cw_log w')"
proof -
  have on: "onTrack i o1 g w (snd g)" using onTrack_start [OF grd w] .
  obtain t1 w1 where p: "payoutGuard Op D w = (t1, w1)" by fastforce
  from payoutGuard_onTrack [OF on tr op w(1) grd p]
  have q: "onTrack i o1 g w1 (snd g)" "t1 = None \<Longrightarrow> clear_to_pay i o1 g w1" by (auto simp: clear_to_pay_def)
  have inflight: "\<forall>x. cd_payInvoice D = PayThrew LN_PAY_INFLIGHT (Some x) \<longrightarrow> x = o1" using tr by (auto simp: truthful_def)
  have ex: "\<exists>L. onTrack i o1 g w' L" if "t1 = None" "exportEcashNow Op D w1 = (t, w')"
    using that q clear_onTrack [OF clear_to_send [OF q(2)]] by (auto simp: exportEcashNow_def sendsMoney_def split: option.splits)
  have "\<exists>L. onTrack i o1 g w' L"
    using run p on q ex claimAndPay_onTrack [OF q(2) inflight op]
    by (auto simp: runClaimAndPayout_def split: option.splits if_splits)
  then show ?thesis by (auto simp: onTrack_def)
qed

section \<open>Retries and crashes\<close>

lemma lawful_take: "lawful i o1 g xs \<Longrightarrow> CLEAR_FAILED \<notin> fst ` set (take n xs) \<Longrightarrow> guarded_by i (foldl (follow o1) g (take n xs))"
proof (induction xs arbitrary: g n)
  case (Cons x xs)
  show ?case
  proof (cases n)
    case (Suc m)
    with Cons.prems have "lawful i o1 (follow o1 g x) xs" "CLEAR_FAILED \<notin> fst ` set (take m xs)" by auto
    from Cons.IH [OF this] Suc show ?thesis by simp
  qed (use Cons.prems in auto)
qed simp

lemma lawful_sends: "lawful i o1 g xs \<Longrightarrow> n < length xs \<Longrightarrow> CLEAR_FAILED \<notin> fst ` set (take n xs) \<Longrightarrow> sendsMoney (fst (xs ! n))
    \<Longrightarrow> snd (foldl (follow o1) g (take n xs)) = []"
proof (induction xs arbitrary: g n)
  case (Cons x xs)
  show ?case
  proof (cases n)
    case (Suc m)
    with Cons.prems have "lawful i o1 (follow o1 g x) xs" "m < length xs" "CLEAR_FAILED \<notin> fst ` set (take m xs)"
      "sendsMoney (fst (xs ! m))" by auto
    from Cons.IH [OF this] Suc show ?thesis by simp
  qed (use Cons.prems in auto)
qed simp

lemma payHistory_guarded: "payHistory i g \<Longrightarrow> guarded_by i g"
proof (induction rule: payHistory.induct)
  case (attempt g D o1 Op w t w' n)
  from lawful_take [OF run_onTrack [OF attempt.IH attempt.hyps(2-6)] attempt.hyps(7)] show ?case .
next
  case (refunded J L op)
  then show ?case by (cases L) (auto simp: guarded_by.simps)
qed (simp add: guarded_none)


section \<open>Concrete attempts\<close>

definition wClaimOpts :: claim_opts where
  "wClaimOpts = \<lparr>co_escrowId = ''trade'', co_bolt11 = ''lnbc10u1x'', co_expectedDeltaMsats = 2000000,
     co_claimAlreadyPublished = False, co_payoutKind = PK_LIGHTNING, co_saveAfter = False, co_addressUsed = None,
     co_confirmTimeoutMs = None, co_pollIntervalMs = None\<rparr>"

text \<open>The balance grows by the expected amount after the claim.\<close>

definition wDeps :: "pay_outcome option \<Rightarrow> pay_outcome \<Rightarrow> pay_answer \<Rightarrow> claim_deps" where
  "wDeps scan await pay = \<lparr>cd_now = 1000, cd_balance = (\<lambda>i. Some (if i = 0 then 0 else 2000000)), cd_clock = (\<lambda>i. int i * 5000),
     cd_claimAndRedeem = None, cd_prepareEcashExport = Some None, cd_claimAndExportEcash = None, cd_payInvoice = pay,
     cd_payOnchain = None, cd_payOutcomeByEscrow = (\<lambda>_ _. map_option (\<lambda>x. (x, None)) scan),
     cd_awaitPayoutOutcome = (\<lambda>op. if op = ''op1'' then Some await else None), cd_creditSaves = True\<rparr>"

definition wClaimWorld :: "stored \<Rightarrow> bool list \<Rightarrow> claim_world" where
  "wClaimWorld J writes = \<lparr>cw_store = \<lparr>js_journal = J, js_writes = writes\<rparr>, cw_ledger = [], cw_log = []\<rparr>"

definition wRun :: "claim_deps \<Rightarrow> stored \<Rightarrow> bool list \<Rightarrow> (effect \<times> stored) list" where
  "wRun D J writes = cw_log (snd (runClaimAndPayout wClaimOpts D (wClaimWorld J writes)))"

text \<open>A first attempt whose payment stays in flight, cut right after the dispatch; then a second one.\<close>

definition wFirst :: claim_deps where "wFirst = wDeps None O_UNKNOWN (PayThrew LN_PAY_INFLIGHT (Some ''op1''))"
definition wSecond :: claim_deps where "wSecond = wDeps (Some O_INFLIGHT) O_UNKNOWN (Paid None)"

definition wCrashed :: ghost where
  "wCrashed = foldl (follow ''op1'') (Absent, []) (take 5 (wRun wFirst Absent []))"

lemma wCrashed_facts: "snd wCrashed = [''op1'']" "recordOf (fst wCrashed) ''trade'' \<noteq> None"
  "map fst (take 5 (wRun wFirst Absent [])) = [REDEEM_CLAIM, RECORD_CREDIT 2000000, RESERVE_CREDIT, JOURNAL_WRITE, PAY_INVOICE ''lnbc10u1x'']"
  "map fst (wRun wSecond (fst wCrashed) []) = [JOURNAL_WRITE]"
  by code_simp+

definition wStale :: stored where
  "wStale = Readable [(''trade'', \<lparr>py_escrowId = ''trade'', py_status = P_SUBMITTED, py_operationId = Some ''op1'',
     py_amountMsats = Some 2000000, py_createdAt = 500, py_settledAt = None\<rparr>)]"

text \<open>The recorded payment came back; the clear of its record fails, and the run is cut after its dispatch.\<close>

definition wBlind :: claim_deps where "wBlind = wDeps None O_REFUNDED (PayThrew UNCODED None)"

lemma wCrashed_history: "payHistory ''trade'' wCrashed"
proof -
  have "payHistory ''trade'' (Absent, [])" by (rule fresh) (simp add: recordOf_def)
  moreover have "truthful wFirst ''trade'' (Absent, []) ''op1''" by (simp add: truthful_def wFirst_def wDeps_def)
  moreover have "co_escrowId wClaimOpts = ''trade''" by (simp add: wClaimOpts_def)
  moreover have "js_journal (cw_store (wClaimWorld Absent [])) = fst (Absent, [] :: string list)" "cw_log (wClaimWorld Absent []) = []"
    by (simp_all add: wClaimWorld_def)
  moreover have "CLEAR_FAILED \<notin> fst ` set (take 5 (wRun wFirst Absent []))"
    unfolding set_map [symmetric] wCrashed_facts(3) by simp
  ultimately show ?thesis unfolding wCrashed_def wRun_def
    by (intro attempt [OF _ _ _ _ _ surjective_pairing, where w = "wClaimWorld Absent []" and D = wFirst and n = 5]) auto
qed


text \<open>The guard rests on clearing the record. When a run finds the recorded payment refunded and the clear
  of its record fails, it pays all the same, under the record of the payment that came back; when
  the dispatch then throws an error without a code (or the run is cut there), it leaves a live payment which no record names, and the next run, told again
  that the recorded payment came back, pays a second time. Both times the wallet's answers are true.\<close>

theorem stale_record_pays_twice:
  "map fst (wRun wBlind wStale [False]) = [CLEAR_FAILED, REDEEM_CLAIM, RECORD_CREDIT 2000000, RESERVE_CREDIT, JOURNAL_WRITE, PAY_INVOICE ''lnbc10u1x'']
   \<and> truthful wBlind ''trade'' (wStale, []) ''op2''
   \<and> foldl (follow ''op2'') (wStale, []) (wRun wBlind wStale [False]) = (wStale, [''op2''])
   \<and> truthful wBlind ''trade'' (wStale, [''op2'']) ''op3''
   \<and> snd (foldl (follow ''op3'') (wStale, [''op2'']) (wRun wBlind wStale [])) = [''op3'', ''op2'']"
proof -
  have runs: "wRun wBlind wStale [False] = map (\<lambda>x. (x, wStale)) [CLEAR_FAILED, REDEEM_CLAIM, RECORD_CREDIT 2000000, RESERVE_CREDIT, JOURNAL_WRITE, PAY_INVOICE ''lnbc10u1x'']"
    by code_simp
  have again: "snd (foldl (follow ''op3'') (wStale, [''op2'']) (wRun wBlind wStale [])) = [''op3'', ''op2'']" by code_simp
  have tr: "truthful wBlind ''trade'' (wStale, L) o1" if "''op1'' \<notin> set L" for L o1
    using that by (simp add: truthful_def wBlind_def wDeps_def)
  show ?thesis unfolding again by (simp add: runs follow.simps tr)
qed

end
