(* ===== verification/Tranche_Gate.thy ===== *)
theory Tranche_Gate
  imports Reducer_Base
begin

text \<open>
  Sequential trades without a frozen parent (\<open>src/escrow-engine/tranche.ts\<close>): the even split
  that every client recomputes from the reference a slice carries, the choice of the state
  that stands for an index, the gate that decides whether the next slice may start, and the
  parameters of the next CREATE. The observation of credit and the rebuilding of a listing's
  parameters are arguments, as they are in the code. Fiat amounts are exact rationals here
  and doubles in the code.
\<close>

section \<open>The split\<close>

definition MIN_TRANCHES :: int where "MIN_TRANCHES = 2"
definition MAX_TRANCHES :: int where "MAX_TRANCHES = 12"
definition MIN_TRANCHE_SATS :: int where "MIN_TRANCHE_SATS = 10000"

definition planTrancheAmounts :: "int \<Rightarrow> int \<Rightarrow> int list" where
  "planTrancheAmounts totalMsats cnt =
     (if totalMsats \<le> 0 then []
      else let n = max MIN_TRANCHES (min MAX_TRANCHES cnt); base = totalMsats div n
        in if base \<le> 0 then [totalMsats]
           else (replicate (nat n) base)[nat (n - 1) := totalMsats - base * (n - 1)])"

definition plannedMaxLossMsats :: "int \<Rightarrow> int \<Rightarrow> int" where
  "plannedMaxLossMsats totalMsats cnt = (let amounts = planTrancheAmounts totalMsats cnt
     in if amounts = [] then 0 else Max (set amounts))"

definition maxUsefulTranches :: "int \<Rightarrow> int \<Rightarrow> int" where
  "maxUsefulTranches totalMsats minTrancheMsats =
     (if minTrancheMsats \<le> 0 then MAX_TRANCHES
      else let fits = totalMsats div minTrancheMsats
        in if fits < MIN_TRANCHES then (if fits \<le> 0 then 0 else 1) else min MAX_TRANCHES fits)"

definition trancheSplitAvailable :: "int \<Rightarrow> bool" where
  "trancheSplitAvailable totalMsats \<longleftrightarrow> MIN_TRANCHES \<le> maxUsefulTranches totalMsats (MIN_TRANCHE_SATS * 1000)"

definition amountIn :: "int list \<Rightarrow> int \<Rightarrow> int option" where
  "amountIn xs i = (if 0 \<le> i \<and> i < int (length xs) then Some (xs ! nat i) else None)"

definition trancheAmountAt :: "int \<Rightarrow> int \<Rightarrow> int \<Rightarrow> int" where
  "trancheAmountAt totalMsats cnt i = getOr (amountIn (planTrancheAmounts totalMsats cnt) i) 0"

text \<open>\<open>Math.round\<close> rounds halves up.\<close>

definition mathRound :: "rat \<Rightarrow> int" where
  "mathRound q = \<lfloor>q + 1 / 2\<rfloor>"

definition trancheFiatAt :: "rat \<Rightarrow> int \<Rightarrow> int \<Rightarrow> rat option" where
  "trancheFiatAt totalFiat cnt i = (if totalFiat \<le> 0 then None
     else let cents = planTrancheAmounts (mathRound (totalFiat * 100)) cnt
       in map_option (\<lambda>slice. of_int slice / 100) (amountIn cents i))"

definition outstandingMsats :: "tranche_ref \<Rightarrow> int \<Rightarrow> int" where
  "outstandingMsats ref settled =
     (\<Sum>n \<leftarrow> drop (nat (max 0 settled)) (planTrancheAmounts (tr_totalMsats ref) (tr_total ref)). n)"

section \<open>The states of a plan\<close>

definition trancheOf :: "state \<Rightarrow> tranche_ref option" where
  "trancheOf s = li_tranche (st_listing s)"

fun statusRank :: "status \<Rightarrow> nat" where
  "statusRank COMPLETED = 5"
| "statusRank EXPIRED = 4"
| "statusRank CANCELLED = 4"
| "statusRank CLAIMED = 3"
| "statusRank APPROVED = 2"
| "statusRank LOCKED = 1"
| "statusRank _ = 0"

text \<open>The map from index to state: a later state replaces an earlier one of its index only if it is
  further along, and keeps its place in the map.\<close>

definition keepFurthest :: "string \<Rightarrow> (int \<times> state) list \<Rightarrow> state \<Rightarrow> (int \<times> state) list" where
  "keepFurthest planId byIndex s = (case trancheOf s of
     None \<Rightarrow> byIndex
   | Some ref \<Rightarrow>
       if tr_planId ref \<noteq> planId then byIndex
       else if (case map_of byIndex (tr_index ref) of None \<Rightarrow> True
                | Some prior \<Rightarrow> statusRank (st_status prior) < statusRank (st_status s))
       then AList.update (tr_index ref) s byIndex else byIndex)"

definition tranchesForPlan :: "string \<Rightarrow> state list \<Rightarrow> state list" where
  "tranchesForPlan planId states =
     map snd (sortWith (\<lambda>a b. fst a < fst b) (foldl (keepFurthest planId) [] states))"

datatype tranche_outcome = PENDING | LIVE | SETTLED | UNPROVEN | FAILED

definition trancheOutcome :: "state option \<Rightarrow> bool \<Rightarrow> tranche_outcome" where
  "trancheOutcome s creditObserved = (case s of
     None \<Rightarrow> PENDING
   | Some t \<Rightarrow> if st_status t = CANCELLED \<or> st_status t = EXPIRED then FAILED
       else if st_status t \<noteq> COMPLETED then LIVE
       else if creditObserved then SETTLED else UNPROVEN)"

section \<open>The gate\<close>

record tranche_gate =
  tg_canProceed :: bool
  tg_nextIndex :: "int option"
  tg_settled :: int
  tg_total :: int
  tg_stopped :: bool

text \<open>\<open>byIndex\<close> of the gate is built from the states of the plan, the last one of an index.\<close>

definition gateAt :: "state list \<Rightarrow> int \<Rightarrow> state option" where
  "gateAt found i = map_of (rev (map (\<lambda>s. (case trancheOf s of Some r \<Rightarrow> tr_index r | None \<Rightarrow> -1, s)) found)) i"

fun gateScan :: "(int \<Rightarrow> tranche_outcome) \<Rightarrow> int \<Rightarrow> int \<Rightarrow> nat \<Rightarrow> tranche_gate" where
  "gateScan oc tot i 0 =
     \<lparr>tg_canProceed = False, tg_nextIndex = None, tg_settled = i, tg_total = tot, tg_stopped = False\<rparr>"
| "gateScan oc tot i (Suc n) = (case oc i of
     SETTLED \<Rightarrow> gateScan oc tot (i + 1) n
   | PENDING \<Rightarrow> \<lparr>tg_canProceed = True, tg_nextIndex = Some i, tg_settled = i, tg_total = tot, tg_stopped = False\<rparr>
   | LIVE \<Rightarrow> \<lparr>tg_canProceed = False, tg_nextIndex = None, tg_settled = i, tg_total = tot, tg_stopped = False\<rparr>
   | _ \<Rightarrow> \<lparr>tg_canProceed = False, tg_nextIndex = None, tg_settled = i, tg_total = tot, tg_stopped = True\<rparr>)"

text \<open>Every index the loop has passed was settled, so the counter of settled slices is the index.\<close>

definition trancheGate :: "string \<Rightarrow> int \<Rightarrow> state list \<Rightarrow> (state \<Rightarrow> bool) \<Rightarrow> tranche_gate" where
  "trancheGate planId tot states creditObserved = (let found = tranchesForPlan planId states in
     gateScan (\<lambda>i. trancheOutcome (gateAt found i)
         (case gateAt found i of Some s \<Rightarrow> creditObserved s | None \<Rightarrow> False)) tot 0 (nat tot))"

definition planIsComplete :: "tranche_gate \<Rightarrow> bool" where
  "planIsComplete g \<longleftrightarrow> tg_settled g = tg_total g \<and> 0 < tg_total g"

definition autoAdvanceOnchainTrancheKey :: "state \<Rightarrow> tranche_gate \<Rightarrow> bool \<Rightarrow> string option" where
  "autoAdvanceOnchainTrancheKey s gate viewerCanAdvance =
     (if st_escrowMode s \<noteq> ONCHAIN then None
      else if \<not> viewerCanAdvance \<or> \<not> tg_canProceed gate then None
      else case (tg_nextIndex gate, trancheOf s) of
        (Some i, Some ref) \<Rightarrow> Some (tr_planId ref @ '':'' @ showInt i)
      | _ \<Rightarrow> None)"

section \<open>The next slice\<close>

definition poolForNextTranche :: "string list \<Rightarrow> state list \<Rightarrow> string list" where
  "poolForNextTranche fullPool priorTranches =
     (let used = List.map_filter (\<lambda>s. case st_participants s ARBITER of
            Some a \<Rightarrow> if a = [] then None else Some (lower a) | None \<Rightarrow> None) priorTranches;
          fresh = filter (\<lambda>pk. lower pk \<notin> set used) fullPool
      in if fresh \<noteq> [] then fresh else fullPool)"

text \<open>The fields that the next CREATE overrides; \<open>np_fiatAmount\<close> is \<open>None\<close> where the key is left out.\<close>

record 'p next_params =
  np_base :: 'p
  np_amountMsats :: int
  np_escrowMode :: "mode option"
  np_continuationPubkeys :: "string list"
  np_fiatAmount :: "rat option option"
  np_tranche :: tranche_ref
  np_communityArbiters :: "string list"

definition buildNextTrancheParams ::
  "state \<Rightarrow> int \<Rightarrow> state list \<Rightarrow> (state \<Rightarrow> 'p) \<Rightarrow> rat option \<Rightarrow> 'p next_params option" where
  "buildNextTrancheParams prior nextIndex priorTranches rebuild planTotalFiat = (case trancheOf prior of
     None \<Rightarrow> None
   | Some ref \<Rightarrow>
       if nextIndex \<ge> tr_total ref \<or> nextIndex < 0 then None
       else let amount = trancheAmountAt (tr_totalMsats ref) (tr_total ref) nextIndex in
         if amount \<le> 0 then None
         else Some \<lparr>np_base = rebuild prior, np_amountMsats = amount,
           np_escrowMode = (if st_escrowMode prior = ONCHAIN then Some ONCHAIN else None),
           np_continuationPubkeys = filter (\<lambda>pk. pk \<noteq> [])
             (List.map_filter (st_participants prior) [BUYER, SELLER]),
           np_fiatAmount = map_option (\<lambda>f. trancheFiatAt f (tr_total ref) nextIndex) planTotalFiat,
           np_tranche = ref\<lparr>tr_index := nextIndex\<rparr>,
           np_communityArbiters = poolForNextTranche (st_communityArbiters prior) priorTranches\<rparr>)"

section \<open>Which state stands for an index\<close>

text \<open>\<open>sliceAt p i s\<close>: \<open>s\<close> carries the reference of index \<open>i\<close> of the plan \<open>p\<close>.\<close>

definition sliceAt :: "string \<Rightarrow> int \<Rightarrow> state \<Rightarrow> bool" where
  "sliceAt planId i s \<longleftrightarrow> (case trancheOf s of None \<Rightarrow> False | Some r \<Rightarrow> tr_planId r = planId \<and> tr_index r = i)"

definition furthestMap :: "string \<Rightarrow> state list \<Rightarrow> (int \<times> state) list \<Rightarrow> bool" where
  "furthestMap planId ss m \<longleftrightarrow> distinct (map fst m)
     \<and> (\<forall>(i, s)\<in>set m. s \<in> set ss \<and> sliceAt planId i s)
     \<and> (\<forall>i. \<forall>s\<in>set ss. sliceAt planId i s \<longrightarrow>
          (case map_of m i of None \<Rightarrow> False | Some t \<Rightarrow> statusRank (st_status s) \<le> statusRank (st_status t)))"

lemma keepFurthest_ignored: "\<forall>i. \<not> sliceAt planId i s \<Longrightarrow> keepFurthest planId m s = m"
  by (auto simp: keepFurthest_def sliceAt_def split: option.splits)

lemma keepFurthest_slice:
  "sliceAt planId i s \<Longrightarrow> keepFurthest planId m s =
     (if (case map_of m i of None \<Rightarrow> True | Some prior \<Rightarrow> statusRank (st_status prior) < statusRank (st_status s))
      then AList.update i s m else m)"
  by (auto simp: keepFurthest_def sliceAt_def split: option.splits)

lemma sliceAt_unique: "sliceAt p i s \<Longrightarrow> sliceAt p j s \<Longrightarrow> i = j"
  by (auto simp: sliceAt_def split: option.splits)

lemma furthestMap_step:
  assumes m: "furthestMap planId ss m"
  shows "furthestMap planId (ss @ [s]) (keepFurthest planId m s)"
proof (cases "\<exists>i. sliceAt planId i s")
  case False
  then show ?thesis using m by (auto simp: keepFurthest_ignored furthestMap_def)
next
  case True
  then obtain i where i: "sliceAt planId i s" by blast
  let ?c = "case map_of m i of None \<Rightarrow> True | Some prior \<Rightarrow> statusRank (st_status prior) < statusRank (st_status s)"
  show ?thesis
  proof (cases ?c)
    case True
    have d: "distinct (map fst (AList.update i s m))" using m by (simp add: furthestMap_def distinct_update)
    have s: "\<forall>(j, t)\<in>set (AList.update i s m). t \<in> set (ss @ [s]) \<and> sliceAt planId j t"
    proof clarify
      fix j t assume "(j, t) \<in> set (AList.update i s m)"
      then have "map_of (AList.update i s m) j = Some t" using d by simp
      then have "j = i \<and> t = s \<or> map_of m j = Some t" by (auto simp: update_conv' split: if_splits)
      then show "t \<in> set (ss @ [s]) \<and> sliceAt planId j t"
        using i m map_of_SomeD by (fastforce simp: furthestMap_def)
    qed
    have "case map_of (AList.update i s m) j of None \<Rightarrow> False | Some u \<Rightarrow> statusRank (st_status t) \<le> statusRank (st_status u)"
      if t: "t \<in> set (ss @ [s])" "sliceAt planId j t" for j t
    proof (cases "j = i")
      case j: True
      show ?thesis
      proof (cases "t \<in> set ss")
        case True
        with m t(2) j have "case map_of m i of None \<Rightarrow> False | Some u \<Rightarrow> statusRank (st_status t) \<le> statusRank (st_status u)"
          by (auto simp: furthestMap_def)
        with \<open>?c\<close> j show ?thesis by (auto simp: update_conv' split: option.splits)
      qed (use t j in \<open>auto simp: update_conv'\<close>)
    next
      case False
      then have "t \<in> set ss" using t i sliceAt_unique by fastforce
      with m t(2) False show ?thesis by (auto simp: furthestMap_def update_conv')
    qed
    with d s True show ?thesis by (simp add: keepFurthest_slice [OF i] furthestMap_def)
  next
    case False
    have "case map_of m j of None \<Rightarrow> False | Some u \<Rightarrow> statusRank (st_status t) \<le> statusRank (st_status u)"
      if "t \<in> set (ss @ [s])" "sliceAt planId j t" for j t
    proof (cases "t = s")
      case True
      with that i False show ?thesis using sliceAt_unique [OF i] by (force split: option.splits)
    qed (use that m in \<open>auto simp: furthestMap_def\<close>)
    moreover have "\<forall>(j, t)\<in>set m. t \<in> set (ss @ [s]) \<and> sliceAt planId j t" using m by (auto simp: furthestMap_def)
    ultimately show ?thesis using m False by (simp add: keepFurthest_slice [OF i] furthestMap_def)
  qed
qed

lemma furthestMap_foldl: "furthestMap planId ss (foldl (keepFurthest planId) [] ss)"
proof (induction ss rule: rev_induct)
  case Nil
  then show ?case by (simp add: furthestMap_def)
next
  case (snoc s ss)
  from furthestMap_step [OF this] show ?case by simp
qed

lemma gateAt_furthest: "gateAt (tranchesForPlan planId ss) i = map_of (foldl (keepFurthest planId) [] ss) i"
proof -
  let ?m = "foldl (keepFurthest planId) [] ss"
  let ?s = "sortWith (\<lambda>a b. fst a < fst b) ?m"
  have m: "furthestMap planId ss ?m" by (rule furthestMap_foldl)
  have "(case trancheOf t of Some r \<Rightarrow> tr_index r | None \<Rightarrow> -1, t) = (j, t)" if "(j, t) \<in> set ?s" for j t
    using that m by (fastforce simp: furthestMap_def sliceAt_def split: option.splits)
  then have s: "map (\<lambda>s. (case trancheOf s of Some r \<Rightarrow> tr_index r | None \<Rightarrow> -1, s)) (map snd ?s) = ?s"
    unfolding map_map by (intro map_idI) auto
  have e: "mset (map fst ?s) = mset (map fst ?m)" by simp
  have d: "distinct (map fst ?m)" using m by (simp add: furthestMap_def)
  with mset_eq_imp_distinct_iff [OF e] have "distinct (map fst ?s)" by blast
  with d have r: "map_of (rev ?s) = map_of ?m"
    by (subst map_of_inject_set) (simp_all add: rev_map [symmetric])
  show ?thesis unfolding gateAt_def tranchesForPlan_def s r by (rule refl)
qed

lemma gateAt_Some:
  assumes "gateAt (tranchesForPlan planId ss) i = Some s"
  shows "s \<in> set ss" "sliceAt planId i s"
  using assms furthestMap_foldl [of planId ss] by (auto simp: gateAt_furthest furthestMap_def dest: map_of_SomeD)

lemma gateAt_furthest_rank:
  assumes "s \<in> set ss" "sliceAt planId i s"
  obtains t where "gateAt (tranchesForPlan planId ss) i = Some t" "statusRank (st_status s) \<le> statusRank (st_status t)"
  using assms furthestMap_foldl [of planId ss] unfolding gateAt_furthest furthestMap_def
  by (metis (no_types, lifting) case_optionE)

section \<open>The loop of the gate\<close>

lemma gateScan_facts:
  assumes "g = gateScan oc tot i n"
  shows "i \<le> tg_settled g \<and> tg_settled g \<le> i + int n \<and> (\<forall>j. i \<le> j \<and> j < tg_settled g \<longrightarrow> oc j = SETTLED)
    \<and> tg_total g = tot \<and> (tg_settled g < i + int n \<longrightarrow> oc (tg_settled g) \<noteq> SETTLED)
    \<and> (tg_canProceed g \<longleftrightarrow> tg_settled g < i + int n \<and> oc (tg_settled g) = PENDING)
    \<and> tg_nextIndex g = (if tg_canProceed g then Some (tg_settled g) else None)
    \<and> (tg_stopped g \<longleftrightarrow> tg_settled g < i + int n \<and> oc (tg_settled g) \<in> {UNPROVEN, FAILED})"
  using assms
proof (induction n arbitrary: i)
  case (Suc n)
  show ?case
  proof (cases "oc i")
    case SETTLED
    with Suc.prems have "g = gateScan oc tot (i + 1) n" by simp
    from Suc.IH [OF this] SETTLED show ?thesis by (smt (verit) of_nat_Suc)
  qed (use Suc.prems in auto)
qed auto

lemma trancheGate_counted:
  assumes "g = trancheGate p tot ss credit" "0 \<le> j" "j < tg_settled g"
  shows "\<exists>s\<in>set ss. sliceAt p j s \<and> st_status s = COMPLETED \<and> credit s"
proof -
  let ?at = "gateAt (tranchesForPlan p ss)"
  let ?oc = "\<lambda>i. trancheOutcome (?at i) (case ?at i of Some s \<Rightarrow> credit s | None \<Rightarrow> False)"
  have "g = gateScan ?oc tot 0 (nat tot)" using assms(1) by (simp add: trancheGate_def Let_def)
  from gateScan_facts [OF this] assms(2,3) have "?oc j = SETTLED" by blast
  then show ?thesis using gateAt_Some [of p ss j] by (auto simp: trancheOutcome_def split: option.splits if_splits)
qed

end
