(* ===== verification/Tranche_Properties.thy ===== *)
theory Tranche_Properties
  imports Tranche_Gate Worked_Trade
begin

text \<open>
  What splitting a trade guarantees: the even split bounds the loss it promises, and the gate opens
  only behind slices that were seen to credit.
\<close>

section \<open>The split\<close>

lemma planTrancheAmounts_split:
  assumes "0 < tot" "n = max MIN_TRANCHES (min MAX_TRANCHES cnt)" "0 < tot div n"
  shows "planTrancheAmounts tot cnt = replicate (nat (n - 1)) (tot div n) @ [tot - tot div n * (n - 1)]"
proof -
  have "nat n = Suc (nat (n - 1))" using assms(2) by (simp add: MIN_TRANCHES_def)
  then have "replicate (nat n) b = replicate (nat (n - 1)) b @ [b]" for b :: int
    by (simp add: replicate_append_same)
  with assms show ?thesis by (simp add: planTrancheAmounts_def Let_def list_update_append)
qed

text \<open>The split of an amount conserves it and bounds the worst loss: the slices are positive and sum
  to the total, there is one (an amount too small to split) or two to twelve of them, the early
  ones are equal and none exceeds the last, and the last is less than an even share plus the
  number of slices.\<close>

theorem tranche_split_bounds_the_loss:
  assumes "0 < tot" "xs = planTrancheAmounts tot cnt" "n = max MIN_TRANCHES (min MAX_TRANCHES cnt)"
  shows "sum_list xs = tot \<and> (\<forall>x\<in>set xs. 0 < x \<and> x \<le> last xs) \<and> plannedMaxLossMsats tot cnt = last xs
    \<and> (\<forall>x\<in>set (butlast xs). x = tot div n) \<and> last xs < tot div n + n
    \<and> length xs = (if tot < n then 1 else nat n) \<and> 2 \<le> n \<and> n \<le> 12"
proof -
  have n: "2 \<le> n" "n \<le> 12" using assms(3) by (simp_all add: MIN_TRANCHES_def MAX_TRANCHES_def)
  show ?thesis
  proof (cases "0 < tot div n")
    case True
    define b where "b = tot div n"
    have xs: "xs = replicate (nat (n - 1)) b @ [tot - b * (n - 1)]"
      using planTrancheAmounts_split [OF assms(1,3) True] assms(2) by (simp add: b_def)
    have r: "tot = b * n + tot mod n" "0 \<le> tot mod n" "tot mod n < n" using n by (simp_all add: b_def)
    then have l: "b \<le> tot - b * (n - 1)" "tot - b * (n - 1) < b + n" by (simp_all add: algebra_simps)
    have nt: "\<not> tot < n" using True n by (metis div_pos_pos_trivial assms(1) less_le less_irrefl)
    have sm: "sum_list xs = tot" using n by (simp add: xs sum_list_replicate algebra_simps)
    have mx: "Max (set xs) = last xs" using l True by (intro Max_eqI) (auto simp: xs b_def)
    have "plannedMaxLossMsats tot cnt = Max (set xs)" using assms(2) xs by (auto simp: plannedMaxLossMsats_def Let_def)
    moreover have "length xs = nat n" using n by (simp add: xs)
    moreover have "\<forall>x\<in>set xs. 0 < x \<and> x \<le> last xs" using l True by (auto simp: xs b_def)
    moreover have "\<forall>x\<in>set (butlast xs). x = b" by (simp add: xs)
    moreover have "last xs < b + n" using l by (simp add: xs)
    ultimately show ?thesis using sm mx n nt by (simp add: b_def)
  next
    case False
    then have xs: "xs = [tot]" using assms by (simp add: planTrancheAmounts_def Let_def)
    have "tot < n" using False assms(1) n by (simp add: pos_imp_zdiv_pos_iff)
    with xs n assms(1,2) show ?thesis by (auto simp: plannedMaxLossMsats_def Let_def)
  qed
qed

theorem tranche_split_bounds_the_loss_witness:
  "planTrancheAmounts 100003 4 = [25000, 25000, 25000, 25003] \<and> plannedMaxLossMsats 100003 4 = 25003"
proof -
  have e: "planTrancheAmounts 100003 4 = [25000, 25000, 25000, 25003]" by code_simp
  from tranche_split_bounds_the_loss [OF _ refl refl, of 100003 4] e show ?thesis by simp
qed

section \<open>The gate\<close>

text \<open>The gate fails closed: every slice it counts is COMPLETED with observed credit, it names a next
  slice only when it may proceed, that slice is the first one not counted, inside the plan, and
  no state of the plan claims its index. A failure is never masked: an index with an expired or
  cancelled state and no completed one is never counted and never offered.\<close>

theorem tranche_gate_fails_closed:
  assumes "g = trancheGate p tot ss credit"
  shows "(\<forall>j. 0 \<le> j \<and> j < tg_settled g \<longrightarrow> (\<exists>s\<in>set ss. sliceAt p j s \<and> st_status s = COMPLETED \<and> credit s))
    \<and> (tg_canProceed g = (tg_nextIndex g \<noteq> None))
    \<and> (\<forall>i. tg_nextIndex g = Some i \<longrightarrow> i = tg_settled g \<and> i < tot \<and> (\<forall>s\<in>set ss. \<not> sliceAt p i s))
    \<and> (\<forall>j. \<forall>s\<in>set ss. 0 \<le> j \<and> sliceAt p j s \<and> st_status s \<in> {EXPIRED, CANCELLED}
          \<and> (\<forall>t\<in>set ss. sliceAt p j t \<longrightarrow> st_status t \<noteq> COMPLETED) \<longrightarrow> tg_settled g \<le> j \<and> tg_nextIndex g \<noteq> Some j)"
proof -
  let ?at = "gateAt (tranchesForPlan p ss)"
  let ?oc = "\<lambda>i. trancheOutcome (?at i) (case ?at i of Some s \<Rightarrow> credit s | None \<Rightarrow> False)"
  have g: "g = gateScan ?oc tot 0 (nat tot)" using assms by (simp add: trancheGate_def Let_def)
  note f = gateScan_facts [OF g, simplified]
  have none: "\<not> sliceAt p j s" if "?oc j = PENDING" "s \<in> set ss" for j s
  proof
    assume "sliceAt p j s"
    with that(2) obtain t where "?at j = Some t" by (rule gateAt_furthest_rank)
    with that(1) show False by (auto simp: trancheOutcome_def split: if_splits)
  qed
  have fail: "tg_settled g \<le> j" if "0 \<le> j" "s \<in> set ss" "sliceAt p j s" "st_status s \<in> {EXPIRED, CANCELLED}"
    "\<forall>t\<in>set ss. sliceAt p j t \<longrightarrow> st_status t \<noteq> COMPLETED" for j s
    using trancheGate_counted [OF assms, of j] that by (metis linorder_not_less)
  from trancheGate_counted [OF assms] have a: "\<forall>j. 0 \<le> j \<and> j < tg_settled g \<longrightarrow> (\<exists>s\<in>set ss. sliceAt p j s \<and> st_status s = COMPLETED \<and> credit s)"
    by blast
  from f have b: "tg_canProceed g = (tg_nextIndex g \<noteq> None)" by simp
  from f none have c: "\<forall>i. tg_nextIndex g = Some i \<longrightarrow> i = tg_settled g \<and> i < tot \<and> (\<forall>s\<in>set ss. \<not> sliceAt p i s)"
    by (auto split: if_splits)
  from a b c fail show ?thesis by blast
qed

text \<open>Slices of a plan of three, over the state of a worked trade.\<close>

definition wSlice :: "int \<Rightarrow> status \<Rightarrow> state" where
  "wSlice i st = (let s = stateAfter [wCreate 1000] in s\<lparr>st_status := st,
     st_listing := (st_listing s)\<lparr>li_tranche := Some \<lparr>tr_planId = ''p'', tr_index = i, tr_total = 3, tr_totalMsats = 9000\<rparr>\<rparr>\<rparr>)"

lemma wSlice_simps [simp]: "trancheOf (wSlice i st) = Some \<lparr>tr_planId = ''p'', tr_index = i, tr_total = 3, tr_totalMsats = 9000\<rparr>"
  "st_status (wSlice i st) = st"
  by (simp_all add: wSlice_def Let_def trancheOf_def)

theorem tranche_gate_fails_closed_witness:
  "tg_nextIndex (trancheGate ''p'' 3 [wSlice 0 COMPLETED] (\<lambda>_. True)) = Some 1
   \<and> \<not> sliceAt ''p'' 1 (wSlice 0 COMPLETED)
   \<and> tg_nextIndex (trancheGate ''p'' 3 [wSlice 0 COMPLETED, wSlice 1 EXPIRED, wSlice 1 CREATED] (\<lambda>_. True)) \<noteq> Some 1"
proof -
  have n: "nat 3 = Suc (Suc (Suc 0))" by simp
  have one: "tg_nextIndex (trancheGate ''p'' 3 [wSlice 0 COMPLETED] (\<lambda>_. True)) = Some 1"
    unfolding trancheGate_def n by (simp add: gateAt_furthest keepFurthest_def Let_def trancheOutcome_def)
  have two: "sliceAt ''p'' 1 (wSlice 1 EXPIRED)" "st_status (wSlice 1 EXPIRED) \<in> {EXPIRED, CANCELLED}"
    "\<forall>t\<in>set [wSlice 0 COMPLETED, wSlice 1 EXPIRED, wSlice 1 CREATED]. sliceAt ''p'' 1 t \<longrightarrow> st_status t \<noteq> COMPLETED"
    by (simp_all add: sliceAt_def)
  from tranche_gate_fails_closed [OF refl, of "''p''" 3 "[wSlice 0 COMPLETED]" "\<lambda>_. True"] one
    tranche_gate_fails_closed [OF refl, of "''p''" 3 "[wSlice 0 COMPLETED, wSlice 1 EXPIRED, wSlice 1 CREATED]" "\<lambda>_. True"] two
  show ?thesis by (metis list.set_intros(1,2) zero_le_one)
qed

end
