(* ===== verification/Payment_Properties.thy ===== *)
theory Payment_Properties
  imports Double_Pay Tranche_Properties
begin

text \<open>
  What the payment side guarantees: the balance watchdog returns, a payout is quoted at the most the
  balance can send, money is sent only on a proof of settlement and behind a written intent, the
  journal never forgets a settled payout, and the slice gate opens only on proofs of credit.
\<close>

section \<open>The watchdog\<close>

lemma waitLoop_returns:
  assumes "0 < wt_pollIntervalMs W" "\<forall>i. start + int i * wt_pollIntervalMs W \<le> clock i"
    "int i \<le> hardCapMs W div wt_pollIntervalMs W + 1"
  shows "\<exists>out n. waitLoop W balance clock aborted start ext i = Some (out, n) \<and> i \<le> n
    \<and> int n \<le> hardCapMs W div wt_pollIntervalMs W + 2
    \<and> (out = W_ABORTED \<longrightarrow> aborted n)
    \<and> (out = W_GREW \<longrightarrow> i < n \<and> requiredDelta W \<le> readDelta W (balance (n - 1)))
    \<and> (out = W_TIMEOUT \<longrightarrow> i < n \<and> (\<forall>k. i \<le> k \<and> k < n \<longrightarrow> readDelta W (balance k) < requiredDelta W)
        \<and> (0 \<le> ext \<and> 0 \<le> wt_timeoutMs W \<longrightarrow> wt_timeoutMs W \<le> clock (n - 1) - start))"
  using assms(3)
proof (induction "nat (hardCapMs W div wt_pollIntervalMs W + 1 - int i)" arbitrary: i ext rule: less_induct)
  case less
  define P where "P = wt_pollIntervalMs W"
  define ext' where "ext' = readExtension W ext (balance i)"
  define limit where "limit = min (wt_timeoutMs W + ext') (hardCapMs W)"
  have P: "0 < P" and clk: "start + int i * P \<le> clock i" using assms(1,2) by (simp_all add: P_def)
  have ext': "0 \<le> ext \<Longrightarrow> 0 \<le> ext'" using P by (simp add: ext'_def readExtension_def P_def split: option.splits)
  have cap: "0 \<le> ext \<and> 0 \<le> wt_timeoutMs W \<Longrightarrow> wt_timeoutMs W \<le> limit"
    using ext' by (auto simp: limit_def hardCapMs_def CONFIRM_HARD_CAP_MULTIPLIER_def)
  consider (aborted) "aborted i" | (grew) "\<not> aborted i" "requiredDelta W \<le> readDelta W (balance i)"
    | (time) "\<not> aborted i" "readDelta W (balance i) < requiredDelta W" "limit \<le> clock i - start"
    | (next_poll) "\<not> aborted i" "readDelta W (balance i) < requiredDelta W" "clock i - start < limit"
    by linarith
  then show ?case
  proof cases
    case next_poll
    then have "int i * P < hardCapMs W" using clk by (simp add: limit_def)
    then have "int i \<le> hardCapMs W div P" using P
      by (metis less_imp_le nonzero_mult_div_cancel_right order_less_irrefl zdiv_mono1)
    then have "int (Suc i) \<le> hardCapMs W div wt_pollIntervalMs W + 1"
      "nat (hardCapMs W div wt_pollIntervalMs W + 1 - int (Suc i)) < nat (hardCapMs W div wt_pollIntervalMs W + 1 - int i)"
      by (simp_all add: P_def)
    from less.hyps [OF this(2,1), of ext'] obtain out n where
      "waitLoop W balance clock aborted start ext' (Suc i) = Some (out, n)" and n: "Suc i \<le> n"
      "int n \<le> hardCapMs W div wt_pollIntervalMs W + 2"
      "out = W_ABORTED \<longrightarrow> aborted n" "out = W_GREW \<longrightarrow> Suc i < n \<and> requiredDelta W \<le> readDelta W (balance (n - 1))"
      "out = W_TIMEOUT \<longrightarrow> Suc i < n \<and> (\<forall>k. Suc i \<le> k \<and> k < n \<longrightarrow> readDelta W (balance k) < requiredDelta W)
        \<and> (0 \<le> ext' \<and> 0 \<le> wt_timeoutMs W \<longrightarrow> wt_timeoutMs W \<le> clock (n - 1) - start)" by blast
    moreover have "waitLoop W balance clock aborted start ext i = waitLoop W balance clock aborted start ext' (Suc i)"
      using next_poll by (subst waitLoop.simps) (auto simp: Let_def ext'_def limit_def min_le_iff_disj)
    ultimately show ?thesis using ext' next_poll(2) by (auto simp: le_eq_less_or_eq [of i])
  qed (use less.prems cap in \<open>auto simp: waitLoop.simps [of W balance clock aborted start ext i] Let_def ext'_def limit_def le_less_Suc_eq\<close>)
qed

text \<open>The watchdog returns. When the clock advances by the polling interval with every poll, it stops
  after no more polls than fit into three times its timeout (and two), whatever the balance
  readings are and however many of them throw. It reports growth only on a reading that has grown
  by the required share of the expected amount, an abort only when asked to, and gives up only after its whole timeout, with no reading
  that had grown.\<close>

theorem watchdog_returns:
  assumes "0 < wt_pollIntervalMs W" "0 \<le> wt_timeoutMs W" "\<forall>i. clock 0 + int i * wt_pollIntervalMs W \<le> clock (Suc i)"
  shows "\<exists>out n. waitForBalanceGrowth W balance clock aborted = Some (out, n)
    \<and> int n \<le> 3 * wt_timeoutMs W div wt_pollIntervalMs W + 2
    \<and> (out = W_ABORTED \<longrightarrow> aborted n)
    \<and> (out = W_GREW \<longrightarrow> 0 < n \<and> requiredDelta W \<le> readDelta W (balance (n - 1)))
    \<and> (out = W_TIMEOUT \<longrightarrow> 0 < n \<and> wt_timeoutMs W \<le> clock n - clock 0
        \<and> (\<forall>k<n. readDelta W (balance k) < requiredDelta W))"
proof -
  have cap: "hardCapMs W = 3 * wt_timeoutMs W" by (simp add: hardCapMs_def CONFIRM_HARD_CAP_MULTIPLIER_def)
  then have "int 0 \<le> hardCapMs W div wt_pollIntervalMs W + 1" using assms(1,2) by (simp add: pos_imp_zdiv_nonneg_iff)
  from waitLoop_returns [OF assms(1), of "clock 0" "\<lambda>i. clock (Suc i)", OF assms(3) this, of balance aborted 0]
  show ?thesis unfolding waitForBalanceGrowth_def cap using assms(2) by fastforce
qed

text \<open>Five-second polls over ninety seconds, with a balance that never moves.\<close>

definition wWait :: wait_opts where
  "wWait = \<lparr>wt_baselineMsats = 7, wt_expectedDeltaMsats = 1000, wt_timeoutMs = DEFAULT_CONFIRM_TIMEOUT_MS,
     wt_pollIntervalMs = DEFAULT_POLL_INTERVAL_MS, wt_thresholdPct = DEFAULT_THRESHOLD_PCT\<rparr>"

theorem watchdog_returns_witness:
  "\<exists>n. waitForBalanceGrowth wWait (\<lambda>_. Some 7) (\<lambda>i. int i * 5000) (\<lambda>_. False) = Some (W_TIMEOUT, n) \<and> n \<le> 56"
proof -
  have r: "requiredDelta wWait = 900" "readDelta wWait (Some 7) = 0" "wt_pollIntervalMs wWait = 5000" "wt_timeoutMs wWait = 90000"
    by code_simp+
  from watchdog_returns [of wWait "\<lambda>i. int i * 5000" "\<lambda>_. Some 7" "\<lambda>_. False"]
  obtain out n where w: "waitForBalanceGrowth wWait (\<lambda>_. Some 7) (\<lambda>i. int i * 5000) (\<lambda>_. False) = Some (out, n)"
    "n \<le> 56" "out \<noteq> W_GREW" "out \<noteq> W_ABORTED"
    by (auto simp: r)
  then show ?thesis by (cases out) auto
qed

section \<open>Quotes\<close>

text \<open>A payout is quoted at the most the balance can send: the quoted amount and its estimated fee fit
  the balance, no larger amount fits, and the reserve that is shown is exactly what stays behind.
  A balance covers a claim, so that no new redemption is asked for, just when it can pay for the
  largest invoice the claim's own amount could fund.\<close>

theorem payout_quote_is_the_largest:
  "0 \<le> maxLightningPayoutSats b \<and> (maxLightningPayoutSats b \<noteq> 0 \<longrightarrow> payoutCost (maxLightningPayoutSats b) \<le> b)
   \<and> (\<forall>s. 0 < s \<and> payoutCost s \<le> b \<longrightarrow> s \<le> maxLightningPayoutSats b)
   \<and> 0 \<le> max 0 b - 1000 * maxLightningPayoutSats b
   \<and> lightningPayoutReserveSats b = ceilDiv (max 0 b - 1000 * maxLightningPayoutSats b) 1000
   \<and> (balanceCoversPayout b e PK_LIGHTNING \<longleftrightarrow> 0 < maxLightningPayoutSats e \<and> payoutCost (maxLightningPayoutSats e) \<le> b)"
proof -
  define m where "m = maxLightningPayoutSats b"
  note x = maxLightningPayoutSats_exact [of b, folded m_def]
  have pos: "0 < s \<Longrightarrow> 0 < payoutCost s" for s using payoutCost_above [of s] by linarith
  have fit: "m \<noteq> 0 \<longrightarrow> payoutCost m \<le> b" using x(1,2) pos [of m] by (auto simp: max_def split: if_splits)
  have below: "s \<le> m" if "0 < s" "payoutCost s \<le> b" for s using x(3) [of s] that pos [of s] by (cases "s \<le> m") auto
  have rest: "0 \<le> max 0 b - 1000 * m" using fit payoutCost_above [of m] x(1) by (cases "m = 0") auto
  have z: "maxLightningPayoutSats e = 0" if "e \<le> 0" using that by (simp add: maxLightningPayoutSats_def payoutSearch.simps)
  have cov: "balanceCoversPayout b e PK_LIGHTNING \<longleftrightarrow> 0 < maxLightningPayoutSats e \<and> payoutCost (maxLightningPayoutSats e) \<le> b"
  proof -
    have mm: "maxLightningPayoutSats (max 0 y) = maxLightningPayoutSats y" for y by (simp add: maxLightningPayoutSats_def)
    have "s \<le> m \<longleftrightarrow> payoutCost s \<le> b" if "0 < s" for s
      using below [OF that] payoutCost_mono [of s m] fit that by linarith
    with z show ?thesis by (cases "e \<le> 0") (auto simp: balanceCoversPayout_def Let_def mm m_def)
  qed
  have "lightningPayoutReserveSats b = ceilDiv (max 0 b - 1000 * m) 1000"
    using rest ceilDiv_bounds(1) [of 1000 "max 0 b - 1000 * m"] by (simp add: lightningPayoutReserveSats_def m_def mult.commute)
  with x(1) fit below rest cov show ?thesis by (simp add: m_def)
qed

theorem payout_quote_is_the_largest_witness:
  "maxLightningPayoutSats 1000000 = 992 \<and> payoutCost 992 \<le> 1000000 \<and> balanceCoversPayout 1000000 1000000 PK_LIGHTNING"
proof -
  have m: "maxLightningPayoutSats 1000000 = 992" by code_simp
  from payout_quote_is_the_largest [of 1000000 1000000] m show ?thesis by simp
qed

section \<open>What a run sends, and when it is done\<close>

lemma waitLoop_grew:
  "waitLoop W balance clock aborted start ext i = Some (W_GREW, n) \<Longrightarrow> 0 < n \<and> requiredDelta W \<le> readDelta W (balance (n - 1))"
proof -
  assume run: "waitLoop W balance clock aborted start ext i = Some (W_GREW, n)"
  have "fst p = W_GREW \<longrightarrow> 0 < snd p \<and> requiredDelta W \<le> readDelta W (balance (snd p - 1))"
    if "waitLoop W balance clock aborted start ext i = Some p" for p
    by (rule waitLoop.raw_induct [where P = "\<lambda>W balance clock aborted start ext i p. fst p = W_GREW \<longrightarrow>
        0 < snd p \<and> requiredDelta W \<le> readDelta W (balance (snd p - 1))", OF _ that])
      (fastforce simp: Let_def split: if_splits)
  from this [OF run] show ?thesis by simp
qed

lemma requiredDelta_opts: "requiredDelta (waitOptsFor Op base) = co_expectedDeltaMsats Op * 9 div 10"
proof -
  have "of_int (co_expectedDeltaMsats Op) * (9 / 10) = (of_int (co_expectedDeltaMsats Op * 9) / of_int 10 :: rat)" by simp
  then show ?thesis unfolding requiredDelta_def waitOptsFor_def DEFAULT_THRESHOLD_PCT_def
    using floor_divide_of_int_eq [of "co_expectedDeltaMsats Op * 9" 10, where 'a = rat] by simp
qed

text \<open>A reading of the balance that shows the claim's money: it covers the payout, or it has grown
  over the first reading by nine tenths of the expected amount.\<close>

definition fundsSeen :: "claim_opts \<Rightarrow> claim_deps \<Rightarrow> bool" where
  "fundsSeen Op D \<longleftrightarrow> (\<exists>base k b. cd_balance D 0 = Some base \<and> cd_balance D k = Some b
     \<and> (balanceCoversPayout b (co_expectedDeltaMsats Op) (co_payoutKind Op)
        \<or> 0 < k \<and> co_expectedDeltaMsats Op * 9 div 10 \<le> b - base))"

lemma verdict_seen:
  assumes "settlementVerdict Op D base resumed hard = Some (Some how)" "cd_balance D 0 = Some base"
    "resumed \<Longrightarrow> balanceCoversPayout base (co_expectedDeltaMsats Op) (co_payoutKind Op)" "2 \<le> co_expectedDeltaMsats Op"
  shows "fundsSeen Op D"
proof (cases resumed)
  case True
  with assms show ?thesis by (auto simp: fundsSeen_def)
next
  case False
  show ?thesis
  proof (cases how)
    case BY_COVER
    with assms(1,2) False show ?thesis
      by (auto simp: settlementVerdict_def Let_def fundsSeen_def split: if_splits option.splits)
  next
    case BY_GROWTH
    with assms(1) False obtain n where "waitForBalanceGrowth (waitOptsFor Op base) (\<lambda>i. cd_balance D (Suc i)) (cd_clock D) (\<lambda>_. False) = Some (W_GREW, n)"
      by (auto simp: settlementVerdict_def Let_def split: if_splits option.splits)
    from waitLoop_grew [OF this [unfolded waitForBalanceGrowth_def]]
    have "0 < n" "co_expectedDeltaMsats Op * 9 div 10 \<le> readDelta (waitOptsFor Op base) (cd_balance D n)"
      by (simp_all only: requiredDelta_opts) (cases n; simp)+
    moreover have "0 < co_expectedDeltaMsats Op * 9 div 10" using assms(4) by simp
    ultimately show ?thesis using assms(2)
      by (auto simp: fundsSeen_def readDelta_def waitOptsFor_def split: option.splits)
  qed
qed

text \<open>One entry: an invoice is dispatched only with the funds seen and a record of the escrow stored.\<close>

definition sentRightly :: "claim_opts \<Rightarrow> claim_deps \<Rightarrow> effect \<times> stored \<Rightarrow> bool" where
  "sentRightly Op D e \<longleftrightarrow> (case fst e of
     PAY_INVOICE b \<Rightarrow> co_payoutKind Op = PK_LIGHTNING \<and> b = co_bolt11 Op \<and> recordOf (snd e) (co_escrowId Op) \<noteq> None \<and> fundsSeen Op D
   | PAY_ONCHAIN sats \<Rightarrow> co_payoutKind Op = PK_ONCHAIN \<and> sats = co_expectedDeltaMsats Op div 1000 \<and> fundsSeen Op D
   | EXPORT_NOTES \<Rightarrow> co_payoutKind Op = PK_ECASH
   | _ \<Rightarrow> True)"

definition sentAll :: "claim_opts \<Rightarrow> claim_deps \<Rightarrow> claim_world \<Rightarrow> bool" where
  "sentAll Op D w \<longleftrightarrow> (\<forall>e\<in>set (cw_log w). sentRightly Op D e)"

lemma sentAll_act [simp]: "sentAll Op D (act x w) = (sentAll Op D w \<and> sentRightly Op D (x, js_journal (cw_store w)))"
  by (auto simp: sentAll_def act_def)

lemma sentAll_upd [simp]: "sentAll Op D (w\<lparr>cw_store := s\<rparr>) = sentAll Op D w" "sentAll Op D (w\<lparr>cw_ledger := l\<rparr>) = sentAll Op D w"
  "sentAll Op D (stored_as s w) = sentAll Op D w"
  by (simp_all add: stored_as_def) (simp_all add: sentAll_def sentRightly_def)

lemma sentAll_cleared [simp]: "sentAll Op D (cleared O1 w) = sentAll Op D w"
  by (auto simp: cleared_def sentRightly_def split: prod.splits)

lemma sentAll_guard: "payoutGuard Op D w = (t, w') \<Longrightarrow> sentAll Op D w \<Longrightarrow> sentAll Op D w'"
  by (auto simp: payoutGuard_def reconcileByEscrow_def reattach_def finishSettled_def Let_def sentRightly_def
      split: if_splits option.splits payout_status.splits prod.splits pay_outcome.splits)

lemma sentAll_finishPaid: "finishPaid Op w = (t, w') \<Longrightarrow> sentAll Op D w \<Longrightarrow> sentAll Op D w'"
  by (auto simp: finishPaid_def Let_def sentRightly_def split: option.splits if_splits)

lemma sentAll_lightning:
  assumes "payLightning Op D w = (t, w')" "sentAll Op D w" "fundsSeen Op D" "co_payoutKind Op = PK_LIGHTNING"
  shows "sentAll Op D w'"
proof -
  obtain a s where a: "assertPayoutJournalWritable (cw_store w) = (a, s)" by fastforce
  obtain b s1 where b: "recordPayoutIntent (cd_now D) s (co_escrowId Op) (Some (co_expectedDeltaMsats Op)) = (b, s1)" by fastforce
  define w1 where "w1 = act (PAY_INVOICE (co_bolt11 Op)) (stored_as s1 w)"
  have store: "cw_store (stored_as s1 w) = s1" by (simp add: stored_as_def act_def)
  show ?thesis
  proof (cases "a = None \<and> b = None")
    case False
    with assms(1,2) a b show ?thesis by (auto simp: payLightning_def split: option.splits)
  next
    case True
    with recordPayoutIntent_record b have "recordOf (js_journal s1) (co_escrowId Op) \<noteq> None" by fastforce
    with assms(2-4) have w1: "sentAll Op D w1" by (simp add: w1_def sentRightly_def store)
    have w1': "sentAll Op D (stored_as s2 w1)" "sentAll Op D (w1\<lparr>cw_store := s2\<rparr>)" "sentAll Op D (cleared Op (act PAY_REFUSED w1))" for s2
      using w1 by (simp_all add: sentRightly_def)
    show ?thesis
    proof (cases "cd_payInvoice D")
      case (Paid x)
      obtain e s2 where m: "markPayoutSettled (cd_now D) (cw_store w1) (co_escrowId Op) x = (e, s2)" by fastforce
      with Paid assms(1) a b True have "w' = w1\<lparr>cw_store := s2\<rparr> \<or> finishPaid Op (stored_as s2 w1) = (t, w')"
        by (cases e) (simp_all add: payLightning_def w1_def Let_def)
      with w1' sentAll_finishPaid show ?thesis by blast
    next
      case (PayThrew code x)
      with assms(1) a b True have "w' \<in> {stored_as (snd (recordPayoutSubmitted (cd_now D) (cw_store w1) (co_escrowId Op) x
          (Some (co_expectedDeltaMsats Op)))) w1, cleared Op (act PAY_REFUSED w1), w1}"
        by (simp add: payLightning_def w1_def Let_def split: if_splits)
      with w1 w1' show ?thesis by blast
    qed
  qed
qed

lemma claimAndPay_parts:
  assumes "claimAndPay Op D w = (t, w')"
  obtains "w' \<in> {w, act REDEEM_CLAIM w}" "t \<noteq> Some T_DONE"
  | base resumed hard how w1 where "cd_balance D 0 = Some base" "w1 \<in> {w, act REDEEM_CLAIM w}"
    "resumed \<Longrightarrow> balanceCoversPayout base (co_expectedDeltaMsats Op) (co_payoutKind Op)"
    "settlementVerdict Op D base resumed hard = Some (Some how)"
    "(if co_payoutKind Op = PK_ONCHAIN then payOnchainOut Op D (creditProof Op D how w1) else payLightning Op D (creditProof Op D how w1)) = (t, w')"
proof (cases "cd_balance D 0")
  case None
  with assms have "t = Some T_CLAIM_FAILED" "w' = w" by (simp_all add: claimAndPay_def)
  with that(1) show ?thesis by simp
next
  case (Some base)
  define resumed where "resumed = (co_claimAlreadyPublished Op \<and> balanceCoversPayout base (co_expectedDeltaMsats Op) (co_payoutKind Op))"
  define w1 where "w1 = (if resumed then w else act REDEEM_CLAIM w)"
  have run: "(case claimCall Op D resumed of Inl t \<Rightarrow> (Some t, w1)
     | Inr failedHard \<Rightarrow> (case settlementVerdict Op D base resumed failedHard of None \<Rightarrow> (None, w1)
       | Some None \<Rightarrow> (Some (if failedHard then T_CLAIM_FAILED else T_CLAIM_PENDING), w1)
       | Some (Some how) \<Rightarrow> (if co_payoutKind Op = PK_ONCHAIN then payOnchainOut Op D (creditProof Op D how w1)
           else payLightning Op D (creditProof Op D how w1)))) = (t, w')"
    using assms unfolding claimAndPay_def Some option.case Let_def resumed_def w1_def .
  have w1: "w1 \<in> {w, act REDEEM_CLAIM w}" by (simp add: w1_def)
  show ?thesis
  proof (cases "\<exists>hard how. claimCall Op D resumed = Inr hard \<and> settlementVerdict Op D base resumed hard = Some (Some how)")
    case True
    then obtain hard how where h: "claimCall Op D resumed = Inr hard" "settlementVerdict Op D base resumed hard = Some (Some how)"
      by blast
    with run have "(if co_payoutKind Op = PK_ONCHAIN then payOnchainOut Op D (creditProof Op D how w1)
        else payLightning Op D (creditProof Op D how w1)) = (t, w')" by simp
    from that(2) [OF Some w1 _ h(2) this] show ?thesis by (simp add: resumed_def)
  next
    case False
    have "claimCall Op D resumed \<noteq> Inl T_DONE" by (auto simp: claimCall_def split: option.splits if_splits)
    with run False w1 that(1) show ?thesis by (auto split: sum.splits option.splits if_splits)
  qed
qed

lemma sentAll_credit: "sentAll Op D (creditProof Op D how w) = sentAll Op D w"
  by (simp add: creditProof_def sentRightly_def)

lemma sentAll_claim:
  assumes "claimAndPay Op D w = (t, w')" "sentAll Op D w" "2 \<le> co_expectedDeltaMsats Op" "co_payoutKind Op \<noteq> PK_ECASH"
  shows "sentAll Op D w'"
  using claimAndPay_parts [OF assms(1)]
proof cases
  case 1
  with assms(2) show ?thesis by (auto simp: sentRightly_def)
next
  case (2 base resumed hard how w1)
  have v: "sentAll Op D (creditProof Op D how w1)" using 2(2) assms(2) by (auto simp: sentAll_credit sentRightly_def)
  have f: "fundsSeen Op D" using verdict_seen [OF 2(4,1,3) assms(3)] .
  show ?thesis
  proof (cases "co_payoutKind Op = PK_ONCHAIN")
    case True
    with 2(5) v f show ?thesis
      by (auto simp: payOnchainOut_def Let_def sentRightly_def split: option.splits if_splits intro: sentAll_finishPaid)
  next
    case False
    with assms(4) have "co_payoutKind Op = PK_LIGHTNING" by (cases "co_payoutKind Op") simp_all
    with 2(5) sentAll_lightning [OF _ v f] show ?thesis by simp
  qed
qed

text \<open>C24. Money leaves only on proof. Every invoice a run dispatches is the one it was asked to pay, names an
  amount, and one that the claim's amount covers; a record of the escrow's payout is stored at that
  moment, and a balance reading has shown the claim's money. An on-chain payment is made only for an
  on-chain payout, of exactly the expected amount, on the same proof; a bearer note is exported only
  when notes were asked for.\<close>

theorem money_leaves_only_on_proof:
  assumes "runClaimAndPayout Op D w = (t, w')" "cw_log w = []" "2 \<le> co_expectedDeltaMsats Op" "e \<in> set (cw_log w')"
  shows "case fst e of
     PAY_INVOICE b \<Rightarrow> co_payoutKind Op = PK_LIGHTNING \<and> b = co_bolt11 Op \<and> recordOf (snd e) (co_escrowId Op) \<noteq> None \<and> fundsSeen Op D
       \<and> (\<exists>a. parseBolt11Msats b = Some a \<and> a \<le> co_expectedDeltaMsats Op)
   | PAY_ONCHAIN sats \<Rightarrow> co_payoutKind Op = PK_ONCHAIN \<and> sats = co_expectedDeltaMsats Op div 1000 \<and> fundsSeen Op D
   | EXPORT_NOTES \<Rightarrow> co_payoutKind Op = PK_ECASH
   | _ \<Rightarrow> True"
proof -
  let ?refused = "if co_payoutKind Op = PK_LIGHTNING then payoutInvoiceError (co_bolt11 Op) (co_expectedDeltaMsats Op) else None"
  have w: "sentAll Op D w" using assms(2) by (simp add: sentAll_def)
  consider "w' = w" | t1 w1 where "?refused = None" "payoutGuard Op D w = (t1, w1)"
      "w' = w1 \<or> t1 = None \<and> (if co_payoutKind Op = PK_ECASH then exportEcashNow Op D w1 else claimAndPay Op D w1) = (t, w')"
    using assms(1) by (auto simp: runClaimAndPayout_def split: if_splits option.splits prod.splits)
  then show ?thesis
  proof cases
    case 1
    with assms(2,4) show ?thesis by simp
  next
    case (2 t1 w1)
    have w1: "sentAll Op D w1" by (rule sentAll_guard [OF 2(2) w])
    have "sentAll Op D w'"
      using 2(3) w1 sentAll_claim [OF _ w1 assms(3)]
      by (auto simp: exportEcashNow_def sentRightly_def split: if_splits option.splits)
    then show ?thesis using 2(1) assms(4)
      by (auto simp: sentAll_def sentRightly_def payoutInvoiceError_def split: effect.splits option.splits if_splits)
  qed
qed

theorem money_leaves_only_on_proof_witness:
  "fundsSeen wClaimOpts wFirst \<and> PAY_INVOICE ''lnbc10u1x'' \<in> fst ` set (wRun wFirst Absent [])"
proof -
  obtain t w' where run: "runClaimAndPayout wClaimOpts wFirst (wClaimWorld Absent []) = (t, w')" by fastforce
  then have log: "cw_log w' = wRun wFirst Absent []" by (simp add: wRun_def)
  have "PAY_INVOICE ''lnbc10u1x'' \<in> set (map fst (take 5 (wRun wFirst Absent [])))" unfolding wCrashed_facts(3) by simp
  then obtain e where e: "e \<in> set (wRun wFirst Absent [])" "fst e = PAY_INVOICE ''lnbc10u1x''"
    by (auto simp del: take_map dest!: in_set_takeD)
  have "cw_log (wClaimWorld Absent []) = []" "2 \<le> co_expectedDeltaMsats wClaimOpts" by (simp_all add: wClaimWorld_def wClaimOpts_def)
  from money_leaves_only_on_proof [OF run this, of e] e log show ?thesis by (auto simp: rev_image_eqI)
qed

section \<open>Completion\<close>

text \<open>What makes a payout settled: a settled record or operation, or the answer to the dispatch.\<close>

definition payoutSettled :: "claim_opts \<Rightarrow> claim_deps \<Rightarrow> claim_world \<Rightarrow> bool" where
  "payoutSettled Op D w \<longleftrightarrow> map_option py_status (recordOf (js_journal (cw_store w)) (co_escrowId Op)) = Some P_SETTLED
     \<or> (\<exists>t x. cd_payOutcomeByEscrow D (co_escrowId Op) t = Some (O_SETTLED, x))
     \<or> (\<exists>x. cd_awaitPayoutOutcome D x = Some O_SETTLED)
     \<or> (\<exists>x. cd_payInvoice D = Paid x) \<or> cd_payOnchain D = Some True"

definition released :: "claim_world \<Rightarrow> bool" where
  "released w \<longleftrightarrow> RELEASE_RESERVATION \<in> fst ` set (cw_log w)"

definition published :: "claim_world \<Rightarrow> bool" where
  "published w \<longleftrightarrow> PUBLISH_COMPLETE \<in> fst ` set (cw_log w)"

text \<open>\<open>doneRight\<close>: released and published exactly when done.\<close>

definition doneRight :: "claim_terminal option \<Rightarrow> claim_world \<Rightarrow> bool" where
  "doneRight t w \<longleftrightarrow> (released w = (t = Some T_DONE)) \<and> (published w = (t = Some T_DONE))"

lemma released_act [simp]: "released (act x w) = (x = RELEASE_RESERVATION \<or> released w)"
  "published (act x w) = (x = PUBLISH_COMPLETE \<or> published w)"
  by (auto simp: released_def published_def act_def)

lemma released_upd [simp]: "released (w\<lparr>cw_store := s\<rparr>) = released w" "released (w\<lparr>cw_ledger := l\<rparr>) = released w"
  "released (stored_as s w) = released w" "published (w\<lparr>cw_store := s\<rparr>) = published w"
  "published (w\<lparr>cw_ledger := l\<rparr>) = published w" "published (stored_as s w) = published w"
  by (simp_all add: stored_as_def) (simp_all add: released_def published_def)

lemma released_cleared [simp]: "released (cleared Op w) = released w" "published (cleared Op w) = published w"
  by (auto simp: cleared_def split: prod.splits)

lemma finishPaid_done: "finishPaid Op w = (t, w') \<Longrightarrow> t = Some T_DONE \<and> released w' \<and> published w'"
  by (auto simp: finishPaid_def Let_def split: option.splits if_splits)

lemma guard_done:
  assumes "payoutGuard Op D w = (t, w')" "\<not> released w" "\<not> published w"
  shows "doneRight t w' \<and> (t = Some T_DONE \<longrightarrow> payoutSettled Op D w)"
proof -
  have g: "getOr x O_UNKNOWN = O_SETTLED \<Longrightarrow> x = Some O_SETTLED" "getOr y (O_UNKNOWN, None) = (O_SETTLED, q) \<Longrightarrow> y = Some (O_SETTLED, q)"
    for x y and q :: "string option" by (cases x; cases y; simp add: getOr_def)+
  have r: "reconcileByEscrow Op D c b w = (t, w') \<Longrightarrow> ?thesis" for c b
    using assms(2,3) by (auto simp: reconcileByEscrow_def finishSettled_def Let_def doneRight_def payoutSettled_def dest!: g
        split: if_splits prod.splits)
  have a: "reattach Op D c w = (t, w') \<Longrightarrow> ?thesis" for c
    using assms(2,3) g(1) by (auto simp: reattach_def finishSettled_def Let_def doneRight_def payoutSettled_def
        split: pay_outcome.splits)
  show ?thesis
    using assms r a by (auto simp: payoutGuard_def doneRight_def payoutSettled_def recordOf_loaded
        split: if_splits option.splits payout_status.splits)
qed

lemma lightning_done:
  assumes "payLightning Op D w = (t, w')" "\<not> released w" "\<not> published w"
  shows "doneRight t w' \<and> (t = Some T_DONE \<longrightarrow> (\<exists>x. cd_payInvoice D = Paid x))"
proof (cases "t = Some T_DONE")
  case True
  with assms(1) have "(\<exists>x. cd_payInvoice D = Paid x) \<and> (\<exists>v. finishPaid Op v = (t, w'))"
    by (auto simp: payLightning_def Let_def split: prod.splits option.splits pay_answer.splits if_splits)
  with True finishPaid_done show ?thesis by (auto simp: doneRight_def)
next
  case False
  with assms finishPaid_done show ?thesis
    by (fastforce simp: payLightning_def Let_def doneRight_def split: prod.splits option.splits pay_answer.splits if_splits)
qed

lemma claim_done:
  assumes "claimAndPay Op D w = (t, w')" "\<not> released w" "\<not> published w"
  shows "doneRight t w' \<and> (t = Some T_DONE \<longrightarrow> (\<exists>x. cd_payInvoice D = Paid x) \<or> cd_payOnchain D = Some True)"
  using claimAndPay_parts [OF assms(1)]
proof cases
  case 1
  with assms(2,3) show ?thesis by (auto simp: doneRight_def)
next
  case (2 base resumed hard how w1)
  have v: "\<not> released (creditProof Op D how w1)" "\<not> published (creditProof Op D how w1)"
    using 2(2) assms(2,3) by (auto simp: creditProof_def)
  show ?thesis
  proof (cases "co_payoutKind Op = PK_ONCHAIN")
    case True
    with 2(5) have "payOnchainOut Op D (creditProof Op D how w1) = (t, w')" by simp
    with v show ?thesis
      by (auto simp: payOnchainOut_def Let_def doneRight_def split: option.splits if_splits dest: finishPaid_done)
  next
    case False
    with 2(5) lightning_done [OF _ v] show ?thesis by simp
  qed
qed

text \<open>A claim is done only when its payout is settled. A run ends in done exactly when it has published
  the completion, and exactly when it has released the reservation that would restart the claim;
  it does so only for a payout whose record or operation is settled, or that has just been paid.
  Every other end, a refusal, a failure, a wait or a timeout, leaves the reservation in place.\<close>

theorem done_means_settled:
  assumes "runClaimAndPayout Op D w = (t, w')" "cw_log w = []"
  shows "(t = Some T_DONE \<longleftrightarrow> RELEASE_RESERVATION \<in> fst ` set (cw_log w'))
    \<and> (t = Some T_DONE \<longleftrightarrow> PUBLISH_COMPLETE \<in> fst ` set (cw_log w'))
    \<and> (t = Some T_DONE \<longrightarrow> payoutSettled Op D w)"
proof -
  have w: "\<not> released w" "\<not> published w" using assms(2) by (simp_all add: released_def published_def)
  consider "w' = w" "t \<noteq> Some T_DONE" | t1 w1 where "payoutGuard Op D w = (t1, w1)"
      "t1 \<noteq> None \<and> t = t1 \<and> w' = w1
       \<or> t1 = None \<and> (if co_payoutKind Op = PK_ECASH then exportEcashNow Op D w1 else claimAndPay Op D w1) = (t, w')"
    using assms(1) by (auto simp: runClaimAndPayout_def split: if_splits option.splits prod.splits)
  then have "doneRight t w' \<and> (t = Some T_DONE \<longrightarrow> payoutSettled Op D w)"
  proof cases
    case 1
    with w show ?thesis by (simp add: doneRight_def)
  next
    case (2 t1 w1)
    from guard_done [OF 2(1) w] have g: "doneRight t1 w1" "t1 = Some T_DONE \<longrightarrow> payoutSettled Op D w" by simp_all
    show ?thesis
    proof (cases t1)
      case None
      with g(1) have w1: "\<not> released w1" "\<not> published w1" by (simp_all add: doneRight_def)
      show ?thesis
      proof (cases "co_payoutKind Op = PK_ECASH")
        case True
        with None 2(2) w1 show ?thesis by (auto simp: exportEcashNow_def doneRight_def split: option.splits)
      next
        case False
        with None 2(2) claim_done [OF _ w1] show ?thesis by (auto simp: payoutSettled_def)
      qed
    qed (use 2(2) g in simp)
  qed
  then show ?thesis by (auto simp: doneRight_def released_def published_def)
qed

text \<open>The second attempt of the crashed claim: it waits, and keeps the reservation.\<close>

theorem done_means_settled_witness:
  "RELEASE_RESERVATION \<notin> fst ` set (wRun wSecond (fst wCrashed) []) \<and> fst (runClaimAndPayout wClaimOpts wSecond (wClaimWorld (fst wCrashed) [])) \<noteq> Some T_DONE"
proof -
  obtain t w' where run: "runClaimAndPayout wClaimOpts wSecond (wClaimWorld (fst wCrashed) []) = (t, w')" by fastforce
  then have log: "cw_log w' = wRun wSecond (fst wCrashed) []" by (simp add: wRun_def)
  have no: "RELEASE_RESERVATION \<notin> fst ` set (wRun wSecond (fst wCrashed) [])"
    unfolding set_map [symmetric] wCrashed_facts(4) by simp
  have "cw_log (wClaimWorld J []) = []" for J by (simp add: wClaimWorld_def)
  from done_means_settled [OF run this] no show ?thesis by (simp add: run log)
qed

section \<open>The journal\<close>

text \<open>The writers of the journal; the flag of a clear is dropped.\<close>

inductive journalStep :: "string \<Rightarrow> journal_store \<Rightarrow> journal_store \<Rightarrow> bool" for i where
  intent: "journalStep i s (snd (recordPayoutIntent now s i amount))"
| submitted: "journalStep i s (snd (recordPayoutSubmitted now s i op amount))"
| settled: "journalStep i s (snd (markPayoutSettled now s i op))"
| probe: "journalStep i s (snd (assertPayoutJournalWritable s))"

text \<open>How a record may change: it appears as an intent, a submission or settled, and then only moves on,
  keeping its creation time and, once known, its amount and, unless a write names one, its operation.\<close>

definition payoutRank :: "payout_status \<Rightarrow> nat" where
  "payoutRank s = (case s of P_INTENT \<Rightarrow> 0 | P_SUBMITTED \<Rightarrow> 1 | P_SETTLED \<Rightarrow> 2)"

definition movesOn :: "payout_record option \<Rightarrow> payout_record option \<Rightarrow> bool" where
  "movesOn a b \<longleftrightarrow> (case a of None \<Rightarrow> True
     | Some r \<Rightarrow> (case b of None \<Rightarrow> False
       | Some r' \<Rightarrow> payoutRank (py_status r) \<le> payoutRank (py_status r') \<and> py_createdAt r' = py_createdAt r
           \<and> (py_amountMsats r \<noteq> None \<longrightarrow> py_amountMsats r' \<noteq> None)
           \<and> (py_status r \<noteq> P_INTENT \<and> py_operationId r \<noteq> None \<longrightarrow> py_operationId r' \<noteq> None)))"

lemma movesOn_refl [simp]: "movesOn a a"
  by (simp add: movesOn_def split: option.splits)

lemma movesOn_trans: "movesOn a b \<Longrightarrow> movesOn b c \<Longrightarrow> movesOn a c"
  by (auto simp: movesOn_def payoutRank_def split: option.splits payout_status.splits)

lemma journalStep_write:
  assumes "journalStep i s s'"
  shows "js_journal s' = js_journal s \<or> (\<exists>j e r. loadJournalStrict s = Inr j \<and> putRecord s j r = (e, s')
    \<and> py_escrowId r = i \<and> movesOn (map_of j i) (Some r))"
  using assms
proof cases
  case (intent now amount)
  show ?thesis
  proof (cases "loadJournalStrict s")
    case (Inr j)
    with intent show ?thesis
      by (cases "putRecord s j \<lparr>py_escrowId = i, py_status = P_INTENT, py_operationId = None,
          py_amountMsats = orElse amount (priorAmount (map_of j i)), py_createdAt = priorCreated (map_of j i) now, py_settledAt = None\<rparr>")
        (fastforce simp: recordPayoutIntent_def Let_def movesOn_def payoutRank_def orElse_def priorAmount_def priorCreated_def
          split: if_splits option.splits payout_status.splits)
  qed (use intent in \<open>simp add: recordPayoutIntent_def\<close>)
next
  case (submitted now op amount)
  show ?thesis
  proof (cases "loadJournalStrict s")
    case (Inr j)
    with submitted show ?thesis
      by (cases "putRecord s j \<lparr>py_escrowId = i, py_status = P_SUBMITTED, py_operationId = orElse op (priorOp (map_of j i)),
          py_amountMsats = orElse amount (priorAmount (map_of j i)), py_createdAt = priorCreated (map_of j i) now, py_settledAt = None\<rparr>")
        (fastforce simp: recordPayoutSubmitted_def Let_def movesOn_def payoutRank_def orElse_def priorAmount_def priorOp_def priorCreated_def
          split: if_splits option.splits payout_status.splits)
  qed (use submitted in \<open>simp add: recordPayoutSubmitted_def\<close>)
next
  case (settled now op)
  show ?thesis
  proof (cases "loadJournalStrict s")
    case (Inr j)
    with settled show ?thesis
      by (cases "putRecord s j \<lparr>py_escrowId = i, py_status = P_SETTLED, py_operationId = orElse op (priorOp (map_of j i)),
          py_amountMsats = priorAmount (map_of j i), py_createdAt = priorCreated (map_of j i) now, py_settledAt = Some now\<rparr>")
        (fastforce simp: markPayoutSettled_def Let_def movesOn_def payoutRank_def orElse_def priorAmount_def priorOp_def priorCreated_def
          split: if_splits option.splits payout_status.splits)
  qed (use settled in \<open>simp add: markPayoutSettled_def\<close>)
next
  case probe
  then show ?thesis
    by (auto simp: assertPayoutJournalWritable_def split: sum.splits prod.splits bool.splits dest: writeOutcome_journal)
qed

lemma journalStep_moves:
  assumes "journalStep i s s'"
  shows "movesOn (recordOf (js_journal s) i) (recordOf (js_journal s') i)
    \<and> (\<forall>k. k \<noteq> i \<longrightarrow> recordOf (js_journal s') k = recordOf (js_journal s) k)
    \<and> (js_journal s = Unreadable \<longrightarrow> js_journal s' = Unreadable)"
  using journalStep_write [OF assms]
proof (elim disjE exE conjE)
  fix j e r
  assume j: "loadJournalStrict s = Inr j" and p: "putRecord s j r = (e, s')" and r: "py_escrowId r = i" "movesOn (map_of j i) (Some r)"
  from saveJournal_journal [OF p [unfolded putRecord_def]] r(1)
  have s': "js_journal s' = (if e = None then Readable (AList.update i r j) else js_journal s)" by simp
  have "js_journal s \<noteq> Unreadable" using j by (auto simp: loadJournalStrict_def)
  moreover note loadJournalStrict_Inr [OF j]
  ultimately show ?thesis using r(2) by (auto simp: s' recordOf_def update_conv')
qed simp

text \<open>The journal never forgets. Whatever sequence of its writers runs for an escrow, each write
  failing or not: the escrow's record, once there, stays and only moves on from intent to submitted
  to settled, keeping its creation time, its amount and the operation of a submitted payout; the
  records of other escrows are untouched; and an unreadable journal is never written over.\<close>

theorem journal_never_forgets:
  assumes "(journalStep i)\<^sup>*\<^sup>* s s'"
  shows "movesOn (recordOf (js_journal s) i) (recordOf (js_journal s') i)
    \<and> (\<forall>k. k \<noteq> i \<longrightarrow> recordOf (js_journal s') k = recordOf (js_journal s) k)
    \<and> (js_journal s = Unreadable \<longrightarrow> js_journal s' = Unreadable)"
  using assms
proof induction
  case (step s1 s2)
  with journalStep_moves [OF step.hyps(2)] movesOn_trans show ?case by metis
qed simp

text \<open>A settled record, asked to become an intent and then submitted.\<close>

definition wSettled :: journal_store where
  "wSettled = snd (markPayoutSettled 5 \<lparr>js_journal = Absent, js_writes = []\<rparr> ''t'' (Some ''op''))"

theorem journal_never_forgets_witness:
  "map_option py_status (recordOf (js_journal (snd (recordPayoutSubmitted 9 (snd (recordPayoutIntent 8 wSettled ''t'' None)) ''t'' None None))) ''t'')
    = Some P_SETTLED"
proof -
  let ?s1 = "snd (recordPayoutIntent 8 wSettled ''t'' None)"
  let ?s2 = "snd (recordPayoutSubmitted 9 ?s1 ''t'' None None)"
  have "(journalStep ''t'')\<^sup>*\<^sup>* wSettled ?s2"
    using journalStep.intent [of "''t''" wSettled 8 None] journalStep.submitted [of "''t''" ?s1 9 None None] by simp
  from journal_never_forgets [OF this] have "movesOn (recordOf (js_journal wSettled) ''t'') (recordOf (js_journal ?s2) ''t'')" by simp
  moreover have "map_option py_status (recordOf (js_journal wSettled) ''t'') = Some P_SETTLED" by code_simp
  ultimately show ?thesis by (auto simp: movesOn_def payoutRank_def split: option.splits payout_status.splits)
qed

section \<open>Credit\<close>

text \<open>What the device holds when a claim is taken as credited: a finished redemption without error, or no
  redemption and a recorded credit or a settled payout.\<close>

definition creditHeld :: "ledger \<Rightarrow> (string \<times> redemption_evidence) list \<Rightarrow> journal_store \<Rightarrow> string \<Rightarrow> bool" where
  "creditHeld ledger pending s i \<longleftrightarrow> (case map_of pending i of
     Some r \<Rightarrow> (re_unresolvedCredit r \<longrightarrow> truthyN (re_resolvedAt r)) \<and> \<not> truthyS (re_lastError r) \<and> truthyN (re_creditedAt r)
   | None \<Rightarrow> map_of ledger i \<noteq> None \<or> map_option py_status (recordOf (js_journal s) i) = Some P_SETTLED)"

lemma observer_held: "defaultCreditObserver ledger pending s i = creditHeld ledger pending s i"
  by (auto simp: defaultCreditObserver_def makeCreditObserver_def readCreditEvidence_def creditObserved_def judgeCredit_def
      creditHeld_def getClaimCredit_def recordOf_loaded split: option.splits)

text \<open>C35. The slice gate, over the observer the app gives it, opens on money this device saw arrive: every
  slice it counts has a completed state whose claim finished its redemption without an error, or has
  no redemption left and a recorded credit or a settled payout. A redemption that is unresolved, has
  failed or has not credited overrides every other proof.\<close>

theorem gate_opens_on_credit:
  assumes "g = trancheGate p tot ss (\<lambda>s. defaultCreditObserver ledger pending store (st_id s))" "0 \<le> j" "j < tg_settled g"
  shows "\<exists>s\<in>set ss. sliceAt p j s \<and> st_status s = COMPLETED \<and> (case map_of pending (st_id s) of
     Some r \<Rightarrow> (re_unresolvedCredit r \<longrightarrow> truthyN (re_resolvedAt r)) \<and> \<not> truthyS (re_lastError r) \<and> truthyN (re_creditedAt r)
   | None \<Rightarrow> map_of ledger (st_id s) \<noteq> None
       \<or> map_option py_status (recordOf (js_journal store) (st_id s)) = Some P_SETTLED)"
  using trancheGate_counted [OF assms] unfolding observer_held creditHeld_def by blast

text \<open>A plan of three whose first slice completed and credited; the second starts.\<close>

definition wCredits :: ledger where
  "wCredits = recordClaimCredit 7 True [] (''i'' @ st_id (wSlice 0 COMPLETED)) 3000"

definition wCredited :: state where
  "wCredited = (wSlice 0 COMPLETED)\<lparr>st_id := ''i'' @ st_id (wSlice 0 COMPLETED)\<rparr>"

lemma wCredited_simps: "trancheOf wCredited = Some \<lparr>tr_planId = ''p'', tr_index = 0, tr_total = 3, tr_totalMsats = 9000\<rparr>"
  "st_status wCredited = COMPLETED" "st_id wCredited = ''i'' @ st_id (wSlice 0 COMPLETED)"
  using wSlice_simps [of 0 COMPLETED] by (simp_all add: wCredited_def trancheOf_def)

theorem gate_opens_on_credit_witness:
  "tg_settled (trancheGate ''p'' 3 [wCredited] (\<lambda>s. defaultCreditObserver wCredits [] \<lparr>js_journal = Absent, js_writes = []\<rparr> (st_id s))) = 1
   \<and> map_of wCredits (st_id wCredited) \<noteq> None"
proof -
  let ?c = "\<lambda>s. defaultCreditObserver wCredits [] \<lparr>js_journal = Absent, js_writes = []\<rparr> (st_id s)"
  let ?g = "trancheGate ''p'' 3 [wCredited] ?c"
  have n: "nat 3 = Suc (Suc (Suc 0))" by simp
  have l: "map_of wCredits (st_id wCredited) \<noteq> None"
    by (simp add: wCredits_def recordClaimCredit_def wCredited_simps MAX_CLAIM_CREDITS_def Let_def)
  then have c: "?c wCredited" by (simp add: observer_held creditHeld_def)
  have g: "tg_settled ?g = 1"
    unfolding trancheGate_def n by (simp add: gateAt_furthest keepFurthest_def Let_def trancheOutcome_def wCredited_simps(1,2) c)
  from gate_opens_on_credit [OF refl, of 0 "''p''" 3 "[wCredited]" wCredits "[]" "\<lparr>js_journal = Absent, js_writes = []\<rparr>"] g
  have "map_of wCredits (st_id wCredited) \<noteq> None" by (simp add: recordOf_def)
  with g show ?thesis by simp
qed

end
