(* ===== verification/Pending_Funding.thy ===== *)
theory Pending_Funding
  imports Chama_Prelude
begin

text \<open>
  The durable stash of bearer notes that have left the Fedi wallet
  (\<open>src/fedimint/pending-fundings.ts\<close>): its writers and readers and the boot drain. As the payout
  journal, the stored stash is absent, unreadable or an association list by escrow id, and the
  store carries the outcomes of the writes to come. The drain runs alone: nothing else writes
  the stash between its entries.
\<close>

section \<open>The stash\<close>

definition MAX_FUNDING_DRAIN_ATTEMPTS :: int where "MAX_FUNDING_DRAIN_ATTEMPTS = 12"

record pending_funding =
  pf_escrowId :: string
  pf_oobNotes :: string
  pf_amountMsats :: int
  pf_createdAt :: int
  pf_attempts :: int
  pf_lastError :: "string option"

type_synonym stash = "(string \<times> pending_funding) list"

datatype stash_text = NoStash | BadStash | Stash stash

record stash_store =
  ss_text :: stash_text
  ss_writes :: "bool list"

definition stashWrite :: "stash_store \<Rightarrow> bool \<times> stash_store" where
  "stashWrite s = (case ss_writes s of [] \<Rightarrow> (True, s) | b # bs \<Rightarrow> (b, s\<lparr>ss_writes := bs\<rparr>))"

definition parseStash :: "stash_text \<Rightarrow> stash option" where
  "parseStash t = (case t of NoStash \<Rightarrow> Some [] | BadStash \<Rightarrow> None | Stash st \<Rightarrow> Some st)"

definition loadStashStrict :: "stash_store \<Rightarrow> stash option" where
  "loadStashStrict s = parseStash (ss_text s)"

definition loadStash :: "stash_store \<Rightarrow> stash" where
  "loadStash s = getOr (loadStashStrict s) []"

definition saveStash :: "stash_store \<Rightarrow> stash \<Rightarrow> bool \<times> stash_store" where
  "saveStash s st = (case stashWrite s of
     (True, s') \<Rightarrow> (True, s'\<lparr>ss_text := Stash st\<rparr>)
   | (False, s') \<Rightarrow> (False, s'))"

text \<open>The flag of the writers is whether they return rather than throw.\<close>

definition assertPendingFundingWritable :: "stash_store \<Rightarrow> bool \<times> stash_store" where
  "assertPendingFundingWritable s = (if loadStashStrict s = None then (False, s) else stashWrite s)"

definition stashPendingFunding :: "int \<Rightarrow> stash_store \<Rightarrow> string \<Rightarrow> string \<Rightarrow> int \<Rightarrow> bool \<times> stash_store" where
  "stashPendingFunding now s i notes amount = (case loadStashStrict s of
     None \<Rightarrow> (False, s)
   | Some st \<Rightarrow> (let existing = map_of st i in
       saveStash s (AList.update i \<lparr>pf_escrowId = i, pf_oobNotes = notes, pf_amountMsats = amount,
         pf_createdAt = (case existing of None \<Rightarrow> now | Some e \<Rightarrow> pf_createdAt e),
         pf_attempts = (case existing of None \<Rightarrow> 0 | Some e \<Rightarrow> pf_attempts e),
         pf_lastError = Option.bind existing pf_lastError\<rparr> st)))"

definition clearPendingFunding :: "stash_store \<Rightarrow> string \<Rightarrow> stash_store" where
  "clearPendingFunding s i = (case loadStashStrict s of
     None \<Rightarrow> s
   | Some st \<Rightarrow> if map_of st i = None then s else snd (saveStash s (AList.delete i st)))"

definition listPendingFundings :: "stash_store \<Rightarrow> pending_funding list" where
  "listPendingFundings s = map snd (loadStash s)"

definition listPendingFundingsStrict :: "stash_store \<Rightarrow> pending_funding list option" where
  "listPendingFundingsStrict s = map_option (map snd) (loadStashStrict s)"

definition clearAllPendingFundings :: "stash_store \<Rightarrow> stash_store" where
  "clearAllPendingFundings s = (case stashWrite s of (True, s') \<Rightarrow> s'\<lparr>ss_text := NoStash\<rparr> | (False, s') \<Rightarrow> s')"

section \<open>The drain\<close>

record drain_summary =
  ds_attempted :: nat
  ds_reabsorbed :: nat
  ds_stillPending :: nat

text \<open>\<open>dr_returned\<close>: the entries whose notes Fedi confirmed, in order.\<close>

record drain_state =
  dr_summary :: drain_summary
  dr_store :: stash_store
  dr_returned :: "(string \<times> string) list"

definition stillPending :: "drain_summary \<Rightarrow> drain_summary" where
  "stillPending m = m\<lparr>ds_stillPending := ds_stillPending m + 1\<rparr>"

definition noteError :: "stash_store \<Rightarrow> string \<Rightarrow> string \<Rightarrow> stash_store" where
  "noteError s i msg = (case loadStashStrict s of
     None \<Rightarrow> s
   | Some st \<Rightarrow> (case map_of st i of None \<Rightarrow> s
       | Some cur \<Rightarrow> snd (saveStash s (AList.update i (cur\<lparr>pf_lastError := Some (take 500 msg)\<rparr>) st))))"

text \<open>One entry of the snapshot. \<open>receive\<close> is the answer of the wallet: the error it throws, if any.\<close>

definition drainEntry :: "(string \<Rightarrow> string option) \<Rightarrow> drain_state \<Rightarrow> pending_funding \<Rightarrow> drain_state" where
  "drainEntry receive d entry = (let i = pf_escrowId entry; m = dr_summary d in
     if pf_attempts entry \<ge> MAX_FUNDING_DRAIN_ATTEMPTS then d\<lparr>dr_summary := stillPending m\<rparr>
     else let m1 = m\<lparr>ds_attempted := ds_attempted m + 1\<rparr>; tried = entry\<lparr>pf_attempts := pf_attempts entry + 1\<rparr> in
       case (case loadStashStrict (dr_store d) of None \<Rightarrow> (False, dr_store d)
             | Some st \<Rightarrow> saveStash (dr_store d) (AList.update i tried st)) of
         (False, s1) \<Rightarrow> d\<lparr>dr_summary := stillPending m1, dr_store := s1\<rparr>
       | (True, s1) \<Rightarrow> (case receive (pf_oobNotes entry) of
           None \<Rightarrow> d\<lparr>dr_summary := m1\<lparr>ds_reabsorbed := ds_reabsorbed m1 + 1\<rparr>, dr_store := clearPendingFunding s1 i,
             dr_returned := dr_returned d @ [(i, pf_oobNotes entry)]\<rparr>
         | Some msg \<Rightarrow> d\<lparr>dr_summary := stillPending m1, dr_store := noteError s1 i msg\<rparr>))"

definition drainPendingFundings :: "bool \<Rightarrow> (string \<Rightarrow> string option) \<Rightarrow> stash_store \<Rightarrow> drain_state" where
  "drainPendingFundings hasReceive receive s =
     (if \<not> hasReceive
      then \<lparr>dr_summary = \<lparr>ds_attempted = 0, ds_reabsorbed = 0, ds_stillPending = length (loadStash s)\<rparr>, dr_store = s, dr_returned = []\<rparr>
      else foldl (drainEntry receive)
        \<lparr>dr_summary = \<lparr>ds_attempted = 0, ds_reabsorbed = 0, ds_stillPending = 0\<rparr>, dr_store = s, dr_returned = []\<rparr>
        (map snd (loadStash s)))"

section \<open>What the stash keeps\<close>

text \<open>A well-formed stash: readable, one entry per escrow, each under its own id.\<close>

definition stashOk :: "stash_text \<Rightarrow> bool" where
  "stashOk t \<longleftrightarrow> (case parseStash t of None \<Rightarrow> False
     | Some st \<Rightarrow> distinct (map fst st) \<and> (\<forall>(i, e)\<in>set st. pf_escrowId e = i))"

definition entryIn :: "stash_text \<Rightarrow> string \<Rightarrow> pending_funding option" where
  "entryIn t = map_of (getOr (parseStash t) [])"

definition notesOf :: "stash_text \<Rightarrow> string \<Rightarrow> string option" where
  "notesOf t i = map_option pf_oobNotes (entryIn t i)"

lemma stashOk_parsed: "stashOk t \<Longrightarrow> \<exists>st. parseStash t = Some st"
  by (auto simp: stashOk_def split: option.splits)

lemma stashWrite_text: "stashWrite s = (b, s') \<Longrightarrow> ss_text s' = ss_text s"
  by (auto simp: stashWrite_def split: list.splits)

lemma saveStash_text: "saveStash s st = (ok, s') \<Longrightarrow> ss_text s' = (if ok then Stash st else ss_text s)"
  by (auto simp: saveStash_def dest: stashWrite_text split: prod.splits bool.splits)

lemma parseStash_Stash [simp]: "parseStash (Stash st) = Some st"
  by (simp add: parseStash_def)

lemma stashOk_update:
  "stashOk t \<Longrightarrow> parseStash t = Some st \<Longrightarrow> pf_escrowId e' = i \<Longrightarrow> stashOk (Stash (AList.update i e' st))"
proof -
  assume a: "stashOk t" "parseStash t = Some st" "pf_escrowId e' = i"
  then have st: "distinct (map fst st)" "\<forall>(j, e)\<in>set st. pf_escrowId e = j" by (simp_all add: stashOk_def)
  then have d: "distinct (map fst (AList.update i e' st))" by (simp add: distinct_update)
  have "pf_escrowId e = j" if "(j, e) \<in> set (AList.update i e' st)" for j e
  proof -
    have "map_of (AList.update i e' st) j = Some e" using that d by simp
    then show ?thesis using a(3) st(2) by (auto simp: update_conv' split: if_splits dest: map_of_SomeD)
  qed
  with d show ?thesis by (auto simp: stashOk_def)
qed

lemma saveUpdate_keeps:
  assumes "stashOk (ss_text s)" "loadStashStrict s = Some st" "saveStash s (AList.update i e st) = (ok, s')" "pf_escrowId e = i"
  shows "stashOk (ss_text s')" "entryIn (ss_text s') = (if ok then (entryIn (ss_text s))(i \<mapsto> e) else entryIn (ss_text s))"
  using saveStash_text [OF assms(3)] stashOk_update [OF assms(1) assms(2) [unfolded loadStashStrict_def] assms(4)] assms(1,2)
  by (auto simp: loadStashStrict_def entryIn_def update_conv')

lemma clear_keeps:
  assumes "stashOk (ss_text s)"
  shows "stashOk (ss_text (clearPendingFunding s i))"
    "j \<noteq> i \<Longrightarrow> entryIn (ss_text (clearPendingFunding s i)) j = entryIn (ss_text s) j"
proof -
  from assms obtain st where st: "parseStash (ss_text s) = Some st" "distinct (map fst st)" "\<forall>(i, e)\<in>set st. pf_escrowId e = i"
    by (auto simp: stashOk_def split: option.splits)
  obtain ok s' where sv: "saveStash s (AList.delete i st) = (ok, s')" by fastforce
  have "distinct (map fst (AList.delete i st))" using st by (simp add: distinct_delete)
  moreover have "\<forall>(j, e)\<in>set (AList.delete i st). pf_escrowId e = j" using st by (auto simp: AList.delete_eq)
  ultimately show "stashOk (ss_text (clearPendingFunding s i))"
    using saveStash_text [OF sv] st sv by (auto simp: clearPendingFunding_def loadStashStrict_def stashOk_def)
  from saveStash_text [OF sv] st sv
  show "j \<noteq> i \<Longrightarrow> entryIn (ss_text (clearPendingFunding s i)) j = entryIn (ss_text s) j"
    by (auto simp: clearPendingFunding_def loadStashStrict_def entryIn_def delete_conv')
qed

lemma stash_keeps:
  assumes "stashOk (ss_text s)" "stashPendingFunding now s i notes amount = (ok, s')"
  shows "stashOk (ss_text s')" "notesOf (ss_text s') = (if ok then (notesOf (ss_text s))(i \<mapsto> notes) else notesOf (ss_text s))"
proof -
  obtain st where st: "loadStashStrict s = Some st" using stashOk_parsed [OF assms(1)] by (auto simp: loadStashStrict_def)
  with assms(2) obtain e where e: "saveStash s (AList.update i e st) = (ok, s')" "pf_escrowId e = i" "pf_oobNotes e = notes"
    by (auto simp: stashPendingFunding_def Let_def)
  from saveUpdate_keeps [OF assms(1) st e(1,2)] e(3)
  show "stashOk (ss_text s')" "notesOf (ss_text s') = (if ok then (notesOf (ss_text s))(i \<mapsto> notes) else notesOf (ss_text s))"
    by (auto simp: notesOf_def fun_eq_iff)
qed

lemma noteError_keeps:
  assumes "stashOk (ss_text s)"
  shows "stashOk (ss_text (noteError s i msg))" "notesOf (ss_text (noteError s i msg)) = notesOf (ss_text s)"
proof -
  obtain st where st: "loadStashStrict s = Some st" using stashOk_parsed [OF assms] by (auto simp: loadStashStrict_def)
  have "stashOk (ss_text (noteError s i msg)) \<and> notesOf (ss_text (noteError s i msg)) = notesOf (ss_text s)"
  proof (cases "map_of st i")
    case None
    with st assms show ?thesis by (simp add: noteError_def)
  next
    case (Some cur)
    then have cur: "entryIn (ss_text s) i = Some cur" "pf_escrowId (cur\<lparr>pf_lastError := Some (take 500 msg)\<rparr>) = i"
      using st assms by (auto simp: entryIn_def loadStashStrict_def stashOk_def dest: map_of_SomeD)
    obtain ok s' where sv: "saveStash s (AList.update i (cur\<lparr>pf_lastError := Some (take 500 msg)\<rparr>) st) = (ok, s')" by fastforce
    from saveUpdate_keeps [OF assms st sv cur(2)] cur(1) Some st sv show ?thesis
      by (auto simp: noteError_def notesOf_def fun_eq_iff)
  qed
  then show "stashOk (ss_text (noteError s i msg))" "notesOf (ss_text (noteError s i msg)) = notesOf (ss_text s)" by simp_all
qed

end
