(* ===== verification/Fedi_Funding.thy ===== *)
theory Fedi_Funding
  imports Pending_Funding
begin

text \<open>
  Funding a trade out of the Fedi wallet (\<open>src/payments/fedi-fund-and-lock.ts\<close>): bearer notes leave
  the wallet, are stashed, and are locked or handed back. The injected dependencies are the
  record \<open>fund_deps\<close> of their answers; the stash dependencies are bound to \<open>Pending_Funding\<close>, as the
  hook binds them. What a run does is logged in order, each entry with the stash as it is stored
  then, so that a crash is a prefix of the log. Copy texts are reduced to what they tell apart.
\<close>

record fund_opts =
  fo_escrowId :: string
  fo_amountMsats :: int

text \<open>\<open>fd_aborted k\<close> is the \<open>k\<close>-th look at the abort signal, \<open>fd_receive k\<close> whether the \<open>k\<close>-th attempt to hand
  the notes back is confirmed.\<close>

record fund_deps =
  fd_now :: int
  fd_preflight :: "string option"
  fd_aborted :: "nat \<Rightarrow> bool"
  fd_generateEcash :: "string + string"
  fd_receive :: "nat \<Rightarrow> bool"
  fd_hashNotes :: "string \<Rightarrow> string"
  fd_lockAndPublish :: "string + string option"

datatype fund_effect = SPENT string | STASHED string | STASH_LOST | RETURNED string | LOCK_SENT string | COMMITTED string | CLEARED

datatype lock_failure = NOT_FUNDABLE string | CANNOT_SAVE | GENERATE_FAILED string | UNSAVED_BUT_RETURNED | NOTES_LOST
  | LOCK_FAILED_RETURNED string | LOCK_FAILED_SAVED string | LOCK_FAILED_LOST string

datatype fund_terminal = F_LOCKED | F_ABORTED | F_LOCK_FAILED lock_failure

record fund_world =
  fw_store :: stash_store
  fw_log :: "(fund_effect \<times> stash_text) list"

definition fundAct :: "fund_effect \<Rightarrow> fund_world \<Rightarrow> fund_world" where
  "fundAct x w = w\<lparr>fw_log := fw_log w @ [(x, ss_text (fw_store w))]\<rparr>"

definition clearFunding :: "fund_opts \<Rightarrow> fund_world \<Rightarrow> fund_world" where
  "clearFunding Op w = fundAct CLEARED (w\<lparr>fw_store := clearPendingFunding (fw_store w) (fo_escrowId Op)\<rparr>)"

text \<open>Handing the notes back: confirmed, and the stash cleared, or refused, and the stash kept.\<close>

definition reabsorb :: "fund_opts \<Rightarrow> fund_deps \<Rightarrow> string \<Rightarrow> nat \<Rightarrow> fund_world \<Rightarrow> bool \<times> fund_world" where
  "reabsorb Op D notes k w = (if fd_receive D k then (True, clearFunding Op (fundAct (RETURNED notes) w)) else (False, w))"

definition recoverFailedLock ::
  "fund_opts \<Rightarrow> fund_deps \<Rightarrow> string \<Rightarrow> nat \<Rightarrow> string \<Rightarrow> bool \<Rightarrow> fund_world \<Rightarrow> fund_terminal \<times> fund_world" where
  "recoverFailedLock Op D notes k originalError stashed w = (case reabsorb Op D notes k w of
     (recovered, w') \<Rightarrow> (F_LOCK_FAILED (if recovered then LOCK_FAILED_RETURNED originalError
        else if stashed then LOCK_FAILED_SAVED originalError else LOCK_FAILED_LOST originalError), w'))"

text \<open>From the spend on: \<open>k\<close> attempts to hand back have been made, \<open>stashed\<close> is the outcome of the stash write.\<close>

definition lockNotes :: "fund_opts \<Rightarrow> fund_deps \<Rightarrow> string \<Rightarrow> nat \<Rightarrow> bool \<Rightarrow> fund_world \<Rightarrow> fund_terminal \<times> fund_world" where
  "lockNotes Op D notes k stashed w =
     (if fd_aborted D 1
      then (case reabsorb Op D notes k w of
        (recovered, w') \<Rightarrow> (if \<not> recovered \<and> \<not> stashed then F_LOCK_FAILED NOTES_LOST else F_ABORTED, w'))
      else let w1 = fundAct (LOCK_SENT notes) w in
        case fd_lockAndPublish D of
          Inl e \<Rightarrow> recoverFailedLock Op D notes k e stashed w1
        | Inr locked \<Rightarrow>
            if locked = Some (fd_hashNotes D notes) then (F_LOCKED, clearFunding Op (fundAct (COMMITTED notes) w1))
            else recoverFailedLock Op D notes k ''This trade was no longer lockable.'' stashed w1)"

definition spentNotes :: "fund_opts \<Rightarrow> fund_deps \<Rightarrow> string \<Rightarrow> fund_world \<Rightarrow> fund_terminal \<times> fund_world" where
  "spentNotes Op D notes w =
     (case stashPendingFunding (fd_now D) (fw_store w) (fo_escrowId Op) notes (fo_amountMsats Op) of
        (stashed, s) \<Rightarrow> (let w1 = fundAct (if stashed then STASHED notes else STASH_LOST) (w\<lparr>fw_store := s\<rparr>) in
          if stashed then lockNotes Op D notes 0 True w1
          else (case reabsorb Op D notes 0 w1 of
            (True, w2) \<Rightarrow> (F_LOCK_FAILED UNSAVED_BUT_RETURNED, w2)
          | (False, w2) \<Rightarrow> lockNotes Op D notes 1 False w2)))"

definition runFediFundAndLock :: "fund_opts \<Rightarrow> fund_deps \<Rightarrow> fund_world \<Rightarrow> fund_terminal \<times> fund_world" where
  "runFediFundAndLock Op D w = (case fd_preflight D of
     Some e \<Rightarrow> (F_LOCK_FAILED (NOT_FUNDABLE e), w)
   | None \<Rightarrow>
       if fd_aborted D 0 then (F_ABORTED, w)
       else (case assertPendingFundingWritable (fw_store w) of
         (False, s) \<Rightarrow> (F_LOCK_FAILED CANNOT_SAVE, w\<lparr>fw_store := s\<rparr>)
       | (True, s) \<Rightarrow> (case fd_generateEcash D of
           Inl e \<Rightarrow> (F_LOCK_FAILED (GENERATE_FAILED e), w\<lparr>fw_store := s\<rparr>)
         | Inr notes \<Rightarrow> spentNotes Op D notes (fundAct (SPENT notes) (w\<lparr>fw_store := s\<rparr>)))))"

end
