(* ===== verification/Fund_Safety.thy ===== *)
theory Fund_Safety
  imports Fedi_Funding
begin

text \<open>
  Spent notes are not dropped. \<open>fundHistory\<close> relates a stored stash to the notes that any number of
  funding runs and boot drains, each cut at any point, have spent and stashed and neither handed
  back nor committed to a LOCK.
\<close>

section \<open>One entry of the drain\<close>

lemma drainEntry_keeps:
  assumes ok: "stashOk (ss_text (dr_store d))" and cur: "notesOf (ss_text (dr_store d)) (pf_escrowId e) = Some (pf_oobNotes e)"
  shows "stashOk (ss_text (dr_store (drainEntry receive d e)))"
    "j \<noteq> pf_escrowId e \<Longrightarrow> notesOf (ss_text (dr_store (drainEntry receive d e))) j = notesOf (ss_text (dr_store d)) j"
    "notesOf (ss_text (dr_store (drainEntry receive d e))) (pf_escrowId e) = Some (pf_oobNotes e)
      \<or> (pf_escrowId e, pf_oobNotes e) \<in> set (dr_returned (drainEntry receive d e))"
    "set (dr_returned d) \<subseteq> set (dr_returned (drainEntry receive d e))"
proof -
  let ?i = "pf_escrowId e" and ?e = "e\<lparr>pf_attempts := pf_attempts e + 1\<rparr>"
  obtain st where st: "loadStashStrict (dr_store d) = Some st" using stashOk_parsed [OF ok] by (auto simp: loadStashStrict_def)
  obtain b s1 where sv: "saveStash (dr_store d) (AList.update ?i ?e st) = (b, s1)" by fastforce
  from saveUpdate_keeps [OF ok st sv] have s1: "stashOk (ss_text s1)" "notesOf (ss_text s1) = notesOf (ss_text (dr_store d))"
    using cur by (auto simp: notesOf_def fun_eq_iff)
  note k = clear_keeps [OF s1(1)] noteError_keeps [OF s1(1)]
  show "stashOk (ss_text (dr_store (drainEntry receive d e)))"
    using ok s1 k by (auto simp: drainEntry_def Let_def st sv split: option.splits bool.splits)
  show "j \<noteq> ?i \<Longrightarrow> notesOf (ss_text (dr_store (drainEntry receive d e))) j = notesOf (ss_text (dr_store d)) j"
    using ok s1 k by (auto simp: drainEntry_def Let_def st sv notesOf_def fun_eq_iff split: option.splits bool.splits)
  show "notesOf (ss_text (dr_store (drainEntry receive d e))) ?i = Some (pf_oobNotes e)
      \<or> (?i, pf_oobNotes e) \<in> set (dr_returned (drainEntry receive d e))"
    using cur s1 k by (auto simp: drainEntry_def Let_def st sv split: option.splits bool.splits)
  show "set (dr_returned d) \<subseteq> set (dr_returned (drainEntry receive d e))"
    by (auto simp: drainEntry_def Let_def st sv split: option.splits bool.splits)
qed

lemma drain_keeps:
  assumes "stashOk (ss_text (dr_store d))" "distinct (map pf_escrowId es)"
    "\<forall>e\<in>set es. notesOf (ss_text (dr_store d)) (pf_escrowId e) = Some (pf_oobNotes e)"
    "d' = foldl (drainEntry receive) d es"
  shows "stashOk (ss_text (dr_store d')) \<and> set (dr_returned d) \<subseteq> set (dr_returned d')
    \<and> (\<forall>j n. notesOf (ss_text (dr_store d)) j = Some n \<longrightarrow> notesOf (ss_text (dr_store d')) j = Some n \<or> (j, n) \<in> set (dr_returned d'))"
  using assms(1-3) unfolding assms(4)
proof (induction es arbitrary: d)
  case (Cons e es)
  define d1 where "d1 = drainEntry receive d e"
  have cur: "notesOf (ss_text (dr_store d)) (pf_escrowId e) = Some (pf_oobNotes e)" using Cons.prems(3) by simp
  note k = drainEntry_keeps [OF Cons.prems(1) cur, where receive = receive, folded d1_def]
  have "\<forall>x\<in>set es. notesOf (ss_text (dr_store d1)) (pf_escrowId x) = Some (pf_oobNotes x)"
  proof
    fix x assume x: "x \<in> set es"
    with Cons.prems(2) have "pf_escrowId x \<noteq> pf_escrowId e" by (metis distinct.simps(2) image_eqI list.map(2) list.set_map)
    from k(2) [OF this] Cons.prems(3) x show "notesOf (ss_text (dr_store d1)) (pf_escrowId x) = Some (pf_oobNotes x)" by simp
  qed
  from Cons.IH [OF k(1) _ this] Cons.prems(2)
  have ih: "stashOk (ss_text (dr_store (foldl (drainEntry receive) d1 es)))"
    "set (dr_returned d1) \<subseteq> set (dr_returned (foldl (drainEntry receive) d1 es))"
    "\<forall>j n. notesOf (ss_text (dr_store d1)) j = Some n \<longrightarrow> notesOf (ss_text (dr_store (foldl (drainEntry receive) d1 es))) j = Some n
      \<or> (j, n) \<in> set (dr_returned (foldl (drainEntry receive) d1 es))" by auto
  have "notesOf (ss_text (dr_store d1)) j = Some n \<or> (j, n) \<in> set (dr_returned d1)"
    if "notesOf (ss_text (dr_store d)) j = Some n" for j n
    using that k(2) [of j] k(3) cur by (cases "j = pf_escrowId e") auto
  with ih k(4) show ?case unfolding foldl_Cons d1_def [symmetric] by blast
qed simp

section \<open>Outstanding notes\<close>

text \<open>What a log entry does to the notes outstanding for the escrow \<open>i\<close>.\<close>

definition owed :: "string \<Rightarrow> (string \<times> string) set \<Rightarrow> fund_effect \<Rightarrow> (string \<times> string) set" where
  "owed i Q x = (case x of STASHED n \<Rightarrow> insert (i, n) Q | RETURNED n \<Rightarrow> Q - {(i, n)} | COMMITTED n \<Rightarrow> Q - {(i, n)} | _ \<Rightarrow> Q)"

text \<open>The stash when a run is cut: the one of the last entry.\<close>

definition lastText :: "stash_text \<Rightarrow> (fund_effect \<times> stash_text) list \<Rightarrow> stash_text" where
  "lastText t xs = (if xs = [] then t else snd (last xs))"

inductive fundHistory :: "stash_text \<Rightarrow> (string \<times> string) set \<Rightarrow> bool" where
  empty: "fundHistory NoStash {}"
| fund: "fundHistory t Q \<Longrightarrow> entryIn t (fo_escrowId Op) = None \<Longrightarrow> ss_text (fw_store w) = t \<Longrightarrow> fw_log w = []
    \<Longrightarrow> runFediFundAndLock Op D w = (r, w') \<Longrightarrow> xs = take n (fw_log w')
    \<Longrightarrow> fundHistory (lastText t xs) (foldl (owed (fo_escrowId Op)) Q (map fst xs))"
| drain: "fundHistory t Q \<Longrightarrow> ss_text s = t
    \<Longrightarrow> d = foldl (drainEntry receive) \<lparr>dr_summary = m, dr_store = s, dr_returned = []\<rparr> (take n (map snd (loadStash s)))
    \<Longrightarrow> fundHistory (ss_text (dr_store d)) (Q - set (dr_returned d))"

definition heldOk :: "stash_text \<times> (string \<times> string) set \<Rightarrow> bool" where
  "heldOk p \<longleftrightarrow> stashOk (fst p) \<and> (\<forall>(i, n)\<in>snd p. notesOf (fst p) i = Some n)"

definition followFund :: "string \<Rightarrow> stash_text \<times> (string \<times> string) set \<Rightarrow> fund_effect \<times> stash_text \<Rightarrow> stash_text \<times> (string \<times> string) set" where
  "followFund i p x = (snd x, owed i (snd p) (fst x))"

text \<open>A log is safe when every state it passes holds what is outstanding.\<close>

fun safeLog :: "string \<Rightarrow> stash_text \<times> (string \<times> string) set \<Rightarrow> (fund_effect \<times> stash_text) list \<Rightarrow> bool" where
  "safeLog i p [] \<longleftrightarrow> heldOk p"
| "safeLog i p (x # xs) \<longleftrightarrow> heldOk p \<and> safeLog i (followFund i p x) xs"

lemma safeLog_append: "safeLog i p (xs @ ys) \<longleftrightarrow> safeLog i p xs \<and> safeLog i (foldl (followFund i) p xs) ys"
proof (induction xs arbitrary: p)
  case Nil
  then show ?case by (cases ys) auto
qed auto

lemma safeLog_take: "safeLog i p xs \<Longrightarrow> heldOk (foldl (followFund i) p (take n xs))"
proof (induction xs arbitrary: p n)
  case (Cons x xs)
  then show ?case by (cases n) auto
qed simp

lemma followed: "foldl (followFund i) (t, Q) xs = (lastText t xs, foldl (owed i) Q (map fst xs))"
  by (induction xs arbitrary: t Q) (auto simp: followFund_def lastText_def)

text \<open>\<open>safeAt\<close>: the log so far is safe and leads to the stored stash and \<open>Q\<close>.\<close>

definition safeAt :: "string \<Rightarrow> stash_text \<times> (string \<times> string) set \<Rightarrow> fund_world \<Rightarrow> (string \<times> string) set \<Rightarrow> bool" where
  "safeAt i p w Q \<longleftrightarrow> safeLog i p (fw_log w) \<and> foldl (followFund i) p (fw_log w) = (ss_text (fw_store w), Q)"

lemma safeAt_held: "safeAt i p w Q \<Longrightarrow> heldOk (ss_text (fw_store w), Q)"
  using safeLog_take [of i p "fw_log w" "length (fw_log w)"] by (simp add: safeAt_def)

lemma safeAt_act:
  assumes "safeAt i p w Q" "heldOk (ss_text s, owed i Q x)"
  shows "safeAt i p (fundAct x (w\<lparr>fw_store := s\<rparr>)) (owed i Q x)"
  using assms by (simp add: safeAt_def fundAct_def safeLog_append followFund_def)
    (metis safeLog_take take_all le_refl)

lemma safeAt_quiet: "safeAt i p w Q \<Longrightarrow> owed i Q x = Q \<Longrightarrow> safeAt i p (fundAct x w) Q"
  using safeAt_act [of i p w Q "fw_store w" x] safeAt_held by (simp add: fundAct_def)

lemma safeAt_writes:
  "safeAt i p w Q \<Longrightarrow> ss_text s = ss_text (fw_store w) \<Longrightarrow> safeAt i p (w\<lparr>fw_store := s\<rparr>) Q"
  by (simp add: safeAt_def)

lemma clearFunding_safe:
  assumes "safeAt i p w Q" "\<forall>m. (i, m) \<notin> Q" "fo_escrowId Op = i"
  shows "safeAt i p (clearFunding Op w) Q"
proof -
  have h: "heldOk (ss_text (fw_store w), Q)" by (rule safeAt_held [OF assms(1)])
  let ?s = "clearPendingFunding (fw_store w) i"
  from h have ok: "stashOk (ss_text (fw_store w))" by (simp add: heldOk_def)
  have "heldOk (ss_text ?s, owed i Q CLEARED)"
  proof -
    have "notesOf (ss_text ?s) j = Some m" if "(j, m) \<in> Q" for j m
    proof -
      have "j \<noteq> i" using that assms(2) by auto
      from clear_keeps(2) [OF ok this] h that show ?thesis by (auto simp: heldOk_def notesOf_def)
    qed
    with clear_keeps(1) [OF ok] show ?thesis by (auto simp: heldOk_def owed_def)
  qed
  from safeAt_act [OF assms(1) this] assms(3) show ?thesis by (simp add: clearFunding_def owed_def)
qed

text \<open>Giving the notes away: no other notes of the escrow are outstanding.\<close>

lemma settled_safe:
  assumes "safeAt i p w Q" "\<forall>m. (i, m) \<in> Q \<longrightarrow> m = n" "fo_escrowId Op = i" "x \<in> {RETURNED n, COMMITTED n}"
  shows "safeAt i p (clearFunding Op (fundAct x w)) (Q - {(i, n)})"
proof -
  have o: "owed i Q x = Q - {(i, n)}" using assms(4) by (auto simp: owed_def)
  have "heldOk (ss_text (fw_store w), owed i Q x)" using safeAt_held [OF assms(1)] by (auto simp: heldOk_def o)
  from safeAt_act [OF assms(1), of "fw_store w", OF this] have "safeAt i p (fundAct x w) (Q - {(i, n)})" by (simp add: o)
  from clearFunding_safe [OF this _ assms(3)] assms(2) show ?thesis by auto
qed

lemma reabsorb_safe:
  assumes "safeAt i p w Q" "\<forall>m. (i, m) \<in> Q \<longrightarrow> m = n" "fo_escrowId Op = i" "reabsorb Op D n k w = (b, w')"
  shows "safeAt i p w' (if b then Q - {(i, n)} else Q)"
  using assms settled_safe [OF assms(1-3)] by (auto simp: reabsorb_def split: if_splits)

lemma recover_safe:
  assumes "safeAt i p w Q" "\<forall>m. (i, m) \<in> Q \<longrightarrow> m = n" "fo_escrowId Op = i" "recoverFailedLock Op D n k e st w = (t, w')"
  shows "\<exists>Q'. safeAt i p w' Q'"
  using assms(4) reabsorb_safe [OF assms(1-3)] by (fastforce simp: recoverFailedLock_def split: prod.splits)

lemma lockNotes_safe:
  assumes "safeAt i p w Q" "\<forall>m. (i, m) \<in> Q \<longrightarrow> m = n" "fo_escrowId Op = i" "lockNotes Op D n k st w = (t, w')"
  shows "\<exists>Q'. safeAt i p w' Q'"
proof -
  have w1: "safeAt i p (fundAct (LOCK_SENT n) w) Q" by (rule safeAt_quiet [OF assms(1)]) (simp add: owed_def)
  show ?thesis
  proof (cases "fd_aborted D 1")
    case True
    obtain b v where r: "reabsorb Op D n k w = (b, v)" by fastforce
    with True assms(4) have "v = w'" by (simp add: lockNotes_def)
    with reabsorb_safe [OF assms(1-3) r] show ?thesis by blast
  next
    case False
    have "(\<exists>e. recoverFailedLock Op D n k e st (fundAct (LOCK_SENT n) w) = (t, w'))
        \<or> w' = clearFunding Op (fundAct (COMMITTED n) (fundAct (LOCK_SENT n) w))"
      using assms(4) False by (auto simp: lockNotes_def Let_def split: sum.splits if_splits)
    with recover_safe [OF w1 assms(2,3)] settled_safe [OF w1 assms(2,3), of "COMMITTED n"] show ?thesis by blast
  qed
qed

lemma spent_safe:
  assumes w: "safeAt i p w Q" "\<forall>m. (i, m) \<notin> Q" "fo_escrowId Op = i" and run: "spentNotes Op D n w = (t, w')"
  shows "\<exists>Q'. safeAt i p w' Q'"
proof -
  obtain b s where st: "stashPendingFunding (fd_now D) (fw_store w) i n (fo_amountMsats Op) = (b, s)" by fastforce
  have h: "heldOk (ss_text (fw_store w), Q)" by (rule safeAt_held [OF w(1)])
  then have "stashOk (ss_text (fw_store w))" by (simp add: heldOk_def)
  note k = stash_keeps [OF this st]
  define x where "x = (if b then STASHED n else STASH_LOST)"
  have "heldOk (ss_text s, owed i Q x)" using h k w(2) by (auto simp: heldOk_def x_def owed_def)
  from safeAt_act [OF w(1) this]
  have w1: "safeAt i p (fundAct x (w\<lparr>fw_store := s\<rparr>)) (owed i Q x)" .
  have only: "\<forall>m. (i, m) \<in> owed i Q x \<longrightarrow> m = n" using w(2) by (auto simp: x_def owed_def)
  show ?thesis
  proof (cases b)
    case True
    with run st w(3) have "lockNotes Op D n 0 True (fundAct x (w\<lparr>fw_store := s\<rparr>)) = (t, w')"
      by (simp add: spentNotes_def x_def)
    from lockNotes_safe [OF w1 only w(3) this] show ?thesis .
  next
    case False
    obtain c w2 where r: "reabsorb Op D n 0 (fundAct x (w\<lparr>fw_store := s\<rparr>)) = (c, w2)" by fastforce
    from reabsorb_safe [OF w1 only w(3) r] False have w2: "safeAt i p w2 Q" using w(2) by (auto simp: x_def owed_def split: if_splits)
    show ?thesis
    proof (cases c)
      case True
      with run st w(3) False r w2 show ?thesis by (auto simp: spentNotes_def x_def)
    next
      case cF: False
      with run st w(3) False r have "lockNotes Op D n 1 False w2 = (t, w')" by (simp add: spentNotes_def x_def)
      from lockNotes_safe [OF w2 _ w(3) this] w(2) show ?thesis by blast
    qed
  qed
qed

lemma run_safe:
  assumes "heldOk (ss_text (fw_store w), Q)" "entryIn (ss_text (fw_store w)) i = None" "fw_log w = []" "fo_escrowId Op = i"
    "runFediFundAndLock Op D w = (t, w')"
  shows "safeLog i (ss_text (fw_store w), Q) (fw_log w')"
proof -
  let ?p = "(ss_text (fw_store w), Q)"
  have w: "safeAt i ?p w Q" using assms(1,3) by (simp add: safeAt_def)
  have none: "\<forall>m. (i, m) \<notin> Q" using assms(1,2) by (auto simp: heldOk_def notesOf_def)
  obtain ok s where a: "assertPendingFundingWritable (fw_store w) = (ok, s)" by fastforce
  then have "ss_text s = ss_text (fw_store w)" by (auto simp: assertPendingFundingWritable_def dest: stashWrite_text split: if_splits)
  from safeAt_writes [OF w this] have ws: "safeAt i ?p (w\<lparr>fw_store := s\<rparr>) Q" .
  have spent: "safeAt i ?p (fundAct (SPENT n) (w\<lparr>fw_store := s\<rparr>)) Q" for n
    by (rule safeAt_quiet [OF ws]) (simp add: owed_def)
  have "\<exists>Q'. safeAt i ?p w' Q'"
    using assms(5) a w ws spent_safe [OF spent none assms(4)]
    by (fastforce simp: runFediFundAndLock_def split: option.splits if_splits bool.splits sum.splits)
  then show ?thesis by (auto simp: safeAt_def)
qed

section \<open>Retries, drains and crashes\<close>

lemma snapshot_current:
  assumes "stashOk (ss_text s)"
  shows "distinct (map pf_escrowId (take n (map snd (loadStash s))))"
    "\<forall>e\<in>set (take n (map snd (loadStash s))). notesOf (ss_text s) (pf_escrowId e) = Some (pf_oobNotes e)"
proof -
  from assms obtain st where st: "parseStash (ss_text s) = Some st" "distinct (map fst st)" "\<forall>(i, e)\<in>set st. pf_escrowId e = i"
    by (auto simp: stashOk_def split: option.splits)
  then have l: "loadStash s = st" by (simp add: loadStash_def loadStashStrict_def)
  have k: "map pf_escrowId (map snd st) = map fst st" using st(3) by (auto simp: split_beta)
  have "distinct (map pf_escrowId (map snd st))" unfolding k by (rule st(2))
  then show "distinct (map pf_escrowId (take n (map snd (loadStash s))))"
    unfolding l take_map [symmetric] by (rule distinct_take)
  have "notesOf (ss_text s) (pf_escrowId e) = Some (pf_oobNotes e)" if "(j, e) \<in> set st" for j e
    using that st by (auto simp: notesOf_def entryIn_def)
  then show "\<forall>e\<in>set (take n (map snd (loadStash s))). notesOf (ss_text s) (pf_escrowId e) = Some (pf_oobNotes e)"
    unfolding l by (auto dest!: in_set_takeD)
qed

lemma fundHistory_held: "fundHistory t Q \<Longrightarrow> heldOk (t, Q)"
proof (induction rule: fundHistory.induct)
  case empty
  then show ?case by (simp add: heldOk_def stashOk_def parseStash_def)
next
  case (fund t Q Op w D r w' xs n)
  from run_safe [of w Q, OF _ _ fund.hyps(4) refl fund.hyps(5)] fund
  have "safeLog (fo_escrowId Op) (t, Q) (fw_log w')" by simp
  from safeLog_take [OF this, of n] show ?case by (simp add: followed fund.hyps(6))
next
  case (drain t Q s d receive m n)
  have ok: "stashOk (ss_text s)" using drain by (simp add: heldOk_def)
  from drain_keeps [OF _ snapshot_current(1) _ drain.hyps(3)] snapshot_current(2) [OF ok] ok
  have "stashOk (ss_text (dr_store d)) \<and> (\<forall>j n. notesOf (ss_text s) j = Some n
      \<longrightarrow> notesOf (ss_text (dr_store d)) j = Some n \<or> (j, n) \<in> set (dr_returned d))" by simp
  with drain.IH drain.hyps(2) show ?case by (force simp: heldOk_def)
qed


text \<open>A run whose LOCK throws while the wallet refuses the notes.\<close>

definition wFundOpts :: fund_opts where "wFundOpts = \<lparr>fo_escrowId = ''t'', fo_amountMsats = 1000\<rparr>"

definition wFundDeps :: "string \<Rightarrow> string + string option \<Rightarrow> fund_deps" where
  "wFundDeps notes locks = \<lparr>fd_now = 5, fd_preflight = None, fd_aborted = (\<lambda>_. False), fd_generateEcash = Inr notes,
     fd_receive = (\<lambda>_. False), fd_hashNotes = id, fd_lockAndPublish = locks\<rparr>"

definition wFunded :: "string \<Rightarrow> string + string option \<Rightarrow> stash_text \<Rightarrow> fund_terminal \<times> fund_world" where
  "wFunded notes locks t = runFediFundAndLock wFundOpts (wFundDeps notes locks) \<lparr>fw_store = \<lparr>ss_text = t, ss_writes = []\<rparr>, fw_log = []\<rparr>"

definition wStashed :: stash_text where "wStashed = ss_text (fw_store (snd (wFunded ''n1'' (Inl ''e'') NoStash)))"

lemma wFunded_first: "fst (wFunded ''n1'' (Inl ''e'') NoStash) = F_LOCK_FAILED (LOCK_FAILED_SAVED ''e'')"
  "map fst (fw_log (snd (wFunded ''n1'' (Inl ''e'') NoStash))) = [SPENT ''n1'', STASHED ''n1'', LOCK_SENT ''n1'']"
  "lastText NoStash (fw_log (snd (wFunded ''n1'' (Inl ''e'') NoStash))) = wStashed"
  by code_simp+

lemma wStashed_history: "fundHistory wStashed {(''t'', ''n1'')}"
proof -
  let ?r = "wFunded ''n1'' (Inl ''e'') NoStash"
  have "runFediFundAndLock wFundOpts (wFundDeps ''n1'' (Inl ''e'')) \<lparr>fw_store = \<lparr>ss_text = NoStash, ss_writes = []\<rparr>, fw_log = []\<rparr>
      = (fst ?r, snd ?r)" by (simp add: wFunded_def)
  from fund [OF empty _ _ _ this refl, of "length (fw_log (snd ?r))"]
  have "fundHistory (lastText NoStash (fw_log (snd ?r))) (foldl (owed ''t'') {} (map fst (fw_log (snd ?r))))"
    by (simp add: entryIn_def parseStash_def wFundOpts_def)
  then show ?thesis by (simp add: wFunded_first owed_def)
qed


text \<open>The condition is not checked: a second funding of the same trade overwrites the stash. After a run
  that ended in a failed LOCK with its notes saved for a later return, a retry spends fresh notes
  and stashes them under the same key. The first notes are then in no stash, in no wallet and in
  no LOCK, although both runs report that the sats are saved.\<close>

theorem second_funding_overwrites_the_stash:
  "notesOf wStashed ''t'' = Some ''n1'' \<and> fst (wFunded ''n1'' (Inl ''e'') NoStash) = F_LOCK_FAILED (LOCK_FAILED_SAVED ''e'')
   \<and> map fst (fw_log (snd (wFunded ''n2'' (Inl ''e'') wStashed))) = [SPENT ''n2'', STASHED ''n2'', LOCK_SENT ''n2'']
   \<and> fst (wFunded ''n2'' (Inl ''e'') wStashed) = F_LOCK_FAILED (LOCK_FAILED_SAVED ''e'')
   \<and> map pf_oobNotes (listPendingFundings (fw_store (snd (wFunded ''n2'' (Inl ''e'') wStashed)))) = [''n2'']"
proof -
  have a: "notesOf wStashed ''t'' = Some ''n1''" by code_simp
  have b: "map fst (fw_log (snd (wFunded ''n2'' (Inl ''e'') wStashed))) = [SPENT ''n2'', STASHED ''n2'', LOCK_SENT ''n2'']" by code_simp
  have c: "fst (wFunded ''n2'' (Inl ''e'') wStashed) = F_LOCK_FAILED (LOCK_FAILED_SAVED ''e'')" by code_simp
  have d: "map pf_oobNotes (listPendingFundings (fw_store (snd (wFunded ''n2'' (Inl ''e'') wStashed)))) = [''n2'']" by code_simp
  show ?thesis by (intro conjI a b c d wFunded_first(1))
qed

section \<open>What a terminal says\<close>

definition effects :: "fund_world \<Rightarrow> fund_effect set" where
  "effects w = fst ` set (fw_log w)"

lemma fundAct_store [simp]: "fw_store (fundAct x w) = fw_store w"
  by (simp add: fundAct_def)

lemma effects_act [simp]: "effects (fundAct x w) = insert x (effects w)" "effects (w\<lparr>fw_store := s\<rparr>) = effects w"
  "effects (clearFunding Op w) = insert CLEARED (effects w)"
  by (auto simp: effects_def fundAct_def clearFunding_def)

text \<open>Where the notes \<open>n\<close> of a run are when it ends with \<open>t\<close>.\<close>

definition tellsWhere :: "string \<Rightarrow> string \<Rightarrow> fund_terminal \<Rightarrow> fund_world \<Rightarrow> bool" where
  "tellsWhere i n t w \<longleftrightarrow> (case t of
     F_LOCKED \<Rightarrow> COMMITTED n \<in> effects w
   | F_ABORTED \<Rightarrow> COMMITTED n \<notin> effects w \<and> (RETURNED n \<in> effects w \<or> notesOf (ss_text (fw_store w)) i = Some n)
   | F_LOCK_FAILED UNSAVED_BUT_RETURNED \<Rightarrow> COMMITTED n \<notin> effects w \<and> RETURNED n \<in> effects w
   | F_LOCK_FAILED (LOCK_FAILED_RETURNED _) \<Rightarrow> COMMITTED n \<notin> effects w \<and> RETURNED n \<in> effects w
   | F_LOCK_FAILED (LOCK_FAILED_SAVED _) \<Rightarrow> COMMITTED n \<notin> effects w \<and> RETURNED n \<notin> effects w
       \<and> notesOf (ss_text (fw_store w)) i = Some n
   | _ \<Rightarrow> COMMITTED n \<notin> effects w \<and> RETURNED n \<notin> effects w \<and> STASHED n \<notin> effects w)"

lemma lockNotes_tells:
  assumes "lockNotes Op D n k st w = (t, w')" "COMMITTED n \<notin> effects w" "RETURNED n \<notin> effects w"
    "if st then notesOf (ss_text (fw_store w)) (fo_escrowId Op) = Some n else STASHED n \<notin> effects w"
  shows "tellsWhere (fo_escrowId Op) n t w'"
  using assms
  by (auto simp: lockNotes_def recoverFailedLock_def reabsorb_def tellsWhere_def Let_def split: if_splits sum.splits)

lemma reabsorb_effects:
  "reabsorb Op D n k w = (b, w') \<Longrightarrow> effects w \<subseteq> effects w' \<and> effects w' \<subseteq> {RETURNED n, CLEARED} \<union> effects w"
  by (auto simp: reabsorb_def split: if_splits)

lemma lockNotes_effects:
  assumes "lockNotes Op D n k st w = (t, w')"
  shows "effects w \<subseteq> effects w' \<and> effects w' \<subseteq> {RETURNED n, CLEARED, LOCK_SENT n, COMMITTED n} \<union> effects w"
proof (cases "fd_aborted D 1")
  case True
  obtain b v where r: "reabsorb Op D n k w = (b, v)" by fastforce
  with True assms have "v = w'" by (simp add: lockNotes_def)
  with reabsorb_effects [OF r] show ?thesis by blast
next
  case False
  obtain b v where r: "reabsorb Op D n k (fundAct (LOCK_SENT n) w) = (b, v)" by fastforce
  have "w' = v \<or> w' = clearFunding Op (fundAct (COMMITTED n) (fundAct (LOCK_SENT n) w))"
    using assms False r by (auto simp: lockNotes_def recoverFailedLock_def Let_def split: sum.splits if_splits)
  with reabsorb_effects [OF r] show ?thesis by auto
qed

lemma stashed_notes: "stashPendingFunding now s i n amount = (True, s') \<Longrightarrow> notesOf (ss_text s') i = Some n"
  by (auto simp: stashPendingFunding_def Let_def notesOf_def entryIn_def update_conv' dest!: saveStash_text split: option.splits)

lemma spentNotes_tells:
  assumes run: "spentNotes Op D n w = (t, w')" and w: "effects w = {SPENT n}"
  shows "tellsWhere (fo_escrowId Op) n t w'"
proof -
  obtain b s where st: "stashPendingFunding (fd_now D) (fw_store w) (fo_escrowId Op) n (fo_amountMsats Op) = (b, s)" by fastforce
  show ?thesis
  proof (cases b)
    case True
    with run st have "lockNotes Op D n 0 True (fundAct (STASHED n) (w\<lparr>fw_store := s\<rparr>)) = (t, w')" by (simp add: spentNotes_def)
    from lockNotes_tells [OF this] w stashed_notes st True show ?thesis by simp
  next
    case False
    define w1 where "w1 = fundAct STASH_LOST (w\<lparr>fw_store := s\<rparr>)"
    show ?thesis
    proof (cases "fd_receive D 0")
      case True
      with run st False have "t = F_LOCK_FAILED UNSAVED_BUT_RETURNED" "w' = clearFunding Op (fundAct (RETURNED n) w1)"
        by (simp_all add: spentNotes_def reabsorb_def w1_def)
      with w show ?thesis by (simp add: tellsWhere_def w1_def)
    next
      case no: False
      with run st False have "lockNotes Op D n 1 False w1 = (t, w')" by (simp add: spentNotes_def reabsorb_def w1_def)
      from lockNotes_tells [OF this] w show ?thesis by (simp add: w1_def)
    qed
  qed
qed

text \<open>A funding run tells the truth about the money. Whatever its dependencies answer: if it spent no notes
  the trade is not locked; if it spent notes and reports the trade locked they are committed to
  it, and otherwise they are not; if it reports them returned, the wallet has confirmed them; if it
  reports them saved, they are in the stash; and it reports an abort only with the notes returned
  or saved. It spends notes only after the stash has proved readable and writable.\<close>

theorem funding_tells_where_the_notes_are:
  assumes "runFediFundAndLock Op D w = (t, w')" "fw_log w = []"
  shows "(\<forall>n. SPENT n \<in> effects w' \<longrightarrow> tellsWhere (fo_escrowId Op) n t w' \<and> fst (assertPendingFundingWritable (fw_store w)))
    \<and> ((\<forall>n. SPENT n \<notin> effects w') \<longrightarrow> t \<noteq> F_LOCKED)"
proof -
  have e: "effects w = {}" using assms(2) by (simp add: effects_def)
  consider "effects w' = {}" "t \<noteq> F_LOCKED"
    | n s where "fst (assertPendingFundingWritable (fw_store w))" "spentNotes Op D n (fundAct (SPENT n) (w\<lparr>fw_store := s\<rparr>)) = (t, w')"
    using assms(1) e by (auto simp: runFediFundAndLock_def split: option.splits if_splits prod.splits bool.splits sum.splits)
  then show ?thesis
  proof cases
    case 1
    then show ?thesis by simp
  next
    case (2 n s)
    from spentNotes_tells [OF 2(2)] e have t: "tellsWhere (fo_escrowId Op) n t w'" by simp
    obtain b v where st: "stashPendingFunding (fd_now D) s (fo_escrowId Op) n (fo_amountMsats Op) = (b, v)" by fastforce
    define w1 where "w1 = fundAct (if b then STASHED n else STASH_LOST) (w\<lparr>fw_store := v, fw_log := fw_log w @ [(SPENT n, ss_text s)]\<rparr>)"
    have w1: "effects w1 = {SPENT n, if b then STASHED n else STASH_LOST}" using assms(2) by (auto simp: w1_def effects_def fundAct_def)
    have "(\<exists>k. lockNotes Op D n k b w1 = (t, w')) \<or> (\<exists>c w2 k. reabsorb Op D n 0 w1 = (c, w2) \<and> (w' = w2 \<or> lockNotes Op D n k False w2 = (t, w')))"
      using 2(2) st by (auto simp: spentNotes_def w1_def fundAct_def split: if_splits prod.splits bool.splits)
    then have ew: "effects w1 \<subseteq> effects w' \<and> effects w' \<subseteq> {RETURNED n, CLEARED, LOCK_SENT n, COMMITTED n} \<union> effects w1"
    proof (elim disjE exE conjE)
      fix k assume l: "lockNotes Op D n k b w1 = (t, w')"
      from lockNotes_effects [OF l] show ?thesis .
    next
      fix c w2 assume r: "reabsorb Op D n 0 w1 = (c, w2)" "w' = w2"
      from reabsorb_effects [OF r(1)] r(2) show ?thesis by blast
    next
      fix c w2 k assume r: "reabsorb Op D n 0 w1 = (c, w2)" and l: "lockNotes Op D n k False w2 = (t, w')"
      from reabsorb_effects [OF r] lockNotes_effects [OF l] show ?thesis by blast
    qed
    have "SPENT m \<notin> {RETURNED n, CLEARED, LOCK_SENT n, COMMITTED n, if b then STASHED n else STASH_LOST}" for m by simp
    with ew w1 have "SPENT m \<in> effects w' \<Longrightarrow> SPENT m = SPENT n" for m by blast
    then have only: "SPENT m \<in> effects w' \<Longrightarrow> m = n" for m by simp
    from ew w1 have "SPENT n \<in> effects w'" by blast
    with t 2(1) only show ?thesis by blast
  qed
qed

theorem funding_tells_where_the_notes_are_witness:
  "tellsWhere ''t'' ''n1'' (F_LOCK_FAILED (LOCK_FAILED_SAVED ''e'')) (snd (wFunded ''n1'' (Inl ''e'') NoStash))"
proof -
  let ?r = "wFunded ''n1'' (Inl ''e'') NoStash"
  have "runFediFundAndLock wFundOpts (wFundDeps ''n1'' (Inl ''e'')) \<lparr>fw_store = \<lparr>ss_text = NoStash, ss_writes = []\<rparr>, fw_log = []\<rparr>
      = (fst ?r, snd ?r)" by (simp add: wFunded_def)
  moreover have "SPENT ''n1'' \<in> effects (snd ?r)" unfolding effects_def set_map [symmetric] wFunded_first(2) by simp
  moreover have "fo_escrowId wFundOpts = ''t''" by (simp add: wFundOpts_def)
  ultimately show ?thesis using funding_tells_where_the_notes_are [of wFundOpts "wFundDeps ''n1'' (Inl ''e'')" _ "fst ?r" "snd ?r"]
    unfolding wFunded_first(1) by fastforce
qed

end
