(* ===== verification/Newest_Wins.thy ===== *)
theory Newest_Wins
  imports Chama_Prelude
begin

text \<open>
  The replaceable-event selection several parts of the code share (bonds, fault attestations,
  rebuttals, renewal clocks): a loop keeps the best record seen so far and replaces it when the next
  one beats it. The locale states what the comparison promises; its lemmas say that the loop returns
  a record no other beats, whatever the order of the events.
\<close>

definition keepBest :: "('a \<Rightarrow> 'a \<Rightarrow> bool) \<Rightarrow> 'a option \<Rightarrow> 'a \<Rightarrow> 'a option" where
  "keepBest beats best x = (case best of None \<Rightarrow> Some x | Some b \<Rightarrow> if beats x b then Some x else best)"

definition pickBest :: "('a \<Rightarrow> 'a \<Rightarrow> bool) \<Rightarrow> 'a list \<Rightarrow> 'a option" where
  "pickBest beats xs = foldl (keepBest beats) None xs"

locale newest_wins =
  fixes beats :: "'a \<Rightarrow> 'a \<Rightarrow> bool"
  assumes irrefl: "\<not> beats x x"
    and asym: "beats x y \<Longrightarrow> \<not> beats y x"
    and negtrans: "\<not> beats y x \<Longrightarrow> \<not> beats z y \<Longrightarrow> \<not> beats z x"
begin

lemma keepBest_Some:
  "\<exists>w. keepBest beats best x = Some w \<and> (w = x \<or> best = Some w) \<and> \<not> beats x w
     \<and> (\<forall>c. best = Some c \<longrightarrow> \<not> beats c w)"
  by (cases best) (auto simp: keepBest_def irrefl dest: asym)

lemma foldl_best:
  "foldl (keepBest beats) best xs = Some w \<Longrightarrow>
    (best = Some w \<or> w \<in> set xs) \<and> (\<forall>c. best = Some c \<or> c \<in> set xs \<longrightarrow> \<not> beats c w)"
proof (induction xs arbitrary: best)
  case Nil
  then show ?case using irrefl by auto
next
  case (Cons x xs)
  obtain v where v: "keepBest beats best x = Some v" "v = x \<or> best = Some v" "\<not> beats x v"
    "\<forall>c. best = Some c \<longrightarrow> \<not> beats c v" using keepBest_Some [of best x] by blast
  from Cons.prems v(1) have "foldl (keepBest beats) (Some v) xs = Some w" by simp
  from Cons.IH [OF this] have w: "v = w \<or> w \<in> set xs" "\<not> beats v w" "\<forall>c\<in>set xs. \<not> beats c w" by auto
  from v(3,4) w(2) have "\<not> beats x w" "\<And>c. best = Some c \<Longrightarrow> \<not> beats c w" using negtrans by blast+
  with v(2) w show ?case by auto
qed

lemma foldl_some: "foldl (keepBest beats) (Some b) xs \<noteq> None"
  by (induction xs arbitrary: b) (auto simp: keepBest_def)

lemma pickBest_None [simp]: "pickBest beats xs = None \<longleftrightarrow> xs = []"
  using foldl_some by (cases xs) (auto simp: pickBest_def keepBest_def)

lemma pickBest_Some: "pickBest beats xs = Some w \<Longrightarrow> w \<in> set xs \<and> (\<forall>c\<in>set xs. \<not> beats c w)"
  using foldl_best [of None xs w] by (auto simp: pickBest_def)

lemma pickBest_order:
  assumes "set xs = set ys" "\<And>x y. x \<in> set xs \<Longrightarrow> y \<in> set xs \<Longrightarrow> x \<noteq> y \<Longrightarrow> beats x y \<or> beats y x"
  shows "pickBest beats xs = pickBest beats ys"
proof (cases "pickBest beats xs")
  case None
  with assms(1) show ?thesis by (metis pickBest_None set_empty)
next
  case (Some w)
  then have "pickBest beats ys \<noteq> None" using assms(1) pickBest_Some [of xs w] by auto
  then obtain v where v: "pickBest beats ys = Some v" by blast
  with Some assms show ?thesis using pickBest_Some by (metis (no_types, lifting))
qed

end

end
