(* ===== verification/Arbiter_Exposure.thy ===== *)
theory Arbiter_Exposure
  imports Event_Parser Newest_Wins "HOL-Library.Log_Nat"
begin

text \<open>
  The arbiters' bonds and the exposure ledger (\<open>src/arbiters/bonds.ts\<close>, \<open>src/arbiters/exposure.ts\<close>):
  a signed bond declaration and how the current one
  is selected, the capacity of an arbiter's chain-verified bonds, the open trades that consume it,
  and which arbiters may be seated on a trade. The signature check, \<open>JSON.parse\<close> and
  \<open>JSON.stringify\<close> are parameters. Amounts are exact integers (an \<open>actualSats\<close> below 9 * 10^12 is
  exact in the source too); the tenure ramp is computed in doubles, whose rounding is written out.
\<close>

section \<open>Bond declarations (bonds.ts)\<close>

definition ARBITER_BOND_KIND :: int where "ARBITER_BOND_KIND = 38130"
definition ARBITER_BOND_TYPE :: string where "ARBITER_BOND_TYPE = ''chama:arbiter-bond''"

definition normPk :: "string option \<Rightarrow> string option" where
  "normPk v = (case v of None \<Rightarrow> None
     | Some s \<Rightarrow> (let t = lower (trim s) in if hex64 t then Some t else None))"

record arbiter_bond =
  ab_npub :: string
  ab_bondMsats :: int
  ab_termStart :: int
  ab_termEnd :: int
  ab_createdAt :: int
  ab_eventId :: string

record unsigned_event =
  ue_kind :: int
  ue_created_at :: int
  ue_tags :: "string list list"
  ue_content :: string

datatype bond_error = BadBondPubkey | BadBondAmount | BadBondTerm

definition bondContent :: "string \<Rightarrow> int \<Rightarrow> int \<Rightarrow> int \<Rightarrow> string option \<Rightarrow> json" where
  "bondContent pk msats start stop note = JObj ([(''type'', JStr ARBITER_BOND_TYPE), (''npub'', JStr pk),
     (''bondMsats'', JNum (jsInt msats)), (''termStart'', JNum (jsInt start)), (''termEnd'', JNum (jsInt stop))]
     @ (case nonEmpty note of None \<Rightarrow> [] | Some n \<Rightarrow> [(''note'', JStr n)]))"

definition buildArbiterBondEvent :: "(json \<Rightarrow> string) \<Rightarrow> string \<Rightarrow> jsnum \<Rightarrow> jsnum \<Rightarrow> jsnum \<Rightarrow> int option
    \<Rightarrow> string option \<Rightarrow> int \<Rightarrow> bond_error + unsigned_event" where
  "buildArbiterBondEvent stringify pubkey bondMsats termStart termEnd createdAt note clock =
     (case normPk (Some pubkey) of None \<Rightarrow> Inl BadBondPubkey
      | Some pk \<Rightarrow> (case jsFloorFinite bondMsats of None \<Rightarrow> Inl BadBondAmount
        | Some msats \<Rightarrow> if msats \<le> 0 then Inl BadBondAmount
          else (case (jsFloorFinite termStart, jsFloorFinite termEnd) of
            (Some start, Some stop) \<Rightarrow> if stop \<le> start then Inl BadBondTerm
              else Inr \<lparr>ue_kind = ARBITER_BOND_KIND, ue_created_at = getOr createdAt clock,
                     ue_tags = [[''d'', ARBITER_BOND_TYPE], [''t'', ARBITER_BOND_TYPE]],
                     ue_content = stringify (bondContent pk msats start stop note)\<rparr>
          | _ \<Rightarrow> Inl BadBondTerm)))"

text \<open>\<open>typeof v === "number" ? Math.floor(v) : NaN\<close>, followed by \<open>Number.isFinite\<close>.\<close>

fun floorOf :: "json option \<Rightarrow> int option" where
  "floorOf (Some (JNum x)) = jsFloorFinite x"
| "floorOf _ = None"

text \<open>
  The payload's own \<open>npub\<close>: a falsy value is ignored, a string must be the signer's key. On any
  other truthy value \<open>value?.trim()\<close> is not a function: the parser throws (\<open>None\<close>).
\<close>

fun claimedMatches :: "string \<Rightarrow> json option \<Rightarrow> bool option" where
  "claimedMatches signer None = Some True"
| "claimedMatches signer (Some JNull) = Some True"
| "claimedMatches signer (Some (JBool b)) = (if b then None else Some True)"
| "claimedMatches signer (Some (JNum x)) = (if x = NaN \<or> x = Fin 0 then Some True else None)"
| "claimedMatches signer (Some (JStr s)) = Some (s = [] \<or> normPk (Some s) = Some signer)"
| "claimedMatches signer (Some _) = None"

text \<open>\<open>None\<close> where the parser throws, \<open>Some None\<close> where it refuses the event.\<close>

definition parseArbiterBondEvent :: "(string \<Rightarrow> json option) \<Rightarrow> (nostr_event \<Rightarrow> bool) \<Rightarrow> nostr_event
    \<Rightarrow> arbiter_bond option option" where
  "parseArbiterBondEvent parse verify e =
     (if ne_kind e \<noteq> ARBITER_BOND_KIND then Some None
      else case parse (ne_content e) of None \<Rightarrow> Some None
      | Some d \<Rightarrow>
        if field d ''type'' \<noteq> Some (JStr ARBITER_BOND_TYPE) then Some None
        else (case (floorOf (field d ''bondMsats''), floorOf (field d ''termStart''), floorOf (field d ''termEnd'')) of
          (Some msats, Some start, Some stop) \<Rightarrow>
            if msats \<le> 0 \<or> stop \<le> start then Some None
            else (case normPk (Some (ne_pubkey e)) of None \<Rightarrow> Some None
              | Some signer \<Rightarrow> (case claimedMatches signer (field d ''npub'') of None \<Rightarrow> None
                | Some ok \<Rightarrow> if \<not> ok \<or> \<not> verify e then Some None
                  else Some (Some \<lparr>ab_npub = signer, ab_bondMsats = msats, ab_termStart = start, ab_termEnd = stop,
                                  ab_createdAt = ne_created_at e, ab_eventId = ne_id e\<rparr>)))
        | _ \<Rightarrow> Some None))"

definition bondBeats :: "arbiter_bond \<Rightarrow> arbiter_bond \<Rightarrow> bool" where
  "bondBeats b best \<longleftrightarrow> ab_createdAt b > ab_createdAt best
     \<or> (ab_createdAt b = ab_createdAt best \<and> ab_eventId b < ab_eventId best)"

definition inTerm :: "int \<Rightarrow> arbiter_bond \<Rightarrow> bool" where
  "inTerm now b \<longleftrightarrow> \<not> (now < ab_termStart b \<or> now \<ge> ab_termEnd b)"

text \<open>The events are parsed in order, so a throw of any of them is the throw of the selection.\<close>

definition selectLatestBond :: "(string \<Rightarrow> json option) \<Rightarrow> (nostr_event \<Rightarrow> bool) \<Rightarrow> string \<Rightarrow> nostr_event list
    \<Rightarrow> int \<Rightarrow> arbiter_bond option option" where
  "selectLatestBond parse verify npub events now = (case normPk (Some npub) of None \<Rightarrow> Some None
     | Some want \<Rightarrow> map_option
         (\<lambda>bonds. pickBest bondBeats (filter (\<lambda>b. ab_npub b = want \<and> inTerm now b) (List.map_filter id bonds)))
         (those (map (parseArbiterBondEvent parse verify) events)))"

section \<open>Open exposure (exposure.ts)\<close>

definition UNBONDED_FLOOR_MSATS :: int where "UNBONDED_FLOOR_MSATS = 10000000"
definition BONDS_ENFORCED :: bool where "BONDS_ENFORCED = False"
definition EXPOSURE_TIER_SILVER_FLOOR_MSATS :: int where "EXPOSURE_TIER_SILVER_FLOOR_MSATS = 100000000"
definition EXPOSURE_TIER_GOLD_FLOOR_MSATS :: int where "EXPOSURE_TIER_GOLD_FLOOR_MSATS = 1000000000"
definition TENURE_GATED_CAPACITY :: bool where "TENURE_GATED_CAPACITY = False"
definition TENURE_FULL_CAPACITY_DAYS :: rat where "TENURE_FULL_CAPACITY_DAYS = 30"
definition TENURE_MIN_CAPACITY_FRACTION :: rat where "TENURE_MIN_CAPACITY_FRACTION = 1 / 4"

text \<open>
  The double nearest to a positive rational, ties to even: \<open>log2Floor\<close> is the exponent, the last
  place of the significand is worth \<open>2 powi (log2Floor q - 52)\<close>. The range of exponents is not
  bounded here; the values of this component are far inside it.
\<close>

definition log2Floor :: "rat \<Rightarrow> int" where
  "log2Floor q = (if 1 \<le> q then int (floorlog 2 (nat \<lfloor>q\<rfloor>)) - 1
     else - int (floorlog 2 (nat (\<lceil>1 / q\<rceil> - 1))))"

definition halfEven :: "rat \<Rightarrow> int" where
  "halfEven m = (let f = \<lfloor>m\<rfloor>; r = m - of_int f in
     if r < 1 / 2 then f else if r > 1 / 2 then f + 1 else if even f then f else f + 1)"

definition double :: "rat \<Rightarrow> rat" where
  "double q = (if q \<le> 0 then q
     else let e = log2Floor q - 52;
              ulp = (if 0 \<le> e then 2 ^ nat e else 1 / 2 ^ nat (- e))
          in of_int (halfEven (q / ulp)) * ulp)"

definition tenureCapacityMultiplier :: "jsnum option \<Rightarrow> rat" where
  "tenureCapacityMultiplier tenureDays = (case tenureDays of
     Some (Fin d) \<Rightarrow> if d \<le> 0 then TENURE_MIN_CAPACITY_FRACTION
       else if d \<ge> TENURE_FULL_CAPACITY_DAYS then 1
       else double (TENURE_MIN_CAPACITY_FRACTION
              + double (double (d / TENURE_FULL_CAPACITY_DAYS) * (1 - TENURE_MIN_CAPACITY_FRACTION)))
   | _ \<Rightarrow> TENURE_MIN_CAPACITY_FRACTION)"

definition effectiveBondCapacityMsats :: "int \<Rightarrow> jsnum option \<Rightarrow> int" where
  "effectiveBondCapacityMsats actualSats tenureDays =
     \<lfloor>double (of_int (actualSats * 1000) * tenureCapacityMultiplier tenureDays)\<rfloor>"

definition isOpenExposure :: "state \<Rightarrow> bool" where
  "isOpenExposure s = (if st_escrowMode s = ONCHAIN then lk_onchain (st_lock s) \<noteq> None
     else st_status s \<in> {LOCKED, APPROVED, CLAIMED})"

definition getOpenBondedTrades :: "string \<Rightarrow> state list \<Rightarrow> string option \<Rightarrow> state list" where
  "getOpenBondedTrades npub allTrades excludeId = (case normPk (Some npub) of None \<Rightarrow> []
     | Some want \<Rightarrow> filter (\<lambda>t. \<not> (truthyS excludeId \<and> excludeId = Some (st_id t))
         \<and> st_amountMsats t \<ge> UNBONDED_FLOOR_MSATS \<and> isOpenExposure t
         \<and> normPk (st_participants t ARBITER) = Some want) allTrades)"

definition sumOpenExposure :: "state list \<Rightarrow> int" where
  "sumOpenExposure openTrades = sum_list (map st_amountMsats openTrades)"

definition bondSize :: "arbiter_bond option \<Rightarrow> int" where
  "bondSize bond = (case bond of None \<Rightarrow> 0 | Some b \<Rightarrow> ab_bondMsats b)"

definition liveCapacity :: "arbiter_bond option \<Rightarrow> state list \<Rightarrow> int" where
  "liveCapacity bond openTrades = bondSize bond - sumOpenExposure openTrades"

datatype capacity_tier = Unbonded | Covered | OverCapacity

record arbiter_capacity =
  ac_tier :: capacity_tier
  ac_liveCapacity :: int
  ac_bondMsats :: int

definition classifyArbiterCapacity :: "int \<Rightarrow> arbiter_bond option \<Rightarrow> state list \<Rightarrow> arbiter_capacity" where
  "classifyArbiterCapacity tradeMsats bond openTrades =
     (let bondMsats = bondSize bond; sumOther = sumOpenExposure openTrades in
      if tradeMsats < UNBONDED_FLOOR_MSATS
      then \<lparr>ac_tier = Unbonded, ac_liveCapacity = bondMsats - sumOther, ac_bondMsats = bondMsats\<rparr>
      else let perTradeOk = bond \<noteq> None \<and> tradeMsats \<le> bondMsats;
               aggregateOk = bond \<noteq> None \<and> sumOther + tradeMsats \<le> bondMsats
           in \<lparr>ac_tier = (if perTradeOk \<and> aggregateOk then Covered else OverCapacity),
               ac_liveCapacity = bondMsats - (sumOther + tradeMsats), ac_bondMsats = bondMsats\<rparr>)"

definition canAssignArbiter :: "int \<Rightarrow> arbiter_bond option \<Rightarrow> state list \<Rightarrow> bool" where
  "canAssignArbiter tradeMsats bond openTrades \<longleftrightarrow>
     ac_tier (classifyArbiterCapacity tradeMsats bond openTrades) \<noteq> OverCapacity"

datatype exposure_tier = Bronze | Silver | Gold

definition exposureTier :: "int \<Rightarrow> exposure_tier" where
  "exposureTier bondMsats = (if bondMsats \<ge> EXPOSURE_TIER_GOLD_FLOOR_MSATS then Gold
     else if bondMsats \<ge> EXPOSURE_TIER_SILVER_FLOOR_MSATS then Silver else Bronze)"

section \<open>The capacity of chain-verified bonds\<close>

text \<open>\<open>cb_lineage\<close> is \<open>lineage.hops\<close>, each hop by its \<open>fromTxid\<close> (\<open>None\<close> for a hop without one).\<close>

record capacity_bond =
  cb_npub :: string
  cb_actualSats :: int
  cb_address :: "string option"
  cb_tenureDays :: "jsnum option"
  cb_fundingTxid :: "string option"
  cb_lineage :: "string option list"

definition keyed :: "string \<Rightarrow> string \<Rightarrow> string" where
  "keyed npub x = npub @ ''|'' @ x"

definition renewedBonds :: "capacity_bond list \<Rightarrow> string list" where
  "renewedBonds bonds = concat (map (\<lambda>b. case normPk (Some (cb_npub b)) of None \<Rightarrow> []
     | Some npub \<Rightarrow> map (\<lambda>t. keyed npub (lower (the t))) (filter truthyS (cb_lineage b))) bonds)"

definition bondMsatsOf :: "bool \<Rightarrow> capacity_bond \<Rightarrow> int" where
  "bondMsatsOf tenureGated b = (if tenureGated then effectiveBondCapacityMsats (cb_actualSats b) (cb_tenureDays b)
     else cb_actualSats b * 1000)"

text \<open>
  The loop over the bonds: \<open>i\<close> is the row's index, \<open>seen\<close> the bonds already counted. The list keeps
  the insertion order of the source's \<open>Map\<close>.
\<close>

fun capacityRows :: "bool \<Rightarrow> string list \<Rightarrow> nat \<Rightarrow> string list \<Rightarrow> (string \<times> int) list \<Rightarrow> capacity_bond list
    \<Rightarrow> (string \<times> int) list" where
  "capacityRows g renewed i seen out [] = out"
| "capacityRows g renewed i seen out (b # bs) = (case normPk (Some (cb_npub b)) of
     None \<Rightarrow> capacityRows g renewed (Suc i) seen out bs
   | Some npub \<Rightarrow>
     if truthyS (cb_fundingTxid b) \<and> keyed npub (lower (the (cb_fundingTxid b))) \<in> set renewed
     then capacityRows g renewed (Suc i) seen out bs
     else let key = keyed npub (getOr (cb_address b) (CHR ''#'' # natDigits i)) in
       if key \<in> set seen then capacityRows g renewed (Suc i) seen out bs
       else capacityRows g renewed (Suc i) (key # seen)
              (AList.update npub (getOr (map_of out npub) 0 + bondMsatsOf g b) out) bs)"

definition arbiterBondCapacities :: "capacity_bond list \<Rightarrow> bool \<Rightarrow> (string \<times> int) list" where
  "arbiterBondCapacities bonds tenureGated = capacityRows tenureGated (renewedBonds bonds) 0 [] [] bonds"

definition coversTrade :: "state list \<Rightarrow> int \<Rightarrow> string option \<Rightarrow> string \<times> int \<Rightarrow> bool" where
  "coversTrade allTrades tradeMsats excludeId row \<longleftrightarrow> tradeMsats < UNBONDED_FLOOR_MSATS
     \<or> (tradeMsats \<le> snd row
        \<and> sumOpenExposure (getOpenBondedTrades (fst row) allTrades excludeId) + tradeMsats \<le> snd row)"

definition assignableBondedArbiters :: "capacity_bond list \<Rightarrow> int \<Rightarrow> state list \<Rightarrow> string option \<Rightarrow> bool
    \<Rightarrow> string list" where
  "assignableBondedArbiters bonds tradeMsats allTrades excludeTradeId tenureGated =
     map fst (filter (coversTrade allTrades tradeMsats excludeTradeId) (arbiterBondCapacities bonds tenureGated))"

definition freeSats :: "state list \<Rightarrow> string \<times> int \<Rightarrow> int" where
  "freeSats allTrades row =
     max 0 (snd row - sumOpenExposure (getOpenBondedTrades (fst row) allTrades None)) div 1000"

definition largestOnchainCoverSats :: "capacity_bond list \<Rightarrow> state list \<Rightarrow> string option \<Rightarrow> bool \<Rightarrow> int" where
  "largestOnchainCoverSats bonds allTrades excludePubkey tenureGated =
     foldl (\<lambda>largest row. if normPk excludePubkey = Some (fst row) then largest
              else max largest (freeSats allTrades row)) 0 (arbiterBondCapacities bonds tenureGated)"

section \<open>The assignment seam\<close>

record pool_capacity =
  pc_tradeMsats :: int
  pc_bondEvents :: "nostr_event list"
  pc_allTrades :: "state list"
  pc_excludeTradeId :: "string option"
  pc_now :: int

fun selectOver :: "(string \<Rightarrow> arbiter_bond option option) \<Rightarrow> pool_capacity \<Rightarrow> string list \<Rightarrow> string list option" where
  "selectOver bondOf ctx [] = Some []"
| "selectOver bondOf ctx (raw # pool) = (case normPk (Some raw) of None \<Rightarrow> selectOver bondOf ctx pool
   | Some pk \<Rightarrow> (case bondOf pk of None \<Rightarrow> None
     | Some bond \<Rightarrow> map_option
         (\<lambda>over. if canAssignArbiter (pc_tradeMsats ctx) bond
                     (getOpenBondedTrades pk (pc_allTrades ctx) (pc_excludeTradeId ctx))
                 then over else pk # over)
         (selectOver bondOf ctx pool)))"

definition selectOverCapacityArbiters :: "(string \<Rightarrow> json option) \<Rightarrow> (nostr_event \<Rightarrow> bool) \<Rightarrow> string list
    \<Rightarrow> pool_capacity \<Rightarrow> string list option" where
  "selectOverCapacityArbiters parse verify pool ctx =
     selectOver (\<lambda>pk. selectLatestBond parse verify pk (pc_bondEvents ctx) (pc_now ctx)) ctx pool"

definition withoutOver :: "string list \<Rightarrow> string list \<Rightarrow> string list" where
  "withoutOver over pool = filter (\<lambda>pk. case normPk (Some pk) of None \<Rightarrow> True | Some n \<Rightarrow> n \<notin> set over) pool"

definition assignablePool :: "(string \<Rightarrow> json option) \<Rightarrow> (nostr_event \<Rightarrow> bool) \<Rightarrow> string list \<Rightarrow> pool_capacity
    \<Rightarrow> string list option" where
  "assignablePool parse verify pool ctx = (case selectOverCapacityArbiters parse verify pool ctx of
     None \<Rightarrow> None
   | Some over \<Rightarrow> if over = [] then Some pool
       else let kept = withoutOver over pool in Some (if kept \<noteq> [] then kept else pool))"

text \<open>
  \<open>readOutspend\<close> of a deposit: \<open>None\<close> when the read throws, otherwise the \<open>spent\<close> field of the
  reply (\<open>Some None\<close> when it has none, or the reply is \<open>null\<close>).
\<close>

definition tradesWithUnspentExposure :: "(lock_terms \<Rightarrow> bool option option) \<Rightarrow> state list \<Rightarrow> state list" where
  "tradesWithUnspentExposure readOutspend trades = filter (\<lambda>t. isOpenExposure t
     \<and> \<not> (st_escrowMode t = ONCHAIN
         \<and> (case lk_onchain (st_lock t) of None \<Rightarrow> False | Some d \<Rightarrow> readOutspend d = Some (Some True)))) trades"

end
