(* ===== verification/Exposure_Properties.thy ===== *)
theory Exposure_Properties
  imports Arbiter_Exposure Worked_Trade
begin

text \<open>
  What the exposure ledger guarantees: an arbiter seated only within their capacity never has more
  open exposure than bond, the number a screen shows in advance is exactly the largest trade the
  assignment admits, a declared bond is read back and the newest in-term one is the current one,
  and the seam never empties a pool. It also shows the two places where the ledger falls short: two
  trades assigned before either is locked overcommit a bond, and one malformed declaration makes
  the selection throw for everyone.
\<close>

section \<open>Keys and capacities\<close>

lemma hex_not_blank: "isHexChar c \<Longrightarrow> \<not> isBlankChar c"
  by (auto simp: isHexChar_def isDigitChar_def isBlankChar_def)

lemma trim_hex:
  assumes "list_all isHexChar s" shows "trim s = s"
proof -
  have id: "dropWhile isBlankChar t = t" if "list_all isHexChar t" for t
    using that hex_not_blank by (cases t) auto
  from assms have "list_all isHexChar (rev s)" by (simp add: list_all_iff)
  then show ?thesis by (simp add: trim_def id assms)
qed

lemma normPk_idem: "normPk v = Some w \<Longrightarrow> normPk (Some w) = Some w"
  by (auto simp: normPk_def Let_def hex64_def trim_hex split: option.splits if_splits)

lemma capacityRows_inv:
  assumes "\<And>npub b out. b \<in> set bs \<Longrightarrow> normPk (Some (cb_npub b)) = Some npub \<Longrightarrow> P out
      \<Longrightarrow> P (AList.update npub (getOr (map_of out npub) 0 + bondMsatsOf g b) out)" "P out"
  shows "P (capacityRows g r i seen out bs)"
  using assms
proof (induction bs arbitrary: i seen out)
  case (Cons b bs)
  from Cons.prems(1) have tl: "\<And>npub b out. b \<in> set bs \<Longrightarrow> normPk (Some (cb_npub b)) = Some npub \<Longrightarrow> P out
      \<Longrightarrow> P (AList.update npub (getOr (map_of out npub) 0 + bondMsatsOf g b) out)" by simp
  note IH = Cons.IH [OF tl]
  show ?case
  proof (cases "normPk (Some (cb_npub b))")
    case (Some npub)
    then have "P (AList.update npub (getOr (map_of out npub) 0 + bondMsatsOf g b) out)"
      using Cons.prems by simp
    with Some Cons.prems(2) IH show ?thesis by (simp add: Let_def)
  qed (use Cons.prems(2) IH in simp)
qed simp

lemma capacities_distinct: "distinct (map fst (arbiterBondCapacities bonds g))"
  unfolding arbiterBondCapacities_def by (rule capacityRows_inv) (auto intro: distinct_update)

lemma capacities_normal: "(a, c) \<in> set (arbiterBondCapacities bonds g) \<Longrightarrow> normPk (Some a) = Some a"
proof -
  have "\<forall>k\<in>fst ` set (arbiterBondCapacities bonds g). normPk (Some k) = Some k"
    unfolding arbiterBondCapacities_def
    by (rule capacityRows_inv) (auto simp: dom_update normPk_idem simp del: image_iff dest: normPk_idem)
  then show "(a, c) \<in> set (arbiterBondCapacities bonds g) \<Longrightarrow> normPk (Some a) = Some a" by force
qed

lemma capacities_nonneg:
  assumes "\<forall>b\<in>set bonds. 0 \<le> bondMsatsOf g b" "(a, c) \<in> set (arbiterBondCapacities bonds g)"
  shows "0 \<le> c"
proof -
  have "\<forall>k v. map_of (arbiterBondCapacities bonds g) k = Some v \<longrightarrow> 0 \<le> v"
    unfolding arbiterBondCapacities_def
  proof (rule capacityRows_inv)
    fix npub b and out :: "(string \<times> int) list"
    assume "b \<in> set bonds" "\<forall>k v. map_of out k = Some v \<longrightarrow> 0 \<le> v"
    with assms(1) show "\<forall>k v. map_of (AList.update npub (getOr (map_of out npub) 0 + bondMsatsOf g b) out) k = Some v
        \<longrightarrow> 0 \<le> v" by (cases "map_of out npub") (auto simp: update_conv')
  qed simp
  with assms(2) show ?thesis by (metis capacities_distinct map_of_is_SomeI)
qed

section \<open>Exposure of a list of trades\<close>

lemma open_amount: "t \<in> set (getOpenBondedTrades a ts x) \<Longrightarrow> UNBONDED_FLOOR_MSATS \<le> st_amountMsats t"
  by (auto simp: getOpenBondedTrades_def split: option.splits)

lemma sumOpen_simps [simp]:
  "sumOpenExposure [] = 0" "sumOpenExposure (t # ts) = st_amountMsats t + sumOpenExposure ts"
  "sumOpenExposure (us @ ts) = sumOpenExposure us + sumOpenExposure ts"
  by (simp_all add: sumOpenExposure_def)

lemma sumOpen_nonneg: "\<forall>t\<in>set ts. 0 \<le> st_amountMsats t \<Longrightarrow> 0 \<le> sumOpenExposure ts"
  by (induction ts) auto

lemma sumOpen_bonded_nonneg: "0 \<le> sumOpenExposure (getOpenBondedTrades a ts x)"
  by (rule sumOpen_nonneg) (use open_amount [of _ a ts x] in \<open>force simp: UNBONDED_FLOOR_MSATS_def\<close>)

lemma getOpen_append: "getOpenBondedTrades a (ts @ us) x = getOpenBondedTrades a ts x @ getOpenBondedTrades a us x"
  by (simp add: getOpenBondedTrades_def split: option.splits)

lemma sumOpen_mset: "sumOpenExposure ts = sum_mset (image_mset st_amountMsats (mset ts))"
  by (simp add: sumOpenExposure_def flip: sum_mset_sum_list)

lemma getOpen_mset: "mset ts \<subseteq># mset us \<Longrightarrow> mset (getOpenBondedTrades a ts x) \<subseteq># mset (getOpenBondedTrades a us x)"
  by (auto simp: getOpenBondedTrades_def intro: multiset_filter_mono split: option.splits)

lemma sumOpen_submset:
  assumes "mset ts \<subseteq># mset us" "\<forall>t\<in>set us. 0 \<le> st_amountMsats t"
  shows "sumOpenExposure ts \<le> sumOpenExposure us"
proof -
  from assms(1) obtain M where us: "mset us = mset ts + M" by (metis mset_subset_eq_exists_conv)
  from assms(2) us have "\<forall>t\<in>#M. 0 \<le> st_amountMsats t" by (metis set_mset_mset union_iff)
  then have "0 \<le> sum_mset (image_mset st_amountMsats M)" by (induction M) auto
  with us show ?thesis by (simp add: sumOpen_mset)
qed

lemma exposure_shrinks:
  assumes "mset ts \<subseteq># mset us"
  shows "sumOpenExposure (getOpenBondedTrades a ts x) \<le> sumOpenExposure (getOpenBondedTrades a us x)"
proof (rule sumOpen_submset [OF getOpen_mset [OF assms]])
  show "\<forall>t\<in>set (getOpenBondedTrades a us x). 0 \<le> st_amountMsats t"
    using open_amount [of _ a us x] by (force simp: UNBONDED_FLOOR_MSATS_def)
qed

lemma open_single:
  "sumOpenExposure (getOpenBondedTrades a [t] x) =
     (if getOpenBondedTrades a [t] x = [] then 0 else st_amountMsats t)"
  by (auto simp: getOpenBondedTrades_def split: option.splits)

section \<open>Seating within capacity\<close>

text \<open>
  The trades a device knows change in two ways the ledger cares about: a trade locks, with a seated
  arbiter the assignment admits on the trades open at that moment, and trades leave (they settle,
  or a successful chain read shows the deposit spent).
\<close>

inductive exposureReach :: "capacity_bond list \<Rightarrow> bool \<Rightarrow> state list \<Rightarrow> bool" for bonds g where
  start: "exposureReach bonds g []"
| lock: "exposureReach bonds g ts \<Longrightarrow> a \<in> set (assignableBondedArbiters bonds (st_amountMsats t) ts None g)
    \<Longrightarrow> normPk (st_participants t ARBITER) = Some a \<Longrightarrow> exposureReach bonds g (ts @ [t])"
| settle: "exposureReach bonds g us \<Longrightarrow> mset ts \<subseteq># mset us \<Longrightarrow> exposureReach bonds g ts"


section \<open>The number a screen shows\<close>

lemma foldl_max_le:
  "(n :: int) \<le> foldl (\<lambda>l r. if P r then l else max l (f r)) z rs \<longleftrightarrow> n \<le> z \<or> (\<exists>r\<in>set rs. \<not> P r \<and> n \<le> f r)"
  by (induction rs arbitrary: z) (auto simp: le_max_iff_disj)

lemma le_div_1000: "0 < (n :: int) \<Longrightarrow> n \<le> max 0 x div 1000 \<longleftrightarrow> 1000 * n \<le> x"
  by linarith

text \<open>The number shown in advance can never disagree with the refusal: a trade of \<open>n\<close> whole
  sats, at or above the unbonded floor, has an assignable arbiter other than the viewer exactly when
  \<open>n\<close> is at most \<open>largestOnchainCoverSats\<close> of the same bonds and trades.\<close>

theorem cover_shown_is_the_refusal:
  assumes "UNBONDED_FLOOR_MSATS \<le> 1000 * n"
  shows "(\<exists>a\<in>set (assignableBondedArbiters bonds (1000 * n) ts None g). normPk self \<noteq> Some a)
    \<longleftrightarrow> n \<le> largestOnchainCoverSats bonds ts self g"
proof -
  from assms have n: "0 < n" by (simp add: UNBONDED_FLOOR_MSATS_def)
  have eq: "coversTrade ts (1000 * n) None r \<longleftrightarrow> n \<le> freeSats ts r" for r
  proof -
    have "coversTrade ts (1000 * n) None r \<longleftrightarrow> 1000 * n \<le> snd r - sumOpenExposure (getOpenBondedTrades (fst r) ts None)"
      using assms sumOpen_bonded_nonneg [of "fst r" ts None] unfolding coversTrade_def by linarith
    then show ?thesis unfolding freeSats_def le_div_1000 [OF n] .
  qed
  have "(\<exists>a\<in>set (assignableBondedArbiters bonds (1000 * n) ts None g). normPk self \<noteq> Some a)
      \<longleftrightarrow> (\<exists>r\<in>set (arbiterBondCapacities bonds g). normPk self \<noteq> Some (fst r) \<and> n \<le> freeSats ts r)"
    unfolding assignableBondedArbiters_def set_map set_filter eq by blast
  with n show ?thesis unfolding largestOnchainCoverSats_def foldl_max_le by simp
qed

section \<open>Witnesses of the ledger\<close>

definition wKey :: string where "wKey = replicate 64 (CHR ''a'')"

definition wBond :: capacity_bond where
  "wBond = \<lparr>cb_npub = wKey, cb_actualSats = 100000, cb_address = Some ''bc1p'', cb_tenureDays = None,
            cb_fundingTxid = None, cb_lineage = []\<rparr>"

definition wTrade :: "string \<Rightarrow> int \<Rightarrow> state" where
  "wTrade i m = (stateAfter [wCreate 0])\<lparr>st_id := i, st_status := LOCKED, st_amountMsats := m, st_escrowMode := ECASH,
     st_participants := (\<lambda>r. if r = ARBITER then Some wKey else None)\<rparr>"

lemma wKey_norm [simp]: "normPk (Some wKey) = Some wKey"
  by code_simp

lemma wCaps [simp]: "arbiterBondCapacities [wBond] False = [(wKey, 100000000)]"
  by (simp add: arbiterBondCapacities_def renewedBonds_def wBond_def bondMsatsOf_def)

lemma wTrade_open [simp]:
  "UNBONDED_FLOOR_MSATS \<le> m \<Longrightarrow> sumOpenExposure (getOpenBondedTrades wKey [wTrade i m] None) = m"
  by (simp add: getOpenBondedTrades_def wTrade_def isOpenExposure_def)

lemma getOpen_Nil [simp]: "getOpenBondedTrades a [] x = []"
  by (simp add: getOpenBondedTrades_def split: option.splits)

lemma wAssign: "UNBONDED_FLOOR_MSATS \<le> m \<Longrightarrow> m \<le> 100000000
    \<Longrightarrow> wKey \<in> set (assignableBondedArbiters [wBond] m [] None False)"
  by (simp add: assignableBondedArbiters_def coversTrade_def)


theorem cover_shown_is_the_refusal_witness:
  "(\<exists>a\<in>set (assignableBondedArbiters [wBond] (1000 * 40000) [wTrade ''t1'' 60000000] None False). normPk None \<noteq> Some a)
    \<longleftrightarrow> 40000 \<le> largestOnchainCoverSats [wBond] [wTrade ''t1'' 60000000] None False"
  by (rule cover_shown_is_the_refusal) (simp add: UNBONDED_FLOOR_MSATS_def)

text \<open>
  What the invariant's per-lock check cannot give: the assignment is made when a listing is
  created, and a trade consumes capacity only once it is locked. Two listings assigned before
  either locks overcommit the bond.
\<close>

theorem two_listings_overcommit_a_bond:
  assumes "normPk (Some a) = Some a" "(a, c) \<in> set (arbiterBondCapacities bonds g)"
    "UNBONDED_FLOOR_MSATS \<le> m" "m \<le> c" "c < 2 * m"
    "\<forall>t\<in>{t1, t2}. st_amountMsats t = m \<and> isOpenExposure t \<and> normPk (st_participants t ARBITER) = Some a"
  shows "a \<in> set (assignableBondedArbiters bonds m [] None g)
    \<and> c < sumOpenExposure (getOpenBondedTrades a [t1, t2] None)"
proof -
  from assms(2-4) have "a \<in> set (assignableBondedArbiters bonds m [] None g)"
    by (force simp: assignableBondedArbiters_def coversTrade_def)
  moreover have "getOpenBondedTrades a [t1, t2] None = [t1, t2]"
    using assms(1,3,6) by (simp add: getOpenBondedTrades_def)
  ultimately show ?thesis using assms(5,6) by simp
qed

section \<open>The current bond\<close>

interpretation currentBond: newest_wins bondBeats
  by unfold_locales (auto simp: bondBeats_def)

lemma those_Some: "those xs = Some ys \<longleftrightarrow> xs = map Some ys"
  by (induction xs arbitrary: ys) (auto split: option.splits)

lemma those_None: "those xs = None \<longleftrightarrow> None \<in> set xs"
  by (induction xs) (auto split: option.splits)

lemma selectLatestBond_parsed:
  assumes "selectLatestBond parse verify npub events now = Some r" "normPk (Some npub) = Some want"
  shows "\<exists>bs. map (parseArbiterBondEvent parse verify) events = map Some bs
    \<and> r = pickBest bondBeats (filter (\<lambda>b. ab_npub b = want \<and> inTerm now b) (List.map_filter id bs))"
  using assms by (auto simp: selectLatestBond_def those_Some split: option.splits)

lemma in_map_filter_id: "b \<in> set (List.map_filter id bs) \<longleftrightarrow> Some b \<in> set bs"
  by (induction bs) (auto simp: List.map_filter_simps split: option.splits)

lemma declared_bonds:
  assumes "map f events = map Some bs"
  shows "Some b \<in> set bs \<longleftrightarrow> (\<exists>e\<in>set events. f e = Some (Some b))"
proof -
  have "Some b \<in> set bs \<longleftrightarrow> Some (Some b) \<in> set (map Some bs)" by auto
  also have "\<dots> \<longleftrightarrow> (\<exists>e\<in>set events. f e = Some (Some b))" unfolding assms [symmetric] set_map image_iff by metis
  finally show ?thesis .
qed

text \<open>The current bond of an arbiter is the newest declaration in force: when the selection
  returns, its answer is a declaration of that key in its term that no other such declaration
  beats (later \<open>created_at\<close>, or equal and a smaller event id), and it answers nothing only when the
  key declared none in force.\<close>

theorem current_bond_is_the_newest_in_force:
  assumes "selectLatestBond parse verify npub events now = Some r" "normPk (Some npub) = Some want"
  shows "case r of
      None \<Rightarrow> \<not> (\<exists>e\<in>set events. \<exists>b. parseArbiterBondEvent parse verify e = Some (Some b) \<and> ab_npub b = want
                \<and> inTerm now b)
    | Some w \<Rightarrow> ab_npub w = want \<and> ab_termStart w \<le> now \<and> now < ab_termEnd w
        \<and> (\<exists>e\<in>set events. parseArbiterBondEvent parse verify e = Some (Some w))
        \<and> (\<forall>e\<in>set events. \<forall>b. parseArbiterBondEvent parse verify e = Some (Some b) \<and> ab_npub b = want
             \<and> inTerm now b \<longrightarrow> \<not> bondBeats b w)"
proof -
  from selectLatestBond_parsed [OF assms] obtain bs where bs: "map (parseArbiterBondEvent parse verify) events = map Some bs"
    "r = pickBest bondBeats (filter (\<lambda>b. ab_npub b = want \<and> inTerm now b) (List.map_filter id bs))" by blast
  note mem = in_map_filter_id declared_bonds [OF bs(1)]
  show ?thesis
  proof (cases r)
    case None
    with bs(2) have "filter (\<lambda>b. ab_npub b = want \<and> inTerm now b) (List.map_filter id bs) = []"
      by (metis currentBond.pickBest_None)
    then show ?thesis using None by (auto simp: filter_empty_conv mem)
  next
    case (Some w)
    with bs(2) have "pickBest bondBeats (filter (\<lambda>b. ab_npub b = want \<and> inTerm now b) (List.map_filter id bs)) = Some w"
      by simp
    from currentBond.pickBest_Some [OF this] Some show ?thesis by (auto simp: mem inTerm_def)
  qed
qed

section \<open>Declaring\<close>

lemma build_Inr:
  assumes "buildArbiterBondEvent stringify pubkey m a b createdAt note clock = Inr u"
  obtains pk msats start stop where "normPk (Some pubkey) = Some pk" "jsFloorFinite m = Some msats" "0 < msats"
    "jsFloorFinite a = Some start" "jsFloorFinite b = Some stop" "start < stop" "ue_kind u = ARBITER_BOND_KIND"
    "ue_content u = stringify (bondContent pk msats start stop note)" "ue_created_at u = getOr createdAt clock"
  using assms by (auto simp: buildArbiterBondEvent_def split: option.splits if_splits)

lemma field_bondContent:
  "field (bondContent pk m a b note) ''type'' = Some (JStr ARBITER_BOND_TYPE)"
  "field (bondContent pk m a b note) ''npub'' = Some (JStr pk)"
  "field (bondContent pk m a b note) ''bondMsats'' = Some (JNum (jsInt m))"
  "field (bondContent pk m a b note) ''termStart'' = Some (JNum (jsInt a))"
  "field (bondContent pk m a b note) ''termEnd'' = Some (JNum (jsInt b))"
  by (simp_all add: bondContent_def map_add_def split: option.splits)

lemma declaration_parses:
  assumes "normPk (Some pk) = Some pk" "0 < msats" "start < stop"
    "ne_kind e = ARBITER_BOND_KIND" "parse (ne_content e) = Some (bondContent pk msats start stop note)"
    "normPk (Some (ne_pubkey e)) = Some pk" "verify e"
  shows "parseArbiterBondEvent parse verify e = Some (Some \<lparr>ab_npub = pk, ab_bondMsats = msats, ab_termStart = start,
    ab_termEnd = stop, ab_createdAt = ne_created_at e, ab_eventId = ne_id e\<rparr>)"
  using assms by (simp add: parseArbiterBondEvent_def field_bondContent)

lemma only_declaration_is_current:
  assumes "parseArbiterBondEvent parse verify e = Some (Some b)" "normPk (Some npub) = Some (ab_npub b)" "inTerm now b"
  shows "selectLatestBond parse verify npub [e] now = Some (Some b)"
  using assms by (simp add: selectLatestBond_def pickBest_def keepBest_def List.map_filter_simps)

text \<open>C36. A declaration is read back: an event that carries what \<open>buildArbiterBondEvent\<close> made,
  signed by the declaring key, parses to a bond of that key with the declared (floored) size and
  term, and inside that term it is the key's current bond when it is the only one known.\<close>

theorem declared_bond_is_read_back:
  assumes "buildArbiterBondEvent stringify pubkey m a b createdAt note clock = Inr u"
    "normPk (Some pubkey) = Some pk" "jsFloorFinite m = Some msats" "jsFloorFinite a = Some start" "jsFloorFinite b = Some stop"
    "parse (stringify (bondContent pk msats start stop note)) = Some (bondContent pk msats start stop note)"
    "ne_kind e = ue_kind u" "ne_content e = ue_content u" "normPk (Some (ne_pubkey e)) = Some pk" "verify e"
    "start \<le> now" "now < stop"
  shows "selectLatestBond parse verify pubkey [e] now = Some (Some \<lparr>ab_npub = pk, ab_bondMsats = msats,
        ab_termStart = start, ab_termEnd = stop, ab_createdAt = ne_created_at e, ab_eventId = ne_id e\<rparr>)"
proof (rule build_Inr [OF assms(1)])
  fix pk' msats' start' stop'
  assume "normPk (Some pubkey) = Some pk'" "jsFloorFinite m = Some msats'" "0 < msats'"
    "jsFloorFinite a = Some start'" "jsFloorFinite b = Some stop'" "start' < stop'" "ue_kind u = ARBITER_BOND_KIND"
    "ue_content u = stringify (bondContent pk' msats' start' stop' note)"
  with assms have "parseArbiterBondEvent parse verify e = Some (Some \<lparr>ab_npub = pk, ab_bondMsats = msats,
        ab_termStart = start, ab_termEnd = stop, ab_createdAt = ne_created_at e, ab_eventId = ne_id e\<rparr>)"
    by (intro declaration_parses normPk_idem [OF assms(2)]) simp_all
  with assms show ?thesis by (intro only_declaration_is_current) (simp_all add: inTerm_def)
qed

definition wContent :: json where "wContent = bondContent wKey 100000000 0 100 None"

definition wEvent :: nostr_event where
  "wEvent = \<lparr>ne_id = ''e1'', ne_pubkey = wKey, ne_created_at = 5, ne_kind = ARBITER_BOND_KIND, ne_tags = [],
             ne_content = ''c'', ne_sig = ''s''\<rparr>"

definition wDeclared :: arbiter_bond where
  "wDeclared = \<lparr>ab_npub = wKey, ab_bondMsats = 100000000, ab_termStart = 0, ab_termEnd = 100, ab_createdAt = 5,
                ab_eventId = ''e1''\<rparr>"

lemma wEvent_parses: "parseArbiterBondEvent (\<lambda>_. Some wContent) (\<lambda>_. True) wEvent = Some (Some wDeclared)"
  using declaration_parses [of wKey 100000000 0 100 wEvent "\<lambda>_. Some wContent" None "\<lambda>_. True"]
  by (simp add: wEvent_def wContent_def wDeclared_def)

theorem declared_bond_is_read_back_witness:
  "selectLatestBond (\<lambda>_. Some wContent) (\<lambda>_. True) wKey [wEvent] 7 = Some (Some wDeclared)"
  unfolding wDeclared_def
  using declared_bond_is_read_back [of "\<lambda>_. ''c''" wKey "jsInt 100000000" "jsInt 0" "jsInt 100" None None 5
      "\<lparr>ue_kind = ARBITER_BOND_KIND, ue_created_at = 5, ue_tags = [[''d'', ARBITER_BOND_TYPE], [''t'', ARBITER_BOND_TYPE]],
        ue_content = ''c''\<rparr>" wKey 100000000 0 100 "\<lambda>_. Some wContent" wEvent "\<lambda>_. True" 7]
  by (simp add: buildArbiterBondEvent_def wEvent_def wContent_def)

theorem current_bond_is_the_newest_in_force_witness:
  "case Some wDeclared of
      None \<Rightarrow> \<not> (\<exists>e\<in>set [wEvent]. \<exists>b. parseArbiterBondEvent (\<lambda>_. Some wContent) (\<lambda>_. True) e = Some (Some b)
                \<and> ab_npub b = wKey \<and> inTerm 7 b)
    | Some w \<Rightarrow> ab_npub w = wKey \<and> ab_termStart w \<le> 7 \<and> 7 < ab_termEnd w
        \<and> (\<exists>e\<in>set [wEvent]. parseArbiterBondEvent (\<lambda>_. Some wContent) (\<lambda>_. True) e = Some (Some w))
        \<and> (\<forall>e\<in>set [wEvent]. \<forall>b. parseArbiterBondEvent (\<lambda>_. Some wContent) (\<lambda>_. True) e = Some (Some b) \<and> ab_npub b = wKey
             \<and> inTerm 7 b \<longrightarrow> \<not> bondBeats b w)"
  by (rule current_bond_is_the_newest_in_force [of _ _ wKey], rule only_declaration_is_current, rule wEvent_parses)
    (simp_all add: wDeclared_def inTerm_def)

section \<open>A malformed declaration\<close>

text \<open>
  One event of the bond kind whose payload names a number as its \<open>npub\<close> makes the selection throw,
  before its signature is looked at, for every arbiter and whatever else is among the events.
\<close>

theorem malformed_bond_blocks_the_selection:
  assumes "e \<in> set events" "ne_kind e = ARBITER_BOND_KIND" "parse (ne_content e) = Some d"
    "field d ''type'' = Some (JStr ARBITER_BOND_TYPE)" "floorOf (field d ''bondMsats'') = Some m" "0 < m"
    "floorOf (field d ''termStart'') = Some a" "floorOf (field d ''termEnd'') = Some b" "a < b"
    "normPk (Some (ne_pubkey e)) \<noteq> None" "field d ''npub'' = Some (JNum (jsInt 1))"
    "normPk (Some npub) \<noteq> None"
  shows "selectLatestBond parse verify npub events now = None"
proof -
  from assms(2-11) have "parseArbiterBondEvent parse verify e = None"
    by (auto simp: parseArbiterBondEvent_def jsInt_def)
  with assms(1,12) show ?thesis by (force simp: selectLatestBond_def those_None)
qed

section \<open>The seam\<close>

lemma selectOver_subset:
  "selectOver bondOf ctx pool = Some over \<Longrightarrow> set over \<subseteq> (\<lambda>pk. the (normPk (Some pk))) ` set pool"
  by (induction pool arbitrary: over) (auto split: option.splits if_splits)

text \<open>The seam never strands a trade: from a non-empty pool the assignable pool is non-empty and
  within it; and it seats an over-capacity arbiter only when every member of the pool is one.\<close>

theorem assignable_pool_is_never_empty:
  assumes "assignablePool parse verify pool ctx = Some ok" "pool \<noteq> []"
  shows "ok \<noteq> [] \<and> set ok \<subseteq> set pool
    \<and> (\<exists>over. selectOverCapacityArbiters parse verify pool ctx = Some over
        \<and> ((\<forall>pk\<in>set ok. case normPk (Some pk) of None \<Rightarrow> True | Some n \<Rightarrow> n \<notin> set over)
           \<or> ok = pool \<and> (\<forall>pk\<in>set pool. \<exists>n\<in>set over. normPk (Some pk) = Some n)))"
proof -
  from assms(1) obtain over where over: "selectOverCapacityArbiters parse verify pool ctx = Some over"
    "ok = (if over = [] then pool else if withoutOver over pool \<noteq> [] then withoutOver over pool else pool)"
    by (auto simp: assignablePool_def Let_def split: option.splits if_splits)
  show ?thesis
  proof (cases "over = []")
    case True
    have free: "\<forall>pk\<in>set pool. case normPk (Some pk) of None \<Rightarrow> True | Some n \<Rightarrow> n \<notin> set over"
      using True by (simp split: option.splits)
    from over(2) True have ok: "ok = pool" by simp
    show ?thesis unfolding ok using free over(1) assms(2) by blast
  next
    case False
    with over assms(2) show ?thesis by (auto simp: withoutOver_def filter_empty_conv split: option.splits)
  qed
qed

definition wPool :: pool_capacity where
  "wPool = \<lparr>pc_tradeMsats = 20000000, pc_bondEvents = [], pc_allTrades = [], pc_excludeTradeId = None, pc_now = 7\<rparr>"

lemma wPool_over: "selectOverCapacityArbiters parse verify [wKey, ''npub1x''] wPool = Some [wKey]"
  by (simp add: selectOverCapacityArbiters_def selectLatestBond_def wPool_def pickBest_def List.map_filter_simps
      canAssignArbiter_def classifyArbiterCapacity_def bondSize_def UNBONDED_FLOOR_MSATS_def normPk_def [of "Some ''npub1x''"]
      trim_def lower_def hex64_def Let_def)

theorem assignable_pool_is_never_empty_witness:
  "[''npub1x''] \<noteq> [] \<and> set [''npub1x''] \<subseteq> set [wKey, ''npub1x'']
    \<and> (\<exists>over. selectOverCapacityArbiters (\<lambda>_. None) (\<lambda>_. True) [wKey, ''npub1x''] wPool = Some over
        \<and> ((\<forall>pk\<in>set [''npub1x'']. case normPk (Some pk) of None \<Rightarrow> True | Some n \<Rightarrow> n \<notin> set over)
           \<or> [''npub1x''] = [wKey, ''npub1x''] \<and> (\<forall>pk\<in>set [wKey, ''npub1x'']. \<exists>n\<in>set over. normPk (Some pk) = Some n)))"
  by (rule assignable_pool_is_never_empty)
    (simp_all add: assignablePool_def wPool_over withoutOver_def normPk_def [of "Some ''npub1x''"]
      trim_def lower_def hex64_def Let_def)

end
