(* ===== verification/Device_Store.thy ===== *)
theory Device_Store
  imports Chama_Prelude
begin

text \<open>
  Browser storage under one key (\<open>src/storage/user-scope.ts\<close> over \<open>localStorage\<close>), as the crash-safety
  journals of the client use it. The text under the key is missing, corrupt, or the JSON of a value
  that is read back as it was written. A read may throw; a write may throw, or be dropped in silence
  (\<open>setStrictScopedStorageItem\<close> returns when there is no storage). The device carries the fates of
  the reads and of the writes to come, so a statement over all devices is one over all failures; past
  the end of a list every access works.
\<close>

datatype 'a saved_text = Missing | Corrupt | Holds 'a

datatype fate = Works | Throws | Dropped

record 'a device =
  dv_text :: "'a saved_text"
  dv_reads :: "bool list"
  dv_writes :: "fate list"

text \<open>\<open>readStrictScopedStorageItem\<close>: a storage error throws (\<open>None\<close>).\<close>

definition readStrict :: "'a device \<Rightarrow> 'a saved_text option \<times> 'a device" where
  "readStrict d = (case dv_reads d of [] \<Rightarrow> (Some (dv_text d), d)
     | ok # oks \<Rightarrow> (if ok then Some (dv_text d) else None, d\<lparr>dv_reads := oks\<rparr>))"

text \<open>\<open>getStrictScopedStorageItem\<close>: a storage error reads as nothing stored.\<close>

definition readSoft :: "'a device \<Rightarrow> 'a saved_text \<times> 'a device" where
  "readSoft d = (case readStrict d of (r, d') \<Rightarrow> (getOr r Missing, d'))"

text \<open>\<open>setStrictScopedStorageItem\<close>: the flag is whether it returns.\<close>

definition written :: "'a \<Rightarrow> fate \<Rightarrow> 'a device \<Rightarrow> bool \<times> 'a device" where
  "written v f d = (case f of Throws \<Rightarrow> (False, d) | Works \<Rightarrow> (True, d\<lparr>dv_text := Holds v\<rparr>) | Dropped \<Rightarrow> (True, d))"

definition writeText :: "'a \<Rightarrow> 'a device \<Rightarrow> bool \<times> 'a device" where
  "writeText v d = (case dv_writes d of [] \<Rightarrow> written v Works d | f # fs \<Rightarrow> written v f (d\<lparr>dv_writes := fs\<rparr>))"

definition readable :: "'a device \<Rightarrow> bool" where
  "readable d \<longleftrightarrow> list_all id (dv_reads d)"

lemma readStrict_text: "readStrict d = (r, d') \<Longrightarrow> dv_text d' = dv_text d \<and> (r = None \<or> r = Some (dv_text d))"
  by (auto simp: readStrict_def split: list.splits if_splits)

lemma readSoft_text: "readSoft d = (r, d') \<Longrightarrow> dv_text d' = dv_text d \<and> (r = Missing \<or> r = dv_text d)"
  by (auto simp: readSoft_def dest!: readStrict_text split: prod.splits)

lemma writeText_text: "writeText v d = (b, d') \<Longrightarrow> dv_text d' = Holds v \<or> dv_text d' = dv_text d"
  by (auto simp: writeText_def written_def split: list.splits fate.splits)

lemma writeText_reads [simp]: "writeText v d = (b, d') \<Longrightarrow> dv_reads d' = dv_reads d"
  by (auto simp: writeText_def written_def split: list.splits fate.splits)

lemma readable_write: "writeText v d = (b, d') \<Longrightarrow> readable d' = readable d"
  by (simp add: readable_def)

lemma readable_soft: "readable d \<Longrightarrow> readSoft d = (r, d') \<Longrightarrow> r = dv_text d \<and> dv_text d' = dv_text d \<and> readable d'"
  by (auto simp: readSoft_def readStrict_def readable_def split: list.splits if_splits)

lemma healthy_reads [simp]:
  "dv_reads d = [] \<Longrightarrow> readStrict d = (Some (dv_text d), d)" "dv_reads d = [] \<Longrightarrow> readSoft d = (dv_text d, d)"
  by (simp_all add: readSoft_def readStrict_def)

lemma healthy_write [simp]: "dv_writes d = [] \<Longrightarrow> writeText v d = (True, d\<lparr>dv_text := Holds v\<rparr>)"
  by (simp add: writeText_def written_def)

end
