(* ===== verification/Withheld_Store.thy ===== *)
theory Withheld_Store
  imports Device_Store
begin

text \<open>
  The funder's durable copy of the two shares a LOCK holds back
  (\<open>src/escrow-engine/withheld-share-store.ts\<close>), with the RELEASE or WITHDRAW this device chose for
  the LOCK. Its operations answer
  whether they are durable: a read that fails is never taken for an empty map.
\<close>

section \<open>The store\<close>

datatype withheld_step = StepRelease | StepWithdraw

record share_record =
  sr_escrowId :: string
  sr_notesHash :: string
  sr_shares :: "(int \<times> string) list"
  sr_step :: "withheld_step option"
  sr_savedAt :: int
  sr_settledAt :: "int option"

type_synonym share_map = "(string \<times> share_record) list"

type_synonym share_io = "share_map device"

definition SETTLED_RECORD_TTL_MS :: int where
  "SETTLED_RECORD_TTL_MS = 60 * 24 * 60 * 60 * 1000"

definition keyOf :: "string \<Rightarrow> string \<Rightarrow> string" where
  "keyOf escrowId notesHash = escrowId @ '':'' @ notesHash"

text \<open>A read that throws, or text that does not parse, is \<open>null\<close> (\<open>None\<close>), never an empty map.\<close>

definition loadAll :: "share_io \<Rightarrow> share_map option \<times> share_io" where
  "loadAll io = (case readStrict io of (r, io') \<Rightarrow>
     ((case r of None \<Rightarrow> None | Some Missing \<Rightarrow> Some [] | Some Corrupt \<Rightarrow> None | Some (Holds m) \<Rightarrow> Some m), io'))"

text \<open>Write, then read back: the answer is whether the text read back passes the check.\<close>

definition writeAll :: "share_map \<Rightarrow> (share_map \<Rightarrow> bool) \<Rightarrow> share_io \<Rightarrow> bool \<times> share_io" where
  "writeAll m check io = (case writeText m io of
     (False, io') \<Rightarrow> (False, io')
   | (True, io') \<Rightarrow> (case loadAll io' of (None, io2) \<Rightarrow> (False, io2) | (Some kept, io2) \<Rightarrow> (check kept, io2)))"

definition settledAt :: "share_record \<Rightarrow> int" where
  "settledAt r = getOr (sr_settledAt r) (sr_savedAt r)"

definition expiredRelease :: "int \<Rightarrow> share_record \<Rightarrow> bool" where
  "expiredRelease now r \<longleftrightarrow> sr_step r = Some StepRelease \<and> now - settledAt r > SETTLED_RECORD_TTL_MS"

definition pruned :: "int \<Rightarrow> share_map \<Rightarrow> share_map" where
  "pruned now m = map (\<lambda>(k, r). (k, if sr_step r = Some StepWithdraw \<and> sr_shares r \<noteq> [] then r\<lparr>sr_shares := []\<rparr> else r))
     (filter (\<lambda>(k, r). \<not> expiredRelease now r) m)"

definition saveShares :: "int \<Rightarrow> share_record \<Rightarrow> share_io \<Rightarrow> bool \<times> share_io" where
  "saveShares now r io = (case loadAll io of
     (None, io') \<Rightarrow> (False, io')
   | (Some m, io') \<Rightarrow> (let key = keyOf (sr_escrowId r) (sr_notesHash r) in
       case map_of m key of
         Some old \<Rightarrow> (sr_shares old = sr_shares r \<and> sr_step old = None, io')
       | None \<Rightarrow> writeAll (AList.update key (r\<lparr>sr_step := None\<rparr>) (pruned now m))
                   (\<lambda>kept. map_option sr_shares (map_of kept key) = Some (sr_shares r)) io'))"

definition loadShares :: "string \<Rightarrow> string \<Rightarrow> share_io \<Rightarrow> share_record option \<times> share_io" where
  "loadShares escrowId notesHash io = (case loadAll io of
     (None, io') \<Rightarrow> (None, io')
   | (Some m, io') \<Rightarrow> (map_of m (keyOf escrowId notesHash), io'))"

definition stepIs :: "string \<Rightarrow> withheld_step \<Rightarrow> share_map \<Rightarrow> bool" where
  "stepIs key x m \<longleftrightarrow> Option.bind (map_of m key) sr_step = Some x"

definition chooseStep :: "int \<Rightarrow> string \<Rightarrow> string \<Rightarrow> withheld_step \<Rightarrow> share_io \<Rightarrow> bool \<times> share_io" where
  "chooseStep now escrowId notesHash x io = (case loadAll io of
     (None, io') \<Rightarrow> (False, io')
   | (Some m, io') \<Rightarrow> (let key = keyOf escrowId notesHash in
       case map_of m key of
         None \<Rightarrow> (False, io')
       | Some r \<Rightarrow> (case sr_step r of
           Some y \<Rightarrow> (y = x, io')
         | None \<Rightarrow> writeAll (AList.update key (r\<lparr>sr_step := Some x, sr_settledAt := Some now\<rparr>) m) (stepIs key x) io')))"

definition retireShares :: "int \<Rightarrow> string \<Rightarrow> string \<Rightarrow> share_io \<Rightarrow> bool \<times> share_io" where
  "retireShares now escrowId notesHash io = (case loadAll io of
     (None, io') \<Rightarrow> (False, io')
   | (Some m, io') \<Rightarrow> (let key = keyOf escrowId notesHash; old = map_of m key in
       case Option.bind old sr_step of
         Some y \<Rightarrow> (y = StepWithdraw, io')
       | None \<Rightarrow> writeAll (AList.update key
             \<lparr>sr_escrowId = escrowId, sr_notesHash = notesHash,
              sr_shares = (case old of None \<Rightarrow> [] | Some r \<Rightarrow> sr_shares r), sr_step = Some StepWithdraw,
              sr_savedAt = (case old of None \<Rightarrow> now | Some r \<Rightarrow> sr_savedAt r), sr_settledAt = Some now\<rparr> m)
           (stepIs key StepWithdraw) io'))"

section \<open>A latch\<close>

text \<open>
  The contract the writers rest on: an operation may ask to latch a choice; a choice that is latched
  stays latched; and an operation whose request is granted leaves it latched. Then two different
  choices are never both granted, in any order and whatever fails in between.
\<close>

locale latch =
  fixes act :: "'op \<Rightarrow> 's \<Rightarrow> bool \<times> 's"
    and asks :: "'op \<Rightarrow> 'c option"
    and latched :: "'s \<Rightarrow> 'c option"
    and ok :: "'op \<Rightarrow> 's \<Rightarrow> bool"
  assumes keeps: "latched s = Some c \<Longrightarrow> ok x s \<Longrightarrow> latched (snd (act x s)) = Some c"
    and grants: "asks x = Some c \<Longrightarrow> ok x s \<Longrightarrow> fst (act x s) \<Longrightarrow> latched (snd (act x s)) = Some c"
begin

fun run :: "'s \<Rightarrow> 'op list \<Rightarrow> 's" where
  "run s [] = s"
| "run s (x # xs) = run (snd (act x s)) xs"

fun allowed :: "'s \<Rightarrow> 'op list \<Rightarrow> bool" where
  "allowed s [] = True"
| "allowed s (x # xs) = (ok x s \<and> allowed (snd (act x s)) xs)"

fun granted :: "'c \<Rightarrow> 's \<Rightarrow> 'op list \<Rightarrow> bool" where
  "granted c s [] = False"
| "granted c s (x # xs) = ((asks x = Some c \<and> fst (act x s)) \<or> granted c (snd (act x s)) xs)"

lemma stays: "latched s = Some c \<Longrightarrow> allowed s xs \<Longrightarrow> latched (run s xs) = Some c"
  by (induction xs arbitrary: s) (auto intro: keeps)

lemma granted_latched: "granted c s xs \<Longrightarrow> allowed s xs \<Longrightarrow> latched (run s xs) = Some c"
  by (induction xs arbitrary: s) (auto intro: grants stays)

lemma one_choice: "granted c s xs \<Longrightarrow> granted d s xs \<Longrightarrow> allowed s xs \<Longrightarrow> c = d"
  using granted_latched by (metis option.inject)

end

text \<open>The operations of the store, with the clock of each.\<close>

datatype share_op = Save int share_record | Choose int string string withheld_step | Retire int string string

fun shareAct :: "share_op \<Rightarrow> share_io \<Rightarrow> bool \<times> share_io" where
  "shareAct (Save now r) io = saveShares now r io"
| "shareAct (Choose now i h x) io = chooseStep now i h x io"
| "shareAct (Retire now i h) io = retireShares now i h io"

definition storedStep :: "string \<Rightarrow> share_io \<Rightarrow> withheld_step option" where
  "storedStep key io = (case dv_text io of Holds m \<Rightarrow> Option.bind (map_of m key) sr_step | _ \<Rightarrow> None)"

fun shareAsks :: "string \<Rightarrow> share_op \<Rightarrow> withheld_step option" where
  "shareAsks key (Save _ _) = None"
| "shareAsks key (Choose _ i h x) = (if keyOf i h = key then Some x else None)"
| "shareAsks key (Retire _ i h) = (if keyOf i h = key then Some StepWithdraw else None)"

text \<open>A save prunes finished releases of more than sixty days: the latch is kept while the record is
  younger.\<close>

fun withinTtl :: "string \<Rightarrow> share_op \<Rightarrow> share_io \<Rightarrow> bool" where
  "withinTtl key (Save now r) io = (case dv_text io of
     Holds m \<Rightarrow> (case map_of m key of None \<Rightarrow> True | Some old \<Rightarrow> \<not> expiredRelease now old)
   | _ \<Rightarrow> True)"
| "withinTtl key _ io = True"

lemma loadAll_text: "loadAll io = (m, io') \<Longrightarrow> dv_text io' = dv_text io"
  by (auto simp: loadAll_def dest: readStrict_text split: prod.splits)

lemma loadAll_Some: "loadAll io = (Some m, io') \<Longrightarrow> dv_text io = Holds m \<or> dv_text io = Missing \<and> m = []"
  by (auto simp: loadAll_def dest!: readStrict_text split: prod.splits option.splits saved_text.splits)

lemma writeAll_cases:
  assumes "writeAll m check io = (b, io')"
  shows "dv_text io' = Holds m \<or> dv_text io' = dv_text io"
    and "b \<Longrightarrow> \<exists>kept. check kept \<and> (dv_text io' = Holds kept \<or> dv_text io' = Missing \<and> kept = [])"
proof -
  obtain ok io1 where f: "writeText m io = (ok, io1)" by fastforce
  obtain r io2 where l: "loadAll io1 = (r, io2)" by fastforce
  from f l have w: "writeAll m check io = (if \<not> ok then (False, io1)
      else (case r of None \<Rightarrow> (False, io2) | Some kept \<Rightarrow> (check kept, io2)))"
    by (cases ok) (auto simp: writeAll_def split: option.splits)
  with assms writeText_text [OF f] loadAll_text [OF l]
  show "dv_text io' = Holds m \<or> dv_text io' = dv_text io" by (auto split: if_splits option.splits)
  assume b
  with w assms obtain kept where "r = Some kept" "check kept" "io' = io2" by (auto split: if_splits option.splits)
  with loadAll_Some loadAll_text l
  show "\<exists>kept. check kept \<and> (dv_text io' = Holds kept \<or> dv_text io' = Missing \<and> kept = [])" by metis
qed

lemma storedStep_Shares: "storedStep key io = Some x \<longleftrightarrow> (\<exists>m. dv_text io = Holds m \<and> stepIs key x m)"
  by (auto simp: storedStep_def stepIs_def split: saved_text.splits)

lemma storedStep_text: "dv_text io = dv_text io' \<Longrightarrow> storedStep key io = storedStep key io'"
  by (simp add: storedStep_def)

lemma stepIs_Nil [simp]: "\<not> stepIs key x []"
  by (simp add: stepIs_def)

text \<open>A write that leaves the record's step in place keeps the latch; a granted write sets it.\<close>

lemma writeAll_keeps:
  "writeAll m check io = (b, io') \<Longrightarrow> stepIs key x m \<Longrightarrow> storedStep key io = Some x \<Longrightarrow> storedStep key io' = Some x"
  using writeAll_cases(1) [of m check io b io'] by (auto simp: storedStep_Shares)

lemma writeAll_grants:
  "writeAll m (stepIs key x) io = (True, io') \<Longrightarrow> storedStep key io' = Some x"
  using writeAll_cases(2) [of m "stepIs key x" io True io'] by (auto simp: storedStep_Shares)

lemma stepIs_update_other: "k \<noteq> key \<Longrightarrow> stepIs key x (AList.update k v m) \<longleftrightarrow> stepIs key x m"
  by (simp add: stepIs_def update_conv')

lemma pruned_step:
  assumes "stepIs key x m" "case map_of m key of None \<Rightarrow> True | Some r \<Rightarrow> \<not> expiredRelease now r"
  shows "stepIs key x (pruned now m)"
  using assms
proof (induction m)
  case (Cons kr m)
  then show ?case by (cases kr) (auto simp: stepIs_def pruned_def split: if_splits)
qed (simp add: stepIs_def)

lemma shareAct_keeps:
  assumes "storedStep key io = Some x" "withinTtl key act io"
  shows "storedStep key (snd (shareAct act io)) = Some x"
proof -
  from assms(1) obtain m where m: "dv_text io = Holds m" "stepIs key x m" by (auto simp: storedStep_Shares)
  obtain r io' where l: "loadAll io = (r, io')" by fastforce
  have io': "storedStep key io' = Some x" using assms(1) storedStep_text [OF loadAll_text [OF l]] by simp
  have r: "r = None \<or> r = Some m" using loadAll_Some [of io _ io'] l m(1) by (cases r) auto
  have written: "storedStep key (snd (writeAll m' check io')) = Some x" if "stepIs key x m'" for m' check
    using writeAll_keeps [OF _ that io', of check] by (cases "writeAll m' check io'") auto
  have free: "stepIs key x (AList.update k v n)" if "map_of m k = None" "stepIs key x n" for k v n
    using that m(2) by (auto simp: stepIs_def update_conv')
  show ?thesis
  proof (cases r)
    case None
    with l io' show ?thesis
      by (cases act) (simp_all add: saveShares_def chooseStep_def retireShares_def)
  next
    case (Some n)
    with r l have lm: "loadAll io = (Some m, io')" by simp
    show ?thesis
    proof (cases act)
      case (Save now q)
      let ?k = "keyOf (sr_escrowId q) (sr_notesHash q)"
      show ?thesis
      proof (cases "map_of m ?k")
        case None
        from Save assms(2) m have p: "stepIs key x (pruned now m)" by (intro pruned_step) auto
        from None m(2) have "?k \<noteq> key" by (auto simp: stepIs_def)
        with p have "stepIs key x (AList.update ?k (q\<lparr>sr_step := None\<rparr>) (pruned now m))"
          by (simp add: stepIs_update_other)
        from written [OF this] show ?thesis using Save lm None by (simp add: saveShares_def Let_def)
      qed (use Save lm io' in \<open>simp add: saveShares_def Let_def\<close>)
    next
      case (Choose now i h y)
      show ?thesis
      proof (cases "Option.bind (map_of m (keyOf i h)) sr_step")
        case None
        then have "keyOf i h \<noteq> key" using m(2) by (auto simp: stepIs_def)
        then have "stepIs key x (AList.update (keyOf i h) v m)" for v using m(2) by (simp add: stepIs_update_other)
        with Choose lm io' written None show ?thesis
          by (cases "map_of m (keyOf i h)") (simp_all add: chooseStep_def Let_def)
      next
        case (Some z)
        with Choose lm io' show ?thesis
          by (cases "map_of m (keyOf i h)") (simp_all add: chooseStep_def Let_def)
      qed
    next
      case (Retire now i h)
      show ?thesis
      proof (cases "Option.bind (map_of m (keyOf i h)) sr_step")
        case None
        then have "keyOf i h \<noteq> key" using m(2) by (auto simp: stepIs_def)
        then have "stepIs key x (AList.update (keyOf i h) v m)" for v using m(2) by (simp add: stepIs_update_other)
        with Retire lm written None show ?thesis by (simp add: retireShares_def Let_def)
      qed (use Retire lm io' in \<open>simp add: retireShares_def Let_def\<close>)
    qed
  qed
qed

lemma shareAct_grants:
  assumes "shareAsks key act = Some x" "fst (shareAct act io)"
  shows "storedStep key (snd (shareAct act io)) = Some x"
proof -
  obtain r io' where l: "loadAll io = (r, io')" by fastforce
  have written: "storedStep key (snd (writeAll m (stepIs key x) io')) = Some x"
    if "fst (writeAll m (stepIs key x) io')" for m
    using writeAll_grants [of m key x io'] that by (metis prod.collapse)
  from assms obtain i h now where act: "act = Choose now i h x \<or> act = Retire now i h \<and> x = StepWithdraw" "keyOf i h = key"
    by (cases act) (auto split: if_splits)
  show ?thesis
  proof (cases r)
    case None
    with assms(2) l act show ?thesis by (auto simp: chooseStep_def retireShares_def)
  next
    case (Some m)
    with l have lm: "loadAll io = (Some m, io')" by simp
    show ?thesis
    proof (cases "Option.bind (map_of m key) sr_step")
      case None
      with act assms(2) lm written show ?thesis
        by (cases "map_of m key") (auto simp: chooseStep_def retireShares_def Let_def)
    next
      case (Some y)
      with act assms(2) lm have "y = x" "snd (shareAct act io) = io'"
        by (cases "map_of m key"; auto simp: chooseStep_def retireShares_def Let_def)+
      moreover have "storedStep key io = Some y"
        using Some loadAll_Some [OF lm] by (auto simp: storedStep_def)
      ultimately show ?thesis using storedStep_text [OF loadAll_text [OF l]] by simp
    qed
  qed
qed

interpretation shares: latch shareAct "shareAsks key" "storedStep key" "withinTtl key" for key
  by unfold_locales (simp_all add: shareAct_keeps shareAct_grants)

end
