(* ===== verification/Withheld_Writer.thy ===== *)
theory Withheld_Writer
  imports Handle_Vote Withheld_Store
begin

text \<open>
  The client's side of a LOCK that withholds two shares
  (\<open>src/escrow-engine/escrow-client.ts\<close>: \<open>maybeAutoAccept\<close>, \<open>ownUnreleasedWithheldLock\<close>,
  \<open>maybeAutoRelease\<close>, \<open>heldBackShares\<close>, \<open>canWithdrawWithheldLock\<close>, \<open>withdrawWithheldLock\<close>). Each
  asynchronous function is cut at its awaits into steps on the record \<open>writer\<close>, so that the steps
  of several runs interleave freely; the trade as it is read at a step is an argument of the step.
  Encryption, decryption and the full-history reload are parameters; a rejection of any of them is
  \<open>None\<close>. A failed publish ends a run exactly as a failed re-check does.
\<close>

section \<open>Reading the trade\<close>

definition unreleased :: "state \<Rightarrow> withheld option" where
  "unreleased s = (case lk_withheld (st_lock s) of None \<Rightarrow> None
     | Some w \<Rightarrow> if truthyS (wh_releaseEventId w) then None else Some w)"

record own_lock =
  ol_id :: string
  ol_payload :: lock_payload
  ol_withheld :: withheld
  ol_notesHash :: string

definition ownUnreleasedWithheldLock :: "state \<Rightarrow> string \<Rightarrow> own_lock option" where
  "ownUnreleasedWithheldLock s me =
     (if st_status s \<notin> {LOCKED, EXPIRED} \<or> \<not> usesWithheldShares (st_createdAt s) \<or> st_chamaPolicy s \<noteq> None
         \<or> lk_onchain (st_lock s) \<noteq> None
      then None
      else case (nonEmpty (lk_notesHash (st_lock s)), unreleased s, firstLock (st_eventChain s)) of
        (Some h, Some w, Some (l, p)) \<Rightarrow> if wh_lockerPubkey w \<noteq> me \<or> ev_pubkey l \<noteq> me then None
          else Some \<lparr>ol_id = ev_id l, ol_payload = p, ol_withheld = w, ol_notesHash = h\<rparr>
      | _ \<Rightarrow> None)"

definition accepted :: "state \<Rightarrow> bool" where
  "accepted s \<longleftrightarrow> truthyS (lk_acceptEventId (st_lock s))"

section \<open>Accepting\<close>

definition autoAccepts :: "state \<Rightarrow> string \<Rightarrow> string option" where
  "autoAccepts s me =
     (if st_status s \<noteq> LOCKED \<or> \<not> usesWithheldShares (st_createdAt s) \<or> st_chamaPolicy s \<noteq> None
         \<or> lk_onchain (st_lock s) \<noteq> None \<or> accepted s
      then None
      else case firstLock (st_eventChain s) of None \<Rightarrow> None
        | Some (l, _) \<Rightarrow> if nonEmpty (lockCounterparty s (ev_pubkey l)) = Some me then Some (ev_id l) else None)"

text \<open>The re-read after signing.\<close>

definition acceptStillDue :: "state \<Rightarrow> string \<Rightarrow> bool" where
  "acceptStillDue latest lockId \<longleftrightarrow> st_status latest = LOCKED \<and> \<not> accepted latest \<and> inChain latest lockId"

section \<open>The writer\<close>

datatype publication =
    Released string string "share_entry list" string
  | Withdrew string string

text \<open>
  A run of the release holds nothing yet, the shares it loaded, or the entries it encrypted once
  its choice was granted; a run of the withdraw has retired its notes or not. A run remembers the
  trade, the LOCK and the notes it is for.
\<close>

datatype release_stage = Begun | Loaded "(int \<times> string) list" | Chosen "share_entry list" string

record run_key =
  rk_escrowId :: string
  rk_lockId :: string
  rk_notesHash :: string

record writer =
  wt_io :: share_io
  wt_releasing :: "(run_key \<times> release_stage) list"
  wt_withdrawing :: "(run_key \<times> bool) list"
  wt_withdrawn :: "run_key list"
  wt_published :: "(run_key \<times> publication) list"

definition keyFor :: "string \<Rightarrow> own_lock \<Rightarrow> run_key" where
  "keyFor escrowId own = \<lparr>rk_escrowId = escrowId, rk_lockId = ol_id own, rk_notesHash = ol_notesHash own\<rparr>"

definition sameRun :: "run_key \<Rightarrow> run_key \<Rightarrow> bool" where
  "sameRun a b \<longleftrightarrow> rk_escrowId a = rk_escrowId b \<and> rk_lockId a = rk_lockId b"

definition inFlight :: "run_key \<Rightarrow> (run_key \<times> 'a) list \<Rightarrow> bool" where
  "inFlight k runs \<longleftrightarrow> list_ex (\<lambda>r. sameRun (fst r) k) runs"

definition dropRun :: "run_key \<Rightarrow> (run_key \<times> 'a) list \<Rightarrow> (run_key \<times> 'a) list" where
  "dropRun k runs = filter (\<lambda>r. fst r \<noteq> k) runs"

section \<open>Releasing\<close>

definition releaseBegin :: "state \<Rightarrow> string \<Rightarrow> writer \<Rightarrow> writer" where
  "releaseBegin s me w =
     (if \<not> accepted s \<or> st_status s \<noteq> LOCKED then w
      else case ownUnreleasedWithheldLock s me of None \<Rightarrow> w
        | Some own \<Rightarrow> (let k = keyFor (st_id s) own in
            if inFlight k (wt_releasing w) \<or> inFlight k (wt_withdrawing w) then w
            else w\<lparr>wt_releasing := (k, Begun) # wt_releasing w\<rparr>))"

text \<open>
  The held-back shares: this device's copy, or the LOCK's encrypted backup after a full-history read
  (\<open>fresh\<close>) that still shows this LOCK accepted and unreleased; a copy from the backup is saved
  before it is used.
\<close>

definition freshStillOwn :: "state option \<Rightarrow> string \<Rightarrow> string \<Rightarrow> bool" where
  "freshStillOwn fresh locker lockId = (case fresh of None \<Rightarrow> False
     | Some s \<Rightarrow> ownUnreleasedWithheldLock s locker \<noteq> None \<and> accepted s
         \<and> (case firstLock (st_eventChain s) of None \<Rightarrow> False | Some (l, _) \<Rightarrow> ev_id l = lockId))"

definition sharesFromBackup :: "(string \<Rightarrow> (int \<times> string) list option) \<Rightarrow> int \<Rightarrow> state option \<Rightarrow> string \<Rightarrow> run_key
    \<Rightarrow> lock_payload \<Rightarrow> share_io \<Rightarrow> (int \<times> string) list option \<times> share_io" where
  "sharesFromBackup decrypt now fresh locker k p io =
     (case nonEmpty (lp_withheldBackup p) of None \<Rightarrow> (None, io)
      | Some backup \<Rightarrow> if \<not> freshStillOwn fresh locker (rk_lockId k) then (None, io)
          else case decrypt backup of None \<Rightarrow> (None, io)
            | Some shares \<Rightarrow> if length shares \<noteq> 2 then (None, io)
                else (case saveShares now \<lparr>sr_escrowId = rk_escrowId k, sr_notesHash = rk_notesHash k,
                    sr_shares = shares, sr_step = None, sr_savedAt = now, sr_settledAt = None\<rparr> io of
                  (False, io') \<Rightarrow> (None, io')
                | (True, io') \<Rightarrow> (case loadShares (rk_escrowId k) (rk_notesHash k) io' of
                    (r, io2) \<Rightarrow> (map_option sr_shares r, io2))))"

definition heldBackShares :: "(string \<Rightarrow> (int \<times> string) list option) \<Rightarrow> int \<Rightarrow> state option \<Rightarrow> string \<Rightarrow> run_key
    \<Rightarrow> lock_payload \<Rightarrow> share_io \<Rightarrow> (int \<times> string) list option \<times> share_io" where
  "heldBackShares decrypt now fresh locker k p io =
     (case loadShares (rk_escrowId k) (rk_notesHash k) io of (saved, io1) \<Rightarrow>
        if Option.bind saved sr_step = Some StepWithdraw then (None, io1)
        else case saved of
          Some r \<Rightarrow> if length (sr_shares r) = 2 then (Some (sr_shares r), io1)
                    else sharesFromBackup decrypt now fresh locker k p io1
        | None \<Rightarrow> sharesFromBackup decrypt now fresh locker k p io1)"

text \<open>One withheld share, encrypted to each of its holders: \<open>None\<close> when the saved copy is missing or
  does not match the LOCK's commitment, or when an encryption is rejected.\<close>

definition holdersOf :: "state \<Rightarrow> string \<Rightarrow> string \<Rightarrow> string \<Rightarrow> int \<Rightarrow> string list" where
  "holdersOf s buyer seller arbiter i =
     (if i = 2 then (if lk_arbiterPoolShare (st_lock s) = Some True
                     then arbiterShareRecipientsFor (st_id s) (st_communityArbiters s) (Some buyer) (Some seller) (Some arbiter)
                     else [arbiter])
      else if i = 0 then [buyer] else [seller])"

definition encryptTo :: "(string \<Rightarrow> string \<Rightarrow> string option) \<Rightarrow> string \<Rightarrow> string list \<Rightarrow> (string \<times> string) list option" where
  "encryptTo enc plaintext recipients = map_option (\<lambda>cts. fold (\<lambda>(pk, c). AList.update pk c) (zip recipients cts) [])
     (those (map (enc plaintext) recipients))"

definition releasedEntry :: "(string \<Rightarrow> string) \<Rightarrow> (string \<Rightarrow> string \<Rightarrow> string option) \<Rightarrow> state \<Rightarrow> string \<Rightarrow> string \<Rightarrow> string
    \<Rightarrow> (int \<times> string) list \<Rightarrow> int \<Rightarrow> share_entry option" where
  "releasedEntry sha enc s buyer seller arbiter saved i = (case List.find (\<lambda>x. fst x = i) saved of None \<Rightarrow> None
     | Some (_, plaintext) \<Rightarrow> if \<not> releasedShareMatches sha s i plaintext then None
         else map_option (\<lambda>e. \<lparr>se_shareIndex = i, se_encryptedFor = e, se_commitment = None\<rparr>)
                (encryptTo enc plaintext (holdersOf s buyer seller arbiter i)))"

definition releaseEntries :: "(string \<Rightarrow> string) \<Rightarrow> (string \<Rightarrow> string \<Rightarrow> string option) \<Rightarrow> state \<Rightarrow> int
    \<Rightarrow> (int \<times> string) list \<Rightarrow> share_entry list option" where
  "releaseEntries sha enc s lockerIndex saved =
     (case (nonEmpty (st_participants s BUYER), nonEmpty (st_participants s SELLER), nonEmpty (st_participants s ARBITER)) of
        (Some buyer, Some seller, Some arbiter) \<Rightarrow>
          those (map (releasedEntry sha enc s buyer seller arbiter saved) (filter (\<lambda>i. i \<noteq> lockerIndex) [0, 1, 2]))
      | _ \<Rightarrow> None)"

definition releaseLoad :: "(string \<Rightarrow> (int \<times> string) list option) \<Rightarrow> int \<Rightarrow> state option \<Rightarrow> string \<Rightarrow> own_lock \<Rightarrow> run_key
    \<Rightarrow> writer \<Rightarrow> writer" where
  "releaseLoad decrypt now fresh me own k w =
     (if map_of (wt_releasing w) k \<noteq> Some Begun then w
      else case heldBackShares decrypt now fresh me k (ol_payload own) (wt_io w) of
        (None, io) \<Rightarrow> w\<lparr>wt_io := io, wt_releasing := dropRun k (wt_releasing w)\<rparr>
      | (Some shares, io) \<Rightarrow> w\<lparr>wt_io := io, wt_releasing := AList.update k (Loaded shares) (wt_releasing w)\<rparr>)"

text \<open>\<open>s\<close> is the trade as read when the run began. The choice is recorded before anything is signed.\<close>

definition releaseChoose :: "(string \<Rightarrow> string) \<Rightarrow> (string \<Rightarrow> string \<Rightarrow> string option) \<Rightarrow> int \<Rightarrow> state \<Rightarrow> own_lock \<Rightarrow> run_key
    \<Rightarrow> writer \<Rightarrow> writer" where
  "releaseChoose sha enc now s own k w = (case map_of (wt_releasing w) k of
     Some (Loaded saved) \<Rightarrow>
       (case releaseEntries sha enc s (wh_lockerShareIndex (ol_withheld own)) saved of
          None \<Rightarrow> w\<lparr>wt_releasing := dropRun k (wt_releasing w)\<rparr>
        | Some entries \<Rightarrow> (case chooseStep now (rk_escrowId k) (rk_notesHash k) StepRelease (wt_io w) of
            (False, io) \<Rightarrow> w\<lparr>wt_io := io, wt_releasing := dropRun k (wt_releasing w)\<rparr>
          | (True, io) \<Rightarrow> w\<lparr>wt_io := io, wt_releasing := AList.update k
                (Chosen entries (getOr (lk_acceptEventId (st_lock s)) [])) (wt_releasing w)\<rparr>))
   | _ \<Rightarrow> w)"

definition releaseStillDue :: "state \<Rightarrow> string \<Rightarrow> string \<Rightarrow> bool" where
  "releaseStillDue latest me accept \<longleftrightarrow>
     ownUnreleasedWithheldLock latest me \<noteq> None \<and> lk_acceptEventId (st_lock latest) = Some accept"

definition releasePublish :: "state \<Rightarrow> string \<Rightarrow> bool \<Rightarrow> run_key \<Rightarrow> writer \<Rightarrow> writer" where
  "releasePublish latest me sent k w = (case map_of (wt_releasing w) k of
     Some (Chosen entries accept) \<Rightarrow> (let w' = w\<lparr>wt_releasing := dropRun k (wt_releasing w)\<rparr> in
       if \<not> releaseStillDue latest me accept \<or> \<not> sent then w'
       else w'\<lparr>wt_published := (k, Released (rk_escrowId k) (rk_lockId k) entries accept) # wt_published w\<rparr>)
   | _ \<Rightarrow> w)"

section \<open>Taking the sats back\<close>

definition canWithdrawWithheldLock :: "state \<Rightarrow> string option \<Rightarrow> share_io \<Rightarrow> bool" where
  "canWithdrawWithheldLock s me io = (case nonEmpty me of None \<Rightarrow> False
     | Some pk \<Rightarrow> (case ownUnreleasedWithheldLock s pk of None \<Rightarrow> False
       | Some own \<Rightarrow> (let chosen = Option.bind (fst (loadShares (st_id s) (ol_notesHash own) io)) sr_step in
           chosen \<noteq> Some StepRelease
           \<and> (\<not> accepted s \<or> chosen = Some StepWithdraw \<or> st_status s = EXPIRED))))"

datatype withdraw_answer = NothingOfYours | AlreadySent | Running | ReleaseRunning | Started

definition withdrawBegin :: "state \<Rightarrow> string \<Rightarrow> writer \<Rightarrow> withdraw_answer \<times> writer" where
  "withdrawBegin s me w = (case ownUnreleasedWithheldLock s me of
     None \<Rightarrow> (if list_ex (\<lambda>k. rk_escrowId k = st_id s) (wt_withdrawn w) then AlreadySent else NothingOfYours, w)
   | Some own \<Rightarrow> (let k = keyFor (st_id s) own in
       if inFlight k (wt_withdrawing w) then (Running, w)
       else if list_ex (sameRun k) (wt_withdrawn w) then (AlreadySent, w)
       else if inFlight k (wt_releasing w) then (ReleaseRunning, w)
       else (Started, w\<lparr>wt_withdrawing := (k, False) # wt_withdrawing w\<rparr>)))"

definition withdrawRetire :: "int \<Rightarrow> run_key \<Rightarrow> writer \<Rightarrow> writer" where
  "withdrawRetire now k w =
     (if map_of (wt_withdrawing w) k \<noteq> Some False then w
      else case loadShares (rk_escrowId k) (rk_notesHash k) (wt_io w) of (saved, io1) \<Rightarrow>
        if Option.bind saved sr_step = Some StepRelease
        then w\<lparr>wt_io := io1, wt_withdrawing := dropRun k (wt_withdrawing w)\<rparr>
        else case retireShares now (rk_escrowId k) (rk_notesHash k) io1 of
          (False, io2) \<Rightarrow> w\<lparr>wt_io := io2, wt_withdrawing := dropRun k (wt_withdrawing w)\<rparr>
        | (True, io2) \<Rightarrow> w\<lparr>wt_io := io2, wt_withdrawing := AList.update k True (wt_withdrawing w)\<rparr>)"

definition withdrawPublish :: "state \<Rightarrow> string \<Rightarrow> bool \<Rightarrow> run_key \<Rightarrow> writer \<Rightarrow> writer" where
  "withdrawPublish latest me sent k w =
     (if map_of (wt_withdrawing w) k \<noteq> Some True then w
      else let w' = w\<lparr>wt_withdrawing := dropRun k (wt_withdrawing w)\<rparr> in
        if ownUnreleasedWithheldLock latest me = None \<or> \<not> sent then w'
        else w'\<lparr>wt_withdrawn := k # wt_withdrawn w,
                wt_published := (k, Withdrew (rk_escrowId k) (rk_lockId k)) # wt_published w\<rparr>)"

end
