(* ===== verification/Withheld_Properties.thy ===== *)
theory Withheld_Properties
  imports Withheld_Writer Custody_Properties
begin

text \<open>
  One LOCK gets a RELEASE or a WITHDRAW from a device, never both, however the runs interleave and
  whatever storage does; and the release the writer builds is one the reducer accepts.
\<close>

section \<open>The latch under the client's steps\<close>

definition latchKept :: "share_io \<Rightarrow> share_io \<Rightarrow> bool" where
  "latchKept io io' \<longleftrightarrow> (\<forall>key x. storedStep key io = Some x \<longrightarrow> storedStep key io' = Some x)"

lemma latchKept_refl [simp]: "latchKept io io"
  by (simp add: latchKept_def)

lemma latchKept_trans: "latchKept a b \<Longrightarrow> latchKept b c \<Longrightarrow> latchKept a c"
  by (simp add: latchKept_def)

definition young :: "int \<Rightarrow> share_io \<Rightarrow> bool" where
  "young now io \<longleftrightarrow> (case dv_text io of Holds m \<Rightarrow> list_all (\<lambda>kr. \<not> expiredRelease now (snd kr)) m | _ \<Rightarrow> True)"

lemma young_ttl: "young now io \<Longrightarrow> withinTtl key (Save now r) io"
  by (auto simp: young_def list_all_iff split: saved_text.splits option.splits dest!: map_of_SomeD)

lemma young_text: "dv_text io = dv_text io' \<Longrightarrow> young now io = young now io'"
  by (simp add: young_def)

lemma loadShares_text: "loadShares i h io = (r, io') \<Longrightarrow> dv_text io' = dv_text io"
  by (auto simp: loadShares_def dest: loadAll_text split: prod.splits option.splits)

lemma text_kept: "dv_text io' = dv_text io \<Longrightarrow> latchKept io io'"
  by (simp add: latchKept_def storedStep_def)

lemma loadShares_kept: "loadShares i h io = (r, io') \<Longrightarrow> latchKept io io'"
  by (rule text_kept) (rule loadShares_text)

lemma act_kept: "(\<And>key. withinTtl key act io) \<Longrightarrow> latchKept io (snd (shareAct act io))"
  by (simp add: latchKept_def shareAct_keeps)

lemma choose_kept: "chooseStep now i h x io = (b, io') \<Longrightarrow> latchKept io io'"
  using act_kept [of "Choose now i h x" io] by simp

lemma retire_kept: "retireShares now i h io = (b, io') \<Longrightarrow> latchKept io io'"
  using act_kept [of "Retire now i h" io] by simp

lemma save_kept: "saveShares now r io = (b, io') \<Longrightarrow> young now io \<Longrightarrow> latchKept io io'"
  using act_kept [of "Save now r" io] young_ttl by simp

lemma choose_latches: "chooseStep now i h x io = (True, io') \<Longrightarrow> storedStep (keyOf i h) io' = Some x"
  using shareAct_grants [of "keyOf i h" "Choose now i h x" x io] by simp

lemma retire_latches: "retireShares now i h io = (True, io') \<Longrightarrow> storedStep (keyOf i h) io' = Some StepWithdraw"
  using shareAct_grants [of "keyOf i h" "Retire now i h" StepWithdraw io] by simp

lemma backup_kept: "sharesFromBackup decrypt now fresh locker k p io = (r, io') \<Longrightarrow> young now io \<Longrightarrow> latchKept io io'"
  by (auto simp: sharesFromBackup_def dest: save_kept loadShares_kept intro: latchKept_trans
      split: option.splits if_splits prod.splits bool.splits)

lemma heldBack_kept: "heldBackShares decrypt now fresh locker k p io = (r, io') \<Longrightarrow> young now io \<Longrightarrow> latchKept io io'"
proof -
  assume h: "heldBackShares decrypt now fresh locker k p io = (r, io')" and y: "young now io"
  obtain saved io1 where l: "loadShares (rk_escrowId k) (rk_notesHash k) io = (saved, io1)" by fastforce
  from y l have y1: "young now io1" using young_text [OF loadShares_text [OF l]] by simp
  from h l have "io' = io1 \<or> (r, io') = sharesFromBackup decrypt now fresh locker k p io1"
    by (auto simp: heldBackShares_def split: option.splits if_splits)
  with y1 loadShares_kept [OF l] show ?thesis by (metis backup_kept latchKept_trans)
qed

section \<open>Any interleaving\<close>

text \<open>
  What a device may do, in any order: the steps of the release and withdraw runs on whatever trade
  it reads, saving the shares of a new LOCK, retiring notes that came back, and losing its memory in
  a crash (the record of what was published is kept, for the statement only). No save runs once a
  finished release of more than sixty days is in the store.
\<close>

inductive writerReach :: "(string \<Rightarrow> string) \<Rightarrow> (string \<Rightarrow> string \<Rightarrow> string option) \<Rightarrow> (string \<Rightarrow> (int \<times> string) list option)
    \<Rightarrow> writer \<Rightarrow> bool" for sha enc decrypt where
  fresh: "writerReach sha enc decrypt \<lparr>wt_io = io, wt_releasing = [], wt_withdrawing = [], wt_withdrawn = [], wt_published = []\<rparr>"
| release_begin: "writerReach sha enc decrypt w \<Longrightarrow> writerReach sha enc decrypt (releaseBegin s me w)"
| release_load: "writerReach sha enc decrypt w \<Longrightarrow> young now (wt_io w)
    \<Longrightarrow> writerReach sha enc decrypt (releaseLoad decrypt now fresh me own k w)"
| release_choose: "writerReach sha enc decrypt w \<Longrightarrow> writerReach sha enc decrypt (releaseChoose sha enc now s own k w)"
| release_publish: "writerReach sha enc decrypt w \<Longrightarrow> writerReach sha enc decrypt (releasePublish s me sent k w)"
| withdraw_begin: "writerReach sha enc decrypt w \<Longrightarrow> writerReach sha enc decrypt (snd (withdrawBegin s me w))"
| withdraw_retire: "writerReach sha enc decrypt w \<Longrightarrow> writerReach sha enc decrypt (withdrawRetire now k w)"
| withdraw_publish: "writerReach sha enc decrypt w \<Longrightarrow> writerReach sha enc decrypt (withdrawPublish s me sent k w)"
| save: "writerReach sha enc decrypt w \<Longrightarrow> young now (wt_io w)
    \<Longrightarrow> writerReach sha enc decrypt (w\<lparr>wt_io := snd (saveShares now r (wt_io w))\<rparr>)"
| retire: "writerReach sha enc decrypt w \<Longrightarrow> writerReach sha enc decrypt (w\<lparr>wt_io := snd (retireShares now i h (wt_io w))\<rparr>)"
| crash: "writerReach sha enc decrypt w
    \<Longrightarrow> writerReach sha enc decrypt (w\<lparr>wt_releasing := [], wt_withdrawing := [], wt_withdrawn := []\<rparr>)"

definition chosenFor :: "share_io \<Rightarrow> run_key \<Rightarrow> withheld_step option" where
  "chosenFor io k = storedStep (keyOf (rk_escrowId k) (rk_notesHash k)) io"

fun stepOfPub :: "publication \<Rightarrow> withheld_step" where
  "stepOfPub (Released _ _ _ _) = StepRelease"
| "stepOfPub (Withdrew _ _) = StepWithdraw"

definition writerOk :: "writer \<Rightarrow> bool" where
  "writerOk w \<longleftrightarrow> (\<forall>k es a. (k, Chosen es a) \<in> set (wt_releasing w) \<longrightarrow> chosenFor (wt_io w) k = Some StepRelease)
     \<and> (\<forall>k. (k, True) \<in> set (wt_withdrawing w) \<longrightarrow> chosenFor (wt_io w) k = Some StepWithdraw)
     \<and> (\<forall>k p. (k, p) \<in> set (wt_published w) \<longrightarrow> chosenFor (wt_io w) k = Some (stepOfPub p))"

lemma chosen_kept: "latchKept io io' \<Longrightarrow> chosenFor io k = Some x \<Longrightarrow> chosenFor io' k = Some x"
  by (simp add: latchKept_def chosenFor_def)

lemma update_set: "(a, b) \<in> set (AList.update k v m) \<Longrightarrow> (a, b) \<in> set m \<or> a = k \<and> b = v"
  by (induction m) (auto split: if_splits)

lemma writerOk_io:
  assumes "writerOk w" "latchKept (wt_io w) (wt_io w')"
    "\<And>k es a. (k, Chosen es a) \<in> set (wt_releasing w')
      \<Longrightarrow> (k, Chosen es a) \<in> set (wt_releasing w) \<or> chosenFor (wt_io w') k = Some StepRelease"
    "\<And>k. (k, True) \<in> set (wt_withdrawing w')
      \<Longrightarrow> (k, True) \<in> set (wt_withdrawing w) \<or> chosenFor (wt_io w') k = Some StepWithdraw"
    "\<And>k p. (k, p) \<in> set (wt_published w') \<Longrightarrow> (k, p) \<in> set (wt_published w) \<or> chosenFor (wt_io w') k = Some (stepOfPub p)"
  shows "writerOk w'"
  using assms chosen_kept [OF assms(2)] unfolding writerOk_def by metis

lemma dropRun_sub: "x \<in> set (dropRun k m) \<Longrightarrow> x \<in> set m"
  by (simp add: dropRun_def)

text \<open>Every step keeps \<open>writerOk\<close>: it lengthens a list only by an entry whose choice the store has
  latched.\<close>

lemma ok_same_io:
  assumes "writerOk w" "set (wt_releasing w') \<subseteq> set (wt_releasing w) \<union> {(k, Begun)}"
    "set (wt_withdrawing w') \<subseteq> set (wt_withdrawing w) \<union> {(k', False)}" "wt_published w' = wt_published w"
    "latchKept (wt_io w) (wt_io w')"
  shows "writerOk w'"
  using assms(2,3) by (intro writerOk_io [OF assms(1,5)]) (auto simp: assms(4))

lemma releaseBegin_ok: "writerOk w \<Longrightarrow> writerOk (releaseBegin s me w)"
  by (auto simp: releaseBegin_def Let_def split: option.splits
      intro!: ok_same_io [of w _ "keyFor (st_id s) own" for own])

lemma releaseLoad_ok:
  assumes "writerOk w" "young now (wt_io w)"
  shows "writerOk (releaseLoad decrypt now fresh me own k w)"
proof (cases "map_of (wt_releasing w) k = Some Begun")
  case True
  obtain r io where h: "heldBackShares decrypt now fresh me k (ol_payload own) (wt_io w) = (r, io)" by fastforce
  from heldBack_kept [OF h assms(2)] have kept: "latchKept (wt_io w) io" .
  from True h kept show ?thesis
    by (cases r) (auto simp: releaseLoad_def dest: dropRun_sub update_set
        intro!: writerOk_io [OF assms(1)])
qed (simp add: releaseLoad_def assms(1))

lemma releaseChoose_ok:
  assumes "writerOk w"
  shows "writerOk (releaseChoose sha enc now s own k w)"
proof (cases "\<exists>saved entries. map_of (wt_releasing w) k = Some (Loaded saved)
    \<and> releaseEntries sha enc s (wh_lockerShareIndex (ol_withheld own)) saved = Some entries")
  case True
  then obtain saved entries where l: "map_of (wt_releasing w) k = Some (Loaded saved)"
    "releaseEntries sha enc s (wh_lockerShareIndex (ol_withheld own)) saved = Some entries" by blast
  obtain b io where c: "chooseStep now (rk_escrowId k) (rk_notesHash k) StepRelease (wt_io w) = (b, io)" by fastforce
  from choose_kept [OF c] have kept: "latchKept (wt_io w) io" .
  have "b \<Longrightarrow> chosenFor io k = Some StepRelease" using choose_latches c by (simp add: chosenFor_def)
  with l c kept show ?thesis
    by (cases b) (auto simp: releaseChoose_def dest: dropRun_sub update_set
        intro!: writerOk_io [OF assms(1)])
next
  case False
  then have "releaseChoose sha enc now s own k w \<in> {w, w\<lparr>wt_releasing := dropRun k (wt_releasing w)\<rparr>}"
    by (auto simp: releaseChoose_def split: option.splits release_stage.splits)
  with assms show ?thesis
    by (auto dest: dropRun_sub intro!: writerOk_io [OF assms])
qed

lemma releasePublish_ok:
  assumes "writerOk w"
  shows "writerOk (releasePublish s me sent k w)"
proof (cases "\<exists>es a. map_of (wt_releasing w) k = Some (Chosen es a)")
  case True
  then obtain es a where c: "map_of (wt_releasing w) k = Some (Chosen es a)" by blast
  from map_of_SomeD [OF c] assms have "chosenFor (wt_io w) k = Some StepRelease" by (auto simp: writerOk_def)
  with c show ?thesis
    by (auto simp: releasePublish_def Let_def dest: dropRun_sub
        intro!: writerOk_io [OF assms])
next
  case False
  then have "releasePublish s me sent k w = w"
    by (auto simp: releasePublish_def split: option.splits release_stage.splits)
  with assms show ?thesis by simp
qed

lemma withdrawBegin_ok: "writerOk w \<Longrightarrow> writerOk (snd (withdrawBegin s me w))"
  by (auto simp: withdrawBegin_def Let_def split: option.splits
      intro!: ok_same_io [of w _ _ "keyFor (st_id s) own" for own])

lemma withdrawRetire_ok:
  assumes "writerOk w"
  shows "writerOk (withdrawRetire now k w)"
proof (cases "map_of (wt_withdrawing w) k = Some False")
  case True
  obtain saved io1 where l: "loadShares (rk_escrowId k) (rk_notesHash k) (wt_io w) = (saved, io1)" by fastforce
  obtain b io2 where r: "retireShares now (rk_escrowId k) (rk_notesHash k) io1 = (b, io2)" by fastforce
  from loadShares_kept [OF l] have k1: "latchKept (wt_io w) io1" .
  from latchKept_trans [OF k1 retire_kept [OF r]] have k2: "latchKept (wt_io w) io2" .
  have chosen: "b \<Longrightarrow> chosenFor io2 k = Some StepWithdraw" using retire_latches r by (simp add: chosenFor_def)
  show ?thesis
  proof (cases "Option.bind saved sr_step = Some StepRelease")
    case released: True
    with True l k1 show ?thesis
      by (auto simp: withdrawRetire_def dest: dropRun_sub intro!: writerOk_io [OF assms])
  next
    case False
    with True l r k2 chosen show ?thesis
      by (cases b) (auto simp: withdrawRetire_def dest: dropRun_sub update_set
          intro!: writerOk_io [OF assms])
  qed
qed (simp add: withdrawRetire_def assms)

lemma withdrawPublish_ok:
  assumes "writerOk w"
  shows "writerOk (withdrawPublish s me sent k w)"
proof (cases "map_of (wt_withdrawing w) k = Some True")
  case True
  from map_of_SomeD [OF True] assms have "chosenFor (wt_io w) k = Some StepWithdraw" by (auto simp: writerOk_def)
  with True show ?thesis
    by (auto simp: withdrawPublish_def Let_def dest: dropRun_sub
        intro!: writerOk_io [OF assms])
qed (simp add: withdrawPublish_def assms)

lemma writerReach_ok: "writerReach sha enc decrypt w \<Longrightarrow> writerOk w"
proof (induction rule: writerReach.induct)
  case (save w now r)
  obtain b io where s: "saveShares now r (wt_io w) = (b, io)" by fastforce
  show ?case by (rule ok_same_io [OF save(3)]) (use save_kept [OF s save(2)] s in auto)
next
  case (retire w now i h)
  obtain b io where s: "retireShares now i h (wt_io w) = (b, io)" by fastforce
  show ?case by (rule ok_same_io [OF retire(2)]) (use retire_kept [OF s] s in auto)
next
  case (crash w)
  show ?case by (rule ok_same_io [OF crash(2)]) auto
qed (simp_all add: releaseBegin_ok releaseLoad_ok releaseChoose_ok releasePublish_ok withdrawBegin_ok withdrawRetire_ok
    withdrawPublish_ok, simp add: writerOk_def)


section \<open>The release the writer builds\<close>

lemma those_eq: "those xs = Some ys \<longleftrightarrow> xs = map Some ys"
  by (induction xs arbitrary: ys) (auto split: option.splits)

lemma fold_update_keys: "map fst (fold (\<lambda>(pk, c). AList.update pk c) kvs m) = map fst m @ filter (\<lambda>k. k \<notin> set (map fst m)) (map fst kvs)"
  if "distinct (map fst kvs)" for kvs :: "(string \<times> string) list" and m
  using that
proof (induction kvs arbitrary: m)
  case (Cons kv kvs)
  obtain k v where kv: "kv = (k, v)" by (cases kv)
  have keys: "map fst (AList.update k v m) = (if k \<in> set (map fst m) then map fst m else map fst m @ [k])"
    by (induction m) auto
  have rest: "k \<notin> set (map fst m)
      \<Longrightarrow> filter (\<lambda>x. x \<noteq> k \<and> x \<notin> set (map fst m)) (map fst kvs) = filter (\<lambda>x. x \<notin> set (map fst m)) (map fst kvs)"
    using Cons.prems kv by (intro filter_cong) auto
  from Cons kv rest show ?case by (simp add: keys del: set_map)
qed simp

lemma encryptTo_keys:
  assumes "encryptTo enc plaintext recipients = Some e" "distinct recipients"
  shows "map fst e = recipients"
proof -
  from assms(1) obtain cts where cts: "map (enc plaintext) recipients = map Some cts"
    "e = fold (\<lambda>(pk, c). AList.update pk c) (zip recipients cts) []" by (auto simp: encryptTo_def those_eq)
  from arg_cong [OF cts(1), of length] have "map fst (zip recipients cts) = recipients" by simp
  with cts(2) assms(2) show ?thesis by (simp add: fold_update_keys)
qed

lemma priorityOrderFor_outsiders:
  assumes "a \<notin> {buyer, seller}" "buyer \<noteq> []" "seller \<noteq> []"
  shows "buyer \<notin> set (arbiterPriorityOrderFor i pool (Some buyer) (Some seller) (Some a))
    \<and> seller \<notin> set (arbiterPriorityOrderFor i pool (Some buyer) (Some seller) (Some a))"
  using extendOrder_prefix [of pool i "Some buyer" "Some seller" "case nonEmpty (Some a) of None \<Rightarrow> [] | Some x \<Rightarrow> [x]"] assms
  by (auto simp: arbiterPriorityOrderFor_def split: option.splits if_splits)

lemma holders_ok:
  assumes "st_participants s BUYER = Some buyer" "st_participants s SELLER = Some seller" "st_participants s ARBITER = Some a"
    "buyer \<noteq> []" "seller \<noteq> []" "a \<noteq> []" "a \<notin> {buyer, seller}" "i \<in> {0, 1, 2}"
    "releasedEntry sha enc s buyer seller a saved i = Some x"
  shows "se_shareIndex x = i \<and> \<not> releasedShareBroken s x"
proof -
  from assms(9) obtain plaintext e where e: "encryptTo enc plaintext (holdersOf s buyer seller a i) = Some e"
    "x = \<lparr>se_shareIndex = i, se_encryptedFor = e, se_commitment = None\<rparr>"
    by (auto simp: releasedEntry_def split: option.splits if_splits)
  have d: "distinct (holdersOf s buyer seller a i)"
    by (simp add: holdersOf_def arbiterShareRecipientsFor_def priorityOrderFor_distinct)
  have keys: "map fst e = holdersOf s buyer seller a i" by (rule encryptTo_keys [OF e(1) d])
  have allowed: "allowedArbiterHolders s = holdersOf s buyer seller a 2"
    using assms(1-6) by (simp add: allowedArbiterHolders_def holdersOf_def)
  have out: "buyer \<notin> set (holdersOf s buyer seller a 2) \<and> seller \<notin> set (holdersOf s buyer seller a 2)"
    using priorityOrderFor_outsiders [OF assms(7,4,5)] assms(7)
    by (auto simp: holdersOf_def arbiterShareRecipientsFor_def dest!: in_set_takeD)
  show ?thesis
  proof (cases "i = 2")
    case True
    with keys allowed out assms(1-6) e(2) show ?thesis
      by (auto simp: releasedShareBroken_def list_ex_iff simp flip: length_map [of fst e])
  next
    case False
    with keys assms(1-8) e(2) show ?thesis by (auto simp: releasedShareBroken_def holdersOf_def)
  qed
qed

lemma releaseEntries_Some:
  assumes "releaseEntries sha enc s idx saved = Some entries"
  obtains buyer seller a where "st_participants s BUYER = Some buyer" "st_participants s SELLER = Some seller"
    "st_participants s ARBITER = Some a" "buyer \<noteq> []" "seller \<noteq> []" "a \<noteq> []"
    "map (releasedEntry sha enc s buyer seller a saved) (filter (\<lambda>i. i \<noteq> idx) [0, 1, 2]) = map Some entries"
  using assms by (auto simp: releaseEntries_def those_eq nonEmpty_eq_Some split: option.splits if_splits)

lemma sorted_indices: "sortWith (\<lambda>a b. a < b) (filter (\<lambda>i. i \<noteq> idx) [0, 1, 2]) = filter (\<lambda>i. i \<noteq> (idx :: int)) [0, 1, 2]"
  by (cases "idx = 0"; cases "idx = 1"; cases "idx = 2") simp_all

lemma built_entries_ok:
  assumes "releaseEntries sha enc s idx saved = Some entries" "st_participants s ARBITER \<notin> {st_participants s BUYER, st_participants s SELLER}"
  shows "map se_shareIndex entries = filter (\<lambda>i. i \<noteq> idx) [0, 1, 2] \<and> (\<forall>x\<in>set entries. \<not> releasedShareBroken s x)"
proof (rule releaseEntries_Some [OF assms(1)])
  fix buyer seller a
  assume p: "st_participants s BUYER = Some buyer" "st_participants s SELLER = Some seller" "st_participants s ARBITER = Some a"
      "buyer \<noteq> []" "seller \<noteq> []" "a \<noteq> []"
    and m: "map (releasedEntry sha enc s buyer seller a saved) (filter (\<lambda>i. i \<noteq> idx) [0, 1, 2]) = map Some entries"
  from p assms(2) have a: "a \<notin> {buyer, seller}" by auto
  let ?is = "filter (\<lambda>i. i \<noteq> idx) [0, 1, 2]"
  have pointwise: "map se_shareIndex es = is \<and> (\<forall>x\<in>set es. \<not> releasedShareBroken s x)"
    if "map (releasedEntry sha enc s buyer seller a saved) is = map Some es" "set is \<subseteq> {0, 1, 2}" for "is" es
    using that
  proof (induction "is" arbitrary: es)
    case (Cons i "is")
    then obtain x es' where x: "es = x # es'" "releasedEntry sha enc s buyer seller a saved i = Some x"
      "map (releasedEntry sha enc s buyer seller a saved) is = map Some es'" by (cases es) auto
    from holders_ok [OF p a _ x(2)] Cons x(1,3) show ?case by auto
  qed simp
  show ?thesis by (rule pointwise [OF m]) auto
qed

text \<open>C17. The release the funder's app builds is one the reducer accepts: for the trade it was built on,
  when the seated arbiter is neither principal, an event of the funder that replies to the
  acceptance and carries the built entries passes \<open>handleLockStep\<close> and releases the shares.\<close>

theorem built_release_is_accepted:
  assumes "ownUnreleasedWithheldLock s me = Some own" "accepted s"
    "releaseEntries sha enc s (wh_lockerShareIndex (ol_withheld own)) saved = Some entries"
    "st_participants s ARBITER \<notin> {st_participants s BUYER, st_participants s SELLER}"
    "ev_pubkey e = me" "ev_prev e = lk_acceptEventId (st_lock s)"
  shows "handleLockStep s e (Release (ol_id own) entries)
    = Inr (s\<lparr>st_lock := releasedLock (st_lock s) (ol_withheld own) (ev_id e) entries\<rparr>)"
proof -
  from assms(1) obtain l p where own: "lk_withheld (st_lock s) = Some (ol_withheld own)"
    "\<not> truthyS (wh_releaseEventId (ol_withheld own))" "wh_lockerPubkey (ol_withheld own) = me"
    "firstLock (st_eventChain s) = Some (l, p)" "ol_id own = ev_id l" "st_status s \<in> {LOCKED, EXPIRED}"
    "usesWithheldShares (st_createdAt s)" "st_chamaPolicy s = None" "lk_onchain (st_lock s) = None"
    by (auto simp: ownUnreleasedWithheldLock_def unreleased_def split: option.splits if_splits)
  from built_entries_ok [OF assms(3,4)] have b: "map se_shareIndex entries = filter (\<lambda>i. i \<noteq> wh_lockerShareIndex (ol_withheld own)) [0, 1, 2]"
    "\<not> list_ex (releasedShareBroken s) entries" by (auto simp: list_ex_iff)
  have g: "guarded (lockStepGuards s (ev_id l)) r = r" for r :: result
    using own by (simp add: lockStepGuards_def guarded.simps)
  show ?thesis
    using assms(2,5,6) own b by (simp add: handleLockStep_def g releaseStep_def guarded.simps accepted_def sorted_indices)
qed

section \<open>Witnesses\<close>

definition wSha :: "string \<Rightarrow> string" where
  "wSha x = (if last x = CHR ''0'' then ''c0'' else ''c2'')"

definition wSaved :: "(int \<times> string) list" where
  "wSaved = [(0, ''p0''), (2, ''p2'')]"

lemma acceptedTrade_own: "ends acceptedTrade (\<lambda>s. accepted s
    \<and> (case ownUnreleasedWithheldLock s ''S'' of None \<Rightarrow> False
       | Some own \<Rightarrow> ol_id own = ''e2'' \<and> wh_lockerShareIndex (ol_withheld own) = 1
           \<and> releaseEntries wSha (\<lambda>p k. Some ''x'') s 1 wSaved = Some releasedShares)
    \<and> st_participants s ARBITER \<notin> {st_participants s BUYER, st_participants s SELLER}
    \<and> lk_acceptEventId (st_lock s) = Some ''a0'')"
  by code_simp

theorem built_release_is_accepted_witness:
  "\<exists>s'. handleLockStep (stateAfter acceptedTrade) releaseEvent (Release ''e2'' releasedShares) = Inr s'"
proof -
  let ?s = "stateAfter acceptedTrade"
  note f = endsD(2) [OF acceptedTrade_own]
  then obtain own where own: "ownUnreleasedWithheldLock ?s ''S'' = Some own" "ol_id own = ''e2''"
    "wh_lockerShareIndex (ol_withheld own) = 1" "releaseEntries wSha (\<lambda>p k. Some ''x'') ?s 1 wSaved = Some releasedShares"
    by (auto split: option.splits)
  from built_release_is_accepted [OF own(1), of wSha "\<lambda>p k. Some ''x''" wSaved releasedShares releaseEvent] f own(2-4)
  show ?thesis by (simp add: releaseEvent_def mkEvent_def)
qed

definition wNoMemory :: writer where
  "wNoMemory = \<lparr>wt_io = \<lparr>dv_text = Missing, dv_reads = [True, True], dv_writes = [Works]\<rparr>, wt_releasing = [],
     wt_withdrawing = [], wt_withdrawn = [], wt_published = []\<rparr>"

definition wRunKey :: run_key where
  "wRunKey = \<lparr>rk_escrowId = ''trade'', rk_lockId = ''e2'', rk_notesHash = ''notes''\<rparr>"

definition wTookBack :: writer where
  "wTookBack = withdrawPublish (stateAfter wHeld) ''S'' True wRunKey
     (withdrawRetire 0 wRunKey (snd (withdrawBegin (stateAfter wHeld) ''S'' wNoMemory)))"

lemma wTookBack_published: "wt_published wTookBack = [(wRunKey, Withdrew ''trade'' ''e2'')]"
  by code_simp

lemma wTookBack_reached: "writerReach sha enc decrypt wTookBack"
  unfolding wTookBack_def wNoMemory_def
  by (intro writerReach.withdraw_publish writerReach.withdraw_retire writerReach.withdraw_begin writerReach.fresh)


end
