(* ===== verification/Money_Publish.thy ===== *)
theory Money_Publish
  imports Escrow_Types Device_Store
begin

text \<open>
  The durable publication of events that carry bearer notes
  (\<open>src/escrow-engine/durable-money-publish.ts\<close>, and \<open>publishDurableMoney\<close>,
  \<open>drainDurableMoneyPublishes\<close>, \<open>handleMoneyPublishOk\<close>, \<open>acknowledgeRelayObservedMoneyEvents\<close>,
  \<open>resolveDurableMoneyPublish\<close> of \<open>escrow-client.ts\<close>): a journal of signed LOCK and PREMIUM events that
  no relay has acknowledged. An operation that throws answers \<open>None\<close>. The asynchronous functions are
  cut at their publish, whose outcome is an argument of the step after it; the steps of several runs
  interleave.
\<close>

section \<open>The journal\<close>

datatype money_type = MLock | MPremium

datatype durability = Acknowledged | Pending | ExpiredUnacked

record money_entry =
  me_event :: nostr_event
  me_escrowId :: string
  me_type :: money_type
  me_spentAt :: int
  me_liveUntil :: int
  me_status :: durability
  me_lastError :: "string option"
  me_rejections :: "string list"
  me_amountMsats :: "int option"
  me_operationId :: "string option"

type_synonym money_journal = "money_entry list device"

definition me_id :: "money_entry \<Rightarrow> string" where
  "me_id x = ne_id (me_event x)"

definition validEntry :: "money_entry \<Rightarrow> bool" where
  "validEntry x \<longleftrightarrow> me_liveUntil x > me_spentAt x \<and> me_status x \<noteq> Acknowledged"

definition readDurableMoneyPublishes :: "money_journal \<Rightarrow> money_entry list option \<times> money_journal" where
  "readDurableMoneyPublishes d = (case readSoft d of
     (Missing, d') \<Rightarrow> (Some [], d')
   | (Corrupt, d') \<Rightarrow> (None, d')
   | (Holds es, d') \<Rightarrow> (if list_all validEntry es then Some es else None, d'))"

definition hasEvent :: "string \<Rightarrow> money_entry list \<Rightarrow> bool" where
  "hasEvent i es \<longleftrightarrow> list_ex (\<lambda>x. me_id x = i) es"

text \<open>The flag is whether it returns.\<close>

definition writeAndVerify :: "money_entry list \<Rightarrow> string option \<Rightarrow> string option \<Rightarrow> money_journal \<Rightarrow> bool \<times> money_journal" where
  "writeAndVerify es present absent d = (case writeText es d of
     (False, d1) \<Rightarrow> (False, d1)
   | (True, d1) \<Rightarrow> (case readDurableMoneyPublishes d1 of
       (None, d2) \<Rightarrow> (False, d2)
     | (Some kept, d2) \<Rightarrow> (\<not> (truthyS present \<and> \<not> hasEvent (the present) kept)
           \<and> \<not> (truthyS absent \<and> hasEvent (the absent) kept), d2)))"

definition enqueueDurableMoneyPublish :: "money_entry \<Rightarrow> money_journal \<Rightarrow> money_entry option \<times> money_journal" where
  "enqueueDurableMoneyPublish entry d = (case readDurableMoneyPublishes d of
     (None, d1) \<Rightarrow> (None, d1)
   | (Some es, d1) \<Rightarrow> (case List.find (\<lambda>x. me_id x = me_id entry) es of
       Some existing \<Rightarrow> (Some existing, d1)
     | None \<Rightarrow> (let next = entry\<lparr>me_status := Pending\<rparr> in
         case writeAndVerify (es @ [next]) (Some (me_id entry)) None d1 of
           (False, d2) \<Rightarrow> (None, d2) | (True, d2) \<Rightarrow> (Some next, d2))))"

definition acknowledgeDurableMoneyPublish :: "string \<Rightarrow> money_journal \<Rightarrow> money_entry option option \<times> money_journal" where
  "acknowledgeDurableMoneyPublish i d = (case readDurableMoneyPublishes d of
     (None, d1) \<Rightarrow> (None, d1)
   | (Some es, d1) \<Rightarrow> (case List.find (\<lambda>x. me_id x = i) es of
       None \<Rightarrow> (Some None, d1)
     | Some x \<Rightarrow> if me_status x \<noteq> Pending then (Some None, d1)
         else case writeAndVerify (filter (\<lambda>y. me_id y \<noteq> i) es) None (Some i) d1 of
           (False, d2) \<Rightarrow> (None, d2) | (True, d2) \<Rightarrow> (Some (Some x), d2)))"

definition aboutTrade :: "string \<Rightarrow> money_type \<Rightarrow> money_entry \<Rightarrow> bool" where
  "aboutTrade escrowId t x \<longleftrightarrow> me_escrowId x = escrowId \<and> me_type x = t"

definition resolveDurableMoneyPublishesForEscrow :: "string \<Rightarrow> money_type \<Rightarrow> money_journal
    \<Rightarrow> money_entry list option \<times> money_journal" where
  "resolveDurableMoneyPublishesForEscrow escrowId t d = (case readDurableMoneyPublishes d of
     (None, d1) \<Rightarrow> (None, d1)
   | (Some es, d1) \<Rightarrow> (let resolved = filter (aboutTrade escrowId t) es in
       if resolved = [] then (Some [], d1)
       else case writeAndVerify (filter (\<lambda>x. \<not> aboutTrade escrowId t x) es) None None d1 of
         (False, d2) \<Rightarrow> (None, d2)
       | (True, d2) \<Rightarrow> (case readDurableMoneyPublishes d2 of
           (None, d3) \<Rightarrow> (None, d3)
         | (Some kept, d3) \<Rightarrow> (if list_ex (aboutTrade escrowId t) kept then None else Some resolved, d3))))"

text \<open>The first entry of the id, replaced; the source changes the object in place.\<close>

fun replaceFirst :: "string \<Rightarrow> money_entry \<Rightarrow> money_entry list \<Rightarrow> money_entry list" where
  "replaceFirst i x [] = []"
| "replaceFirst i x (y # ys) = (if me_id y = i then x # ys else y # replaceFirst i x ys)"

definition withFailure :: "string \<Rightarrow> money_entry \<Rightarrow> money_entry" where
  "withFailure message x = (let clean = trim message in
     if clean = [] then x
     else x\<lparr>me_lastError := Some clean, me_rejections := dedupe (me_rejections x @ [clean])\<rparr>)"

definition recordDurableMoneyPublishFailure :: "string \<Rightarrow> string \<Rightarrow> money_journal
    \<Rightarrow> money_entry option option \<times> money_journal" where
  "recordDurableMoneyPublishFailure i message d = (case readDurableMoneyPublishes d of
     (None, d1) \<Rightarrow> (None, d1)
   | (Some es, d1) \<Rightarrow> (case List.find (\<lambda>x. me_id x = i) es of
       None \<Rightarrow> (Some None, d1)
     | Some x \<Rightarrow> (let failed = withFailure message x in
         case writeAndVerify (replaceFirst i failed es) (Some i) None d1 of
           (False, d2) \<Rightarrow> (None, d2) | (True, d2) \<Rightarrow> (Some (Some failed), d2))))"

definition REFUND_HORIZON :: string where
  "REFUND_HORIZON = ''The bearer notes reached their refund horizon before any relay acknowledged this event.''"

definition pastHorizon :: "int \<Rightarrow> money_entry \<Rightarrow> bool" where
  "pastHorizon now x \<longleftrightarrow> me_status x = Pending \<and> now \<ge> me_liveUntil x"

definition quarantined :: "money_entry \<Rightarrow> money_entry" where
  "quarantined x = x\<lparr>me_status := ExpiredUnacked, me_lastError := Some REFUND_HORIZON\<rparr>"

definition quarantineExpiredMoneyPublishes :: "int \<Rightarrow> money_journal \<Rightarrow> money_entry list option \<times> money_journal" where
  "quarantineExpiredMoneyPublishes now d = (case readDurableMoneyPublishes d of
     (None, d1) \<Rightarrow> (None, d1)
   | (Some es, d1) \<Rightarrow> (let newly = map quarantined (filter (pastHorizon now) es) in
       if newly = [] then (Some [], d1)
       else case writeAndVerify (map (\<lambda>x. if pastHorizon now x then quarantined x else x) es) None None d1 of
         (False, d2) \<Rightarrow> (None, d2) | (True, d2) \<Rightarrow> (Some newly, d2)))"

definition publishableMoneyEntries :: "int \<Rightarrow> money_journal \<Rightarrow> money_entry list option \<times> money_journal" where
  "publishableMoneyEntries now d = (case quarantineExpiredMoneyPublishes now d of
     (None, d1) \<Rightarrow> (None, d1)
   | (Some _, d1) \<Rightarrow> (case readDurableMoneyPublishes d1 of
       (None, d2) \<Rightarrow> (None, d2)
     | (Some es, d2) \<Rightarrow> (Some (filter (\<lambda>x. me_status x = Pending \<and> now < me_liveUntil x) es), d2)))"

definition moneyEntryForEscrow :: "string \<Rightarrow> money_type option \<Rightarrow> money_journal \<Rightarrow> money_entry option option \<times> money_journal" where
  "moneyEntryForEscrow escrowId t d = (case readDurableMoneyPublishes d of
     (None, d1) \<Rightarrow> (None, d1)
   | (Some es, d1) \<Rightarrow> (case sortWith (\<lambda>a b. me_spentAt a > me_spentAt b)
         (filter (\<lambda>x. me_escrowId x = escrowId \<and> (case t of None \<Rightarrow> True | Some y \<Rightarrow> me_type x = y)) es) of
       [] \<Rightarrow> (Some None, d1) | x # _ \<Rightarrow> (Some (Some x), d1)))"

section \<open>The diagnostics\<close>

record money_diagnostic =
  md_eventId :: string
  md_escrowId :: string
  md_type :: money_type
  md_message :: string
  md_recordedAt :: int

type_synonym diagnostics = "money_diagnostic list device"

definition readDurableMoneyDiagnostics :: "diagnostics \<Rightarrow> money_diagnostic list option \<times> diagnostics" where
  "readDurableMoneyDiagnostics d = (case readSoft d of
     (Missing, d') \<Rightarrow> (Some [], d') | (Corrupt, d') \<Rightarrow> (None, d') | (Holds ds, d') \<Rightarrow> (Some ds, d'))"

definition recordDurableMoneyDiagnostic :: "money_diagnostic \<Rightarrow> diagnostics \<Rightarrow> money_diagnostic option \<times> diagnostics" where
  "recordDurableMoneyDiagnostic x d = (case readDurableMoneyDiagnostics d of
     (None, d1) \<Rightarrow> (None, d1)
   | (Some ds, d1) \<Rightarrow> (case List.find (\<lambda>y. md_eventId y = md_eventId x) ds of
       Some existing \<Rightarrow> (Some existing, d1)
     | None \<Rightarrow> (case writeText (ds @ [x]) d1 of
         (False, d2) \<Rightarrow> (None, d2)
       | (True, d2) \<Rightarrow> (case readDurableMoneyDiagnostics d2 of
           (None, d3) \<Rightarrow> (None, d3)
         | (Some kept, d3) \<Rightarrow> (List.find (\<lambda>y. md_eventId y = md_eventId x) kept, d3)))))"

definition moneyDiagnosticForEscrow :: "string \<Rightarrow> diagnostics \<Rightarrow> money_diagnostic option option \<times> diagnostics" where
  "moneyDiagnosticForEscrow escrowId d = (case readDurableMoneyDiagnostics d of
     (None, d1) \<Rightarrow> (None, d1)
   | (Some ds, d1) \<Rightarrow> (case sortWith (\<lambda>a b. md_recordedAt a > md_recordedAt b)
         (filter (\<lambda>x. md_escrowId x = escrowId) ds) of [] \<Rightarrow> (Some None, d1) | x # _ \<Rightarrow> (Some (Some x), d1)))"

section \<open>The client\<close>

text \<open>
  \<open>mc_inFlight\<close> are the ids between a publish and its answer, \<open>mc_drains\<close> the drains that run (a timer
  and a poll start them independently), each with its clock and what is left of its snapshot; \<open>mc_sent\<close> logs every event handed to the relays with the clock the sender
  judged it by. The custody notices a screen shows are derived from the journal and are not kept.
\<close>

record money_client =
  mc_journal :: money_journal
  mc_diagnostics :: diagnostics
  mc_context :: "(string \<times> (string \<times> money_type)) list"
  mc_shown :: "(string \<times> string \<times> string) list"
  mc_inFlight :: "string list"
  mc_drains :: "(int \<times> money_entry list) list"
  mc_sent :: "(int \<times> money_entry) list"

definition expectedKind :: "money_type \<Rightarrow> int" where
  "expectedKind t = (case t of MLock \<Rightarrow> kindNumber K_LOCK | MPremium \<Rightarrow> kindNumber K_PREMIUM)"

definition setContext :: "money_entry \<Rightarrow> money_client \<Rightarrow> money_client" where
  "setContext x c = c\<lparr>mc_context := AList.update (me_id x) (me_escrowId x, me_type x) (mc_context c)\<rparr>"

definition dropContext :: "money_entry \<Rightarrow> money_client \<Rightarrow> money_client" where
  "dropContext x c = c\<lparr>mc_context := AList.delete (me_id x) (mc_context c)\<rparr>"

text \<open>An event goes to the relays: it is in flight until it is answered.\<close>

definition send :: "int \<Rightarrow> money_entry \<Rightarrow> money_client \<Rightarrow> money_client" where
  "send now x c = (setContext x c)\<lparr>mc_inFlight := me_id x # mc_inFlight c, mc_sent := (now, x) # mc_sent c\<rparr>"

definition landed :: "string \<Rightarrow> money_client \<Rightarrow> money_client" where
  "landed i c = c\<lparr>mc_inFlight := filter (\<lambda>j. j \<noteq> i) (mc_inFlight c)\<rparr>"

text \<open>The flags below are whether the operation returns.\<close>

definition noteDiagnostic :: "int \<Rightarrow> string \<Rightarrow> string \<Rightarrow> money_type \<Rightarrow> string \<Rightarrow> money_client \<Rightarrow> bool \<times> money_client" where
  "noteDiagnostic now i escrowId t message c = (case recordDurableMoneyDiagnostic
     \<lparr>md_eventId = i, md_escrowId = escrowId, md_type = t, md_message = message, md_recordedAt = now\<rparr> (mc_diagnostics c) of
     (r, d) \<Rightarrow> (r \<noteq> None, c\<lparr>mc_diagnostics := d\<rparr>))"

definition noteRejection :: "int \<Rightarrow> string \<Rightarrow> string \<Rightarrow> money_type \<Rightarrow> money_entry \<Rightarrow> money_client \<Rightarrow> bool \<times> money_client" where
  "noteRejection now i escrowId t x c = (case me_rejections x of [] \<Rightarrow> (True, c)
     | r # _ \<Rightarrow> if r = [] then (True, c) else noteDiagnostic now i escrowId t r c)"

text \<open>Nothing reaches a relay before the entry is in the journal.\<close>

definition publishDurableMoney :: "int \<Rightarrow> money_entry \<Rightarrow> money_client \<Rightarrow> bool \<times> money_client" where
  "publishDurableMoney now x c =
     (if ne_kind (me_event x) \<noteq> expectedKind (me_type x) then (False, c)
      else case enqueueDurableMoneyPublish x (mc_journal c) of
        (None, d) \<Rightarrow> (False, c\<lparr>mc_journal := d\<rparr>)
      | (Some _, d) \<Rightarrow> (True, send now x (c\<lparr>mc_journal := d\<rparr>)))"

definition failPublish :: "string \<Rightarrow> string \<Rightarrow> money_client \<Rightarrow> money_client" where
  "failPublish i message c =
     landed i (c\<lparr>mc_journal := snd (recordDurableMoneyPublishFailure i message (mc_journal c))\<rparr>)"

text \<open>
  The answer of the relays to a publish: accepted, or the message of the error. \<open>thrown\<close> is the
  message of the storage error when the acknowledgement itself throws, which the same handler
  records as a failure.
\<close>

definition publishAnswered :: "string \<Rightarrow> string option \<Rightarrow> string \<Rightarrow> money_client \<Rightarrow> money_client" where
  "publishAnswered i failure thrown c = (case failure of
     None \<Rightarrow> (case acknowledgeDurableMoneyPublish i (mc_journal c) of
         (None, d) \<Rightarrow> failPublish i thrown (c\<lparr>mc_journal := d\<rparr>)
       | (Some None, d) \<Rightarrow> landed i (c\<lparr>mc_journal := d\<rparr>)
       | (Some (Some x), d) \<Rightarrow> landed i (dropContext x (c\<lparr>mc_journal := d\<rparr>)))
   | Some message \<Rightarrow> failPublish i message c)"

text \<open>The start of a drain: quarantine, then take the snapshot of what may be published.\<close>

definition drainStart :: "int \<Rightarrow> money_client \<Rightarrow> money_client" where
  "drainStart now c = (case quarantineExpiredMoneyPublishes now (mc_journal c) of
     (None, d) \<Rightarrow> c\<lparr>mc_journal := d\<rparr>
   | (Some newly, d) \<Rightarrow> (let c1 = fold setContext newly (c\<lparr>mc_journal := d\<rparr>) in
       case publishableMoneyEntries now (mc_journal c1) of
         (None, d') \<Rightarrow> c1\<lparr>mc_journal := d'\<rparr>
       | (Some es, d') \<Rightarrow> c1\<lparr>mc_journal := d', mc_drains := mc_drains c1 @ [(now, es)]\<rparr>))"

text \<open>The next entry of the \<open>k\<close>th drain: skipped when it is already in flight.\<close>

definition drainNext :: "nat \<Rightarrow> money_client \<Rightarrow> money_client" where
  "drainNext k c = (if k < length (mc_drains c) then (case mc_drains c ! k of
       (now, []) \<Rightarrow> c
     | (now, x # rest) \<Rightarrow> (let c1 = c\<lparr>mc_drains := (mc_drains c)[k := (now, rest)]\<rparr> in
         if me_id x \<in> set (mc_inFlight c) then c1 else send now x c1)) else c)"

text \<open>A failure that cannot be recorded throws out of the loop of the drain that met it.\<close>

definition drainStop :: "nat \<Rightarrow> money_client \<Rightarrow> money_client" where
  "drainStop k c = (if k < length (mc_drains c)
     then c\<lparr>mc_drains := (mc_drains c)[k := (fst (mc_drains c ! k), [])]\<rparr> else c)"

definition UNEXPLAINED :: string where
  "UNEXPLAINED = ''Relay rejected the event without an explanation.''"

definition handleMoneyPublishOk :: "int \<Rightarrow> string \<Rightarrow> bool \<Rightarrow> string \<Rightarrow> string \<Rightarrow> money_client \<Rightarrow> money_client" where
  "handleMoneyPublishOk now i ok message relayUrl c = (case map_of (mc_context c) i of
     None \<Rightarrow> c
   | Some (escrowId, t) \<Rightarrow> if ok
       then (case acknowledgeDurableMoneyPublish i (mc_journal c) of
           (Some (Some x), d) \<Rightarrow> snd (noteRejection now i escrowId t x (dropContext x (c\<lparr>mc_journal := d\<rparr>)))
         | (_, d) \<Rightarrow> c\<lparr>mc_journal := d\<rparr>)
       else (let clean = (if trim message = [] then UNEXPLAINED else trim message); diagnostic = relayUrl @ '': '' @ clean in
         if (i, relayUrl, clean) \<in> set (mc_shown c) then c
         else let c1 = c\<lparr>mc_shown := (i, relayUrl, clean) # mc_shown c\<rparr> in
           (case recordDurableMoneyPublishFailure i diagnostic (mc_journal c1) of
             (Some None, d) \<Rightarrow> snd (noteDiagnostic now i escrowId t diagnostic (c1\<lparr>mc_journal := d\<rparr>))
           | (_, d) \<Rightarrow> c1\<lparr>mc_journal := d\<rparr>)))"

text \<open>An event fetched back from a relay counts as acknowledged, for each type of one trade.\<close>

definition acknowledgeObserved :: "int \<Rightarrow> string \<Rightarrow> string list \<Rightarrow> money_type \<Rightarrow> money_client \<Rightarrow> bool \<times> money_client" where
  "acknowledgeObserved now escrowId fetchedIds t c = (case moneyEntryForEscrow escrowId (Some t) (mc_journal c) of
     (None, d) \<Rightarrow> (False, c\<lparr>mc_journal := d\<rparr>)
   | (Some None, d) \<Rightarrow> (True, c\<lparr>mc_journal := d\<rparr>)
   | (Some (Some x), d) \<Rightarrow> if me_id x \<notin> set fetchedIds then (True, c\<lparr>mc_journal := d\<rparr>)
       else (case acknowledgeDurableMoneyPublish (me_id x) d of
           (None, d') \<Rightarrow> (False, c\<lparr>mc_journal := d'\<rparr>)
         | (Some None, d') \<Rightarrow> (True, c\<lparr>mc_journal := d'\<rparr>)
         | (Some (Some y), d') \<Rightarrow> noteRejection now (me_id y) escrowId t y (c\<lparr>mc_journal := d'\<rparr>)))"

definition acknowledgeRelayObservedMoneyEvents :: "int \<Rightarrow> string \<Rightarrow> string list \<Rightarrow> money_client \<Rightarrow> money_client" where
  "acknowledgeRelayObservedMoneyEvents now escrowId fetchedIds c = (case acknowledgeObserved now escrowId fetchedIds MLock c of
     (False, c1) \<Rightarrow> c1
   | (True, c1) \<Rightarrow> snd (acknowledgeObserved now escrowId fetchedIds MPremium c1))"

definition resolveDurableMoneyPublish :: "string \<Rightarrow> money_type \<Rightarrow> money_client \<Rightarrow> money_client" where
  "resolveDurableMoneyPublish escrowId t c = (case resolveDurableMoneyPublishesForEscrow escrowId t (mc_journal c) of
     (None, d) \<Rightarrow> c\<lparr>mc_journal := d\<rparr>
   | (Some resolved, d) \<Rightarrow> fold dropContext resolved (c\<lparr>mc_journal := d\<rparr>))"

end
