(* ===== verification/Money_Properties.thy ===== *)
theory Money_Properties
  imports Money_Publish
begin

text \<open>
  The durable publication of money events under any interleaving of its steps and any behaviour of
  the device's writes: an event stays in the journal until a relay has it or its trade is resolved,
  and nothing is handed to a relay that is not in the journal. Storage reads are the weak point: one
  failed read loses the journal.
\<close>

section \<open>What each operation keeps of the journal\<close>

text \<open>An entry of the journal, by its event and the trade and type it is about.\<close>

definition journaled :: "string \<Rightarrow> string \<Rightarrow> money_type \<Rightarrow> money_journal \<Rightarrow> bool" where
  "journaled i e t d \<longleftrightarrow> (case dv_text d of
     Holds es \<Rightarrow> list_ex (\<lambda>x. me_id x = i \<and> aboutTrade e t x) es | _ \<Rightarrow> False)"

text \<open>The journal of a device whose reads work keeps an entry.\<close>

definition keeps :: "string \<Rightarrow> string \<Rightarrow> money_type \<Rightarrow> money_journal \<Rightarrow> money_journal \<Rightarrow> bool" where
  "keeps i e t d d' \<longleftrightarrow> (readable d \<and> journaled i e t d \<longrightarrow> readable d' \<and> journaled i e t d')"

lemma keeps_refl [simp]: "keeps i e t d d"
  by (simp add: keeps_def)

lemma keeps_trans: "keeps i e t a b \<Longrightarrow> keeps i e t b c \<Longrightarrow> keeps i e t a c"
  by (simp add: keeps_def)

lemma journaled_text: "dv_text d' = dv_text d \<Longrightarrow> journaled i e t d' = journaled i e t d"
  by (simp add: journaled_def)

lemma keeps_read: "readDurableMoneyPublishes d = (r, d') \<Longrightarrow> keeps i e t d d'"
  by (auto simp: keeps_def readDurableMoneyPublishes_def journaled_def dest: readable_soft
      split: prod.splits saved_text.splits if_splits)

lemma read_some: "readDurableMoneyPublishes d = (Some es, d') \<Longrightarrow> readable d
    \<Longrightarrow> journaled i e t d \<Longrightarrow> readable d' \<and> dv_text d' = Holds es \<and> dv_text d = Holds es"
  by (auto simp: readDurableMoneyPublishes_def journaled_def dest: readable_soft
      split: prod.splits saved_text.splits if_splits)

lemma keeps_write:
  assumes w: "writeAndVerify es p a d = (ok, d')"
    and keep: "journaled i e t d \<Longrightarrow> list_ex (\<lambda>x. me_id x = i \<and> aboutTrade e t x) es"
  shows "keeps i e t d d'"
proof -
  obtain b d1 where d1: "writeText es d = (b, d1)" by fastforce
  then have "readable d \<and> journaled i e t d \<longrightarrow> readable d1 \<and> journaled i e t d1"
    using readable_write [OF d1] writeText_text [OF d1] keep by (auto simp: journaled_def)
  then have 1: "keeps i e t d d1" by (simp add: keeps_def)
  from w d1 have "d' = d1 \<or> (\<exists>r. readDurableMoneyPublishes d1 = (r, d'))"
    by (auto simp: writeAndVerify_def split: prod.splits bool.splits option.splits)
  then show ?thesis using 1 keeps_read keeps_trans by blast
qed

text \<open>Read the journal, then write it changed: the shape of every operation.\<close>

lemma keeps_rewrite:
  assumes r: "readDurableMoneyPublishes d = (Some es, d1)" and w: "writeAndVerify es' p a d1 = (ok, d')"
    and f: "list_ex (\<lambda>x. me_id x = i \<and> aboutTrade e t x) es \<Longrightarrow> list_ex (\<lambda>x. me_id x = i \<and> aboutTrade e t x) es'"
  shows "keeps i e t d d'"
proof -
  have "keeps i e t d1 d'" if "readable d" "journaled i e t d"
  proof (rule keeps_write [OF w])
    assume "journaled i e t d1"
    then show "list_ex (\<lambda>x. me_id x = i \<and> aboutTrade e t x) es'"
      using read_some [OF r that] f by (simp add: journaled_def)
  qed
  then show ?thesis using keeps_read [OF r] by (meson keeps_def)
qed

lemma list_ex_replaceFirst:
  "List.find (\<lambda>y. me_id y = j) es = Some x \<Longrightarrow> P y = P x \<Longrightarrow> list_ex P (replaceFirst j y es) = list_ex P es"
  by (induction es) (auto split: if_splits)

lemma withFailure_key [simp]: "me_id (withFailure m x) = me_id x" "aboutTrade e t (withFailure m x) = aboutTrade e t x"
  by (simp_all add: withFailure_def me_id_def aboutTrade_def Let_def)

lemma quarantined_key [simp]: "me_id (quarantined x) = me_id x" "aboutTrade e t (quarantined x) = aboutTrade e t x"
  by (simp_all add: quarantined_def me_id_def aboutTrade_def)

lemma keeps_enqueue: "enqueueDurableMoneyPublish x d = (r, d') \<Longrightarrow> keeps i e t d d'"
  by (auto simp: enqueueDurableMoneyPublish_def Let_def intro: keeps_read keeps_rewrite
      split: prod.splits option.splits bool.splits)

lemma list_ex_filter: "list_ex P xs \<Longrightarrow> (\<And>x. P x \<Longrightarrow> Q x) \<Longrightarrow> list_ex P (filter Q xs)"
  by (auto simp: list_ex_iff)

lemma keeps_acknowledge: "acknowledgeDurableMoneyPublish j d = (r, d') \<Longrightarrow> j \<noteq> i \<Longrightarrow> keeps i e t d d'"
  by (auto simp: acknowledgeDurableMoneyPublish_def intro: keeps_read keeps_rewrite list_ex_filter
      split: prod.splits option.splits bool.splits if_splits)

lemma keeps_resolve: "resolveDurableMoneyPublishesForEscrow e' t' d = (r, d') \<Longrightarrow> (e', t') \<noteq> (e, t) \<Longrightarrow> keeps i e t d d'"
proof -
  assume h: "resolveDurableMoneyPublishesForEscrow e' t' d = (r, d')" and ne: "(e', t') \<noteq> (e, t)"
  have w: "keeps i e t d d2" if "readDurableMoneyPublishes d = (Some es, d1)"
      "writeAndVerify (filter (\<lambda>x. \<not> aboutTrade e' t' x) es) None None d1 = (ok, d2)" for es d1 ok d2
    by (rule keeps_rewrite [OF that]) (use ne in \<open>auto simp: list_ex_iff aboutTrade_def\<close>)
  from h show ?thesis
    by (auto simp: resolveDurableMoneyPublishesForEscrow_def Let_def
        intro: keeps_read w keeps_trans [OF w keeps_read] split: prod.splits option.splits bool.splits if_splits)
qed

lemma list_ex_map_same: "(\<And>x. P (f x) = P x) \<Longrightarrow> list_ex P (map f es) = list_ex P es"
  by (induction es) simp_all

lemma keeps_failure: "recordDurableMoneyPublishFailure j m d = (r, d') \<Longrightarrow> keeps i e t d d'"
proof -
  assume h: "recordDurableMoneyPublishFailure j m d = (r, d')"
  have w: "keeps i e t d d2" if es: "readDurableMoneyPublishes d = (Some es, d1)"
      and x: "List.find (\<lambda>x. me_id x = j) es = Some x"
      and wr: "writeAndVerify (replaceFirst j (withFailure m x) es) (Some j) None d1 = (ok, d2)" for es d1 x ok d2
    by (rule keeps_rewrite [OF es wr]) (simp add: list_ex_replaceFirst [OF x])
  from h show ?thesis
    by (auto simp: recordDurableMoneyPublishFailure_def Let_def intro: keeps_read w
        split: prod.splits option.splits bool.splits)
qed

lemma keeps_quarantine: "quarantineExpiredMoneyPublishes now d = (r, d') \<Longrightarrow> keeps i e t d d'"
proof -
  assume h: "quarantineExpiredMoneyPublishes now d = (r, d')"
  have w: "keeps i e t d d2" if es: "readDurableMoneyPublishes d = (Some es, d1)"
      and wr: "writeAndVerify (map (\<lambda>x. if pastHorizon now x then quarantined x else x) es) None None d1 = (ok, d2)" for es d1 ok d2
    by (rule keeps_rewrite [OF es wr]) (simp add: list_ex_map_same)
  from h show ?thesis
    by (auto simp: quarantineExpiredMoneyPublishes_def Let_def intro: keeps_read w
        split: prod.splits option.splits bool.splits if_splits)
qed

lemma keeps_publishable: "publishableMoneyEntries now d = (r, d') \<Longrightarrow> keeps i e t d d'"
  by (auto simp: publishableMoneyEntries_def intro: keeps_quarantine keeps_trans [OF keeps_quarantine keeps_read]
      split: prod.splits option.splits)

lemma keeps_entry: "moneyEntryForEscrow e' t' d = (r, d') \<Longrightarrow> keeps i e t d d'"
  by (auto simp: moneyEntryForEscrow_def intro: keeps_read split: prod.splits option.splits list.splits)

lemmas keeps_intros = keeps_enqueue keeps_acknowledge keeps_resolve keeps_failure keeps_quarantine
  keeps_publishable keeps_entry

section \<open>The steps of the client\<close>

text \<open>
  Every entry point of the client that touches the journal, as an action; a crash loses the memory
  and keeps the device.
\<close>

datatype money_act =
    Publish int money_entry
  | Answered string "string option" string
  | Drain int
  | DrainStep nat
  | DrainStop nat
  | RelayOk int string bool string string
  | Observed int string "string list"
  | Resolved string money_type
  | Crashed

fun moneyAct :: "money_act \<Rightarrow> money_client \<Rightarrow> money_client" where
  "moneyAct (Publish now x) c = snd (publishDurableMoney now x c)"
| "moneyAct (Answered i failure thrown) c = publishAnswered i failure thrown c"
| "moneyAct (Drain now) c = drainStart now c"
| "moneyAct (DrainStep k) c = drainNext k c"
| "moneyAct (DrainStop k) c = drainStop k c"
| "moneyAct (RelayOk now i ok message relay) c = handleMoneyPublishOk now i ok message relay c"
| "moneyAct (Observed now e ids) c = acknowledgeRelayObservedMoneyEvents now e ids c"
| "moneyAct (Resolved e t) c = resolveDurableMoneyPublish e t c"
| "moneyAct Crashed c = c\<lparr>mc_context := [], mc_shown := [], mc_inFlight := [], mc_drains := []\<rparr>"

text \<open>The actions that may retire the entry of event \<open>i\<close> about trade \<open>e\<close> and type \<open>t\<close>.\<close>

fun retires :: "string \<Rightarrow> string \<Rightarrow> money_type \<Rightarrow> money_act \<Rightarrow> bool" where
  "retires i e t (Answered j failure _) = (j = i \<and> failure = None)"
| "retires i e t (RelayOk _ j ok _ _) = (j = i \<and> ok)"
| "retires i e t (Observed _ _ ids) = (i \<in> set ids)"
| "retires i e t (Resolved e' t') = (e' = e \<and> t' = t)"
| "retires i e t _ = False"

lemma journal_of [simp]:
  "mc_journal (setContext x c) = mc_journal c" "mc_journal (dropContext x c) = mc_journal c"
  "mc_journal (send now x c) = mc_journal c" "mc_journal (landed i c) = mc_journal c"
  "mc_journal (snd (noteDiagnostic now i e t m c)) = mc_journal c" "mc_journal (snd (noteRejection now i e t x c)) = mc_journal c"
  by (simp_all add: setContext_def dropContext_def send_def landed_def noteDiagnostic_def noteRejection_def
      split: list.splits prod.splits)

lemma journal_fold [simp]:
  "mc_journal (fold setContext xs c) = mc_journal c" "mc_journal (fold dropContext xs c) = mc_journal c"
  by (induction xs arbitrary: c) simp_all

lemma keeps_failPublish: "keeps i e t (mc_journal c) (mc_journal (failPublish j m c))"
  by (simp add: failPublish_def keeps_failure [OF surjective_pairing])

lemma keeps_answered: "\<not> retires i e t (Answered j f m) \<Longrightarrow> keeps i e t (mc_journal c) (mc_journal (publishAnswered j f m c))"
proof (cases f)
  case None
  assume h: "\<not> retires i e t (Answered j f m)"
  obtain r d where a: "acknowledgeDurableMoneyPublish j (mc_journal c) = (r, d)" by fastforce
  then have k: "keeps i e t (mc_journal c) d" using keeps_acknowledge h None by simp
  have "keeps i e t d (mc_journal (failPublish j m (c\<lparr>mc_journal := d\<rparr>)))"
    using keeps_failPublish [of i e t "c\<lparr>mc_journal := d\<rparr>" j m] by simp
  with k None a show ?thesis
    by (auto simp: publishAnswered_def intro: keeps_trans split: option.splits)
qed (simp add: publishAnswered_def keeps_failPublish)

lemma keeps_drainStart: "keeps i e t (mc_journal c) (mc_journal (drainStart now c))"
  by (auto simp: drainStart_def Let_def intro: keeps_quarantine keeps_trans [OF keeps_quarantine keeps_publishable]
      split: prod.splits option.splits)

lemma keeps_relayOk:
  "\<not> retires i e t (RelayOk now j ok m u) \<Longrightarrow> keeps i e t (mc_journal c) (mc_journal (handleMoneyPublishOk now j ok m u c))"
  by (auto simp: handleMoneyPublishOk_def Let_def intro: keeps_acknowledge keeps_failure
      split: prod.splits option.splits)

lemma find_key: "List.find P xs = Some x \<Longrightarrow> P x"
  by (auto simp: find_Some_iff)

lemma keeps_observed: "i \<notin> set ids \<Longrightarrow> keeps i e t (mc_journal c) (mc_journal (snd (acknowledgeObserved now e' ids t' c)))"
  by (auto simp: acknowledgeObserved_def intro: keeps_entry keeps_trans [OF keeps_entry keeps_acknowledge]
      split: prod.splits option.splits if_splits)

lemma keeps_resolved:
  "(e', t') \<noteq> (e, t) \<Longrightarrow> keeps i e t (mc_journal c) (mc_journal (resolveDurableMoneyPublish e' t' c))"
  by (auto simp: resolveDurableMoneyPublish_def intro: keeps_resolve split: prod.splits option.splits)

lemma keeps_publish: "keeps i e t (mc_journal c) (mc_journal (snd (publishDurableMoney now x c)))"
  by (auto simp: publishDurableMoney_def intro: keeps_enqueue split: prod.splits option.splits)

lemma keeps_drainNext: "mc_journal (drainNext k c) = mc_journal c" "mc_journal (drainStop k c) = mc_journal c"
  by (auto simp: drainNext_def drainStop_def Let_def split: list.splits prod.splits)

lemma keeps_act: "\<not> retires i e t a \<Longrightarrow> keeps i e t (mc_journal c) (mc_journal (moneyAct a c))"
proof (cases a)
  case (Observed now e' ids)
  assume r: "\<not> retires i e t a"
  obtain b c1 where o: "acknowledgeObserved now e' ids MLock c = (b, c1)" by fastforce
  with r Observed keeps_observed [of i ids e t c now e' MLock] have "keeps i e t (mc_journal c) (mc_journal c1)" by simp
  with r Observed o show ?thesis
    by (cases b) (auto simp: acknowledgeRelayObservedMoneyEvents_def intro: keeps_trans keeps_observed)
qed (auto simp: keeps_publish keeps_answered keeps_drainStart keeps_drainNext keeps_relayOk keeps_resolved)

lemma keeps_acts:
  "\<forall>a\<in>set acts. \<not> retires i e t a \<Longrightarrow> keeps i e t (mc_journal c) (mc_journal (fold moneyAct acts c))"
  by (induction acts arbitrary: c) (auto intro: keeps_trans [OF keeps_act])

text \<open>C26. A LOCK or PREMIUM event that entered the journal stays there through any interleaving of
  publishes, drains, answers and crashes, and whatever the device does to the writes, until a relay
  has acknowledged it, it was fetched back, or its trade's custody is resolved; a device whose reads
  fail is excluded.\<close>

theorem money_event_is_kept_until_acknowledged:
  assumes "readable (mc_journal c)" and "journaled i e t (mc_journal c)"
    and "\<forall>a\<in>set acts. \<not> retires i e t a"
  shows "journaled i e t (mc_journal (fold moneyAct acts c))"
  using keeps_acts [OF assms(3), of c] assms by (simp add: keeps_def)


section \<open>Journaled before sent\<close>

definition inText :: "string \<Rightarrow> money_journal \<Rightarrow> bool" where
  "inText i d \<longleftrightarrow> (case dv_text d of Holds es \<Rightarrow> hasEvent i es | _ \<Rightarrow> False)"

definition inJournal :: "string \<Rightarrow> money_client \<Rightarrow> bool" where
  "inJournal i c \<longleftrightarrow> inText i (mc_journal c)"

definition live :: "int \<times> money_entry \<Rightarrow> bool" where
  "live s \<longleftrightarrow> me_status (snd s) = Pending \<and> fst s < me_liveUntil (snd s)"

lemma read_text: "readDurableMoneyPublishes d = (Some es, d') \<Longrightarrow> dv_text d' = dv_text d \<and> (es = [] \<or> dv_text d = Holds es)"
  by (auto simp: readDurableMoneyPublishes_def dest: readSoft_text split: prod.splits saved_text.splits if_splits)

lemma write_verified: "writeAndVerify es (Some i) None d = (True, d') \<Longrightarrow> i \<noteq> []
    \<Longrightarrow> inText i d'"
  by (auto simp: inText_def writeAndVerify_def truthyS_def hasEvent_def dest!: read_text split: prod.splits bool.splits option.splits)

lemma found_event: "List.find (\<lambda>x. me_id x = i) es = Some x \<Longrightarrow> hasEvent i es"
  by (auto simp: find_Some_iff hasEvent_def list_ex_length)

lemma read_found: "readDurableMoneyPublishes d = (Some es, d') \<Longrightarrow> List.find (\<lambda>x. me_id x = i) es = Some x \<Longrightarrow> inText i d'"
  by (auto simp: inText_def dest!: read_text found_event) (simp add: hasEvent_def)

lemma enqueue_journals: "enqueueDurableMoneyPublish x d = (Some y, d') \<Longrightarrow> me_id x \<noteq> []
    \<Longrightarrow> inText (me_id x) d'"
  by (auto simp: enqueueDurableMoneyPublish_def Let_def dest: write_verified read_found
      split: prod.splits option.splits bool.splits)

lemma publishable_live:
  "publishableMoneyEntries now d = (Some es, d') \<Longrightarrow> x \<in> set es
    \<Longrightarrow> live (now, x) \<and> inText (me_id x) d'"
  by (auto simp: inText_def publishableMoneyEntries_def live_def hasEvent_def list_ex_iff dest!: read_text
      split: prod.splits option.splits)

text \<open>What the relays were handed, and what a drain is about to hand them.\<close>

definition outgoing :: "money_client \<Rightarrow> (int \<times> money_entry) set" where
  "outgoing c = set (mc_sent c) \<union> {(now, x) |now x. \<exists>es. (now, es) \<in> set (mc_drains c) \<and> x \<in> set es}"

lemma outgoing_of [simp]:
  "outgoing (setContext x c) = outgoing c" "outgoing (dropContext x c) = outgoing c"
  "outgoing (send now x c) = insert (now, x) (outgoing c)" "outgoing (landed i c) = outgoing c"
  "outgoing (snd (noteDiagnostic now i e t m c)) = outgoing c" "outgoing (snd (noteRejection now i e t x c)) = outgoing c"
  "outgoing (c\<lparr>mc_journal := d\<rparr>) = outgoing c" "outgoing (c\<lparr>mc_shown := h\<rparr>) = outgoing c"
  by (simp_all add: outgoing_def setContext_def dropContext_def send_def landed_def noteDiagnostic_def noteRejection_def
      split: list.splits prod.splits)

lemma outgoing_fold [simp]:
  "outgoing (fold setContext xs c) = outgoing c" "outgoing (fold dropContext xs c) = outgoing c"
  by (induction xs arbitrary: c) simp_all

lemma outgoing_parts_fold [simp]:
  "mc_sent (fold setContext xs c) = mc_sent c" "mc_drains (fold setContext xs c) = mc_drains c"
  by (induction xs arbitrary: c) (simp_all add: setContext_def)

lemma outgoing_failPublish [simp]: "outgoing (failPublish i m c) = outgoing c"
  by (simp add: failPublish_def)

lemma outgoing_drainStart:
  "s \<in> outgoing (drainStart now c) \<Longrightarrow> s \<in> outgoing c \<or> live s \<and> inJournal (me_id (snd s)) (drainStart now c)"
  by (auto simp: drainStart_def Let_def outgoing_def inJournal_def dest: publishable_live split: prod.splits option.splits)

lemma in_set_update: "y \<in> set (xs[k := x]) \<Longrightarrow> y = x \<or> y \<in> set xs"
  using set_update_subset_insert [of xs k x] by auto

lemma outgoing_drainNext: "outgoing (drainNext k c) \<subseteq> outgoing c"
proof (cases "k < length (mc_drains c)")
  case True
  obtain now es where d: "mc_drains c ! k = (now, es)" by fastforce
  with True have m: "(now, es) \<in> set (mc_drains c)" by (metis nth_mem)
  show ?thesis
  proof (cases es)
    case (Cons x rest)
    let ?c1 = "c\<lparr>mc_drains := (mc_drains c)[k := (now, rest)]\<rparr>"
    have "outgoing ?c1 \<subseteq> outgoing c" and "(now, x) \<in> outgoing c"
      using m Cons by (auto simp: outgoing_def dest!: in_set_update)
    then show ?thesis using True d Cons by (auto simp: drainNext_def Let_def)
  qed (use True d in \<open>simp add: drainNext_def\<close>)
qed (simp add: drainNext_def)

lemma outgoing_drainStop: "outgoing (drainStop k c) \<subseteq> outgoing c"
  by (auto simp: drainStop_def outgoing_def dest!: in_set_update)

lemma outgoing_publish:
  "s \<in> outgoing (snd (publishDurableMoney now x c)) \<Longrightarrow> me_id x \<noteq> []
    \<Longrightarrow> s \<in> outgoing c \<or> s = (now, x) \<and> inJournal (me_id x) (snd (publishDurableMoney now x c))"
  by (auto simp: publishDurableMoney_def inJournal_def dest: enqueue_journals split: prod.splits option.splits if_splits)

lemma outgoing_observed [simp]: "outgoing (snd (acknowledgeObserved now e ids t c)) = outgoing c"
  by (auto simp: acknowledgeObserved_def split: prod.splits option.splits)

lemma outgoing_act:
  assumes "s \<in> outgoing (moneyAct a c)" and "me_id (snd s) \<noteq> []"
  shows "s \<in> outgoing c \<or> inJournal (me_id (snd s)) (moneyAct a c) \<and> (a = Publish (fst s) (snd s) \<or> live s)"
proof (cases a)
  case (Publish now x)
  then show ?thesis using assms outgoing_publish [of s now x c]
    by (cases "snd s = x"; cases s) (auto simp: publishDurableMoney_def split: prod.splits option.splits if_splits)
next
  case (Answered i f m)
  then show ?thesis using assms by (auto simp: publishAnswered_def split: option.splits prod.splits)
next
  case (Drain now)
  then show ?thesis using assms outgoing_drainStart [of s now c] by auto
next
  case (DrainStep k)
  then show ?thesis using assms outgoing_drainNext [of k c] by auto
next
  case (DrainStop k)
  then show ?thesis using assms outgoing_drainStop [of k c] by auto
next
  case (RelayOk now i ok m u)
  then show ?thesis using assms by (auto simp: handleMoneyPublishOk_def Let_def split: option.splits prod.splits if_splits)
next
  case (Observed now e ids)
  obtain b c1 where o: "acknowledgeObserved now e ids MLock c = (b, c1)" by fastforce
  with outgoing_observed [of now e ids MLock c] have "outgoing c1 = outgoing c" by simp
  with Observed o assms show ?thesis by (cases b) (auto simp: acknowledgeRelayObservedMoneyEvents_def)
next
  case (Resolved e t)
  then show ?thesis using assms by (auto simp: resolveDurableMoneyPublish_def split: option.splits prod.splits)
next
  case Crashed
  then show ?thesis using assms by (simp add: outgoing_def)
qed

lemma outgoing_acts:
  assumes "s \<in> outgoing (fold moneyAct acts c)" and "me_id (snd s) \<noteq> []" and "outgoing c = {}"
  shows "(\<exists>k\<le>length acts. inJournal (me_id (snd s)) (fold moneyAct (take k acts) c))
    \<and> (Publish (fst s) (snd s) \<in> set acts \<or> live s)"
  using assms(1)
proof (induction acts rule: rev_induct)
  case Nil
  then show ?case using assms(3) by simp
next
  case (snoc a acts)
  from snoc.prems have "s \<in> outgoing (moneyAct a (fold moneyAct acts c))" by simp
  from outgoing_act [OF this assms(2)] show ?case
  proof
    assume "s \<in> outgoing (fold moneyAct acts c)"
    from snoc.IH [OF this] obtain k where "k \<le> length acts" "inJournal (me_id (snd s)) (fold moneyAct (take k acts) c)"
      and l: "Publish (fst s) (snd s) \<in> set acts \<or> live s" by blast
    then have "k \<le> length (acts @ [a])" "inJournal (me_id (snd s)) (fold moneyAct (take k (acts @ [a])) c)" by simp_all
    then show ?case using l by fastforce
  next
    assume h: "inJournal (me_id (snd s)) (moneyAct a (fold moneyAct acts c)) \<and> (a = Publish (fst s) (snd s) \<or> live s)"
    then have "inJournal (me_id (snd s)) (fold moneyAct (take (Suc (length acts)) (acts @ [a])) c)" by simp
    then show ?case using h by (intro conjI exI [of _ "Suc (length acts)"]) auto
  qed
qed

text \<open>C27. Whatever the storage does, an event handed to a relay was in the journal first, read back
  from the device; and one that a drain sends, and no explicit publish, was pending and before its
  refund horizon by the clock of that drain.\<close>

theorem money_event_is_journaled_before_sent:
  assumes "mc_sent c = []" and "mc_drains c = []" and "(now, x) \<in> set (mc_sent (fold moneyAct acts c))" and "me_id x \<noteq> []"
  shows "(\<exists>k\<le>length acts. inJournal (me_id x) (fold moneyAct (take k acts) c))
    \<and> (Publish now x \<in> set acts \<or> me_status x = Pending \<and> now < me_liveUntil x)"
  using outgoing_acts [of "(now, x)" acts c] assms by (auto simp: outgoing_def live_def)


section \<open>Witnesses\<close>

definition moneyEvent :: "string \<Rightarrow> nostr_event" where
  "moneyEvent i = \<lparr>ne_id = i, ne_pubkey = ''B'', ne_created_at = 10, ne_kind = kindNumber K_LOCK,
     ne_tags = [], ne_content = [], ne_sig = []\<rparr>"

definition moneyEntry :: "string \<Rightarrow> string \<Rightarrow> money_entry" where
  "moneyEntry i e = \<lparr>me_event = moneyEvent i, me_escrowId = e, me_type = MLock, me_spentAt = 10, me_liveUntil = 100,
     me_status = Pending, me_lastError = None, me_rejections = [], me_amountMsats = None, me_operationId = None\<rparr>"

definition blankClient :: "bool list \<Rightarrow> fate list \<Rightarrow> money_client" where
  "blankClient oks fs = \<lparr>mc_journal = \<lparr>dv_text = Missing, dv_reads = oks, dv_writes = fs\<rparr>,
     mc_diagnostics = \<lparr>dv_text = Missing, dv_reads = [], dv_writes = []\<rparr>, mc_context = [], mc_shown = [],
     mc_inFlight = [], mc_drains = [], mc_sent = []\<rparr>"

text \<open>A publish that gets no answer, a crash, then a drain that sends it again.\<close>

definition retried :: "money_act list" where
  "retried = [Publish 20 (moneyEntry ''m1'' ''t1''), Crashed, Drain 30, DrainStep 0]"

lemma retried_sent: "mc_sent (fold moneyAct retried (blankClient [] [])) = [(30, moneyEntry ''m1'' ''t1''), (20, moneyEntry ''m1'' ''t1'')]"
  by code_simp

theorem money_event_is_journaled_before_sent_witness:
  "\<exists>k\<le>4. inJournal ''m1'' (fold moneyAct (take k retried) (blankClient [] []))"
proof -
  have m: "me_id (moneyEntry ''m1'' ''t1'') = ''m1''" "length retried = 4"
    by (simp_all add: me_id_def moneyEntry_def moneyEvent_def retried_def)
  show ?thesis
    using money_event_is_journaled_before_sent [of "blankClient [] []" 30 "moneyEntry ''m1'' ''t1''" retried] m
    by (auto simp: retried_sent) (simp_all add: blankClient_def)
qed

theorem money_event_is_kept_until_acknowledged_witness:
  "journaled ''m1'' ''t1'' MLock (mc_journal (fold moneyAct
     [Answered ''m1'' (Some ''down'') [], Publish 21 (moneyEntry ''m2'' ''t2''), RelayOk 22 ''m2'' True [] ''r'', Drain 200]
     (fold moneyAct [Publish 20 (moneyEntry ''m1'' ''t1'')] (blankClient [] [Works, Works, Throws]))))"
proof (rule money_event_is_kept_until_acknowledged)
  show "readable (mc_journal (fold moneyAct [Publish 20 (moneyEntry ''m1'' ''t1'')] (blankClient [] [Works, Works, Throws])))"
    by code_simp
  show "journaled ''m1'' ''t1'' MLock
      (mc_journal (fold moneyAct [Publish 20 (moneyEntry ''m1'' ''t1'')] (blankClient [] [Works, Works, Throws])))"
    by code_simp
qed simp

text \<open>
  The journal is read with the call that takes a storage error for an empty store. One read that
  fails while a second LOCK is published makes the client write a journal holding only the second,
  and the first, spent and unacknowledged, is never sent again.
\<close>

theorem failed_read_forgets_the_pending_lock:
  "let one = fold moneyAct [Publish 20 (moneyEntry ''m1'' ''t1'')] (blankClient [True, True, False] []);
       two = moneyAct (Publish 30 (moneyEntry ''m2'' ''t2'')) one in
     journaled ''m1'' ''t1'' MLock (mc_journal one)
     \<and> \<not> journaled ''m1'' ''t1'' MLock (mc_journal two) \<and> journaled ''m2'' ''t2'' MLock (mc_journal two)
     \<and> fst (publishDurableMoney 30 (moneyEntry ''m2'' ''t2'') one)
     \<and> map (\<lambda>d. map me_id (snd d)) (mc_drains (moneyAct (Drain 40) two)) = [[''m2'']]"
  by code_simp

end
