(* ===== verification/Native_Lock.thy ===== *)
theory Native_Lock
  imports Money_Publish Withheld_Store
begin

text \<open>
  The crash guard of a LOCK funded from Chama's own wallet
  (\<open>src/fedimint/pending-native-locks.ts\<close>): bearer notes that left the wallet are stashed until the
  LOCK that commits them is confirmed or the notes are back. The stash is one JSON object on the
  device, read with the call that takes a storage error, or text that does not parse, for an empty
  stash. A flag is whether an operation returns. Recovery is one run: the mutex of a trade keeps its
  runs apart, and between two awaits other trades change only their own keys. The injected
  dependencies are the record \<open>recovery_deps\<close> of their answers. Selected items carry no media here,
  so their compaction is the identity; the display receipts of re-absorbed notes are left out.
\<close>

section \<open>The stash\<close>

datatype lock_stage = Intent | Spent | PublishAttempted

record native_lock_opts =
  no_savedHandleId :: "string option"
  no_paymentDetailsInChat :: "bool option"
  no_selectedItems :: "selected_item list option"
  no_buyerPubkey :: "string option"

text \<open>Why recovery kept an entry, with the text of a thrown error (the source cuts its reasons at five hundred characters).\<close>

datatype kept_reason = FederationMismatch | LoadFailed string | HashFailed | AwaitingCustody | AwaitingRelease
  | NotRetired | AwaitingEvidence | UnknownTrade | Thrown string

record pending_lock =
  pl_escrowId :: string
  pl_stage :: lock_stage
  pl_oobNotes :: "string option"
  pl_amountMsats :: int
  pl_federationId :: "string option"
  pl_operationId :: "string option"
  pl_spendTimeoutSecs :: "int option"
  pl_lockOpts :: "native_lock_opts option"
  pl_createdAt :: int
  pl_spentAt :: "int option"
  pl_attempts :: int
  pl_lastError :: "kept_reason option"

type_synonym lock_stash = "(string \<times> pending_lock) list"

type_synonym stash_device = "lock_stash device"

definition MAX_NATIVE_LOCK_DRAIN_ATTEMPTS :: int where "MAX_NATIVE_LOCK_DRAIN_ATTEMPTS = 12"
definition NATIVE_LOCK_INTENT_TTL_MS :: int where "NATIVE_LOCK_INTENT_TTL_MS = 48 * 60 * 60 * 1000"
definition NATIVE_LOCK_SUPPRESS_MAX_MS :: int where "NATIVE_LOCK_SUPPRESS_MAX_MS = 7 * 24 * 60 * 60 * 1000"

definition loadStash :: "stash_device \<Rightarrow> lock_stash \<times> stash_device" where
  "loadStash d = (case readSoft d of (Holds m, d') \<Rightarrow> (m, d') | (_, d') \<Rightarrow> ([], d'))"

definition saveStash :: "lock_stash \<Rightarrow> stash_device \<Rightarrow> bool \<times> stash_device" where
  "saveStash m d = writeText m d"

text \<open>Load the stash, change it, save it; or leave it alone (\<open>None\<close>).\<close>

definition editStash :: "(lock_stash \<Rightarrow> lock_stash option) \<Rightarrow> stash_device \<Rightarrow> bool \<times> stash_device" where
  "editStash f d = (case loadStash d of (m, d1) \<Rightarrow> (case f m of None \<Rightarrow> (True, d1) | Some m' \<Rightarrow> saveStash m' d1))"

record lock_input =
  li_escrowId :: string
  li_amountMsats :: int
  li_federationId :: "string option"
  li_spendTimeoutSecs :: "int option"
  li_lockOpts :: "native_lock_opts option"

definition freshIntent :: "int \<Rightarrow> lock_input \<Rightarrow> pending_lock" where
  "freshIntent now i = \<lparr>pl_escrowId = li_escrowId i, pl_stage = Intent, pl_oobNotes = None, pl_amountMsats = li_amountMsats i,
     pl_federationId = li_federationId i, pl_operationId = None, pl_spendTimeoutSecs = li_spendTimeoutSecs i,
     pl_lockOpts = li_lockOpts i, pl_createdAt = now, pl_spentAt = None, pl_attempts = 0, pl_lastError = None\<rparr>"

definition stashNativeLockIntent :: "int \<Rightarrow> lock_input \<Rightarrow> stash_device \<Rightarrow> bool \<times> stash_device" where
  "stashNativeLockIntent now i = editStash (\<lambda>m. case map_of m (li_escrowId i) of
     Some p \<Rightarrow> if pl_stage p \<noteq> Intent then None else Some (AList.update (li_escrowId i) (freshIntent now i) m)
   | None \<Rightarrow> Some (AList.update (li_escrowId i) (freshIntent now i) m))"

text \<open>The entry a spend leaves, over the one that was there.\<close>

definition spentEntry :: "int \<Rightarrow> lock_input \<Rightarrow> string \<Rightarrow> string option \<Rightarrow> pending_lock option \<Rightarrow> pending_lock" where
  "spentEntry now i notes operationId old =
     \<lparr>pl_escrowId = li_escrowId i, pl_stage = Spent, pl_oobNotes = Some notes, pl_amountMsats = li_amountMsats i,
      pl_federationId = orElse (li_federationId i) (Option.bind old pl_federationId), pl_operationId = operationId,
      pl_spendTimeoutSecs = orElse (li_spendTimeoutSecs i) (Option.bind old pl_spendTimeoutSecs),
      pl_lockOpts = orElse (li_lockOpts i) (Option.bind old pl_lockOpts),
      pl_createdAt = (case old of None \<Rightarrow> now | Some p \<Rightarrow> pl_createdAt p),
      pl_spentAt = Some (getOr (Option.bind old pl_spentAt) now), pl_attempts = 0, pl_lastError = None\<rparr>"

text \<open>Different live notes are never overwritten: it throws.\<close>

definition upgradeNativeLockToSpent :: "int \<Rightarrow> lock_input \<Rightarrow> string \<Rightarrow> string option \<Rightarrow> stash_device \<Rightarrow> bool \<times> stash_device" where
  "upgradeNativeLockToSpent now i notes operationId d = (case loadStash d of (m, d1) \<Rightarrow>
     (let old = map_of m (li_escrowId i); held = nonEmpty (Option.bind old pl_oobNotes) in
      if held \<noteq> None \<and> held \<noteq> Some notes then (False, d1)
      else saveStash (AList.update (li_escrowId i) (spentEntry now i notes operationId old) m) d1))"

definition markNativeLockPublishAttempted :: "string \<Rightarrow> stash_device \<Rightarrow> bool \<times> stash_device" where
  "markNativeLockPublishAttempted e = editStash (\<lambda>m. case map_of m e of
     Some p \<Rightarrow> if truthyS (pl_oobNotes p) then Some (AList.update e (p\<lparr>pl_stage := PublishAttempted\<rparr>) m) else None
   | None \<Rightarrow> None)"

definition clearPendingNativeLock :: "string \<Rightarrow> stash_device \<Rightarrow> bool \<times> stash_device" where
  "clearPendingNativeLock e = editStash (\<lambda>m. if map_of m e = None then None else Some (AList.delete e m))"

definition clearPendingNativeLockIfIntent :: "string \<Rightarrow> stash_device \<Rightarrow> bool \<times> stash_device" where
  "clearPendingNativeLockIfIntent e = editStash (\<lambda>m. case map_of m e of
     Some p \<Rightarrow> if pl_stage p = Intent then Some (AList.delete e m) else None | None \<Rightarrow> None)"

definition clearPendingNativeLockMatching :: "string \<Rightarrow> string \<Rightarrow> stash_device \<Rightarrow> bool \<times> stash_device" where
  "clearPendingNativeLockMatching e notes = editStash (\<lambda>m. case map_of m e of
     Some p \<Rightarrow> if pl_oobNotes p \<noteq> Some notes then None else Some (AList.delete e m) | None \<Rightarrow> None)"

definition getPendingNativeLock :: "string \<Rightarrow> stash_device \<Rightarrow> pending_lock option \<times> stash_device" where
  "getPendingNativeLock e d = (case loadStash d of (m, d1) \<Rightarrow> (map_of m e, d1))"

definition listPendingNativeLocks :: "stash_device \<Rightarrow> pending_lock list \<times> stash_device" where
  "listPendingNativeLocks d = (case loadStash d of (m, d1) \<Rightarrow> (map snd m, d1))"

definition noteKept :: "string \<Rightarrow> kept_reason \<Rightarrow> bool \<Rightarrow> stash_device \<Rightarrow> bool \<times> stash_device" where
  "noteKept e reason bumpAttempts = editStash (\<lambda>m. case map_of m e of
     Some p \<Rightarrow> Some (AList.update e (p\<lparr>pl_attempts := pl_attempts p + (if bumpAttempts then 1 else 0),
                                       pl_lastError := Some reason\<rparr>) m)
   | None \<Rightarrow> None)"

section \<open>Recovery\<close>

record redeem_error =
  rx_code :: string
  rx_message :: string

text \<open>
  \<open>rd_loadEscrow\<close> is \<open>Inl\<close> the message when the fetch throws; \<open>rd_custody\<close> is the custody overlay of the fetched
  state; \<open>rd_redeemRejected\<close> is \<open>None\<close> when the dependency is absent. \<open>rd_storageError\<close> is what a
  failing write throws.
\<close>

record recovery_deps =
  rd_loadEscrow :: "string + state option"
  rd_custody :: "durability option"
  rd_redeemNotes :: "redeem_error option"
  rd_redeemRejected :: "redeem_error option option"
  rd_currentFederationId :: "string option"
  rd_hashNotes :: "string \<Rightarrow> string option"
  rd_storageError :: redeem_error
  rd_now :: int

datatype native_outcome = ClearedCommitted | Reabsorbed | ClearedDeadNotes | ClearedStaleIntent | LeftPending

text \<open>What became of bearer notes, for the statements: spent, credited back, reported consumed, owned by a LOCK.\<close>

datatype native_effect = Redeemed string | ReportedConsumed string | InEscrow string | SpentFromWallet string | LockPublished string

record native_world =
  nw_stash :: stash_device
  nw_shares :: share_io
  nw_log :: "native_effect list"

definition nativeLog :: "native_effect \<Rightarrow> native_world \<Rightarrow> native_world" where
  "nativeLog x w = w\<lparr>nw_log := nw_log w @ [x]\<rparr>"

definition onStash :: "(stash_device \<Rightarrow> bool \<times> stash_device) \<Rightarrow> native_world \<Rightarrow> bool \<times> native_world" where
  "onStash f w = (case f (nw_stash w) of (ok, d) \<Rightarrow> (ok, w\<lparr>nw_stash := d\<rparr>))"

text \<open>Answer when a step returned, or throw (\<open>None\<close>).\<close>

definition answer :: "'a \<Rightarrow> bool \<times> native_world \<Rightarrow> 'a option \<times> native_world" where
  "answer x r = (if fst r then Some x else None, snd r)"

definition keepNoted :: "string \<Rightarrow> kept_reason \<Rightarrow> native_world \<Rightarrow> native_outcome option \<times> native_world" where
  "keepNoted e reason w = answer LeftPending (onStash (noteKept e reason False) w)"

definition shouldClearNativeLockAfterPublish :: "string option \<Rightarrow> string \<Rightarrow> durability option \<Rightarrow> bool \<Rightarrow> bool" where
  "shouldClearNativeLockAfterPublish committedNotesHash expectedNotesHash custodyDurability withheldUnreleased \<longleftrightarrow>
     committedNotesHash = Some expectedNotesHash \<and> custodyDurability = Some Acknowledged \<and> \<not> withheldUnreleased"

definition ALREADY_SPENT_SUBSTRINGS :: "string list" where
  "ALREADY_SPENT_SUBSTRINGS = [''already spent'', ''already redeemed'', ''already used'', ''double spend'', ''double-spend'', ''note already'']"

definition includesText :: "string \<Rightarrow> string \<Rightarrow> bool" where
  "includesText s p \<longleftrightarrow> list_ex (\<lambda>k. take (length p) (drop k s) = p) [0..<Suc (length s)]"

definition isNotesDeadError :: "redeem_error \<Rightarrow> bool" where
  "isNotesDeadError x \<longleftrightarrow> rx_code x \<in> {''ALREADY_SPENT_UNCONFIRMED'', ''MINT_REISSUE_UNKNOWN''}
     \<or> list_ex (includesText (lower (rx_message x))) ALREADY_SPENT_SUBSTRINGS"

definition tradeStillLockable :: "state \<Rightarrow> int \<Rightarrow> bool" where
  "tradeStillLockable s nowMs \<longleftrightarrow> st_status s = CREATED \<and> \<not> (st_expiresAt s > 0 \<and> nowMs div 1000 > st_expiresAt s)"

definition downgradeReabsorbedToIntent :: "pending_lock \<Rightarrow> int \<Rightarrow> stash_device \<Rightarrow> bool \<times> stash_device" where
  "downgradeReabsorbedToIntent entry nowMs = editStash (\<lambda>m. case map_of m (pl_escrowId entry) of
     Some p \<Rightarrow> if pl_oobNotes p \<noteq> pl_oobNotes entry then None
       else Some (AList.update (pl_escrowId entry)
         \<lparr>pl_escrowId = pl_escrowId entry, pl_stage = Intent, pl_oobNotes = None, pl_amountMsats = pl_amountMsats entry,
          pl_federationId = pl_federationId entry, pl_operationId = None, pl_spendTimeoutSecs = pl_spendTimeoutSecs entry,
          pl_lockOpts = pl_lockOpts entry, pl_createdAt = nowMs, pl_spentAt = None, pl_attempts = 0, pl_lastError = None\<rparr> m)
   | None \<Rightarrow> None)"

definition bumpMatching :: "pending_lock \<Rightarrow> stash_device \<Rightarrow> bool \<times> stash_device" where
  "bumpMatching entry = editStash (\<lambda>m. case map_of m (pl_escrowId entry) of
     Some p \<Rightarrow> if pl_oobNotes p \<noteq> pl_oobNotes entry then None
       else Some (AList.update (pl_escrowId entry) (p\<lparr>pl_attempts := pl_attempts p + 1\<rparr>) m)
   | None \<Rightarrow> None)"

text \<open>The handler of \<open>reabsorb\<close>: reached by a failed redeem, and by a failed write after one that worked.\<close>

definition reabsorbFailed :: "pending_lock \<Rightarrow> string \<Rightarrow> bool \<Rightarrow> redeem_error \<Rightarrow> native_world \<Rightarrow> native_outcome option \<times> native_world" where
  "reabsorbFailed entry notes confirmed x w =
     (if isNotesDeadError x \<and> \<not> confirmed
      then answer ClearedDeadNotes (onStash (clearPendingNativeLockMatching (pl_escrowId entry) notes)
             (nativeLog (ReportedConsumed notes) w))
      else keepNoted (pl_escrowId entry) (Thrown (rx_message x)) w)"

definition reabsorbNotes :: "pending_lock \<Rightarrow> string \<Rightarrow> recovery_deps \<Rightarrow> state \<Rightarrow> bool \<Rightarrow> native_world
    \<Rightarrow> native_outcome option \<times> native_world" where
  "reabsorbNotes entry notes D s confirmed w = (case onStash (bumpMatching entry) w of
     (False, w1) \<Rightarrow> (None, w1)
   | (True, w1) \<Rightarrow>
      (case (if confirmed then getOr (rd_redeemRejected D) (Some \<lparr>rx_code = [], rx_message = ''Wallet credit verification is unavailable''\<rparr>)
             else rd_redeemNotes D) of
         Some x \<Rightarrow> reabsorbFailed entry notes confirmed x w1
       | None \<Rightarrow> (let w2 = nativeLog (Redeemed notes) w1;
            settle = (if \<not> confirmed \<and> tradeStillLockable s (rd_now D) then downgradeReabsorbedToIntent entry (rd_now D)
                      else clearPendingNativeLockMatching (pl_escrowId entry) notes) in
          (case onStash settle w2 of
             (True, w3) \<Rightarrow> (Some Reabsorbed, w3)
           | (False, w3) \<Rightarrow> reabsorbFailed entry notes confirmed (rd_storageError D) w3))))"

definition committedUnreleased :: "state \<Rightarrow> bool" where
  "committedUnreleased s = (case lk_withheld (st_lock s) of None \<Rightarrow> False | Some h \<Rightarrow> \<not> truthyS (wh_releaseEventId h))"

text \<open>Our LOCK is on the chain: the trade owns the notes, unless custody or the release is still open.\<close>

definition recoverCommitted :: "pending_lock \<Rightarrow> string \<Rightarrow> recovery_deps \<Rightarrow> state \<Rightarrow> native_world
    \<Rightarrow> native_outcome option \<times> native_world" where
  "recoverCommitted entry notes D s w =
     (if rd_custody D \<in> {Some Pending, Some ExpiredUnacked} then keepNoted (pl_escrowId entry) AwaitingCustody w
      else if committedUnreleased s then keepNoted (pl_escrowId entry) AwaitingRelease w
      else answer ClearedCommitted (onStash (clearPendingNativeLock (pl_escrowId entry)) (nativeLog (InEscrow notes) w)))"

definition rejectedLockPayload :: "event \<Rightarrow> lock_payload option" where
  "rejectedLockPayload e = (case ev_payload e of PLock p \<Rightarrow> Some p | _ \<Rightarrow> None)"

definition REFUSED_CODES :: "string list" where
  "REFUSED_CODES = [''ORDER_NOT_FINALIZED'', ''CANCELLED_BEFORE_LOCK'', ''WITHDRAWN_BEFORE_ACCEPT'']"

definition ourRefusedLock :: "string \<Rightarrow> event \<times> errcode \<Rightarrow> bool" where
  "ourRefusedLock ourHash row = (case rejectedLockPayload (fst row) of None \<Rightarrow> False
     | Some p \<Rightarrow> snd row \<in> set REFUSED_CODES \<and> lp_notesHash p = ourHash \<and> lp_onchain p = None)"

definition ourWithheldLock :: "string \<Rightarrow> event \<times> errcode \<Rightarrow> bool" where
  "ourWithheldLock ourHash row = (case rejectedLockPayload (fst row) of None \<Rightarrow> False
     | Some p \<Rightarrow> lp_notesHash p = ourHash \<and> lp_withheldShares p = Some True)"

text \<open>No LOCK of anyone on the chain.\<close>

definition recoverUncommitted :: "pending_lock \<Rightarrow> string \<Rightarrow> recovery_deps \<Rightarrow> state \<Rightarrow> native_world
    \<Rightarrow> native_outcome option \<times> native_world" where
  "recoverUncommitted entry notes D s w =
     (let unrefused = (if pl_stage entry = Spent then reabsorbNotes entry notes D s False w
                       else keepNoted (pl_escrowId entry) AwaitingEvidence w) in
      if st_rejectedLocks s = [] then unrefused
      else case rd_hashNotes D notes of None \<Rightarrow> (None, w)
      | Some ourHash \<Rightarrow>
          if \<not> (list_ex (ourRefusedLock ourHash) (st_rejectedLocks s) \<and> \<not> truthyN (st_claimedAt s)) then unrefused
          else if list_ex (ourWithheldLock ourHash) (st_rejectedLocks s)
          then (case retireShares (rd_now D) (pl_escrowId entry) ourHash (nw_shares w) of
              (False, io) \<Rightarrow> keepNoted (pl_escrowId entry) NotRetired (w\<lparr>nw_shares := io\<rparr>)
            | (True, io) \<Rightarrow> reabsorbNotes entry notes D s True (w\<lparr>nw_shares := io\<rparr>))
          else reabsorbNotes entry notes D s True w)"

definition recoverSpent :: "pending_lock \<Rightarrow> string \<Rightarrow> recovery_deps \<Rightarrow> bool \<Rightarrow> native_world
    \<Rightarrow> native_outcome option \<times> native_world" where
  "recoverSpent entry notes D ignoreAttemptCap w =
     (let e = pl_escrowId entry; fed = nonEmpty (rd_currentFederationId D) in
      if fed = None \<or> (truthyS (pl_federationId entry) \<and> fed \<noteq> pl_federationId entry)
      then keepNoted e FederationMismatch w
      else if \<not> ignoreAttemptCap \<and> pl_attempts entry \<ge> MAX_NATIVE_LOCK_DRAIN_ATTEMPTS then (Some LeftPending, w)
      else case rd_loadEscrow D of
        Inl message \<Rightarrow> keepNoted e (LoadFailed message) w
      | Inr None \<Rightarrow> keepNoted e UnknownTrade w
      | Inr (Some s) \<Rightarrow> (case nonEmpty (lk_notesHash (st_lock s)) of
          None \<Rightarrow> recoverUncommitted entry notes D s w
        | Some committed \<Rightarrow> (case rd_hashNotes D notes of
            None \<Rightarrow> keepNoted e HashFailed w
          | Some ourHash \<Rightarrow> if committed = ourHash then recoverCommitted entry notes D s w
              else reabsorbNotes entry notes D s False w)))"

definition ageOutIntent :: "pending_lock \<Rightarrow> int \<Rightarrow> native_world \<Rightarrow> native_outcome option \<times> native_world" where
  "ageOutIntent entry now w =
     (if now - pl_createdAt entry \<le> NATIVE_LOCK_INTENT_TTL_MS then (Some LeftPending, w)
      else case loadStash (nw_stash w) of (m, d1) \<Rightarrow> (case map_of m (pl_escrowId entry) of
        Some p \<Rightarrow> if pl_stage p = Intent \<and> pl_createdAt p = pl_createdAt entry
            then answer ClearedStaleIntent (onStash (saveStash (AList.delete (pl_escrowId entry) m)) (w\<lparr>nw_stash := d1\<rparr>))
            else (Some LeftPending, w\<lparr>nw_stash := d1\<rparr>)
      | None \<Rightarrow> (Some LeftPending, w\<lparr>nw_stash := d1\<rparr>)))"

definition recoverPendingNativeLock :: "pending_lock \<Rightarrow> recovery_deps \<Rightarrow> bool \<Rightarrow> native_world
    \<Rightarrow> native_outcome option \<times> native_world" where
  "recoverPendingNativeLock entry D ignoreAttemptCap w =
     (if pl_stage entry = Intent then ageOutIntent entry (rd_now D) w
      else case nonEmpty (pl_oobNotes entry) of
        None \<Rightarrow> ageOutIntent entry (rd_now D) w
      | Some notes \<Rightarrow> recoverSpent entry notes D ignoreAttemptCap w)"

section \<open>The boot drain\<close>

record native_drain_summary =
  ns_attempted :: nat
  ns_reabsorbed :: nat
  ns_clearedCommitted :: nat
  ns_clearedDead :: nat
  ns_stillPending :: nat

definition tallyOutcome :: "native_outcome option \<Rightarrow> native_drain_summary \<Rightarrow> native_drain_summary" where
  "tallyOutcome r t = (case r of None \<Rightarrow> t\<lparr>ns_stillPending := Suc (ns_stillPending t)\<rparr>
     | Some x \<Rightarrow> (let u = t\<lparr>ns_attempted := Suc (ns_attempted t)\<rparr> in case x of
         Reabsorbed \<Rightarrow> u\<lparr>ns_reabsorbed := Suc (ns_reabsorbed u)\<rparr>
       | ClearedCommitted \<Rightarrow> u\<lparr>ns_clearedCommitted := Suc (ns_clearedCommitted u)\<rparr>
       | ClearedDeadNotes \<Rightarrow> u\<lparr>ns_clearedDead := Suc (ns_clearedDead u)\<rparr>
       | LeftPending \<Rightarrow> u\<lparr>ns_stillPending := Suc (ns_stillPending u)\<rparr>
       | ClearedStaleIntent \<Rightarrow> u))"

text \<open>The drain re-reads each entry: a settled one is skipped, a replaced one is acted on as it now is.\<close>

fun drainLocks :: "(string \<Rightarrow> recovery_deps) \<Rightarrow> string list \<Rightarrow> native_drain_summary \<Rightarrow> native_world
    \<Rightarrow> native_drain_summary \<times> native_world" where
  "drainLocks deps [] t w = (t, w)"
| "drainLocks deps (e # es) t w = (case getPendingNativeLock e (nw_stash w) of (live, d) \<Rightarrow>
     (case live of None \<Rightarrow> drainLocks deps es t (w\<lparr>nw_stash := d\<rparr>)
      | Some entry \<Rightarrow> (case recoverPendingNativeLock entry (deps e) False (w\<lparr>nw_stash := d\<rparr>) of
          (r, w') \<Rightarrow> drainLocks deps es (tallyOutcome r t) w')))"

definition drainPendingNativeLocks :: "(string \<Rightarrow> recovery_deps) \<Rightarrow> native_world \<Rightarrow> native_drain_summary \<times> native_world" where
  "drainPendingNativeLocks deps w = (case listPendingNativeLocks (nw_stash w) of (entries, d) \<Rightarrow>
     drainLocks deps (map pl_escrowId entries)
       \<lparr>ns_attempted = 0, ns_reabsorbed = 0, ns_clearedCommitted = 0, ns_clearedDead = 0, ns_stillPending = 0\<rparr>
       (w\<lparr>nw_stash := d\<rparr>))"

section \<open>What a screen and the funding gate read\<close>

record native_ui_summary =
  nu_suppressRecovery :: bool
  nu_resume :: "pending_lock option"
  nu_stuck :: "pending_lock list"

definition activeLock :: "int \<Rightarrow> string option \<Rightarrow> int option \<Rightarrow> pending_lock \<Rightarrow> bool" where
  "activeLock nowMs fed balanceMsats p =
     (if pl_stage p = Intent
      then nowMs - pl_createdAt p \<le> NATIVE_LOCK_INTENT_TTL_MS \<and> (case balanceMsats of None \<Rightarrow> True | Some b \<Rightarrow> b \<ge> pl_amountMsats p)
      else \<not> (pl_attempts p \<ge> MAX_NATIVE_LOCK_DRAIN_ATTEMPTS \<or> nowMs - pl_createdAt p > NATIVE_LOCK_SUPPRESS_MAX_MS
              \<or> (fed \<noteq> None \<and> pl_federationId p \<noteq> None \<and> pl_federationId p \<noteq> fed)))"

definition summarizeNativeLocksForUi :: "pending_lock list \<Rightarrow> int \<Rightarrow> string option \<Rightarrow> int option \<Rightarrow> native_ui_summary" where
  "summarizeNativeLocksForUi entries nowMs fed balanceMsats =
     (let active = sortWith (\<lambda>a b. pl_createdAt a > pl_createdAt b) (filter (activeLock nowMs fed balanceMsats) entries) in
      \<lparr>nu_suppressRecovery = (active \<noteq> []), nu_resume = (case active of [] \<Rightarrow> None | p # _ \<Rightarrow> Some p),
       nu_stuck = filter (\<lambda>p. pl_stage p \<noteq> Intent \<and> \<not> activeLock nowMs fed balanceMsats p) entries\<rparr>)"

text \<open>Earmarks of the funding gate: a stash that cannot be read in full is an unknown amount.\<close>

definition nativeLockEarmarks :: "string option \<Rightarrow> stash_device \<Rightarrow> int option list \<times> stash_device" where
  "nativeLockEarmarks fed d = (case readSoft d of
     (Missing, d') \<Rightarrow> ([], d')
   | (Corrupt, d') \<Rightarrow> ([None], d')
   | (Holds m, d') \<Rightarrow> (map (\<lambda>(_, p). Some (pl_amountMsats p))
       (filter (\<lambda>(_, p). \<not> (truthyS (pl_federationId p) \<and> truthyS fed \<and> pl_federationId p \<noteq> fed)) m), d'))"

end
