(* ===== verification/Native_Funding.thy ===== *)
theory Native_Funding
  imports Native_Lock
begin

text \<open>
  Funding a trade from Chama's own wallet (\<open>src/fedimint/escrow-bridge.ts\<close>: \<open>settlePendingNativeLock\<close>,
  \<open>lockAndPublish\<close>, \<open>lockAndPublishWithEcash\<close>, \<open>withdrawWithheldLock\<close>, \<open>amountMsatsForLock\<close>), outside the simulation modes.
  A run holds the mutex of its trade. The checks before a LOCK (\<open>prepareLockContext\<close>), the wallet, the
  splitting into shares and the relays answer through the record \<open>lock_deps\<close>; an answer that throws is
  \<open>None\<close>. The run settles the stash at up to five points, each with its own answers.
\<close>

definition amountMsatsForLock :: "state \<Rightarrow> selected_item list option \<Rightarrow> int option" where
  "amountMsatsForLock s selectedItems =
     (if getOr (st_items s) [] = [] then Some (st_amountMsats s)
      else let chosen = getOr selectedItems []; t = selectedTotal chosen in
        if chosen = [] \<or> t \<le> 0 then None else Some t)"

record lock_context =
  lc_state :: state
  lc_expectedFed :: "string option"

datatype settle_point = PoolEmpty | BeforeSpend | WrongNotes | AfterPublish | AfterFailure

text \<open>
  \<open>ld_sent\<close> is whether the LOCK went out, \<open>ld_published\<close> whether \<open>publishLockBundle\<close> returned (a
  publish that throws may still have reached a relay); \<open>ld_resolve\<close> whether retiring the money journal's
  entry returned.
\<close>

record lock_deps =
  ld_poolEmpty :: bool
  ld_prepare :: "lock_context option"
  ld_prepareAgain :: "lock_context option"
  ld_recover :: "settle_point \<Rightarrow> recovery_deps"
  ld_resolve :: "settle_point \<Rightarrow> bool"
  ld_getState :: "state option"
  ld_probeWritable :: bool
  ld_now :: int
  ld_federationId :: "string option"
  ld_spend :: "(string \<times> string option) option"
  ld_mintedFed :: "string option"
  ld_notesHash :: "string option"
  ld_sent :: bool
  ld_published :: bool
  ld_replayed :: "(state option \<times> durability option) option"

definition LOCK_SPEND_TRY_CANCEL_SECS :: int where "LOCK_SPEND_TRY_CANCEL_SECS = 14 * 24 * 60 * 60"

text \<open>\<open>None\<close> when it throws, \<open>Some None\<close> for \<open>"none"\<close>: nothing of this trade to settle.\<close>

definition settlePendingNativeLockInner :: "string \<Rightarrow> recovery_deps \<Rightarrow> bool \<Rightarrow> bool \<Rightarrow> native_world
    \<Rightarrow> native_outcome option option \<times> native_world" where
  "settlePendingNativeLockInner e D resolves ignoreAttemptCap w = (case getPendingNativeLock e (nw_stash w) of (prior, d) \<Rightarrow>
     (let w1 = w\<lparr>nw_stash := d\<rparr> in case prior of
        None \<Rightarrow> (Some None, w1)
      | Some entry \<Rightarrow> if pl_stage entry = Intent then (Some None, w1)
          else (case recoverPendingNativeLock entry D ignoreAttemptCap w1 of
              (None, w2) \<Rightarrow> (None, w2)
            | (Some x, w2) \<Rightarrow> (if x \<in> {ClearedCommitted, Reabsorbed, ClearedDeadNotes} \<and> \<not> resolves then None
                               else Some (Some x), w2))))"

definition settleAt :: "settle_point \<Rightarrow> string \<Rightarrow> lock_deps \<Rightarrow> native_world \<Rightarrow> native_outcome option option \<times> native_world" where
  "settleAt p e D w = settlePendingNativeLockInner e (ld_recover D p) (ld_resolve D p) True w"

text \<open>The trade lost its pool: bring earlier notes back, drop the intent they leave, refuse.\<close>

definition settleWithoutPool :: "string \<Rightarrow> lock_deps \<Rightarrow> native_world \<Rightarrow> native_world" where
  "settleWithoutPool e D w = (case settleAt PoolEmpty e D w of
     (Some (Some Reabsorbed), w1) \<Rightarrow> (case getPendingNativeLock e (nw_stash w1) of (live, d) \<Rightarrow>
         (case live of Some p \<Rightarrow> if pl_stage p = Intent then snd (onStash (clearPendingNativeLock e) (w1\<lparr>nw_stash := d\<rparr>))
                                 else w1\<lparr>nw_stash := d\<rparr>
          | None \<Rightarrow> w1\<lparr>nw_stash := d\<rparr>))
   | (_, w1) \<Rightarrow> w1)"

text \<open>The last step: a LOCK read back from the relays with our notes and acknowledged clears the stash.\<close>

definition confirmLock :: "string \<Rightarrow> string \<Rightarrow> string \<Rightarrow> lock_deps \<Rightarrow> native_world \<Rightarrow> bool \<times> native_world" where
  "confirmLock e notes notesHash D w = (case ld_replayed D of
     None \<Rightarrow> (False, w)
   | Some (replayed, custody) \<Rightarrow>
       if (case replayed of None \<Rightarrow> False
           | Some s \<Rightarrow> shouldClearNativeLockAfterPublish (lk_notesHash (st_lock s)) notesHash custody (committedUnreleased s))
       then onStash (clearPendingNativeLock e) (nativeLog (InEscrow notes) w)
       else (case settleAt AfterPublish e D w of (r, w1) \<Rightarrow> (r \<noteq> None, w1)))"

definition publishNotes :: "string \<Rightarrow> string \<Rightarrow> int \<Rightarrow> lock_deps \<Rightarrow> selected_item list option \<Rightarrow> native_world \<Rightarrow> bool \<times> native_world" where
  "publishNotes e notes amountMsats D selected w = (case ld_prepareAgain D of
     None \<Rightarrow> (False, w)
   | Some ctx \<Rightarrow> if amountMsatsForLock (lc_state ctx) selected \<noteq> Some amountMsats then (False, w)
       else (case ld_notesHash D of None \<Rightarrow> (False, w)
         | Some h \<Rightarrow> (case onStash (markNativeLockPublishAttempted e) w of
             (False, w1) \<Rightarrow> (False, w1)
           | (True, w1) \<Rightarrow> (let w2 = (if ld_sent D then nativeLog (LockPublished notes) w1 else w1) in
               if \<not> ld_published D then (False, w2) else confirmLock e notes h D w2))))"

definition wrongFederation :: "lock_context \<Rightarrow> lock_deps \<Rightarrow> bool" where
  "wrongFederation ctx D \<longleftrightarrow> truthyS (lc_expectedFed ctx) \<and> nonEmpty (ld_mintedFed D) \<noteq> lc_expectedFed ctx"

text \<open>The spend; its callback stashes the notes before anything else can run.\<close>

definition spendAndPublish :: "string \<Rightarrow> lock_input \<Rightarrow> lock_context \<Rightarrow> lock_deps \<Rightarrow> native_world \<Rightarrow> bool \<times> native_world" where
  "spendAndPublish e i ctx D w = (case ld_spend D of
     None \<Rightarrow> (False, w)
   | Some (notes, operationId) \<Rightarrow>
       (case onStash (upgradeNativeLockToSpent (ld_now D) i notes operationId) (nativeLog (SpentFromWallet notes) w) of
          (False, w1) \<Rightarrow> (False, w1)
        | (True, w1) \<Rightarrow>
            if wrongFederation ctx D then (False, snd (settleAt WrongNotes e D w1))
            else publishNotes e notes (li_amountMsats i) D (Option.bind (li_lockOpts i) no_selectedItems) w1))"

definition fundFresh :: "string \<Rightarrow> lock_input \<Rightarrow> lock_context \<Rightarrow> lock_deps \<Rightarrow> native_world \<Rightarrow> bool \<times> native_world" where
  "fundFresh e i ctx D w =
     (if \<not> ld_probeWritable D then (False, w)
      else case onStash (stashNativeLockIntent (ld_now D) i) w of
        (False, w1) \<Rightarrow> (False, w1)
      | (True, w1) \<Rightarrow> spendAndPublish e i ctx D w1)"

text \<open>The flag is whether the run returns a state.\<close>

definition lockAndPublishInner :: "string \<Rightarrow> native_lock_opts \<Rightarrow> lock_deps \<Rightarrow> native_world \<Rightarrow> bool \<times> native_world" where
  "lockAndPublishInner e opts D w0 = (case getPendingNativeLock e (nw_stash w0) of (live, d) \<Rightarrow>
     (let w = w0\<lparr>nw_stash := d\<rparr> in
      if live \<noteq> None \<and> ld_poolEmpty D then (False, settleWithoutPool e D w)
      else case ld_prepare D of None \<Rightarrow> (False, w)
      | Some ctx \<Rightarrow> (case amountMsatsForLock (lc_state ctx) (no_selectedItems opts) of None \<Rightarrow> (False, w)
        | Some amount \<Rightarrow>
          (let i = \<lparr>li_escrowId = e, li_amountMsats = amount, li_federationId = ld_federationId D,
                    li_spendTimeoutSecs = Some LOCK_SPEND_TRY_CANCEL_SECS, li_lockOpts = Some opts\<rparr> in
           case settleAt BeforeSpend e D w of
             (None, w1) \<Rightarrow> (False, w1)
           | (Some (Some ClearedCommitted), w1) \<Rightarrow> (ld_getState D \<noteq> None, w1)
           | (Some (Some LeftPending), w1) \<Rightarrow> (False, w1)
           | (_, w1) \<Rightarrow> fundFresh e i ctx D w1))))"

definition lockAndPublish :: "string \<Rightarrow> native_lock_opts \<Rightarrow> lock_deps \<Rightarrow> native_world \<Rightarrow> bool \<times> native_world" where
  "lockAndPublish e opts D w = (case lockAndPublishInner e opts D w of
     (True, w1) \<Rightarrow> (True, w1)
   | (False, w1) \<Rightarrow> (False, snd (settleAt AfterFailure e D w1)))"

section \<open>Funding with ecash from outside\<close>

text \<open>
  \<open>lockAndPublishWithEcash\<close>: the notes are already in the caller's hands, and come into the stash only
  after they were parsed and the shares were cut. A LOCK that is not read back as committed is settled
  at once only when the trade shows refused LOCKs.
\<close>

definition confirmEcashLock :: "string \<Rightarrow> string \<Rightarrow> string \<Rightarrow> lock_deps \<Rightarrow> native_world \<Rightarrow> bool \<times> native_world" where
  "confirmEcashLock e notes notesHash D w = (case ld_replayed D of
     None \<Rightarrow> (False, w)
   | Some (None, _) \<Rightarrow> (True, w)
   | Some (Some s, custody) \<Rightarrow>
       if shouldClearNativeLockAfterPublish (lk_notesHash (st_lock s)) notesHash custody (committedUnreleased s)
       then onStash (clearPendingNativeLock e) (nativeLog (InEscrow notes) w)
       else if st_rejectedLocks s \<noteq> [] then (case settleAt AfterPublish e D w of (r, w1) \<Rightarrow> (r \<noteq> None, w1))
       else (True, w))"

definition publishEcash :: "string \<Rightarrow> lock_input \<Rightarrow> string \<Rightarrow> string \<Rightarrow> lock_deps \<Rightarrow> native_world \<Rightarrow> bool \<times> native_world" where
  "publishEcash e i notes h D w =
     (if \<not> ld_probeWritable D then (False, w)
      else case onStash (stashNativeLockIntent (ld_now D) i) w of
        (False, w1) \<Rightarrow> (False, w1)
      | (True, w1) \<Rightarrow> (case onStash (upgradeNativeLockToSpent (ld_now D) i notes None) w1 of
          (False, w2) \<Rightarrow> (False, w2)
        | (True, w2) \<Rightarrow> (case onStash (markNativeLockPublishAttempted e) w2 of
            (False, w3) \<Rightarrow> (False, w3)
          | (True, w3) \<Rightarrow> (let w4 = (if ld_sent D then nativeLog (LockPublished notes) w3 else w3) in
              if \<not> ld_published D then (False, w4) else confirmEcashLock e notes h D w4))))"

definition lockAndPublishWithEcash :: "string \<Rightarrow> string \<Rightarrow> native_lock_opts \<Rightarrow> lock_deps \<Rightarrow> native_world \<Rightarrow> bool \<times> native_world" where
  "lockAndPublishWithEcash e notes opts D w = (case ld_prepare D of
     None \<Rightarrow> (False, w)
   | Some ctx \<Rightarrow> (case amountMsatsForLock (lc_state ctx) (no_selectedItems opts) of
       None \<Rightarrow> (False, w)
     | Some amount \<Rightarrow> (case settleAt BeforeSpend e D w of
         (None, w1) \<Rightarrow> (False, w1)
       | (Some (Some ClearedCommitted), w1) \<Rightarrow> (ld_getState D \<noteq> None, w1)
       | (Some (Some LeftPending), w1) \<Rightarrow> (False, w1)
       | (_, w1) \<Rightarrow> if wrongFederation ctx D then (False, w1)
           else (case (ld_prepareAgain D, ld_notesHash D) of
              (Some again, Some h) \<Rightarrow> if amountMsatsForLock (lc_state again) (no_selectedItems opts) \<noteq> Some amount then (False, w1)
                else publishEcash e \<lparr>li_escrowId = e, li_amountMsats = amount, li_federationId = ld_federationId D,
                    li_spendTimeoutSecs = Some LOCK_SPEND_TRY_CANCEL_SECS, li_lockOpts = Some opts\<rparr> notes h D w1
            | _ \<Rightarrow> (False, w1)))))"

section \<open>Taking the sats back\<close>

text \<open>Taking a withheld LOCK back: the WITHDRAW, then the recovery, whose failure is only logged.\<close>

definition bridgeWithdraw :: "string \<Rightarrow> bool \<Rightarrow> recovery_deps \<Rightarrow> bool \<Rightarrow> native_world \<Rightarrow> bool \<times> native_world" where
  "bridgeWithdraw e withdrawn D resolves w =
     (if \<not> withdrawn then (False, w) else (True, snd (settlePendingNativeLockInner e D resolves True w)))"

end
