(* ===== verification/Native_Properties.thy ===== *)
theory Native_Properties
  imports Native_Funding Worked_Trade
begin

text \<open>
  Funding from Chama's own wallet: bearer notes that reached the stash stay there until they are back,
  reported consumed, or owned by a LOCK; and recovery takes notes back only on evidence that no live
  LOCK holds them. A stash read that fails breaks the first.
\<close>

section \<open>Notes in the stash\<close>

definition notesAt :: "string \<Rightarrow> stash_device \<Rightarrow> string option" where
  "notesAt e d = (case dv_text d of Holds m \<Rightarrow> Option.bind (map_of m e) pl_oobNotes | _ \<Rightarrow> None)"

definition held :: "string \<Rightarrow> string \<Rightarrow> stash_device \<Rightarrow> bool" where
  "held e n d \<longleftrightarrow> (case dv_text d of
     Holds m \<Rightarrow> (case map_of m e of None \<Rightarrow> False | Some p \<Rightarrow> pl_stage p \<noteq> Intent \<and> pl_oobNotes p = Some n)
   | _ \<Rightarrow> False)"

definition carries :: "string \<Rightarrow> pending_lock \<Rightarrow> bool" where
  "carries n p \<longleftrightarrow> pl_stage p \<noteq> Intent \<and> pl_oobNotes p = Some n"

lemma held_iff: "held e n d \<longleftrightarrow> (\<exists>m p. dv_text d = Holds m \<and> map_of m e = Some p \<and> carries n p)"
  by (auto simp: held_def carries_def split: saved_text.splits option.splits)

lemma held_notesAt: "held e n d \<Longrightarrow> notesAt e d = Some n"
  by (auto simp: held_iff notesAt_def carries_def)

lemma loadStash_reads: "loadStash d = (m, d') \<Longrightarrow> readable d
    \<Longrightarrow> readable d' \<and> dv_text d' = dv_text d \<and> m = (case dv_text d of Holds x \<Rightarrow> x | _ \<Rightarrow> [])"
  by (auto simp: loadStash_def dest: readable_soft split: prod.splits saved_text.splits)

lemma saveStash_cases: "saveStash v d = (b, d') \<Longrightarrow> readable d' = readable d \<and> (dv_text d' = Holds v \<or> dv_text d' = dv_text d)"
  unfolding saveStash_def by (intro conjI) (erule readable_write, erule writeText_text)

lemma editStash_cases:
  assumes "editStash f d = (ok, d')" and "readable d"
  shows "readable d' \<and> (dv_text d' = dv_text d
     \<or> (\<exists>m'. f (case dv_text d of Holds x \<Rightarrow> x | _ \<Rightarrow> []) = Some m' \<and> dv_text d' = Holds m'))"
  using assms by (auto simp: editStash_def dest!: loadStash_reads saveStash_cases split: prod.splits option.splits)

text \<open>An edit keeps the notes of a trade when it keeps its entry's notes, or touches another trade.\<close>

definition keepsNotes :: "string \<Rightarrow> string \<Rightarrow> (lock_stash \<Rightarrow> lock_stash option) \<Rightarrow> bool" where
  "keepsNotes e n f \<longleftrightarrow> (\<forall>m p m'. map_of m e = Some p \<longrightarrow> carries n p \<longrightarrow> f m = Some m'
     \<longrightarrow> (\<exists>p'. map_of m' e = Some p' \<and> carries n p'))"

lemma edit_held:
  assumes "editStash f d = (ok, d')" and "keepsNotes e n f" and "readable d" and "held e n d"
  shows "readable d' \<and> held e n d'"
  using editStash_cases [OF assms(1,3)] assms(2,4) by (fastforce simp: held_iff keepsNotes_def)

text \<open>Every entry is stored under its own trade.\<close>

definition wellKeyed :: "stash_device \<Rightarrow> bool" where
  "wellKeyed d \<longleftrightarrow> (\<forall>m k p. dv_text d = Holds m \<longrightarrow> map_of m k = Some p \<longrightarrow> pl_escrowId p = k)"

definition keyedBy :: "lock_stash \<Rightarrow> bool" where
  "keyedBy m \<longleftrightarrow> (\<forall>k p. map_of m k = Some p \<longrightarrow> pl_escrowId p = k)"

definition keepsKeys :: "(lock_stash \<Rightarrow> lock_stash option) \<Rightarrow> bool" where
  "keepsKeys f \<longleftrightarrow> (\<forall>m m'. keyedBy m \<longrightarrow> f m = Some m' \<longrightarrow> keyedBy m')"

lemma wellKeyed_iff: "wellKeyed d = keyedBy (case dv_text d of Holds x \<Rightarrow> x | _ \<Rightarrow> [])"
  by (simp add: wellKeyed_def keyedBy_def split: saved_text.splits)

lemma edit_keyed:
  assumes "editStash f d = (ok, d')" and "keepsKeys f" and "readable d" and "wellKeyed d"
  shows "wellKeyed d'"
  using editStash_cases [OF assms(1,3)]
proof (elim conjE disjE exE)
  assume "dv_text d' = dv_text d"
  with assms(4) show ?thesis by (simp add: wellKeyed_def)
next
  fix m' assume "f (case dv_text d of Holds x \<Rightarrow> x | _ \<Rightarrow> []) = Some m'" and t: "dv_text d' = Holds m'"
  with assms(2,4) have "keyedBy m'" unfolding keepsKeys_def wellKeyed_iff by blast
  with t show ?thesis by (simp add: wellKeyed_iff)
qed

lemma map_of_delete: "map_of (AList.delete k m) e = (if e = k then None else map_of m e)"
  by (simp add: delete_conv')

lemma map_of_put: "map_of (AList.update k v m) e = (if e = k then Some v else map_of m e)"
  by (simp add: update_conv')

lemma keeps_edits:
  "keepsNotes e n (\<lambda>m. case map_of m x of Some p \<Rightarrow> if pl_stage p \<noteq> Intent then None else Some (AList.update x v m)
     | None \<Rightarrow> Some (AList.update x v m))"
  "keepsNotes e n (\<lambda>m. case map_of m x of Some p \<Rightarrow> if truthyS (pl_oobNotes p)
     then Some (AList.update x (p\<lparr>pl_stage := PublishAttempted\<rparr>) m) else None | None \<Rightarrow> None)"
  "keepsNotes e n (\<lambda>m. case map_of m x of Some p \<Rightarrow> if pl_stage p = Intent then Some (AList.delete x m) else None | None \<Rightarrow> None)"
  "x \<noteq> e \<or> y \<noteq> Some n \<Longrightarrow> keepsNotes e n (\<lambda>m. case map_of m x of Some p \<Rightarrow> if pl_oobNotes p \<noteq> y then None
     else Some (AList.delete x m) | None \<Rightarrow> None)"
  "x \<noteq> e \<or> y \<noteq> Some n \<Longrightarrow> keepsNotes e n (\<lambda>m. case map_of m x of Some p \<Rightarrow> if pl_oobNotes p \<noteq> y then None
     else Some (AList.update x v m) | None \<Rightarrow> None)"
  "keepsNotes e n (\<lambda>m. case map_of m x of Some p \<Rightarrow> Some (AList.update x (p\<lparr>pl_attempts := a p, pl_lastError := r\<rparr>) m) | None \<Rightarrow> None)"
  "keepsNotes e n (\<lambda>m. case map_of m x of Some p \<Rightarrow> if pl_oobNotes p \<noteq> y then None
     else Some (AList.update x (p\<lparr>pl_attempts := a p\<rparr>) m) | None \<Rightarrow> None)"
  "x \<noteq> e \<Longrightarrow> keepsNotes e n (\<lambda>m. if map_of m x = None then None else Some (AList.delete x m))"
  by (auto simp: keepsNotes_def carries_def map_of_put map_of_delete split: option.splits if_splits)

lemma held_load: "loadStash d = (m, d') \<Longrightarrow> readable d \<Longrightarrow> held e n d \<Longrightarrow> readable d' \<and> held e n d'"
  using loadStash_reads by (auto simp: held_def)

lemma held_upgrade: "upgradeNativeLockToSpent now i notes opId d = (ok, d') \<Longrightarrow> readable d \<Longrightarrow> held e n d \<Longrightarrow> n \<noteq> []
    \<Longrightarrow> readable d' \<and> held e n d'"
proof -
  assume u: "upgradeNativeLockToSpent now i notes opId d = (ok, d')" and r: "readable d" and h: "held e n d" and n: "n \<noteq> []"
  obtain m d1 where l: "loadStash d = (m, d1)" by fastforce
  then have d1: "readable d1" "held e n d1" using held_load r h by blast+
  from l r h obtain p where m: "dv_text d = Holds m" "map_of m e = Some p" "carries n p"
    by (auto dest!: loadStash_reads simp: held_iff)
  show ?thesis
  proof (cases "li_escrowId i = e \<and> n \<noteq> notes")
    case True
    with u l m n show ?thesis using d1
      by (auto simp: upgradeNativeLockToSpent_def Let_def carries_def nonEmpty_eq_Some split: if_splits)
  next
    case False
    let ?v = "spentEntry now i notes opId (map_of m (li_escrowId i))"
    have keeps: "held e n x" if "dv_text x = Holds (AList.update (li_escrowId i) ?v m)" for x
      using that False m by (auto simp: held_iff map_of_put carries_def spentEntry_def)
    from u l have "d' = d1 \<or> saveStash (AList.update (li_escrowId i) ?v m) d1 = (ok, d')"
      by (auto simp: upgradeNativeLockToSpent_def Let_def split: if_splits)
    then show ?thesis
    proof
      assume "saveStash (AList.update (li_escrowId i) ?v m) d1 = (ok, d')"
      from saveStash_cases [OF this] d1 keeps [of d'] show ?thesis by (auto simp: held_def)
    qed (use d1 in simp)
  qed
qed

text \<open>After an upgrade that returned, the trade's entry carries the new notes or none.\<close>

lemma upgrade_notes:
  assumes "upgradeNativeLockToSpent now i notes opId d = (True, d')" and "readable d" and "notesAt (li_escrowId i) d' = Some n" and "n \<noteq> []"
  shows "n = notes"
proof -
  obtain m d1 where l: "loadStash d = (m, d1)" by fastforce
  let ?v = "spentEntry now i notes opId (map_of m (li_escrowId i))"
  from assms(1) l have s: "saveStash (AList.update (li_escrowId i) ?v m) d1 = (True, d')"
    and g: "nonEmpty (Option.bind (map_of m (li_escrowId i)) pl_oobNotes) \<in> {None, Some notes}"
    by (auto simp: upgradeNativeLockToSpent_def Let_def split: if_splits)
  from loadStash_reads [OF l assms(2)] saveStash_cases [OF s] assms(3,4) g show ?thesis
    by (auto simp: notesAt_def map_of_put spentEntry_def nonEmpty_eq_None split: saved_text.splits)
qed

lemma mark_notes:
  assumes "markNativeLockPublishAttempted x d = (ok, d')" and "readable d" and "notesAt e d' = Some n"
  shows "notesAt e d = Some n"
  using editStash_cases [OF assms(1) [unfolded markNativeLockPublishAttempted_def] assms(2)] assms(3)
  by (auto simp: notesAt_def map_of_put split: option.splits if_splits saved_text.splits)

section \<open>Accounted notes\<close>

definition accounted :: "string \<Rightarrow> native_world \<Rightarrow> bool" where
  "accounted n w \<longleftrightarrow> (\<exists>x\<in>{Redeemed n, ReportedConsumed n, InEscrow n}. x \<in> set (nw_log w))"

definition sound :: "string \<Rightarrow> string \<Rightarrow> native_world \<Rightarrow> bool" where
  "sound e n w \<longleftrightarrow> readable (nw_stash w) \<and> wellKeyed (nw_stash w) \<and> (held e n (nw_stash w) \<or> accounted n w)"

lemma log_of [simp]: "nw_stash (nativeLog x w) = nw_stash w" "set (nw_log (nativeLog x w)) = insert x (set (nw_log w))"
  by (simp_all add: nativeLog_def)

lemma accounted_log: "accounted n w \<Longrightarrow> accounted n (nativeLog x w)"
  by (auto simp: accounted_def)

lemma sound_log: "sound e n w \<Longrightarrow> sound e n (nativeLog x w)"
  by (auto simp: sound_def accounted_log)

lemma sound_shares [simp]: "sound e n (w\<lparr>nw_shares := io\<rparr>) = sound e n w"
  by (simp add: sound_def accounted_def)

lemma onStash_log [simp]: "onStash f w = (ok, w') \<Longrightarrow> nw_log w' = nw_log w"
  by (auto simp: onStash_def split: prod.splits)

lemma accounted_onStash: "onStash f w = (ok, w') \<Longrightarrow> accounted n w' = accounted n w"
  by (simp add: accounted_def)

lemma edit_readable: "editStash f d = (ok, d') \<Longrightarrow> readable d \<Longrightarrow> readable d'"
  using editStash_cases by blast

text \<open>An edit that keeps held notes, or makes away with accounted ones, keeps soundness.\<close>

lemma sound_edit:
  assumes "onStash (editStash f) w = (ok, w')" and "sound e n w" and "keepsKeys f" and "keepsNotes e n f \<or> accounted n w"
  shows "sound e n w'"
proof -
  from assms(1) have f: "editStash f (nw_stash w) = (ok, nw_stash w')" by (auto simp: onStash_def split: prod.splits)
  show ?thesis using assms(2-4) accounted_onStash [OF assms(1)] edit_held [OF f] edit_readable [OF f] edit_keyed [OF f]
    by (auto simp: sound_def)
qed

lemma keepsKeys_edits:
  "pl_escrowId v = x \<Longrightarrow> keepsKeys (\<lambda>m. case map_of m x of Some p \<Rightarrow> if pl_stage p \<noteq> Intent then None
     else Some (AList.update x v m) | None \<Rightarrow> Some (AList.update x v m))"
  "keepsKeys (\<lambda>m. case map_of m x of Some p \<Rightarrow> if truthyS (pl_oobNotes p)
     then Some (AList.update x (p\<lparr>pl_stage := PublishAttempted\<rparr>) m) else None | None \<Rightarrow> None)"
  "keepsKeys (\<lambda>m. case map_of m x of Some p \<Rightarrow> if pl_stage p = Intent then Some (AList.delete x m) else None | None \<Rightarrow> None)"
  "keepsKeys (\<lambda>m. case map_of m x of Some p \<Rightarrow> if pl_oobNotes p \<noteq> y then None else Some (AList.delete x m) | None \<Rightarrow> None)"
  "pl_escrowId v = x \<Longrightarrow> keepsKeys (\<lambda>m. case map_of m x of Some p \<Rightarrow> if pl_oobNotes p \<noteq> y then None
     else Some (AList.update x v m) | None \<Rightarrow> None)"
  "keepsKeys (\<lambda>m. case map_of m x of Some p \<Rightarrow> Some (AList.update x (p\<lparr>pl_attempts := a p, pl_lastError := r\<rparr>) m) | None \<Rightarrow> None)"
  "keepsKeys (\<lambda>m. case map_of m x of Some p \<Rightarrow> if pl_oobNotes p \<noteq> y then None
     else Some (AList.update x (p\<lparr>pl_attempts := a p\<rparr>) m) | None \<Rightarrow> None)"
  "keepsKeys (\<lambda>m. if map_of m x = None then None else Some (AList.delete x m))"
  by (auto simp: keepsKeys_def keyedBy_def map_of_put map_of_delete split: option.splits if_splits)

lemma sound_intent: "onStash (stashNativeLockIntent now i) w = (ok, w') \<Longrightarrow> sound e n w \<Longrightarrow> sound e n w'"
  unfolding stashNativeLockIntent_def
  by (erule (1) sound_edit, rule keepsKeys_edits) (simp_all add: freshIntent_def keeps_edits)

lemma sound_mark: "onStash (markNativeLockPublishAttempted x) w = (ok, w') \<Longrightarrow> sound e n w \<Longrightarrow> sound e n w'"
  unfolding markNativeLockPublishAttempted_def by (erule (1) sound_edit) (simp_all add: keepsKeys_edits keeps_edits)

lemma sound_clearIfIntent: "onStash (clearPendingNativeLockIfIntent x) w = (ok, w') \<Longrightarrow> sound e n w \<Longrightarrow> sound e n w'"
  unfolding clearPendingNativeLockIfIntent_def by (erule (1) sound_edit) (simp_all add: keepsKeys_edits keeps_edits)

lemma sound_noteKept: "onStash (noteKept x r b) w = (ok, w') \<Longrightarrow> sound e n w \<Longrightarrow> sound e n w'"
  unfolding noteKept_def by (erule (1) sound_edit) (simp_all add: keepsKeys_edits keeps_edits)

lemma sound_bump: "onStash (bumpMatching p) w = (ok, w') \<Longrightarrow> sound e n w \<Longrightarrow> sound e n w'"
  unfolding bumpMatching_def by (erule (1) sound_edit) (simp_all add: keepsKeys_edits keeps_edits)

lemma sound_clearMatching:
  "onStash (clearPendingNativeLockMatching x y) w = (ok, w') \<Longrightarrow> sound e n w \<Longrightarrow> y = n \<longrightarrow> accounted n w \<Longrightarrow> sound e n w'"
  unfolding clearPendingNativeLockMatching_def
  by (erule (1) sound_edit, rule keepsKeys_edits) (use keeps_edits(4) in blast)

lemma sound_downgrade:
  "onStash (downgradeReabsorbedToIntent p now) w = (ok, w') \<Longrightarrow> sound e n w \<Longrightarrow> pl_oobNotes p = Some n \<longrightarrow> accounted n w
    \<Longrightarrow> sound e n w'"
  unfolding downgradeReabsorbedToIntent_def
  by (erule (1) sound_edit, rule keepsKeys_edits) (simp, use keeps_edits(5) in blast)

lemma sound_clear:
  "onStash (clearPendingNativeLock x) w = (ok, w') \<Longrightarrow> sound e n w \<Longrightarrow> x = e \<longrightarrow> \<not> held e n (nw_stash w) \<or> accounted n w
    \<Longrightarrow> sound e n w'"
  unfolding clearPendingNativeLock_def
  by (erule (1) sound_edit, rule keepsKeys_edits) (use keeps_edits(8) in \<open>auto simp: sound_def\<close>)

lemma sound_get: "getPendingNativeLock x (nw_stash w) = (p, d) \<Longrightarrow> sound e n w \<Longrightarrow> sound e n (w\<lparr>nw_stash := d\<rparr>)"
  using loadStash_reads
  by (auto simp: sound_def getPendingNativeLock_def held_def wellKeyed_def accounted_def split: prod.splits)


section \<open>Recovery keeps the books\<close>

lemma keepNoted_sound: "keepNoted x r w = (y, w') \<Longrightarrow> sound e n w \<Longrightarrow> sound e n w'"
  unfolding keepNoted_def by (cases "onStash (noteKept x r False) w") (auto simp: answer_def intro: sound_noteKept)

lemma reabsorbFailed_sound: "reabsorbFailed p notes c x w = (y, w') \<Longrightarrow> sound e n w \<Longrightarrow> sound e n w'"
proof -
  assume h: "reabsorbFailed p notes c x w = (y, w')" and s: "sound e n w"
  let ?w1 = "nativeLog (ReportedConsumed notes) w"
  obtain ok w2 where o: "onStash (clearPendingNativeLockMatching (pl_escrowId p) notes) ?w1 = (ok, w2)" by fastforce
  have "sound e n w2" by (rule sound_clearMatching [OF o sound_log [OF s]]) (simp add: accounted_def)
  with h s o show ?thesis
    by (auto simp: reabsorbFailed_def answer_def intro: keepNoted_sound split: if_splits)
qed

lemma reabsorbNotes_sound:
  assumes "reabsorbNotes p notes D s c w = (y, w')" and "sound e n w" and "pl_oobNotes p = Some notes"
  shows "sound e n w'"
proof -
  obtain ok w1 where b: "onStash (bumpMatching p) w = (ok, w1)" by fastforce
  from sound_bump [OF b assms(2)] have s1: "sound e n w1" .
  let ?w2 = "nativeLog (Redeemed notes) w1"
  let ?settle = "if \<not> c \<and> tradeStillLockable s (rd_now D) then downgradeReabsorbedToIntent p (rd_now D)
    else clearPendingNativeLockMatching (pl_escrowId p) notes"
  obtain ok3 w3 where o: "onStash ?settle ?w2 = (ok3, w3)" by fastforce
  have a: "notes = n \<longrightarrow> accounted n ?w2" by (simp add: accounted_def)
  from o sound_log [OF s1] a assms(3) have s3: "sound e n w3"
    by (auto intro: sound_downgrade sound_clearMatching split: if_splits)
  show ?thesis
    using assms(1) b o s1 s3 by (auto simp: reabsorbNotes_def Let_def split: bool.splits option.splits dest: reabsorbFailed_sound)
qed

text \<open>The entry recovery works on is the stored one.\<close>

definition current :: "pending_lock \<Rightarrow> native_world \<Rightarrow> bool" where
  "current p w \<longleftrightarrow> (\<forall>n. held (pl_escrowId p) n (nw_stash w) \<longrightarrow> pl_oobNotes p = Some n)"

lemma recoverCommitted_sound:
  assumes "recoverCommitted p notes D s w = (y, w')" and "sound e n w" and "pl_oobNotes p = Some notes" and "current p w"
  shows "sound e n w'"
proof -
  let ?w1 = "nativeLog (InEscrow notes) w"
  obtain ok w2 where o: "onStash (clearPendingNativeLock (pl_escrowId p)) ?w1 = (ok, w2)" by fastforce
  have "pl_escrowId p = e \<longrightarrow> \<not> held e n (nw_stash ?w1) \<or> accounted n ?w1"
    using assms(3,4) by (auto simp: current_def accounted_def)
  from sound_clear [OF o sound_log [OF assms(2)] this] have "sound e n w2" .
  then show ?thesis using assms(1,2) o
    by (auto simp: recoverCommitted_def answer_def intro: keepNoted_sound split: if_splits)
qed

lemma recoverUncommitted_sound:
  assumes "recoverUncommitted p notes D s w = (y, w')" and "sound e n w" and "pl_oobNotes p = Some notes"
  shows "sound e n w'"
  using assms by (auto simp: recoverUncommitted_def Let_def intro: keepNoted_sound reabsorbNotes_sound
      split: option.splits if_splits prod.splits bool.splits)

lemma recoverSpent_sound:
  assumes "recoverSpent p notes D cap w = (y, w')" and "sound e n w" and "pl_oobNotes p = Some notes" and "current p w"
  shows "sound e n w'"
  using assms by (auto simp: recoverSpent_def Let_def intro: keepNoted_sound recoverUncommitted_sound recoverCommitted_sound
      reabsorbNotes_sound split: option.splits if_splits sum.splits)

text \<open>Ageing an intent out is an edit of the stash.\<close>

lemma ageOut_edit:
  assumes "ageOutIntent p now w = (y, w')"
  shows "w' = w \<or> (\<exists>ok. onStash (editStash (\<lambda>m. case map_of m (pl_escrowId p) of
     Some q \<Rightarrow> if pl_stage q = Intent \<and> pl_createdAt q = pl_createdAt p then Some (AList.delete (pl_escrowId p) m) else None
   | None \<Rightarrow> None)) w = (ok, w'))"
  using assms
  by (auto simp: ageOutIntent_def onStash_def editStash_def answer_def split: prod.splits option.splits if_splits)

lemma ageOut_sound: "ageOutIntent p now w = (y, w') \<Longrightarrow> sound e n w \<Longrightarrow> sound e n w'"
  by (drule ageOut_edit) (auto elim!: sound_edit
      simp: keepsKeys_def keyedBy_def keepsNotes_def carries_def map_of_delete split: option.splits if_splits)

lemma recover_sound:
  assumes "recoverPendingNativeLock p D cap w = (y, w')" and "sound e n w" and "current p w"
  shows "sound e n w'"
  using assms by (auto simp: recoverPendingNativeLock_def nonEmpty_eq_Some nonEmpty_eq_None
      intro: ageOut_sound recoverSpent_sound split: if_splits option.splits)

lemma get_current:
  assumes "getPendingNativeLock x (nw_stash w) = (Some p, d)" and "sound e n w"
  shows "current p (w\<lparr>nw_stash := d\<rparr>)" and "pl_escrowId p = x"
proof -
  from assms have r: "readable (nw_stash w)" "wellKeyed (nw_stash w)" by (simp_all add: sound_def)
  from assms(1) obtain m where l: "loadStash (nw_stash w) = (m, d)" "map_of m x = Some p"
    by (auto simp: getPendingNativeLock_def split: prod.splits)
  from loadStash_reads [OF l(1) r(1)] l(2) have t: "dv_text d = Holds m" "dv_text (nw_stash w) = Holds m"
    by (auto split: saved_text.splits)
  show k: "pl_escrowId p = x" using r(2) t l(2) by (auto simp: wellKeyed_def)
  show "current p (w\<lparr>nw_stash := d\<rparr>)" using t l(2) k by (auto simp: current_def held_iff carries_def)
qed

lemma settle_sound:
  assumes "settlePendingNativeLockInner x D res cap w = (y, w')" and "sound e n w"
  shows "sound e n w'"
proof -
  obtain prior d where g: "getPendingNativeLock x (nw_stash w) = (prior, d)" by fastforce
  let ?w1 = "w\<lparr>nw_stash := d\<rparr>"
  have s1: "sound e n ?w1" by (rule sound_get [OF g assms(2)])
  show ?thesis
  proof (cases prior)
    case (Some p)
    obtain r w2 where o: "recoverPendingNativeLock p D cap ?w1 = (r, w2)" by fastforce
    have "sound e n w2" by (rule recover_sound [OF o s1]) (rule get_current(1) [OF g [unfolded Some] assms(2)])
    then show ?thesis using assms(1) g Some s1 o
      by (auto simp: settlePendingNativeLockInner_def Let_def split: option.splits if_splits)
  qed (use assms(1) g s1 in \<open>auto simp: settlePendingNativeLockInner_def\<close>)
qed

lemma settleAt_sound: "settleAt pt x D w = (y, w') \<Longrightarrow> sound e n w \<Longrightarrow> sound e n w'"
  unfolding settleAt_def by (rule settle_sound)

lemma drainLocks_sound: "drainLocks deps es t w = (t', w') \<Longrightarrow> sound e n w \<Longrightarrow> sound e n w'"
proof (induction es arbitrary: t w)
  case (Cons x es)
  obtain live d where g: "getPendingNativeLock x (nw_stash w) = (live, d)" by fastforce
  have s1: "sound e n (w\<lparr>nw_stash := d\<rparr>)" by (rule sound_get [OF g Cons.prems(2)])
  show ?case
  proof (cases live)
    case None
    with Cons g s1 show ?thesis by simp
  next
    case (Some p)
    obtain r w2 where o: "recoverPendingNativeLock p (deps x) False (w\<lparr>nw_stash := d\<rparr>) = (r, w2)" by fastforce
    have "sound e n w2" by (rule recover_sound [OF o s1]) (rule get_current(1) [OF g [unfolded Some] Cons.prems(2)])
    with Cons g Some o show ?thesis by simp
  qed
qed simp

lemma drain_sound: "drainPendingNativeLocks deps w = (t, w') \<Longrightarrow> sound e n w \<Longrightarrow> sound e n w'"
proof -
  assume h: "drainPendingNativeLocks deps w = (t, w')" and s: "sound e n w"
  obtain m d where l: "loadStash (nw_stash w) = (m, d)" by fastforce
  then have "getPendingNativeLock [] (nw_stash w) = (map_of m [], d)" by (simp add: getPendingNativeLock_def)
  then have "sound e n (w\<lparr>nw_stash := d\<rparr>)" by (rule sound_get [OF _ s])
  with h l show ?thesis by (auto simp: drainPendingNativeLocks_def listPendingNativeLocks_def dest: drainLocks_sound)
qed


section \<open>A funding run keeps the books\<close>

lemma upgrade_keyed: "upgradeNativeLockToSpent now i notes opId d = (ok, d') \<Longrightarrow> readable d \<Longrightarrow> wellKeyed d
    \<Longrightarrow> readable d' \<and> wellKeyed d'"
proof -
  assume u: "upgradeNativeLockToSpent now i notes opId d = (ok, d')" and r: "readable d" and k: "wellKeyed d"
  obtain m d1 where l: "loadStash d = (m, d1)" by fastforce
  from loadStash_reads [OF l r] k have d1: "readable d1" "wellKeyed d1" "keyedBy m"
    by (simp_all add: wellKeyed_iff)
  let ?v = "spentEntry now i notes opId (map_of m (li_escrowId i))"
  from d1(3) have m': "keyedBy (AList.update (li_escrowId i) ?v m)"
    by (auto simp: keyedBy_def map_of_put spentEntry_def split: if_splits)
  from u l have "d' = d1 \<or> saveStash (AList.update (li_escrowId i) ?v m) d1 = (ok, d')"
    by (auto simp: upgradeNativeLockToSpent_def Let_def split: if_splits)
  then show ?thesis
  proof
    assume "saveStash (AList.update (li_escrowId i) ?v m) d1 = (ok, d')"
    from saveStash_cases [OF this] d1(1,2) m' show ?thesis by (auto simp: wellKeyed_iff)
  qed (use d1 in simp)
qed

lemma sound_upgrade:
  assumes "onStash (upgradeNativeLockToSpent now i notes opId) w = (ok, w')" and "sound e n w" and "n \<noteq> []"
  shows "sound e n w'"
proof -
  from assms(1) have f: "upgradeNativeLockToSpent now i notes opId (nw_stash w) = (ok, nw_stash w')"
    by (auto simp: onStash_def split: prod.splits)
  show ?thesis using assms(2,3) accounted_onStash [OF assms(1)] held_upgrade [OF f] upgrade_keyed [OF f] by (auto simp: sound_def)
qed

text \<open>From the upgrade to the confirmation, the trade's entry carries the spent notes or none that are at stake.\<close>

definition onlyNotes :: "string \<Rightarrow> string \<Rightarrow> native_world \<Rightarrow> bool" where
  "onlyNotes e notes w \<longleftrightarrow> (\<forall>n. n \<noteq> [] \<longrightarrow> notesAt e (nw_stash w) = Some n \<longrightarrow> n = notes)"

lemma confirmLock_sound:
  assumes "confirmLock x notes h D w = (y, w')" and "sound e n w" and "n \<noteq> []" and "onlyNotes x notes w"
  shows "sound e n w'"
proof -
  let ?w1 = "nativeLog (InEscrow notes) w"
  obtain ok w2 where o: "onStash (clearPendingNativeLock x) ?w1 = (ok, w2)" by fastforce
  have "x = e \<longrightarrow> \<not> held e n (nw_stash ?w1) \<or> accounted n ?w1"
    using assms(3,4) by (auto simp: onlyNotes_def accounted_def dest!: held_notesAt)
  from sound_clear [OF o sound_log [OF assms(2)] this] have "sound e n w2" .
  then show ?thesis using assms(1,2) o
    by (auto simp: confirmLock_def intro: settleAt_sound split: option.splits if_splits prod.splits)
qed

lemma publishNotes_sound:
  assumes "publishNotes x notes amount D sel w = (y, w')" and "sound e n w" and "n \<noteq> []" and "onlyNotes x notes w"
  shows "sound e n w'"
proof -
  obtain ok w1 where m: "onStash (markNativeLockPublishAttempted x) w = (ok, w1)" by fastforce
  have s1: "sound e n w1" by (rule sound_mark [OF m assms(2)])
  let ?w2 = "if ld_sent D then nativeLog (LockPublished notes) w1 else w1"
  have s2: "sound e n ?w2" using s1 by (simp add: sound_log)
  from m have "markNativeLockPublishAttempted x (nw_stash w) = (ok, nw_stash w1)" by (auto simp: onStash_def split: prod.splits)
  from mark_notes [OF this] assms(2,4) have "onlyNotes x notes ?w2" by (auto simp: onlyNotes_def sound_def)
  with s2 confirmLock_sound [OF _ s2 assms(3)] assms(1,2) s1 m show ?thesis
    by (auto simp: publishNotes_def Let_def split: option.splits if_splits bool.splits)
qed

lemma spendAndPublish_sound:
  assumes "li_escrowId i = x" and "spendAndPublish x i ctx D w = (y, w')" and "sound e n w" and "n \<noteq> []"
  shows "sound e n w'"
proof (cases "ld_spend D")
  case (Some sp)
  obtain ns opId where sp: "sp = (ns, opId)" by fastforce
  let ?w0 = "nativeLog (SpentFromWallet ns) w"
  obtain ok w1 where u: "onStash (upgradeNativeLockToSpent (ld_now D) i ns opId) ?w0 = (ok, w1)" by fastforce
  have s1: "sound e n w1" by (rule sound_upgrade [OF u sound_log [OF assms(3)] assms(4)])
  have o: "onlyNotes x ns w1" if ok
  proof -
    from u that have "upgradeNativeLockToSpent (ld_now D) i ns opId (nw_stash w) = (True, nw_stash w1)"
      by (auto simp: onStash_def split: prod.splits)
    from upgrade_notes [OF this] assms(1,3) show ?thesis by (auto simp: onlyNotes_def sound_def)
  qed
  obtain r w2 where st: "settleAt WrongNotes x D w1 = (r, w2)" by fastforce
  show ?thesis using assms(2) Some sp u s1 settleAt_sound [OF st s1] st publishNotes_sound [OF _ s1 assms(4)] o
    by (auto simp: spendAndPublish_def split: bool.splits if_splits)
qed (use assms in \<open>simp add: spendAndPublish_def\<close>)

lemma fundFresh_sound:
  assumes "li_escrowId i = x" and "fundFresh x i ctx D w = (y, w')" and "sound e n w" and "n \<noteq> []"
  shows "sound e n w'"
  using assms by (auto simp: fundFresh_def intro: sound_intent spendAndPublish_sound split: if_splits prod.splits bool.splits)

lemma settleWithoutPool_sound:
  assumes "sound e n w" shows "sound e n (settleWithoutPool x D w)"
proof -
  obtain r w1 where st: "settleAt PoolEmpty x D w = (r, w1)" by fastforce
  have s1: "sound e n w1" by (rule settleAt_sound [OF st assms])
  obtain live d where g: "getPendingNativeLock x (nw_stash w1) = (live, d)" by fastforce
  let ?w2 = "w1\<lparr>nw_stash := d\<rparr>"
  have s2: "sound e n ?w2" by (rule sound_get [OF g s1])
  have s3: "sound e n (snd (onStash (clearPendingNativeLock x) ?w2))" if l: "live = Some p" "pl_stage p = Intent" for p
  proof -
    obtain ok w3 where o: "onStash (clearPendingNativeLock x) ?w2 = (ok, w3)" by fastforce
    obtain m where ld: "loadStash (nw_stash w1) = (m, d)" "map_of m x = Some p"
      using g l by (auto simp: getPendingNativeLock_def split: prod.splits)
    have "\<not> held x n d"
      using loadStash_reads [OF ld(1)] s1 ld(2) l by (auto simp: held_iff carries_def sound_def split: saved_text.splits)
    then have "sound e n w3" by (intro sound_clear [OF o s2]) auto
    with o show ?thesis by simp
  qed
  show ?thesis using st s1 s2 s3 g
    by (auto simp: settleWithoutPool_def split: option.splits native_outcome.splits)
qed

lemma lockAndPublishInner_sound:
  assumes "lockAndPublishInner x opts D w = (y, w')" and "sound e n w" and "n \<noteq> []"
  shows "sound e n w'"
proof -
  obtain live d where g: "getPendingNativeLock x (nw_stash w) = (live, d)" by fastforce
  let ?w0 = "w\<lparr>nw_stash := d\<rparr>"
  have s0: "sound e n ?w0" by (rule sound_get [OF g assms(2)])
  obtain r w1 where st: "settleAt BeforeSpend x D ?w0 = (r, w1)" by fastforce
  have s1: "sound e n w1" by (rule settleAt_sound [OF st s0])
  have f: "sound e n w2" if "fundFresh x \<lparr>li_escrowId = x, li_amountMsats = amount, li_federationId = ld_federationId D,
      li_spendTimeoutSecs = Some LOCK_SPEND_TRY_CANCEL_SECS, li_lockOpts = Some opts\<rparr> ctx D w1 = (z, w2)" for amount ctx z w2
    by (rule fundFresh_sound [OF _ that s1 assms(3)]) simp
  show ?thesis using assms(1) g s0 st s1 f settleWithoutPool_sound [OF s0]
    by (auto simp: lockAndPublishInner_def Let_def split: if_splits option.splits native_outcome.splits)
qed

lemma lockAndPublish_sound:
  assumes "lockAndPublish x opts D w = (y, w')" and "sound e n w" and "n \<noteq> []"
  shows "sound e n w'"
proof -
  obtain ok w1 where i: "lockAndPublishInner x opts D w = (ok, w1)" by fastforce
  have s1: "sound e n w1" by (rule lockAndPublishInner_sound [OF i assms(2,3)])
  obtain r w2 where st: "settleAt AfterFailure x D w1 = (r, w2)" by fastforce
  from assms(1) i st s1 settleAt_sound [OF st s1] show ?thesis by (auto simp: lockAndPublish_def split: bool.splits)
qed

lemma confirmEcash_sound:
  assumes "confirmEcashLock x ns h D w = (y, w')" and "sound e n w" and "n \<noteq> []" and "onlyNotes x ns w"
  shows "sound e n w'"
proof -
  let ?w1 = "nativeLog (InEscrow ns) w"
  obtain ok w2 where o: "onStash (clearPendingNativeLock x) ?w1 = (ok, w2)" by fastforce
  have "x = e \<longrightarrow> \<not> held e n (nw_stash ?w1) \<or> accounted n ?w1"
    using assms(3,4) by (auto simp: onlyNotes_def accounted_def dest!: held_notesAt)
  from sound_clear [OF o sound_log [OF assms(2)] this] have "sound e n w2" .
  then show ?thesis using assms(1,2) o
    by (auto simp: confirmEcashLock_def intro: settleAt_sound split: option.splits if_splits prod.splits)
qed

lemma publishEcash_sound:
  assumes "li_escrowId i = x" and "publishEcash x i ns h D w = (y, w')" and "sound e n w" and "n \<noteq> []"
  shows "sound e n w'"
proof -
  obtain ok1 w1 where a: "onStash (stashNativeLockIntent (ld_now D) i) w = (ok1, w1)" by fastforce
  obtain ok2 w2 where u: "onStash (upgradeNativeLockToSpent (ld_now D) i ns None) w1 = (ok2, w2)" by fastforce
  obtain ok3 w3 where m: "onStash (markNativeLockPublishAttempted x) w2 = (ok3, w3)" by fastforce
  have s1: "sound e n w1" by (rule sound_intent [OF a assms(3)])
  have s2: "sound e n w2" by (rule sound_upgrade [OF u s1 assms(4)])
  have s3: "sound e n w3" by (rule sound_mark [OF m s2])
  let ?w4 = "if ld_sent D then nativeLog (LockPublished ns) w3 else w3"
  have s4: "sound e n ?w4" using s3 by (simp add: sound_log)
  have o: "onlyNotes x ns ?w4" if ok2
  proof -
    from u that have up: "upgradeNativeLockToSpent (ld_now D) i ns None (nw_stash w1) = (True, nw_stash w2)"
      by (auto simp: onStash_def split: prod.splits)
    from m have mk: "markNativeLockPublishAttempted x (nw_stash w2) = (ok3, nw_stash w3)"
      by (auto simp: onStash_def split: prod.splits)
    show ?thesis using upgrade_notes [OF up] mark_notes [OF mk] assms(1) s1 s2 by (auto simp: onlyNotes_def sound_def)
  qed
  show ?thesis using assms(2,3) a u m s1 s2 s3 s4 confirmEcash_sound [OF _ s4 assms(4)] o
    by (auto simp: publishEcash_def Let_def split: if_splits bool.splits)
qed

lemma lockWithEcash_sound:
  assumes "lockAndPublishWithEcash x ns opts D w = (y, w')" and "sound e n w" and "n \<noteq> []"
  shows "sound e n w'"
proof -
  obtain r w1 where st: "settleAt BeforeSpend x D w = (r, w1)" by fastforce
  have s1: "sound e n w1" by (rule settleAt_sound [OF st assms(2)])
  have f: "sound e n w2" if "publishEcash x \<lparr>li_escrowId = x, li_amountMsats = amount, li_federationId = ld_federationId D,
      li_spendTimeoutSecs = Some LOCK_SPEND_TRY_CANCEL_SECS, li_lockOpts = Some opts\<rparr> ns h D w1 = (z, w2)" for amount h z w2
    by (rule publishEcash_sound [OF _ that s1 assms(3)]) simp
  show ?thesis using assms(1,2) st s1 f
    by (auto simp: lockAndPublishWithEcash_def Let_def split: if_splits option.splits native_outcome.splits)
qed

text \<open>What a device does to the stash: funding runs, settlements, drains, withdrawals, cleaned-up intents.\<close>

datatype native_act =
    Fund string native_lock_opts lock_deps
  | FundWithEcash string string native_lock_opts lock_deps
  | Settle string recovery_deps bool bool
  | BootDrain "string \<Rightarrow> recovery_deps"
  | TakeBack string bool recovery_deps bool
  | PaymentExpired string
  | BeginFunding int lock_input

fun nativeAct :: "native_act \<Rightarrow> native_world \<Rightarrow> native_world" where
  "nativeAct (Fund e opts D) w = snd (lockAndPublish e opts D w)"
| "nativeAct (FundWithEcash e ns opts D) w = snd (lockAndPublishWithEcash e ns opts D w)"
| "nativeAct (Settle e D resolves cap) w = snd (settlePendingNativeLockInner e D resolves cap w)"
| "nativeAct (BootDrain deps) w = snd (drainPendingNativeLocks deps w)"
| "nativeAct (TakeBack e withdrawn D resolves) w = snd (bridgeWithdraw e withdrawn D resolves w)"
| "nativeAct (PaymentExpired e) w = snd (onStash (clearPendingNativeLockIfIntent e) w)"
| "nativeAct (BeginFunding now i) w = snd (onStash (stashNativeLockIntent now i) w)"

lemma act_sound: "sound e n w \<Longrightarrow> n \<noteq> [] \<Longrightarrow> sound e n (nativeAct a w)"
proof (cases a)
  case (TakeBack x withdrawn D resolves)
  assume "sound e n w"
  with TakeBack show ?thesis
    by (cases "settlePendingNativeLockInner x D resolves True w") (auto simp: bridgeWithdraw_def dest: settle_sound)
qed (auto intro: lockAndPublish_sound lockWithEcash_sound settle_sound drain_sound sound_clearIfIntent sound_intent surjective_pairing)

lemma acts_sound: "sound e n w \<Longrightarrow> n \<noteq> [] \<Longrightarrow> sound e n (fold nativeAct acts w)"
  by (induction acts arbitrary: w) (auto intro: act_sound)



section \<open>Notes are redeemed only on evidence\<close>

text \<open>
  What a recovery may act on: the chain carries a LOCK of other notes; or it carries none, and either
  the publish of this entry was never attempted or its LOCK was refused and nothing was claimed. A
  refused LOCK that held shares back is retired on this device first.
\<close>

definition notesFree :: "pending_lock \<Rightarrow> string \<Rightarrow> recovery_deps \<Rightarrow> state \<Rightarrow> share_io \<Rightarrow> bool" where
  "notesFree p n D s io \<longleftrightarrow> (case nonEmpty (lk_notesHash (st_lock s)) of
     Some c \<Rightarrow> (\<exists>h. rd_hashNotes D n = Some h \<and> h \<noteq> c)
   | None \<Rightarrow> pl_stage p = Spent
       \<or> (\<exists>h. rd_hashNotes D n = Some h \<and> list_ex (ourRefusedLock h) (st_rejectedLocks s) \<and> \<not> truthyN (st_claimedAt s)
            \<and> (list_ex (ourWithheldLock h) (st_rejectedLocks s) \<longrightarrow> storedStep (keyOf (pl_escrowId p) h) io = Some StepWithdraw)))"

definition redeemedIn :: "string \<Rightarrow> native_world \<Rightarrow> bool" where
  "redeemedIn n w \<longleftrightarrow> Redeemed n \<in> set (nw_log w)"

lemma redeemedIn_simps [simp]:
  "redeemedIn n (nativeLog (ReportedConsumed k) w) = redeemedIn n w" "redeemedIn n (nativeLog (InEscrow k) w) = redeemedIn n w"
  "redeemedIn n (nativeLog (Redeemed k) w) = (n = k \<or> redeemedIn n w)" "redeemedIn n (w\<lparr>nw_shares := io\<rparr>) = redeemedIn n w"
  "redeemedIn n (w\<lparr>nw_stash := d\<rparr>) = redeemedIn n w"
  by (auto simp: redeemedIn_def nativeLog_def)

lemma onStash_frame: "onStash f w = (ok, w') \<Longrightarrow> redeemedIn n w' = redeemedIn n w \<and> nw_shares w' = nw_shares w"
  by (auto simp: onStash_def redeemedIn_def split: prod.splits)

lemma keepNoted_frame: "keepNoted e r w = (y, w') \<Longrightarrow> redeemedIn n w' = redeemedIn n w"
  unfolding keepNoted_def by (cases "onStash (noteKept e r False) w") (auto simp: answer_def dest: onStash_frame)

lemma shares_log [simp]: "nw_shares (nativeLog x w) = nw_shares w"
  by (simp add: nativeLog_def)

lemma reabsorbFailed_frame: "reabsorbFailed p k c x w = (y, w') \<Longrightarrow> redeemedIn n w' = redeemedIn n w \<and> nw_shares w' = nw_shares w"
proof -
  assume h: "reabsorbFailed p k c x w = (y, w')"
  obtain ok w2 where o: "onStash (clearPendingNativeLockMatching (pl_escrowId p) k) (nativeLog (ReportedConsumed k) w) = (ok, w2)" by fastforce
  obtain ok4 w4 where o4: "onStash (noteKept (pl_escrowId p) (Thrown (rx_message x)) False) w = (ok4, w4)" by fastforce
  show ?thesis using h o o4 onStash_frame [OF o, of n] onStash_frame [OF o4, of n]
    by (auto simp: reabsorbFailed_def keepNoted_def answer_def split: if_splits)
qed

lemma reabsorbNotes_frame:
  assumes "reabsorbNotes p k D s c w = (y, w')"
  shows "(redeemedIn n w' \<longrightarrow> n = k \<or> redeemedIn n w) \<and> nw_shares w' = nw_shares w"
proof -
  obtain ok w1 where b: "onStash (bumpMatching p) w = (ok, w1)" by fastforce
  obtain ok3 w3 where o: "onStash (if \<not> c \<and> tradeStillLockable s (rd_now D) then downgradeReabsorbedToIntent p (rd_now D)
    else clearPendingNativeLockMatching (pl_escrowId p) k) (nativeLog (Redeemed k) w1) = (ok3, w3)" by fastforce
  show ?thesis using assms b o onStash_frame [OF b, of n] onStash_frame [OF o, of n]
    by (auto simp: reabsorbNotes_def Let_def split: bool.splits option.splits dest!: reabsorbFailed_frame [where n = n])
qed

lemma retire_stored: "retireShares now i h io = (True, io') \<Longrightarrow> storedStep (keyOf i h) io' = Some StepWithdraw"
  using shareAct_grants [of "keyOf i h" "Retire now i h" StepWithdraw io] by simp

lemma recoverUncommitted_evidence:
  assumes "recoverUncommitted p k D s w = (y, w')" and "redeemedIn n w'" and "\<not> redeemedIn n w" and "nonEmpty (lk_notesHash (st_lock s)) = None"
  shows "n = k \<and> notesFree p n D s (nw_shares w')"
  using assms
  by (auto simp: recoverUncommitted_def Let_def notesFree_def keepNoted_frame retire_stored
      split: option.splits if_splits prod.splits bool.splits dest!: reabsorbNotes_frame [where n = n] keepNoted_frame [where n = n])



section \<open>Witnesses\<close>

definition wInput :: "string \<Rightarrow> lock_input" where
  "wInput e = \<lparr>li_escrowId = e, li_amountMsats = 5000, li_federationId = Some ''fed'', li_spendTimeoutSecs = Some 100, li_lockOpts = None\<rparr>"

definition wSpent :: "string \<Rightarrow> string \<Rightarrow> pending_lock" where
  "wSpent e k = spentEntry 10 (wInput e) k None None"

definition wBooks :: "bool list \<Rightarrow> fate list \<Rightarrow> native_world" where
  "wBooks oks fs = \<lparr>nw_stash = \<lparr>dv_text = Holds [(''t1'', wSpent ''t1'' ''n1'')], dv_reads = oks, dv_writes = fs\<rparr>,
     nw_shares = \<lparr>dv_text = Missing, dv_reads = [], dv_writes = []\<rparr>, nw_log = []\<rparr>"

text \<open>Recovery answers: the trade could not be read, or was read as an open trade of the reducer.\<close>

definition wOffline :: recovery_deps where
  "wOffline = \<lparr>rd_loadEscrow = Inl ''offline'', rd_custody = None, rd_redeemNotes = None, rd_redeemRejected = None,
     rd_currentFederationId = Some ''fed'', rd_hashNotes = Some, rd_storageError = \<lparr>rx_code = [], rx_message = ''quota''\<rparr>, rd_now = 20\<rparr>"

definition wOnline :: "state \<Rightarrow> recovery_deps" where
  "wOnline s = wOffline\<lparr>rd_loadEscrow := Inr (Some s)\<rparr>"


lemma wRecovered:
  assumes "nonEmpty (lk_notesHash (st_lock s)) = None" and "st_rejectedLocks s = []"
  shows "\<exists>w'. recoverPendingNativeLock (wSpent ''t1'' ''n1'') (wOnline s) False (wBooks [] []) = (Some Reabsorbed, w') \<and> redeemedIn ''n1'' w'"
  using assms
  by (simp add: recoverPendingNativeLock_def recoverSpent_def wSpent_def spentEntry_def wInput_def wOnline_def wOffline_def wBooks_def
      recoverUncommitted_def reabsorbNotes_def onStash_def bumpMatching_def editStash_def loadStash_def saveStash_def Let_def
      MAX_NATIVE_LOCK_DRAIN_ATTEMPTS_def nativeLog_def redeemedIn_def downgradeReabsorbedToIntent_def
      clearPendingNativeLockMatching_def split: if_splits)

definition wOpenTrade :: state where
  "wOpenTrade = createdState (wCreate 1000) (plainCreate ''sats'' ''p2p-trade'' 3000 ''mint'' ''P'' 1000 1000)"


text \<open>
  The stash is read with the call that takes a storage error for an empty stash. One read that fails
  while another trade begins its funding writes a stash without the first trade's notes.
\<close>

theorem failed_read_forgets_the_stashed_notes:
  "held ''t1'' ''n1'' (nw_stash (wBooks [False] []))
   \<and> (let w = nativeAct (BeginFunding 30 (wInput ''t2'')) (wBooks [False] []) in
      \<not> held ''t1'' ''n1'' (nw_stash w) \<and> \<not> accounted ''n1'' w)"
  by (simp add: held_def wBooks_def wSpent_def spentEntry_def onStash_def stashNativeLockIntent_def editStash_def loadStash_def
      saveStash_def readSoft_def readStrict_def Let_def accounted_def wInput_def)

end
