(* ===== verification/Trade_Mail.thy ===== *)
theory Trade_Mail
  imports Reducer
begin

text \<open>
  The mail of a trade: per-recipient envelopes (\<open>src/escrow-engine/envelope.ts\<close>) and what
  \<open>src/escrow-engine/escrow-client.ts\<close> puts in them (\<open>envelopeRecipients\<close>, \<open>encryptToParticipants\<close>,
  \<open>encryptVoteToParticipants\<close>, \<open>buildVoteShareEnvelope\<close>, the payload and the gates of \<open>vote\<close>).
  The signer's NIP-44 functions and \<open>JSON.stringify\<close> are parameters. A signer answers with a text,
  fails, or asks for an approval; only the last is ever passed on as an error.
\<close>

section \<open>Envelopes\<close>

datatype signer_answer = Answer string | Refused | NeedsApproval

text \<open>Seal \<open>slot pk\<close> for each recipient, in order; an empty key is skipped, a repeated one has its
  slot already. \<open>None\<close> when an encryption fails.\<close>

fun sealFor :: "(string \<Rightarrow> string \<Rightarrow> string option) \<Rightarrow> (string \<Rightarrow> string) \<Rightarrow> string list \<Rightarrow> (string \<times> string) list
    \<Rightarrow> (string \<times> string) list option" where
  "sealFor enc slot [] sealed = Some sealed"
| "sealFor enc slot (pk # pks) sealed =
     (if pk = [] \<or> map_of sealed pk \<noteq> None then sealFor enc slot pks sealed
      else case enc (slot pk) pk of
        None \<Rightarrow> None
      | Some ct \<Rightarrow> sealFor enc slot pks (sealed @ [(pk, ct)]))"

definition createEnvelope :: "(string \<Rightarrow> string \<Rightarrow> string option) \<Rightarrow> string \<Rightarrow> string list \<Rightarrow> (string \<times> string) list option" where
  "createEnvelope enc cleartext recipients = sealFor enc (\<lambda>_. cleartext) recipients []"

text \<open>\<open>Inr None\<close> is the source's null; \<open>Inl\<close> the error it rethrows.\<close>

definition decryptFromEnvelope :: "(string \<Rightarrow> string \<Rightarrow> signer_answer) \<Rightarrow> (string \<times> string) list \<Rightarrow> string \<Rightarrow> string
    \<Rightarrow> errcode + string option" where
  "decryptFromEnvelope dec envelope me sender = (case nonEmpty (map_of envelope me) of
     None \<Rightarrow> Inr None
   | Some ct \<Rightarrow> (case dec ct sender of
       Answer x \<Rightarrow> Inr (Some x) | Refused \<Rightarrow> Inr None | NeedsApproval \<Rightarrow> Inl ''SIGNER_APPROVAL''))"

definition envelopeHasRecipient :: "(string \<times> string) list \<Rightarrow> string \<Rightarrow> bool" where
  "envelopeHasRecipient envelope pk \<longleftrightarrow> map_of envelope pk \<noteq> None"

section \<open>Recipients\<close>

text \<open>The three seats and, on a pooled LOCK, the arbiters of the priority order.\<close>

definition envelopeRecipients :: "state \<Rightarrow> string list" where
  "envelopeRecipients s = dedupe
     (List.map_filter (\<lambda>r. nonEmpty (st_participants s r)) [BUYER, SELLER, ARBITER]
      @ (if lk_arbiterPoolShare (st_lock s) = Some True then filter (\<lambda>pk. pk \<noteq> []) (arbiterPriorityOrder s) else []))"

definition encryptToParticipants :: "(string \<Rightarrow> string \<Rightarrow> string option) \<Rightarrow> string \<Rightarrow> state \<Rightarrow> (string \<times> string) list option" where
  "encryptToParticipants enc payload s =
     (if envelopeRecipients s = [] then None else createEnvelope enc payload (envelopeRecipients s))"

text \<open>
  A vote that carries a share envelope goes whole to the envelope's recipient only; every other
  slot gets four fields of it.
\<close>

definition compactVote :: "vote_payload \<Rightarrow> vote_payload" where
  "compactVote p = (if vp_shareEnvelope p = None then p
     else p\<lparr>vp_onchainRelease := None, vp_shareEnvelope := None, vp_fillEvidence := None\<rparr>)"

definition slotVote :: "string \<Rightarrow> vote_payload \<Rightarrow> vote_payload" where
  "slotVote pk p = (if map_option ve_recipientPubkey (vp_shareEnvelope p) = Some pk then p else compactVote p)"

definition encryptVoteToParticipants ::
  "(vote_payload \<Rightarrow> string) \<Rightarrow> (string \<Rightarrow> string \<Rightarrow> string option) \<Rightarrow> vote_payload \<Rightarrow> state \<Rightarrow> (string \<times> string) list option" where
  "encryptVoteToParticipants json enc p s = (if envelopeRecipients s = [] then None
     else sealFor enc (\<lambda>pk. json (slotVote pk p)) (envelopeRecipients s) [])"

section \<open>Casting a vote\<close>

text \<open>Best effort: whatever is missing or refused leaves the vote without an envelope.\<close>

definition buildVoteShareEnvelope ::
  "(string \<Rightarrow> string) \<Rightarrow> (string \<Rightarrow> string \<Rightarrow> signer_answer) \<Rightarrow> (string \<Rightarrow> string \<Rightarrow> signer_answer) \<Rightarrow> state \<Rightarrow> role
    \<Rightarrow> string \<Rightarrow> outcome \<Rightarrow> errcode + share_envelope option" where
  "buildVoteShareEnvelope sha dec enc s voterRole me oc =
     (let i = shareIndexForRole voterRole;
          cipher = nonEmpty (Option.bind (lk_shares (st_lock s) i) (\<lambda>x. map_of (se_encryptedFor x) me));
          locker = nonEmpty (map_option (\<lambda>(l, _). ev_pubkey l) (firstLock (st_eventChain s)))
      in case (lk_sharePolicy (st_lock s) = Some HOLDER_ONLY_SHARE_POLICY, payoutRecipientFor s oc, cipher, locker) of
        (True, Some (recipient, _), Some myCipher, Some lockerPubkey) \<Rightarrow>
          (case dec myCipher lockerPubkey of
             Refused \<Rightarrow> Inr None
           | NeedsApproval \<Rightarrow> Inl ''SIGNER_APPROVAL''
           | Answer share \<Rightarrow> if \<not> releasedShareMatches sha s i share then Inr None
               else (case enc share recipient of
                  Refused \<Rightarrow> Inr None
                | NeedsApproval \<Rightarrow> Inl ''SIGNER_APPROVAL''
                | Answer ct \<Rightarrow> Inr (Some \<lparr>ve_shareIndex = i, ve_outcome = oc,
                    ve_notesHash = getOr (lk_notesHash (st_lock s)) [], ve_recipientPubkey = recipient,
                    ve_encryptedFor = [(recipient, ct)]\<rparr>)))
      | _ \<Rightarrow> Inr None)"

text \<open>\<open>getMyRole\<close>, and the role a vote is cast in.\<close>

definition getMyRole :: "state \<Rightarrow> string \<Rightarrow> int \<Rightarrow> role option" where
  "getMyRole s pk now = (if pk = [] then None else getActiveRole s pk now)"

definition voteRole :: "state \<Rightarrow> string \<Rightarrow> int \<Rightarrow> role option" where
  "voteRole s pk now = (case getMyRole s pk now of
     Some r \<Rightarrow> Some r
   | None \<Rightarrow> if lk_arbiterPoolShare (st_lock s) = Some True \<and> arbiterVotePriority s pk \<noteq> None
            then Some ARBITER else None)"

definition cycleFor :: "state \<Rightarrow> (string \<Rightarrow> chama_cycle option) \<Rightarrow> chama_cycle option" where
  "cycleFor s resolveChamaCycle =
     (if st_chamaPolicy s = Some SHARE_V2 then Option.bind (nonEmpty (st_parent s)) resolveChamaCycle else None)"

definition votePayload ::
  "env \<Rightarrow> (string \<Rightarrow> string \<Rightarrow> signer_answer) \<Rightarrow> (string \<Rightarrow> string \<Rightarrow> signer_answer) \<Rightarrow> state \<Rightarrow> string \<Rightarrow> int \<Rightarrow> outcome
    \<Rightarrow> settlement_payload option \<Rightarrow> chama_cycle option \<Rightarrow> errcode + vote_payload" where
  "votePayload E dec enc s me now oc onchainRelease cycle = (case voteRole s me now of
     None \<Rightarrow> Inl ''You are not a participant in this escrow''
   | Some r \<Rightarrow> (case canVote E s me now (Some oc) cycle of
       Some reason \<Rightarrow> Inl reason
     | None \<Rightarrow> (case buildVoteShareEnvelope (e_sha E) dec enc s r me oc of
         Inl c \<Rightarrow> Inl c
       | Inr shareEnvelope \<Rightarrow>
           if lk_onchain (st_lock s) \<noteq> None \<and> oc = RELEASE \<and> r \<noteq> ARBITER \<and> onchainRelease = None
           then Inl ''Choose or sign the payout before confirming this on-chain trade.''
           else Inr \<lparr>vp_onchainRelease = onchainRelease, vp_outcome = oc, vp_role = r,
             vp_shareEnvelope = shareEnvelope,
             vp_fillEvidence = (case (cycle, nonEmpty (st_parent s)) of
                (Some c, Some parent) \<Rightarrow> Some (fillEvidenceFor parent c) | _ \<Rightarrow> None),
             vp_votedAt = now\<rparr>)))"

section \<open>Reading a trade through one's own slots\<close>

text \<open>
  The event a recipient decrypts, and the state of a device that has read every vote of the trade
  through its own slot.
\<close>

definition readAs :: "string \<Rightarrow> event \<Rightarrow> event" where
  "readAs pk e = (case ev_payload e of PVote p \<Rightarrow> e\<lparr>ev_payload := PVote (slotVote pk p)\<rparr> | _ \<Rightarrow> e)"

definition asRead :: "string \<Rightarrow> state \<Rightarrow> state" where
  "asRead pk s = s\<lparr>st_eventChain := map (readAs pk) (st_eventChain s)\<rparr>"

end
