(* ===== verification/Mail_Properties.thy ===== *)
theory Mail_Properties
  imports Trade_Mail State_View Worked_Trade
begin

text \<open>
  What the slots of a vote cost. The readers of a trade decrypt different texts of the same vote;
  outside rotation shares the reducer makes the same of all of them, so every device holds the same
  trade. On a rotation share a ruling reaches only the reader the shared secret is for.
\<close>

section \<open>Who gets the mail\<close>

lemma envelopeRecipients_iff:
  "pk \<in> set (envelopeRecipients s) \<longleftrightarrow> pk \<noteq> [] \<and> votingSeat s pk \<noteq> None"
proof -
  have seat: "(\<exists>r\<in>{BUYER, SELLER, ARBITER}. nonEmpty (st_participants s r) = Some pk) \<longleftrightarrow> pk \<noteq> [] \<and> getRole s pk \<noteq> None"
    by (auto simp: nonEmpty_eq_Some getRole_None) (metis (full_types) role.exhaust)
  have "set (List.map_filter (\<lambda>r. nonEmpty (st_participants s r)) [BUYER, SELLER, ARBITER])
      = {pk. \<exists>r\<in>{BUYER, SELLER, ARBITER}. nonEmpty (st_participants s r) = Some pk}"
    by (auto simp: List.map_filter_def split: option.splits)
  then show ?thesis using seat
    by (auto simp: envelopeRecipients_def votingSeat_def arbiterVotePriority_def indexOf_None split: option.splits)
qed

text \<open>Everybody in the list gets a slot, and nobody else does.\<close>

lemma sealFor_keys:
  "sealFor enc slot pks sealed = Some envelope \<Longrightarrow>
    set (map fst envelope) = set (map fst sealed) \<union> (set pks - {[]})"
proof (induction pks arbitrary: sealed)
  case (Cons pk pks)
  from Cons.prems Cons.IH show ?case
    by (auto split: if_splits option.splits dest: map_of_SomeD simp: map_of_eq_None_iff image_iff)
qed simp

lemma sealFor_opens:
  assumes "sealFor enc slot pks sealed = Some envelope"
    and "\<forall>pk ct. map_of sealed pk = Some ct \<longrightarrow> enc (slot pk) pk = Some ct"
  shows "\<forall>pk ct. map_of envelope pk = Some ct \<longrightarrow> enc (slot pk) pk = Some ct"
  using assms
proof (induction pks arbitrary: sealed)
  case (Cons pk pks)
  show ?case
  proof (cases "pk = [] \<or> map_of sealed pk \<noteq> None")
    case True
    with Cons.prems Cons.IH [of sealed] show ?thesis by simp
  next
    case False
    with Cons.prems(1) obtain ct where ct: "enc (slot pk) pk = Some ct"
      "sealFor enc slot pks (sealed @ [(pk, ct)]) = Some envelope" by (auto split: option.splits)
    have "\<forall>k c. map_of (sealed @ [(pk, ct)]) k = Some c \<longrightarrow> enc (slot k) k = Some c"
      using ct(1) Cons.prems(2) by (simp add: map_add_Some_iff)
    from Cons.IH [OF ct(2) this] show ?thesis .
  qed
qed simp

section \<open>The reducer on a slot\<close>

interpretation slots: event_view "readAs pk" "\<lambda>x. x" for pk
  by unfold_locales (auto simp: readAs_def ev_kind_def slotVote_def compactVote_def split: payload.splits)

lemma asRead_viewed: "asRead pk = viewed (readAs pk) (\<lambda>x. x) (\<lambda>x. x) (\<lambda>x. x)"
  by (rule ext) (simp add: asRead_def viewed_def)

lemma slotVote_simps [simp]:
  "vp_outcome (slotVote pk p) = vp_outcome p" "vp_role (slotVote pk p) = vp_role p"
  by (simp_all add: slotVote_def compactVote_def)

lemma readAs_vote: "ev_payload e = PVote p \<Longrightarrow> ev_payload (readAs pk e) = PVote (slotVote pk p)"
  by (simp add: readAs_def)

lemma readAs_cycle: "ev_chamaCycle (readAs pk e) = ev_chamaCycle e"
  by (simp add: readAs_def split: payload.splits)

text \<open>The slot keeps what the reducer judges a vote by.\<close>

definition mailable :: "vote_payload \<Rightarrow> bool" where
  "mailable p \<longleftrightarrow> vp_shareEnvelope p = None \<or> vp_onchainRelease p = None"

lemma slotVote_release: "mailable p \<Longrightarrow> vp_onchainRelease (slotVote pk p) = vp_onchainRelease p"
  by (auto simp: slotVote_def compactVote_def mailable_def)

lemma slot_settlement: "mailable p \<Longrightarrow> voteSettlement (readAs pk e) (slotVote pk p) = voteSettlement e p"
  by (simp add: voteSettlement_def slotVote_release settlementMsg_def [abs_def] slots.head)

lemma slot_release_error:
  "mailable p \<Longrightarrow> atomicReleaseError E s (readAs pk e) (slotVote pk p) = atomicReleaseError E s e p"
proof -
  assume "mailable p"
  then have "voteSettlement (readAs pk e) (slotVote pk p) = voteSettlement e p"
    "vp_onchainRelease (slotVote pk p) = vp_onchainRelease p" by (simp_all add: slot_settlement slotVote_release)
  then show ?thesis unfolding atomicReleaseError_def by (simp only: slotVote_simps)
qed

lemma slot_law:
  assumes "st_chamaPolicy s \<noteq> Some SHARE_V2 \<or> isPrincipal s (ev_pubkey e)"
  shows "voteLaw E s (readAs pk e) (slotVote pk p) = voteLaw E s e p"
proof (cases "st_chamaPolicy s")
  case (Some x)
  then show ?thesis using assms
    by (cases x) (auto simp: voteLaw_def chamaOutcomeError_def voteJudgment_def slots.head)
qed (simp add: voteLaw_def chamaOutcomeError_def)

lemma slot_role: "voterRoleFor s (readAs pk e) (slotVote pk p) = voterRoleFor s e p"
  by (simp add: voterRoleFor_def substituteGuards_def slots.head cong: option.case_cong)

lemma slot_guards:
  "\<forall>g\<in>set (voteRoleGuards s e p r). \<not> fst g \<Longrightarrow> \<forall>g\<in>set (voteRoleGuards s (readAs pk e) (slotVote pk p) r). \<not> fst g"
  by (auto simp: voteRoleGuards_def slots.head slotVote_def compactVote_def split: if_splits option.splits)

lemma handleVote_slot:
  assumes "handleVote E s e p = Inr s'" "mailable p"
    and "st_chamaPolicy s \<noteq> Some SHARE_V2 \<or> isPrincipal s (ev_pubkey e)"
  shows "handleVote E (asRead pk s) (readAs pk e) (slotVote pk p) = Inr (asRead pk s')"
proof -
  from assms(1) obtain r where r: "voterRoleFor s e p = Inr r" "\<forall>g\<in>set (voteRoleGuards s e p r). \<not> fst g"
    "s' = votedState s e p r" "\<forall>g\<in>set (votePreGuards E s e p). \<not> fst g" by (auto simp: handleVote_Inr)
  have "votePreGuards E s (readAs pk e) (slotVote pk p) = votePreGuards E s e p"
    by (simp add: votePreGuards_def slot_release_error [OF assms(2)] slot_law [OF assms(3)])
  with r slot_guards [OF r(2)] show ?thesis
    by (simp add: handleVote_Inr asRead_viewed viewing slot_role
        slots.votedState_seen slot_settlement [OF assms(2)])
qed

text \<open>Every device follows the same trade.\<close>

definition mailed :: "event \<Rightarrow> bool" where
  "mailed e \<longleftrightarrow> (case ev_payload e of PVote p \<Rightarrow> mailable p | _ \<Rightarrow> True)"

lemma circleLaw_slot:
  assumes "st_chamaPolicy s \<noteq> Some SHARE_V2"
  shows "circleLaw E (asRead pk s) (readAs pk e) = circleLaw E s e"
  using slot_law [of s e E pk] assms
  by (cases "ev_payload e") (auto simp: circleLaw_def asRead_viewed viewing readAs_def)

lemma applyEvent_vote:
  "ev_payload e = PVote p \<Longrightarrow> applyEvent E (Some s) e =
    (if circleLaw E s e \<noteq> None then Inl (lawCode (circleLaw E s e)) else applyChained E s e)"
  by (simp add: applyEvent_def applyTo_def)

lemma applyEvent_slot:
  assumes "applyEvent E (Some s) e = Inr s'" "st_chamaPolicy s \<noteq> Some SHARE_V2" "mailed e"
  shows "applyEvent E (Some (asRead pk s)) (readAs pk e) = Inr (asRead pk s')"
proof (cases "\<exists>p. ev_payload e = PVote p")
  case True
  then obtain p where p: "ev_payload e = PVote p" by blast
  then have q: "ev_payload (readAs pk e) = PVote (slotVote pk p)" by (rule readAs_vote)
  from assms(1) p have law: "circleLaw E s e = None" and c: "applyChained E s e = Inr s'"
    by (simp_all add: applyEvent_vote split: if_splits)
  have vote: "dispatch E t e = Inr s' \<Longrightarrow> st_chamaPolicy t \<noteq> Some SHARE_V2
      \<Longrightarrow> dispatch E (asRead pk t) (readAs pk e) = Inr (asRead pk s')" for t
    using p q assms(3) handleVote_slot [of E t e p s' pk] by (simp add: dispatch_simps mailed_def)
  have x: "asRead pk (expire s) = expire (asRead pk s)" by (simp add: asRead_viewed viewing)
  have same: "inChain (asRead pk s) (ev_id (readAs pk e)) = inChain s (ev_id e)"
    "st_status (asRead pk s) = st_status s" "pastDeadline (asRead pk s) (readAs pk e) = pastDeadline s e"
    "strangerPastExpiry (asRead pk s) (readAs pk e) = strangerPastExpiry s e" "ev_kind (readAs pk e) = K_VOTE"
    using p by (simp_all add: asRead_viewed viewing pastDeadline_def strangerPastExpiry_def
        activatesDeferredTranche_def ev_kind_def [of e])
  have "applyChained E (asRead pk s) (readAs pk e) = Inr (asRead pk s')"
    using c vote [of s] vote [of "expire s"] assms(2) p
    by (auto simp: applyChained_def same x ev_kind_def [of e] TRULY_TERMINAL_STATES_def split: if_splits)
  with q law circleLaw_slot [OF assms(2), of E pk e] show ?thesis by (simp add: applyEvent_vote)
next
  case False
  then have "readAs pk e = e" by (cases "ev_payload e") (simp_all add: readAs_def)
  with slots.applyEvent_viewed [of pk e] assms(1) show ?thesis by (simp add: asRead_viewed)
qed

lemma applyEvent_policy: "applyEvent E (Some s) e = Inr s' \<Longrightarrow> st_chamaPolicy s' = st_chamaPolicy s"
  by (drule applyEvent_Some, erule applyTo_cases) (auto dest: switching.identity)

lemma run_slot:
  "run E (Some s) es = Some t \<Longrightarrow> st_chamaPolicy t \<noteq> Some SHARE_V2 \<Longrightarrow> list_all mailed es
    \<Longrightarrow> st_chamaPolicy s = st_chamaPolicy t \<and> run E (Some (asRead pk s)) (map (readAs pk) es) = Some (asRead pk t)"
proof (induction es arbitrary: s)
  case (Cons e es)
  then obtain u where u: "applyEvent E (Some s) e = Inr u" "run E (Some u) es = Some t" by (auto split: sum.splits)
  from Cons.IH [OF u(2)] Cons.prems(2,3) applyEvent_policy [OF u(1)] have r: "st_chamaPolicy s = st_chamaPolicy t"
    "run E (Some (asRead pk u)) (map (readAs pk) es) = Some (asRead pk t)" by simp_all
  with applyEvent_slot [OF u(1), of pk] Cons.prems(2,3) show ?case by simp
qed simp

section \<open>The properties\<close>

text \<open>C34. The envelope of a vote has a slot for exactly the keys that hold a seat of the trade or, on a
  pooled LOCK, may vote as its arbiter; and each of them opens its slot to the text of the vote made
  for it, whenever decryption undoes encryption.\<close>

theorem vote_mail_reaches_exactly_the_voters:
  assumes "encryptVoteToParticipants json enc p s = Some envelope"
    and "\<forall>x pk ct. enc x pk = Some ct \<longrightarrow> ct \<noteq> [] \<and> dec pk ct sender = Answer x"
  shows "(envelopeHasRecipient envelope pk \<longleftrightarrow> pk \<noteq> [] \<and> votingSeat s pk \<noteq> None)
    \<and> (envelopeHasRecipient envelope pk \<longrightarrow>
         decryptFromEnvelope (dec pk) envelope pk sender = Inr (Some (json (slotVote pk p))))"
proof -
  from assms(1) have e: "sealFor enc (\<lambda>pk. json (slotVote pk p)) (envelopeRecipients s) [] = Some envelope"
    by (simp add: encryptVoteToParticipants_def split: if_splits)
  have "envelopeHasRecipient envelope pk \<longleftrightarrow> pk \<in> set (map fst envelope)"
    by (force simp: envelopeHasRecipient_def map_of_eq_None_iff)
  then have keys: "envelopeHasRecipient envelope pk \<longleftrightarrow> pk \<noteq> [] \<and> votingSeat s pk \<noteq> None"
    using sealFor_keys [OF e] by (auto simp: envelopeRecipients_iff)
  have "decryptFromEnvelope (dec pk) envelope pk sender = Inr (Some (json (slotVote pk p)))"
    if "envelopeHasRecipient envelope pk"
  proof -
    from that obtain ct where ct: "map_of envelope pk = Some ct" by (auto simp: envelopeHasRecipient_def)
    with sealFor_opens [OF e] have "enc (json (slotVote pk p)) pk = Some ct" by simp
    with assms(2) ct show ?thesis by (simp add: decryptFromEnvelope_def)
  qed
  with keys show ?thesis by blast
qed

text \<open>C15. Every device follows the same trade. Replay the history of a trade through one reader's own
  slots, each vote as that reader decrypts it: the reducer accepts every event again, and ends in
  the same state but for the share envelopes the reader was not sent. (Rotation shares apart; a
  vote that carries a share never carries an on-chain payout.)\<close>

theorem every_reader_follows_the_trade:
  assumes "run E None es = Some t" "st_chamaPolicy t \<noteq> Some SHARE_V2" "list_all mailed es"
  shows "run E None (map (readAs pk) es) = Some (asRead pk t)"
proof -
  from assms(1) obtain e rest s where es: "es = e # rest" "applyEvent E None e = Inr s" "run E (Some s) rest = Some t"
    by (cases es) (auto split: sum.splits)
  then obtain p where c: "ev_payload e = PCreate p" "handleCreate (e_sha E) e p = Inr s" by (auto simp: applyEvent_None)
  then have e: "readAs pk e = e" by (simp add: readAs_def)
  with c have "asRead pk s = s" by (simp add: handleCreate_Inr asRead_def createdState_simps)
  with run_slot [OF es(3) assms(2), of pk] es e assms(3) show ?thesis by simp
qed

text \<open>C30. On a rotation share an arbiter's ruling that carries a share is accepted by the party it pays
  and refused by every other reader: their slots leave the fill evidence out, and without it the law
  of the round refuses the vote.\<close>

theorem ruling_on_a_share_reaches_only_the_paid_party:
  assumes "applyEvent E (Some s) e = Inr s'" "ev_payload e = PVote p" "vp_shareEnvelope p = Some share"
    and "st_chamaPolicy s = Some SHARE_V2" "\<not> isPrincipal s (ev_pubkey e)"
  shows "applyEvent E (Some s) (readAs (ve_recipientPubkey share) e) = Inr s'
    \<and> (\<forall>pk. pk \<noteq> ve_recipientPubkey share \<longrightarrow>
         applyEvent E (Some (asRead pk s)) (readAs pk e) = Inl ''CHAMA_REFUND_ONLY'')"
proof (intro conjI allI impI)
  have "readAs (ve_recipientPubkey share) e = e" using assms(2,3) by (simp add: readAs_def slotVote_def)
  with assms(1) show "applyEvent E (Some s) (readAs (ve_recipientPubkey share) e) = Inr s'" by simp
next
  fix pk assume pk: "pk \<noteq> ve_recipientPubkey share"
  have q: "ev_payload (readAs pk e) = PVote (compactVote p)" using assms(2,3) pk by (simp add: readAs_def slotVote_def)
  have "voteLaw E s (readAs pk e) (compactVote p) = Some ''Rotation share resolution must commit its fill evidence''"
    using assms(3-5) by (simp add: voteLaw_def chamaOutcomeError_def voteJudgment_def compactVote_def slots.head)
  then have "circleLaw E (asRead pk s) (readAs pk e) = Some ''Rotation share resolution must commit its fill evidence''"
    using q assms(4) by (simp add: circleLaw_def asRead_viewed viewing)
  then show "applyEvent E (Some (asRead pk s)) (readAs pk e) = Inl ''CHAMA_REFUND_ONLY''"
    using q by (simp add: applyEvent_vote lawCode_def)
qed

section \<open>Witnesses\<close>

definition wShared :: vote_payload where
  "wShared = \<lparr>vp_onchainRelease = None, vp_outcome = RELEASE, vp_role = SELLER,
     vp_shareEnvelope = Some \<lparr>ve_shareIndex = 1, ve_outcome = RELEASE, ve_notesHash = ''notes'',
       ve_recipientPubkey = ''B'', ve_encryptedFor = [(''B'', ''x'')]\<rparr>,
     vp_fillEvidence = None, vp_votedAt = 1030\<rparr>"

definition wSharedTrade :: "event list" where
  "wSharedTrade = wLocked 1000 @ [mkEvent ''e3'' ''S'' 1030 (Some ''e2'') (PVote wShared)]"

lemma wShared_ends: "ends wSharedTrade (\<lambda>s. st_chamaPolicy s = None \<and> voteOf s SELLER = Some RELEASE)"
  by code_simp

theorem every_reader_follows_the_trade_witness:
  "run plainEnv None (map (readAs ''A'') wSharedTrade) = Some (asRead ''A'' (stateAfter wSharedTrade))
    \<and> map (readAs ''A'') wSharedTrade \<noteq> wSharedTrade"
proof
  note ran = endsD [OF wShared_ends]
  show "run plainEnv None (map (readAs ''A'') wSharedTrade) = Some (asRead ''A'' (stateAfter wSharedTrade))"
  proof (rule every_reader_follows_the_trade)
    show "run plainEnv None wSharedTrade = Some (stateAfter wSharedTrade)"
      using ran(1) by (auto simp: ran_def stateAfter_def split: option.splits)
    show "st_chamaPolicy (stateAfter wSharedTrade) \<noteq> Some SHARE_V2" using ran(2) by simp
    show "list_all mailed wSharedTrade" by code_simp
  qed
  show "map (readAs ''A'') wSharedTrade \<noteq> wSharedTrade"
    by (simp add: wSharedTrade_def wLocked_def wCreate_def wJoin_def wLock_def mkEvent_def readAs_def
        slotVote_def compactVote_def wShared_def)
qed

definition wSeal :: "string \<Rightarrow> string \<Rightarrow> string option" where
  "wSeal x pk = Some (CHR ''*'' # x)"

definition wOpen :: "string \<Rightarrow> string \<Rightarrow> string \<Rightarrow> signer_answer" where
  "wOpen pk ct sender = (case ct of [] \<Rightarrow> Refused | _ # x \<Rightarrow> Answer x)"

definition wStringify :: "vote_payload \<Rightarrow> string" where
  "wStringify p = (if vp_shareEnvelope p = None then ''vote'' else ''vote+share'')"

lemma wMail: "ends (wLocked 1000) (\<lambda>s. encryptVoteToParticipants wStringify wSeal wShared s
    = Some [(''B'', ''*vote+share''), (''S'', ''*vote''), (''A'', ''*vote''), (''C'', ''*vote''), (''D'', ''*vote'')])"
  by code_simp

theorem vote_mail_reaches_exactly_the_voters_witness:
  "votingSeat (stateAfter (wLocked 1000)) ''C'' \<noteq> None \<and> votingSeat (stateAfter (wLocked 1000)) ''X'' = None"
  using vote_mail_reaches_exactly_the_voters [OF endsD(2) [OF wMail], of wOpen "[]" "''C''"]
    vote_mail_reaches_exactly_the_voters [OF endsD(2) [OF wMail], of wOpen "[]" "''X''"]
  by (cases "votingSeat (stateAfter (wLocked 1000)) ''X''") (auto simp: wSeal_def wOpen_def envelopeHasRecipient_def)

text \<open>A disputed share of a round that did not fill: its arbiter returns it to the member.\<close>

definition wRound :: circle_terms where
  "wRound = \<lparr>ct_shareMsats = 3000, ct_seatThreshold = 2, ct_seatCap = None, ct_unlisted = None, ct_pot = None,
     ct_fillDeadlineSec = 1040, ct_roundEndSec = 1900, ct_roundIndex = 1, ct_prevCircleId = None\<rparr>"

definition wAsShare :: "state \<Rightarrow> state" where
  "wAsShare s = s\<lparr>st_chamaPolicy := Some SHARE_V2, st_chamaCircle := Some wRound, st_parent := Some ''round''\<rparr>"

definition wRuling :: event where
  "wRuling = mkEvent ''e5'' ''A'' 1050 (Some ''e2'') (PVote \<lparr>vp_onchainRelease = None, vp_outcome = REFUND, vp_role = ARBITER,
     vp_shareEnvelope = Some \<lparr>ve_shareIndex = 2, ve_outcome = REFUND, ve_notesHash = ''notes'',
       ve_recipientPubkey = ''B'', ve_encryptedFor = [(''B'', ''x'')]\<rparr>,
     vp_fillEvidence = Some [], vp_votedAt = 1050\<rparr>)"

lemma wRuling_ends: "ends (wDispute 1000) (\<lambda>s. \<not> isPrincipal s ''A''
    \<and> (case applyEvent plainEnv (Some (wAsShare s)) wRuling of Inl _ \<Rightarrow> False | Inr t \<Rightarrow> voteOf t ARBITER = Some REFUND))"
  by code_simp

theorem ruling_on_a_share_reaches_only_the_paid_party_witness:
  "\<exists>t. applyEvent plainEnv (Some (wAsShare (stateAfter (wDispute 1000)))) wRuling = Inr t \<and> voteOf t ARBITER = Some REFUND
    \<and> applyEvent plainEnv (Some (asRead ''A'' (wAsShare (stateAfter (wDispute 1000))))) (readAs ''A'' wRuling)
        = Inl ''CHAMA_REFUND_ONLY''"
proof -
  note w = endsD(2) [OF wRuling_ends]
  then obtain t where t: "applyEvent plainEnv (Some (wAsShare (stateAfter (wDispute 1000)))) wRuling = Inr t"
    "voteOf t ARBITER = Some REFUND" by (auto split: sum.splits)
  with ruling_on_a_share_reaches_only_the_paid_party [OF t(1)] w show ?thesis
    by (simp add: wRuling_def mkEvent_def wAsShare_def isPrincipal_def)
qed

end
