(* ===== verification/Client_Actions.thy ===== *)
theory Client_Actions
  imports Trade_Mail
begin

text \<open>
  What the client of a trade does on its own or at a tap (\<open>src/escrow-engine/escrow-client.ts\<close>): the
  healing REFUND (\<open>maybeAutoRefundExpired\<close>), the RESOLVE that follows the votes (\<open>maybeAutoResolve\<close>),
  \<open>vote\<close> from its local check to its recorded result, \<open>claim\<close>, \<open>complete\<close>, \<open>completeOnchain\<close>,
  \<open>requestStalledSettlement\<close>, \<open>sendSettlement\<close>, \<open>cancel\<close> and \<open>releasePeriod\<close>. Each builder reads the
  trade as the client holds it and gives the payload to sign or the error it throws; what signing and
  publishing return is an argument.
\<close>

section \<open>Events and the client's states\<close>

text \<open>The event a builder signs: it names the last event of the chain.\<close>

definition lastEventId :: "state \<Rightarrow> string option" where
  "lastEventId s = (case rev (st_eventChain s) of [] \<Rightarrow> None | e # _ \<Rightarrow> Some (ev_id e))"

definition signedEvent :: "state \<Rightarrow> string \<Rightarrow> string \<Rightarrow> int \<Rightarrow> string list list \<Rightarrow> payload \<Rightarrow> chama_cycle option \<Rightarrow> event" where
  "signedEvent s me i now tags p cycle = \<lparr>ev_id = i, ev_pubkey = me, ev_timestamp = now, ev_tags = tags,
     ev_escrowId = st_id s, ev_prev = lastEventId s, ev_payload = p, ev_chamaParent = None,
     ev_chamaWitness = None, ev_chamaCycle = cycle\<rparr>"

record client =
  cl_states :: "string \<Rightarrow> state option"
  cl_pendingVotes :: "string list"

definition applyLocally :: "env \<Rightarrow> 'a client_scheme \<Rightarrow> event \<Rightarrow> errcode + ('a client_scheme \<times> state)" where
  "applyLocally E c e = (case applyEvent E (cl_states c (ev_escrowId e)) e of
     Inl code \<Rightarrow> Inl code
   | Inr s \<Rightarrow> Inr (c\<lparr>cl_states := (cl_states c)(ev_escrowId e := Some s)\<rparr>, s))"

section \<open>Casting a vote\<close>

text \<open>After signing: the vote must pass the reducer on the trade as it is now, one vote at a time.\<close>

definition voteBegin :: "env \<Rightarrow> 'a client_scheme \<Rightarrow> event \<Rightarrow> errcode + 'a client_scheme" where
  "voteBegin E c e = (case applyEvent E (cl_states c (ev_escrowId e)) e of
     Inl code \<Rightarrow> Inl code
   | Inr _ \<Rightarrow> if ev_escrowId e \<in> set (cl_pendingVotes c) then Inl ''Your previous vote is still being sent.''
            else Inr (c\<lparr>cl_pendingVotes := ev_escrowId e # cl_pendingVotes c\<rparr>))"

text \<open>
  After publishing, which a relay accepted or not: a trade that holds the event already has recorded
  it, whatever the relay said.
\<close>

definition voteEnd :: "env \<Rightarrow> 'a client_scheme \<Rightarrow> event \<Rightarrow> bool \<Rightarrow> 'a client_scheme \<times> (errcode + state)" where
  "voteEnd E c e published =
     (let trade = ev_escrowId e;
          committed = (case cl_states c trade of None \<Rightarrow> None | Some s \<Rightarrow> if inChain s (ev_id e) then Some s else None);
          answer = (case committed of
             Some s \<Rightarrow> Inr (c, s)
           | None \<Rightarrow> if published then applyLocally E c e else Inl ''NOT_PUBLISHED'');
          next = (case answer of Inl _ \<Rightarrow> c | Inr (c', _) \<Rightarrow> c')
      in (next\<lparr>cl_pendingVotes := removeAll trade (cl_pendingVotes next)\<rparr>, map_sum id snd answer))"

section \<open>The healing REFUND\<close>

text \<open>When the client's own refund is due: for a circle share at the committed end of the round, else
  a full timeout after the later of the LOCK's two clocks.\<close>

definition refundDeadline :: "state \<Rightarrow> int option" where
  "refundDeadline s =
     (if st_chamaPolicy s \<noteq> None then Some (st_expiresAt s)
      else case (List.find (\<lambda>e. ev_kind e = K_LOCK) (st_eventChain s), lk_lockedAt (st_lock s)) of
        (Some l, Some lockedAt) \<Rightarrow>
          let timeout = getOr (st_tradeTimeoutSeconds s) (st_expiresAt s - lockedAt)
          in if timeout \<le> 0 then None else Some (max lockedAt (ev_timestamp l) + timeout)
      | _ \<Rightarrow> None)"

definition resolveSent :: "state \<Rightarrow> bool" where
  "resolveSent s \<longleftrightarrow> list_ex (\<lambda>e. ev_kind e = K_RESOLVE) (st_eventChain s)"

datatype healing = HealAs role | HealAsBackup

definition autoRefundVote :: "state \<Rightarrow> string \<Rightarrow> int \<Rightarrow> healing option" where
  "autoRefundVote s me now =
     (if sharesHeldBack s then None
      else if st_status s \<noteq> LOCKED \<and> \<not> (st_status s = EXPIRED \<and> \<not> resolveSent s) then None
      else case refundDeadline s of
        None \<Rightarrow> None
      | Some deadline \<Rightarrow>
          if now \<le> deadline \<or> isPerformanceContest s now then None
          else (case getRole s me of
              Some r \<Rightarrow> if voteOf s r \<noteq> None then None else Some (HealAs r)
            | None \<Rightarrow> if lk_arbiterPoolShare (st_lock s) \<noteq> Some True \<or> arbiterVotePriority s me = None
                       \<or> hasVoted s me then None else Some HealAsBackup))"

section \<open>The RESOLVE after the votes\<close>

definition tallyVotes :: "(role \<times> outcome) list \<Rightarrow> (outcome \<times> role list) option" where
  "tallyVotes votes =
     (let releasers = map fst (filter (\<lambda>v. snd v = RELEASE) votes);
          refunders = map fst (filter (\<lambda>v. snd v = REFUND) votes)
      in if length votes < 2 then None
         else if length releasers \<ge> 2 then Some (RELEASE, [releasers ! 0, releasers ! 1])
         else if length refunders \<ge> 2 then Some (REFUND, [refunders ! 0, refunders ! 1])
         else None)"

definition autoResolve :: "(string \<Rightarrow> chama_cycle option) \<Rightarrow> state \<Rightarrow> int \<Rightarrow> (resolve_payload \<times> chama_cycle option) option" where
  "autoResolve resolveChamaCycle s now =
     (if st_status s \<noteq> LOCKED \<and> st_status s \<noteq> EXPIRED \<or> resolveSent s then None
      else case tallyVotes (st_votes s) of
        None \<Rightarrow> None
      | Some (oc, majority) \<Rightarrow>
          (let cycle = cycleFor s resolveChamaCycle
           in if st_chamaPolicy s = Some SHARE_V2 \<and> cycle = None then None
              else Some (\<lparr>rp_outcome = oc, rp_majority = majority,
                rp_fillEvidence = (case (cycle, nonEmpty (st_parent s)) of
                   (Some c, Some parent) \<Rightarrow> Some (fillEvidenceFor parent c) | _ \<Rightarrow> None),
                rp_resolvedAt = now\<rparr>, cycle)))"

section \<open>Taking and settling\<close>

definition claimDraft :: "state \<Rightarrow> string \<Rightarrow> string \<Rightarrow> int \<Rightarrow> errcode + claim_payload" where
  "claimDraft s me notesHashVerification now = (case getWinner s of
     None \<Rightarrow> Inl ''You are not the winner of this escrow''
   | Some (pk, r) \<Rightarrow> if pk \<noteq> me then Inl ''You are not the winner of this escrow''
       else Inr \<lparr>clp_claimerRole = r, clp_notesHashVerification = notesHashVerification, clp_claimedAt = now\<rparr>)"

definition completeDraft :: "state \<Rightarrow> string \<Rightarrow> int \<Rightarrow> errcode + payload" where
  "completeDraft s me now =
     (if st_status s \<noteq> CLAIMED then Inl ''Cannot complete in this state (need CLAIMED)''
      else if map_option fst (getWinner s) \<noteq> Some me then Inl ''Only the winner can publish COMPLETE''
      else Inr (PComplete now))"

text \<open>The winner, when a principal; the proof a settlement message gives for the locked terms.\<close>

definition payoutProof :: "env \<Rightarrow> state \<Rightarrow> settlement_msg option \<Rightarrow> lock_terms \<Rightarrow> settlement_proof option \<times> settlement_proof option" where
  "payoutProof E s m t = (case (m, getWinner s) of
     (Some msg, Some (pk, r)) \<Rightarrow>
       if r \<noteq> BUYER \<and> r \<noteq> SELLER then (None, None)
       else if arbitrated s
       then (None, finalArbiterSettlementProof E (sm_payload msg) t r (st_settlements s) (Some pk))
       else (finalCoopSettlementProof E (sm_payload msg) t r (st_settlements s) (Some pk), None)
   | _ \<Rightarrow> (None, None))"

definition completeOnchainDraft :: "env \<Rightarrow> state \<Rightarrow> string \<Rightarrow> string \<Rightarrow> int \<Rightarrow> errcode + (payload \<times> string list list)" where
  "completeOnchainDraft E s me proofId now =
     (let refundMessage = List.find (\<lambda>m. sm_id m = proofId \<and> msgLeaf m = LF_REFUND) (st_settlements s);
          refund = (case (refundMessage, st_onchainFundingTerms s) of
             (Some m, Some terms) \<Rightarrow> if finalRefundSettlementProof E (sm_payload m) terms \<noteq> None then Some terms else None
           | _ \<Rightarrow> None);
          settlementProof = List.find (\<lambda>m. sm_id m = proofId) (st_settlements s)
      in if refund = None \<and> (lk_onchain (st_lock s) = None \<or> st_status s \<noteq> APPROVED)
         then Inl ''Cannot complete on-chain escrow in this state''
         else let authorized = (case refund of
             Some terms \<Rightarrow> st_participants s (ft_funder terms) = Some me
           | None \<Rightarrow> (case lk_onchain (st_lock s) of None \<Rightarrow> False
               | Some t \<Rightarrow> (case payoutProof E s settlementProof t of
                   (Some _, _) \<Rightarrow> st_participants s BUYER = Some me \<or> st_participants s SELLER = Some me
                 | (None, Some _) \<Rightarrow> Option.bind (map_option snd (getWinner s)) (st_participants s) = Some me
                     \<or> st_participants s ARBITER = Some me
                 | (None, None) \<Rightarrow> False)))
         in if \<not> authorized then Inl ''The selected settlement proof is not replay-valid for this signer''
            else Inr (PComplete now, [[''settlement'', proofId]]))"

definition stalledDraft :: "env \<Rightarrow> client \<Rightarrow> string \<Rightarrow> string \<Rightarrow> string \<Rightarrow> int \<Rightarrow> string \<Rightarrow> settlement_payload \<Rightarrow> errcode + event" where
  "stalledDraft E c trade me i now proposalId payout = (case cl_states c trade of
     None \<Rightarrow> Inl ''Trade is not loaded.''
   | Some s \<Rightarrow> (let e = signedEvent s me i now [] (PStalled proposalId payout) None in
       case applyEvent E (Some s) e of Inl code \<Rightarrow> Inl code | Inr _ \<Rightarrow> Inr e))"

definition settlementDraft :: "state \<Rightarrow> string \<Rightarrow> settlement_payload \<Rightarrow> errcode + (settlement_payload \<times> string list)" where
  "settlementDraft s me p =
     (if getRole s me \<noteq> Some (sp_role p) then Inl ''Settlement sender role does not match this trade''
      else Inr (p, dedupe (filter (\<lambda>pk. pk \<noteq> [])
        (List.map_filter (\<lambda>r. st_participants s r) [BUYER, SELLER, ARBITER] @ [me]))))"

section \<open>Cancelling, releasing a period\<close>

definition cancelDraft :: "state \<Rightarrow> string \<Rightarrow> int \<Rightarrow> errcode + payload" where
  "cancelDraft s me now = (if me \<noteq> st_initiator s then Inl ''Only the initiator can cancel'' else Inr (PCancel now))"

definition releasePeriodDraft :: "state \<Rightarrow> string \<Rightarrow> int \<Rightarrow> int \<Rightarrow> errcode + release_payload" where
  "releasePeriodDraft s me i now = (case st_subscription s of
     None \<Rightarrow> Inl ''This escrow is not a subscription''
   | Some sub \<Rightarrow> (case getMyRole s me now of
       None \<Rightarrow> Inl ''You are not a participant in this escrow''
     | Some r \<Rightarrow>
         if i < 0 \<or> i \<ge> sub_totalPeriods sub then Inl ''Period out of range''
         else if periodStatus sub i = Some P_RELEASED then Inl ''Period already released''
         else Inr \<lparr>prp_periodIndex = i, prp_amountMsats = sub_periodAmountMsats sub, prp_triggeredBy = r,
                   prp_releasedAt = now\<rparr>))"

end
