(* ===== verification/Client_Properties.thy ===== *)
theory Client_Properties
  imports Client_Actions Payout_Properties
begin

text \<open>
  The client against the reducer: what it decides on its own is what the reducer would accept.
\<close>

section \<open>RESOLVE once\<close>

definition resolveOk :: "state \<Rightarrow> bool" where
  "resolveOk s \<longleftrightarrow> (resolveSent s \<longrightarrow> st_status s \<notin> {CREATED, LOCKED, EXPIRED})"

lemma resolveSent_append: "st_eventChain s' = st_eventChain s @ [e] \<Longrightarrow> resolveSent s' \<longleftrightarrow> resolveSent s \<or> ev_kind e = K_RESOLVE"
  by (auto simp: resolveSent_def)

lemma resolveOk_dispatch:
  assumes "resolveOk s" "dispatch E s e = Inr s'" "st_status s \<notin> TRULY_TERMINAL_STATES"
  shows "resolveOk s'"
proof (cases "ev_kind e = K_RESOLVE")
  case True
  then obtain p where "handleResolve E s e p = Inr s'"
    using assms(2) by (cases "ev_payload e") (auto simp: ev_kind_def dispatch_simps)
  then show ?thesis by (auto simp: resolveOk_def elim!: handleResolve_Inr)
next
  case False
  with switching.chain [OF assms(2)] have "resolveSent s' \<longleftrightarrow> resolveSent s"
    using resolveSent_append [of s' s e] by (auto simp: resolveSent_def)
  with assms switching.status [OF assms(2)] show ?thesis
    by (auto simp: resolveOk_def statusMoves_def staying_def TRULY_TERMINAL_STATES_def)
qed

interpretation resolves: reducer_invariant E resolveOk for E
  by unfold_locales
    (simp_all add: resolveOk_dispatch handleCreate_Inr, auto simp: resolveOk_def resolveSent_def ev_kind_def)

lemma not_resolved: "reachable E s \<Longrightarrow> st_status s \<in> {LOCKED, EXPIRED} \<Longrightarrow> \<not> resolveSent s"
  using resolves.always by (auto simp: resolveOk_def)

section \<open>The RESOLVE after the votes\<close>

lemma tallyVotes_threshold:
  "tallyVotes votes = map_option (\<lambda>(oc, majority, _). (oc, majority)) (checkVoteThreshold votes)"
proof -
  have two: "2 \<le> length xs \<Longrightarrow> take 2 xs = [xs ! 0, xs ! 1]" for xs :: "role list"
    by (cases xs; cases "tl xs") auto
  show ?thesis using two [of "rolesVoting votes RELEASE"] two [of "rolesVoting votes REFUND"]
    by (simp add: tallyVotes_def checkVoteThreshold_def Let_def rolesVoting_def)
qed

lemma autoResolve_Some:
  assumes "autoResolve cyc s now = Some (p, cycle)"
  shows "st_status s \<in> {LOCKED, EXPIRED}" "\<not> resolveSent s" "rp_resolvedAt p = now"
    "\<exists>arb. checkVoteThreshold (st_votes s) = Some (rp_outcome p, rp_majority p, arb)"
  using assms by (auto simp: autoResolve_def tallyVotes_threshold Let_def split: if_splits option.splits)

lemma resolve_accepted:
  assumes "checkVoteThreshold (st_votes s) = Some (rp_outcome p, rp_majority p, arb)"
    "st_status s \<in> {LOCKED, EXPIRED}" "st_chamaPolicy s = None"
  shows "\<exists>s'. handleResolve E s e p = Inr s' \<and> st_status s' = APPROVED \<and> st_resolvedOutcome s' = Some (rp_outcome p)"
  using assms by (simp add: handleResolve_def resolveLaw_def chamaOutcomeError_def)

lemma autoResolve_expire:
  "st_status s = LOCKED \<Longrightarrow> autoResolve cyc (expire s) now = autoResolve cyc s now"
  by (cases "tallyVotes (st_votes s)") (auto simp: autoResolve_def resolveSent_def cycleFor_def expire_def Let_def)

lemma resolve_applied:
  assumes "ev_payload e = PResolve p" "st_chamaPolicy s = None" "\<not> inChain s (ev_id e)"
    "st_status s \<in> {LOCKED, EXPIRED}" "getRole s (ev_pubkey e) \<noteq> None"
  shows "applyEvent E (Some s) e = (if pastDeadline s e \<and> st_status s = LOCKED then Inr (expire s) else handleResolve E s e p)"
  using assms by (auto simp: applyEvent_def applyTo_def applyChained_def circleLaw_def strangerPastExpiry_def
      mayCarryPastExpiry_def ev_kind_def dispatch_simps TRULY_TERMINAL_STATES_def)

text \<open>C14. The client publishes a RESOLVE exactly when the reducer would take one: outside circle shares
  it builds one if and only if some RESOLVE is acceptable; and the one it builds, signed by a seat,
  approves the voted outcome, or, when it comes after the deadline of a trade still LOCKED, expires
  the trade, where the same RESOLVE is built again.\<close>

theorem auto_resolve_matches_the_reducer:
  assumes "reachable E s" "st_chamaPolicy s = None"
  shows "(autoResolve cyc s now \<noteq> None \<longleftrightarrow> (\<exists>e p s'. handleResolve E s e p = Inr s'))
    \<and> (\<forall>p cycle e. autoResolve cyc s now = Some (p, cycle) \<longrightarrow> ev_payload e = PResolve p \<longrightarrow> \<not> inChain s (ev_id e)
        \<longrightarrow> getRole s (ev_pubkey e) \<noteq> None \<longrightarrow>
        (\<exists>t. applyEvent E (Some s) e = Inr t
           \<and> (st_status t = APPROVED \<and> st_resolvedOutcome t = Some (rp_outcome p)
              \<or> st_status s = LOCKED \<and> st_status t = EXPIRED \<and> autoResolve cyc t now = Some (p, cycle))))"
proof (intro conjI allI impI)
  show "autoResolve cyc s now \<noteq> None \<longleftrightarrow> (\<exists>e p s'. handleResolve E s e p = Inr s')"
  proof
    assume "autoResolve cyc s now \<noteq> None"
    then obtain p cycle where "autoResolve cyc s now = Some (p, cycle)" by auto
    from autoResolve_Some [OF this] resolve_accepted [of s p _ E] assms(2)
    show "\<exists>e p s'. handleResolve E s e p = Inr s'" by blast
  next
    assume "\<exists>e p s'. handleResolve E s e p = Inr s'"
    then obtain e p s' where h: "handleResolve E s e p = Inr s'" by blast
    then obtain oc maj arb where t: "checkVoteThreshold (st_votes s) = Some (oc, maj, arb)"
      "st_status s \<in> {LOCKED, EXPIRED}" by (elim handleResolve_Inr) blast
    with not_resolved [OF assms(1)] assms(2) show "autoResolve cyc s now \<noteq> None"
      by (auto simp: autoResolve_def tallyVotes_threshold Let_def)
  qed
next
  fix p cycle and e :: event
  assume a: "autoResolve cyc s now = Some (p, cycle)" and e: "ev_payload e = PResolve p" "\<not> inChain s (ev_id e)"
    "getRole s (ev_pubkey e) \<noteq> None"
  note built = autoResolve_Some [OF a]
  from built(4) obtain arb where "checkVoteThreshold (st_votes s) = Some (rp_outcome p, rp_majority p, arb)" by blast
  from resolve_accepted [OF this built(1) assms(2)] resolve_applied [OF e(1) assms(2) e(2) built(1) e(3), of E]
    autoResolve_expire [of s cyc now] a
  show "\<exists>t. applyEvent E (Some s) e = Inr t
     \<and> (st_status t = APPROVED \<and> st_resolvedOutcome t = Some (rp_outcome p)
        \<or> st_status s = LOCKED \<and> st_status t = EXPIRED \<and> autoResolve cyc t now = Some (p, cycle))"
    by (cases "pastDeadline s e \<and> st_status s = LOCKED") auto
qed

section \<open>Who has voted\<close>

text \<open>Every vote of the chain stands in its slot, and a seat of a locked trade has voted as itself.\<close>

definition votersOk :: "state \<Rightarrow> bool" where
  "votersOk s \<longleftrightarrow> (\<forall>e\<in>set (st_eventChain s). \<forall>p. ev_payload e = PVote p \<longrightarrow> voteOf s (vp_role p) \<noteq> None
      \<and> (0 < lockCount s \<longrightarrow> (\<forall>r. getRole s (ev_pubkey e) = Some r \<longrightarrow> vp_role p = r)))
    \<and> (lk_arbiterPoolShare (st_lock s) \<noteq> None \<longrightarrow> 0 < lockCount s)"

lemma votedState_own_slot:
  assumes "handleVote E s e p = Inr s'" "ev_payload e = PVote p" "lockedOk s" "votersOk s"
  shows "voteOf s' (vp_role p) \<noteq> None"
proof -
  note v = handleVote_facts [OF assms(1)]
  show ?thesis
  proof (cases "vp_role p = ARBITER \<and> lk_arbiterPoolShare (st_lock s) = Some True")
    case False
    with v(5) show ?thesis by (auto simp: votedState_voteOf)
  next
    case True
    let ?next = "s\<lparr>st_settlements := st_settlements s @ (case voteSettlement e p of None \<Rightarrow> [] | Some m \<Rightarrow> [m]),
                   st_eventChain := st_eventChain s @ [e]\<rparr>"
    from True assms(3,4) obtain a where a: "nonEmpty (st_participants s ARBITER) = Some a"
      by (auto simp: votersOk_def lockedOk_def seatsFixed_def nonEmpty_eq_Some)
    have "arbiterVotePriority s (ev_pubkey e) \<noteq> None"
      using v(6) True a priority_zero [OF a, of "ev_pubkey e"] by (auto simp: mayVoteAs_def nonEmpty_eq_Some)
    then have "slotOf ?next e \<noteq> None"
      using True assms(2) by (simp add: slotOf_def arbiterVotePriority_def arbiterPriorityOrder_def)
    then obtain b where "bestSlot ?next (st_eventChain s @ [e]) None = Some b"
      using bestSlot_None [of ?next "st_eventChain s @ [e]" None] by auto
    with True v(5) show ?thesis by (simp add: votedState_def voteOf_def voteOf_update)
  qed
qed

lemma votersOk_dispatch:
  assumes i: "lockedOk s" "ballotOk s" "votersOk s" and d: "dispatch E s e = Inr s'"
  shows "votersOk s'"
proof -
  have fresh: "\<not> (\<exists>x\<in>set (st_eventChain s). \<exists>p. ev_payload x = PVote p)" if "st_status s = CREATED"
    using that i(2,3) by (auto simp: votersOk_def ballotOk_def voteOf_def)
  consider (early) "ev_kind e \<in> {K_JOIN, K_LOCK}" | (vote) p where "ev_payload e = PVote p"
    | (other) "ev_kind e \<notin> {K_JOIN, K_LOCK, K_VOTE}"
    by (cases "ev_payload e") (auto simp: ev_kind_def)
  then show ?thesis
  proof cases
    case early
    then consider p where "handleJoin E s e p = Inr s'" "ev_payload e = PJoin p" | p where "handleLock E s e p = Inr s'" "ev_payload e = PLock p"
      using d by (auto simp: ev_kind_cases dispatch_simps)
    then show ?thesis
    proof cases
      case 1
      then have "st_status s = CREATED" "lockCount s' = lockCount s"
        using joining.status [OF 1(1)] dispatch_lockCount [OF d] by (simp_all add: ev_kind_def)
      with fresh 1(2) i(3) show ?thesis by (simp add: votersOk_def handleJoin_frame [OF 1(1)])
    next
      case 2
      with fresh handleLock_pre(1) [OF 2(1)] show ?thesis
        by (auto simp: votersOk_def handleLock_Inr lockCount_def ev_kind_def)
    qed
  next
    case vote
    with d have h: "handleVote E s e p = Inr s'" by (simp add: dispatch_simps)
    note v = handleVote_facts [OF h]
    have kept: "voteOf s r \<noteq> None \<Longrightarrow> voteOf s' r \<noteq> None" for r
      using votedState_votes [of s e p "vp_role p"] v(5) by (auto simp: voteOf_def voteOf_update)
    have seat: "getRole s' pk = getRole s pk" "lockCount s' = lockCount s" for pk
      using v(5) vote by (simp_all add: getRole_def votedState_frame lockCount_def ev_kind_def)
    have own: "getRole s (ev_pubkey e) = Some r \<Longrightarrow> vp_role p = r" for r
      using v(4) by (simp add: voterRoleFor_def)
    from i(3) kept votedState_own_slot [OF h vote i(1,3)] own vote v(5) seat show ?thesis
      by (auto simp: votersOk_def votedState_frame)
  next
    case other
    then have b: "sameBench s s'" using dispatch_bench [OF d] by auto
    have votes: "voteOf s' r = voteOf s r" if "ev_kind e \<noteq> K_RESOLVE" for r
      using dispatch_votes(1) [OF d] other that by (auto simp: voteOf_def)
    have resolve: "voteOf s' r = voteOf s r" if "ev_kind e = K_RESOLVE" for r
      using d that by (cases "ev_payload e") (auto simp: ev_kind_def dispatch_simps voteOf_def elim!: handleResolve_Inr)
    have seat: "getRole s' pk = getRole s pk" if "0 < lockCount s" for pk
    proof -
      have "st_participants s' r = st_participants s r" for r
        using b i(1) that by (cases r) (auto simp: sameBench_def lockedOk_def)
      then show ?thesis by (simp add: getRole_def)
    qed
    have chain: "\<forall>x\<in>set (st_eventChain s'). \<forall>p. ev_payload x = PVote p \<longrightarrow> x \<in> set (st_eventChain s)"
      using switching.chain [OF d] other by (auto simp: ev_kind_cases)
    from i(3) chain votes resolve seat b show ?thesis unfolding votersOk_def sameBench_def by metis
  qed
qed

interpretation voters: reducer_invariant E "\<lambda>s. (lockedOk s \<and> ballotOk s) \<and> votersOk s" for E
proof unfold_locales
  fix s e s' assume "(lockedOk s \<and> ballotOk s) \<and> votersOk s" "dispatch E s e = Inr s'" "\<not> inChain s (ev_id e)"
    "st_status s \<notin> TRULY_TERMINAL_STATES"
  then show "(lockedOk s' \<and> ballotOk s') \<and> votersOk s'" using ballots.handling [of s E e s'] votersOk_dispatch by blast
next
  fix e p s assume "ev_payload e = PCreate p" "handleCreate (e_sha E) e p = Inr s"
  then show "(lockedOk s \<and> ballotOk s) \<and> votersOk s" using ballots.created [of e p E s]
    by (auto simp: handleCreate_Inr votersOk_def)
qed (use ballots.expiring ballots.premiums ballots.transport ballots.noting ballots.rejecting in
    \<open>auto simp: votersOk_def voteOf_def lockCount_def getRole_def expire_def\<close>)

lemma seat_voted:
  assumes "reachable E s" "0 < lockCount s" "getRole s pk = Some r" "hasVoted s pk"
  shows "voteOf s r \<noteq> None"
proof -
  from assms(4) obtain e p where "e \<in> set (st_eventChain s)" "ev_payload e = PVote p" "ev_pubkey e = pk"
    by (auto simp: hasVoted_iff ev_kind_cases)
  with voters.always [OF assms(1)] assms(2,3) show ?thesis by (auto simp: votersOk_def)
qed

section \<open>The healing REFUND\<close>

text \<open>The clocks of a locked trade without a plan: it expires one timeout after its LOCK says it locked.\<close>

definition clockOk :: "state \<Rightarrow> bool" where
  "clockOk s \<longleftrightarrow> (\<forall>l p. firstLock (st_eventChain s) = Some (l, p) \<longrightarrow> lk_lockedAt (st_lock s) = Some (lp_lockedAt p)
     \<and> (st_chamaPolicy s = None \<longrightarrow> st_tranchePlan s = None \<longrightarrow>
          (\<exists>t. st_tradeTimeoutSeconds s = Some t \<and> st_expiresAt s = lp_lockedAt p + t)))"

lemma firstLock_count: "firstLock (st_eventChain s) = None \<longleftrightarrow> lockCount s = 0"
proof -
  have "(\<exists>p. ev_payload e = PLock p) \<longleftrightarrow> ev_kind e = K_LOCK" for e by (simp add: ev_kind_cases)
  then show ?thesis
    by (auto simp: firstLock_def lockCount_def filter_empty_conv ev_kind_cases find_None_iff_ball
        dest!: find_Some_in split: option.splits payload.splits)
qed

lemma step_lockedAt: "handleLockStep s e p = Inr s' \<Longrightarrow>
    lk_lockedAt (st_lock s') = lk_lockedAt (st_lock s) \<and> st_expiresAt s' = st_expiresAt s
    \<and> st_tradeTimeoutSeconds s' = st_tradeTimeoutSeconds s \<and> st_tranchePlan s' = st_tranchePlan s"
  by (auto simp: handleLockStep_def acceptStep_def releaseStep_def releasedLock_def guarded_Inr Let_def
      split: lock_step.splits option.splits)

lemma votedState_clock:
  "st_tradeTimeoutSeconds (votedState s e p r) = st_tradeTimeoutSeconds s"
  "st_tranchePlan (votedState s e p r) = st_tranchePlan s"
  by (simp_all add: votedState_def Let_def split: option.splits)

lemma dispatch_clock:
  assumes "dispatch E s e = Inr s'" "ev_kind e \<notin> {K_JOIN, K_LOCK, K_PLAN_START}"
  shows "lk_lockedAt (st_lock s') = lk_lockedAt (st_lock s) \<and> st_expiresAt s' = st_expiresAt s
    \<and> st_tradeTimeoutSeconds s' = st_tradeTimeoutSeconds s \<and> st_tranchePlan s' = st_tranchePlan s"
proof (cases "ev_payload e")
  case (PLockStep p)
  with assms(1) step_lockedAt show ?thesis by (simp add: dispatch_simps)
next
  case (PVote p)
  with assms(1) show ?thesis
    by (auto simp: dispatch_simps votedState_frame votedState_clock dest!: handleVote_facts(5))
next
  case (PComplete t)
  with assms(1) show ?thesis
    by (auto simp: dispatch_simps completedState_def Let_def dest!: handleComplete_Inr)
qed (use assms in \<open>auto simp: dispatch_def ev_kind_def handleCancel_Inr handleSubscribe_Inr handleChat_Inr
    stalledState_def Let_def elim!: handleResolve_Inr handleClaim_Inr handleSettlementStalled_Inr
    handlePeriodRelease_Inr dest!: handleChildKey_Inr\<close>)

lemma clockOk_dispatch:
  assumes "lockedOk s" "clockOk s" "dispatch E s e = Inr s'"
  shows "clockOk s'"
proof -
  consider (lock) p where "handleLock E s e p = Inr s'" "ev_payload e = PLock p"
    | (join) "ev_kind e = K_JOIN" | (plan) p where "handlePlanStart s e p = Inr s'" "ev_payload e = PPlanStart p"
    | (other) "ev_kind e \<notin> {K_JOIN, K_LOCK, K_PLAN_START}"
    using assms(3) by (cases "ev_payload e") (auto simp: ev_kind_def dispatch_simps)
  then show ?thesis
  proof cases
    case lock
    then have "lockCount s = 0" using handleLock_pre(1) [OF lock(1)] assms(1) by (simp add: lockedOk_def)
    then have "firstLock (st_eventChain s) = None" by (simp add: firstLock_count)
    then have "List.find (\<lambda>e. ev_kind e = K_LOCK) (st_eventChain s) = None"
      by (auto simp: firstLock_def ev_kind_cases dest!: find_Some_in split: option.splits payload.splits)
    then have "firstLock (st_eventChain s @ [e]) = Some (e, p)"
      using lock(2) by (simp add: firstLock_def find_append ev_kind_def)
    with lock(1) show ?thesis
      by (auto simp: clockOk_def handleLock_Inr lockedState_def lockedLock_def Let_def)
  next
    case join
    then obtain p where "handleJoin E s e p = Inr s'" using assms(3) by (auto simp: ev_kind_cases dispatch_simps)
    with joining.status assms(1) have "lockCount s = 0" by (fastforce simp: lockedOk_def)
    moreover have "lockCount s' = lockCount s" using dispatch_lockCount [OF assms(3)] join by simp
    ultimately have "lockCount s' = 0" by simp
    then show ?thesis by (simp add: clockOk_def firstLock_count [symmetric])
  next
    case plan
    from assms(2) handlePlanStart_Inr [OF plan(1)] plan(2) show ?thesis
      by (auto simp: clockOk_def firstLock_def find_append ev_kind_def split: option.splits)
  next
    case other
    have "firstLock (st_eventChain s') = firstLock (st_eventChain s)"
      using switching.chain [OF assms(3)] other
      by (auto simp: firstLock_def find_append split: option.splits)
    with assms(2) dispatch_clock [OF assms(3) other] switching.identity [OF assms(3)] show ?thesis
      by (simp add: clockOk_def)
  qed
qed

interpretation clocks: reducer_invariant E "\<lambda>s. lockedOk s \<and> clockOk s" for E
proof unfold_locales
  fix s e s' assume "lockedOk s \<and> clockOk s" "dispatch E s e = Inr s'" "\<not> inChain s (ev_id e)"
    "st_status s \<notin> TRULY_TERMINAL_STATES"
  then show "lockedOk s' \<and> clockOk s'" using lockedOk_dispatch clockOk_dispatch by blast
next
  fix e p s assume "ev_payload e = PCreate p" "handleCreate (e_sha E) e p = Inr s"
  then show "lockedOk s \<and> clockOk s" using locks.created [of e p E s]
    by (auto simp: handleCreate_Inr clockOk_def firstLock_def ev_kind_def)
qed (use locks.expiring locks.premiums locks.transport locks.noting locks.rejecting in
    \<open>auto simp: clockOk_def expire_def\<close>)

lemma autoRefundVote_Some:
  assumes "autoRefundVote s me now = Some who"
  shows "\<not> sharesHeldBack s" "st_status s \<in> {LOCKED, EXPIRED}" "\<not> isPerformanceContest s now"
    "\<exists>d. refundDeadline s = Some d \<and> d < now"
    "(\<exists>r. who = HealAs r \<and> getRole s me = Some r \<and> voteOf s r = None)
     \<or> (getRole s me = None \<and> lk_arbiterPoolShare (st_lock s) = Some True \<and> arbiterVotePriority s me \<noteq> None \<and> \<not> hasVoted s me)"
  using assms by (auto simp: autoRefundVote_def split: if_splits option.splits)

lemma refundDeadline_late:
  assumes "clockOk s" "st_chamaPolicy s = None" "st_tranchePlan s = None" "refundDeadline s = Some d"
  shows "st_expiresAt s \<le> d" "0 < lockCount s"
proof -
  from assms(2,4) obtain l lockedAt where l: "List.find (\<lambda>e. ev_kind e = K_LOCK) (st_eventChain s) = Some l"
    "lk_lockedAt (st_lock s) = Some lockedAt"
    "d = max lockedAt (ev_timestamp l) + getOr (st_tradeTimeoutSeconds s) (st_expiresAt s - lockedAt)"
    by (auto simp: refundDeadline_def Let_def split: option.splits if_splits)
  from find_Some_in [OF l(1)] obtain p where "ev_payload l = PLock p" by (auto simp: ev_kind_cases)
  with l(1) have f: "firstLock (st_eventChain s) = Some (l, p)" by (simp add: firstLock_def)
  then show "0 < lockCount s" using firstLock_count [of s] by simp
  from assms(1) f assms(2,3) l(2) obtain t where "lockedAt = lp_lockedAt p" "st_tradeTimeoutSeconds s = Some t"
    "st_expiresAt s = lp_lockedAt p + t" by (auto simp: clockOk_def)
  with l(3) show "st_expiresAt s \<le> d" by simp
qed

text \<open>C22. The healing REFUND a client casts on its own (outside circles and frozen plans) is a vote the
  sender's gate admits: the trade is locked or expired with its shares out, its deadline has passed,
  no one contests the refund with a standing RELEASE, and the caster, seated or a backup arbiter, has
  not voted yet.\<close>

theorem auto_refund_is_a_vote_the_gate_admits:
  assumes "reachable E s" "st_chamaPolicy s = None" "st_tranchePlan s = None" "\<not> st_pendingVote s" "0 < st_expiresAt s"
    and "autoRefundVote s me now = Some who"
  shows "canVote E s me now (Some REFUND) cycle = None \<and> st_expiresAt s < now \<and> \<not> isPerformanceContest s now
    \<and> \<not> hasVoted s me"
proof -
  note a = autoRefundVote_Some [OF assms(6)]
  from a(4) obtain d where d: "refundDeadline s = Some d" "d < now" by blast
  from clocks.always [OF assms(1)] have "clockOk s" by blast
  note late = refundDeadline_late [OF this assms(2,3) d(1)]
  have expired: "st_expiresAt s < now" using late(1) d(2) by simp
  have fresh: "\<not> hasVoted s me" using a(5) seat_voted [OF assms(1) late(2)] by blast
  have "\<exists>r b. votingSeat s me = Some (r, b)" using a(5) by (auto simp: votingSeat_Some)
  moreover have "firstFail (seatTimingGuards s now r b) = None" for r b
    using expired assms(5) by (simp add: seatTimingGuards_def healingAt_def)
  ultimately have "canVote E s me now (Some REFUND) cycle = None"
    using a(1,2) fresh assms(2,4) by (auto simp: canVote_None chamaOutcomeError_def)
  with expired fresh a(3) show ?thesis by blast
qed

section \<open>COMPLETE of an on-chain trade\<close>

text \<open>The funder of frozen terms is the side that funds.\<close>

definition funderOk :: "state \<Rightarrow> bool" where
  "funderOk s \<longleftrightarrow> (\<forall>t. st_onchainFundingTerms s = Some t \<longrightarrow> ft_funder t = onchainFunder s)"

lemma onchainFunder_same:
  "st_category s' = st_category s \<Longrightarrow> st_chamaPolicy s' = st_chamaPolicy s \<Longrightarrow> onchainFunder s' = onchainFunder s"
  by (simp add: onchainFunder_def paysSeller_def)

lemma freezeTerms_funder:
  assumes "freezeTerms E s e p terms = Inr s'"
  shows "funderOk s'"
proof -
  from assms have "ft_funder terms = onchainFunder s" "st_onchainFundingTerms s' = Some terms"
    by (auto simp: freezeTerms_def fundingTermsError_def guarded_Inr firstFail_None Let_def split: if_splits option.splits)
  moreover have "onchainFunder s' = onchainFunder s"
    using freezeTerms_Inr [OF assms] by (intro onchainFunder_same) auto
  ultimately show ?thesis by (simp add: funderOk_def)
qed

lemma dispatch_terms:
  assumes "dispatch E s e = Inr s'" "ev_kind e \<noteq> K_JOIN"
  shows "st_onchainFundingTerms s' = st_onchainFundingTerms s"
proof (cases "ev_payload e")
  case (PVote p)
  have "st_onchainFundingTerms (votedState s e p r) = st_onchainFundingTerms s" for r
    by (simp add: votedState_def Let_def split: option.splits)
  with PVote assms(1) show ?thesis by (auto simp: dispatch_simps dest!: handleVote_facts(5))
next
  case (PComplete t)
  with assms(1) show ?thesis
    by (auto simp: dispatch_simps completedState_def Let_def dest!: handleComplete_Inr)
next
  case (PLock p)
  with assms(1) show ?thesis by (auto simp: dispatch_simps handleLock_Inr lockedState_def Let_def)
next
  case (PPlanStart p)
  with assms(1) show ?thesis by (auto simp: dispatch_simps dest!: handlePlanStart_Inr)
qed (use assms in \<open>auto simp: dispatch_def ev_kind_def handleCancel_Inr handleSubscribe_Inr handleChat_Inr
    stalledState_def Let_def elim!: handleResolve_Inr handleClaim_Inr handleSettlementStalled_Inr
    handlePeriodRelease_Inr dest!: handleChildKey_Inr handleLockStep_only_lock\<close>)

lemma funderOk_dispatch:
  assumes "funderOk s" "dispatch E s e = Inr s'"
  shows "funderOk s'"
proof (cases "\<exists>p terms. ev_payload e = PJoin p \<and> freezeTerms E s e p terms = Inr s'")
  case True
  then show ?thesis using freezeTerms_funder by blast
next
  case False
  have "st_onchainFundingTerms s' = st_onchainFundingTerms s"
  proof (cases "ev_kind e = K_JOIN")
    case True
    then obtain p where p: "ev_payload e = PJoin p" "handleJoin E s e p = Inr s'"
      using assms(2) by (auto simp: ev_kind_cases dispatch_simps)
    from handleJoin_Inr [OF p(2)] have "(\<exists>terms. freezeTerms E s e p terms = Inr s')
        \<or> updateOrder s e p = Inr s' \<or> takeSeat s e p = Inr s'" by blast
    with False p(1) consider "updateOrder s e p = Inr s'" | "takeSeat s e p = Inr s'" by blast
    then show ?thesis
    proof cases
      case 1
      show ?thesis by (subst updateOrder_Inr [OF 1]) simp
    next
      case 2
      have "s' = seatedState s e p" using takeSeat_Inr [OF 2] by blast
      then show ?thesis by (simp add: seatedState_def Let_def)
    qed
  qed (rule dispatch_terms [OF assms(2)])
  moreover have "onchainFunder s' = onchainFunder s"
    using switching.identity [OF assms(2)] by (intro onchainFunder_same) auto
  ultimately show ?thesis using assms(1) by (simp add: funderOk_def)
qed

interpretation funders: reducer_invariant E funderOk for E
  by unfold_locales
    (simp_all add: funderOk_dispatch handleCreate_Inr,
     auto simp: funderOk_def onchainFunder_def paysSeller_def expire_def createdState_def Let_def)

lemma find_id:
  assumes "distinct (map sm_id ms)"
  shows "List.find (\<lambda>m. sm_id m = i \<and> P m) ms
    = (case List.find (\<lambda>m. sm_id m = i) ms of None \<Rightarrow> None | Some m \<Rightarrow> if P m then Some m else None)"
  using assms
proof (induction ms)
  case (Cons m ms)
  have "List.find (\<lambda>m. sm_id m = i \<and> P m) ms = None" if "sm_id m = i"
    using Cons.prems that by (force simp: find_None_iff_ball image_iff)
  with Cons show ?case by simp
qed simp

lemma tagged_draft:
  "taggedSettlement s (signedEvent s me j now [[''settlement'', i]] p cycle) = List.find (\<lambda>m. sm_id m = i) (st_settlements s)"
  by (simp add: taggedSettlement_def settlementTag_def signedEvent_def)

lemma payoutProof_leaf:
  "payoutProof E s (Some m) t = (pf, qf) \<Longrightarrow> msgLeaf m = LF_REFUND \<Longrightarrow> pf = None \<and> qf = None"
  by (auto simp: payoutProof_def msgLeaf_def finalCoopSettlementProof_def finalArbiterSettlementProof_def
      split: option.splits prod.splits if_splits)

lemma completeProof_payout:
  assumes "taggedSettlement s e = m"
  shows "completeProof E s e t = (case payoutProof E s m t of
    (Some pf, _) \<Rightarrow> Some (pf, False) | (None, Some pf) \<Rightarrow> Some (pf, True) | (None, None) \<Rightarrow> None)"
  using assms by (auto simp: completeProof_def payoutProof_def split: option.splits prod.splits)


section \<open>A vote that was reported cast\<close>

lemma handleVote_chain: "dispatch E s e = Inr t \<Longrightarrow> ev_payload e = PVote p \<Longrightarrow> inChain t (ev_id e)"
  by (auto simp: dispatch_simps inChain_iff votedState_frame dest!: handleVote_facts(5))

lemma vote_recorded:
  assumes "applyEvent E (Some s) e = Inr t" "ev_payload e = PVote p"
  shows "inChain t (ev_id e)"
proof -
  from assms have "applyChained E s e = Inr t" by (simp add: applyEvent_def applyTo_def split: if_splits)
  then show ?thesis using handleVote_chain [OF _ assms(2)] assms(2)
    by (auto simp: applyChained_def ev_kind_def split: if_splits)
qed

text \<open>C21. A vote the client reports as cast is in the chain of the trade it now holds, whether a relay
  acknowledged it, the reload of the history brought it in, or both; a vote it reports as failed has
  changed nothing; and either way the next vote on the trade is free to be sent.\<close>

theorem reported_vote_is_recorded:
  assumes "ev_payload e = PVote p" "voteEnd E c e published = (c', answer)"
  shows "(\<forall>t. answer = Inr t \<longrightarrow> cl_states c' (ev_escrowId e) = Some t \<and> inChain t (ev_id e))
    \<and> (\<forall>code. answer = Inl code \<longrightarrow> cl_states c' = cl_states c)
    \<and> ev_escrowId e \<notin> set (cl_pendingVotes c')"
proof (cases "cl_states c (ev_escrowId e)")
  case None
  with assms show ?thesis by (auto simp: voteEnd_def applyLocally_def applyEvent_def Let_def split: if_splits)
next
  case (Some s)
  with assms show ?thesis
    by (auto simp: voteEnd_def applyLocally_def Let_def vote_recorded split: if_splits sum.splits)
qed

section \<open>Witnesses\<close>

definition wTallied :: "event list" where
  "wTallied = wDispute 1000 @ [wVote ''e5'' ''A'' ARBITER RELEASE 1050]"

lemma wTallied_ends: "ends wTallied (\<lambda>s. st_chamaPolicy s = None \<and> \<not> inChain s ''e6'' \<and> getRole s ''A'' = Some ARBITER
    \<and> (case autoResolve (\<lambda>_. None) s 1060 of Some (p, None) \<Rightarrow> p = \<lparr>rp_outcome = RELEASE, rp_majority = [BUYER, ARBITER],
         rp_fillEvidence = None, rp_resolvedAt = 1060\<rparr> | _ \<Rightarrow> False))"
  by code_simp

theorem auto_resolve_matches_the_reducer_witness:
  "\<exists>t. applyEvent plainEnv (Some (stateAfter wTallied)) (wResolve RELEASE [BUYER, ARBITER] 1060) = Inr t
    \<and> st_status t \<in> {APPROVED, EXPIRED}"
proof -
  let ?s = "stateAfter wTallied" and ?e = "wResolve RELEASE [BUYER, ARBITER] 1060"
  note w = endsD [OF wTallied_ends]
  then obtain p where p: "autoResolve (\<lambda>_. None) ?s 1060 = Some (p, None)" "ev_payload ?e = PResolve p"
    by (auto simp: wResolve_def mkEvent_def split: option.splits prod.splits)
  have e: "\<not> inChain ?s (ev_id ?e)" "getRole ?s (ev_pubkey ?e) \<noteq> None" and c: "st_chamaPolicy ?s = None"
    using w(2) by (simp_all add: wResolve_def mkEvent_def)
  note built = auto_resolve_matches_the_reducer [OF ran_reachable [OF w(1)] c, THEN conjunct2, rule_format, OF p e]
  then show ?thesis by blast
qed

lemma wOverdue: "ends (wLocked 1000) (\<lambda>s. st_chamaPolicy s = None \<and> st_tranchePlan s = None \<and> \<not> st_pendingVote s
    \<and> 0 < st_expiresAt s \<and> autoRefundVote s ''B'' 9000000 = Some (HealAs BUYER))"
  by code_simp

theorem auto_refund_is_a_vote_the_gate_admits_witness:
  "canVote plainEnv (stateAfter (wLocked 1000)) ''B'' 9000000 (Some REFUND) None = None"
proof -
  note w = endsD [OF wOverdue]
  from w(2) have f: "st_chamaPolicy (stateAfter (wLocked 1000)) = None" "st_tranchePlan (stateAfter (wLocked 1000)) = None"
    "\<not> st_pendingVote (stateAfter (wLocked 1000))" "0 < st_expiresAt (stateAfter (wLocked 1000))"
    "autoRefundVote (stateAfter (wLocked 1000)) ''B'' 9000000 = Some (HealAs BUYER)" by blast+
  from auto_refund_is_a_vote_the_gate_admits [OF ran_reachable [OF w(1)] f] show ?thesis by blast
qed

lemma wChain_draft: "let s = chainState in st_status s \<noteq> CLAIMED \<and> distinct (map sm_id (st_settlements s))
    \<and> st_onchainFundingTerms s = None
    \<and> (case completeOnchainDraft chainEnv s ''B'' ''m1'' 1080 of Inl _ \<Rightarrow> False | Inr _ \<Rightarrow> True)"
  by code_simp


definition wClient :: client where
  "wClient = \<lparr>cl_states = (\<lambda>_. Some (stateAfter (wLocked 1000))), cl_pendingVotes = [''trade'']\<rparr>"

lemma wCast: "case voteEnd plainEnv wClient (wVote ''e3'' ''B'' BUYER RELEASE 1030) True of (_, Inl _) \<Rightarrow> False | _ \<Rightarrow> True"
  by code_simp

theorem reported_vote_is_recorded_witness:
  "\<exists>c t. voteEnd plainEnv wClient (wVote ''e3'' ''B'' BUYER RELEASE 1030) True = (c, Inr t) \<and> inChain t ''e3''
    \<and> cl_states c ''trade'' = Some t"
proof -
  obtain c answer where v: "voteEnd plainEnv wClient (wVote ''e3'' ''B'' BUYER RELEASE 1030) True = (c, answer)" by force
  with wCast obtain t where t: "answer = Inr t" by (auto split: sum.splits)
  have p: "ev_payload (wVote ''e3'' ''B'' BUYER RELEASE 1030) = PVote \<lparr>vp_onchainRelease = None, vp_outcome = RELEASE,
     vp_role = BUYER, vp_shareEnvelope = None, vp_fillEvidence = None, vp_votedAt = 1030\<rparr>"
    "ev_id (wVote ''e3'' ''B'' BUYER RELEASE 1030) = ''e3''" "ev_escrowId (wVote ''e3'' ''B'' BUYER RELEASE 1030) = ''trade''"
    by (simp_all add: wVote_def mkEvent_def)
  from reported_vote_is_recorded [OF p(1) v] t v p(2,3) show ?thesis by auto
qed

end
