(* ===== verification/Event_Intake.thy ===== *)
theory Event_Intake
  imports Client_Actions Event_Parser Tranche_Plan Chain_Sort Replay "HOL-Library.AList"
begin

text \<open>
  How events reach the trades a client holds (\<open>src/escrow-engine/escrow-client.ts\<close>): the raw events
  kept per trade and the cursors made of them, \<open>handleIncomingEvent\<close> up to its first await
  (\<open>intakeGate\<close>) and after decryption (\<open>intakeApply\<close>), the reload of an out-of-order trade, the
  hydration slots of public listings, and \<open>loadEscrow\<close> cut at its awaits: what it captures
  (\<open>loadBegin\<close>), the replay of the raw events (\<open>loadReplay\<close>, \<open>loadAttempt\<close>) and the adoption of the
  result (\<open>loadEnd\<close>). Decryption, the parser's context and the attachments are the record
  \<open>reader\<close>; times are in milliseconds where the code reads \<open>Date.now()\<close>. The durable event cache is
  an argument of a load; writing it, its copy into the hot map while a load runs, the retry buffer's flush, the fetch of missing predecessors and the
  custody notice on a loaded trade are not modelled.
\<close>

section \<open>Raw events\<close>

definition isChatRaw :: "nostr_event \<Rightarrow> bool" where
  "isChatRaw e \<longleftrightarrow> ne_kind e = kindNumber K_CHAT"

text \<open>A JavaScript map keeps the place of a key that is set again.\<close>

definition mergeRawEventsById :: "nostr_event list \<Rightarrow> nostr_event list \<Rightarrow> nostr_event list" where
  "mergeRawEventsById primary secondary = map snd (foldl (\<lambda>m e. AList.update (ne_id e) e m) [] (primary @ secondary))"

definition dedupRawEvents :: "nostr_event list \<Rightarrow> nostr_event list" where
  "dedupRawEvents es = dedupeOn ne_id [] (filter (\<lambda>e. ne_id e \<noteq> []) es)"

definition compactHotRawEvents :: "nostr_event list \<Rightarrow> nostr_event list" where
  "compactHotRawEvents es = dedupRawEvents (filter (\<lambda>e. \<not> isChatRaw e) es)"

definition ESCROW_DELTA_OVERLAP_SECS :: int where "ESCROW_DELTA_OVERLAP_SECS = 2"
definition HEAVY_CURSOR_EVENT_BYTES :: nat where "HEAVY_CURSOR_EVENT_BYTES = 8 * 1024"

definition newestOf :: "nostr_event list \<Rightarrow> int" where
  "newestOf es = foldl (\<lambda>m e. max m (ne_created_at e)) (- 1) es"

definition isHeavy :: "nostr_event \<Rightarrow> bool" where
  "isHeavy e \<longleftrightarrow> isChatRaw e \<or> length (ne_content e) > HEAVY_CURSOR_EVENT_BYTES"

definition escrowDeltaSince :: "nostr_event list \<Rightarrow> int option" where
  "escrowDeltaSince es =
     (let newest = newestOf es
      in if newest < 0 then None
         else if list_ex isHeavy (filter (\<lambda>e. ne_created_at e = newest) es) then Some (newest + 1)
         else Some (max 0 (newest - ESCROW_DELTA_OVERLAP_SECS)))"

definition MAX_PREDECESSOR_IDS :: nat where "MAX_PREDECESSOR_IDS = 20"

definition belongsToEscrow :: "nostr_event \<Rightarrow> string \<Rightarrow> bool" where
  "belongsToEscrow e i \<longleftrightarrow> kindOfNumber (ne_kind e) \<noteq> None \<and> getTagValue (ne_tags e) ''d'' = Some i"

definition usablePredecessors :: "nostr_event list \<Rightarrow> string list \<Rightarrow> string \<Rightarrow> nostr_event list" where
  "usablePredecessors found wanted i = filter (\<lambda>e. ne_id e \<in> set wanted \<and> belongsToEscrow e i) found"

definition predecessorGap :: "string list \<Rightarrow> string list \<Rightarrow> nostr_event \<Rightarrow> string option" where
  "predecessorGap known asked e =
     (if ne_kind e = kindNumber K_CREATE \<or> isChatRaw e then None
      else case getPrevEventId (ne_tags e) of
        None \<Rightarrow> None
      | Some p \<Rightarrow> if hex64 p \<and> p \<notin> set known \<and> p \<notin> set asked then Some p else None)"

definition missingPredecessorIds :: "nostr_event list \<Rightarrow> string option \<Rightarrow> string list \<Rightarrow> string list" where
  "missingPredecessorIds es first asked =
     (let known = map ne_id es;
          blamed = (case nonEmpty first of None \<Rightarrow> [] | Some i \<Rightarrow> filter (\<lambda>e. ne_id e = i) es)
      in take MAX_PREDECESSOR_IDS (dedupe (List.map_filter (predecessorGap known asked) (take 1 blamed @ es))))"

section \<open>The hot raw chains\<close>

definition HOT_RAW_TRADE_CAP :: nat where "HOT_RAW_TRADE_CAP = 120"

record hot_entry =
  he_id :: string
  he_touchedAt :: int
  he_terminal :: bool

definition selectHotRawEvictions :: "hot_entry list \<Rightarrow> string list \<Rightarrow> nat \<Rightarrow> string list" where
  "selectHotRawEvictions rows watched cap =
     (let evictable = sortWith (\<lambda>a b. if he_terminal a = he_terminal b then he_touchedAt a < he_touchedAt b
                                      else he_terminal a)
            (filter (\<lambda>x. he_id x \<notin> set watched) rows)
      in if length rows \<le> cap then [] else map he_id (take (length rows - cap) evictable))"

text \<open>The client with what it keeps about incoming events: raw chains with the time of their last
  touch, buffered events, reloads spent per trade, reloads in flight, and the hydration slots.\<close>

record intake = client +
  ik_hot :: "(string \<times> int \<times> nostr_event list) list"
  ik_buffer :: "string \<Rightarrow> (nostr_event \<times> string) list"
  ik_reloads :: "string \<Rightarrow> (int \<times> int) option"
  ik_reloading :: "string list"
  ik_hydrating :: "string list"
  ik_queue :: "string list"
  ik_cooldown :: "string \<Rightarrow> int option"

definition hotRaws :: "intake \<Rightarrow> string \<Rightarrow> nostr_event list" where
  "hotRaws m i = (case map_of (ik_hot m) i of None \<Rightarrow> [] | Some (_, es) \<Rightarrow> es)"

definition hotEntry :: "intake \<Rightarrow> string \<times> int \<times> nostr_event list \<Rightarrow> hot_entry" where
  "hotEntry m x = \<lparr>he_id = fst x, he_touchedAt = fst (snd x),
     he_terminal = (case cl_states m (fst x) of None \<Rightarrow> False | Some s \<Rightarrow> st_status s \<in> TERMINAL_STATES)\<rparr>"

definition setHotRawEvents :: "string list \<Rightarrow> int \<Rightarrow> string \<Rightarrow> nostr_event list \<Rightarrow> intake \<Rightarrow> intake" where
  "setHotRawEvents watched now i es m =
     (let hot = AList.update i (now, es) (ik_hot m);
          out = (if length hot \<le> HOT_RAW_TRADE_CAP then []
                 else selectHotRawEvictions (map (hotEntry m) hot) watched HOT_RAW_TRADE_CAP)
      in m\<lparr>ik_hot := filter (\<lambda>x. fst x \<notin> set out) hot\<rparr>)"

definition hasEventLocally :: "intake \<Rightarrow> string \<Rightarrow> string \<Rightarrow> bool" where
  "hasEventLocally m i eventId \<longleftrightarrow> eventId \<in> ne_id ` set (hotRaws m i)
     \<or> (case cl_states m i of None \<Rightarrow> False
        | Some s \<Rightarrow> inChain s eventId \<or> eventId \<in> ev_id ` set (st_chatMessages s))"

text \<open>An event the client made itself, applied and kept.\<close>

definition recordLocally :: "env \<Rightarrow> string list \<Rightarrow> int \<Rightarrow> nostr_event \<Rightarrow> event \<Rightarrow> intake \<Rightarrow> errcode + intake" where
  "recordLocally E watched now raw e m = (case applyLocally E m e of
     Inl code \<Rightarrow> Inl code
   | Inr (m', _) \<Rightarrow> Inr (setHotRawEvents watched now (ev_escrowId e) (hotRaws m (ev_escrowId e) @ [raw]) m'))"

section \<open>Buffer, reloads, hydration\<close>

definition bufferEvent :: "string \<Rightarrow> nostr_event \<Rightarrow> string \<Rightarrow> intake \<Rightarrow> intake" where
  "bufferEvent i raw relay m =
     (let buf = ik_buffer m i
      in if ne_id raw \<in> (ne_id \<circ> fst) ` set buf \<or> length buf \<ge> 20 then m
         else m\<lparr>ik_buffer := (ik_buffer m)(i := buf @ [(raw, relay)])\<rparr>)"

definition OUT_OF_ORDER_RELOAD_BASE_COOLDOWN_MS :: int where "OUT_OF_ORDER_RELOAD_BASE_COOLDOWN_MS = 30000"
definition OUT_OF_ORDER_RELOAD_MAX_COOLDOWN_MS :: int where "OUT_OF_ORDER_RELOAD_MAX_COOLDOWN_MS = 300000"

definition outOfOrderReloadCooldownMs :: "int \<Rightarrow> int" where
  "outOfOrderReloadCooldownMs attempts = (if attempts \<le> 0 then 0
     else min (OUT_OF_ORDER_RELOAD_BASE_COOLDOWN_MS * 2 ^ nat (attempts - 1)) OUT_OF_ORDER_RELOAD_MAX_COOLDOWN_MS)"

text \<open>The answer says whether a reload was armed.\<close>

definition scheduleOutOfOrderReload :: "int \<Rightarrow> string \<Rightarrow> intake \<Rightarrow> intake \<times> bool" where
  "scheduleOutOfOrderReload now i m =
     (let (attempts, lastAt) = getOr (ik_reloads m i) (0, 0)
      in if i \<in> set (ik_reloading m) \<or> (attempts > 0 \<and> now - lastAt < outOfOrderReloadCooldownMs attempts)
         then (m, False)
         else (m\<lparr>ik_reloading := i # ik_reloading m, ik_reloads := (ik_reloads m)(i := Some (attempts + 1, now))\<rparr>, True))"

definition chainLength :: "intake \<Rightarrow> string \<Rightarrow> nat" where
  "chainLength m i = (case cl_states m i of None \<Rightarrow> 0 | Some s \<Rightarrow> length (st_eventChain s))"

definition reloadDone :: "string \<Rightarrow> nat \<Rightarrow> bool \<Rightarrow> intake \<Rightarrow> intake" where
  "reloadDone i before threw m = m\<lparr>ik_reloading := removeAll i (ik_reloading m),
     ik_reloads := (if \<not> threw \<and> chainLength m i > before then (ik_reloads m)(i := None) else ik_reloads m)\<rparr>"

definition LISTING_HYDRATION_CONCURRENCY :: nat where "LISTING_HYDRATION_CONCURRENCY = 4"
definition LISTING_HYDRATION_RETRY_COOLDOWN_MS :: int where "LISTING_HYDRATION_RETRY_COOLDOWN_MS = 5 * 60000"

text \<open>The slots taken, what is left of the queue, and the listings whose load starts.\<close>

fun pump :: "string list \<Rightarrow> string list \<Rightarrow> string list \<times> string list \<times> string list" where
  "pump running [] = (running, [], [])"
| "pump running (i # waiting) =
     (if length running \<ge> LISTING_HYDRATION_CONCURRENCY then (running, i # waiting, [])
      else if i \<in> set running then pump running waiting
      else case pump (running @ [i]) waiting of (r, w, started) \<Rightarrow> (r, w, i # started))"

definition pumpListingHydration :: "intake \<Rightarrow> intake \<times> string list" where
  "pumpListingHydration m = (case pump (ik_hydrating m) (ik_queue m) of
     (running, waiting, started) \<Rightarrow> (m\<lparr>ik_hydrating := running, ik_queue := waiting\<rparr>, started))"

definition enqueueListingHydration :: "int \<Rightarrow> string \<Rightarrow> intake \<Rightarrow> intake \<times> string list" where
  "enqueueListingHydration now i m =
     (if i \<in> set (ik_hydrating m) \<or> i \<in> set (ik_queue m) \<or> now < getOr (ik_cooldown m i) 0 then (m, [])
      else pumpListingHydration (m\<lparr>ik_queue := ik_queue m @ [i]\<rparr>))"

definition hydrationDone :: "int \<Rightarrow> string \<Rightarrow> bool \<Rightarrow> intake \<Rightarrow> intake \<times> string list" where
  "hydrationDone now i loaded m = pumpListingHydration
     (m\<lparr>ik_cooldown := (if loaded then ik_cooldown m
          else (ik_cooldown m)(i := Some (now + LISTING_HYDRATION_RETRY_COOLDOWN_MS))),
        ik_hydrating := removeAll i (ik_hydrating m)\<rparr>)"

section \<open>An incoming event\<close>

definition MAX_FUTURE_TIMESTAMP_SLACK_SECS :: int where "MAX_FUTURE_TIMESTAMP_SLACK_SECS = 24 * 60 * 60"

definition shouldDropForSimPolicy :: "bool \<Rightarrow> nostr_event \<Rightarrow> bool" where
  "shouldDropForSimPolicy localSim e \<longleftrightarrow> ne_kind e \<noteq> 0
     \<and> list_ex (\<lambda>t. t \<noteq> [] \<and> hd t = ''chama-sim'') (ne_tags e) \<noteq> localSim"

text \<open>Before anything is decrypted; the answer is the trade of the event.\<close>

definition intakeGate :: "bool \<Rightarrow> int \<Rightarrow> intake \<Rightarrow> nostr_event \<Rightarrow> string option" where
  "intakeGate localSim now m raw =
     (if kindOfNumber (ne_kind raw) = None then None
      else if ne_created_at raw > now div 1000 + MAX_FUTURE_TIMESTAMP_SLACK_SECS then None
      else if shouldDropForSimPolicy localSim raw then None
      else case nonEmpty (getTagValue (ne_tags raw) ''d'') of
        None \<Rightarrow> None
      | Some i \<Rightarrow> if hasEventLocally m i (ne_id raw) then None else Some i)"

datatype follow_up = Buffered | ChatShown | LoadsStarted "string list" | AutoResolve | AutoAccept | AutoRelease
  | FlushBuffer | ReloadArmed | Logged errcode

definition RELOAD_CODES :: "errcode list" where
  "RELOAD_CODES = [''INVALID_STATE'', ''NOT_PARTICIPANT'', ''THRESHOLD_NOT_MET'', ''LOCK_WITHDRAWN'', ''LOCK_STEP_NO_LOCK'']"

definition ONCHAIN_RELOAD_CODES :: "errcode list" where
  "ONCHAIN_RELOAD_CODES = [''INVALID_ONCHAIN_LOCK'', ''FUNDING_TERMS_FROZEN'', ''INVALID_FUNDING_TERMS'',
     ''ARBITER_PUBKEY_MISMATCH'', ''MISSING_ARBITER_PUBKEY'']"

definition asksReload :: "state option \<Rightarrow> errcode \<Rightarrow> bool" where
  "asksReload st code \<longleftrightarrow> code \<in> set RELOAD_CODES
     \<or> (case st of None \<Rightarrow> False | Some s \<Rightarrow> st_escrowMode s = ONCHAIN \<and> code \<in> set ONCHAIN_RELOAD_CODES)"

definition notedRejection :: "event \<Rightarrow> errcode \<Rightarrow> state \<Rightarrow> state" where
  "notedRejection e code s =
     (let kept = filter (\<lambda>n. rn_eventId n \<noteq> ev_id e) (st_replayNotes s)
          @ [\<lparr>rn_eventId = ev_id e, rn_kind = ev_kind e, rn_code = code, rn_benign = False\<rparr>]
      in s\<lparr>st_replayNotes := drop (length kept - 50) kept\<rparr>)"

definition setState :: "string \<Rightarrow> state \<Rightarrow> intake \<Rightarrow> intake" where
  "setState i s m = m\<lparr>cl_states := (cl_states m)(i := Some s)\<rparr>"

definition followAccepted :: "event \<Rightarrow> follow_up list" where
  "followAccepted e = (case ev_kind e of
       K_VOTE \<Rightarrow> [AutoResolve] | K_LOCK \<Rightarrow> [AutoAccept] | K_LOCK_STEP \<Rightarrow> [AutoRelease] | _ \<Rightarrow> []) @ [FlushBuffer]"

definition intakeChat :: "env \<Rightarrow> string \<Rightarrow> nostr_event \<Rightarrow> event \<Rightarrow> intake \<Rightarrow> intake \<times> follow_up list" where
  "intakeChat E relay raw e m = (let i = ev_escrowId e in case cl_states m i of
     None \<Rightarrow> (bufferEvent i raw relay m, [Buffered])
   | Some s \<Rightarrow> if ne_id raw \<in> ev_id ` set (st_chatMessages s) then (m, [])
       else (case applyEvent E (Some s) e of Inl _ \<Rightarrow> (m, []) | Inr t \<Rightarrow> (setState i t m, [ChatShown])))"

definition intakeRejected :: "int \<Rightarrow> string \<Rightarrow> nostr_event \<Rightarrow> event \<Rightarrow> errcode \<Rightarrow> intake \<Rightarrow> intake \<times> follow_up list" where
  "intakeRejected now relay raw e code m = (let i = ev_escrowId e in
     if code = ''NO_STATE'' then (bufferEvent i raw relay m, [Buffered])
     else if asksReload (cl_states m i) code
     then let m1 = (case cl_states m i of None \<Rightarrow> m | Some s \<Rightarrow> setState i (notedRejection e code s) m);
              (m2, armed) = scheduleOutOfOrderReload now i m1
          in (m2, if armed then [ReloadArmed] else [])
     else (m, [Logged code]))"

text \<open>After decryption; the parsed event names the trade of the gate.\<close>

definition intakeApply :: "env \<Rightarrow> string list \<Rightarrow> int \<Rightarrow> string \<Rightarrow> nostr_event \<Rightarrow> event \<Rightarrow> intake
    \<Rightarrow> intake \<times> follow_up list" where
  "intakeApply E watched now relay raw e m = (let i = ev_escrowId e in
     if ev_kind e = K_CHAT then intakeChat E relay raw e m
     else case (ev_payload e, cl_states m i) of
       (PCreate p, None) \<Rightarrow> if isPrivatePlanChild p then (m, [])
          else (let (m1, started) = enqueueListingHydration now i m in (m1, [LoadsStarted started]))
     | _ \<Rightarrow> (case applyEvent E (cl_states m i) e of
         Inr t \<Rightarrow> (setHotRawEvents watched now i (compactHotRawEvents (hotRaws m i @ [raw])) (setState i t m),
            followAccepted e)
       | Inl code \<Rightarrow> intakeRejected now relay raw e code m))"

section \<open>Loading a trade\<close>

record load_run =
  lr_id :: string
  lr_current :: "state option"
  lr_cached :: "nostr_event list"

definition chainRaws :: "(event \<Rightarrow> nostr_event) \<Rightarrow> state option \<Rightarrow> nostr_event list" where
  "chainRaws rawOf st = (case st of None \<Rightarrow> [] | Some s \<Rightarrow> map rawOf (st_eventChain s))"

text \<open>What a load reads before it asks the relays, and the cursor it asks them with.\<close>

definition loadBegin :: "(event \<Rightarrow> nostr_event) \<Rightarrow> bool \<Rightarrow> string \<Rightarrow> intake \<Rightarrow> load_run \<times> int option" where
  "loadBegin rawOf fullHistory i m =
     (let current = cl_states m i;
          cached = mergeRawEventsById (hotRaws m i) (chainRaws rawOf current);
          cursor = mergeRawEventsById cached
            (case current of None \<Rightarrow> [] | Some s \<Rightarrow> map rawOf (st_chatMessages s))
      in (\<lparr>lr_id = i, lr_current = current, lr_cached = cached\<rparr>,
          if fullHistory then None else escrowDeltaSince cursor))"

record reader =
  rd_read :: "nostr_event \<Rightarrow> event option"
  rd_recheck :: "state \<Rightarrow> event \<Rightarrow> bool"
  rd_lock :: "event \<Rightarrow> event"
  rd_chat :: "event \<Rightarrow> event option"

datatype load_failure = NoEvents | Undecryptable | ConflictingCreators errcode | ChainIncomplete errcode

definition shareFiltered :: "env \<Rightarrow> reader \<Rightarrow> event list \<Rightarrow> event list" where
  "shareFiltered E R es =
     (case List.find (\<lambda>e. case ev_payload e of PCreate p \<Rightarrow> cp_chamaPolicy p \<noteq> None | _ \<Rightarrow> False) es of
        None \<Rightarrow> es
      | Some c \<Rightarrow> (case applyEvent E None c of
          Inl _ \<Rightarrow> es
        | Inr s0 \<Rightarrow> filter (\<lambda>e. ev_kind e \<notin> {K_VOTE, K_RESOLVE} \<or> rd_recheck R s0 e) es))"

definition loadReplay :: "env \<Rightarrow> reader \<Rightarrow> string option \<Rightarrow> nostr_event list \<Rightarrow> load_failure + state" where
  "loadReplay E R creator raws =
     (let parsed = shareFiltered E R (List.map_filter (rd_read R) raws);
          opened = map (rd_lock R) parsed
      in if parsed = [] then Inl Undecryptable
         else case replayEventChain E (sortEventChain (filter (\<lambda>e. ev_kind e \<noteq> K_CHAT) opened)) creator of
           Inl code \<Rightarrow> Inl (if code \<in> {''CONFLICTING_CREATES'', ''CREATOR_NOT_FOUND''} then ConflictingCreators code
             else ChainIncomplete code)
         | Inr _ \<Rightarrow> (case replayEventChain E (sortEventChain (List.map_filter (rd_chat R) opened)) creator of
             Inl code \<Rightarrow> Inl (ChainIncomplete code)
           | Inr s \<Rightarrow> Inr s))"

text \<open>
  One attempt with what the relays returned and what the durable cache holds: the cache is read when
  nothing else is there, or to repair a chain that does not replay on an explicit open.
\<close>

definition loadAttempt :: "env \<Rightarrow> reader \<Rightarrow> string option \<Rightarrow> bool \<Rightarrow> bool \<Rightarrow> nostr_event list \<Rightarrow> nostr_event list
    \<Rightarrow> nostr_event list \<Rightarrow> load_failure + (state \<times> nostr_event list)" where
  "loadAttempt E R creator repairFromCache known cached fetched durable =
     (let asked = mergeRawEventsById cached fetched;
          cold = asked = [] \<and> \<not> known;
          raws = (if cold \<and> durable \<noteq> [] then mergeRawEventsById durable fetched else asked)
      in if raws = [] then Inl NoEvents
         else case loadReplay E R creator raws of
           Inr s \<Rightarrow> Inr (s, raws)
         | Inl failure \<Rightarrow>
             (let merged = mergeRawEventsById raws durable
              in if repairFromCache \<and> \<not> cold \<and> length merged > length raws
                 then map_sum (\<lambda>_. failure) (\<lambda>s. (s, merged)) (loadReplay E R creator merged)
                 else Inl failure))"

definition COMPLETENESS_MAX_ATTEMPTS :: nat where "COMPLETENESS_MAX_ATTEMPTS = 2"

definition completenessRetry :: "nat \<Rightarrow> nostr_event list \<Rightarrow> nostr_event list \<Rightarrow> state \<Rightarrow> bool" where
  "completenessRetry attempt cached fetched s \<longleftrightarrow> st_status s \<notin> TRULY_TERMINAL_STATES
     \<and> attempt < COMPLETENESS_MAX_ATTEMPTS \<and> (cached = [] \<or> fetched \<noteq> [])"

fun statusProgressRank :: "status \<Rightarrow> nat" where
  "statusProgressRank CREATED = 0"
| "statusProgressRank LOCKED = 1"
| "statusProgressRank APPROVED = 2"
| "statusProgressRank CLAIMED = 3"
| "statusProgressRank COMPLETED = 4"
| "statusProgressRank _ = 4"

definition acceptIdOf :: "state \<Rightarrow> string option" where
  "acceptIdOf s = lk_acceptEventId (st_lock s)"

definition releaseIdOf :: "state \<Rightarrow> string option" where
  "releaseIdOf s = Option.bind (lk_withheld (st_lock s)) wh_releaseEventId"

definition refusesOurs :: "state \<Rightarrow> state \<Rightarrow> bool" where
  "refusesOurs current incoming \<longleftrightarrow> list_ex (\<lambda>r. inChain current (ev_id (fst r))) (st_rejectedLocks incoming)"

definition isPartialReplayDowngrade :: "state option \<Rightarrow> state \<Rightarrow> bool" where
  "isPartialReplayDowngrade st incoming = (case st of
     None \<Rightarrow> False
   | Some current \<Rightarrow>
       if refusesOurs current incoming then False
       else if st_status incoming \<in> TERMINAL_STATES then False
       else if statusProgressRank (st_status incoming) < statusProgressRank (st_status current) then True
       else if st_status incoming \<noteq> st_status current then False
       else \<not> list_all (\<lambda>e. inChain incoming (ev_id e)) (st_eventChain current)
         \<or> (truthyS (acceptIdOf current) \<and> acceptIdOf current \<noteq> acceptIdOf incoming)
         \<or> (truthyS (releaseIdOf current) \<and> releaseIdOf current \<noteq> releaseIdOf incoming))"

text \<open>A reload never shrinks the chat.\<close>

definition reseedChat :: "state option \<Rightarrow> state \<Rightarrow> state" where
  "reseedChat st s = (case st of
     None \<Rightarrow> s
   | Some current \<Rightarrow>
       (let missing = filter (\<lambda>c. ev_id c \<notin> ev_id ` set (st_chatMessages s)) (st_chatMessages current)
        in if missing = [] then s
           else s\<lparr>st_chatMessages := sortWith (\<lambda>a b. ev_timestamp a < ev_timestamp b) (st_chatMessages s @ missing)\<rparr>))"

text \<open>The end of a load that replayed: \<open>run\<close> is what it captured when it began.\<close>

definition loadEnd :: "string list \<Rightarrow> int \<Rightarrow> load_run \<Rightarrow> nostr_event list \<Rightarrow> state \<Rightarrow> intake \<Rightarrow> intake \<times> state option" where
  "loadEnd watched now run raws s m = (let i = lr_id run in
     if isPartialReplayDowngrade (lr_current run) s
     then (setHotRawEvents watched now i (compactHotRawEvents (mergeRawEventsById (hotRaws m i) raws)) m, lr_current run)
     else (let t = reseedChat (lr_current run) s
           in (setHotRawEvents watched now i (compactHotRawEvents raws) (setState i t m), Some t)))"

end
