(* ===== verification/Intake_Properties.thy ===== *)
theory Intake_Properties
  imports Event_Intake State_View Replay_Refinement Custody_Properties
begin

text \<open>
  What the trades a client holds are: states of the reducer, however events, votes, reloads and loads
  interleave; when a load is adopted and which loads are wrongly refused or wrongly adopted; and how
  often an event that does not apply can make the client fetch a chain again.
\<close>

section \<open>A trade but for its chat and notes\<close>

definition bare :: "state \<Rightarrow> state" where
  "bare s = s\<lparr>st_chatMessages := [], st_replayNotes := [], st_rejectedLocks := []\<rparr>"

interpretation chatView: event_view id "\<lambda>x. ch @ x" for ch
  by unfold_locales simp_all

lemma bare_fields:
  "st_status (bare s) = st_status s" "st_eventChain (bare s) = st_eventChain s" "st_lock (bare s) = st_lock s"
  by (simp_all add: bare_def)

lemma bare_eq:
  assumes "bare s = bare t"
  shows "st_status s = st_status t" "st_eventChain s = st_eventChain t" "st_lock s = st_lock t"
  using assms bare_fields by metis+

lemma bare_viewed [simp]: "bare (viewed id (\<lambda>x. ch @ x) n l s) = bare s"
  by (simp add: bare_def viewed_def)

lemma bare_view: "\<exists>ch n l. s = viewed id (\<lambda>x. ch @ x) n l (bare s)"
  by (rule exI [of _ "st_chatMessages s"], rule exI [of _ "\<lambda>_. st_replayNotes s"],
      rule exI [of _ "\<lambda>_. st_rejectedLocks s"]) (simp add: viewed_def bare_def)

lemma bare_stripNotes: "bare (stripNotes s) = bare s"
  by (simp add: bare_def stripNotes_def withNotes_def)

lemma applyEvent_bare:
  "map_sum id bare (applyEvent E (Some s) e) = map_sum id bare (applyEvent E (Some (bare s)) e)"
proof -
  obtain ch n l where s: "s = viewed id (\<lambda>x. ch @ x) n l (bare s)" using bare_view by blast
  have "map_sum id bare (applyEvent E (Some (viewed id (\<lambda>x. ch @ x) n l t)) e)
      = map_sum id bare (applyEvent E (Some t) e)" for t
    by (cases "applyEvent E (Some t) e") (simp_all add: chatView.applyEvent_viewed)
  from this [of "bare s"] s show ?thesis by metis
qed

lemma applyEvent_sameBare:
  assumes "bare s = bare t" "applyEvent E (Some s) e = Inr s'"
  shows "\<exists>t'. applyEvent E (Some t) e = Inr t' \<and> bare s' = bare t'"
proof -
  have "map_sum id bare (applyEvent E (Some t) e) = Inr (bare s')"
    using applyEvent_bare [of E s e] applyEvent_bare [of E t e] assms by simp
  then show ?thesis by (cases "applyEvent E (Some t) e") auto
qed

definition heldTrade :: "env \<Rightarrow> state \<Rightarrow> bool" where
  "heldTrade E s \<longleftrightarrow> (\<exists>t. reachable E t \<and> bare s = bare t)"

lemma held_cong: "bare s = bare t \<Longrightarrow> heldTrade E t \<Longrightarrow> heldTrade E s"
  by (auto simp: heldTrade_def)

lemma held_started: "applyEvent E None e = Inr s \<Longrightarrow> heldTrade E s"
  by (auto simp: heldTrade_def intro: reachable.created)

lemma held_stepped: "heldTrade E s \<Longrightarrow> applyEvent E (Some s) e = Inr s' \<Longrightarrow> heldTrade E s'"
  unfolding heldTrade_def by (metis applyEvent_sameBare reachable.stepped)

lemma held_applied: "applyEvent E st e = Inr s' \<Longrightarrow> (\<forall>s. st = Some s \<longrightarrow> heldTrade E s) \<Longrightarrow> heldTrade E s'"
  by (cases st) (auto intro: held_started held_stepped)

lemma replay_rooted:
  assumes "replayEventChain E original creator = Inr s"
  obtains es ignored released where "selectTradeRoot (e_sha E) original creator = Inr (es, ignored)"
    "replayRooted E original es ignored released = Inr s"
  using assms by (auto simp: replayEventChain_def replayWith_def split: if_splits sum.splits)

lemma held_replayed:
  assumes "replayEventChain E original creator = Inr s"
  shows "heldTrade E s"
proof -
  from assms obtain es ignored released where "replayRooted E original es ignored released = Inr s"
    by (rule replay_rooted)
  from replayRooted_strip [OF this] obtain acc where a: "run E None acc = Some (stripNotes s)" by blast
  then have "acc \<noteq> []" by auto
  from run_reachable [OF a this] show ?thesis unfolding heldTrade_def using bare_stripNotes by metis
qed

lemma replayed_events:
  assumes "replayEventChain E original creator = Inr s" "e \<in> set (st_eventChain s)"
  shows "e \<in> set original"
proof -
  from assms(1) obtain es ignored released where r: "selectTradeRoot (e_sha E) original creator = Inr (es, ignored)"
    "replayRooted E original es ignored released = Inr s" by (rule replay_rooted)
  from replayRooted_chain(1) [OF r(2) assms(2)] selectTradeRoot_subset [OF r(1)] show ?thesis by blast
qed

section \<open>What the client's steps leave alone\<close>

named_theorems intake_frame

lemma setHot_states [intake_frame]: "cl_states (setHotRawEvents w now i es m) = cl_states m"
  by (simp add: setHotRawEvents_def Let_def)

lemma buffer_states [intake_frame]: "cl_states (bufferEvent i raw relay m) = cl_states m"
  by (simp add: bufferEvent_def Let_def)

lemma schedule_states [intake_frame]: "cl_states (fst (scheduleOutOfOrderReload now i m)) = cl_states m"
  by (simp add: scheduleOutOfOrderReload_def split: prod.splits)

lemma reloadDone_states [intake_frame]: "cl_states (reloadDone i before threw m) = cl_states m"
  by (simp add: reloadDone_def)

lemma pump_states [intake_frame]: "cl_states (fst (pumpListingHydration m)) = cl_states m"
  by (simp add: pumpListingHydration_def split: prod.splits)

lemma enqueue_states [intake_frame]: "cl_states (fst (enqueueListingHydration now i m)) = cl_states m"
  by (simp add: enqueueListingHydration_def pump_states)

lemma hydrationDone_states [intake_frame]: "cl_states (fst (hydrationDone now i ok m)) = cl_states m"
  by (simp add: hydrationDone_def pump_states)

lemma setState_states [intake_frame]: "cl_states (setState i s m) = (cl_states m)(i := Some s)"
  by (simp add: setState_def)

definition allHeld :: "env \<Rightarrow> (string \<Rightarrow> state option) \<Rightarrow> bool" where
  "allHeld E states \<longleftrightarrow> (\<forall>i s. states i = Some s \<longrightarrow> heldTrade E s)"

lemma allHeld_update: "allHeld E f \<Longrightarrow> heldTrade E s \<Longrightarrow> allHeld E (f(i := Some s))"
  by (simp add: allHeld_def)

lemma allHeld_applied:
  assumes "allHeld E f" "applyEvent E (f i) e = Inr s"
  shows "allHeld E (f(i := Some s))"
proof -
  have "\<forall>t. f i = Some t \<longrightarrow> heldTrade E t" using assms(1) by (simp add: allHeld_def)
  from allHeld_update [OF assms(1) held_applied [OF assms(2) this]] show ?thesis .
qed

lemma bare_noted: "bare (notedRejection e code s) = bare s"
  by (simp add: bare_def notedRejection_def Let_def)

lemma bare_reseed: "bare (reseedChat st s) = bare s"
  by (simp add: bare_def reseedChat_def Let_def split: option.splits)

lemma chat_held:
  assumes "allHeld E (cl_states m)"
  shows "allHeld E (cl_states (fst (intakeChat E relay raw e m)))"
  using assms allHeld_applied [OF assms, of "ev_escrowId e" e]
  by (auto simp: intakeChat_def Let_def intake_frame split: option.splits sum.splits)

lemma rejected_held:
  assumes "allHeld E (cl_states m)"
  shows "allHeld E (cl_states (fst (intakeRejected now relay raw e code m)))"
proof -
  have "heldTrade E (notedRejection e code s)" if "cl_states m i = Some s" for i s
    using assms that by (auto simp: allHeld_def intro: held_cong [OF bare_noted])
  then show ?thesis using assms
    by (auto simp: intakeRejected_def Let_def intake_frame allHeld_update case_prod_beta split: option.splits)
qed

lemma apply_held:
  assumes "allHeld E (cl_states m)"
  shows "allHeld E (cl_states (fst (intakeApply E watched now relay raw e m)))"
proof (cases "ev_kind e = K_CHAT")
  case True
  then show ?thesis using chat_held [OF assms] by (simp add: intakeApply_def Let_def)
next
  case False
  have "allHeld E (cl_states (fst (case applyEvent E (cl_states m (ev_escrowId e)) e of
         Inr t \<Rightarrow> (setHotRawEvents watched now (ev_escrowId e) (compactHotRawEvents (hotRaws m (ev_escrowId e) @ [raw]))
             (setState (ev_escrowId e) t m), followAccepted e)
       | Inl code \<Rightarrow> intakeRejected now relay raw e code m)))"
    using assms allHeld_applied [OF assms, of "ev_escrowId e" e] rejected_held [OF assms]
    by (auto simp: intake_frame split: sum.splits)
  with False assms show ?thesis
    by (auto simp: intakeApply_def Let_def intake_frame case_prod_beta split: payload.splits option.splits)
qed

lemma loadAttempt_replayed:
  assumes "loadAttempt E R creator repair known cached fetched durable = Inr (s, raws)"
  shows "loadReplay E R creator raws = Inr s"
  using assms unfolding loadAttempt_def Let_def
  by (auto split: if_splits sum.splits simp: map_sum_def)

lemma loadReplay_chain:
  assumes "loadReplay E R creator raws = Inr s"
  obtains opened where "opened = map (rd_lock R) (shareFiltered E R (List.map_filter (rd_read R) raws))"
    "replayEventChain E (sortEventChain (List.map_filter (rd_chat R) opened)) creator = Inr s"
  using assms by (auto simp: loadReplay_def Let_def split: if_splits sum.splits)

lemma load_held:
  assumes "allHeld E (cl_states m)" "loadAttempt E R creator repair known cached fetched durable = Inr (s, raws)"
  shows "allHeld E (cl_states (fst (loadEnd watched now r raws s m)))"
proof -
  from loadReplay_chain [OF loadAttempt_replayed [OF assms(2)]] have "heldTrade E s" by (metis held_replayed)
  then have "heldTrade E (reseedChat st s)" for st by (rule held_cong [OF bare_reseed])
  with assms(1) show ?thesis by (simp add: loadEnd_def Let_def intake_frame allHeld_update)
qed

lemma applyLocally_held:
  assumes "allHeld E (cl_states c)" "applyLocally E c e = Inr (c', s)"
  shows "allHeld E (cl_states c')"
  using assms allHeld_applied [OF assms(1), of "ev_escrowId e" e] by (auto simp: applyLocally_def split: sum.splits)

lemma record_held:
  assumes "allHeld E (cl_states m)" "recordLocally E watched now raw e m = Inr m'"
  shows "allHeld E (cl_states m')"
  using assms applyLocally_held [OF assms(1), of e]
  by (auto simp: recordLocally_def intake_frame split: sum.splits prod.splits)

lemma voted_held:
  assumes "allHeld E (cl_states (m :: intake))"
  shows "allHeld E (cl_states (fst (voteEnd E m e published)))"
  using assms applyLocally_held [OF assms, of e]
  by (auto simp: voteEnd_def Let_def split: sum.splits prod.splits option.splits)

section \<open>Reachable clients\<close>

text \<open>The client's steps in any order; a load may have begun at any earlier time.\<close>

inductive client_run :: "env \<Rightarrow> intake \<Rightarrow> bool" for E where
  fresh: "cl_states m = (\<lambda>_. None) \<Longrightarrow> client_run E m"
| received: "client_run E m \<Longrightarrow> client_run E (fst (intakeApply E watched now relay raw e m))"
| acted: "client_run E m \<Longrightarrow> recordLocally E watched now raw e m = Inr m' \<Longrightarrow> client_run E m'"
| voted: "client_run E m \<Longrightarrow> client_run E (fst (voteEnd E m e published))"
| reloaded: "client_run E m \<Longrightarrow> client_run E (reloadDone i before threw m)"
| hydrated: "client_run E m \<Longrightarrow> client_run E (fst (hydrationDone now i ok m))"
| loaded: "client_run E m \<Longrightarrow> loadAttempt E R creator repair known cached fetched durable = Inr (s, raws)
    \<Longrightarrow> client_run E (fst (loadEnd watched now r raws s m))"

lemma client_run_held: "client_run E m \<Longrightarrow> allHeld E (cl_states m)"
proof (induction rule: client_run.induct)
  case (fresh m)
  then show ?case by (simp add: allHeld_def)
qed (simp_all add: apply_held record_held voted_held load_held intake_frame)

text \<open>C4. Every trade a client holds is one the reducer reaches: whatever the order in which events
  arrive, the user acts, reloads end and loads are adopted, and whatever the relays and the cache
  returned, the trade held under any id is, but for its chat and the notes about refused events, a
  state reached from a CREATE by accepted events. What is proved of reachable states holds of it.\<close>

theorem client_holds_reachable_trades:
  assumes "client_run E m" "cl_states m i = Some s"
  shows "\<exists>t. reachable E t \<and> bare s = bare t"
  using client_run_held [OF assms(1)] assms(2) by (simp add: allHeld_def heldTrade_def)

section \<open>Progress\<close>

text \<open>What a later state keeps of an earlier one of the same status.\<close>

definition kept :: "state \<Rightarrow> state \<Rightarrow> bool" where
  "kept s t \<longleftrightarrow> set (st_eventChain s) \<subseteq> set (st_eventChain t)
     \<and> (truthyS (acceptIdOf s) \<longrightarrow> acceptIdOf t = acceptIdOf s)
     \<and> (truthyS (releaseIdOf s) \<longrightarrow> releaseIdOf t = releaseIdOf s)"

lemma kept_trans: "kept s t \<Longrightarrow> kept t u \<Longrightarrow> kept s u"
  by (auto simp: kept_def)

lemma kept_same: "st_eventChain t = st_eventChain s \<Longrightarrow> st_lock t = st_lock s \<Longrightarrow> kept s t"
  by (simp add: kept_def acceptIdOf_def releaseIdOf_def)

lemma lockStep_kept: "handleLockStep s e p = Inr t \<Longrightarrow> kept s t"
  by (auto simp: handleLockStep_def acceptStep_def releaseStep_def releasedLock_def guarded_Inr Let_def kept_def
      acceptIdOf_def releaseIdOf_def split: lock_step.splits option.splits)

lemma dispatch_kept:
  assumes "dispatch E s e = Inr t" "ev_kind e \<noteq> K_LOCK"
  shows "kept s t"
proof (cases "ev_kind e = K_LOCK_STEP")
  case True
  then obtain p where "ev_payload e = PLockStep p" by (cases "ev_payload e") (auto simp: ev_kind_def)
  with assms(1) show ?thesis by (simp add: dispatch_simps lockStep_kept)
next
  case False
  with assms dispatch_lock_kept [OF assms(1)] switching.chain_prefix [OF assms(1)] show ?thesis
    by (simp add: kept_def acceptIdOf_def releaseIdOf_def)
qed

lemma applied_moves:
  assumes "applyEvent E (Some s) e = Inr t"
  shows "(st_status s, st_status t) \<in> statusMoves \<union> staying"
  using applyEvent_Some [OF assms]
proof (cases rule: applyTo_cases)
  case expired
  with chains.live_status show ?thesis by (auto simp: statusMoves_def)
next
  case handled
  then show ?thesis using switching.status by blast
next
  case late
  then have "st_status t = EXPIRED"
    by (cases "ev_payload e") (auto simp: ev_kind_def dispatch_simps dest: stepping.status voting.status)
  with late chains.live_status show ?thesis by (auto simp: statusMoves_def)
qed (simp_all add: staying_def)

lemma applied_kept:
  assumes "applyEvent E (Some s) e = Inr t" "st_status t = st_status s"
  shows "kept s t"
  using applyEvent_Some [OF assms(1)]
proof (cases rule: applyTo_cases)
  case handled
  have "ev_kind e \<noteq> K_LOCK"
  proof
    assume "ev_kind e = K_LOCK"
    then obtain p where "ev_payload e = PLock p" by (cases "ev_payload e") (auto simp: ev_kind_def)
    with handled(1) have "handleLock E s e p = Inr t" by (simp add: dispatch_simps)
    from locking.status [OF this] assms(2) show False by auto
  qed
  with handled(1) show ?thesis by (rule dispatch_kept)
next
  case late
  then have "kept (expire s) t" by (intro dispatch_kept) auto
  then show ?thesis by (simp add: kept_def acceptIdOf_def releaseIdOf_def)
qed (auto intro: kept_same simp: expire_def)

text \<open>From a trade that has not expired the run goes ahead: it expires before it is decided, its
  rank grows, or its status stays and nothing is lost.\<close>

definition ahead :: "state \<Rightarrow> state \<Rightarrow> bool" where
  "ahead s t \<longleftrightarrow> (st_status s \<in> {CREATED, LOCKED} \<and> st_status t = EXPIRED)
     \<or> (st_status t \<noteq> EXPIRED \<and> statusProgressRank (st_status s) < statusProgressRank (st_status t))
     \<or> (st_status t = st_status s \<and> kept s t)"

lemma ahead_step:
  assumes "ahead s t" "st_status s \<noteq> EXPIRED" "applyEvent E (Some t) e = Inr u"
  shows "ahead s u"
proof (cases "st_status u = st_status t")
  case True
  with applied_kept [OF assms(3)] assms(1) show ?thesis by (auto simp: ahead_def intro: kept_trans)
next
  case False
  with applied_moves [OF assms(3)] have "(st_status t, st_status u) \<in> statusMoves" by (simp add: staying_def)
  with assms(1,2) show ?thesis
    by (cases "st_status s") (auto simp: ahead_def statusMoves_def)
qed

lemma ahead_run:
  "run E (Some t) es = Some u \<Longrightarrow> ahead s t \<Longrightarrow> st_status s \<noteq> EXPIRED \<Longrightarrow> ahead s u"
  by (induction es arbitrary: t) (auto split: sum.splits intro: ahead_step)

lemma expired_run:
  "run E (Some t) es = Some u \<Longrightarrow> st_status t \<notin> {CREATED, LOCKED} \<Longrightarrow> st_status u \<notin> {CREATED, LOCKED}"
proof (induction es arbitrary: t)
  case (Cons e es)
  then obtain v where v: "applyEvent E (Some t) e = Inr v" "run E (Some v) es = Some u" by (auto split: sum.splits)
  from applied_moves [OF v(1)] Cons.prems(2) have "st_status v \<notin> {CREATED, LOCKED}"
    by (auto simp: statusMoves_def staying_def)
  with Cons.IH [OF v(2)] show ?case .
qed simp

lemma ahead_adopted:
  assumes "ahead s t" "bare u = bare t"
  shows "\<not> isPartialReplayDowngrade (Some s) u"
proof -
  note same = bare_eq [OF assms(2)]
  have ids: "inChain u (ev_id e)" if "kept s t" "e \<in> set (st_eventChain s)" for e
    using that same(2) by (auto simp: kept_def inChain_iff)
  from assms(1) same show ?thesis
    unfolding ahead_def
    by (auto simp: isPartialReplayDowngrade_def TERMINAL_STATES_def list_all_iff kept_def acceptIdOf_def releaseIdOf_def
        ids)
qed

text \<open>C16. When a load shows where the trade has gone since (the held trade followed by accepted
  events, no LOCK of it refused), it is adopted, with one exception: a client that holds the trade
  as EXPIRED takes the healed trade, APPROVED or CLAIMED, for a partial read and ignores it.\<close>

theorem genuine_progress_is_adopted:
  assumes "run E (Some s) es = Some t" "bare u = bare t" "\<not> refusesOurs s u"
  shows "isPartialReplayDowngrade (Some s) u
    \<longleftrightarrow> st_status s = EXPIRED \<and> st_status u \<in> {APPROVED, CLAIMED}"
proof (cases "st_status s = EXPIRED")
  case True
  with expired_run [OF assms(1)] bare_eq(1) [OF assms(2)] have "st_status u \<notin> {CREATED, LOCKED}" by simp
  with True assms(3) show ?thesis
    by (cases "st_status u") (simp_all add: isPartialReplayDowngrade_def TERMINAL_STATES_def)
next
  case False
  have "ahead s s" by (simp add: ahead_def kept_def)
  from ahead_run [OF assms(1) this False] assms(2) have "\<not> isPartialReplayDowngrade (Some s) u"
    by (rule ahead_adopted)
  with False show ?thesis by simp
qed

section \<open>Raw events kept\<close>

lemma update_subset: "set (AList.update k v al) \<subseteq> insert (k, v) (set al)"
  by (induction al) auto

definition rawKeyed :: "(string \<times> nostr_event) list \<Rightarrow> bool" where
  "rawKeyed m \<longleftrightarrow> (\<forall>x\<in>set m. fst x = ne_id (snd x))"

definition merged :: "(string \<times> nostr_event) list \<Rightarrow> nostr_event list \<Rightarrow> (string \<times> nostr_event) list" where
  "merged m es = foldl (\<lambda>m e. AList.update (ne_id e) e m) m es"

lemma merged_simps: "merged m [] = m" "merged m (e # es) = merged (AList.update (ne_id e) e m) es"
  by (simp_all add: merged_def)

lemma rawKeyed_update: "rawKeyed m \<Longrightarrow> rawKeyed (AList.update (ne_id e) e m)"
  using update_subset [of "ne_id e" e m] by (fastforce simp: rawKeyed_def)

lemma rawKeyed_merged: "rawKeyed m \<Longrightarrow> rawKeyed (merged m es)"
  by (induction es arbitrary: m) (simp_all add: merged_simps rawKeyed_update)

lemma merged_keys: "fst ` set (merged m es) = fst ` set m \<union> ne_id ` set es"
  by (induction es arbitrary: m) (simp_all add: merged_simps AList.dom_update)

lemma merged_values: "snd ` set (merged m es) \<subseteq> snd ` set m \<union> set es"
proof (induction es arbitrary: m)
  case (Cons e es)
  have "snd ` set (AList.update (ne_id e) e m) \<subseteq> insert e (snd ` set m)"
    using update_subset [of "ne_id e" e m] by fastforce
  with Cons [of "AList.update (ne_id e) e m"] show ?case unfolding merged_simps by (simp only: list.set) blast
qed (simp add: merged_simps)

lemma mergeRaw_merged: "mergeRawEventsById xs ys = map snd (merged [] (xs @ ys))"
  by (simp add: mergeRawEventsById_def merged_def)

lemma merge_ids: "ne_id ` set (mergeRawEventsById xs ys) = ne_id ` set xs \<union> ne_id ` set ys"
proof -
  have "rawKeyed (merged [] (xs @ ys))" by (rule rawKeyed_merged) (simp add: rawKeyed_def)
  then have "ne_id ` set (mergeRawEventsById xs ys) = fst ` set (merged [] (xs @ ys))"
    unfolding mergeRaw_merged rawKeyed_def set_map image_image by (intro image_cong) auto
  then show ?thesis by (simp add: merged_keys image_Un)
qed

lemma merge_subset: "set (mergeRawEventsById xs ys) \<subseteq> set xs \<union> set ys"
  using merged_values [of "[]" "xs @ ys"] by (simp add: mergeRaw_merged)

lemma compact_keeps:
  assumes "x \<in> set es" "\<not> isChatRaw x" "ne_id x \<noteq> []"
  shows "ne_id x \<in> ne_id ` set (compactHotRawEvents es)"
  using assms by (auto simp: compactHotRawEvents_def dedupRawEvents_def dedupeOn_set)

lemma compact_ids: "ne_id ` set (compactHotRawEvents es) \<subseteq> ne_id ` set es"
  by (auto simp: compactHotRawEvents_def dedupRawEvents_def dedupeOn_set)

text \<open>A watched trade is never evicted.\<close>

lemma map_of_filter_keys: "i \<notin> A \<Longrightarrow> map_of (filter (\<lambda>x. fst x \<notin> A) xs) i = map_of xs i"
  by (induction xs) auto

lemma evictions_unwatched: "set (selectHotRawEvictions rows watched cap) \<inter> set watched = {}"
  by (auto simp: selectHotRawEvictions_def Let_def dest!: in_set_takeD)

lemma setHot_watched:
  assumes "i \<in> set watched"
  shows "hotRaws (setHotRawEvents watched now i es m) i = es"
proof -
  have "i \<notin> set (selectHotRawEvictions rows watched cap)" for rows cap
    using evictions_unwatched [of rows watched cap] assms by blast
  then show ?thesis
    by (simp add: hotRaws_def setHotRawEvents_def Let_def map_of_filter_keys [of _ "set _"] AList.update_conv')
qed

section \<open>Loads that go wrong\<close>

text \<open>A healed trade stays EXPIRED on a client that saw it expire. A load that shows it decided
  (APPROVED or CLAIMED) leaves every trade as it was and answers with the expired one; and it keeps
  the raw events it found, so the RESOLVE, delivered by a relay afterwards, is dropped as already held.\<close>

theorem healed_trade_stays_expired:
  assumes "lr_current r = Some s" "st_status s = EXPIRED" "st_status u \<in> {APPROVED, CLAIMED}" "\<not> refusesOurs s u"
    and "lr_id r \<in> set watched" "x \<in> set raws" "\<not> isChatRaw x" "ne_id x \<noteq> []"
    and "getTagValue (ne_tags x) ''d'' = Some (lr_id r)"
    and "\<forall>y\<in>set (hotRaws m (lr_id r)) \<union> set raws. ne_id y = ne_id x \<longrightarrow> y = x"
  shows "cl_states (fst (loadEnd watched now r raws u m)) = cl_states m
    \<and> snd (loadEnd watched now r raws u m) = Some s
    \<and> intakeGate localSim later (fst (loadEnd watched now r raws u m)) x = None"
proof -
  have d: "isPartialReplayDowngrade (lr_current r) u"
    using assms(1-4) by (auto simp: isPartialReplayDowngrade_def TERMINAL_STATES_def)
  let ?merged = "mergeRawEventsById (hotRaws m (lr_id r)) raws"
  let ?m = "setHotRawEvents watched now (lr_id r) (compactHotRawEvents ?merged) m"
  have "ne_id x \<in> ne_id ` set ?merged" using assms(6) by (simp add: merge_ids)
  then obtain y where "y \<in> set ?merged" "ne_id y = ne_id x" by auto
  with merge_subset [of "hotRaws m (lr_id r)" raws] assms(10) have "x \<in> set ?merged" by auto
  from compact_keeps [OF this assms(7,8)] have "hasEventLocally ?m (lr_id r) (ne_id x)"
    by (simp add: hasEventLocally_def setHot_watched [OF assms(5)])
  with d assms(1,9) show ?thesis
    by (auto simp: loadEnd_def Let_def intake_frame intakeGate_def split: option.splits)
qed

text \<open>What a reader makes of a raw event keeps its id.\<close>

definition faithfulReader :: "reader \<Rightarrow> bool" where
  "faithfulReader R \<longleftrightarrow> (\<forall>x y. rd_read R x = Some y \<longrightarrow> ev_id y = ne_id x)
     \<and> (\<forall>y. ev_id (rd_lock R y) = ev_id y) \<and> (\<forall>y z. rd_chat R y = Some z \<longrightarrow> ev_id z = ev_id y)"

lemma shareFiltered_subset: "set (shareFiltered E R es) \<subseteq> set es"
  by (auto simp: shareFiltered_def split: option.splits sum.splits)

lemma sorted_subset: "set (sortEventChain es) \<subseteq> set es"
proof -
  have "set_mset (mset (sortEventChain es)) \<subseteq> set es"
    unfolding sortEventChain_facts(1) using uniqueById_subset [of "filter (\<lambda>e. \<not> isAux e) es"] by auto
  then show ?thesis by simp
qed

lemma loadReplay_ids:
  assumes "faithfulReader R" "loadReplay E R creator raws = Inr s" "e \<in> set (st_eventChain s)"
  shows "ev_id e \<in> ne_id ` set raws"
proof -
  from loadReplay_chain [OF assms(2)] obtain opened
    where o: "opened = map (rd_lock R) (shareFiltered E R (List.map_filter (rd_read R) raws))"
      and c: "replayEventChain E (sortEventChain (List.map_filter (rd_chat R) opened)) creator = Inr s" by blast
  from replayed_events [OF c assms(3)] sorted_subset have "e \<in> set (List.map_filter (rd_chat R) opened)" by blast
  then obtain y where y: "y \<in> set opened" "rd_chat R y = Some e" by (auto simp: List.map_filter_def)
  from y(1) o obtain z where "y = rd_lock R z" "z \<in> set (List.map_filter (rd_read R) raws)"
    using shareFiltered_subset by fastforce
  with y(2) assms(1) show ?thesis by (auto simp: List.map_filter_def faithfulReader_def)
qed

lemma loadAttempt_ids:
  assumes "loadAttempt E R creator repair known cached fetched durable = Inr (s, raws)"
  shows "ne_id ` set raws \<subseteq> ne_id ` set (cached @ fetched @ durable)"
  using assms unfolding loadAttempt_def Let_def
  by (auto split: if_splits sum.splits simp: map_sum_def merge_ids image_Un)
    (metis (no_types, opaque_lifting) Un_iff image_eqI merge_ids)+

lemma accepted_applied:
  assumes "applyEvent E (cl_states m (ev_escrowId e)) e = Inr t" "ev_kind e \<noteq> K_CHAT" "cl_states m (ev_escrowId e) \<noteq> None"
  shows "fst (intakeApply E watched now relay raw e m) = setHotRawEvents watched now (ev_escrowId e)
    (compactHotRawEvents (hotRaws m (ev_escrowId e) @ [raw])) (setState (ev_escrowId e) t m)"
  using assms by (auto simp: intakeApply_def Let_def split: payload.splits option.splits)

text \<open>C31. A load forgets what arrives while it runs. It captures the trade and its raw events when
  it begins; an event the client then accepts live, and that is neither in the capture nor in what
  the relays and the cache return, is gone from the trade and from the raw events when the load
  ends, since the guard against downgrades compares with the captured trade.\<close>

theorem load_forgets_a_live_event:
  assumes "faithfulReader R" "cl_states m i = Some s" "loadBegin rawOf fullHistory i m = (r, since)"
    and "loadAttempt E R creator repair known (lr_cached r) fetched durable = Inr (u, raws)"
    and "ne_id raw \<notin> ne_id ` set (lr_cached r @ fetched @ durable)"
    and "applyEvent E (Some s) e = Inr t" "ev_escrowId e = i" "ev_kind e \<noteq> K_CHAT" "\<not> isChatRaw raw" "ne_id raw \<noteq> []"
    and "\<not> isPartialReplayDowngrade (Some s) u" "i \<in> set watched"
    and "m1 = fst (intakeApply E watched now relay raw e m)" "m2 = fst (loadEnd watched later r raws u m1)"
  shows "cl_states m1 i = Some t \<and> hasEventLocally m1 i (ne_id raw)
    \<and> (\<exists>v. cl_states m2 i = Some v \<and> \<not> inChain v (ne_id raw)) \<and> ne_id raw \<notin> ne_id ` set (hotRaws m2 i)"
proof -
  have m1: "m1 = setHotRawEvents watched now i (compactHotRawEvents (hotRaws m i @ [raw])) (setState i t m)"
    using accepted_applied [of E m e t] assms(2,6,7,8,13) by simp
  have r: "lr_id r = i" "lr_current r = Some s" using assms(2,3) by (auto simp: loadBegin_def Let_def)
  have m2: "m2 = setHotRawEvents watched later i (compactHotRawEvents raws) (setState i (reseedChat (Some s) u) m1)"
    using assms(11,14) r by (simp add: loadEnd_def Let_def)
  have new: "ne_id raw \<notin> ne_id ` set raws" using loadAttempt_ids [OF assms(4)] assms(5) by blast
  have "\<not> inChain u (ne_id raw)"
    using loadReplay_ids [OF assms(1) loadAttempt_replayed [OF assms(4)]] new by (auto simp: inChain_iff)
  moreover have "st_eventChain (reseedChat (Some s) u) = st_eventChain u" by (simp add: reseedChat_def Let_def)
  moreover have "hasEventLocally m1 i (ne_id raw)"
    using compact_keeps [of raw "hotRaws m i @ [raw]"] assms(9,10)
    by (simp add: hasEventLocally_def m1 setHot_watched [OF assms(12)])
  moreover have "ne_id raw \<notin> ne_id ` set (hotRaws m2 i)"
    using compact_ids [of raws] new by (auto simp: m2 setHot_watched [OF assms(12)])
  ultimately show ?thesis by (simp add: m1 m2 intake_frame inChain_def)
qed

section \<open>Storms\<close>

text \<open>Refused events of one trade, and the ends of reloads that brought its chain nothing new; the
  answer lists the times at which a reload was armed.\<close>

datatype storm_event = RejectedAt int | ReloadOver bool

fun storm :: "string \<Rightarrow> intake \<Rightarrow> storm_event list \<Rightarrow> intake \<times> int list" where
  "storm i m [] = (m, [])"
| "storm i m (RejectedAt now # es) = (let (m1, armed) = scheduleOutOfOrderReload now i m; (m2, ts) = storm i m1 es
     in (m2, if armed then now # ts else ts))"
| "storm i m (ReloadOver threw # es) = storm i (reloadDone i (chainLength m i) threw m) es"

definition waits :: "nat \<Rightarrow> nat \<Rightarrow> int" where
  "waits n k = (\<Sum>j<k. outOfOrderReloadCooldownMs (int (n + j)))"

lemma waits_Suc: "waits n (Suc k) = outOfOrderReloadCooldownMs (int n) + waits (Suc n) k"
  unfolding waits_def by (subst sum.lessThan_Suc_shift) simp

lemma reloadDone_history: "ik_reloads (reloadDone i (chainLength m i) threw m) = ik_reloads m"
  by (simp add: reloadDone_def)

lemma schedule_history:
  assumes "ik_reloads m i = Some (int n, t0)" "n > 0"
  shows "scheduleOutOfOrderReload now i m = (m, False)
    \<or> (\<exists>m'. scheduleOutOfOrderReload now i m = (m', True) \<and> ik_reloads m' i = Some (int (Suc n), now)
        \<and> t0 + outOfOrderReloadCooldownMs (int n) \<le> now)"
  using assms by (auto simp: scheduleOutOfOrderReload_def)

lemma storm_waits:
  assumes "storm i m es = (m', ts)" "ik_reloads m i = Some (int n, t0)" "n > 0" "ts \<noteq> []"
  shows "t0 + waits n (length ts) \<le> last ts"
  using assms
proof (induction es arbitrary: m n t0 ts)
  case (Cons x es)
  show ?case
  proof (cases x)
    case (ReloadOver threw)
    with Cons.prems(1) have "storm i (reloadDone i (chainLength m i) threw m) es = (m', ts)" by simp
    from Cons.IH [OF this _ Cons.prems(3,4)] Cons.prems(2) show ?thesis by (simp add: reloadDone_history)
  next
    case (RejectedAt now)
    from schedule_history [OF Cons.prems(2,3), of now] show ?thesis
    proof
      assume "scheduleOutOfOrderReload now i m = (m, False)"
      with RejectedAt Cons.prems(1) have "storm i m es = (m', ts)" by (simp split: prod.splits)
      from Cons.IH [OF this Cons.prems(2,3,4)] show ?thesis .
    next
      assume "\<exists>m1. scheduleOutOfOrderReload now i m = (m1, True) \<and> ik_reloads m1 i = Some (int (Suc n), now)
        \<and> t0 + outOfOrderReloadCooldownMs (int n) \<le> now"
      then obtain m1 where m1: "scheduleOutOfOrderReload now i m = (m1, True)" "ik_reloads m1 i = Some (int (Suc n), now)"
        "t0 + outOfOrderReloadCooldownMs (int n) \<le> now" by blast
      with RejectedAt Cons.prems(1) obtain us where us: "storm i m1 es = (m', us)" "ts = now # us"
        by (auto split: prod.splits)
      show ?thesis
      proof (cases "us = []")
        case True
        with us m1(3) show ?thesis by (simp add: waits_def)
      next
        case False
        from Cons.IH [OF us(1) m1(2) _ False] us(2) False m1(3) show ?thesis by (simp add: waits_Suc)
      qed
    qed
  qed
qed simp

lemma cooldown_long: "n \<ge> 5 \<Longrightarrow> outOfOrderReloadCooldownMs (int n) = 300000"
proof -
  assume "n \<ge> 5"
  then have "(2::int) ^ 4 \<le> 2 ^ nat (int n - 1)" by (intro power_increasing) auto
  with \<open>n \<ge> 5\<close> show ?thesis
    by (simp add: outOfOrderReloadCooldownMs_def OUT_OF_ORDER_RELOAD_BASE_COOLDOWN_MS_def
        OUT_OF_ORDER_RELOAD_MAX_COOLDOWN_MS_def)
qed

lemma cooldown_nonneg: "0 \<le> outOfOrderReloadCooldownMs n"
  by (simp add: outOfOrderReloadCooldownMs_def OUT_OF_ORDER_RELOAD_BASE_COOLDOWN_MS_def
      OUT_OF_ORDER_RELOAD_MAX_COOLDOWN_MS_def)

lemma waits_four: "waits 1 4 = 450000"
  by (simp add: waits_def outOfOrderReloadCooldownMs_def OUT_OF_ORDER_RELOAD_BASE_COOLDOWN_MS_def
      OUT_OF_ORDER_RELOAD_MAX_COOLDOWN_MS_def eval_nat_numeral)

lemma waits_grow: "300000 * (int k - 3) \<le> waits 1 k"
proof (cases "k < 4")
  case True
  have "0 \<le> waits 1 k" unfolding waits_def by (intro sum_nonneg cooldown_nonneg)
  moreover have "300000 * (int k - 3) \<le> 0" using True by simp
  ultimately show ?thesis by linarith
next
  case False
  then have "4 \<le> k" by simp
  then show ?thesis
  proof (induction k rule: dec_induct)
    case base
    then show ?case unfolding waits_four by simp
  next
    case (step k)
    have "waits 1 (Suc k) = waits 1 k + outOfOrderReloadCooldownMs (int (Suc k))" by (simp add: waits_def)
    with step cooldown_long [of "Suc k"] show ?case by simp
  qed
qed

text \<open>The first reload of a quiet trade is armed at once.\<close>

lemma storm_first:
  assumes "storm i m es = (m', ts)" "ik_reloads m i = None" "ts \<noteq> []"
  shows "hd ts + waits 1 (length ts - 1) \<le> last ts"
  using assms
proof (induction es arbitrary: m ts)
  case (Cons x es)
  show ?case
  proof (cases x)
    case (ReloadOver threw)
    with Cons.prems(1) have "storm i (reloadDone i (chainLength m i) threw m) es = (m', ts)" by simp
    from Cons.IH [OF this _ Cons.prems(3)] Cons.prems(2) show ?thesis by (simp add: reloadDone_history)
  next
    case (RejectedAt now)
    show ?thesis
    proof (cases "i \<in> set (ik_reloading m)")
      case True
      with RejectedAt Cons.prems(1,2) have "storm i m es = (m', ts)"
        by (simp add: scheduleOutOfOrderReload_def split: prod.splits)
      from Cons.IH [OF this Cons.prems(2,3)] show ?thesis .
    next
      case False
      then obtain m1 where m1: "scheduleOutOfOrderReload now i m = (m1, True)" "ik_reloads m1 i = Some (int 1, now)"
        using Cons.prems(2) by (simp add: scheduleOutOfOrderReload_def)
      with RejectedAt Cons.prems(1) obtain us where us: "storm i m1 es = (m', us)" "ts = now # us"
        by (auto split: prod.splits)
      show ?thesis
      proof (cases "us = []")
        case True
        with us show ?thesis by (simp add: waits_def)
      next
        case nonempty: False
        from storm_waits [OF us(1) m1(2) _ nonempty] us(2) nonempty show ?thesis by simp
      qed
    qed
  qed
qed simp

text \<open>C32. A storm of events that do not apply cannot storm the relays: while the reloads of a trade
  bring nothing new, and however the refused events and the ends of reloads interleave, the trade is
  fetched at most four times and then once in five minutes.\<close>

theorem reload_storm_is_bounded:
  assumes "storm i m es = (m', ts)" "ik_reloads m i = None" "ts \<noteq> []"
  shows "300000 * (int (length ts) - 4) \<le> last ts - hd ts"
proof -
  have "int (length ts - 1) = int (length ts) - 1" using assms(3) by (cases ts) auto
  with storm_first [OF assms] waits_grow [of "length ts - 1"] show ?thesis by simp
qed

section \<open>Witnesses\<close>

definition wRaw :: "event \<Rightarrow> nostr_event" where
  "wRaw e = \<lparr>ne_id = ev_id e, ne_pubkey = ev_pubkey e, ne_created_at = ev_timestamp e, ne_kind = kindNumber (ev_kind e),
     ne_tags = [[''d'', ev_escrowId e]], ne_content = [], ne_sig = []\<rparr>"

definition wReader :: "event list \<Rightarrow> reader" where
  "wReader es = \<lparr>rd_read = (\<lambda>x. List.find (\<lambda>e. ev_id e = ne_id x) es), rd_recheck = (\<lambda>_ _. True),
     rd_lock = (\<lambda>e. e), rd_chat = Some\<rparr>"

definition wFresh :: intake where
  "wFresh = \<lparr>cl_states = (\<lambda>_. None), cl_pendingVotes = [], ik_hot = [], ik_buffer = (\<lambda>_. []), ik_reloads = (\<lambda>_. None),
     ik_reloading = [], ik_hydrating = [], ik_queue = [], ik_cooldown = (\<lambda>_. None)\<rparr>"

definition wOpenTrade :: intake where
  "wOpenTrade = (case recordLocally plainEnv [''trade''] 0 (wRaw (wCreate 1000)) (wCreate 1000) wFresh of
     Inl _ \<Rightarrow> wFresh | Inr m \<Rightarrow> m)"

definition wJoinedTrade :: intake where
  "wJoinedTrade = fst (intakeApply plainEnv [''trade''] 0 ''relay'' (wRaw (wJoin 1000)) (wJoin 1000) wOpenTrade)"

lemma wOpenTrade_run: "client_run plainEnv wOpenTrade"
proof -
  have "client_run plainEnv wFresh" by (rule client_run.fresh) (simp add: wFresh_def)
  then show ?thesis by (auto simp: wOpenTrade_def intro: client_run.acted split: sum.splits)
qed

theorem client_holds_reachable_trades_witness:
  "\<exists>s t. cl_states wJoinedTrade ''trade'' = Some s \<and> st_participants s BUYER = Some ''B''
    \<and> reachable plainEnv t \<and> bare s = bare t"
proof -
  have "client_run plainEnv wJoinedTrade" unfolding wJoinedTrade_def by (rule client_run.received [OF wOpenTrade_run])
  moreover have "case cl_states wJoinedTrade ''trade'' of Some s \<Rightarrow> st_participants s BUYER = Some ''B'' | None \<Rightarrow> False"
    by code_simp
  ultimately show ?thesis using client_holds_reachable_trades [of plainEnv wJoinedTrade "''trade''"]
    by (auto split: option.splits)
qed

text \<open>A locked trade expires, both sides vote to refund, and it is resolved.\<close>

definition wLapsed :: "event list" where
  "wLapsed = wLocked 1000 @ [wVote ''e3'' ''B'' BUYER REFUND 100000000, wVote ''e4'' ''S'' SELLER REFUND 100000001]"

definition wHeal :: event where
  "wHeal = wResolve REFUND [BUYER, SELLER] 100000002"

lemma wLapsed_ends:
  "ends wLapsed (\<lambda>s. st_status s = EXPIRED \<and> length (st_rejectedLocks s) = 0)"
  "ends (wLapsed @ [wHeal]) (\<lambda>s. st_status s = APPROVED \<and> length (st_rejectedLocks s) = 0)"
  by code_simp+

theorem genuine_progress_is_adopted_witness:
  "isPartialReplayDowngrade (Some (stateAfter wLapsed)) (stateAfter (wLapsed @ [wHeal]))"
proof -
  note f = wLapsed_ends [THEN endsD(2)]
  have "wLapsed \<noteq> []" by (simp add: wLapsed_def)
  from ran_step(1) [OF endsD(1) [OF wLapsed_ends(2)] this]
  have "run plainEnv (Some (stateAfter wLapsed)) [wHeal] = Some (stateAfter (wLapsed @ [wHeal]))" by simp
  from genuine_progress_is_adopted [OF this refl] f show ?thesis by (simp add: refusesOurs_def)
qed

theorem healed_trade_stays_expired_witness:
  "\<exists>m. cl_states m = cl_states wFresh \<and> intakeGate False 0 m (wRaw wHeal) = None
    \<and> intakeGate False 100000003000 wFresh (wRaw wHeal) = Some ''trade''"
proof -
  note f = wLapsed_ends [THEN endsD(2)]
  let ?r = "\<lparr>lr_id = ''trade'', lr_current = Some (stateAfter wLapsed), lr_cached = map wRaw wLapsed\<rparr>"
  let ?m = "fst (loadEnd [''trade''] 0 ?r [wRaw wHeal] (stateAfter (wLapsed @ [wHeal])) wFresh)"
  have x: "\<not> isChatRaw (wRaw wHeal)" "ne_id (wRaw wHeal) \<noteq> []" "getTagValue (ne_tags (wRaw wHeal)) ''d'' = Some ''trade''"
    by code_simp+
  have "hotRaws wFresh ''trade'' = []" by (simp add: hotRaws_def wFresh_def)
  with healed_trade_stays_expired [of ?r "stateAfter wLapsed" "stateAfter (wLapsed @ [wHeal])" "[''trade'']"
      "wRaw wHeal" "[wRaw wHeal]" wFresh 0 False 0] f x
  have "cl_states ?m = cl_states wFresh \<and> intakeGate False 0 ?m (wRaw wHeal) = None" by (simp add: refusesOurs_def)
  moreover have "intakeGate False 100000003000 wFresh (wRaw wHeal) = Some ''trade''" by code_simp
  ultimately show ?thesis by blast
qed

definition wLoadRun :: load_run where
  "wLoadRun = fst (loadBegin wRaw True ''trade'' wOpenTrade)"

lemma wForgets:
  "case loadAttempt plainEnv (wReader [wCreate 1000]) None False True (lr_cached wLoadRun) [] [] of
     Inl _ \<Rightarrow> False | Inr (u, raws) \<Rightarrow> \<not> isPartialReplayDowngrade (cl_states wOpenTrade ''trade'') u"
  "ne_id (wRaw (wJoin 1000)) \<notin> set (map ne_id (lr_cached wLoadRun))"
  "case cl_states wOpenTrade ''trade'' of None \<Rightarrow> False
     | Some s \<Rightarrow> (case applyEvent plainEnv (Some s) (wJoin 1000) of Inl _ \<Rightarrow> False | Inr _ \<Rightarrow> True)"
  by code_simp+

theorem load_forgets_a_live_event_witness:
  "\<exists>u raws v. cl_states (fst (loadEnd [''trade''] 0 wLoadRun raws u wJoinedTrade)) ''trade'' = Some v \<and> \<not> inChain v ''e1''
    \<and> hasEventLocally wJoinedTrade ''trade'' ''e1''"
proof -
  obtain s t where s: "cl_states wOpenTrade ''trade'' = Some s" "applyEvent plainEnv (Some s) (wJoin 1000) = Inr t"
    using wForgets(3) by (auto split: option.splits sum.splits)
  obtain u raws where l: "loadAttempt plainEnv (wReader [wCreate 1000]) None False True (lr_cached wLoadRun) [] [] = Inr (u, raws)"
    "\<not> isPartialReplayDowngrade (Some s) u" using wForgets(1) s(1) by (auto split: sum.splits)
  have b: "loadBegin wRaw True ''trade'' wOpenTrade = (wLoadRun, None)" by (simp add: wLoadRun_def loadBegin_def Let_def)
  have rd: "faithfulReader (wReader [wCreate 1000])"
    by (auto simp: faithfulReader_def wReader_def split: if_splits)
  have e: "ev_escrowId (wJoin 1000) = ''trade''" "ev_kind (wJoin 1000) \<noteq> K_CHAT" "\<not> isChatRaw (wRaw (wJoin 1000))"
    "ne_id (wRaw (wJoin 1000)) = ''e1''" by code_simp+
  from load_forgets_a_live_event [OF rd s(1) b l(1) _ s(2) e(1-3) _ l(2) _ wJoinedTrade_def refl, of 0] wForgets(2) e(4)
  show ?thesis by auto
qed

definition wStorm :: "storm_event list" where
  "wStorm = [RejectedAt 0, RejectedAt 1000, ReloadOver False, RejectedAt 29999, RejectedAt 30000, ReloadOver True,
     RejectedAt 89999, RejectedAt 90000]"

theorem reload_storm_is_bounded_witness:
  "snd (storm ''trade'' wFresh wStorm) = [0, 30000, 90000] \<and> 300000 * (int 3 - 4) \<le> (90000 - 0 :: int)"
proof -
  have ts: "snd (storm ''trade'' wFresh wStorm) = [0, 30000, 90000]" by code_simp
  then obtain m' where "storm ''trade'' wFresh wStorm = (m', [0, 30000, 90000])" by (metis prod.collapse)
  from reload_storm_is_bounded [OF this] ts show ?thesis by (simp add: wFresh_def)
qed

end
