(* ===== verification/Spec2Isabelle.thy ===== *)
theory Spec2Isabelle
  imports Vote_Properties Replay_Refinement Payout_Properties Policy_Properties Custody_Properties
    Wire_Properties Slice_Properties Payment_Properties Fund_Safety
    Exposure_Properties Withheld_Properties Money_Properties
    Native_Properties Mail_Properties Client_Properties Intake_Properties
begin

text \<open>
  A verification development for Chama (\<open>src/src\<close>), a peer-to-peer escrow on Nostr: a trade is a
  chain of signed events, every client folds the chain with a pure reducer, and the reducer
  alone decides who is seated, which votes count and who is paid. The development models that
  core and what the reducer rests on.

  The program's parts and the theories that model them:

  \<^item> \<open>Chama_Prelude\<close>: shared vocabulary (guard sequences, JavaScript numbers and strings,
    insertion sort with a comparator); it models no file of its own.
  \<^item> \<open>Escrow_Types\<close> (\<open>escrow-engine/types.ts\<close>, \<open>chama/types.ts\<close>): payloads, the event, the
    \<open>EscrowState\<close> as the record \<open>state\<close>, and the pure queries on it.
  \<^item> \<open>Arbiter_Pick\<close> (\<open>protocol/core/arbiter-pick.ts\<close>), \<open>Arbiter_Substitution\<close>
    (\<open>escrow-engine/arbiter-substitution.ts\<close>): which arbiter sits, who may speak in its place and when.
  \<^item> \<open>Slice_Policy\<close> (\<open>slice-policy.ts\<close>, the split of \<open>tranche-plan.ts\<close>): how an amount is cut into slices.
  \<^item> \<open>Circle\<close>, \<open>Rotation\<close>, \<open>Circle_Policy\<close> (\<open>chama/circle.ts\<close>, \<open>levels.ts\<close>, \<open>rotation.ts\<close>,
    \<open>policy.ts\<close>): the savings circles and the laws they impose on CREATE, VOTE and RESOLVE.
  \<^item> \<open>Holder_Shares\<close> (\<open>holder-shares.ts\<close>, \<open>recipients.ts\<close>): shares, envelopes, payout recipient.
  \<^item> \<open>Bitcoin_Escrow\<close> (\<open>bond-multisig/onchain-escrow*.ts\<close>), \<open>Onchain_Settlement\<close>
    (\<open>onchain-settlement-*.ts\<close>, \<open>onchain-funding-terms.ts\<close>, \<open>protocol/core/bond-announcement.ts\<close>):
    escrow outputs, settlement checks, the proofs that complete an on-chain trade.
  \<^item> \<open>Trade_Identity\<close> (\<open>trade-identity.ts\<close>): creator-tagged ids and the root CREATE.
  \<^item> \<open>Reducer_Base\<close>, \<open>Handle_Create\<close>, \<open>Handle_Join\<close>, \<open>Handle_Lock\<close>, \<open>Handle_Vote\<close>,
    \<open>Handle_Settle\<close>, \<open>Reducer\<close> (\<open>escrow-engine/state-machine.ts\<close>): one definition per handler, its
    guards in the order of the source, and \<open>applyEvent\<close> that dispatches to them.
  \<^item> \<open>Replay\<close> (\<open>state-machine.ts\<close>), \<open>Chain_Sort\<close> (\<open>event-parser.ts\<close>): loading a chain of events.
  \<^item> \<open>Event_Parser\<close> (\<open>escrow-engine/event-parser.ts\<close>): from a Nostr event to a checked event; JSON, URLs
    and the cast of a validated value to its type are the record \<open>wire\<close>.
  \<^item> \<open>Tranche_Plan\<close> (\<open>tranche-plan.ts\<close>), \<open>Tranche_Gate\<close> (\<open>tranche.ts\<close>): trades paid in slices, with a
    frozen parent and without one; fiat amounts are rationals.
  \<^item> \<open>Lightning_Fees\<close> (\<open>payments/lightning-fees.ts\<close>, \<open>bolt11.ts\<close>), \<open>Payout_Journal\<close>
    (\<open>payout-journal.ts\<close>, \<open>claim-credit-ledger.ts\<close>), \<open>Claim_Payout\<close> (\<open>claim-and-payout.ts\<close>): how the
    winner's money leaves. The injected dependencies are the record \<open>claim_deps\<close> of their answers,
    the effects of a run are a log with the stored journal at each entry, a crash is a prefix of it.
  \<^item> \<open>Pending_Funding\<close> (\<open>fedimint/pending-fundings.ts\<close>), \<open>Fedi_Funding\<close>
    (\<open>payments/fedi-fund-and-lock.ts\<close>), \<open>Slice_Funding\<close> (\<open>slice-funding-loop.ts\<close>): how a trade is funded out of
    a wallet of bearer notes, and slice by slice. Runs are logged as claims are.
  \<^item> \<open>Newest_Wins\<close>: the choice of the best candidate by a strict order, an interface; it models no file.
  \<^item> \<open>Arbiter_Exposure\<close> (\<open>arbiters/bonds.ts\<close>, \<open>arbiters/exposure.ts\<close>): which bond of an arbiter counts, what
    trades its bonds cover and whom a new trade may be assigned to.
  \<^item> \<open>Device_Store\<close> (\<open>storage/user-scope.ts\<close>), \<open>Withheld_Store\<close> (\<open>withheld-share-store.ts\<close>),
    \<open>Withheld_Writer\<close> (the accept, release and withdraw of \<open>escrow-client.ts\<close>), \<open>Money_Publish\<close>
    (\<open>durable-money-publish.ts\<close> and its callers in \<open>escrow-client.ts\<close>): the crash-safe writers of the client.
    An asynchronous function is cut at its awaits into steps that interleave; the device carries the
    fates of the reads and writes to come, so a statement over all devices is one over all failures.
  \<^item> \<open>Native_Lock\<close> (\<open>fedimint/pending-native-locks.ts\<close>), \<open>Native_Funding\<close> (\<open>lockAndPublish\<close> and its
    relatives of \<open>fedimint/escrow-bridge.ts\<close>): funding from Chama's own wallet, with the stash of bearer notes
    and the recovery that decides whether notes come back.
  \<^item> \<open>State_View\<close>: what the reducer does not read (an interface on changes of a state; it models no file).
  \<^item> \<open>Trade_Mail\<close> (\<open>envelope.ts\<close>, \<open>escrow-client.ts\<close>), \<open>Client_Actions\<close>, \<open>Event_Intake\<close>
    (\<open>escrow-client.ts\<close>): what a client puts in the slots of its readers, the payloads it signs at a tap or on
    its own, and how events and loads reach the trades it holds. Signer, relays and decryption are arguments.
  How they interact: a CREATE bootstraps the state, every other event goes through \<open>applyEvent\<close>,
  which runs the circle laws, drops known ids, guards closed and expired trades and dispatches.
  A handler returns \<open>Inl code\<close> for every \<open>err(code)\<close> of the source (\<open>#THROW\<close> for an exception)
  and \<open>Inr\<close> the next state. \<open>replayEventChain\<close> folds a whole chain and decides which refusals are
  noise. \<open>reachable\<close> is the step relation of the reducer; \<open>handler\<close> (\<open>Reducer\<close>) is the contract
  of one handler and \<open>reducer_invariant\<close> (\<open>Reducer_Invariants\<close>) the principle by which a
  property of the handlers becomes one of every reachable and every replayed state; both are
  interpreted on the model's own definitions. \<open>newest_wins\<close> (\<open>Newest_Wins\<close>) is the contract of a
  newest-wins selection, \<open>latch\<close> (\<open>Withheld_Store\<close>) that of a choice recorded once, and
  \<open>event_view\<close> (\<open>State_View\<close>) that of a change of the state no handler can see.

  What the lemma groups show: \<open>Reducer_Invariants\<close> the chain, seat, ballot, fee and subscription
  invariants; \<open>Replay_Refinement\<close> that a replay is a run of the reducer on a subsequence of the
  chain; \<open>Vote_Properties\<close>, \<open>Custody_Properties\<close>, \<open>Closing_Properties\<close>, \<open>Payout_Properties\<close>,
  \<open>Policy_Properties\<close>, \<open>Wire_Properties\<close>, \<open>Plan_Properties\<close> and \<open>Tranche_Properties\<close> what their names
  say; \<open>Double_Pay\<close> that no sequence of claim attempts and crashes pays twice, and how a failed
  clear breaks that; \<open>Fund_Safety\<close> that spent notes are never dropped, and how a second funding
  breaks that; \<open>Exposure_Properties\<close> that no arbiter covers more than its bonds, and where
  the code lets that slip; \<open>Withheld_Properties\<close> that a LOCK is released or taken back and never both;
  \<open>Money_Properties\<close> that an unacknowledged money event is neither lost nor sent before it is
  journaled; \<open>Native_Properties\<close> that stashed notes are never lost and a live LOCK never
  hollowed; \<open>Mail_Properties\<close> what the readers of an encrypted vote make of the trade, and where one is
  left out; \<open>Client_Properties\<close> that the client decides as the reducer does;
  \<open>Intake_Properties\<close> that a client only holds trades the reducer reaches, which loads it adopts, and how a
  load loses an event; \<open>Slice_Properties\<close> that slices are funded once and in order;
  \<open>Payment_Properties\<close> the watchdog, the quote, the journal and the credit the
  slice gate rests on; the present theory what spans several of them. \<open>Worked_Trade\<close> holds the
  concrete trades the witnesses run.

  Bounds and fuel: the state-machine handlers need none. The chain sort recurses on the shrinking
  list of remaining events; slice splitting recurses on the remaining amount and stops because
  the cap is positive; the bisection of a payout quote halves its interval. The balance watchdog
  (\<open>waitLoop\<close>) and the slice driver (\<open>sliceLoop\<close>) need not end by themselves: they are partial
  functions, proved to return when the clock advances with every poll and when settled slices stay
  settled. Amounts, times and counters are \<open>int\<close> with the source's own range checks
  (\<open>isSafe\<close>); the 32-bit hash of the arbiter pick and the BIP68 flags are words.

  Parameters: everything the Bitcoin, hashing and Nostr libraries compute is a field of the
  record \<open>env\<close> (digests, scripts, taproot trees, the PSBT codec, signatures, JSON decoding), and no
  property assumes more of them than it states.

  Not modelled: network and wallet calls (publishing, subscriptions and the creation of trades in
  \<open>escrow-client.ts\<close>, \<open>relay-manager.ts\<close>, the Fedimint adapters, LNURL and NWC), React hooks and screens, translations, notifications, storage adapters
  and native shells. They perform I/O around the core; what they decide about a trade or a payout
  they decide through the definitions above. Free text of the error messages is not modelled
  beyond the error code, except where the code compares it.
\<close>

section \<open>Decisions\<close>

text \<open>Two votes of one chain in different roles come from different keys.\<close>

lemma distinct_signers:
  assumes "chainOk s" "e1 \<in> set (st_eventChain s)" "e2 \<in> set (st_eventChain s)"
    and "ev_payload e1 = PVote p1" "ev_payload e2 = PVote p2" "p1 \<noteq> p2"
  shows "ev_pubkey e1 \<noteq> ev_pubkey e2"
proof -
  have "inj_on ev_pubkey (set (filter (\<lambda>e. ev_kind e = K_VOTE) (st_eventChain s)))"
    using assms(1) by (simp add: chainOk_def votersOf_def distinct_map)
  moreover have "e1 \<noteq> e2" using assms(4-6) by auto
  ultimately show ?thesis using assms(2-5) by (auto simp: ev_kind_def inj_on_def)
qed

lemma backedVoteE:
  assumes "backedVote s r oc"
  obtains e p where "e \<in> set (st_eventChain s)" "ev_payload e = PVote p" "vp_role p = r" "vp_outcome p = oc"
    "r \<noteq> ARBITER \<or> 0 < lockCount s \<longrightarrow> mayVoteAs s (ev_pubkey e) r"
  using assms unfolding backedVote_def by (elim bexE exE conjE) (rule that)

text \<open>C1. A reached trade that is APPROVED or CLAIMED, or carries a resolved outcome, was decided by
  two votes of its own event chain: two different keys voted that outcome in two different roles,
  which are the recorded majority, and each key is entitled to its role (the seat's holder, or for
  the arbiter's slot of a funded trade a backup of its priority order).\<close>

theorem decided_by_two_voters:
  assumes "reachable E s"
    and "st_status s \<in> {APPROVED, CLAIMED} \<or> st_resolvedOutcome s \<noteq> None"
  shows "\<exists>oc e1 e2 p1 p2. st_resolvedOutcome s = Some oc \<and> {e1, e2} \<subseteq> set (st_eventChain s)
    \<and> ev_payload e1 = PVote p1 \<and> vp_outcome p1 = oc \<and> ev_payload e2 = PVote p2 \<and> vp_outcome p2 = oc
    \<and> vp_role p1 \<noteq> vp_role p2 \<and> ev_pubkey e1 \<noteq> ev_pubkey e2
    \<and> map_option set (st_resolvedMajority s) = Some {vp_role p1, vp_role p2}
    \<and> (vp_role p1 \<noteq> ARBITER \<or> 0 < lockCount s \<longrightarrow> mayVoteAs s (ev_pubkey e1) (vp_role p1))
    \<and> (vp_role p2 \<noteq> ARBITER \<or> 0 < lockCount s \<longrightarrow> mayVoteAs s (ev_pubkey e2) (vp_role p2))"
proof -
  have b: "ballotOk s" "chainOk s" using ballots.always [OF assms(1)] chains.always [OF assms(1)] by auto
  with assms(2) obtain oc where oc: "st_resolvedOutcome s = Some oc" "resolvedBy s oc" by (auto simp: ballotOk_def)
  then obtain a c where ac: "a \<noteq> c" "map_option set (st_resolvedMajority s) = Some {a, c}"
    "voteOf s a = Some oc" "voteOf s c = Some oc" by (auto simp: resolvedBy_def)
  with b(1) have "backedVote s a oc" "backedVote s c oc" by (auto simp: ballotOk_def)
  then obtain e1 p1 e2 p2 where v: "e1 \<in> set (st_eventChain s)" "ev_payload e1 = PVote p1" "vp_role p1 = a"
      "vp_outcome p1 = oc" "a \<noteq> ARBITER \<or> 0 < lockCount s \<longrightarrow> mayVoteAs s (ev_pubkey e1) a"
      "e2 \<in> set (st_eventChain s)" "ev_payload e2 = PVote p2" "vp_role p2 = c" "vp_outcome p2 = oc"
      "c \<noteq> ARBITER \<or> 0 < lockCount s \<longrightarrow> mayVoteAs s (ev_pubkey e2) c"
    by (elim backedVoteE) (rule that)
  moreover have "ev_pubkey e1 \<noteq> ev_pubkey e2"
    using distinct_signers [OF b(2) v(1,6,2,7)] ac(1) v(3,8) by auto
  ultimately show ?thesis using oc(1) ac(1,2)
    by (intro exI [of _ oc] exI [of _ e1] exI [of _ e2] exI [of _ p1] exI [of _ p2]) simp
qed

theorem decided_by_two_voters_witness:
  "\<exists>oc e1 e2 p1 p2. st_resolvedOutcome (stateAfter (wDecided 1000)) = Some oc
    \<and> {e1, e2} \<subseteq> set (st_eventChain (stateAfter (wDecided 1000)))
    \<and> ev_payload e1 = PVote p1 \<and> vp_outcome p1 = oc \<and> ev_payload e2 = PVote p2 \<and> vp_outcome p2 = oc
    \<and> ev_pubkey e1 \<noteq> ev_pubkey e2"
  using decided_by_two_voters [OF ran_reachable [OF worked_ran(3)]] worked_status(3) by blast


lemma dispatch_claimed:
  "dispatch E s e = Inr s' \<Longrightarrow> st_status s' = CLAIMED \<Longrightarrow> st_status s \<noteq> CLAIMED
    \<Longrightarrow> \<exists>p. ev_payload e = PClaim p \<and> handleClaim s e p = Inr s'"
  by (cases "ev_payload e", auto simp: dispatch_def staying_def
      dest: joining.status locking.status stepping.status voting.status resolving.status claiming.status
        stalling.status completing.status cancelling.status subscribing.status releasing.status
        planning.status keying.status chatting.status)

lemma applied_claimed:
  assumes "applyTo E s e = Inr s'" "st_status s' = CLAIMED" "st_status s \<noteq> CLAIMED"
  shows "\<exists>p. ev_payload e = PClaim p \<and> handleClaim s e p = Inr s'"
  using assms(1)
proof (cases rule: applyTo_cases)
  case late
  with dispatch_claimed [OF late(1) assms(2)] show ?thesis by (auto simp: ev_kind_def)
qed (use assms dispatch_claimed in auto)

text \<open>C2. The only way into CLAIMED is a CLAIM signed by the winner: the trade was APPROVED, the
  signer is the seated party the resolved outcome pays, the role recorded is read from the
  signing key and not from the claimed role, and where the LOCK committed to the notes' hash the
  CLAIM repeats it.\<close>

theorem only_winner_claims:
  assumes "applyEvent E (Some s) e = Inr s'" "st_status s' = CLAIMED" "st_status s \<noteq> CLAIMED"
  shows "\<exists>p oc. ev_payload e = PClaim p \<and> st_status s = APPROVED \<and> st_resolvedOutcome s = Some oc
    \<and> getWinner s = Some (ev_pubkey e, winnerRoleFor s oc)
    \<and> st_participants s (winnerRoleFor s oc) = Some (ev_pubkey e)
    \<and> st_claimerRole s' = Some (winnerRoleFor s oc)
    \<and> (truthyS (lk_notesHash (st_lock s)) \<longrightarrow> lk_notesHash (st_lock s) = Some (clp_notesHashVerification p))"
proof -
  from applied_claimed [OF applyEvent_Some [OF assms(1)] assms(2,3)] obtain p where
    p: "ev_payload e = PClaim p" "handleClaim s e p = Inr s'" by blast
  from handleClaim_signer [OF p(2)] obtain r where "getWinner s = Some (ev_pubkey e, r)" by auto
  with getWinner_seated [OF this] p show ?thesis by (auto elim!: handleClaim_Inr)
qed

theorem only_winner_claims_witness:
  "st_claimerRole (stateAfter (wClaimed 1000)) = Some BUYER
    \<and> getWinner (stateAfter (wDecided 1000)) = Some (''B'', BUYER)"
proof -
  note step = ran_step(1) [OF worked_ran(4) [unfolded wClaimed_def]]
  have "wDecided 1000 \<noteq> []" "ev_pubkey (wClaim ''B'' 1070) = ''B''"
    by (simp_all add: wDecided_def wDispute_def wLocked_def wClaim_def mkEvent_def)
  moreover have "ends (wDecided 1000) (\<lambda>s. winnerRoleFor s RELEASE = BUYER \<and> st_resolvedOutcome s = Some RELEASE)"
    by code_simp
  from endsD(2) [OF this] have "winnerRoleFor (stateAfter (wDecided 1000)) RELEASE = BUYER"
    "st_resolvedOutcome (stateAfter (wDecided 1000)) = Some RELEASE" by simp_all
  ultimately show ?thesis using only_winner_claims [OF step] worked_status(3,4) by (auto simp: wClaimed_def)
qed

section \<open>The state machine\<close>

lemma dispatch_expired:
  "dispatch E s e = Inr s' \<Longrightarrow> st_status s = EXPIRED \<Longrightarrow> ev_kind e = K_VOTE \<or> ev_kind e = K_LOCK_STEP
    \<Longrightarrow> st_status s' = EXPIRED"
  by (cases "ev_payload e") (auto simp: ev_kind_def dispatch_simps dest: stepping.status voting.status)


lemma worked_nonempty [simp]: "wLocked t \<noteq> []" "wDispute t \<noteq> []" "wDecided t \<noteq> []" "wClaimed t \<noteq> []"
  by (simp_all add: wLocked_def wDispute_def wDecided_def wClaimed_def)


lemma inChain_applyTo:
  assumes "inChain s (ev_id e)" "st_chamaPolicy s = None" "ev_kind e \<notin> {K_PREMIUM, K_SETTLEMENT}"
  shows "applyTo E s e = Inr s"
  using assms by (auto simp: applyTo_def circleLaw_def applyChained_def ev_kind_def split: payload.splits)

text \<open>Applying an event a second time changes nothing: an event the chain already holds is a
  no-op in every status, and a funds or lifecycle event just accepted into the chain is one.\<close>

theorem second_delivery_is_noop:
  assumes "applyEvent E (Some s) e = Inr s'" "st_chamaPolicy s = None" "inChain s' (ev_id e)"
    and "ev_kind e \<notin> {K_CREATE, K_PREMIUM, K_SETTLEMENT}"
  shows "applyEvent E (Some s') e = Inr s' \<and> (inChain s (ev_id e) \<longrightarrow> s' = s)"
proof (intro conjI impI)
  have p: "st_chamaPolicy s' = None" using applyEvent_Some [OF assms(1)] assms(2)
    by (cases rule: applyTo_cases) (auto dest: switching.identity)
  then show "applyEvent E (Some s') e = Inr s'"
    using inChain_applyTo [OF assms(3) p] assms(4) by (simp add: applyEvent_Some_iff)
  assume "inChain s (ev_id e)"
  then show "s' = s"
    using inChain_applyTo [OF _ assms(2)] assms(1,4) by (simp add: applyEvent_Some_iff)
qed

theorem second_delivery_is_noop_witness:
  "applyEvent plainEnv (Some (stateAfter (wClaimed 1000))) (wClaim ''B'' 1070) = Inr (stateAfter (wClaimed 1000))"
proof -
  have a: "applyEvent plainEnv (Some (stateAfter (wDecided 1000))) (wClaim ''B'' 1070) = Inr (stateAfter (wClaimed 1000))"
    using ran_step(1) [OF worked_ran(4) [unfolded wClaimed_def]] by (simp add: wClaimed_def)
  have p: "ends (wDecided 1000) (\<lambda>s. Option.is_none (st_chamaPolicy s))"
    and c: "ends (wClaimed 1000) (\<lambda>s. inChain s (ev_id (wClaim ''B'' 1070)))" by code_simp+
  have "st_chamaPolicy (stateAfter (wDecided 1000)) = None" "inChain (stateAfter (wClaimed 1000)) (ev_id (wClaim ''B'' 1070))"
    using endsD(2) [OF p] endsD(2) [OF c] by (simp_all add: Option.is_none_def)
  from second_delivery_is_noop [OF a this] show ?thesis by (simp add: ev_kind_def wClaim_def mkEvent_def)
qed

text \<open>COMPLETED and CANCELLED are final: whatever event a reached closed trade accepts
  afterwards, only its premium notes or its settlement transport can differ.\<close>

theorem closed_trades_stay_closed:
  assumes "st_status s \<in> {COMPLETED, CANCELLED}" "applyEvent E (Some s) e = Inr s'"
  shows "s' = s \<or> (\<exists>x ns. ev_payload e = PPremium x \<and> s' = s\<lparr>st_premiumNotes := ns\<rparr>)
    \<or> (\<exists>p ms. ev_payload e = PSettlement p \<and> s' = s\<lparr>st_settlements := ms\<rparr>)"
proof (cases "ev_payload e")
  case (PPremium x)
  with assms(2) show ?thesis by (auto simp: applyEvent_def applyTo_def dest!: handlePremium_Inr split: if_splits)
next
  case (PSettlement p)
  with assms(2) show ?thesis by (auto simp: applyEvent_def applyTo_def dest!: handleSettlement_Inr split: if_splits)
qed (use assms in \<open>auto simp: applyEvent_def applyTo_def applyChained_def TRULY_TERMINAL_STATES_def split: if_splits\<close>)

definition wDone :: "event list" where
  "wDone = wClaimed 1000 @ [wComplete ''A'' 1080]"

definition wNoted :: "event list" where
  "wNoted = wDone @ [mkEvent ''e9'' ''B'' 1090 None (PPremium ''rate'')]"

theorem closed_trades_stay_closed_witness:
  "st_eventChain (stateAfter wNoted) = st_eventChain (stateAfter wDone) \<and> st_status (stateAfter wDone) = COMPLETED"
proof -
  have "ran wNoted" by code_simp
  then have step: "applyEvent plainEnv (Some (stateAfter wDone)) (mkEvent ''e9'' ''B'' 1090 None (PPremium ''rate''))
      = Inr (stateAfter wNoted)"
    unfolding wNoted_def by (rule ran_step(1)) (simp add: wDone_def)
  have c: "st_status (stateAfter wDone) = COMPLETED" by code_simp
  then have "st_status (stateAfter wDone) \<in> {COMPLETED, CANCELLED}" by simp
  from closed_trades_stay_closed [OF this step] c show ?thesis by auto
qed

section \<open>The books of a reached trade\<close>

text \<open>In every reached trade the event ids of the chain are pairwise different and no key has
  two VOTEs in it.\<close>

theorem chain_ids_and_votes_unique:
  assumes "reachable E s"
  shows "distinct (map ev_id (st_eventChain s))
    \<and> distinct (map ev_pubkey (filter (\<lambda>e. ev_kind e = K_VOTE) (st_eventChain s)))"
  using chains.always [OF assms] by (simp add: chainOk_def votersOf_def)

theorem chain_ids_and_votes_unique_witness:
  "distinct (map ev_id (st_eventChain (stateAfter (wClaimed 1000))))
    \<and> length (st_eventChain (stateAfter (wClaimed 1000))) = 8"
proof -
  have "length (st_eventChain (stateAfter (wClaimed 1000))) = 8" by code_simp
  with chain_ids_and_votes_unique [OF ran_reachable [OF worked_ran(4)]] show ?thesis by simp
qed

text \<open>C7. A reached trade has at most one LOCK; a LOCKED trade has exactly one, a CREATED or
  CANCELLED one has none; and once there is a LOCK buyer and arbiter are seated, differ from each
  other and from the seller.\<close>

theorem one_lock_fixes_the_seats:
  assumes "reachable E s"
  shows "length (filter (\<lambda>e. ev_kind e = K_LOCK) (st_eventChain s)) \<le> 1
    \<and> (st_status s = LOCKED \<longrightarrow> hasLock s) \<and> (st_status s \<in> {CREATED, CANCELLED} \<longrightarrow> \<not> hasLock s)
    \<and> (hasLock s \<longrightarrow> (\<exists>b a. st_participants s BUYER = Some b \<and> st_participants s ARBITER = Some a
         \<and> b \<noteq> [] \<and> a \<noteq> [] \<and> a \<noteq> b
         \<and> (\<forall>k. st_participants s SELLER = Some k \<and> k \<noteq> [] \<longrightarrow> k \<noteq> b \<and> k \<noteq> a)))"
  using locks.always [OF assms] unfolding lockedOk_def seatsFixed_def hasLock_count
  by (auto simp: lockCount_def)

theorem one_lock_fixes_the_seats_witness:
  "hasLock (stateAfter (wLocked 1000))
    \<and> length (filter (\<lambda>e. ev_kind e = K_LOCK) (st_eventChain (stateAfter (wLocked 1000)))) \<le> 1"
  using one_lock_fixes_the_seats [OF ran_reachable [OF worked_ran(1)]] worked_status(1) by simp

text \<open>The amount of a reached trade is positive and the arbiter's fee is between zero and it.\<close>

theorem fee_within_amount:
  assumes "reachable E s"
  shows "0 < st_amountMsats s \<and> 0 \<le> fe_arbiterMsats (st_fees s) \<and> fe_arbiterMsats (st_fees s) \<le> st_amountMsats s"
  using arbiterFees.always [OF assms] by (simp add: feeOk_def)

theorem fee_within_amount_witness:
  "0 < st_amountMsats (stateAfter (wDispute 1000)) \<and> fe_arbiterMsats (st_fees (stateAfter (wDispute 1000))) = 100"
proof -
  have "fe_arbiterMsats (st_fees (stateAfter (wDispute 1000))) = 100" by code_simp
  with fee_within_amount [OF ran_reachable [OF worked_ran(2)]] show ?thesis by simp
qed

end
